(* ===== verification/Prelude.thy ===== *)
theory Prelude
  imports Complex_Main "HOL-Library.AList"
begin

text \<open>
  The shared base of the development: the exceptions of the modelled Python code as a datatype, the
  result type of everything that can raise, decimal printing of integers, and the generic facts
  on association lists (Python's insertion-ordered dictionaries) and folds the components share.

  \<^item> \<open>pyexc\<close> names the exception classes the modelled code raises or lets escape;
  \<^item> \<open>'a res\<close> is the result of a call: \<open>Inl\<close> the exception, \<open>Inr\<close> the value; \<open>bindR\<close>
    sequences two calls, \<open>mapR\<close> and \<open>foldR\<close> are the loops that stop at the first exception;
  \<^item> a Python \<open>dict\<close> with string keys is an association list in insertion order; assignment
    is \<open>AList.update\<close> (in place for a present key, at the end for a new one), lookup is
    \<open>map_of\<close>;
  \<^item> \<open>str(uuid.uuid4())\<close> is represented by the decimal numeral of the index of the call
    (\<open>fresh_uuid\<close>): the code relies on nothing but the distinctness of these strings.
\<close>

named_theorems res_simps \<open>unfolding rules of the result monad\<close>
named_theorems frame_simps \<open>fields that an operation leaves unchanged\<close>

section \<open>Exceptions and results\<close>

datatype pyexc =
    ValueError
  | TypeError
  | IndexError
  | KeyError string
  | OverflowError
  | ZeroDivisionError
  | AttributeError
  | StopIteration
  | RuntimeError string
  | RevisionError string
  | AlgorithmContractError string
  | NetlabError string

type_synonym 'a res = "pyexc + 'a"

definition bindR :: "'a res \<Rightarrow> ('a \<Rightarrow> 'b res) \<Rightarrow> 'b res" where
  "bindR m f = (case m of Inl e \<Rightarrow> Inl e | Inr x \<Rightarrow> f x)"

lemma bindR_simps [simp, res_simps]:
  "bindR (Inl e) f = Inl e"
  "bindR (Inr x) f = f x"
  by (simp_all add: bindR_def)

lemma bindR_Inr_iff [res_simps]:
  "bindR m f = Inr y \<longleftrightarrow> (\<exists>x. m = Inr x \<and> f x = Inr y)"
  by (cases m) simp_all

lemma bindR_Inl_iff [res_simps]:
  "bindR m f = Inl e \<longleftrightarrow> m = Inl e \<or> (\<exists>x. m = Inr x \<and> f x = Inl e)"
  by (cases m) auto

lemma bindR_cong [fundef_cong]:
  "m = m' \<Longrightarrow> (\<And>x. m' = Inr x \<Longrightarrow> f x = g x) \<Longrightarrow> bindR m f = bindR m' g"
  by (cases m') simp_all

primrec mapR :: "('a \<Rightarrow> 'b res) \<Rightarrow> 'a list \<Rightarrow> 'b list res" where
  "mapR f [] = Inr []"
| "mapR f (x # xs) = bindR (f x) (\<lambda>y. bindR (mapR f xs) (\<lambda>ys. Inr (y # ys)))"

primrec foldR :: "('a \<Rightarrow> 's \<Rightarrow> 's res) \<Rightarrow> 'a list \<Rightarrow> 's \<Rightarrow> 's res" where
  "foldR f [] s = Inr s"
| "foldR f (x # xs) s = bindR (f x s) (foldR f xs)"

lemma mapR_total:
  assumes "\<And>x. x \<in> set xs \<Longrightarrow> f x = Inr (g x)"
  shows "mapR f xs = Inr (map g xs)"
  using assms by (induction xs) auto

lemma mapR_length: "mapR f xs = Inr ys \<Longrightarrow> length ys = length xs"
  by (induction xs arbitrary: ys) (auto simp: bindR_Inr_iff)

lemma mapR_set: "mapR f xs = Inr ys \<Longrightarrow> y \<in> set ys \<Longrightarrow> \<exists>x\<in>set xs. f x = Inr y"
  by (induction xs arbitrary: ys) (auto simp: bindR_Inr_iff)

lemma mapR_nth: "mapR f xs = Inr ys \<Longrightarrow> i < length xs \<Longrightarrow> f (xs ! i) = Inr (ys ! i)"
proof (induction xs arbitrary: ys i)
  case (Cons x xs)
  then show ?case by (cases i) (auto simp: bindR_Inr_iff)
qed simp

lemma foldR_append:
  "foldR f (xs @ ys) s = bindR (foldR f xs s) (foldR f ys)"
  by (induction xs arbitrary: s) (auto simp: bindR_def split: sum.splits)

text \<open>The invariant rule of a loop that may raise.\<close>

lemma foldR_invariant:
  assumes "foldR f xs s = Inr t" and "P s"
    and "\<And>x s s'. x \<in> set xs \<Longrightarrow> P s \<Longrightarrow> f x s = Inr s' \<Longrightarrow> P s'"
  shows "P t"
  using assms by (induction xs arbitrary: s) (auto simp: bindR_Inr_iff)

section \<open>Decimal printing\<close>

definition digit_char :: "nat \<Rightarrow> char" where
  "digit_char d = ''0123456789'' ! d"

function show_digits :: "int \<Rightarrow> string" where
  "show_digits n =
     (if n < 10 then [digit_char (nat n)]
      else show_digits (n div 10) @ [digit_char (nat (n mod 10))])"
  by pat_completeness auto
termination
  by (relation "measure nat") auto

declare show_digits.simps [simp del]

definition show_int :: "int \<Rightarrow> string" where
  "show_int i = (if i < 0 then CHR ''-'' # show_digits (- i) else show_digits i)"

definition show_nat :: "nat \<Rightarrow> string" where
  "show_nat n = show_digits (int n)"

definition char_digit :: "char \<Rightarrow> int" where
  "char_digit c = of_char c - 48"

definition read_digits :: "string \<Rightarrow> int" where
  "read_digits s = foldl (\<lambda>n c. 10 * n + char_digit c) 0 s"

lemma less_10_cases:
  fixes d :: nat
  assumes "d < 10"
  shows "d = 0 \<or> d = 1 \<or> d = 2 \<or> d = 3 \<or> d = 4 \<or> d = 5 \<or> d = 6 \<or> d = 7 \<or> d = 8 \<or> d = 9"
  using assms by presburger

lemma char_digit_digit_char: "d < 10 \<Longrightarrow> char_digit (digit_char d) = int d"
  by (drule less_10_cases) (auto simp: digit_char_def char_digit_def)

lemma digit_char_range: "d < 10 \<Longrightarrow> digit_char d \<in> set ''0123456789''"
  unfolding digit_char_def by (rule nth_mem) simp

lemma read_digits_snoc: "read_digits (s @ [c]) = 10 * read_digits s + char_digit c"
  by (simp add: read_digits_def)

lemma read_show_digits: "n \<ge> 0 \<Longrightarrow> read_digits (show_digits n) = n"
proof (induction n rule: show_digits.induct)
  case (1 n)
  show ?case
  proof (cases "n < 10")
    case True
    with 1 show ?thesis
      by (simp add: show_digits.simps [of n] read_digits_def char_digit_digit_char)
  next
    case False
    with 1 show ?thesis
      by (simp add: show_digits.simps [of n] read_digits_snoc char_digit_digit_char)
  qed
qed

lemma show_digits_inject: "m \<ge> 0 \<Longrightarrow> n \<ge> 0 \<Longrightarrow> show_digits m = show_digits n \<longleftrightarrow> m = n"
  by (metis read_show_digits)

lemma show_nat_inject [simp]: "show_nat m = show_nat n \<longleftrightarrow> m = n"
  by (simp add: show_nat_def show_digits_inject)

lemma show_digits_chars: "n \<ge> 0 \<Longrightarrow> set (show_digits n) \<subseteq> set ''0123456789''"
proof (induction n rule: show_digits.induct)
  case (1 n)
  then show ?case
    using digit_char_range [of "nat n"] digit_char_range [of "nat (n mod 10)"]
    by (simp add: show_digits.simps [of n] nat_less_iff)
qed

lemma show_nat_chars: "set (show_nat n) \<subseteq> set ''0123456789''"
  unfolding show_nat_def by (rule show_digits_chars) simp

lemma show_nat_nonempty [simp]: "show_nat n \<noteq> []"
  unfolding show_nat_def by (subst show_digits.simps) simp

lemma show_int_inject [simp]: "show_int i = show_int j \<longleftrightarrow> i = j"
proof -
  have no_minus: "show_digits n \<noteq> CHR ''-'' # s" if "n \<ge> 0" for n s
    using show_digits_chars [OF that] by (auto simp: subset_iff)
  show ?thesis
    using no_minus [of i] no_minus [of j] no_minus [of i, THEN not_sym]
      no_minus [of j, THEN not_sym] show_digits_inject [of i j] show_digits_inject [of "- i" "- j"]
    by (cases "i < 0"; cases "j < 0") (simp_all add: show_int_def)
qed

definition fresh_uuid :: "nat \<Rightarrow> string" where
  "fresh_uuid n = show_nat n"

lemma fresh_uuid_inject [simp]: "fresh_uuid m = fresh_uuid n \<longleftrightarrow> m = n"
  by (simp add: fresh_uuid_def)

lemma fresh_uuid_nonempty [simp]: "fresh_uuid n \<noteq> []"
  by (simp add: fresh_uuid_def)

section \<open>Dictionaries as association lists\<close>

definition dict_keys :: "('k \<times> 'v) list \<Rightarrow> 'k list" where
  "dict_keys d = map fst d"

definition map_values :: "('v \<Rightarrow> 'w) \<Rightarrow> ('k \<times> 'v) list \<Rightarrow> ('k \<times> 'w) list" where
  "map_values f d = map (\<lambda>(k, v). (k, f v)) d"

lemma dict_keys_simps [simp]:
  "dict_keys [] = []"
  "dict_keys (p # d) = fst p # dict_keys d"
  by (simp_all add: dict_keys_def)

lemma set_dict_keys: "set (dict_keys d) = dom (map_of d)"
  by (simp add: dict_keys_def dom_map_of_conv_image_fst)

lemma dict_keys_update_present:
  "k \<in> set (dict_keys d) \<Longrightarrow> dict_keys (AList.update k v d) = dict_keys d"
  by (induction d) auto

lemma distinct_dict_keys_update:
  "distinct (dict_keys d) \<Longrightarrow> distinct (dict_keys (AList.update k v d))"
  unfolding dict_keys_def by (rule distinct_update)

lemma map_values_keys [simp]: "dict_keys (map_values f d) = dict_keys d"
  by (induction d) (auto simp: map_values_def)

lemma map_of_map_values: "map_of (map_values f d) k = map_option f (map_of d k)"
  by (induction d) (auto simp: map_values_def)

section \<open>Lists\<close>

lemma length_filter_mono:
  "(\<And>x. x \<in> set xs \<Longrightarrow> P x \<Longrightarrow> Q x) \<Longrightarrow> length (filter P xs) \<le> length (filter Q xs)"
  by (induction xs) auto

lemma sum_list_map_replace:
  fixes f :: "'a \<Rightarrow> nat"
  shows "i < length xs \<Longrightarrow> sum_list (map f (xs[i := y])) + f (xs ! i) = sum_list (map f xs) + f y"
  by (induction xs arbitrary: i) (auto split: nat.splits)

end
