(* ===== verification/Py_Float.thy ===== *)
theory Py_Float
  imports Prelude
begin

text \<open>
  Python's \<open>float\<close>: IEEE-754 binary64 values and the operations the program uses on them.

  \<^item> a value is a finite rational, one of the two infinities, or not-a-number; the two zeros are
    one value here (no comparison of the program distinguishes them);
  \<^item> \<open>rnd64\<close> rounds an exact rational to binary64 (ties to even, subnormals, overflow to the
    infinities); every arithmetic operation is the exact one followed by \<open>rnd64\<close>;
  \<^item> comparisons are the IEEE ones: any comparison with not-a-number is false, also \<open>x == x\<close>;
  \<^item> \<open>py_max\<close> and \<open>py_min\<close> are Python's builtins on two arguments, which keep the first
    argument unless the second compares strictly better (so they are not symmetric on
    not-a-number).
\<close>

datatype pyfloat = Fin rat | PInf | NInf | NaN

type_synonym time = pyfloat

text \<open>
  What a call reads from outside: the wall clock (one reading per modelled operation) and the
  number of identifiers drawn from \<open>uuid4\<close> so far.
\<close>

record env =
  env_now :: time
  env_uuid :: nat

section \<open>Rounding to binary64\<close>

function bitlen :: "int \<Rightarrow> nat" where
  "bitlen n = (if n \<le> 0 then 0 else Suc (bitlen (n div 2)))"
  by pat_completeness auto
termination
  by (relation "measure nat") auto

declare bitlen.simps [simp del]

definition pow2 :: "int \<Rightarrow> rat" where
  "pow2 e = 2 powi e"

text \<open>The integer \<open>k\<close> with \<open>2 ^ k \<le> x < 2 ^ (k + 1)\<close>, for positive \<open>x\<close>.\<close>

definition ilog2 :: "rat \<Rightarrow> int" where
  "ilog2 x =
     (let (n, d) = quotient_of x;
          k = int (bitlen n) - int (bitlen d)
      in if pow2 k \<le> x then k else k - 1)"

definition round_half_even :: "rat \<Rightarrow> int" where
  "round_half_even q =
     (let f = \<lfloor>q\<rfloor>; r = q - of_int f
      in if r < 1 / 2 then f
         else if r > 1 / 2 then f + 1
         else if even f then f else f + 1)"

definition rnd64_mag :: "rat \<Rightarrow> rat" where
  "rnd64_mag x =
     (let e = max (- 1074) (ilog2 x - 52)
      in of_int (round_half_even (x / pow2 e)) * pow2 e)"

definition rnd64 :: "rat \<Rightarrow> pyfloat" where
  "rnd64 x =
     (if x = 0 then Fin 0
      else let m = rnd64_mag \<bar>x\<bar>
           in if m \<ge> pow2 1024 then (if x > 0 then PInf else NInf)
              else Fin (if x > 0 then m else - m))"

section \<open>Comparisons\<close>

fun flt :: "pyfloat \<Rightarrow> pyfloat \<Rightarrow> bool" where
  "flt (Fin a) (Fin b) \<longleftrightarrow> a < b"
| "flt (Fin a) PInf = True"
| "flt NInf (Fin b) = True"
| "flt NInf PInf = True"
| "flt _ _ = False"

fun feq :: "pyfloat \<Rightarrow> pyfloat \<Rightarrow> bool" where
  "feq NaN _ = False"
| "feq a b = (a = b)"

definition fle :: "pyfloat \<Rightarrow> pyfloat \<Rightarrow> bool" where
  "fle a b = (flt a b \<or> feq a b)"

abbreviation fgt :: "pyfloat \<Rightarrow> pyfloat \<Rightarrow> bool" where
  "fgt a b \<equiv> flt b a"

abbreviation fge :: "pyfloat \<Rightarrow> pyfloat \<Rightarrow> bool" where
  "fge a b \<equiv> fle b a"

fun is_finite :: "pyfloat \<Rightarrow> bool" where
  "is_finite (Fin _) = True"
| "is_finite _ = False"

definition py_max :: "pyfloat \<Rightarrow> pyfloat \<Rightarrow> pyfloat" where
  "py_max a b = (if flt a b then b else a)"

definition py_min :: "pyfloat \<Rightarrow> pyfloat \<Rightarrow> pyfloat" where
  "py_min a b = (if flt b a then b else a)"

lemma fle_Fin [simp]: "fle (Fin a) (Fin b) \<longleftrightarrow> a \<le> b"
  by (auto simp: fle_def)

lemma fle_NaN [simp]: "\<not> fle NaN x" "\<not> fle x NaN"
  by (cases x; simp add: fle_def)+

lemma flt_NaN [simp]: "\<not> flt NaN x" "\<not> flt x NaN"
  by (cases x; simp)+

lemma feq_NaN [simp]: "\<not> feq NaN x" "\<not> feq x NaN"
  by (cases x; simp)+

lemma fle_infinities [simp]:
  "fle (Fin a) PInf" "fle NInf (Fin a)" "fle NInf PInf" "fle PInf PInf" "fle NInf NInf"
  "\<not> fle PInf (Fin a)" "\<not> fle PInf NInf" "\<not> fle (Fin a) NInf"
  by (simp_all add: fle_def)

lemma fle_refl_iff: "fle x x \<longleftrightarrow> x \<noteq> NaN"
  by (cases x) auto

lemma fle_trans: "fle x y \<Longrightarrow> fle y z \<Longrightarrow> fle x z"
  by (cases x; cases y; cases z) auto

lemma flt_fle_trans: "flt x y \<Longrightarrow> fle y z \<Longrightarrow> flt x z"
  by (cases x; cases y; cases z) auto

lemma fle_flt_trans: "fle x y \<Longrightarrow> flt y z \<Longrightarrow> flt x z"
  by (cases x; cases y; cases z) auto

lemma flt_imp_fle: "flt x y \<Longrightarrow> fle x y"
  by (simp add: fle_def)

lemma not_flt_iff: "x \<noteq> NaN \<Longrightarrow> y \<noteq> NaN \<Longrightarrow> \<not> flt x y \<longleftrightarrow> fle y x"
  by (cases x; cases y) auto

lemma not_fle_iff: "x \<noteq> NaN \<Longrightarrow> y \<noteq> NaN \<Longrightarrow> \<not> fle x y \<longleftrightarrow> flt y x"
  by (cases x; cases y) auto

lemma flt_irrefl [simp]: "\<not> flt x x"
  by (cases x) auto

section \<open>Arithmetic\<close>

fun fneg :: "pyfloat \<Rightarrow> pyfloat" where
  "fneg (Fin a) = Fin (- a)"
| "fneg PInf = NInf"
| "fneg NInf = PInf"
| "fneg NaN = NaN"

fun fadd :: "pyfloat \<Rightarrow> pyfloat \<Rightarrow> pyfloat" where
  "fadd (Fin a) (Fin b) = rnd64 (a + b)"
| "fadd NaN _ = NaN"
| "fadd _ NaN = NaN"
| "fadd PInf NInf = NaN"
| "fadd NInf PInf = NaN"
| "fadd PInf _ = PInf"
| "fadd NInf _ = NInf"
| "fadd _ x = x"

definition fsub :: "pyfloat \<Rightarrow> pyfloat \<Rightarrow> pyfloat" where
  "fsub a b = fadd a (fneg b)"

definition finf_sgn :: "bool \<Rightarrow> pyfloat" where
  "finf_sgn pos = (if pos then PInf else NInf)"

fun fpos :: "pyfloat \<Rightarrow> bool" where
  "fpos (Fin a) = (a > 0)"
| "fpos PInf = True"
| "fpos _ = False"

fun fmul :: "pyfloat \<Rightarrow> pyfloat \<Rightarrow> pyfloat" where
  "fmul (Fin a) (Fin b) = rnd64 (a * b)"
| "fmul NaN _ = NaN"
| "fmul _ NaN = NaN"
| "fmul (Fin a) x = (if a = 0 then NaN else finf_sgn ((a > 0) = fpos x))"
| "fmul x (Fin b) = (if b = 0 then NaN else finf_sgn (fpos x = (b > 0)))"
| "fmul x y = finf_sgn (fpos x = fpos y)"

text \<open>Python's \<open>/\<close> raises on a zero divisor, whatever the dividend.\<close>

fun fdiv :: "pyfloat \<Rightarrow> pyfloat \<Rightarrow> pyfloat res" where
  "fdiv a (Fin b) =
     (if b = 0 then Inl ZeroDivisionError
      else case a of
             Fin x \<Rightarrow> Inr (rnd64 (x / b))
           | NaN \<Rightarrow> Inr NaN
           | _ \<Rightarrow> Inr (finf_sgn (fpos a = (b > 0))))"
| "fdiv a NaN = Inr NaN"
| "fdiv a b = (case a of Fin x \<Rightarrow> Inr (Fin 0) | _ \<Rightarrow> Inr NaN)"

fun fabs :: "pyfloat \<Rightarrow> pyfloat" where
  "fabs (Fin a) = Fin \<bar>a\<bar>"
| "fabs NaN = NaN"
| "fabs _ = PInf"

section \<open>Facts about rounding\<close>

lemma pow2_add: "pow2 (a + b) = pow2 a * pow2 b"
  by (simp add: pow2_def power_int_add)

lemma pow2_pos [simp]: "pow2 a > 0"
  by (simp add: pow2_def)

lemma pow2_nonneg [simp]: "pow2 a \<ge> 0" "pow2 a \<noteq> 0"
  using pow2_pos [of a] by (simp_all add: less_imp_le del: pow2_pos)

lemma pow2_mono: "a \<le> b \<Longrightarrow> pow2 a \<le> pow2 b"
  by (simp add: pow2_def power_int_increasing)

lemma pow2_less: "pow2 a < pow2 b \<Longrightarrow> a < b"
  using pow2_mono [of b a] by linarith

lemma pow2_nat: "pow2 (int n) = 2 ^ n"
  by (simp add: pow2_def)

lemma pow2_int: "k \<ge> 0 \<Longrightarrow> pow2 k = of_int (2 ^ nat k)"
  by (simp add: pow2_def power_int_def)

lemma bitlen_upper: "n < 2 ^ bitlen n"
proof (induction n rule: bitlen.induct)
  case (1 n)
  show ?case
  proof (cases "n \<le> 0")
    case True
    then show ?thesis by (simp add: bitlen.simps [of n])
  next
    case False
    with 1 have "n div 2 < 2 ^ bitlen (n div 2)" by simp
    moreover have "bitlen n = Suc (bitlen (n div 2))"
      using False by (simp add: bitlen.simps [of n])
    ultimately show ?thesis by simp
  qed
qed

lemma bitlen_lower: "n > 0 \<Longrightarrow> 2 ^ bitlen n \<le> 2 * n"
proof (induction n rule: bitlen.induct)
  case (1 n)
  have rec: "bitlen n = Suc (bitlen (n div 2))"
    using 1 by (simp add: bitlen.simps [of n])
  show ?case
  proof (cases "n div 2 = 0")
    case True
    then have "bitlen (n div 2) = 0" by (simp add: bitlen.simps)
    with rec 1 show ?thesis by simp
  next
    case False
    with 1 have "2 ^ bitlen (n div 2) \<le> 2 * (n div 2)" by simp
    moreover have "2 * (n div 2) \<le> n" by simp
    ultimately show ?thesis using rec by simp
  qed
qed

lemma ilog2_bounds:
  assumes "x > 0"
  shows "pow2 (ilog2 x) \<le> x" and "x < pow2 (ilog2 x + 1)"
proof -
  obtain n d where q: "quotient_of x = (n, d)" by (cases "quotient_of x")
  then have d: "d > 0" by (rule quotient_of_denom_pos)
  have x: "x = of_int n / of_int d" using q by (rule quotient_of_div)
  with assms d have n: "n > 0" by (simp add: zero_less_divide_iff)
  define ln ld where "ln = bitlen n" and "ld = bitlen d"
  define k where "k = int ln - int ld"
  have up: "(of_int n :: rat) < 2 ^ ln" "(of_int d :: rat) < 2 ^ ld"
  proof -
    have "n < 2 ^ ln" "d < 2 ^ ld"
      unfolding ln_def ld_def by (rule bitlen_upper)+
    then show "(of_int n :: rat) < 2 ^ ln" "(of_int d :: rat) < 2 ^ ld"
      by (metis of_int_less_iff of_int_numeral of_int_power)+
  qed
  have lo: "(2 :: rat) ^ ln \<le> 2 * of_int n" "(2 :: rat) ^ ld \<le> 2 * of_int d"
  proof -
    have "2 ^ ln \<le> 2 * n" "2 ^ ld \<le> 2 * d"
      using n d unfolding ln_def ld_def by (simp_all only: bitlen_lower)
    then show "(2 :: rat) ^ ln \<le> 2 * of_int n" "(2 :: rat) ^ ld \<le> 2 * of_int d"
      by (metis of_int_le_iff of_int_mult of_int_numeral of_int_power)+
  qed
  have pk: "pow2 k = 2 ^ ln / 2 ^ ld"
    by (simp add: k_def pow2_def power_int_diff)
  have dpos: "(of_int d :: rat) > 0" "(2 :: rat) ^ ld > 0" using d by simp_all
  have above: "x < pow2 (k + 1)"
  proof -
    have "of_int n * 2 ^ ld < (2 ^ ln * (2 * of_int d) :: rat)"
      by (rule mult_less_le_imp_less) (use up lo n in \<open>simp_all\<close>)
    then have "x < 2 * (2 ^ ln / 2 ^ ld)"
      using dpos by (simp add: x field_simps)
    also have "\<dots> = pow2 (k + 1)"
      by (simp only: pow2_add pk) (simp add: pow2_def)
    finally show ?thesis .
  qed
  have below: "pow2 (k - 1) \<le> x"
  proof -
    have "2 ^ ln * of_int d \<le> (2 * of_int n * 2 ^ ld :: rat)"
      by (rule mult_mono) (use up lo n d in \<open>simp_all\<close>)
    then have "pow2 k \<le> 2 * x"
      using dpos by (simp add: x pk field_simps)
    then show ?thesis
      by (simp add: pow2_def power_int_diff)
  qed
  have "ilog2 x = (if pow2 k \<le> x then k else k - 1)"
    by (simp add: ilog2_def q k_def ln_def ld_def)
  with above below show "pow2 (ilog2 x) \<le> x" and "x < pow2 (ilog2 x + 1)"
    by (simp_all split: if_splits)
qed

lemma ilog2_mono: "0 < x \<Longrightarrow> x \<le> y \<Longrightarrow> ilog2 x \<le> ilog2 y"
proof -
  assume "0 < x" "x \<le> y"
  then have "pow2 (ilog2 x) < pow2 (ilog2 y + 1)"
    using ilog2_bounds [of x] ilog2_bounds [of y] by linarith
  then show ?thesis by (drule_tac pow2_less) simp
qed

lemma round_half_even_of_int [simp]: "round_half_even (of_int i) = i"
  by (simp add: round_half_even_def Let_def)

lemma round_half_even_mono: "x \<le> y \<Longrightarrow> round_half_even x \<le> round_half_even y"
proof -
  assume le: "x \<le> y"
  then have f: "\<lfloor>x\<rfloor> \<le> \<lfloor>y\<rfloor>" by (rule floor_mono)
  show ?thesis
  proof (cases "\<lfloor>x\<rfloor> = \<lfloor>y\<rfloor>")
    case True
    with le show ?thesis by (auto simp: round_half_even_def Let_def)
  next
    case False
    with f have "\<lfloor>x\<rfloor> + 1 \<le> \<lfloor>y\<rfloor>" by simp
    then show ?thesis by (auto simp: round_half_even_def Let_def)
  qed
qed

definition expo64 :: "rat \<Rightarrow> int" where
  "expo64 x = max (- 1074) (ilog2 x - 52)"

lemma rnd64_mag_expo: "rnd64_mag x = of_int (round_half_even (x / pow2 (expo64 x))) * pow2 (expo64 x)"
  by (simp add: rnd64_mag_def expo64_def Let_def)

lemma scaled_less: "x > 0 \<Longrightarrow> x / pow2 (expo64 x) < of_int (2 ^ 53)"
proof -
  assume "x > 0"
  then have "x < pow2 (ilog2 x + 1)" by (rule ilog2_bounds)
  also have "\<dots> \<le> pow2 (53 + expo64 x)"
    by (rule pow2_mono) (simp add: expo64_def)
  also have "\<dots> = of_int (2 ^ 53) * pow2 (expo64 x)"
    by (simp only: pow2_add) (simp add: pow2_def)
  finally show ?thesis by (simp add: pos_divide_less_eq)
qed

lemma rnd64_mag_upper: "x > 0 \<Longrightarrow> rnd64_mag x \<le> pow2 (53 + expo64 x)"
proof -
  assume "x > 0"
  from scaled_less [OF this]
  have "round_half_even (x / pow2 (expo64 x)) \<le> round_half_even (of_int (2 ^ 53))"
    by (intro round_half_even_mono) simp
  then have "round_half_even (x / pow2 (expo64 x)) \<le> 2 ^ 53"
    by (simp only: round_half_even_of_int)
  then have "(of_int (round_half_even (x / pow2 (expo64 x))) :: rat) \<le> of_int (2 ^ 53)"
    by (simp only: of_int_le_iff)
  moreover have "pow2 (53 + expo64 x) = of_int (2 ^ 53) * pow2 (expo64 x)"
    by (simp only: pow2_add) (simp add: pow2_def)
  ultimately show ?thesis
    by (simp only: rnd64_mag_expo) (rule mult_right_mono, simp_all)
qed

lemma rnd64_mag_lower:
  assumes "x > 0" "ilog2 x - 52 \<ge> - 1074"
  shows "pow2 (52 + expo64 x) \<le> rnd64_mag x"
proof -
  have e: "expo64 x = ilog2 x - 52" using assms by (simp add: expo64_def)
  have "of_int (2 ^ 52) * pow2 (expo64 x) = pow2 (52 + expo64 x)"
    by (simp only: pow2_add) (simp add: pow2_def)
  also have "\<dots> \<le> x" using ilog2_bounds(1) [OF assms(1)] by (simp add: e)
  finally have "of_int (2 ^ 52) \<le> x / pow2 (expo64 x)" by (simp add: pos_le_divide_eq)
  then have "round_half_even (of_int (2 ^ 52)) \<le> round_half_even (x / pow2 (expo64 x))"
    by (rule round_half_even_mono)
  then have "2 ^ 52 \<le> round_half_even (x / pow2 (expo64 x))"
    by (simp only: round_half_even_of_int)
  then have "(of_int (2 ^ 52) :: rat) \<le> of_int (round_half_even (x / pow2 (expo64 x)))"
    by (simp only: of_int_le_iff)
  moreover have "pow2 (52 + expo64 x) = of_int (2 ^ 52) * pow2 (expo64 x)"
    by (simp only: pow2_add) (simp add: pow2_def)
  ultimately show ?thesis
    by (simp only: rnd64_mag_expo) (rule mult_right_mono, simp_all)
qed

lemma rnd64_mag_mono:
  assumes "0 < x" "x \<le> y"
  shows "rnd64_mag x \<le> rnd64_mag y"
proof -
  have ex: "expo64 x \<le> expo64 y"
    using ilog2_mono [OF assms] by (simp add: expo64_def)
  show ?thesis
  proof (cases "expo64 x = expo64 y")
    case True
    have "round_half_even (x / pow2 (expo64 y)) \<le> round_half_even (y / pow2 (expo64 y))"
      by (intro round_half_even_mono divide_right_mono assms) simp
    then show ?thesis
      by (simp only: rnd64_mag_expo True) (rule mult_right_mono, simp_all)
  next
    case False
    with ex have less: "expo64 x + 1 \<le> expo64 y" by simp
    then have "ilog2 y - 52 \<ge> - 1074" by (auto simp: expo64_def)
    then have "pow2 (52 + expo64 y) \<le> rnd64_mag y"
      using assms by (intro rnd64_mag_lower) simp_all
    moreover have "pow2 (53 + expo64 x) \<le> pow2 (52 + expo64 y)"
      using less by (intro pow2_mono) simp
    moreover have "rnd64_mag x \<le> pow2 (53 + expo64 x)"
      using assms by (intro rnd64_mag_upper) simp
    ultimately show ?thesis by linarith
  qed
qed

lemma rnd64_mag_nonneg: "x > 0 \<Longrightarrow> rnd64_mag x \<ge> 0"
proof -
  assume "x > 0"
  then have "round_half_even 0 \<le> round_half_even (x / pow2 (expo64 x))"
    by (intro round_half_even_mono) simp
  moreover have "round_half_even 0 = 0"
    using round_half_even_of_int [of 0] by simp
  ultimately show ?thesis by (simp add: rnd64_mag_expo)
qed

lemma rnd64_zero [simp]: "rnd64 0 = Fin 0"
  by (simp add: rnd64_def)

lemma rnd64_not_NaN [simp]: "rnd64 x \<noteq> NaN"
  by (simp add: rnd64_def Let_def)

text \<open>Rounding is monotone.\<close>

lemma rnd64_mono: "x \<le> y \<Longrightarrow> fle (rnd64 x) (rnd64 y)"
proof -
  assume le: "x \<le> y"
  consider "x = 0" | "y = 0" | "0 < x" | "y < 0" | "x < 0" "0 < y" by linarith
  then show ?thesis
  proof cases
    case 1
    with le show ?thesis
      using rnd64_mag_nonneg [of y] by (simp add: rnd64_def Let_def)
  next
    case 2
    with le show ?thesis
      using rnd64_mag_nonneg [of "- x"] by (simp add: rnd64_def Let_def)
  next
    case 3
    with le show ?thesis
      using rnd64_mag_mono [of x y] by (simp add: rnd64_def Let_def)
  next
    case 4
    with le show ?thesis
      using rnd64_mag_mono [of "- y" "- x"] by (simp add: rnd64_def Let_def)
  next
    case 5
    then show ?thesis
      using rnd64_mag_nonneg [of "- x"] rnd64_mag_nonneg [of y]
      by (simp add: rnd64_def Let_def)
  qed
qed

text \<open>Integers of at most 53 bits are exact.\<close>

lemma rnd64_mag_of_int:
  assumes "0 < i" "i < 2 ^ 53"
  shows "rnd64_mag (of_int i) = of_int i"
proof -
  let ?x = "of_int i :: rat"
  have "pow2 (ilog2 ?x) \<le> ?x" using assms by (intro ilog2_bounds) simp
  also have "?x < pow2 53"
  proof -
    have "?x < of_int (2 ^ 53)" using assms(2) by (simp only: of_int_less_iff)
    then show ?thesis by (simp add: pow2_def)
  qed
  finally have "ilog2 ?x < 53" by (rule pow2_less)
  then have e: "expo64 ?x \<le> 0" by (simp add: expo64_def)
  have "?x / pow2 (expo64 ?x) = of_int (i * 2 ^ nat (- expo64 ?x))"
    using e by (simp add: pow2_def power_int_def field_simps)
  then have "rnd64_mag ?x = ?x / pow2 (expo64 ?x) * pow2 (expo64 ?x)"
    by (simp only: rnd64_mag_expo round_half_even_of_int)
  then show ?thesis by simp
qed

lemma rnd64_of_int: "\<bar>i\<bar> < 2 ^ 53 \<Longrightarrow> rnd64 (of_int i) = Fin (of_int i)"
proof -
  assume a: "\<bar>i\<bar> < 2 ^ 53"
  have big: "\<not> pow2 1024 \<le> \<bar>of_int i\<bar>"
  proof -
    have "(of_int \<bar>i\<bar> :: rat) < of_int (2 ^ 53)" using a by (simp only: of_int_less_iff)
    also have "\<dots> = pow2 53" by (simp add: pow2_def)
    also have "\<dots> \<le> pow2 1024" by (rule pow2_mono) simp
    finally show ?thesis by simp
  qed
  consider "i = 0" | "i > 0" | "i < 0" by linarith
  then show ?thesis
  proof cases
    case 1
    then show ?thesis by simp
  next
    case 2
    with a big show ?thesis by (simp add: rnd64_def rnd64_mag_of_int Let_def)
  next
    case 3
    with a rnd64_mag_of_int [of "- i"] big show ?thesis
      by (simp add: rnd64_def Let_def)
  qed
qed

lemma rnd64_numeral [simp]:
  "numeral n < (2 :: int) ^ 53 \<Longrightarrow> rnd64 (numeral n) = Fin (numeral n)"
  "numeral n < (2 :: int) ^ 53 \<Longrightarrow> rnd64 (- numeral n) = Fin (- numeral n)"
  "rnd64 1 = Fin 1" "rnd64 (- 1) = Fin (- 1)"
  using rnd64_of_int [of "numeral n"] rnd64_of_int [of "- numeral n"]
    rnd64_of_int [of 1] rnd64_of_int [of "- 1"] by simp_all

text \<open>Evaluation: below \<open>2 ^ 1023\<close> there is no overflow to test for.\<close>

lemma rnd64_code [code]:
  "rnd64 x =
     (if x = 0 then Fin 0
      else let m = rnd64_mag \<bar>x\<bar>
           in if ilog2 \<bar>x\<bar> < 1023 then Fin (if x > 0 then m else - m)
              else if m \<ge> pow2 1024 then (if x > 0 then PInf else NInf)
              else Fin (if x > 0 then m else - m))"
proof (cases "x \<noteq> 0 \<and> ilog2 \<bar>x\<bar> < 1023")
  case True
  then have pos: "\<bar>x\<bar> > 0" and small: "53 + expo64 \<bar>x\<bar> < 1024" by (auto simp: expo64_def)
  from small have "pow2 (53 + expo64 \<bar>x\<bar>) < pow2 1024" unfolding pow2_def
    by (rule power_int_strict_increasing) simp
  with rnd64_mag_upper [OF pos] have "\<not> rnd64_mag \<bar>x\<bar> \<ge> pow2 1024" by linarith
  with True show ?thesis by (simp add: rnd64_def Let_def)
next
  case False
  then show ?thesis by (auto simp: rnd64_def Let_def)
qed

end
