(* ===== verification/Py_Value.thy ===== *)
theory Py_Value
  imports Py_Float
begin

text \<open>
  The dynamically typed values the program passes around: everything \<open>json.load\<close> can return
  and everything \<open>json.dumps\<close> is given (\<open>None\<close>, \<open>bool\<close>, \<open>int\<close>, \<open>float\<close>, \<open>str\<close>, \<open>list\<close>, \<open>dict\<close> with
  string keys, in insertion order), with the parts of the language the code applies to them:
  truth value, \<open>d.get(k, default)\<close>, \<open>isinstance\<close>, \<open>==\<close>, \<open>int(v)\<close>, \<open>float(v)\<close> and \<open>str(v)\<close>.

  Strings are lists of 8-bit characters and hold ASCII text only; \<open>int\<close> and \<open>float\<close> of a string
  follow the Python grammar (surrounding white space, a sign, digit groups joined by single
  underscores, an exponent, \<open>inf\<close>, \<open>infinity\<close>, \<open>nan\<close> in any case). \<open>str\<close> of a float is the
  shortest decimal that reads back as the same binary64 value.
\<close>

datatype pyval =
    PNone
  | PBool bool
  | PInt int
  | PFloat pyfloat
  | PStr string
  | PList "pyval list"
  | PDict "(string \<times> pyval) list"

type_synonym pydict = "(string \<times> pyval) list"

section \<open>Truth, access, type tests\<close>

fun truthy :: "pyval \<Rightarrow> bool" where
  "truthy PNone = False"
| "truthy (PBool b) = b"
| "truthy (PInt i) = (i \<noteq> 0)"
| "truthy (PFloat f) = (f \<noteq> Fin 0)"
| "truthy (PStr s) = (s \<noteq> [])"
| "truthy (PList xs) = (xs \<noteq> [])"
| "truthy (PDict d) = (d \<noteq> [])"

text \<open>\<open>a or b\<close> returns its first operand when that is true.\<close>

definition py_or :: "pyval \<Rightarrow> pyval \<Rightarrow> pyval" where
  "py_or a b = (if truthy a then a else b)"

text \<open>\<open>d.get(k, default)\<close> and \<open>d[k]\<close> on a dictionary.\<close>

definition dget :: "pydict \<Rightarrow> string \<Rightarrow> pyval \<Rightarrow> pyval" where
  "dget d k v = (case map_of d k of Some x \<Rightarrow> x | None \<Rightarrow> v)"

definition dget_item :: "pydict \<Rightarrow> string \<Rightarrow> pyval res" where
  "dget_item d k = (case map_of d k of Some x \<Rightarrow> Inr x | None \<Rightarrow> Inl (KeyError k))"

definition dset :: "string \<Rightarrow> pyval \<Rightarrow> pydict \<Rightarrow> pydict" where
  "dset = AList.update"

text \<open>\<open>d.update(patch)\<close>.\<close>

definition dupdate :: "pydict \<Rightarrow> pydict \<Rightarrow> pydict" where
  "dupdate d patch = fold (\<lambda>(k, v). dset k v) patch d"

fun is_mapping :: "pyval \<Rightarrow> bool" where
  "is_mapping (PDict _) = True"
| "is_mapping _ = False"

fun is_list :: "pyval \<Rightarrow> bool" where
  "is_list (PList _) = True"
| "is_list _ = False"

text \<open>The entries of a dictionary, the elements of a list; empty for any other value.\<close>

fun as_dict :: "pyval \<Rightarrow> pydict" where
  "as_dict (PDict d) = d"
| "as_dict _ = []"

fun as_list :: "pyval \<Rightarrow> pyval list" where
  "as_list (PList xs) = xs"
| "as_list _ = []"

text \<open>\<open>v.get(k, default)\<close> on a value that is not known to be a dictionary.\<close>

definition pget :: "pyval \<Rightarrow> string \<Rightarrow> pyval \<Rightarrow> pyval res" where
  "pget v k dflt = (case v of PDict d \<Rightarrow> Inr (dget d k dflt) | _ \<Rightarrow> Inl AttributeError)"

section \<open>Equality\<close>

text \<open>
  \<open>==\<close>: numbers of different types compare by value, dictionaries ignore the order of their
  keys, and not-a-number differs from itself.
\<close>

fun num_of :: "pyval \<Rightarrow> pyfloat option" where
  "num_of (PBool b) = Some (Fin (if b then 1 else 0))"
| "num_of (PInt i) = Some (Fin (of_int i))"
| "num_of (PFloat f) = Some f"
| "num_of _ = None"

fun py_eq :: "pyval \<Rightarrow> pyval \<Rightarrow> bool"
  and py_eq_list :: "pyval list \<Rightarrow> pyval list \<Rightarrow> bool"
  and py_eq_dict :: "pydict \<Rightarrow> pydict \<Rightarrow> bool" where
  "py_eq PNone b = (b = PNone)"
| "py_eq (PStr s) b = (b = PStr s)"
| "py_eq (PList xs) b = (case b of PList ys \<Rightarrow> py_eq_list xs ys | _ \<Rightarrow> False)"
| "py_eq (PDict d) b =
     (case b of PDict e \<Rightarrow> length d = length e \<and> py_eq_dict d e | _ \<Rightarrow> False)"
| "py_eq a b =
     (case (num_of a, num_of b) of (Some x, Some y) \<Rightarrow> feq x y | _ \<Rightarrow> False)"
| "py_eq_list [] ys = (ys = [])"
| "py_eq_list (x # xs) ys =
     (case ys of [] \<Rightarrow> False | y # ys' \<Rightarrow> py_eq x y \<and> py_eq_list xs ys')"
| "py_eq_dict [] e = True"
| "py_eq_dict ((k, v) # d) e =
     ((case map_of e k of None \<Rightarrow> False | Some w \<Rightarrow> py_eq v w) \<and> py_eq_dict d e)"

section \<open>Conversion of strings to numbers\<close>

definition is_space :: "char \<Rightarrow> bool" where
  "is_space c = (of_char c = (32 :: nat) \<or> (9 \<le> (of_char c :: nat) \<and> of_char c \<le> (13 :: nat))
     \<or> (28 \<le> (of_char c :: nat) \<and> of_char c \<le> (31 :: nat)))"

definition py_strip :: "string \<Rightarrow> string" where
  "py_strip s = rev (dropWhile is_space (rev (dropWhile is_space s)))"

definition is_digit :: "char \<Rightarrow> bool" where
  "is_digit c = (48 \<le> (of_char c :: nat) \<and> of_char c \<le> (57 :: nat))"

definition lower_char :: "char \<Rightarrow> char" where
  "lower_char c =
     (let n = (of_char c :: nat) in if 65 \<le> n \<and> n \<le> 90 then char_of (n + 32) else c)"

definition upper_char :: "char \<Rightarrow> char" where
  "upper_char c =
     (let n = (of_char c :: nat) in if 97 \<le> n \<and> n \<le> 122 then char_of (n - 32) else c)"

definition py_lower :: "string \<Rightarrow> string" where
  "py_lower s = map lower_char s"

definition py_upper :: "string \<Rightarrow> string" where
  "py_upper s = map upper_char s"

text \<open>A digit group \<open>1_000\<close>: digits, single underscores only between digits.\<close>

fun digit_group :: "bool \<Rightarrow> string \<Rightarrow> string option" where
  "digit_group prev [] = (if prev then Some [] else None)"
| "digit_group prev (c # cs) =
     (if is_digit c then map_option ((#) c) (digit_group True cs)
      else if c = CHR ''_'' \<and> prev then digit_group False cs
      else None)"

definition split_sign :: "string \<Rightarrow> int \<times> string" where
  "split_sign s =
     (case s of
        c # cs \<Rightarrow> if c = CHR ''-'' then (- 1, cs) else if c = CHR ''+'' then (1, cs) else (1, s)
      | [] \<Rightarrow> (1, []))"

definition int_of_string :: "string \<Rightarrow> int res" where
  "int_of_string s =
     (let (sg, t) = split_sign (py_strip s)
      in case digit_group False t of
           None \<Rightarrow> Inl ValueError
         | Some ds \<Rightarrow> if length ds > 4300 then Inl ValueError else Inr (sg * read_digits ds))"

definition pow10 :: "int \<Rightarrow> rat" where
  "pow10 e = 10 powi e"

definition decimal_of_string :: "string \<Rightarrow> rat option" where
  "decimal_of_string t =
     (let mant = takeWhile (\<lambda>c. lower_char c \<noteq> CHR ''e'') t;
          ex = drop (length mant) t;
          ip = takeWhile (\<lambda>c. c \<noteq> CHR ''.'') mant;
          fp = drop (Suc (length ip)) mant;
          group = (\<lambda>g. if g = [] then Some [] else digit_group False g);
          e = (case ex of
                 [] \<Rightarrow> Some 0
               | _ # es \<Rightarrow>
                   (let (sg, ds) = split_sign es
                    in map_option (\<lambda>g. sg * read_digits g) (digit_group False ds)))
      in case (group ip, group fp, e) of
           (Some i, Some f, Some k) \<Rightarrow>
             if i = [] \<and> f = [] then None
             else Some (of_int (read_digits (i @ f)) * pow10 (k - int (length f)))
         | _ \<Rightarrow> None)"

definition float_of_string :: "string \<Rightarrow> pyfloat res" where
  "float_of_string s =
     (let (sg, t) = split_sign (py_strip s); w = py_lower t
      in if w = ''inf'' \<or> w = ''infinity'' then Inr (if sg = 1 then PInf else NInf)
         else if w = ''nan'' then Inr NaN
         else case decimal_of_string t of
                None \<Rightarrow> Inl ValueError
              | Some q \<Rightarrow> Inr (rnd64 (of_int sg * q)))"

section \<open>\<open>int(v)\<close> and \<open>float(v)\<close>\<close>

definition trunc_rat :: "rat \<Rightarrow> int" where
  "trunc_rat q = (if q \<ge> 0 then \<lfloor>q\<rfloor> else \<lceil>q\<rceil>)"

fun py_int :: "pyval \<Rightarrow> int res" where
  "py_int (PBool b) = Inr (if b then 1 else 0)"
| "py_int (PInt i) = Inr i"
| "py_int (PFloat (Fin q)) = Inr (trunc_rat q)"
| "py_int (PFloat NaN) = Inl ValueError"
| "py_int (PFloat _) = Inl OverflowError"
| "py_int (PStr s) = int_of_string s"
| "py_int _ = Inl TypeError"

definition float_of_int :: "int \<Rightarrow> pyfloat res" where
  "float_of_int i =
     (case rnd64 (of_int i) of Fin q \<Rightarrow> Inr (Fin q) | _ \<Rightarrow> Inl OverflowError)"

fun py_float :: "pyval \<Rightarrow> pyfloat res" where
  "py_float (PBool b) = Inr (Fin (if b then 1 else 0))"
| "py_float (PInt i) = float_of_int i"
| "py_float (PFloat f) = Inr f"
| "py_float (PStr s) = float_of_string s"
| "py_float _ = Inl TypeError"

section \<open>\<open>str(v)\<close>\<close>

text \<open>
  The shortest decimal: for growing numbers of significant digits, the two neighbours of the value
  at that precision are tried; the first precision at which one of them reads back wins, and
  the closer neighbour is taken.
\<close>

definition dec_exponent :: "rat \<Rightarrow> int" where
  "dec_exponent x =
     (let (n, d) = quotient_of x;
          k = int (length (show_int n)) - int (length (show_int d))
      in if pow10 k \<le> x then k + 1 else k)"

fun shortest_from :: "nat \<Rightarrow> nat \<Rightarrow> rat \<Rightarrow> int \<times> int" where
  "shortest_from 0 n x = (let p = dec_exponent x - int n in (round_half_even (x / pow10 p), p))"
| "shortest_from (Suc k) n x =
     (let p = dec_exponent x - int n;
          lo = \<lfloor>x / pow10 p\<rfloor>; hi = lo + 1;
          ok = (\<lambda>m. rnd64 (of_int m * pow10 p) = Fin x);
          near_lo = (2 * (x / pow10 p - of_int lo) \<le> 1)
      in if ok lo \<and> (near_lo \<or> \<not> ok hi) then (lo, p)
         else if ok hi then (hi, p)
         else shortest_from k (Suc n) x)"

definition strip_zeros :: "string \<Rightarrow> string" where
  "strip_zeros s = rev (dropWhile (\<lambda>c. c = CHR ''0'') (rev s))"

definition float_repr_pos :: "rat \<Rightarrow> string" where
  "float_repr_pos x =
     (let (m, p) = shortest_from 16 1 x;
          all = show_int m; ds = strip_zeros all;
          pt = int (length all) + p
      in if pt \<le> - 4 \<or> 16 < pt
         then (let e = pt - 1; a = show_int \<bar>e\<bar>
               in take 1 ds @ (if length ds > 1 then CHR ''.'' # drop 1 ds else [])
                  @ ''e'' @ (if e < 0 then ''-'' else ''+'')
                  @ (if length a < 2 then CHR ''0'' # a else a))
         else if pt \<le> 0 then ''0.'' @ replicate (nat (- pt)) (CHR ''0'') @ ds
         else if nat pt \<ge> length ds
              then ds @ replicate (nat pt - length ds) (CHR ''0'') @ ''.0''
              else take (nat pt) ds @ ''.'' @ drop (nat pt) ds)"

fun float_repr :: "pyfloat \<Rightarrow> string" where
  "float_repr NaN = ''nan''"
| "float_repr PInf = ''inf''"
| "float_repr NInf = ''-inf''"
| "float_repr (Fin q) =
     (if q = 0 then ''0.0''
      else if q < 0 then CHR ''-'' # float_repr_pos (- q)
      else float_repr_pos q)"

definition hex_digit :: "nat \<Rightarrow> char" where
  "hex_digit d = ''0123456789abcdef'' ! d"

definition escape_char :: "char \<Rightarrow> char \<Rightarrow> string" where
  "escape_char q c =
     (let n = (of_char c :: nat)
      in if c = q \<or> n = 92 then [char_of (92 :: nat), c]
         else if n = 10 then [char_of (92 :: nat), CHR ''n'']
         else if n = 13 then [char_of (92 :: nat), CHR ''r'']
         else if n = 9 then [char_of (92 :: nat), CHR ''t'']
         else if n < 32 \<or> n = 127
              then [char_of (92 :: nat), CHR ''x'', hex_digit (n div 16), hex_digit (n mod 16)]
         else [c])"

definition quote_char :: char where "quote_char = char_of (39 :: nat)"
definition dquote_char :: char where "dquote_char = char_of (34 :: nat)"

definition string_repr :: "string \<Rightarrow> string" where
  "string_repr s =
     (let q = (if quote_char \<in> set s \<and> dquote_char \<notin> set s then dquote_char else quote_char)
      in q # concat (map (escape_char q) s) @ [q])"

fun comma_join :: "string list \<Rightarrow> string" where
  "comma_join [] = []"
| "comma_join [s] = s"
| "comma_join (s # t # ts) = s @ '', '' @ comma_join (t # ts)"

fun py_repr :: "pyval \<Rightarrow> string" where
  "py_repr PNone = ''None''"
| "py_repr (PBool b) = (if b then ''True'' else ''False'')"
| "py_repr (PInt i) = show_int i"
| "py_repr (PFloat f) = float_repr f"
| "py_repr (PStr s) = string_repr s"
| "py_repr (PList xs) = ''['' @ comma_join (map py_repr xs) @ '']''"
| "py_repr (PDict d) =
     ''{'' @ comma_join (map (\<lambda>(k, v). string_repr k @ '': '' @ py_repr v) d) @ ''}''"

fun py_str :: "pyval \<Rightarrow> string" where
  "py_str (PStr s) = s"
| "py_str v = py_repr v"

section \<open>Lemmas on dictionaries\<close>

lemma dget_Nil [simp]: "dget [] k v = v"
  by (simp add: dget_def)

lemma dget_Cons [simp]: "dget ((k, x) # d) j v = (if j = k then x else dget d j v)"
  by (simp add: dget_def)

lemma dget_dset [simp]: "dget (dset k x d) j v = (if j = k then x else dget d j v)"
  by (simp add: dget_def dset_def update_conv')

lemma map_of_dset [simp]: "map_of (dset k x d) = (map_of d)(k \<mapsto> x)"
  by (simp add: dset_def update_conv')

lemma dset_Nil [simp]: "dset k v [] = [(k, v)]"
  by (simp add: dset_def)

lemma dset_Cons [simp]:
  "dset k v ((j, x) # d) = (if j = k then (k, v) # d else (j, x) # dset k v d)"
  by (simp add: dset_def)

lemma distinct_dset: "distinct (dict_keys d) \<Longrightarrow> distinct (dict_keys (dset k v d))"
  unfolding dset_def by (rule distinct_dict_keys_update)

lemma set_keys_dset: "set (dict_keys (dset k v d)) = insert k (set (dict_keys d))"
  by (simp add: set_dict_keys)

lemma dget_item_Inr_iff: "dget_item d k = Inr v \<longleftrightarrow> map_of d k = Some v"
  by (simp add: dget_item_def split: option.splits)

lemma dupdate_Nil [simp]: "dupdate d [] = d"
  by (simp add: dupdate_def)

lemma dupdate_Cons: "dupdate d ((k, v) # p) = dupdate (dset k v d) p"
  by (simp add: dupdate_def)

lemma dget_dupdate:
  "distinct (dict_keys p) \<Longrightarrow>
   dget (dupdate d p) k v = (case map_of p k of Some x \<Rightarrow> x | None \<Rightarrow> dget d k v)"
proof (induction p arbitrary: d)
  case Nil
  then show ?case by simp
next
  case (Cons a p)
  obtain j x where a: "a = (j, x)" by (cases a)
  from Cons a have d: "distinct (dict_keys p)" and notin: "j \<notin> set (dict_keys p)" by simp_all
  from notin have "map_of p j = None"
    by (simp add: set_dict_keys domIff)
  with Cons.IH [OF d, of "dset j x d"] show ?case
    by (simp add: a dupdate_Cons split: option.splits)
qed

lemma truthy_py_or: "truthy (py_or a b) \<longleftrightarrow> truthy a \<or> truthy b"
  by (simp add: py_or_def)

lemma py_eq_PStr [simp]: "py_eq (PStr s) v \<longleftrightarrow> v = PStr s"
  by simp

lemma py_eq_PStr_right: "py_eq v (PStr s) \<longleftrightarrow> v = PStr s"
  by (cases v) auto

lemma py_str_PStr_inject: "py_str (PStr s) = t \<longleftrightarrow> s = t"
  by simp

end
