(* ===== verification/Models.thy ===== *)
theory Models
  imports Py_Value
begin

text \<open>
  The typed models of \<open>netlab/models.py\<close> and \<open>netlab/contracts.py\<close>: the enumerations with their
  wire values (\<open>..._value\<close> is Python's \<open>.value\<close>), the records of link metrics, gate
  decisions, packets and events with their \<open>as_dict\<close> forms, and the readiness aggregate.
  \<open>models.py\<close> ends by re-exporting the names of \<open>contracts.py\<close>, so the readiness aggregate that
  importers of \<open>models\<close> see is the one of \<open>contracts.py\<close> (\<open>readiness\<close> below); the class of the
  same name that \<open>models.py\<close> itself defines is shadowed and not modelled.
\<close>

section \<open>Enumerations\<close>

text \<open>\<open>FidelityProfile\<close>.\<close>

datatype fidelity_profile =
    FP_PREVIEW | FP_ANALYTICAL | FP_STOCHASTIC | FP_GEOMETRY_AWARE | FP_PROTOCOL_AWARE
    | FP_AUTOPILOT | FP_HARDWARE_ASSISTED | FP_LEGACY_AUTOPILOT | FP_LEGACY_HARDWARE_ASSISTED

fun fidelity_profile_value :: "fidelity_profile \<Rightarrow> string" where
  "fidelity_profile_value FP_PREVIEW = ''F0_PREVIEW''"
| "fidelity_profile_value FP_ANALYTICAL = ''F1_ANALYTICAL''"
| "fidelity_profile_value FP_STOCHASTIC = ''F2_STOCHASTIC''"
| "fidelity_profile_value FP_GEOMETRY_AWARE = ''F3_GEOMETRY_AWARE''"
| "fidelity_profile_value FP_PROTOCOL_AWARE = ''F4_PROTOCOL_AWARE''"
| "fidelity_profile_value FP_AUTOPILOT = ''F5_AUTOPILOT''"
| "fidelity_profile_value FP_HARDWARE_ASSISTED = ''F6_HARDWARE_ASSISTED''"
| "fidelity_profile_value FP_LEGACY_AUTOPILOT = ''F4_AUTOPILOT''"
| "fidelity_profile_value FP_LEGACY_HARDWARE_ASSISTED = ''F5_HARDWARE_ASSISTED''"

text \<open>\<open>TopologyMode\<close>.\<close>

datatype topology_mode =
    TM_CHAIN | TM_PARALLEL | TM_FOREST | TM_MANUAL

fun topology_mode_value :: "topology_mode \<Rightarrow> string" where
  "topology_mode_value TM_CHAIN = ''chain''"
| "topology_mode_value TM_PARALLEL = ''parallel''"
| "topology_mode_value TM_FOREST = ''forest''"
| "topology_mode_value TM_MANUAL = ''manual''"

text \<open>\<open>RuntimePhase\<close>.\<close>

datatype runtime_phase =
    RP_STOPPED | RP_PREFLIGHT | RP_REPAIRING | RP_BUILDING | RP_STARTING_INFRASTRUCTURE
    | RP_STARTING_SIONNA | RP_WAITING_FOR_SIONNA | RP_STARTING_ROS
    | RP_WAITING_FOR_ROS_CONTAINER | RP_WAITING_FOR_ROS_GRAPH | RP_WAITING_FOR_PACKET_RUNTIME
    | RP_WAITING_FOR_ROS | RP_STARTING_ISAAC | RP_WAITING_FOR_ISAAC_PROCESS
    | RP_WAITING_FOR_ISAAC_SCENE | RP_WAITING_FOR_ISAAC | RP_SYNCHRONIZING | RP_SMOKE_TESTING
    | RP_READY | RP_STARTING_EXPERIMENT | RP_RUNNING | RP_DEGRADED | RP_OUTAGE | RP_RECOVERING
    | RP_COMPLETED | RP_STOPPING | RP_FAILED

fun runtime_phase_value :: "runtime_phase \<Rightarrow> string" where
  "runtime_phase_value RP_STOPPED = ''STOPPED''"
| "runtime_phase_value RP_PREFLIGHT = ''PREFLIGHT''"
| "runtime_phase_value RP_REPAIRING = ''REPAIRING''"
| "runtime_phase_value RP_BUILDING = ''BUILDING''"
| "runtime_phase_value RP_STARTING_INFRASTRUCTURE = ''STARTING_INFRASTRUCTURE''"
| "runtime_phase_value RP_STARTING_SIONNA = ''STARTING_SIONNA''"
| "runtime_phase_value RP_WAITING_FOR_SIONNA = ''WAITING_FOR_SIONNA''"
| "runtime_phase_value RP_STARTING_ROS = ''STARTING_ROS''"
| "runtime_phase_value RP_WAITING_FOR_ROS_CONTAINER = ''WAITING_FOR_ROS_CONTAINER''"
| "runtime_phase_value RP_WAITING_FOR_ROS_GRAPH = ''WAITING_FOR_ROS_GRAPH''"
| "runtime_phase_value RP_WAITING_FOR_PACKET_RUNTIME = ''WAITING_FOR_PACKET_RUNTIME''"
| "runtime_phase_value RP_WAITING_FOR_ROS = ''WAITING_FOR_ROS''"
| "runtime_phase_value RP_STARTING_ISAAC = ''STARTING_ISAAC''"
| "runtime_phase_value RP_WAITING_FOR_ISAAC_PROCESS = ''WAITING_FOR_ISAAC_PROCESS''"
| "runtime_phase_value RP_WAITING_FOR_ISAAC_SCENE = ''WAITING_FOR_ISAAC_SCENE''"
| "runtime_phase_value RP_WAITING_FOR_ISAAC = ''WAITING_FOR_ISAAC''"
| "runtime_phase_value RP_SYNCHRONIZING = ''SYNCHRONIZING''"
| "runtime_phase_value RP_SMOKE_TESTING = ''SMOKE_TESTING''"
| "runtime_phase_value RP_READY = ''READY''"
| "runtime_phase_value RP_STARTING_EXPERIMENT = ''STARTING_EXPERIMENT''"
| "runtime_phase_value RP_RUNNING = ''RUNNING''"
| "runtime_phase_value RP_DEGRADED = ''DEGRADED''"
| "runtime_phase_value RP_OUTAGE = ''OUTAGE''"
| "runtime_phase_value RP_RECOVERING = ''RECOVERING''"
| "runtime_phase_value RP_COMPLETED = ''COMPLETED''"
| "runtime_phase_value RP_STOPPING = ''STOPPING''"
| "runtime_phase_value RP_FAILED = ''FAILED''"

text \<open>\<open>TelemetrySource\<close>.\<close>

datatype telemetry_source =
    TS_LIVE | TS_STALE | TS_REPLAY | TS_PREVIEW | TS_OFFLINE | TS_DEGRADED | TS_UNAVAILABLE

fun telemetry_source_value :: "telemetry_source \<Rightarrow> string" where
  "telemetry_source_value TS_LIVE = ''LIVE''"
| "telemetry_source_value TS_STALE = ''STALE''"
| "telemetry_source_value TS_REPLAY = ''REPLAY''"
| "telemetry_source_value TS_PREVIEW = ''PREVIEW''"
| "telemetry_source_value TS_OFFLINE = ''OFFLINE''"
| "telemetry_source_value TS_DEGRADED = ''DEGRADED''"
| "telemetry_source_value TS_UNAVAILABLE = ''UNAVAILABLE''"

text \<open>\<open>ParticipantState\<close>.\<close>

datatype participant_state =
    PT_NOT_REQUIRED | PT_PENDING | PT_APPLYING | PT_ACKNOWLEDGED | PT_FAILED | PT_STALE

fun participant_state_value :: "participant_state \<Rightarrow> string" where
  "participant_state_value PT_NOT_REQUIRED = ''NOT_REQUIRED''"
| "participant_state_value PT_PENDING = ''PENDING''"
| "participant_state_value PT_APPLYING = ''APPLYING''"
| "participant_state_value PT_ACKNOWLEDGED = ''ACKNOWLEDGED''"
| "participant_state_value PT_FAILED = ''FAILED''"
| "participant_state_value PT_STALE = ''STALE''"

text \<open>\<open>CommandStatus\<close>.\<close>

datatype command_status =
    CS_CREATED | CS_VALIDATING | CS_REJECTED | CS_ACCEPTED | CS_DISPATCHING | CS_WAITING_FOR_ACK
    | CS_PARTIALLY_APPLIED | CS_COMPLETED | CS_FAILED | CS_ROLLING_BACK | CS_ROLLED_BACK
    | CS_CANCELLED

fun command_status_value :: "command_status \<Rightarrow> string" where
  "command_status_value CS_CREATED = ''CREATED''"
| "command_status_value CS_VALIDATING = ''VALIDATING''"
| "command_status_value CS_REJECTED = ''REJECTED''"
| "command_status_value CS_ACCEPTED = ''ACCEPTED''"
| "command_status_value CS_DISPATCHING = ''DISPATCHING''"
| "command_status_value CS_WAITING_FOR_ACK = ''WAITING_FOR_ACK''"
| "command_status_value CS_PARTIALLY_APPLIED = ''PARTIALLY_APPLIED''"
| "command_status_value CS_COMPLETED = ''COMPLETED''"
| "command_status_value CS_FAILED = ''FAILED''"
| "command_status_value CS_ROLLING_BACK = ''ROLLING_BACK''"
| "command_status_value CS_ROLLED_BACK = ''ROLLED_BACK''"
| "command_status_value CS_CANCELLED = ''CANCELLED''"

text \<open>\<open>GateReason\<close>.\<close>

datatype gate_reason =
    GR_FEASIBLE | GR_SOURCE_FAILED | GR_DESTINATION_FAILED | GR_SOURCE_INACTIVE
    | GR_DESTINATION_INACTIVE | GR_OUT_OF_RANGE | GR_HARD_OUTAGE_DISTANCE
    | GR_SNR_BELOW_THRESHOLD | GR_SINR_BELOW_THRESHOLD | GR_CAPACITY_BELOW_THRESHOLD
    | GR_NO_ROUTE | GR_STALE_LINK_METRIC | GR_LINK_SERVICE_UNAVAILABLE | GR_ANTENNA_INVALID
    | GR_WORLD_MODEL_UNAVAILABLE | GR_UNKNOWN

fun gate_reason_value :: "gate_reason \<Rightarrow> string" where
  "gate_reason_value GR_FEASIBLE = ''FEASIBLE''"
| "gate_reason_value GR_SOURCE_FAILED = ''SOURCE_FAILED''"
| "gate_reason_value GR_DESTINATION_FAILED = ''DESTINATION_FAILED''"
| "gate_reason_value GR_SOURCE_INACTIVE = ''SOURCE_INACTIVE''"
| "gate_reason_value GR_DESTINATION_INACTIVE = ''DESTINATION_INACTIVE''"
| "gate_reason_value GR_OUT_OF_RANGE = ''OUT_OF_RANGE''"
| "gate_reason_value GR_HARD_OUTAGE_DISTANCE = ''HARD_OUTAGE_DISTANCE''"
| "gate_reason_value GR_SNR_BELOW_THRESHOLD = ''SNR_BELOW_THRESHOLD''"
| "gate_reason_value GR_SINR_BELOW_THRESHOLD = ''SINR_BELOW_THRESHOLD''"
| "gate_reason_value GR_CAPACITY_BELOW_THRESHOLD = ''CAPACITY_BELOW_THRESHOLD''"
| "gate_reason_value GR_NO_ROUTE = ''NO_ROUTE''"
| "gate_reason_value GR_STALE_LINK_METRIC = ''STALE_LINK_METRIC''"
| "gate_reason_value GR_LINK_SERVICE_UNAVAILABLE = ''LINK_SERVICE_UNAVAILABLE''"
| "gate_reason_value GR_ANTENNA_INVALID = ''ANTENNA_INVALID''"
| "gate_reason_value GR_WORLD_MODEL_UNAVAILABLE = ''WORLD_MODEL_UNAVAILABLE''"
| "gate_reason_value GR_UNKNOWN = ''UNKNOWN''"

text \<open>\<open>PacketStatus\<close>.\<close>

datatype packet_status =
    PS_CREATED | PS_QUEUED | PS_WAITING_FOR_LINK | PS_TRANSMITTING | PS_ADVANCED | PS_DELIVERED
    | PS_PAUSED_OUTAGE | PS_RETRYING | PS_DROPPED | PS_EXPIRED | PS_CANCELLED

fun packet_status_value :: "packet_status \<Rightarrow> string" where
  "packet_status_value PS_CREATED = ''CREATED''"
| "packet_status_value PS_QUEUED = ''QUEUED''"
| "packet_status_value PS_WAITING_FOR_LINK = ''WAITING_FOR_LINK''"
| "packet_status_value PS_TRANSMITTING = ''TRANSMITTING''"
| "packet_status_value PS_ADVANCED = ''ADVANCED''"
| "packet_status_value PS_DELIVERED = ''DELIVERED''"
| "packet_status_value PS_PAUSED_OUTAGE = ''PAUSED_OUTAGE''"
| "packet_status_value PS_RETRYING = ''RETRYING''"
| "packet_status_value PS_DROPPED = ''DROPPED''"
| "packet_status_value PS_EXPIRED = ''EXPIRED''"
| "packet_status_value PS_CANCELLED = ''CANCELLED''"

text \<open>\<open>RevisionStatus\<close>.\<close>

datatype revision_status =
    RS_DRAFT_SAVED | RS_VALIDATED | RS_PENDING_RUNTIME_APPLY | RS_PENDING_ROS
    | RS_PENDING_SIONNA | RS_PENDING_ISAAC | RS_APPLIED_TO_ROS | RS_APPLIED_TO_SIONNA
    | RS_APPLIED_TO_ISAAC | RS_DRIFT_DETECTED | RS_RECONCILING | RS_IN_SYNC | RS_COMMITTED
    | RS_DEGRADED | RS_FAILED | RS_ROLLED_BACK

fun revision_status_value :: "revision_status \<Rightarrow> string" where
  "revision_status_value RS_DRAFT_SAVED = ''DRAFT_SAVED''"
| "revision_status_value RS_VALIDATED = ''VALIDATED''"
| "revision_status_value RS_PENDING_RUNTIME_APPLY = ''PENDING_RUNTIME_APPLY''"
| "revision_status_value RS_PENDING_ROS = ''PENDING_ROS''"
| "revision_status_value RS_PENDING_SIONNA = ''PENDING_SIONNA''"
| "revision_status_value RS_PENDING_ISAAC = ''PENDING_ISAAC''"
| "revision_status_value RS_APPLIED_TO_ROS = ''APPLIED_TO_ROS''"
| "revision_status_value RS_APPLIED_TO_SIONNA = ''APPLIED_TO_SIONNA''"
| "revision_status_value RS_APPLIED_TO_ISAAC = ''APPLIED_TO_ISAAC''"
| "revision_status_value RS_DRIFT_DETECTED = ''DRIFT_DETECTED''"
| "revision_status_value RS_RECONCILING = ''RECONCILING''"
| "revision_status_value RS_IN_SYNC = ''IN_SYNC''"
| "revision_status_value RS_COMMITTED = ''COMMITTED''"
| "revision_status_value RS_DEGRADED = ''DEGRADED''"
| "revision_status_value RS_FAILED = ''FAILED''"
| "revision_status_value RS_ROLLED_BACK = ''ROLLED_BACK''"

section \<open>Gate decisions\<close>

record gate_predicate =
  gp_name :: string
  gp_passed :: bool
  gp_value :: pyval
  gp_threshold :: pyval
  gp_margin :: "pyfloat option"
  gp_unit :: string

record feasibility_decision =
  fd_feasible :: bool
  fd_reason :: gate_reason
  fd_predicates :: "gate_predicate list"
  fd_metric_age_s :: "pyfloat option"
  fd_evaluated_at :: time

definition opt_float :: "pyfloat option \<Rightarrow> pyval" where
  "opt_float x = (case x of None \<Rightarrow> PNone | Some f \<Rightarrow> PFloat f)"

definition opt_str :: "string option \<Rightarrow> pyval" where
  "opt_str x = (case x of None \<Rightarrow> PNone | Some s \<Rightarrow> PStr s)"

definition gate_predicate_as_dict :: "gate_predicate \<Rightarrow> pydict" where
  "gate_predicate_as_dict p =
     [(''name'', PStr (gp_name p)), (''passed'', PBool (gp_passed p)), (''value'', gp_value p),
      (''threshold'', gp_threshold p), (''margin'', opt_float (gp_margin p)),
      (''unit'', PStr (gp_unit p))]"

definition decision_as_dict :: "feasibility_decision \<Rightarrow> pydict" where
  "decision_as_dict d =
     [(''feasible'', PBool (fd_feasible d)),
      (''reason'', PStr (gate_reason_value (fd_reason d))),
      (''predicates'', PList (map (PDict \<circ> gate_predicate_as_dict) (fd_predicates d))),
      (''metric_age_s'', opt_float (fd_metric_age_s d)),
      (''evaluated_at'', PFloat (fd_evaluated_at d))]"

section \<open>Packets and events\<close>

record packet_state =
  pk_packet_id :: string
  pk_flow_id :: string
  pk_branch_id :: string
  pk_sequence_number :: int
  pk_source :: string
  pk_destination :: string
  pk_route :: "string list"
  pk_current_hop_index :: nat
  pk_current_node :: string
  pk_next_node :: string
  pk_status :: packet_status
  pk_created_at :: time
  pk_queued_at :: "time option"
  pk_transmitted_at :: "time option"
  pk_received_at :: "time option"
  pk_dropped_at :: "time option"
  pk_drop_reason :: "string option"
  pk_outage_reason :: "string option"
  pk_ttl_s :: pyfloat
  pk_retries :: int
  pk_bytes :: int
  pk_priority :: int
  pk_last_link_metric_id :: "string option"

definition packet_as_dict :: "packet_state \<Rightarrow> pydict" where
  "packet_as_dict p =
     [(''packet_id'', PStr (pk_packet_id p)), (''flow_id'', PStr (pk_flow_id p)),
      (''branch_id'', PStr (pk_branch_id p)), (''sequence_number'', PInt (pk_sequence_number p)),
      (''source'', PStr (pk_source p)), (''destination'', PStr (pk_destination p)),
      (''route'', PList (map PStr (pk_route p))),
      (''current_hop_index'', PInt (int (pk_current_hop_index p))),
      (''current_node'', PStr (pk_current_node p)), (''next_node'', PStr (pk_next_node p)),
      (''status'', PStr (packet_status_value (pk_status p))),
      (''created_at'', PFloat (pk_created_at p)), (''queued_at'', opt_float (pk_queued_at p)),
      (''transmitted_at'', opt_float (pk_transmitted_at p)),
      (''received_at'', opt_float (pk_received_at p)),
      (''dropped_at'', opt_float (pk_dropped_at p)), (''drop_reason'', opt_str (pk_drop_reason p)),
      (''outage_reason'', opt_str (pk_outage_reason p)), (''ttl_s'', PFloat (pk_ttl_s p)),
      (''retries'', PInt (pk_retries p)), (''bytes'', PInt (pk_bytes p)),
      (''priority'', PInt (pk_priority p)),
      (''last_link_metric_id'', opt_str (pk_last_link_metric_id p))]"

record runtime_event =
  ev_event_type :: string
  ev_source_component :: string
  ev_payload :: pydict
  ev_severity :: string
  ev_experiment_id :: string
  ev_run_id :: string
  ev_affected_entity :: string
  ev_correlation_id :: string
  ev_command_id :: string
  ev_model_version :: string
  ev_timestamp_wall :: time
  ev_timestamp_sim :: "time option"
  ev_sequence :: int
  ev_event_id :: string

definition event_as_dict :: "runtime_event \<Rightarrow> pydict" where
  "event_as_dict e =
     [(''event_type'', PStr (ev_event_type e)), (''source_component'', PStr (ev_source_component e)),
      (''payload'', PDict (ev_payload e)), (''severity'', PStr (ev_severity e)),
      (''experiment_id'', PStr (ev_experiment_id e)), (''run_id'', PStr (ev_run_id e)),
      (''affected_entity'', PStr (ev_affected_entity e)),
      (''correlation_id'', PStr (ev_correlation_id e)), (''command_id'', PStr (ev_command_id e)),
      (''model_version'', PStr (ev_model_version e)),
      (''timestamp_wall'', PFloat (ev_timestamp_wall e)),
      (''timestamp_sim'', opt_float (ev_timestamp_sim e)), (''sequence'', PInt (ev_sequence e)),
      (''event_id'', PStr (ev_event_id e))]"

section \<open>Vectors\<close>

type_synonym vec3 = "pyfloat \<times> pyfloat \<times> pyfloat"

definition normalize_vec3 :: "pyval list \<Rightarrow> vec3 res" where
  "normalize_vec3 value =
     (if length value \<noteq> 3 then Inl ValueError
      else bindR (mapR py_float value) (\<lambda>vs.
             if list_ex (\<lambda>v. \<not> feq v v \<or> feq (fabs v) PInf) vs then Inl ValueError
             else Inr (vs ! 0, vs ! 1, vs ! 2)))"

lemma normalize_vec3_finite:
  "normalize_vec3 vs = Inr (x, y, z) \<Longrightarrow> is_finite x \<and> is_finite y \<and> is_finite z"
proof -
  assume a: "normalize_vec3 vs = Inr (x, y, z)"
  then obtain ws where len: "length vs = 3" and ws: "mapR py_float vs = Inr ws"
    and ok: "\<not> list_ex (\<lambda>v. \<not> feq v v \<or> feq (fabs v) PInf) ws"
    and xyz: "x = ws ! 0" "y = ws ! 1" "z = ws ! 2"
    by (auto simp: normalize_vec3_def bindR_Inr_iff split: if_splits)
  from ws len have "length ws = 3" by (simp add: mapR_length)
  then have mem: "x \<in> set ws" "y \<in> set ws" "z \<in> set ws" by (simp_all add: xyz)
  have "is_finite v" if "v \<in> set ws" for v
    using ok that by (cases v) (auto simp: list_ex_iff)
  with mem show ?thesis by blast
qed

section \<open>Readiness\<close>

text \<open>The aggregate of \<open>contracts.py\<close>, the one the orchestrator and the API use.\<close>

record readiness =
  rd_docker_ready :: bool
  rd_gpu_ready :: bool
  rd_compose_ready :: bool
  rd_sionna_ready :: bool
  rd_ros_container_ready :: bool
  rd_ros_graph_ready :: bool
  rd_packet_runtime_ready :: bool
  rd_isaac_process_ready :: bool
  rd_isaac_scene_ready :: bool
  rd_isaac_heartbeat_ready :: bool
  rd_isaac_scenario_acknowledged :: bool
  rd_telemetry_ready :: bool
  rd_evidence_ready :: bool
  rd_synchronized :: bool

definition default_readiness :: readiness where
  "default_readiness =
     \<lparr>rd_docker_ready = False, rd_gpu_ready = False, rd_compose_ready = False,
      rd_sionna_ready = False, rd_ros_container_ready = False, rd_ros_graph_ready = False,
      rd_packet_runtime_ready = False, rd_isaac_process_ready = False,
      rd_isaac_scene_ready = False, rd_isaac_heartbeat_ready = False,
      rd_isaac_scenario_acknowledged = False, rd_telemetry_ready = False,
      rd_evidence_ready = False, rd_synchronized = False\<rparr>"

definition readiness_ready :: "readiness \<Rightarrow> bool" where
  "readiness_ready r =
     (rd_docker_ready r \<and> rd_compose_ready r \<and> rd_sionna_ready r \<and> rd_ros_container_ready r
      \<and> rd_ros_graph_ready r \<and> rd_packet_runtime_ready r \<and> rd_isaac_process_ready r
      \<and> rd_isaac_scene_ready r \<and> rd_isaac_heartbeat_ready r \<and> rd_isaac_scenario_acknowledged r
      \<and> rd_telemetry_ready r \<and> rd_synchronized r)"

definition readiness_to_dict :: "readiness \<Rightarrow> pydict" where
  "readiness_to_dict r =
     [(''docker_ready'', PBool (rd_docker_ready r)), (''gpu_ready'', PBool (rd_gpu_ready r)),
      (''compose_ready'', PBool (rd_compose_ready r)), (''sionna_ready'', PBool (rd_sionna_ready r)),
      (''ros_container_ready'', PBool (rd_ros_container_ready r)),
      (''ros_graph_ready'', PBool (rd_ros_graph_ready r)),
      (''packet_runtime_ready'', PBool (rd_packet_runtime_ready r)),
      (''isaac_process_ready'', PBool (rd_isaac_process_ready r)),
      (''isaac_scene_ready'', PBool (rd_isaac_scene_ready r)),
      (''isaac_heartbeat_ready'', PBool (rd_isaac_heartbeat_ready r)),
      (''isaac_scenario_acknowledged'', PBool (rd_isaac_scenario_acknowledged r)),
      (''telemetry_ready'', PBool (rd_telemetry_ready r)),
      (''evidence_ready'', PBool (rd_evidence_ready r)),
      (''synchronized'', PBool (rd_synchronized r)),
      (''ready'', PBool (readiness_ready r)), (''critical_ready'', PBool (readiness_ready r))]"

end
