(* ===== verification/Packet.thy ===== *)
theory Packet
  imports Models
begin

text \<open>
  \<open>netlab/packet.py\<close>: the authoritative packet and branch-stream state machine. A stream carries one
  packet at a time along its route; a packet's cursor moves over a hop only after the gate
  found that hop feasible. The operations take the clock and the identifier supply (\<open>env\<close>) and
  the runtime, and return them updated. The gate is the callable the runtime is given: a
  parameter, evaluated for one hop at a time.

  The \<open>streams\<close> dictionary is an association list in insertion order. An operation of the source
  that mutates one stream object in place is a function on that stream; the loops write it
  back.
\<close>

section \<open>State\<close>

record branch_stream =
  bs_branch_id :: string
  bs_route :: "string list"
  bs_source :: string
  bs_destination :: string
  bs_flow_id :: string
  bs_packet_size_bytes :: int
  bs_priority :: int
  bs_current_packet :: "packet_state option"
  bs_completed_packets :: int
  bs_dropped_packets :: int
  bs_paused :: bool
  bs_outage_reason :: "string option"
  bs_last_decision :: "pydict option"
  bs_last_event_at :: time

type_synonym streams = "(string \<times> branch_stream) list"

record packet_runtime =
  pr_mode :: string
  pr_streams :: streams
  pr_experiment_id :: string
  pr_run_id :: string
  pr_sequence :: int
  pr_event_sequence :: int
  pr_events :: "runtime_event list"

type_synonym gate_evaluator = "string \<Rightarrow> string \<Rightarrow> feasibility_decision"

section \<open>Operations\<close>

text \<open>\<open>BranchStream.new_packet\<close>; an empty route raises.\<close>

definition new_packet :: "env \<Rightarrow> branch_stream \<Rightarrow> int \<Rightarrow> (env \<times> branch_stream \<times> packet_state) res" where
  "new_packet w s sequence_number =
     (case bs_route s of
        [] \<Rightarrow> Inl IndexError
      | n # rest \<Rightarrow>
          (let packet =
                 \<lparr>pk_packet_id = fresh_uuid (env_uuid w), pk_flow_id = bs_flow_id s,
                  pk_branch_id = bs_branch_id s, pk_sequence_number = sequence_number,
                  pk_source = bs_source s, pk_destination = bs_destination s,
                  pk_route = bs_route s, pk_current_hop_index = 0, pk_current_node = n,
                  pk_next_node = (case rest of [] \<Rightarrow> '''' | m # _ \<Rightarrow> m),
                  pk_status = PS_QUEUED, pk_created_at = env_now w,
                  pk_queued_at = Some (env_now w), pk_transmitted_at = None,
                  pk_received_at = None, pk_dropped_at = None, pk_drop_reason = None,
                  pk_outage_reason = None, pk_ttl_s = Fin 60, pk_retries = 0,
                  pk_bytes = bs_packet_size_bytes s, pk_priority = bs_priority s,
                  pk_last_link_metric_id = None\<rparr>
           in Inr (w\<lparr>env_uuid := Suc (env_uuid w)\<rparr>,
                   s\<lparr>bs_current_packet := Some packet, bs_paused := False,
                     bs_outage_reason := None\<rparr>,
                   packet)))"

definition stream_as_dict :: "branch_stream \<Rightarrow> pydict" where
  "stream_as_dict s =
     [(''branch_id'', PStr (bs_branch_id s)), (''flow_id'', PStr (bs_flow_id s)),
      (''route'', PList (map PStr (bs_route s))), (''source'', PStr (bs_source s)),
      (''destination'', PStr (bs_destination s)),
      (''current_packet'',
        (case bs_current_packet s of None \<Rightarrow> PNone | Some p \<Rightarrow> PDict (packet_as_dict p))),
      (''completed_packets'', PInt (bs_completed_packets s)),
      (''dropped_packets'', PInt (bs_dropped_packets s)), (''paused'', PBool (bs_paused s)),
      (''outage_reason'', opt_str (bs_outage_reason s)),
      (''last_decision'', (case bs_last_decision s of None \<Rightarrow> PNone | Some d \<Rightarrow> PDict d)),
      (''last_event_at'', PFloat (bs_last_event_at s))]"

text \<open>\<open>PacketRuntime.from_branches\<close>.\<close>

definition make_stream :: "string \<Rightarrow> int \<Rightarrow> nat \<Rightarrow> int list \<Rightarrow> branch_stream" where
  "make_stream source packet_size_bytes branch_index branch =
     (let route = source # map (\<lambda>idx. ''drone_'' @ show_int idx) branch
      in \<lparr>bs_branch_id = ''branch_'' @ show_nat branch_index, bs_route = route,
          bs_source = hd route, bs_destination = last route,
          bs_flow_id = ''flow_'' @ show_nat branch_index,
          bs_packet_size_bytes = packet_size_bytes, bs_priority = 0,
          bs_current_packet = None, bs_completed_packets = 0, bs_dropped_packets = 0,
          bs_paused = False, bs_outage_reason = None, bs_last_decision = None,
          bs_last_event_at = Fin 0\<rparr>)"

fun branch_streams :: "string \<Rightarrow> int \<Rightarrow> nat \<Rightarrow> int list list \<Rightarrow> streams" where
  "branch_streams source bytes i [] = []"
| "branch_streams source bytes i (branch # branches) =
     (if Suc (length branch) < 2 then branch_streams source bytes (Suc i) branches
      else (''branch_'' @ show_nat i, make_stream source bytes i branch)
           # branch_streams source bytes (Suc i) branches)"

definition from_branches ::
  "int list list \<Rightarrow> string \<Rightarrow> string \<Rightarrow> string \<Rightarrow> string \<Rightarrow> int \<Rightarrow> packet_runtime" where
  "from_branches branches mode source experiment_id run_id packet_size_bytes =
     \<lparr>pr_mode = mode, pr_streams = branch_streams source packet_size_bytes 0 branches,
      pr_experiment_id = experiment_id, pr_run_id = run_id, pr_sequence = 0,
      pr_event_sequence = 0, pr_events = []\<rparr>"

text \<open>\<open>PacketRuntime._event\<close>.\<close>

definition emit_event ::
  "env \<Rightarrow> packet_runtime \<Rightarrow> string \<Rightarrow> pydict \<Rightarrow> string \<Rightarrow> string
   \<Rightarrow> env \<times> packet_runtime \<times> runtime_event" where
  "emit_event w rt event_type payload severity entity =
     (let n = pr_event_sequence rt + 1;
          event =
            \<lparr>ev_event_type = event_type, ev_source_component = ''packet_runtime'',
             ev_payload = payload, ev_severity = severity,
             ev_experiment_id = pr_experiment_id rt, ev_run_id = pr_run_id rt,
             ev_affected_entity = entity, ev_correlation_id = '''', ev_command_id = '''',
             ev_model_version = '''', ev_timestamp_wall = env_now w,
             ev_timestamp_sim = None, ev_sequence = n,
             ev_event_id = fresh_uuid (env_uuid w)\<rparr>
      in (w\<lparr>env_uuid := Suc (env_uuid w)\<rparr>,
          rt\<lparr>pr_event_sequence := n, pr_events := pr_events rt @ [event]\<rparr>, event))"

text \<open>A packet is created and announced: the body shared by \<open>ensure_packets\<close> and \<open>step_stream\<close>.\<close>

definition create_packet ::
  "env \<Rightarrow> packet_runtime \<Rightarrow> branch_stream \<Rightarrow> (env \<times> packet_runtime \<times> branch_stream \<times> packet_state) res" where
  "create_packet w rt s =
     (let rt1 = rt\<lparr>pr_sequence := pr_sequence rt + 1\<rparr>
      in bindR (new_packet w s (pr_sequence rt1)) (\<lambda>(w1, s1, packet).
           let (w2, rt2, _) = emit_event w1 rt1 ''PACKET_CREATED''
                 [(''packet'', PDict (packet_as_dict packet))] ''INFO'' (bs_branch_id s1)
           in Inr (w2, rt2, s1, packet)))"

text \<open>
  The loops \<open>for stream in self.streams.values()\<close>: an operation on one stream, applied to each in
  insertion order, its events collected.
\<close>

type_synonym stream_operation =
  "string \<Rightarrow> env \<Rightarrow> packet_runtime \<Rightarrow> branch_stream
   \<Rightarrow> (env \<times> packet_runtime \<times> branch_stream \<times> runtime_event list) res"

fun stream_loop ::
  "stream_operation \<Rightarrow> env \<Rightarrow> packet_runtime \<Rightarrow> streams
   \<Rightarrow> (env \<times> packet_runtime \<times> streams \<times> runtime_event list) res" where
  "stream_loop f w rt [] = Inr (w, rt, [], [])"
| "stream_loop f w rt ((k, s) # rest) =
     bindR (f k w rt s) (\<lambda>(w1, rt1, s1, es).
       bindR (stream_loop f w1 rt1 rest) (\<lambda>(w2, rt2, rest2, es2).
         Inr (w2, rt2, (k, s1) # rest2, es @ es2)))"

definition ensure_one :: stream_operation where
  "ensure_one k w rt s =
     (case bs_current_packet s of
        Some _ \<Rightarrow> Inr (w, rt, s, [])
      | None \<Rightarrow> bindR (create_packet w rt s) (\<lambda>(w1, rt1, s1, _). Inr (w1, rt1, s1, [])))"

definition ensure_packets :: "env \<Rightarrow> packet_runtime \<Rightarrow> (env \<times> packet_runtime) res" where
  "ensure_packets w rt =
     bindR (stream_loop ensure_one w rt (pr_streams rt)) (\<lambda>(w1, rt1, ss, _).
       Inr (w1, rt1\<lparr>pr_streams := ss\<rparr>))"

text \<open>
  \<open>step_stream\<close>, in its three parts: the packet the step is about, the delivery of a packet whose
  cursor is already at the end, and the attempt to cross the next hop.
\<close>

definition current_or_new ::
  "env \<Rightarrow> packet_runtime \<Rightarrow> branch_stream \<Rightarrow> (env \<times> packet_runtime \<times> branch_stream \<times> packet_state) res" where
  "current_or_new w rt s =
     (case bs_current_packet s of
        None \<Rightarrow>
          (let rt1 = rt\<lparr>pr_sequence := pr_sequence rt + 1\<rparr>
           in bindR (new_packet w s (pr_sequence rt1)) (\<lambda>(w1, s1, packet).
                Inr (w1, rt1, s1, packet)))
      | Some packet \<Rightarrow>
          if pk_status packet = PS_DELIVERED then create_packet w rt s
          else Inr (w, rt, s, packet))"

definition deliver_at_end ::
  "env \<Rightarrow> packet_runtime \<Rightarrow> branch_stream \<Rightarrow> packet_state
   \<Rightarrow> env \<times> packet_runtime \<times> branch_stream \<times> runtime_event" where
  "deliver_at_end w rt s packet =
     (let packet1 = packet\<lparr>pk_status := PS_DELIVERED, pk_received_at := Some (env_now w)\<rparr>;
          s1 = s\<lparr>bs_current_packet := Some packet1,
                 bs_completed_packets := bs_completed_packets s + 1,
                 bs_last_event_at := env_now w\<rparr>;
          (w', rt', event) = emit_event w rt ''PACKET_DELIVERED''
             [(''packet'', PDict (packet_as_dict packet1))] ''INFO'' (bs_branch_id s)
      in (w', rt', s1, event))"

definition hop_payload ::
  "packet_state \<Rightarrow> string \<Rightarrow> string \<Rightarrow> feasibility_decision \<Rightarrow> pydict" where
  "hop_payload packet src dst decision =
     [(''packet'', PDict (packet_as_dict packet)), (''src'', PStr src), (''dst'', PStr dst),
      (''gate'', PDict (decision_as_dict decision))]"

definition pause_outage ::
  "env \<Rightarrow> packet_runtime \<Rightarrow> branch_stream \<Rightarrow> packet_state \<Rightarrow> string \<Rightarrow> string
   \<Rightarrow> feasibility_decision \<Rightarrow> env \<times> packet_runtime \<times> branch_stream \<times> runtime_event" where
  "pause_outage w rt s packet src dst decision =
     (let reason = gate_reason_value (fd_reason decision);
          packet1 = packet\<lparr>pk_status := PS_PAUSED_OUTAGE, pk_outage_reason := Some reason\<rparr>;
          s1 = s\<lparr>bs_current_packet := Some packet1, bs_paused := True,
                 bs_outage_reason := Some reason\<rparr>;
          (w', rt', event) = emit_event w rt ''PACKET_PAUSED_OUTAGE''
             (hop_payload packet1 src dst decision
              @ [(''protocol_action'', PStr ''cursor_not_advanced'')])
             ''WARNING'' (bs_branch_id s)
      in (w', rt', s1, event))"

definition cross_hop ::
  "env \<Rightarrow> packet_runtime \<Rightarrow> branch_stream \<Rightarrow> packet_state \<Rightarrow> string \<Rightarrow> string
   \<Rightarrow> feasibility_decision \<Rightarrow> env \<times> packet_runtime \<times> branch_stream \<times> runtime_event" where
  "cross_hop w rt s packet src dst decision =
     (let i = pk_current_hop_index packet + 1;
          packet1 = packet\<lparr>pk_status := PS_TRANSMITTING, pk_transmitted_at := Some (env_now w),
             pk_last_link_metric_id := None, pk_current_hop_index := i, pk_current_node := dst,
             pk_next_node := (if i + 1 < length (pk_route packet) then pk_route packet ! (i + 1)
                              else ''''),
             pk_outage_reason := None\<rparr>;
          s1 = s\<lparr>bs_paused := False, bs_outage_reason := None\<rparr>
      in if i \<ge> length (pk_route packet) - 1
         then (let packet2 = packet1\<lparr>pk_status := PS_DELIVERED,
                       pk_received_at := Some (env_now w)\<rparr>;
                   s2 = s1\<lparr>bs_current_packet := Some packet2,
                           bs_completed_packets := bs_completed_packets s1 + 1\<rparr>;
                   (w', rt', event) = emit_event w rt ''PACKET_DELIVERED''
                      (hop_payload packet2 src dst decision) ''INFO'' (bs_branch_id s)
               in (w', rt', s2, event))
         else (let packet2 = packet1\<lparr>pk_status := PS_ADVANCED\<rparr>;
                   s2 = s1\<lparr>bs_current_packet := Some packet2\<rparr>;
                   (w', rt', event) = emit_event w rt ''PACKET_ADVANCED''
                      (hop_payload packet2 src dst decision) ''INFO'' (bs_branch_id s)
               in (w', rt', s2, event)))"

definition attempt_hop ::
  "env \<Rightarrow> packet_runtime \<Rightarrow> branch_stream \<Rightarrow> packet_state \<Rightarrow> gate_evaluator
   \<Rightarrow> env \<times> packet_runtime \<times> branch_stream \<times> runtime_event" where
  "attempt_hop w rt s packet gate =
     (let src = pk_route packet ! pk_current_hop_index packet;
          dst = pk_route packet ! (pk_current_hop_index packet + 1);
          packet1 = packet\<lparr>pk_current_node := src, pk_next_node := dst,
                           pk_status := PS_WAITING_FOR_LINK\<rparr>;
          decision = gate src dst;
          s1 = s\<lparr>bs_last_decision := Some (decision_as_dict decision),
                 bs_last_event_at := env_now w\<rparr>
      in if \<not> fd_feasible decision then pause_outage w rt s1 packet1 src dst decision
         else cross_hop w rt s1 packet1 src dst decision)"

definition step_stream ::
  "env \<Rightarrow> packet_runtime \<Rightarrow> branch_stream \<Rightarrow> gate_evaluator
   \<Rightarrow> (env \<times> packet_runtime \<times> branch_stream \<times> runtime_event) res" where
  "step_stream w rt s gate =
     bindR (current_or_new w rt s) (\<lambda>(w1, rt1, s1, packet).
       if pk_current_hop_index packet \<ge> length (pk_route packet) - 1
       then Inr (deliver_at_end w1 rt1 s1 packet)
       else Inr (attempt_hop w1 rt1 s1 packet gate))"

definition step_one :: "gate_evaluator \<Rightarrow> stream_operation" where
  "step_one gate k w rt s =
     bindR (step_stream w rt s gate) (\<lambda>(w1, rt1, s1, event). Inr (w1, rt1, s1, [event]))"

text \<open>\<open>PacketRuntime.step\<close>: in chain mode only the first stream moves.\<close>

definition step :: "env \<Rightarrow> packet_runtime \<Rightarrow> gate_evaluator
   \<Rightarrow> (env \<times> packet_runtime \<times> runtime_event list) res" where
  "step w rt gate =
     bindR (ensure_packets w rt) (\<lambda>(w1, rt1).
       if pr_mode rt1 = ''chain''
       then (case pr_streams rt1 of
               [] \<Rightarrow> Inr (w1, rt1, [])
             | (k, s) # rest \<Rightarrow>
                 bindR (step_one gate k w1 rt1 s) (\<lambda>(w2, rt2, s2, events).
                   Inr (w2, rt2\<lparr>pr_streams := (k, s2) # rest\<rparr>, events)))
       else bindR (stream_loop (step_one gate) w1 rt1 (pr_streams rt1)) (\<lambda>(w2, rt2, ss, events).
              Inr (w2, rt2\<lparr>pr_streams := ss\<rparr>, events)))"

text \<open>\<open>PacketRuntime.clear_outage\<close>.\<close>

definition clear_stream :: "branch_stream \<Rightarrow> branch_stream" where
  "clear_stream s =
     (let s1 = s\<lparr>bs_paused := False, bs_outage_reason := None\<rparr>
      in case bs_current_packet s of
           Some p \<Rightarrow>
             if pk_status p = PS_PAUSED_OUTAGE
             then s1\<lparr>bs_current_packet := Some (p\<lparr>pk_status := PS_RETRYING,
                       pk_retries := pk_retries p + 1, pk_outage_reason := None\<rparr>)\<rparr>
             else s1
         | None \<Rightarrow> s1)"

definition clear_one :: "(string \<Rightarrow> bool) \<Rightarrow> stream_operation" where
  "clear_one sel k w rt s =
     (if sel k
      then (let (w1, rt1, _) = emit_event w rt ''PACKET_RETRY_ENABLED''
                  [(''branch_id'', PStr (bs_branch_id s))] ''INFO'' (bs_branch_id s)
            in Inr (w1, rt1, clear_stream s, []))
      else Inr (w, rt, s, []))"

definition clear_targets :: "packet_runtime \<Rightarrow> string option \<Rightarrow> string \<Rightarrow> bool" where
  "clear_targets rt branch_id k =
     (case branch_id of
        None \<Rightarrow> True
      | Some b \<Rightarrow> if b \<noteq> [] \<and> b \<in> set (dict_keys (pr_streams rt)) then k = b else True)"

definition clear_outage :: "env \<Rightarrow> packet_runtime \<Rightarrow> string option \<Rightarrow> (env \<times> packet_runtime) res" where
  "clear_outage w rt branch_id =
     bindR (stream_loop (clear_one (clear_targets rt branch_id)) w rt (pr_streams rt))
       (\<lambda>(w1, rt1, ss, _). Inr (w1, rt1\<lparr>pr_streams := ss\<rparr>))"

text \<open>\<open>PacketRuntime.replace_route\<close>.\<close>

definition replace_one :: "string list \<Rightarrow> stream_operation" where
  "replace_one route branch_id w rt s =
     (if length route < 2 then Inl ValueError
      else (let s1 = s\<lparr>bs_route := route, bs_source := hd route, bs_destination := last route\<rparr>;
                rt1 = rt\<lparr>pr_sequence := pr_sequence rt + 1\<rparr>
            in bindR (new_packet w s1 (pr_sequence rt1)) (\<lambda>(w1, s2, _).
                 let (w2, rt2, event) = emit_event w1 rt1 ''ROUTE_RECOMPUTED''
                       [(''branch_id'', PStr branch_id), (''route'', PList (map PStr route))]
                       ''INFO'' branch_id
                 in Inr (w2, rt2, s2, []))))"

definition replace_route ::
  "env \<Rightarrow> packet_runtime \<Rightarrow> string \<Rightarrow> string list \<Rightarrow> (env \<times> packet_runtime) res" where
  "replace_route w rt branch_id route =
     (case map_of (pr_streams rt) branch_id of
        None \<Rightarrow> Inl (KeyError branch_id)
      | Some s \<Rightarrow>
          bindR (replace_one route branch_id w rt s) (\<lambda>(w1, rt1, s2, _).
            Inr (w1, rt1\<lparr>pr_streams := AList.update branch_id s2 (pr_streams rt1)\<rparr>)))"

text \<open>\<open>PacketRuntime.summary\<close>.\<close>

definition packet_summary :: "packet_runtime \<Rightarrow> pydict" where
  "packet_summary rt =
     (let ss = map snd (pr_streams rt);
          packets = List.map_filter bs_current_packet ss;
          paused = map bs_branch_id (filter bs_paused ss)
      in [(''mode'', PStr (pr_mode rt)), (''stream_count'', PInt (int (length ss))),
          (''streams'', PList (map (PDict \<circ> stream_as_dict) ss)),
          (''packet_advancing'',
            PBool (list_ex (\<lambda>p. pk_status p \<in> {PS_ADVANCED, PS_TRANSMITTING, PS_DELIVERED})
                     packets)),
          (''paused_branches'', PList (map PStr paused)),
          (''all_paused'', PBool (ss \<noteq> [] \<and> length paused = length ss)),
          (''delivered_packets'', PInt (sum_list (map bs_completed_packets ss))),
          (''event_sequence'', PInt (pr_event_sequence rt))])"

definition constant_decision :: "time \<Rightarrow> bool \<Rightarrow> gate_reason \<Rightarrow> feasibility_decision" where
  "constant_decision now feasible reason =
     \<lparr>fd_feasible = feasible, fd_reason = reason, fd_predicates = [], fd_metric_age_s = None,
      fd_evaluated_at = now\<rparr>"


section \<open>Invariants\<close>

text \<open>
  A packet in flight: its cursor is on its route, the two node fields name the cursor's node and
  the next one, and it is delivered exactly when the cursor is at the end.
\<close>

definition packet_ok :: "packet_state \<Rightarrow> bool" where
  "packet_ok p \<longleftrightarrow>
     2 \<le> length (pk_route p) \<and> pk_current_hop_index p < length (pk_route p)
     \<and> pk_current_node p = pk_route p ! pk_current_hop_index p
     \<and> pk_next_node p =
         (if pk_current_hop_index p + 1 < length (pk_route p)
          then pk_route p ! (pk_current_hop_index p + 1) else '''')
     \<and> (pk_status p = PS_DELIVERED \<longleftrightarrow> pk_current_hop_index p = length (pk_route p) - 1)"

text \<open>The packet of a stream is on the stream's route, and the stream mirrors its outage.\<close>

definition stream_ok :: "branch_stream \<Rightarrow> bool" where
  "stream_ok s \<longleftrightarrow>
     2 \<le> length (bs_route s) \<and> bs_source s = hd (bs_route s)
     \<and> bs_destination s = last (bs_route s)
     \<and> (case bs_current_packet s of
          None \<Rightarrow> \<not> bs_paused s \<and> bs_outage_reason s = None
        | Some p \<Rightarrow> packet_ok p \<and> pk_route p = bs_route s \<and> (bs_paused s \<longleftrightarrow> pk_status p = PS_PAUSED_OUTAGE)
            \<and> bs_outage_reason s = pk_outage_reason p
            \<and> (bs_paused s \<longleftrightarrow> pk_outage_reason p \<noteq> None))"

abbreviation is_delivery :: "runtime_event \<Rightarrow> bool" where
  "is_delivery e \<equiv> ev_event_type e = ''PACKET_DELIVERED''"

text \<open>How an operation extends the event log: the events it appends, numbered on.\<close>

definition log_ext :: "packet_runtime \<Rightarrow> runtime_event list \<Rightarrow> packet_runtime \<Rightarrow> bool" where
  "log_ext rt es rt' \<longleftrightarrow>
     pr_mode rt' = pr_mode rt \<and> pr_streams rt' = pr_streams rt
     \<and> pr_events rt' = pr_events rt @ es
     \<and> pr_event_sequence rt' = pr_event_sequence rt + int (length es)
     \<and> (\<forall>i < length es. ev_sequence (es ! i) = pr_event_sequence rt + int i + 1)
     \<and> pr_sequence rt \<le> pr_sequence rt'"

lemma log_ext_refl: "log_ext rt [] rt"
  by (simp add: log_ext_def)

lemma log_ext_trans:
  assumes "log_ext rt es rt1" and "log_ext rt1 es1 rt2"
  shows "log_ext rt (es @ es1) rt2"
  using assms by (auto simp: log_ext_def nth_append)

lemma emit_event_log:
  assumes "emit_event w rt t pl sev ent = (w', rt', e)"
  shows "log_ext rt [e] rt'" and "pr_sequence rt' = pr_sequence rt"
    and "ev_event_type e = t" and "ev_affected_entity e = ent" and "ev_payload e = pl"
  using assms by (auto simp: emit_event_def Let_def log_ext_def)

lemma new_packet_ok:
  assumes "2 \<le> length (bs_route s)"
  obtains w' p where "new_packet w s n = Inr (w', s\<lparr>bs_current_packet := Some p,
      bs_paused := False, bs_outage_reason := None\<rparr>, p)"
    and "packet_ok p" "pk_status p = PS_QUEUED" "pk_sequence_number p = n"
    and "pk_outage_reason p = None" "pk_route p = bs_route s" "pk_current_hop_index p = 0"
    and "pk_branch_id p = bs_branch_id s"
proof -
  from assms obtain a b r where r: "bs_route s = a # b # r"
    by (cases "bs_route s"; cases "tl (bs_route s)") auto
  show ?thesis
    by (rule that [of "w\<lparr>env_uuid := Suc (env_uuid w)\<rparr>"
          "snd (snd (projr (new_packet w s n)))"])
       (simp_all add: new_packet_def r packet_ok_def Let_def)
qed

lemma stream_ok_renewed:
  assumes "stream_ok s" "packet_ok p" "pk_route p = bs_route s" "pk_status p \<noteq> PS_PAUSED_OUTAGE"
    and "pk_outage_reason p = None"
  shows "stream_ok (s\<lparr>bs_current_packet := Some p, bs_paused := False, bs_outage_reason := None\<rparr>)"
  using assms by (simp add: stream_ok_def)

end
