(* ===== verification/Packet_Props.thy ===== *)
theory Packet_Props
  imports Packet
begin

text \<open>
  Properties of the packet state machine. The contract that every operation on one stream keeps
  is the locale \<open>stream_op\<close>; the loop over the streams is proved once inside it and instantiated
  for creating packets, stepping and clearing outages. The runtime invariant \<open>runtime_ok\<close> then
  holds in every state reachable by the public operations.
\<close>

section \<open>The contract of an operation on one stream\<close>

text \<open>The event log grows by events of that stream, deliveries are counted, and the packet in
  flight is the old one or one with a fresh sequence number.\<close>

definition packet_seq :: "branch_stream \<Rightarrow> int option" where
  "packet_seq s = map_option pk_sequence_number (bs_current_packet s)"

definition stream_step ::
  "packet_runtime \<Rightarrow> branch_stream \<Rightarrow> runtime_event list \<Rightarrow> packet_runtime \<Rightarrow> branch_stream \<Rightarrow> bool" where
  "stream_step rt s evs rt' s' \<longleftrightarrow>
     log_ext rt evs rt' \<and> stream_ok s' \<and> bs_branch_id s' = bs_branch_id s
     \<and> (\<forall>e\<in>set evs. ev_affected_entity e = bs_branch_id s)
     \<and> bs_completed_packets s' = bs_completed_packets s + int (length (filter is_delivery evs))
     \<and> (\<forall>n. packet_seq s' = Some n \<longrightarrow>
          packet_seq s = Some n \<or> pr_sequence rt < n \<and> n \<le> pr_sequence rt')"

lemma stream_step_refl: "stream_ok s \<Longrightarrow> stream_step rt s [] rt s"
  by (simp add: stream_step_def log_ext_refl)

lemma stream_step_trans:
  assumes "stream_step rt s evs rt1 s1" and "stream_step rt1 s1 evs1 rt2 s2"
  shows "stream_step rt s (evs @ evs1) rt2 s2"
proof -
  from assms have mono: "pr_sequence rt \<le> pr_sequence rt1" "pr_sequence rt1 \<le> pr_sequence rt2"
    by (simp_all add: stream_step_def log_ext_def)
  have seqs: "packet_seq s = Some n \<or> pr_sequence rt < n \<and> n \<le> pr_sequence rt2"
    if "packet_seq s2 = Some n" for n
  proof -
    from assms(2) that consider "packet_seq s1 = Some n" | "pr_sequence rt1 < n \<and> n \<le> pr_sequence rt2"
      unfolding stream_step_def by blast
    then show ?thesis
    proof cases
      case 1
      with assms(1) have "packet_seq s = Some n \<or> pr_sequence rt < n \<and> n \<le> pr_sequence rt1"
        unfolding stream_step_def by blast
      with mono show ?thesis by linarith
    next
      case 2
      with mono show ?thesis by linarith
    qed
  qed
  have "log_ext rt (evs @ evs1) rt2"
    using assms by (auto simp: stream_step_def intro: log_ext_trans)
  with assms seqs show ?thesis
    unfolding stream_step_def by auto
qed

text \<open>Creating a packet, with and without the announcement.\<close>

lemma new_packet_step:
  assumes "stream_ok s"
  obtains w' s' p where "new_packet w s (pr_sequence rt + 1) = Inr (w', s', p)"
    and "stream_step rt s [] (rt\<lparr>pr_sequence := pr_sequence rt + 1\<rparr>) s'"
    and "bs_current_packet s' = Some p" "packet_ok p" "pk_status p = PS_QUEUED"
    and "pk_current_hop_index p = 0" "pk_route p = bs_route s" "bs_route s' = bs_route s"
    and "pk_sequence_number p = pr_sequence rt + 1"
proof -
  from assms have "2 \<le> length (bs_route s)" by (simp add: stream_ok_def)
  then obtain w' p where np: "new_packet w s (pr_sequence rt + 1) = Inr (w', s\<lparr>bs_current_packet := Some p,
      bs_paused := False, bs_outage_reason := None\<rparr>, p)"
    and p: "packet_ok p" "pk_status p = PS_QUEUED" "pk_sequence_number p = pr_sequence rt + 1"
      "pk_outage_reason p = None" "pk_route p = bs_route s" "pk_current_hop_index p = 0"
    by (rule new_packet_ok)
  show ?thesis
  proof (rule that [OF np])
    show "stream_step rt s [] (rt\<lparr>pr_sequence := pr_sequence rt + 1\<rparr>)
        (s\<lparr>bs_current_packet := Some p, bs_paused := False, bs_outage_reason := None\<rparr>)"
      using p stream_ok_renewed [OF assms p(1) p(5)]
      by (auto simp: stream_step_def log_ext_def packet_seq_def)
  qed (use p in simp_all)
qed

lemma create_packet_step:
  assumes "stream_ok s"
  obtains w' rt' s' p e where "create_packet w rt s = Inr (w', rt', s', p)"
    and "stream_step rt s [e] rt' s'" "ev_event_type e = ''PACKET_CREATED''"
    and "bs_current_packet s' = Some p" "packet_ok p" "pk_status p = PS_QUEUED"
    and "pk_current_hop_index p = 0" "pk_route p = bs_route s" "bs_route s' = bs_route s"
    and "pk_sequence_number p = pr_sequence rt + 1"
proof -
  let ?rt = "rt\<lparr>pr_sequence := pr_sequence rt + 1\<rparr>"
  obtain w1 s' p where np: "new_packet w s (pr_sequence rt + 1) = Inr (w1, s', p)"
    and st: "stream_step rt s [] ?rt s'"
    and p: "bs_current_packet s' = Some p" "packet_ok p" "pk_status p = PS_QUEUED"
      "pk_current_hop_index p = 0" "pk_route p = bs_route s" "bs_route s' = bs_route s"
      "pk_sequence_number p = pr_sequence rt + 1"
    using new_packet_step [OF assms] by metis
  obtain w2 rt2 e where em: "emit_event w1 ?rt ''PACKET_CREATED''
      [(''packet'', PDict (packet_as_dict p))] ''INFO'' (bs_branch_id s') = (w2, rt2, e)"
    by (metis prod_cases3)
  note evs = emit_event_log [OF em]
  have "stream_step ?rt s' [e] rt2 s'"
    using st evs by (simp add: stream_step_def)
  with st have "stream_step rt s ([] @ [e]) rt2 s'" by (rule stream_step_trans)
  moreover have "create_packet w rt s = Inr (w2, rt2, s', p)"
    by (simp add: create_packet_def np em Let_def)
  ultimately show ?thesis
    using p evs by (intro that [of w2 rt2 s' p e]) simp_all
qed

section \<open>One step of one stream\<close>

text \<open>The packet the step is about.\<close>

lemma current_or_new_step:
  assumes "stream_ok s"
  obtains w' rt' s' p evs where "current_or_new w rt s = Inr (w', rt', s', p)"
    and "stream_step rt s evs rt' s'" "bs_current_packet s' = Some p"
    and "pk_current_hop_index p < length (pk_route p) - 1"
    and "filter is_delivery evs = []"
    and "\<forall>q. bs_current_packet s = Some q \<and> pk_status q \<noteq> PS_DELIVERED \<longrightarrow>
           p = q \<and> s' = s \<and> rt' = rt \<and> w' = w \<and> evs = []"
    and "bs_route s' = bs_route s"
    and "(\<forall>q. bs_current_packet s = Some q \<longrightarrow> pk_status q = PS_DELIVERED) \<longrightarrow>
           pk_current_hop_index p = 0 \<and> pk_route p = bs_route s
           \<and> pk_sequence_number p = pr_sequence rt + 1 \<and> bs_route s' = bs_route s"
proof (cases "bs_current_packet s")
  case None
  obtain w1 s1 p where np: "new_packet w s (pr_sequence rt + 1) = Inr (w1, s1, p)"
    and st: "stream_step rt s [] (rt\<lparr>pr_sequence := pr_sequence rt + 1\<rparr>) s1"
    and p: "bs_current_packet s1 = Some p" "packet_ok p" "pk_status p = PS_QUEUED"
      "pk_current_hop_index p = 0" "pk_route p = bs_route s" "bs_route s1 = bs_route s"
      "pk_sequence_number p = pr_sequence rt + 1"
    using new_packet_step [OF assms] by metis
  have "current_or_new w rt s = Inr (w1, rt\<lparr>pr_sequence := pr_sequence rt + 1\<rparr>, s1, p)"
    by (simp add: current_or_new_def None np)
  then show ?thesis
    by (rule that) (use None st p in \<open>auto simp: packet_ok_def\<close>)
next
  case (Some q)
  with assms have q: "packet_ok q" by (simp add: stream_ok_def)
  show ?thesis
  proof (cases "pk_status q = PS_DELIVERED")
    case True
    obtain w1 rt1 s1 p e where cp: "create_packet w rt s = Inr (w1, rt1, s1, p)"
      and st: "stream_step rt s [e] rt1 s1" and e: "ev_event_type e = ''PACKET_CREATED''"
      and p: "bs_current_packet s1 = Some p" "packet_ok p" "pk_status p = PS_QUEUED"
        "pk_current_hop_index p = 0" "pk_route p = bs_route s" "bs_route s1 = bs_route s"
        "pk_sequence_number p = pr_sequence rt + 1"
      using create_packet_step [OF assms] by metis
    have "current_or_new w rt s = Inr (w1, rt1, s1, p)"
      by (simp add: current_or_new_def Some True cp)
    then show ?thesis
      by (rule that [OF _ st]) (use Some True e p in \<open>auto simp: packet_ok_def\<close>)
  next
    case False
    then have "current_or_new w rt s = Inr (w, rt, s, q)"
      by (simp add: current_or_new_def Some)
    then show ?thesis
      by (rule that [OF _ stream_step_refl [OF assms]])
        (use Some False q in \<open>auto simp: packet_ok_def\<close>)
  qed
qed

text \<open>The attempt to cross a hop, in both outcomes.\<close>

lemma pause_outage_step:
  assumes "stream_ok s" "bs_current_packet s = Some p0" "pk_sequence_number p0 = pk_sequence_number p"
    "pk_route p = bs_route s" "packet_ok p" "pk_status p \<noteq> PS_DELIVERED"
    "pause_outage w rt s p src dst d = (w', rt', s', e)"
  shows "stream_step rt s [e] rt' s'" and "ev_event_type e = ''PACKET_PAUSED_OUTAGE''"
    and "bs_current_packet s' = Some (p\<lparr>pk_status := PS_PAUSED_OUTAGE,
           pk_outage_reason := Some (gate_reason_value (fd_reason d))\<rparr>)"
    and "bs_paused s'" and "bs_completed_packets s' = bs_completed_packets s"
    and "bs_route s' = bs_route s"
proof -
  obtain w2 rt2 e2 where em: "emit_event w rt ''PACKET_PAUSED_OUTAGE''
      (hop_payload (p\<lparr>pk_status := PS_PAUSED_OUTAGE,
           pk_outage_reason := Some (gate_reason_value (fd_reason d))\<rparr>) src dst d
       @ [(''protocol_action'', PStr ''cursor_not_advanced'')]) ''WARNING'' (bs_branch_id s)
      = (w2, rt2, e2)"
    by (metis prod_cases3)
  from assms(7) em have r: "rt' = rt2" "e = e2" "s' = s\<lparr>bs_current_packet :=
      Some (p\<lparr>pk_status := PS_PAUSED_OUTAGE,
           pk_outage_reason := Some (gate_reason_value (fd_reason d))\<rparr>),
      bs_paused := True, bs_outage_reason := Some (gate_reason_value (fd_reason d))\<rparr>"
    by (simp_all add: pause_outage_def Let_def)
  note evs = emit_event_log [OF em]
  show "stream_step rt s [e] rt' s'"
    using assms(1-6) evs by (auto simp: stream_step_def r stream_ok_def packet_ok_def packet_seq_def)
  show "ev_event_type e = ''PACKET_PAUSED_OUTAGE''" using evs by (simp add: r)
qed (use assms(7) in \<open>auto simp: pause_outage_def Let_def split: prod.splits\<close>)

definition crossed :: "env \<Rightarrow> packet_state \<Rightarrow> string \<Rightarrow> packet_state" where
  "crossed w p dst =
     (let i = pk_current_hop_index p + 1
      in p\<lparr>pk_status := PS_TRANSMITTING, pk_transmitted_at := Some (env_now w),
           pk_last_link_metric_id := None, pk_current_hop_index := i, pk_current_node := dst,
           pk_next_node := (if i + 1 < length (pk_route p) then pk_route p ! (i + 1) else ''''),
           pk_outage_reason := None\<rparr>)"

definition arrived :: "env \<Rightarrow> packet_state \<Rightarrow> packet_state" where
  "arrived w p =
     (if pk_current_hop_index p \<ge> length (pk_route p) - 1
      then p\<lparr>pk_status := PS_DELIVERED, pk_received_at := Some (env_now w)\<rparr>
      else p\<lparr>pk_status := PS_ADVANCED\<rparr>)"

lemma crossed_fields [simp]:
  "pk_current_hop_index (crossed w p dst) = pk_current_hop_index p + 1"
  "pk_route (crossed w p dst) = pk_route p"
  "pk_sequence_number (crossed w p dst) = pk_sequence_number p"
  "pk_outage_reason (crossed w p dst) = None"
  "pk_current_node (crossed w p dst) = dst"
  by (simp_all add: crossed_def Let_def)

lemma arrived_fields [simp]:
  "pk_current_hop_index (arrived w p) = pk_current_hop_index p"
  "pk_route (arrived w p) = pk_route p"
  "pk_sequence_number (arrived w p) = pk_sequence_number p"
  "pk_outage_reason (arrived w p) = pk_outage_reason p"
  "pk_current_node (arrived w p) = pk_current_node p"
  "pk_next_node (arrived w p) = pk_next_node p"
  "pk_status (arrived w p) =
     (if pk_current_hop_index p \<ge> length (pk_route p) - 1 then PS_DELIVERED else PS_ADVANCED)"
  by (simp_all add: arrived_def)

lemma cross_hop_alt:
  "cross_hop w rt s p src dst d =
     (let p1 = crossed w p dst; p2 = arrived w p1;
          fin = (pk_current_hop_index p1 \<ge> length (pk_route p1) - 1);
          s1 = s\<lparr>bs_paused := False, bs_outage_reason := None, bs_current_packet := Some p2,
                 bs_completed_packets := bs_completed_packets s + (if fin then 1 else 0)\<rparr>;
          (w', rt', event) = emit_event w rt (if fin then ''PACKET_DELIVERED'' else ''PACKET_ADVANCED'')
             (hop_payload p2 src dst d) ''INFO'' (bs_branch_id s)
      in (w', rt', s1, event))"
  by (simp add: cross_hop_def crossed_def arrived_def Let_def split: prod.splits)

lemma packet_ok_crossed:
  assumes "packet_ok p" "pk_current_hop_index p < length (pk_route p) - 1"
    "dst = pk_route p ! (pk_current_hop_index p + 1)"
  shows "packet_ok (arrived w (crossed w p dst))"
  using assms by (auto simp: packet_ok_def crossed_def Let_def)

lemma cross_hop_step:
  assumes s: "stream_ok s" "bs_current_packet s = Some p0" "pk_sequence_number p0 = pk_sequence_number p"
    and route: "pk_route p = bs_route s"
    and p: "packet_ok p" "pk_current_hop_index p < length (pk_route p) - 1"
    and dst: "dst = pk_route p ! (pk_current_hop_index p + 1)"
    and run: "cross_hop w rt s p src dst d = (w', rt', s', e)"
  shows "stream_step rt s [e] rt' s'"
    and "bs_current_packet s' = Some (arrived w (crossed w p dst))"
    and "\<not> bs_paused s'" and "bs_route s' = bs_route s"
    and "ev_event_type e = (if pk_current_hop_index p + 1 \<ge> length (pk_route p) - 1
           then ''PACKET_DELIVERED'' else ''PACKET_ADVANCED'')"
    and "ev_payload e = hop_payload (arrived w (crossed w p dst)) src dst d"
proof -
  let ?fin = "pk_current_hop_index p + 1 \<ge> length (pk_route p) - 1"
  let ?p2 = "arrived w (crossed w p dst)"
  obtain w2 rt2 e2 where em: "emit_event w rt
      (if ?fin then ''PACKET_DELIVERED'' else ''PACKET_ADVANCED'')
      (hop_payload ?p2 src dst d) ''INFO'' (bs_branch_id s) = (w2, rt2, e2)"
    by (metis prod_cases3)
  then have r: "rt' = rt2" "e = e2"
    "s' = s\<lparr>bs_paused := False, bs_outage_reason := None, bs_current_packet := Some ?p2,
            bs_completed_packets := bs_completed_packets s + (if ?fin then 1 else 0)\<rparr>"
    using run by (simp_all add: cross_hop_alt Let_def)
  note lg = emit_event_log [OF em]
  show "ev_event_type e = (if ?fin then ''PACKET_DELIVERED'' else ''PACKET_ADVANCED'')"
    "ev_payload e = hop_payload ?p2 src dst d"
    using lg by (simp_all add: r)
  have "stream_ok s'"
    using s(1) route packet_ok_crossed [OF p dst] by (simp add: r stream_ok_def)
  then show "stream_step rt s [e] rt' s'"
    using lg s(2,3) by (simp add: stream_step_def r packet_seq_def)
qed (use run in \<open>simp_all add: cross_hop_alt Let_def split: prod.splits\<close>, auto)

section \<open>A whole step of a stream\<close>

lemma stream_ok_decision [simp]:
  "stream_ok (s\<lparr>bs_last_decision := d, bs_last_event_at := t\<rparr>) \<longleftrightarrow> stream_ok s"
  by (simp add: stream_ok_def split: option.splits)

text \<open>
  The packet \<open>p\<close> a step is about, and its two outcomes: the hop is infeasible and the cursor stays,
  or it is feasible and the cursor moves by one.
\<close>

definition hop_src :: "packet_state \<Rightarrow> string" where
  "hop_src p = pk_route p ! pk_current_hop_index p"

definition hop_dst :: "packet_state \<Rightarrow> string" where
  "hop_dst p = pk_route p ! (pk_current_hop_index p + 1)"

definition waiting :: "packet_state \<Rightarrow> packet_state" where
  "waiting p = p\<lparr>pk_current_node := hop_src p, pk_next_node := hop_dst p,
                 pk_status := PS_WAITING_FOR_LINK\<rparr>"

definition paused_packet :: "packet_state \<Rightarrow> feasibility_decision \<Rightarrow> packet_state" where
  "paused_packet p d = (waiting p)\<lparr>pk_status := PS_PAUSED_OUTAGE,
      pk_outage_reason := Some (gate_reason_value (fd_reason d))\<rparr>"

definition moved_packet :: "env \<Rightarrow> packet_state \<Rightarrow> packet_state" where
  "moved_packet w p = arrived w (crossed w (waiting p) (hop_dst p))"

lemma attempt_hop_step:
  assumes s: "stream_ok s" "bs_current_packet s = Some p"
    and p: "pk_current_hop_index p < length (pk_route p) - 1"
    and run: "attempt_hop w rt s p gate = (w', rt', s', e)"
  defines "d \<equiv> gate (hop_src p) (hop_dst p)"
  shows "stream_step rt s [e] rt' s'"
    and "bs_current_packet s' =
           Some (if fd_feasible d then moved_packet w p else paused_packet p d)"
    and "bs_paused s' \<longleftrightarrow> \<not> fd_feasible d"
    and "ev_event_type e =
           (if \<not> fd_feasible d then ''PACKET_PAUSED_OUTAGE''
            else if pk_current_hop_index p + 1 \<ge> length (pk_route p) - 1 then ''PACKET_DELIVERED''
            else ''PACKET_ADVANCED'')"
    and "\<not> fd_feasible d \<Longrightarrow> bs_completed_packets s' = bs_completed_packets s"
    and "bs_route s' = bs_route s"
proof -
  let ?s1 = "s\<lparr>bs_last_decision := Some (decision_as_dict d), bs_last_event_at := env_now w\<rparr>"
  have ok1: "stream_ok ?s1" and cur1: "bs_current_packet ?s1 = Some p"
    using s by simp_all
  have pok: "packet_ok (waiting p)"
    using s p by (auto simp: stream_ok_def packet_ok_def waiting_def hop_src_def hop_dst_def)
  have run': "(if \<not> fd_feasible d then pause_outage w rt ?s1 (waiting p) (hop_src p) (hop_dst p) d
       else cross_hop w rt ?s1 (waiting p) (hop_src p) (hop_dst p) d) = (w', rt', s', e)"
    by (rule run [unfolded attempt_hop_def Let_def, folded hop_src_def hop_dst_def, folded waiting_def d_def])
  have from1: "stream_step rt s es rt2 t" if "stream_step rt ?s1 es rt2 t" for es rt2 t
    using that by (simp add: stream_step_def packet_seq_def)
  have seq: "pk_sequence_number p = pk_sequence_number (waiting p)"
    and idx: "pk_current_hop_index (waiting p) = pk_current_hop_index p"
    and rte: "pk_route (waiting p) = pk_route p"
    and stat: "pk_status (waiting p) \<noteq> PS_DELIVERED"
    by (simp_all add: waiting_def)
  have rt1: "pk_route (waiting p) = bs_route ?s1"
    using s rte by (simp add: stream_ok_def)
  have main: "stream_step rt s [e] rt' s' \<and>
      bs_current_packet s' = Some (if fd_feasible d then moved_packet w p else paused_packet p d) \<and>
      (bs_paused s' \<longleftrightarrow> \<not> fd_feasible d) \<and>
      ev_event_type e =
       (if \<not> fd_feasible d then ''PACKET_PAUSED_OUTAGE''
        else if pk_current_hop_index p + 1 \<ge> length (pk_route p) - 1 then ''PACKET_DELIVERED''
        else ''PACKET_ADVANCED'') \<and>
      (\<not> fd_feasible d \<longrightarrow> bs_completed_packets s' = bs_completed_packets s) \<and>
      bs_route s' = bs_route s"
  proof (cases "fd_feasible d")
    case False
    with run' have pr: "pause_outage w rt ?s1 (waiting p) (hop_src p) (hop_dst p) d = (w', rt', s', e)"
      by simp
    show ?thesis
      using pause_outage_step [OF ok1 cur1 seq rt1 pok stat pr] False from1
      by (simp add: paused_packet_def)
  next
    case True
    with run' have cr: "cross_hop w rt ?s1 (waiting p) (hop_src p) (hop_dst p) d = (w', rt', s', e)"
      by simp
    have lt: "pk_current_hop_index (waiting p) < length (pk_route (waiting p)) - 1"
      and dst: "hop_dst p = pk_route (waiting p) ! (pk_current_hop_index (waiting p) + 1)"
      using p by (simp_all add: idx rte hop_dst_def)
    show ?thesis
      using cross_hop_step [OF ok1 cur1 seq rt1 pok lt dst cr] True from1
      by (simp add: moved_packet_def idx rte)
  qed
  from main show "stream_step rt s [e] rt' s'" by blast
  from main show "bs_current_packet s' =
      Some (if fd_feasible d then moved_packet w p else paused_packet p d)" by blast
  from main show "bs_paused s' \<longleftrightarrow> \<not> fd_feasible d" by blast
  from main show "ev_event_type e =
      (if \<not> fd_feasible d then ''PACKET_PAUSED_OUTAGE''
       else if pk_current_hop_index p + 1 \<ge> length (pk_route p) - 1 then ''PACKET_DELIVERED''
       else ''PACKET_ADVANCED'')" by blast
  from main show "\<not> fd_feasible d \<Longrightarrow> bs_completed_packets s' = bs_completed_packets s" by blast
  from main show "bs_route s' = bs_route s" by blast
qed

lemma step_stream_step:
  assumes "stream_ok s"
  obtains w' rt' s' e evs w1 p where "step_stream w rt s gate = Inr (w', rt', s', e)"
    and "stream_step rt s (evs @ [e]) rt' s'"
    and "filter is_delivery evs = []"
    and "pk_current_hop_index p < length (pk_route p) - 1"
    and "bs_current_packet s' = Some (if fd_feasible (gate (hop_src p) (hop_dst p))
           then moved_packet w1 p else paused_packet p (gate (hop_src p) (hop_dst p)))"
    and "bs_paused s' \<longleftrightarrow> \<not> fd_feasible (gate (hop_src p) (hop_dst p))"
    and "ev_event_type e =
           (if \<not> fd_feasible (gate (hop_src p) (hop_dst p)) then ''PACKET_PAUSED_OUTAGE''
            else if pk_current_hop_index p + 1 \<ge> length (pk_route p) - 1 then ''PACKET_DELIVERED''
            else ''PACKET_ADVANCED'')"
    and "bs_route s' = bs_route s" and "pk_route p = bs_route s"
    and "\<forall>q. bs_current_packet s = Some q \<and> pk_status q \<noteq> PS_DELIVERED \<longrightarrow> p = q \<and> evs = [] \<and> w1 = w"
    and "(\<forall>q. bs_current_packet s = Some q \<longrightarrow> pk_status q = PS_DELIVERED) \<longrightarrow>
           pk_current_hop_index p = 0 \<and> pk_route p = bs_route s
           \<and> pk_sequence_number p = pr_sequence rt + 1"
proof -
  obtain w1 rt1 s1 p evs where cn: "current_or_new w rt s = Inr (w1, rt1, s1, p)"
    and st: "stream_step rt s evs rt1 s1" and p: "bs_current_packet s1 = Some p"
    and lt: "pk_current_hop_index p < length (pk_route p) - 1"
    and nod: "filter is_delivery evs = []"
    and old: "\<forall>q. bs_current_packet s = Some q \<and> pk_status q \<noteq> PS_DELIVERED \<longrightarrow>
           p = q \<and> s1 = s \<and> rt1 = rt \<and> w1 = w \<and> evs = []"
    and rte: "bs_route s1 = bs_route s"
    and new: "(\<forall>q. bs_current_packet s = Some q \<longrightarrow> pk_status q = PS_DELIVERED) \<longrightarrow>
           pk_current_hop_index p = 0 \<and> pk_route p = bs_route s
           \<and> pk_sequence_number p = pr_sequence rt + 1 \<and> bs_route s1 = bs_route s"
    by (rule current_or_new_step [OF assms, of w rt]) blast
  obtain w' rt' s' e where at: "attempt_hop w1 rt1 s1 p gate = (w', rt', s', e)"
    by (metis prod_cases4)
  have s1: "stream_ok s1" using st by (simp add: stream_step_def)
  note hop = attempt_hop_step [OF s1 p lt at]
  have pr: "pk_route p = bs_route s" using s1 p rte by (simp add: stream_ok_def)
  have sr: "bs_route s' = bs_route s" using hop(6) rte by simp
  have run: "step_stream w rt s gate = Inr (w', rt', s', e)"
    using lt by (simp add: step_stream_def cn at)
  show ?thesis
    by (rule that [OF run stream_step_trans [OF st hop(1)] nod lt hop(2,3,4) sr pr])
      (use old new in blast)+
qed

section \<open>The runtime invariant\<close>

definition deliveries :: "string \<Rightarrow> runtime_event list \<Rightarrow> int" where
  "deliveries k evs = int (length (filter (\<lambda>e. is_delivery e \<and> ev_affected_entity e = k) evs))"

definition in_flight :: "streams \<Rightarrow> int list" where
  "in_flight ss = List.map_filter packet_seq (map snd ss)"

definition entry_ok :: "string \<times> branch_stream \<Rightarrow> bool" where
  "entry_ok = (\<lambda>(k, s). bs_branch_id s = k \<and> stream_ok s)"

definition events_numbered :: "packet_runtime \<Rightarrow> bool" where
  "events_numbered rt \<longleftrightarrow>
     pr_event_sequence rt = int (length (pr_events rt))
     \<and> (\<forall>i < length (pr_events rt). ev_sequence (pr_events rt ! i) = int i + 1)"

text \<open>
  Branch identifiers are the keys and distinct, every stream is well formed, the counter of each
  stream is the number of its delivery events in the log, every event is about a known branch, no
  two packets in flight share a sequence number, and the log is numbered from one without gaps.
\<close>

definition runtime_ok :: "packet_runtime \<Rightarrow> bool" where
  "runtime_ok rt \<longleftrightarrow>
     distinct (dict_keys (pr_streams rt))
     \<and> (\<forall>x\<in>set (pr_streams rt). entry_ok x)
     \<and> (\<forall>(k, s)\<in>set (pr_streams rt). bs_completed_packets s = deliveries k (pr_events rt))
     \<and> (\<forall>e\<in>set (pr_events rt). ev_affected_entity e \<in> set (dict_keys (pr_streams rt)))
     \<and> distinct (in_flight (pr_streams rt))
     \<and> (\<forall>n\<in>set (in_flight (pr_streams rt)). n \<le> pr_sequence rt)
     \<and> events_numbered rt"

lemma in_flight_simps [simp]:
  "in_flight [] = []"
  "in_flight ((k, s) # ss) = (case packet_seq s of None \<Rightarrow> in_flight ss | Some n \<Rightarrow> n # in_flight ss)"
  "in_flight (ss @ ts) = in_flight ss @ in_flight ts"
  by (simp_all add: in_flight_def List.map_filter_def split: option.splits)

lemma deliveries_append [simp]: "deliveries k (xs @ ys) = deliveries k xs + deliveries k ys"
  by (simp add: deliveries_def)

lemma deliveries_Nil [simp]: "deliveries k [] = 0"
  by (simp add: deliveries_def)

lemma deliveries_own:
  "(\<forall>e\<in>set evs. ev_affected_entity e = k) \<Longrightarrow>
   deliveries k evs = int (length (filter is_delivery evs))"
  unfolding deliveries_def by (simp cong: filter_cong)

lemma deliveries_other:
  "(\<forall>e\<in>set evs. ev_affected_entity e \<noteq> k) \<Longrightarrow> deliveries k evs = 0"
  unfolding deliveries_def by (auto simp: filter_empty_conv)

lemma events_numbered_ext:
  "events_numbered rt \<Longrightarrow> log_ext rt evs rt' \<Longrightarrow> events_numbered (rt'\<lparr>pr_streams := ss\<rparr>)"
  by (auto simp: events_numbered_def log_ext_def nth_append)

definition stream_after :: "runtime_event list \<Rightarrow> string \<times> branch_stream \<Rightarrow> string \<times> branch_stream \<Rightarrow> bool" where
  "stream_after evs = (\<lambda>(k, s) (k', s').
     k' = k \<and> entry_ok (k', s')
     \<and> bs_completed_packets s' = bs_completed_packets s + deliveries k evs)"

lemma stream_after_entry: "stream_after evs x y \<Longrightarrow> entry_ok y"
  by (auto simp: stream_after_def split: prod.splits)

text \<open>What a loop over some of the streams has done.\<close>

definition loop_effect ::
  "packet_runtime \<Rightarrow> streams \<Rightarrow> runtime_event list \<Rightarrow> packet_runtime \<Rightarrow> streams \<Rightarrow> bool" where
  "loop_effect rt ss evs rt' ss' \<longleftrightarrow>
     log_ext rt evs rt' \<and> (\<forall>e\<in>set evs. ev_affected_entity e \<in> set (dict_keys ss))
     \<and> list_all2 (stream_after evs) ss ss'
     \<and> (\<forall>n\<in>set (in_flight ss').
          n \<in> set (in_flight ss) \<or> pr_sequence rt < n \<and> n \<le> pr_sequence rt')
     \<and> (distinct (in_flight ss) \<and> (\<forall>n\<in>set (in_flight ss). n \<le> pr_sequence rt)
          \<longrightarrow> distinct (in_flight ss'))"

lemma loop_effect_Nil: "loop_effect rt [] [] rt []"
  by (simp add: loop_effect_def log_ext_refl)

lemma list_all2_stream_after_mono:
  assumes "list_all2 (stream_after evs) ss ss'"
    and "\<And>k. k \<in> set (dict_keys ss) \<Longrightarrow> deliveries k evs' = deliveries k evs"
  shows "list_all2 (stream_after evs') ss ss'"
  using assms by (induction rule: list_all2_induct) (auto simp: stream_after_def)

lemma loop_effect_keys: "loop_effect rt ss evs rt' ss' \<Longrightarrow> dict_keys ss' = dict_keys ss"
proof -
  assume "loop_effect rt ss evs rt' ss'"
  then have "list_all2 (stream_after evs) ss ss'" by (simp add: loop_effect_def)
  then show ?thesis by (induction rule: list_all2_induct) (auto simp: stream_after_def)
qed

lemma loop_effect_Cons:
  assumes s: "entry_ok (k, s)" and k: "k \<notin> set (dict_keys ss)"
    and one: "stream_step rt s evs rt1 s1" and rest: "loop_effect rt1 ss evs1 rt2 ss1"
  shows "loop_effect rt ((k, s) # ss) (evs @ evs1) rt2 ((k, s1) # ss1)"
proof -
  have bid: "bs_branch_id s = k" using s by (simp add: entry_ok_def)
  have own: "\<forall>e\<in>set evs. ev_affected_entity e = k" using one bid by (simp add: stream_step_def)
  have others: "\<forall>e\<in>set evs1. ev_affected_entity e \<in> set (dict_keys ss)"
    using rest by (simp add: loop_effect_def)
  have d1: "deliveries k evs1 = 0"
    using others k by (intro deliveries_other) metis
  have d2: "deliveries k' (evs @ evs1) = deliveries k' evs1" if "k' \<in> set (dict_keys ss)" for k'
    using own that k by (auto intro: deliveries_other)
  have mono: "pr_sequence rt \<le> pr_sequence rt1" "pr_sequence rt1 \<le> pr_sequence rt2"
    using one rest by (simp_all add: stream_step_def loop_effect_def log_ext_def)
  have head: "stream_after (evs @ evs1) (k, s) (k, s1)"
    using one bid d1 deliveries_own [OF own]
    by (simp add: stream_after_def stream_step_def entry_ok_def)
  have tail: "list_all2 (stream_after (evs @ evs1)) ss ss1"
    by (rule list_all2_stream_after_mono [of evs1]) (use rest d2 in \<open>simp_all add: loop_effect_def\<close>)
  have lg: "log_ext rt (evs @ evs1) rt2"
    using one rest by (auto simp: stream_step_def loop_effect_def intro: log_ext_trans)
  have new1: "packet_seq s = Some n \<or> pr_sequence rt < n \<and> n \<le> pr_sequence rt1"
    if "packet_seq s1 = Some n" for n
    using one that by (simp add: stream_step_def)
  have new2: "n \<in> set (in_flight ss) \<or> pr_sequence rt1 < n \<and> n \<le> pr_sequence rt2"
    if "n \<in> set (in_flight ss1)" for n
    using rest that by (simp add: loop_effect_def)
  have range: "n \<in> set (in_flight ((k, s) # ss)) \<or> pr_sequence rt < n \<and> n \<le> pr_sequence rt2"
    if "n \<in> set (in_flight ((k, s1) # ss1))" for n
    using that new1 [of n] new2 [of n] mono by (auto split: option.splits)
  have dist: "distinct (in_flight ((k, s1) # ss1))"
    if d: "distinct (in_flight ((k, s) # ss))"
      and b: "\<forall>n\<in>set (in_flight ((k, s) # ss)). n \<le> pr_sequence rt"
  proof -
    have bs: "\<forall>n\<in>set (in_flight ss). n \<le> pr_sequence rt" "distinct (in_flight ss)"
      using b d by (auto split: option.splits)
    then have "distinct (in_flight ss1)"
      using rest mono by (auto simp: loop_effect_def)
    moreover have "n \<notin> set (in_flight ss1)" if n: "packet_seq s1 = Some n" for n
    proof
      assume "n \<in> set (in_flight ss1)"
      then consider "n \<in> set (in_flight ss)" | "pr_sequence rt1 < n" using new2 by blast
      then show False
      proof cases
        case 1
        with bs have "n \<le> pr_sequence rt" by blast
        with new1 [OF n] have "packet_seq s = Some n" by linarith
        with d 1 show False by simp
      next
        case 2
        with new1 [OF n] mono have "packet_seq s = Some n" by linarith
        with b have "n \<le> pr_sequence rt" by simp
        with 2 mono show False by linarith
      qed
    qed
    ultimately show ?thesis by (simp split: option.splits)
  qed
  show ?thesis
    unfolding loop_effect_def
    using lg head tail range dist own others by auto
qed

text \<open>A loop over a segment of the streams keeps the invariant.\<close>

lemma runtime_ok_segment:
  assumes ok: "runtime_ok rt" and ss: "pr_streams rt = zs @ xs @ ys"
    and eff: "loop_effect rt xs evs rt' xs'"
  shows "runtime_ok (rt'\<lparr>pr_streams := zs @ xs' @ ys\<rparr>)"
proof -
  have keys: "dict_keys xs' = dict_keys xs" by (rule loop_effect_keys [OF eff])
  have dk: "distinct (dict_keys zs @ dict_keys xs @ dict_keys ys)"
    using ok ss by (simp add: runtime_ok_def dict_keys_def)
  have lg: "log_ext rt evs rt'" and ents: "\<forall>e\<in>set evs. ev_affected_entity e \<in> set (dict_keys xs)"
    and after: "list_all2 (stream_after evs) xs xs'"
    using eff by (simp_all add: loop_effect_def)
  then have ev: "pr_events rt' = pr_events rt @ evs" by (simp add: log_ext_def)
  have mono: "pr_sequence rt \<le> pr_sequence rt'" using lg by (simp add: log_ext_def)
  have entries: "entry_ok x" if "x \<in> set zs \<union> set xs' \<union> set ys" for x
  proof -
    have "entry_ok x" if "x \<in> set xs'"
      using after that by (metis in_set_conv_nth list_all2_conv_all_nth stream_after_entry)
    with that ok ss show ?thesis by (auto simp: runtime_ok_def)
  qed
  have other: "bs_completed_packets s = deliveries k (pr_events rt')"
    if "(k, s) \<in> set zs \<union> set ys" for k s
  proof -
    have "k \<in> set (dict_keys zs) \<union> set (dict_keys ys)"
      using that by (force simp: dict_keys_def)
    with dk have "k \<notin> set (dict_keys xs)" by auto
    with ents have "deliveries k evs = 0" by (intro deliveries_other) metis
    moreover have "bs_completed_packets s = deliveries k (pr_events rt)"
      using that ok ss by (auto simp: runtime_ok_def)
    ultimately show ?thesis by (simp add: ev)
  qed
  have own: "bs_completed_packets s = deliveries k (pr_events rt')" if "(k, s) \<in> set xs'" for k s
  proof -
    from that obtain i where i: "i < length xs'" "xs' ! i = (k, s)" by (auto simp: in_set_conv_nth)
    with after have i': "i < length xs" and sa: "stream_after evs (xs ! i) (k, s)"
      by (metis list_all2_conv_all_nth)+
    obtain k0 s0 where x: "xs ! i = (k0, s0)" by fastforce
    with i' have "(k0, s0) \<in> set (pr_streams rt)" using ss nth_mem by fastforce
    with ok have "bs_completed_packets s0 = deliveries k0 (pr_events rt)"
      by (auto simp: runtime_ok_def)
    with sa x show ?thesis by (simp add: stream_after_def ev)
  qed
  have rng: "n \<le> pr_sequence rt'" if "n \<in> set (in_flight (zs @ xs' @ ys))" for n
  proof -
    have "n \<in> set (in_flight (zs @ xs @ ys)) \<or> n \<le> pr_sequence rt'"
      using that eff by (auto simp: loop_effect_def)
    moreover have "n \<le> pr_sequence rt" if "n \<in> set (in_flight (zs @ xs @ ys))"
      using ok ss that by (simp add: runtime_ok_def)
    ultimately show ?thesis using mono by fastforce
  qed
  have dist: "distinct (in_flight (zs @ xs' @ ys))"
  proof -
    have d: "distinct (in_flight zs @ in_flight xs @ in_flight ys)"
      and b: "\<forall>n\<in>set (in_flight zs) \<union> set (in_flight xs) \<union> set (in_flight ys). n \<le> pr_sequence rt"
      using ok ss by (auto simp: runtime_ok_def)
    have "distinct (in_flight xs')" using eff d b by (simp add: loop_effect_def)
    moreover have "n \<notin> set (in_flight zs) \<union> set (in_flight ys)" if "n \<in> set (in_flight xs')" for n
    proof
      assume zy: "n \<in> set (in_flight zs) \<union> set (in_flight ys)"
      with b have "n \<le> pr_sequence rt" by blast
      moreover have "n \<in> set (in_flight xs) \<or> pr_sequence rt < n"
        using eff that by (auto simp: loop_effect_def)
      ultimately have "n \<in> set (in_flight xs)" by linarith
      with zy d show False by auto
    qed
    ultimately show ?thesis using d by auto
  qed
  have numbered: "events_numbered (rt'\<lparr>pr_streams := zs @ xs' @ ys\<rparr>)"
    using ok by (intro events_numbered_ext [OF _ lg]) (simp add: runtime_ok_def)
  have dk': "distinct (dict_keys (zs @ xs' @ ys))"
    using dk keys by (simp add: dict_keys_def)
  have counts: "\<forall>(k, s)\<in>set (zs @ xs' @ ys). bs_completed_packets s = deliveries k (pr_events rt')"
    using other own by auto
  have known: "\<forall>e\<in>set (pr_events rt'). ev_affected_entity e \<in> set (dict_keys (zs @ xs' @ ys))"
    using ok ss ents keys by (auto simp: runtime_ok_def ev dict_keys_def)
  show ?thesis
    unfolding runtime_ok_def
    using dk' entries counts known rng dist numbered by simp
qed

section \<open>The loops over the streams\<close>

text \<open>
  What the loops rely on: on a well-formed stream the operation returns, and its effect is a
  \<open>stream_step\<close>.
\<close>

locale stream_op =
  fixes f :: "string \<Rightarrow> env \<Rightarrow> packet_runtime \<Rightarrow> branch_stream
    \<Rightarrow> (env \<times> packet_runtime \<times> branch_stream \<times> runtime_event list) res"
  assumes contract: "stream_ok s \<Longrightarrow> bs_branch_id s = k \<Longrightarrow>
    \<exists>w' rt' s' es evs. f k w rt s = Inr (w', rt', s', es) \<and> stream_step rt s evs rt' s'"
begin

lemma loop:
  assumes "\<forall>x\<in>set ss. entry_ok x" and "distinct (dict_keys ss)"
  shows "\<exists>w' rt' ss' es evs. stream_loop f w rt ss = Inr (w', rt', ss', es)
           \<and> loop_effect rt ss evs rt' ss'"
  using assms
proof (induction ss arbitrary: w rt)
  case Nil
  have "stream_loop f w rt [] = Inr (w, rt, [], []) \<and> loop_effect rt [] [] rt []"
    by (simp add: loop_effect_Nil)
  then show ?case by blast
next
  case (Cons x ss)
  obtain k s where x: "x = (k, s)" by (cases x)
  from Cons.prems x have e: "entry_ok (k, s)" and k: "k \<notin> set (dict_keys ss)" by simp_all
  then obtain w1 rt1 s1 es1 evs1 where one: "f k w rt s = Inr (w1, rt1, s1, es1)"
    and st: "stream_step rt s evs1 rt1 s1"
    using contract [of s k w rt] by (auto simp: entry_ok_def)
  from Cons.IH [of w1 rt1] Cons.prems obtain w2 rt2 ss2 es2 evs2 where
    rest: "stream_loop f w1 rt1 ss = Inr (w2, rt2, ss2, es2)" and eff: "loop_effect rt1 ss evs2 rt2 ss2"
    by auto
  have "stream_loop f w rt (x # ss) = Inr (w2, rt2, (k, s1) # ss2, es1 @ es2)"
    by (simp add: x one rest)
  with loop_effect_Cons [OF e k st eff] x show ?case by blast
qed

text \<open>The loop over a part of the streams keeps the runtime invariant.\<close>

lemma segment:
  assumes "runtime_ok rt" and "pr_streams rt = zs @ xs @ ys"
  shows "\<exists>w' rt' xs' es evs. stream_loop f w rt xs = Inr (w', rt', xs', es)
           \<and> loop_effect rt xs evs rt' xs' \<and> pr_streams rt' = zs @ xs @ ys
           \<and> runtime_ok (rt'\<lparr>pr_streams := zs @ xs' @ ys\<rparr>)"
proof -
  from assms have "\<forall>x\<in>set xs. entry_ok x" "distinct (dict_keys xs)"
    by (auto simp: runtime_ok_def dict_keys_def)
  from loop [OF this, of w rt] obtain w' rt' xs' es evs where
    l: "stream_loop f w rt xs = Inr (w', rt', xs', es)" "loop_effect rt xs evs rt' xs'" by blast
  moreover from l(2) assms(2) have "pr_streams rt' = zs @ xs @ ys"
    by (simp add: loop_effect_def log_ext_def)
  ultimately show ?thesis
    using runtime_ok_segment [OF assms l(2)] by blast
qed

lemma all_streams:
  assumes "runtime_ok rt"
  shows "\<exists>w' rt' ss' es evs. stream_loop f w rt (pr_streams rt) = Inr (w', rt', ss', es)
           \<and> loop_effect rt (pr_streams rt) evs rt' ss'
           \<and> runtime_ok (rt'\<lparr>pr_streams := ss'\<rparr>)"
  using segment [OF assms, of "[]" "pr_streams rt" "[]" w] by fastforce

lemma one_stream:
  assumes "runtime_ok rt" and "pr_streams rt = zs @ (k, s) # ys"
  shows "\<exists>w' rt' s' es. f k w rt s = Inr (w', rt', s', es) \<and> pr_streams rt' = pr_streams rt
           \<and> pr_mode rt' = pr_mode rt \<and> runtime_ok (rt'\<lparr>pr_streams := zs @ (k, s') # ys\<rparr>)"
proof -
  from segment [OF assms(1), of zs "[(k, s)]" ys w] assms(2)
  obtain w' rt' xs' es evs where l: "stream_loop f w rt [(k, s)] = Inr (w', rt', xs', es)"
    "loop_effect rt [(k, s)] evs rt' xs'" "pr_streams rt' = zs @ [(k, s)] @ ys"
    "runtime_ok (rt'\<lparr>pr_streams := zs @ xs' @ ys\<rparr>)" by auto
  from l(1) obtain s' where "xs' = [(k, s')]" "f k w rt s = Inr (w', rt', s', es)"
    by (auto simp: bindR_Inr_iff)
  moreover from l(2) have "pr_mode rt' = pr_mode rt" by (simp add: loop_effect_def log_ext_def)
  ultimately show ?thesis using l(3,4) assms(2) by auto
qed

end

interpretation ensure: stream_op ensure_one
proof
  fix s k w rt
  assume ok: "stream_ok s"
  show "\<exists>w' rt' s' es evs. ensure_one k w rt s = Inr (w', rt', s', es) \<and> stream_step rt s evs rt' s'"
  proof (cases "bs_current_packet s")
    case None
    obtain w' rt' s' p e where "create_packet w rt s = Inr (w', rt', s', p)" "stream_step rt s [e] rt' s'"
      using create_packet_step [OF ok] by metis
    with None show ?thesis by (auto simp: ensure_one_def)
  next
    case (Some p)
    with stream_step_refl [OF ok] show ?thesis by (auto simp: ensure_one_def)
  qed
qed

interpretation hop: stream_op "step_one gate" for gate
proof
  fix s k w rt
  assume ok: "stream_ok s"
  obtain w' rt' s' e evs where "step_stream w rt s gate = Inr (w', rt', s', e)"
    "stream_step rt s (evs @ [e]) rt' s'"
    by (rule step_stream_step [OF ok])
  then show "\<exists>w' rt' s' es evs. step_one gate k w rt s = Inr (w', rt', s', es)
      \<and> stream_step rt s evs rt' s'"
    by (auto simp: step_one_def)
qed

end
