(* ===== verification/Packet_Reach.thy ===== *)
theory Packet_Reach
  imports Packet_Props
begin

text \<open>
  The states a packet runtime can reach through its public operations (\<open>from_branches\<close>,
  \<open>ensure_packets\<close>, \<open>step\<close>, \<open>clear_outage\<close>, \<open>replace_route\<close>), the properties that hold in all of
  them, and what a single step of a stream does.
\<close>

section \<open>Clearing an outage and replacing a route\<close>

lemma clear_stream_ok: "stream_ok s \<Longrightarrow> stream_ok (clear_stream s)"
  by (auto simp: clear_stream_def stream_ok_def packet_ok_def Let_def split: option.splits)

lemma clear_stream_fields [frame_simps]:
  "bs_branch_id (clear_stream s) = bs_branch_id s"
  "bs_completed_packets (clear_stream s) = bs_completed_packets s"
  "bs_route (clear_stream s) = bs_route s"
  "packet_seq (clear_stream s) = packet_seq s"
  by (simp_all add: clear_stream_def packet_seq_def Let_def split: option.splits)

interpretation clear: stream_op "clear_one sel" for sel
proof
  fix s k w and rt :: packet_runtime
  assume ok: "stream_ok s" and k: "bs_branch_id s = k"
  show "\<exists>w' rt' s' es evs. clear_one sel k w rt s = Inr (w', rt', s', es) \<and> stream_step rt s evs rt' s'"
  proof (cases "sel k")
    case True
    obtain w1 rt1 e where em: "emit_event w rt ''PACKET_RETRY_ENABLED''
        [(''branch_id'', PStr (bs_branch_id s))] ''INFO'' (bs_branch_id s) = (w1, rt1, e)"
      by (metis prod_cases3)
    have "stream_step rt s [e] rt1 (clear_stream s)"
      using emit_event_log [OF em] clear_stream_ok [OF ok]
      by (simp add: stream_step_def frame_simps)
    then show ?thesis using True em by (auto simp: clear_one_def)
  next
    case False
    with stream_step_refl [OF ok] show ?thesis by (auto simp: clear_one_def)
  qed
qed

interpretation replace: stream_op "replace_one (a # b # r)" for a b r
proof
  fix s k w and rt :: packet_runtime
  assume ok: "stream_ok s" and k: "bs_branch_id s = k"
  let ?s = "s\<lparr>bs_route := a # b # r, bs_source := a, bs_destination := last (b # r)\<rparr>"
  obtain w1 p where np: "new_packet w ?s (pr_sequence rt + 1) = Inr (w1, ?s\<lparr>bs_current_packet := Some p,
      bs_paused := False, bs_outage_reason := None\<rparr>, p)"
    and p: "packet_ok p" "pk_status p = PS_QUEUED" "pk_sequence_number p = pr_sequence rt + 1"
      "pk_outage_reason p = None" "pk_route p = a # b # r"
    by (rule new_packet_ok [of ?s]) auto
  let ?s2 = "?s\<lparr>bs_current_packet := Some p, bs_paused := False, bs_outage_reason := None\<rparr>"
  let ?rt1 = "rt\<lparr>pr_sequence := pr_sequence rt + 1\<rparr>"
  obtain w2 rt2 e where em: "emit_event w1 ?rt1 ''ROUTE_RECOMPUTED''
      [(''branch_id'', PStr k), (''route'', PList (map PStr (a # b # r)))] ''INFO'' k = (w2, rt2, e)"
    by (metis prod_cases3)
  note lg = emit_event_log [OF em]
  have "stream_ok ?s2"
    using p by (simp add: stream_ok_def)
  then have "stream_step rt s [e] rt2 ?s2"
    using lg p k by (auto simp: stream_step_def log_ext_def packet_seq_def)
  moreover have "replace_one (a # b # r) k w rt s = Inr (w2, rt2, ?s2, [])"
    using np em by (simp add: replace_one_def Let_def)
  ultimately show "\<exists>w' rt' s' es evs. replace_one (a # b # r) k w rt s = Inr (w', rt', s', es)
      \<and> stream_step rt s evs rt' s'" by blast
qed

section \<open>The public operations keep the invariant\<close>

lemma ensure_packets_ok:
  assumes "runtime_ok rt"
  obtains w' rt' where "ensure_packets w rt = Inr (w', rt')" "runtime_ok rt'"
    "pr_mode rt' = pr_mode rt" "dict_keys (pr_streams rt') = dict_keys (pr_streams rt)"
proof -
  from ensure.all_streams [OF assms, of w] obtain w' rt' ss' es evs where
    l: "stream_loop ensure_one w rt (pr_streams rt) = Inr (w', rt', ss', es)"
      "loop_effect rt (pr_streams rt) evs rt' ss'" "runtime_ok (rt'\<lparr>pr_streams := ss'\<rparr>)" by blast
  from l(2) have "pr_mode rt' = pr_mode rt" by (simp add: loop_effect_def log_ext_def)
  then show ?thesis
    using l loop_effect_keys [OF l(2)] by (intro that [of w' "rt'\<lparr>pr_streams := ss'\<rparr>"]) (simp_all add: ensure_packets_def)
qed

lemma step_ok:
  assumes "runtime_ok rt"
  obtains w' rt' es where "step w rt gate = Inr (w', rt', es)" "runtime_ok rt'"
    "dict_keys (pr_streams rt') = dict_keys (pr_streams rt)" "pr_mode rt' = pr_mode rt"
proof -
  obtain w1 rt1 where en: "ensure_packets w rt = Inr (w1, rt1)" "runtime_ok rt1"
    "pr_mode rt1 = pr_mode rt" "dict_keys (pr_streams rt1) = dict_keys (pr_streams rt)"
    by (rule ensure_packets_ok [OF assms])
  show ?thesis
  proof (cases "pr_mode rt1 = ''chain''")
    case True
    show ?thesis
    proof (cases "pr_streams rt1")
      case Nil
      with en True show ?thesis by (intro that [of w1 rt1 "[]"]) (simp_all add: step_def)
    next
      case (Cons x rest)
      obtain k s where "x = (k, s)" by (cases x)
      with Cons have ss: "pr_streams rt1 = [] @ (k, s) # rest" by simp
      from hop.one_stream [OF en(2) ss, of gate w1] obtain w' rt' s' es where
        "step_one gate k w1 rt1 s = Inr (w', rt', s', es)" "pr_mode rt' = pr_mode rt1"
        "runtime_ok (rt'\<lparr>pr_streams := (k, s') # rest\<rparr>)" by auto
      with True ss en show ?thesis
        by (intro that [of w' "rt'\<lparr>pr_streams := (k, s') # rest\<rparr>" es]) (simp_all add: step_def)
    qed
  next
    case False
    from hop.all_streams [OF en(2), of gate w1] obtain w' rt' ss' es evs where
      l: "stream_loop (step_one gate) w1 rt1 (pr_streams rt1) = Inr (w', rt', ss', es)"
        "loop_effect rt1 (pr_streams rt1) evs rt' ss'" "runtime_ok (rt'\<lparr>pr_streams := ss'\<rparr>)"
      by blast
    then have "pr_mode rt' = pr_mode rt1" by (simp add: loop_effect_def log_ext_def)
    with l False en loop_effect_keys [OF l(2)] show ?thesis
      by (intro that [of w' "rt'\<lparr>pr_streams := ss'\<rparr>" es]) (simp_all add: step_def)
  qed
qed

lemma clear_outage_ok:
  assumes "runtime_ok rt"
  obtains w' rt' where "clear_outage w rt b = Inr (w', rt')" "runtime_ok rt'"
proof -
  from clear.all_streams [OF assms, of "clear_targets rt b" w] obtain w' rt' ss' es evs where
    "stream_loop (clear_one (clear_targets rt b)) w rt (pr_streams rt) = Inr (w', rt', ss', es)"
    "runtime_ok (rt'\<lparr>pr_streams := ss'\<rparr>)" by blast
  then show ?thesis by (intro that [of w' "rt'\<lparr>pr_streams := ss'\<rparr>"]) (simp_all add: clear_outage_def)
qed

lemma update_middle:
  "k \<notin> set (dict_keys zs) \<Longrightarrow> AList.update k v (zs @ (k, u) # ys) = zs @ (k, v) # ys"
  by (induction zs) auto

lemma replace_route_ok:
  assumes ok: "runtime_ok rt" and s: "map_of (pr_streams rt) k = Some s" and r: "2 \<le> length route"
  obtains w' rt' where "replace_route w rt k route = Inr (w', rt')" "runtime_ok rt'"
proof -
  obtain a b r' where route: "route = a # b # r'"
    using r by (cases route; cases "tl route") auto
  from s obtain zs ys where ss: "pr_streams rt = zs @ (k, s) # ys"
    by (meson map_of_SomeD split_list)
  with ok have "k \<notin> set (dict_keys zs)" by (auto simp: runtime_ok_def dict_keys_def)
  note upd = update_middle [OF this]
  from replace.one_stream [OF ok ss, of a b r' w] route obtain w' rt' s' es where
    "replace_one route k w rt s = Inr (w', rt', s', es)" "pr_streams rt' = pr_streams rt"
    "runtime_ok (rt'\<lparr>pr_streams := zs @ (k, s') # ys\<rparr>)" by auto
  then show ?thesis
    using ss s by (intro that [of w' "rt'\<lparr>pr_streams := zs @ (k, s') # ys\<rparr>"])
      (simp_all add: replace_route_def upd)
qed

text \<open>The initial state: one stream per non-empty branch, under distinct identifiers.\<close>

lemma branch_streams_keys:
  "k \<in> set (dict_keys (branch_streams src b i bs)) \<Longrightarrow> \<exists>j\<ge>i. k = ''branch_'' @ show_nat j"
proof (induction src b i bs rule: branch_streams.induct)
  case (1 src b i)
  then show ?case by simp
next
  case (2 src b i br bs)
  then consider "k = ''branch_'' @ show_nat i" | "\<exists>j\<ge>Suc i. k = ''branch_'' @ show_nat j"
    by (auto split: if_splits)
  then show ?case by cases (auto dest: Suc_leD)
qed

lemma branch_streams_ok:
  "distinct (dict_keys (branch_streams src b i bs))
   \<and> (\<forall>x\<in>set (branch_streams src b i bs). entry_ok x)
   \<and> (\<forall>(k, s)\<in>set (branch_streams src b i bs). bs_completed_packets s = 0)
   \<and> in_flight (branch_streams src b i bs) = []"
proof (induction src b i bs rule: branch_streams.induct)
  case (1 src b i)
  then show ?case by simp
next
  case (2 src b i br bs)
  have key: "''branch_'' @ show_nat i \<notin> set (dict_keys (branch_streams src b (Suc i) bs))"
    using branch_streams_keys by fastforce
  have "br \<noteq> [] \<Longrightarrow> entry_ok (''branch_'' @ show_nat i, make_stream src b i br)
      \<and> bs_completed_packets (make_stream src b i br) = 0 \<and> packet_seq (make_stream src b i br) = None"
    by (cases br) (simp_all add: make_stream_def entry_ok_def stream_ok_def packet_seq_def Let_def)
  with 2 key show ?case by auto
qed

lemma from_branches_ok: "runtime_ok (from_branches branches mode src ex run bytes)"
  using branch_streams_ok [of src bytes 0 branches]
  by (auto simp: runtime_ok_def from_branches_def events_numbered_def)

section \<open>Reachable states\<close>

inductive packet_reachable :: "packet_runtime \<Rightarrow> bool" where
  init: "packet_reachable (from_branches branches mode src ex run bytes)"
| ensured: "packet_reachable rt \<Longrightarrow> ensure_packets w rt = Inr (w', rt') \<Longrightarrow> packet_reachable rt'"
| stepped: "packet_reachable rt \<Longrightarrow> step w rt gate = Inr (w', rt', es) \<Longrightarrow> packet_reachable rt'"
| cleared: "packet_reachable rt \<Longrightarrow> clear_outage w rt b = Inr (w', rt') \<Longrightarrow> packet_reachable rt'"
| replaced: "packet_reachable rt \<Longrightarrow> replace_route w rt k route = Inr (w', rt')
    \<Longrightarrow> packet_reachable rt'"

lemma replace_route_returns:
  "replace_route w rt k route = Inr x \<Longrightarrow>
   (\<exists>s. map_of (pr_streams rt) k = Some s) \<and> 2 \<le> length route"
  by (auto simp: replace_route_def replace_one_def split: option.splits if_splits)

lemma reachable_ok: "packet_reachable rt \<Longrightarrow> runtime_ok rt"
proof (induction rule: packet_reachable.induct)
  case (init branches mode src ex run bytes)
  show ?case by (rule from_branches_ok)
next
  case (ensured rt w w' rt')
  then show ?case using ensure_packets_ok [of rt w] by (metis Inr_inject prod.inject)
next
  case (stepped rt w gate w' rt' es)
  then show ?case using step_ok [of rt w gate] by (metis Inr_inject prod.inject)
next
  case (cleared rt w b w' rt')
  then show ?case using clear_outage_ok [of rt w b] by (metis Inr_inject prod.inject)
next
  case (replaced rt w k route w' rt')
  from replace_route_returns [OF replaced(2)] obtain s where
    "map_of (pr_streams rt) k = Some s" "2 \<le> length route" by blast
  with replaced show ?case
    using replace_route_ok [of rt k s route w] by (metis Inr_inject prod.inject)
qed

section \<open>Hops made\<close>

text \<open>
  The hops a stream has crossed since it was created on its route: the delivered packets' and the
  current packet's. Exactly the hops the gate found feasible count.
\<close>

definition hops_done :: "branch_stream \<Rightarrow> int" where
  "hops_done s =
     bs_completed_packets s * (int (length (bs_route s)) - 1)
     + (case bs_current_packet s of
          None \<Rightarrow> 0
        | Some p \<Rightarrow> if pk_status p = PS_DELIVERED then 0 else int (pk_current_hop_index p))"

text \<open>The hop a step of the stream asks the gate about.\<close>

definition next_hop :: "branch_stream \<Rightarrow> string \<times> string" where
  "next_hop s =
     (case bs_current_packet s of
        Some p \<Rightarrow> if pk_status p = PS_DELIVERED then (bs_route s ! 0, bs_route s ! 1)
                  else (hop_src p, hop_dst p)
      | None \<Rightarrow> (bs_route s ! 0, bs_route s ! 1))"

lemma step_stream_hops:
  assumes ok: "stream_ok s" and run: "step_stream w rt s gate = Inr (w', rt', s', e)"
  shows "hops_done s' = hops_done s
           + (if fd_feasible (gate (fst (next_hop s)) (snd (next_hop s))) then 1 else 0)"
    and "bs_route s' = bs_route s"
    and "bs_paused s' \<longleftrightarrow> \<not> fd_feasible (gate (fst (next_hop s)) (snd (next_hop s)))"
proof -
  obtain evs w1 p where st: "stream_step rt s (evs @ [e]) rt' s'" and nod: "filter is_delivery evs = []"
    and lt: "pk_current_hop_index p < length (pk_route p) - 1"
    and cur: "bs_current_packet s' = Some (if fd_feasible (gate (hop_src p) (hop_dst p))
           then moved_packet w1 p else paused_packet p (gate (hop_src p) (hop_dst p)))"
    and ev: "ev_event_type e =
           (if \<not> fd_feasible (gate (hop_src p) (hop_dst p)) then ''PACKET_PAUSED_OUTAGE''
            else if pk_current_hop_index p + 1 \<ge> length (pk_route p) - 1 then ''PACKET_DELIVERED''
            else ''PACKET_ADVANCED'')"
    and route: "bs_route s' = bs_route s" "pk_route p = bs_route s"
    and paused: "bs_paused s' \<longleftrightarrow> \<not> fd_feasible (gate (hop_src p) (hop_dst p))"
    and old: "\<forall>q. bs_current_packet s = Some q \<and> pk_status q \<noteq> PS_DELIVERED \<longrightarrow> p = q \<and> evs = [] \<and> w1 = w"
    and new: "(\<forall>q. bs_current_packet s = Some q \<longrightarrow> pk_status q = PS_DELIVERED) \<longrightarrow>
           pk_current_hop_index p = 0 \<and> pk_route p = bs_route s
           \<and> pk_sequence_number p = pr_sequence rt + 1"
    by (rule step_stream_step [OF ok, of w rt gate]) (use run in auto)
  show "bs_route s' = bs_route s" by (rule route)
  have asked: "next_hop s = (hop_src p, hop_dst p)"
  proof (cases "\<exists>q. bs_current_packet s = Some q \<and> pk_status q \<noteq> PS_DELIVERED")
    case True
    with old show ?thesis by (auto simp: next_hop_def)
  next
    case False
    with new have "pk_current_hop_index p = 0" by blast
    with False route show ?thesis
      by (auto simp: next_hop_def hop_src_def hop_dst_def split: option.splits)
  qed
  with paused show "bs_paused s' \<longleftrightarrow> \<not> fd_feasible (gate (fst (next_hop s)) (snd (next_hop s)))"
    by simp
  have base: "hops_done s = bs_completed_packets s * (int (length (bs_route s)) - 1)
      + int (pk_current_hop_index p)"
  proof (cases "\<exists>q. bs_current_packet s = Some q \<and> pk_status q \<noteq> PS_DELIVERED")
    case True
    with old show ?thesis by (auto simp: hops_done_def)
  next
    case False
    with new show ?thesis by (auto simp: hops_done_def split: option.splits)
  qed
  have counted: "bs_completed_packets s' = bs_completed_packets s + (if is_delivery e then 1 else 0)"
    using st nod by (simp add: stream_step_def)
  have "hops_done s' = bs_completed_packets s * (int (length (bs_route s)) - 1)
      + int (pk_current_hop_index p) + (if fd_feasible (gate (hop_src p) (hop_dst p)) then 1 else 0)"
    using lt route
    by (auto simp: hops_done_def cur counted ev moved_packet_def paused_packet_def waiting_def
        algebra_simps of_nat_diff)
  with base asked show "hops_done s' = hops_done s
      + (if fd_feasible (gate (fst (next_hop s)) (snd (next_hop s))) then 1 else 0)" by simp
qed

text \<open>The loop, stream by stream.\<close>

lemma stream_loop_pointwise:
  assumes "stream_loop f w rt ss = Inr (w', rt', ss', es)"
    and "\<And>w rt k s w' rt' s' es. (k, s) \<in> set ss \<Longrightarrow> f k w rt s = Inr (w', rt', s', es) \<Longrightarrow>
           R (k, s) (k, s') \<and> length es = n"
  shows "list_all2 R ss ss' \<and> length es = n * length ss"
  using assms
proof (induction ss arbitrary: w rt w' rt' ss' es)
  case Nil
  then show ?case by simp
next
  case (Cons x ss)
  obtain k s where x: "x = (k, s)" by (cases x)
  with Cons.prems(1) obtain w1 rt1 s1 es1 ss2 es2 where
    one: "f k w rt s = Inr (w1, rt1, s1, es1)" and
    rest: "stream_loop f w1 rt1 ss = Inr (w', rt', ss2, es2)" and
    res: "ss' = (k, s1) # ss2" "es = es1 @ es2"
    by (auto simp: bindR_Inr_iff)
  from Cons.prems(2) [OF _ one] x have "R (k, s) (k, s1) \<and> length es1 = n" by simp
  moreover have "list_all2 R ss ss2 \<and> length es2 = n * length ss"
    by (rule Cons.IH [OF rest]) (meson Cons.prems(2) list.set_intros(2))
  ultimately show ?case using x res by simp
qed

definition unmoved :: "string \<times> branch_stream \<Rightarrow> string \<times> branch_stream \<Rightarrow> bool" where
  "unmoved = (\<lambda>(k, s) (k', s'). k' = k \<and> bs_route s' = bs_route s \<and> hops_done s' = hops_done s
     \<and> next_hop s' = next_hop s)"

text \<open>A stream moves by one hop when the gate finds its next hop feasible, and pauses otherwise.\<close>

definition follows_gate :: "gate_evaluator \<Rightarrow> string \<times> branch_stream \<Rightarrow> string \<times> branch_stream \<Rightarrow> bool" where
  "follows_gate gate = (\<lambda>(k, s) (k', s').
     let feasible = fd_feasible (gate (fst (next_hop s)) (snd (next_hop s)))
     in k' = k \<and> bs_route s' = bs_route s
        \<and> hops_done s' = hops_done s + (if feasible then 1 else 0) \<and> bs_paused s' = (\<not> feasible))"

lemma ensure_one_unmoved:
  assumes "stream_ok s" and "ensure_one k w rt s = Inr (w', rt', s', es)"
  shows "unmoved (k, s) (k, s') \<and> length es = 0"
proof (cases "bs_current_packet s")
  case None
  obtain w1 rt1 s1 p e where cp: "create_packet w rt s = Inr (w1, rt1, s1, p)"
    and st: "stream_step rt s [e] rt1 s1" "ev_event_type e = ''PACKET_CREATED''"
    and p: "bs_current_packet s1 = Some p" "pk_status p = PS_QUEUED"
      "pk_current_hop_index p = 0" "pk_route p = bs_route s" "bs_route s1 = bs_route s"
    using create_packet_step [OF assms(1)] by metis
  with None assms(2) have "s' = s1" "es = []" by (simp_all add: ensure_one_def)
  with st p None show ?thesis
    by (simp add: unmoved_def hops_done_def next_hop_def stream_step_def hop_src_def hop_dst_def)
next
  case (Some p)
  with assms(2) show ?thesis by (simp add: ensure_one_def unmoved_def)
qed

lemma step_one_follows:
  assumes "stream_ok s" and "step_one gate k w rt s = Inr (w', rt', s', es)"
  shows "follows_gate gate (k, s) (k, s') \<and> length es = 1"
proof -
  from assms(2) obtain e where "step_stream w rt s gate = Inr (w', rt', s', e)" "es = [e]"
    by (auto simp: step_one_def bindR_Inr_iff)
  with step_stream_hops [OF assms(1), of w rt gate w' rt' s' e] show ?thesis
    by (simp add: follows_gate_def Let_def)
qed

lemma unmoved_follows:
  "unmoved x y \<Longrightarrow> follows_gate gate y z \<Longrightarrow> follows_gate gate x z"
  by (auto simp: unmoved_def follows_gate_def Let_def split: prod.splits)

lemma runtime_ok_streams: "runtime_ok rt \<Longrightarrow> (k, s) \<in> set (pr_streams rt) \<Longrightarrow> stream_ok s"
  by (auto simp: runtime_ok_def entry_ok_def)

lemma ensure_packets_unmoved:
  assumes "runtime_ok rt" and "ensure_packets w rt = Inr (w', rt')"
  shows "list_all2 unmoved (pr_streams rt) (pr_streams rt')"
proof -
  from assms(2) obtain rt1 ss es where
    l: "stream_loop ensure_one w rt (pr_streams rt) = Inr (w', rt1, ss, es)" "rt' = rt1\<lparr>pr_streams := ss\<rparr>"
    by (auto simp: ensure_packets_def bindR_Inr_iff)
  have "list_all2 unmoved (pr_streams rt) ss \<and> length es = 0 * length (pr_streams rt)"
    using ensure_one_unmoved runtime_ok_streams [OF assms(1)]
    by (intro stream_loop_pointwise [OF l(1)]) blast
  then show ?thesis using l(2) by simp
qed

lemma parallel_step_streams:
  assumes ok: "runtime_ok rt" and mode: "pr_mode rt \<noteq> ''chain''"
    and run: "step w rt gate = Inr (w', rt', es)"
  shows "list_all2 (follows_gate gate) (pr_streams rt) (pr_streams rt')
    \<and> length es = length (pr_streams rt)"
proof -
  obtain w1 rt1 where en: "ensure_packets w rt = Inr (w1, rt1)" "runtime_ok rt1"
    "pr_mode rt1 = pr_mode rt" "dict_keys (pr_streams rt1) = dict_keys (pr_streams rt)"
    by (rule ensure_packets_ok [OF ok])
  with run mode obtain rt2 ss where
    l: "stream_loop (step_one gate) w1 rt1 (pr_streams rt1) = Inr (w', rt2, ss, es)"
      "rt' = rt2\<lparr>pr_streams := ss\<rparr>"
    by (auto simp: step_def bindR_Inr_iff)
  have "list_all2 (follows_gate gate) (pr_streams rt1) ss \<and> length es = 1 * length (pr_streams rt1)"
    using step_one_follows runtime_ok_streams [OF en(2)]
    by (intro stream_loop_pointwise [OF l(1)]) blast
  moreover have un: "list_all2 unmoved (pr_streams rt) (pr_streams rt1)"
    by (rule ensure_packets_unmoved [OF ok en(1)])
  ultimately show ?thesis
    using l(2) list_all2_trans [of unmoved "follows_gate gate" "follows_gate gate" "pr_streams rt" "pr_streams rt1" ss]
      unmoved_follows list_all2_lengthD [OF un] by auto
qed

text \<open>A schedule of steps: the clock reading and the gate of each.\<close>

fun run_schedule ::
  "(time \<times> gate_evaluator) list \<Rightarrow> env \<Rightarrow> packet_runtime \<Rightarrow> (env \<times> packet_runtime) res" where
  "run_schedule [] w rt = Inr (w, rt)"
| "run_schedule ((t, gate) # sched) w rt =
     bindR (step (w\<lparr>env_now := t\<rparr>) rt gate) (\<lambda>(w1, rt1, _). run_schedule sched w1 rt1)"

abbreviation always_feasible :: "gate_evaluator \<Rightarrow> bool" where
  "always_feasible gate \<equiv> (\<forall>a b. fd_feasible (gate a b))"

definition moved_by :: "int \<Rightarrow> string \<times> branch_stream \<Rightarrow> string \<times> branch_stream \<Rightarrow> bool" where
  "moved_by n = (\<lambda>(k, s) (k', s').
     k' = k \<and> bs_route s' = bs_route s \<and> hops_done s' = hops_done s + n)"

lemma moved_by_refl: "list_all2 (moved_by 0) ss ss"
  by (simp add: list_all2_conv_all_nth moved_by_def split: prod.splits)

lemma follows_moved:
  "always_feasible gate \<Longrightarrow> follows_gate gate x y \<Longrightarrow> moved_by n y z \<Longrightarrow> moved_by (n + 1) x z"
  by (auto simp: follows_gate_def moved_by_def Let_def split: prod.splits)

lemma run_schedule_moves:
  assumes "runtime_ok rt" and "pr_mode rt \<noteq> ''chain''"
    and "\<forall>(t, gate)\<in>set sched. always_feasible gate"
  shows "\<exists>w' rt'. run_schedule sched w rt = Inr (w', rt') \<and> runtime_ok rt'
    \<and> list_all2 (moved_by (int (length sched))) (pr_streams rt) (pr_streams rt')"
  using assms
proof (induction sched arbitrary: w rt)
  case Nil
  then show ?case by (simp add: moved_by_refl)
next
  case (Cons x sched)
  obtain t gate where x: "x = (t, gate)" by (cases x)
  with Cons.prems have gate: "always_feasible gate" by simp
  obtain w1 rt1 es where st: "step (w\<lparr>env_now := t\<rparr>) rt gate = Inr (w1, rt1, es)" "runtime_ok rt1"
    "pr_mode rt1 = pr_mode rt"
    by (rule step_ok [OF Cons.prems(1), of "w\<lparr>env_now := t\<rparr>" gate])
  have one: "list_all2 (follows_gate gate) (pr_streams rt) (pr_streams rt1)"
    using parallel_step_streams [OF Cons.prems(1,2) st(1)] by simp
  from Cons.IH [of rt1 w1] st Cons.prems obtain w' rt' where
    rest: "run_schedule sched w1 rt1 = Inr (w', rt')" "runtime_ok rt'"
      "list_all2 (moved_by (int (length sched))) (pr_streams rt1) (pr_streams rt')"
    by auto
  have "list_all2 (moved_by (int (length sched) + 1)) (pr_streams rt) (pr_streams rt')"
    by (rule list_all2_trans [OF follows_moved [OF gate] one rest(3)])
  with st rest x show ?case by (simp add: add.commute)
qed

text \<open>The hops of a stream determine how many packets it has delivered.\<close>

lemma completed_of_hops:
  assumes "stream_ok s" and "hops_done s = int n"
  shows "bs_completed_packets s = int (n div (length (bs_route s) - 1))"
proof -
  let ?m = "int (length (bs_route s)) - 1"
  have m: "0 < ?m" using assms(1) by (simp add: stream_ok_def)
  obtain c where c: "hops_done s = bs_completed_packets s * ?m + c" "0 \<le> c" "c < ?m"
    using assms(1)
    by (auto simp: hops_done_def stream_ok_def packet_ok_def split: option.splits)
  then have "hops_done s div ?m = bs_completed_packets s" using m by simp
  moreover have "int (length (bs_route s) - 1) = ?m" using assms(1) by (simp add: stream_ok_def)
  ultimately show ?thesis using assms(2) by (simp add: zdiv_int)
qed

lemma fresh_hops: "(k, s) \<in> set (branch_streams src b i bs) \<Longrightarrow> hops_done s = 0"
  by (induction src b i bs rule: branch_streams.induct)
    (auto simp: hops_done_def make_stream_def Let_def split: if_splits)

end
