(* ===== verification/Packet_Claims.thy ===== *)
theory Packet_Claims
  imports Packet_Reach
begin

text \<open>The properties of the packet state machine of \<open>netlab/packet.py\<close>, with their witnesses.\<close>

section \<open>A small deployment for the witnesses\<close>

definition demo_env :: env where
  "demo_env = \<lparr>env_now = Fin 5, env_uuid = 0\<rparr>"

definition demo_runtime :: packet_runtime where
  "demo_runtime = from_branches [[0, 1], [2]] ''parallel'' ''base'' ''exp'' ''run'' 1200"

definition blocked_gate :: gate_evaluator where
  "blocked_gate src dst = constant_decision (Fin 5) False GR_OUT_OF_RANGE"

definition open_gate :: gate_evaluator where
  "open_gate src dst = constant_decision (Fin 5) True GR_FEASIBLE"

text \<open>Only the hop from the source to the first drone is up.\<close>

definition first_hop_gate :: gate_evaluator where
  "first_hop_gate src dst =
     (if src = ''base'' then constant_decision (Fin 5) True GR_FEASIBLE
      else constant_decision (Fin 5) False GR_OUT_OF_RANGE)"

lemma demo_digits [simp]: "show_int 0 = ''0''" "show_int 1 = ''1''" "show_int 2 = ''2''"
  "show_nat 0 = ''0''" "show_nat (Suc 0) = ''1''"
  by (simp_all add: show_int_def show_nat_def show_digits.simps digit_char_def)

lemma demo_reachable: "packet_reachable demo_runtime"
  unfolding demo_runtime_def by (rule init)

lemma demo_mode: "pr_mode demo_runtime \<noteq> ''chain''"
  by (simp add: demo_runtime_def from_branches_def)

lemma demo_streams:
  "pr_streams demo_runtime =
     [(''branch_0'', make_stream ''base'' 1200 0 [0, 1]), (''branch_1'', make_stream ''base'' 1200 1 [2])]"
  by (simp add: demo_runtime_def from_branches_def)

section \<open>The properties\<close>

text \<open>C14: in every state the packet runtime can reach, the branch identifiers are distinct keys, every
  stream and its packet are well formed (the cursor is on the route, delivered means at the end,
  the pause flag and the outage reason mirror the packet), the delivery counter of a stream is
  the number of its delivery events, no two packets in flight share a sequence number, and the
  event log is numbered from one without gaps.\<close>

theorem reachable_runtime_ok:
  assumes "packet_reachable rt"
  shows "runtime_ok rt"
  using assms by (rule reachable_ok)

lemma reachable_runtime_ok_witness:
  "\<exists>w' rt' es. step demo_env demo_runtime first_hop_gate = Inr (w', rt', es) \<and> length es = 2
     \<and> runtime_ok rt'"
proof -
  obtain w' rt' es where st: "step demo_env demo_runtime first_hop_gate = Inr (w', rt', es)"
    by (rule step_ok [OF reachable_ok [OF demo_reachable]])
  moreover have "length es = 2"
    using parallel_step_streams [OF reachable_ok [OF demo_reachable] demo_mode st]
    by (simp add: demo_streams)
  ultimately show ?thesis
    using reachable_runtime_ok [OF stepped [OF demo_reachable st]] by blast
qed

text \<open>C15: a parallel-mode \<open>step\<close> of a reachable runtime never raises, returns one event per stream, and
  every stream follows the gate: it crosses exactly one hop when the gate finds its next hop
  feasible, and otherwise pauses with its hop count unchanged.\<close>

theorem parallel_step_follows_gate:
  assumes "packet_reachable rt" and "pr_mode rt \<noteq> ''chain''"
  shows "\<exists>w' rt' es. step w rt gate = Inr (w', rt', es)
    \<and> list_all2 (follows_gate gate) (pr_streams rt) (pr_streams rt')
    \<and> length es = length (pr_streams rt)"
proof -
  obtain w' rt' es where st: "step w rt gate = Inr (w', rt', es)"
    by (rule step_ok [OF reachable_ok [OF assms(1)]])
  with parallel_step_streams [OF reachable_ok [OF assms(1)] assms(2) st] show ?thesis by blast
qed

lemma parallel_step_follows_gate_witness:
  "\<exists>w' rt' es. step demo_env demo_runtime first_hop_gate = Inr (w', rt', es)
    \<and> list_all2 (follows_gate first_hop_gate) (pr_streams demo_runtime) (pr_streams rt')
    \<and> length es = length (pr_streams demo_runtime)"
  using demo_reachable demo_mode by (rule parallel_step_follows_gate)

text \<open>C16: liveness. If every gate of a schedule of \<open>n\<close> parallel-mode steps finds every hop feasible, the
  run from fresh streams returns, keeps the streams, and each stream has then delivered
  exactly \<open>n div (len(route) - 1)\<close> packets.\<close>

theorem delivery_throughput:
  assumes "mode \<noteq> ''chain''" and "\<forall>(t, gate)\<in>set sched. always_feasible gate"
  shows "\<exists>w' rt'. run_schedule sched w (from_branches branches mode src ex run bytes) = Inr (w', rt')
    \<and> dict_keys (pr_streams rt') = dict_keys (branch_streams src bytes 0 branches)
    \<and> (\<forall>(k, s)\<in>set (pr_streams rt').
         bs_completed_packets s = int (length sched div (length (bs_route s) - 1)))"
proof -
  let ?rt = "from_branches branches mode src ex run bytes"
  let ?ss = "branch_streams src bytes 0 branches"
  have m: "pr_mode ?rt \<noteq> ''chain''" and ss: "pr_streams ?rt = ?ss"
    using assms(1) by (simp_all add: from_branches_def)
  obtain w' rt' where r: "run_schedule sched w ?rt = Inr (w', rt')" "runtime_ok rt'"
    and mv: "list_all2 (moved_by (int (length sched))) ?ss (pr_streams rt')"
    using run_schedule_moves [OF from_branches_ok m assms(2)] ss by metis
  have keys: "dict_keys (pr_streams rt') = dict_keys ?ss"
    using mv by (induction rule: list_all2_induct) (auto simp: moved_by_def)
  have fresh: "hops_done s = 0" if "(k, s) \<in> set ?ss" for k s
    using that fresh_hops by blast
  have "bs_completed_packets s = int (length sched div (length (bs_route s) - 1))"
    if "(k, s) \<in> set (pr_streams rt')" for k s
  proof (rule completed_of_hops)
    show "stream_ok s" using runtime_ok_streams [OF r(2) that] .
    from that obtain i where i: "i < length (pr_streams rt')" "pr_streams rt' ! i = (k, s)"
      by (auto simp: in_set_conv_nth)
    obtain k0 s0 where x: "?ss ! i = (k0, s0)" by fastforce
    have "moved_by (int (length sched)) (k0, s0) (k, s)" "i < length ?ss"
      using mv i x by (auto simp: list_all2_conv_all_nth)
    moreover have "hops_done s0 = 0" using fresh x calculation(2) nth_mem by metis
    ultimately show "hops_done s = int (length sched)" by (simp add: moved_by_def)
  qed
  with r keys show ?thesis by blast
qed

lemma delivery_throughput_witness:
  "\<exists>w' rt'. run_schedule (replicate 5 (Fin 5, open_gate)) demo_env demo_runtime = Inr (w', rt')
    \<and> dict_keys (pr_streams rt') = [''branch_0'', ''branch_1'']
    \<and> (\<forall>(k, s)\<in>set (pr_streams rt').
         bs_completed_packets s = int (5 div (length (bs_route s) - 1)))"
proof -
  have "\<forall>(t, gate)\<in>set (replicate 5 (Fin 5, open_gate)). always_feasible gate"
    by (simp add: open_gate_def constant_decision_def)
  with delivery_throughput [of "''parallel''" "replicate 5 (Fin 5, open_gate)" demo_env
      "[[0, 1], [2]]" "''base''" "''exp''" "''run''" 1200]
  show ?thesis by (simp add: demo_runtime_def)
qed

text \<open>A step on a stream whose packet is in flight and whose next hop the gate finds infeasible does not
  move the packet: cursor, route, sequence number and delivery counter stay, packet and stream
  carry the gate's reason, and the one event logged is \<open>PACKET_PAUSED_OUTAGE\<close>.\<close>

theorem infeasible_hop_pauses:
  assumes "stream_ok s" and "bs_current_packet s = Some p" and "pk_status p \<noteq> PS_DELIVERED"
    and "\<not> fd_feasible (gate (hop_src p) (hop_dst p))"
  shows "\<exists>w' rt' s' e p'. step_stream w rt s gate = Inr (w', rt', s', e)
    \<and> bs_current_packet s' = Some p' \<and> pk_status p' = PS_PAUSED_OUTAGE
    \<and> pk_current_hop_index p' = pk_current_hop_index p \<and> pk_route p' = pk_route p
    \<and> pk_current_node p' = pk_current_node p
    \<and> pk_sequence_number p' = pk_sequence_number p
    \<and> pk_outage_reason p' = Some (gate_reason_value (fd_reason (gate (hop_src p) (hop_dst p))))
    \<and> bs_paused s' \<and> bs_outage_reason s' = pk_outage_reason p'
    \<and> bs_completed_packets s' = bs_completed_packets s
    \<and> pr_events rt' = pr_events rt @ [e] \<and> ev_event_type e = ''PACKET_PAUSED_OUTAGE''"
proof -
  obtain w' rt' s' e evs w1 q where run: "step_stream w rt s gate = Inr (w', rt', s', e)"
    and st: "stream_step rt s (evs @ [e]) rt' s'"
    and cur: "bs_current_packet s' = Some (if fd_feasible (gate (hop_src q) (hop_dst q))
           then moved_packet w1 q else paused_packet q (gate (hop_src q) (hop_dst q)))"
    and paused: "bs_paused s' \<longleftrightarrow> \<not> fd_feasible (gate (hop_src q) (hop_dst q))"
    and ev: "ev_event_type e =
           (if \<not> fd_feasible (gate (hop_src q) (hop_dst q)) then ''PACKET_PAUSED_OUTAGE''
            else if pk_current_hop_index q + 1 \<ge> length (pk_route q) - 1 then ''PACKET_DELIVERED''
            else ''PACKET_ADVANCED'')"
    and old: "\<forall>r. bs_current_packet s = Some r \<and> pk_status r \<noteq> PS_DELIVERED \<longrightarrow>
        q = r \<and> evs = [] \<and> w1 = w"
    by (rule step_stream_step [OF assms(1), of w rt gate]) blast
  from old assms(2,3) have q: "q = p" "evs = []" by blast+
  from st have "stream_ok s'" "log_ext rt (evs @ [e]) rt'"
    and "bs_completed_packets s' = bs_completed_packets s + int (length (filter is_delivery (evs @ [e])))"
    by (simp_all add: stream_step_def)
  moreover have "pk_current_node p = hop_src p"
    using assms(1,2) by (simp add: stream_ok_def packet_ok_def hop_src_def)
  ultimately show ?thesis
    using run cur paused ev q assms(4)
    by (simp add: paused_packet_def waiting_def stream_ok_def log_ext_def)
qed

definition demo_stream :: branch_stream where
  "demo_stream = fst (snd (projr (new_packet demo_env (make_stream ''base'' 1200 0 [0, 1]) 1)))"

lemma demo_stream_ok:
  "stream_ok demo_stream" "bs_route demo_stream = [''base'', ''drone_0'', ''drone_1'']"
  "map_option pk_status (bs_current_packet demo_stream) = Some PS_QUEUED"
  by (simp_all add: demo_stream_def make_stream_def new_packet_def stream_ok_def packet_ok_def Let_def)

lemma infeasible_hop_pauses_witness:
  "\<exists>w' rt' s' e p'. step_stream demo_env demo_runtime demo_stream blocked_gate = Inr (w', rt', s', e)
    \<and> bs_current_packet s' = Some p' \<and> pk_status p' = PS_PAUSED_OUTAGE
    \<and> pk_outage_reason p' = Some ''OUT_OF_RANGE''"
proof -
  obtain p where p: "bs_current_packet demo_stream = Some p" "pk_status p \<noteq> PS_DELIVERED"
    using demo_stream_ok(3) by auto
  have "\<not> fd_feasible (blocked_gate (hop_src p) (hop_dst p))"
    by (simp add: blocked_gate_def constant_decision_def)
  from infeasible_hop_pauses [where w = demo_env and rt = demo_runtime and gate = blocked_gate, OF demo_stream_ok(1) p this]
  show ?thesis by (auto simp: blocked_gate_def constant_decision_def)
qed

text \<open>: in chain mode a \<open>step\<close> of a reachable runtime returns, its first stream follows the gate and all
  other streams keep their route, their hops and the hop they wait for.\<close>

theorem chain_step_moves_first:
  assumes "packet_reachable rt" and "pr_mode rt = ''chain''"
  shows "\<exists>w' rt' es. step w rt gate = Inr (w', rt', es)
    \<and> (case pr_streams rt of [] \<Rightarrow> es = [] \<and> pr_streams rt' = []
       | x # rest \<Rightarrow> (\<exists>y rest'. pr_streams rt' = y # rest' \<and> length es = 1
           \<and> follows_gate gate x y \<and> list_all2 unmoved rest rest'))"
proof -
  have ok: "runtime_ok rt" by (rule reachable_ok [OF assms(1)])
  obtain w1 rt1 where en: "ensure_packets w rt = Inr (w1, rt1)" "runtime_ok rt1"
    "pr_mode rt1 = pr_mode rt" "dict_keys (pr_streams rt1) = dict_keys (pr_streams rt)"
    by (rule ensure_packets_ok [OF ok])
  obtain w' rt' es where st: "step w rt gate = Inr (w', rt', es)"
    by (rule step_ok [OF ok])
  have un: "list_all2 unmoved (pr_streams rt) (pr_streams rt1)"
    by (rule ensure_packets_unmoved [OF ok en(1)])
  show ?thesis
  proof (cases "pr_streams rt")
    case Nil
    with un have "pr_streams rt1 = []" by simp
    with en assms(2) Nil show ?thesis by (simp add: step_def)
  next
    case (Cons x rest)
    with un obtain y ys where y: "pr_streams rt1 = y # ys" "unmoved x y" "list_all2 unmoved rest ys"
      by (auto simp: list_all2_Cons1)
    obtain k s where ks: "y = (k, s)" by (cases y)
    with st en assms(2) y obtain rt2 s2 where
      one: "step_one gate k w1 rt1 s = Inr (w', rt2, s2, es)" and rt': "pr_streams rt' = (k, s2) # ys"
      by (auto simp: step_def bindR_Inr_iff)
    have "stream_ok s" using y ks runtime_ok_streams [OF en(2), of k s] by simp
    from step_one_follows [OF this one] have "follows_gate gate x (k, s2)" "length es = 1"
      using unmoved_follows [OF y(2)] ks by auto
    with rt' st Cons y(3) show ?thesis by auto
  qed
qed

lemma chain_step_moves_first_witness:
  "\<exists>w' rt' es y rest'. step demo_env (from_branches [[0, 1], [2]] ''chain'' ''base'' ''e'' ''r'' 100) open_gate
      = Inr (w', rt', es) \<and> pr_streams rt' = y # rest' \<and> length rest' = 1 \<and> length es = 1"
  using chain_step_moves_first [of "from_branches [[0, 1], [2]] ''chain'' ''base'' ''e'' ''r'' 100"
      demo_env open_gate, OF init]
  by (fastforce simp: from_branches_def dest: list_all2_lengthD)

text \<open>\<open>replace_route\<close> on a reachable runtime: an unknown branch is a \<open>KeyError\<close>, a route of fewer than
  two nodes a \<open>ValueError\<close>; otherwise it returns, and the branch has the new route, its delivery
  counter, and a fresh queued packet at the route's first node, with every other stream
  untouched.\<close>

theorem replace_route_outcome:
  assumes "packet_reachable rt"
  shows "case map_of (pr_streams rt) k of
      None \<Rightarrow> replace_route w rt k route = Inl (KeyError k)
    | Some s \<Rightarrow>
        if length route < 2 then replace_route w rt k route = Inl ValueError
        else \<exists>w' rt' s' p. replace_route w rt k route = Inr (w', rt')
          \<and> map_of (pr_streams rt') = (map_of (pr_streams rt))(k \<mapsto> s')
          \<and> bs_route s' = route \<and> bs_completed_packets s' = bs_completed_packets s
          \<and> bs_current_packet s' = Some p \<and> pk_status p = PS_QUEUED
          \<and> pk_current_hop_index p = 0 \<and> pk_route p = route \<and> \<not> bs_paused s'"
proof (cases "map_of (pr_streams rt) k")
  case None
  then show ?thesis by (simp add: replace_route_def)
next
  case (Some s)
  show ?thesis
  proof (cases "length route < 2")
    case True
    with Some show ?thesis by (simp add: replace_route_def replace_one_def)
  next
    case False
    let ?s1 = "s\<lparr>bs_route := route, bs_source := hd route, bs_destination := last route\<rparr>"
    have "2 \<le> length (bs_route ?s1)" using False by simp
    then obtain w1 p where np: "new_packet w ?s1 (pr_sequence rt + 1) = Inr (w1,
        ?s1\<lparr>bs_current_packet := Some p, bs_paused := False, bs_outage_reason := None\<rparr>, p)"
      and p: "packet_ok p" "pk_status p = PS_QUEUED" "pk_route p = bs_route ?s1"
        "pk_current_hop_index p = 0"
      by (rule new_packet_ok)
    obtain w2 rt2 e where em: "emit_event w1 (rt\<lparr>pr_sequence := pr_sequence rt + 1\<rparr>)
        ''ROUTE_RECOMPUTED'' [(''branch_id'', PStr k), (''route'', PList (map PStr route))] ''INFO'' k
        = (w2, rt2, e)" by (metis prod_cases3)
    from emit_event_log [OF em] have "pr_streams rt2 = pr_streams rt" by (simp add: log_ext_def)
    then show ?thesis
      using Some False np em p
      by (simp add: replace_route_def replace_one_def Let_def update_conv')
        (rule exI [of _ "?s1\<lparr>bs_current_packet := Some p, bs_paused := False,
            bs_outage_reason := None\<rparr>"], simp)
  qed
qed

lemma replace_route_outcome_witness:
  "\<exists>w' rt'. replace_route demo_env demo_runtime ''branch_1'' [''base'', ''drone_3'', ''drone_2''] = Inr (w', rt')
    \<and> replace_route demo_env demo_runtime ''branch_7'' [] = Inl (KeyError ''branch_7'')"
  using replace_route_outcome [OF demo_reachable, where k = "''branch_1''" and w = demo_env
      and route = "[''base'', ''drone_3'', ''drone_2'']"]
    replace_route_outcome [OF demo_reachable, where k = "''branch_7''" and w = demo_env and route = "[]"]
  by (auto simp: demo_streams)

definition cleared_from :: "(string \<Rightarrow> bool) \<Rightarrow> string \<times> branch_stream \<Rightarrow> string \<times> branch_stream \<Rightarrow> bool" where
  "cleared_from sel = (\<lambda>(k, s) (k', s').
     unmoved (k, s) (k', s')
     \<and> (if sel k
        then \<not> bs_paused s' \<and> bs_outage_reason s' = None
          \<and> (\<forall>p. bs_current_packet s = Some p \<and> pk_status p = PS_PAUSED_OUTAGE \<longrightarrow>
               (\<exists>p'. bs_current_packet s' = Some p' \<and> pk_status p' = PS_RETRYING
                  \<and> pk_retries p' = pk_retries p + 1))
        else s' = s))"

lemma clear_one_cleared:
  assumes "clear_one sel k w rt s = Inr (w', rt', s', es)"
  shows "cleared_from sel (k, s) (k, s') \<and> length es = 0"
  using assms
  by (auto simp: clear_one_def cleared_from_def unmoved_def clear_stream_def hops_done_def next_hop_def
      hop_src_def hop_dst_def Let_def split: if_splits option.splits prod.splits)

text \<open>\<open>clear_outage\<close> on a reachable runtime returns and moves no packet: every stream keeps its hops and
  its next hop; a targeted branch (all of them when no known branch is named) is no longer
  paused and its packet, if it was paused by an outage, is \<open>RETRYING\<close> with one more retry; the
  streams that are not targeted are unchanged.\<close>

theorem clear_outage_resumes:
  assumes "packet_reachable rt"
  shows "\<exists>w' rt'. clear_outage w rt b = Inr (w', rt')
    \<and> list_all2 (cleared_from (clear_targets rt b)) (pr_streams rt) (pr_streams rt')"
proof -
  obtain w' rt' where r: "clear_outage w rt b = Inr (w', rt')"
    by (rule clear_outage_ok [OF reachable_ok [OF assms]])
  then obtain rt1 ss es where
    l: "stream_loop (clear_one (clear_targets rt b)) w rt (pr_streams rt) = Inr (w', rt1, ss, es)"
      "rt' = rt1\<lparr>pr_streams := ss\<rparr>"
    by (auto simp: clear_outage_def bindR_Inr_iff)
  have "list_all2 (cleared_from (clear_targets rt b)) (pr_streams rt) ss
      \<and> length es = 0 * length (pr_streams rt)"
    by (rule stream_loop_pointwise [OF l(1)]) (rule clear_one_cleared)
  with r l(2) show ?thesis by auto
qed

lemma clear_outage_resumes_witness:
  "\<exists>w' rt'. clear_outage demo_env demo_runtime (Some ''branch_1'') = Inr (w', rt')
    \<and> length (pr_streams rt') = 2"
  using clear_outage_resumes [OF demo_reachable, of demo_env "Some ''branch_1''"]
  by (auto simp: demo_streams dest!: list_all2_lengthD)

lemma sum_deliveries:
  assumes "distinct ks" and "\<forall>e\<in>set evs. ev_affected_entity e \<in> set ks"
  shows "sum_list (map (\<lambda>k. deliveries k evs) ks) = int (length (filter is_delivery evs))"
  using assms(2)
proof (induction evs)
  case Nil
  then show ?case by (simp add: sum_list_0)
next
  case (Cons e evs)
  have one: "deliveries k (e # evs) = deliveries k evs + (if is_delivery e \<and> k = ev_affected_entity e then 1 else 0)"
    for k by (auto simp: deliveries_def)
  have "sum_list (map (\<lambda>k. if is_delivery e \<and> k = ev_affected_entity e then 1 else 0 :: int) ks)
      = (if is_delivery e then 1 else 0)"
    using assms(1) Cons.prems by (auto simp: sum_list_distinct_conv_sum_set)
  with Cons show ?case by (simp add: one sum_list_addf)
qed

text \<open>: the delivery total of \<open>summary()\<close> on a reachable runtime is the number of delivery events in the
  whole event log.\<close>

theorem summary_counts_deliveries:
  assumes "packet_reachable rt"
  shows "dget (packet_summary rt) ''delivered_packets'' PNone
    = PInt (int (length (filter is_delivery (pr_events rt))))"
proof -
  have ok: "runtime_ok rt" by (rule reachable_ok [OF assms])
  have "map bs_completed_packets (map snd (pr_streams rt))
      = map (\<lambda>k. deliveries k (pr_events rt)) (dict_keys (pr_streams rt))"
    using ok by (auto simp: runtime_ok_def dict_keys_def)
  then show ?thesis
    using ok sum_deliveries [of "dict_keys (pr_streams rt)" "pr_events rt"]
    by (simp add: packet_summary_def Let_def runtime_ok_def)
qed

lemma summary_counts_deliveries_witness:
  "\<exists>w' rt' es. step demo_env demo_runtime open_gate = Inr (w', rt', es)
     \<and> dget (packet_summary rt') ''delivered_packets'' PNone
         = PInt (int (length (filter is_delivery (pr_events rt'))))"
proof -
  obtain w' rt' es where st: "step demo_env demo_runtime open_gate = Inr (w', rt', es)"
    by (rule step_ok [OF reachable_ok [OF demo_reachable]])
  from summary_counts_deliveries [OF stepped [OF demo_reachable st]] st show ?thesis by blast
qed

end
