(* ===== verification/Json.thy ===== *)
theory Json
  imports Py_Value "HOL-Library.Multiset" "HOL-Library.Char_ord" "HOL-Library.List_Lexorder"
begin

text \<open>
  JSON files and JSON text, as \<open>netlab/io.py\<close> and \<open>netlab/hashing.py\<close> use them. The shared
  directory tree is a map from paths to the JSON values the files hold; a path that is
  absent or does not parse is outside its domain, where \<open>read_json\<close> returns its default.
  \<open>atomic_write_json\<close> serialises with \<open>sort_keys=True, allow_nan=False\<close>: a non-finite float raises
  \<open>ValueError\<close>, and what is read back is the value with its keys sorted at every level. The
  replacement is atomic, so a reader sees the old value or the new one. File modes, owners and
  I/O errors are not modelled.
\<close>

section \<open>Serialisation\<close>

fun json_ok :: "pyval \<Rightarrow> bool" where
  "json_ok (PFloat f) = is_finite f"
| "json_ok (PList xs) = (\<forall>x\<in>set xs. json_ok x)"
| "json_ok (PDict d) = (\<forall>(k, v)\<in>set d. json_ok v)"
| "json_ok v = True"

fun json_norm :: "pyval \<Rightarrow> pyval" where
  "json_norm (PList xs) = PList (map json_norm xs)"
| "json_norm (PDict d) = PDict (sort_key fst (map (\<lambda>(k, v). (k, json_norm v)) d))"
| "json_norm v = v"

text \<open>A dictionary has each key once, at every level.\<close>

fun keys_ok :: "pyval \<Rightarrow> bool" where
  "keys_ok (PList xs) = (\<forall>x\<in>set xs. keys_ok x)"
| "keys_ok (PDict d) = (distinct (dict_keys d) \<and> (\<forall>(k, v)\<in>set d. keys_ok v))"
| "keys_ok v = True"

type_synonym files = "string \<Rightarrow> pyval option"

definition read_json :: "files \<Rightarrow> string \<Rightarrow> pyval \<Rightarrow> pyval" where
  "read_json fs path dflt = (case fs path of None \<Rightarrow> dflt | Some v \<Rightarrow> v)"

definition write_json :: "files \<Rightarrow> string \<Rightarrow> pyval \<Rightarrow> files res" where
  "write_json fs path v = (if json_ok v then Inr (fs(path \<mapsto> json_norm v)) else Inl ValueError)"

section \<open>JSON text\<close>

definition json_escape :: "char \<Rightarrow> string" where
  "json_escape c =
     (let n = (of_char c :: nat); bs = char_of (92 :: nat)
      in if n = 34 \<or> n = 92 then [bs, c]
         else if n = 8 then [bs, CHR ''b''] else if n = 9 then [bs, CHR ''t'']
         else if n = 10 then [bs, CHR ''n''] else if n = 12 then [bs, CHR ''f'']
         else if n = 13 then [bs, CHR ''r'']
         else if n < 32 then [bs, CHR ''u'', CHR ''0'', CHR ''0'', hex_digit (n div 16), hex_digit (n mod 16)]
         else [c])"

definition json_string :: "string \<Rightarrow> string" where
  "json_string s = char_of (34 :: nat) # concat (map json_escape s) @ [char_of (34 :: nat)]"

fun sep_join :: "string \<Rightarrow> string list \<Rightarrow> string" where
  "sep_join sep [] = []"
| "sep_join sep [s] = s"
| "sep_join sep (s # t # ts) = s @ sep @ sep_join sep (t # ts)"

text \<open>The compact form \<open>separators=(',', ':')\<close>, keys in the order given.\<close>

fun json_text :: "pyval \<Rightarrow> string" where
  "json_text PNone = ''null''"
| "json_text (PBool b) = (if b then ''true'' else ''false'')"
| "json_text (PInt i) = show_int i"
| "json_text (PFloat f) = float_repr f"
| "json_text (PStr s) = json_string s"
| "json_text (PList xs) = ''['' @ sep_join '','' (map json_text xs) @ '']''"
| "json_text (PDict d) =
     ''{'' @ sep_join '','' (map (\<lambda>(k, v). json_string k @ '':'' @ json_text v) d) @ ''}''"

text \<open>\<open>canonical_json\<close>.\<close>

definition canonical_json :: "pyval \<Rightarrow> string res" where
  "canonical_json v = (if json_ok v then Inr (json_text (json_norm v)) else Inl ValueError)"

section \<open>Lemmas\<close>

lemma set_json_norm_items:
  "set (sort_key fst (map (\<lambda>(k, v). (k, json_norm v)) d)) = (\<lambda>(k, v). (k, json_norm v)) ` set d"
  by simp

lemma json_norm_keys:
  "set (dict_keys (sort_key fst (map (\<lambda>(k, v). (k, json_norm v)) d))) = set (dict_keys d)"
  by (force simp: dict_keys_def)

lemma sort_key_Nil_iff [simp]: "sort_key f xs = [] \<longleftrightarrow> xs = []"
  by (metis set_empty set_sort)

lemma distinct_sort_key_keys:
  "distinct (dict_keys d) \<Longrightarrow> distinct (dict_keys (sort_key fst d))"
proof -
  assume d: "distinct (dict_keys d)"
  have "mset (dict_keys (sort_key fst d)) = mset (dict_keys d)"
    unfolding dict_keys_def mset_map by simp
  with d show ?thesis by (metis mset_eq_imp_distinct_iff)
qed

lemma map_of_filter:
  "map_of d k = (case filter (\<lambda>p. fst p = k) d of [] \<Rightarrow> None | p # _ \<Rightarrow> Some (snd p))"
  by (induction d) auto

text \<open>The sort is stable, so the first binding of a key stays the first.\<close>

lemma map_of_sort_key: "map_of (sort_key fst d) k = map_of d k"
  unfolding map_of_filter by (simp add: sort_key_stable)

lemma map_of_json_items:
  "map_of (map (\<lambda>(k, v). (k, json_norm v)) d) k = map_option json_norm (map_of d k)"
  using map_of_map_values [of json_norm d k] by (simp add: map_values_def)

lemma json_norm_keys_distinct:
  assumes "distinct (dict_keys d)"
  shows "distinct (dict_keys (as_dict (json_norm (PDict d))))"
proof -
  have "dict_keys (map (\<lambda>(k, v). (k, json_norm v)) d) = dict_keys d" by (auto simp: dict_keys_def)
  with assms distinct_sort_key_keys [of "map (\<lambda>(k, v). (k, json_norm v)) d"] show ?thesis by simp
qed

lemma json_norm_dict_lookup:
  "map_of (as_dict (json_norm (PDict d))) k = map_option json_norm (map_of d k)"
  by (simp add: map_of_sort_key map_of_json_items)

lemma json_norm_dget:
  "dget (as_dict (json_norm (PDict d))) k v = (case map_of d k of None \<Rightarrow> v | Some x \<Rightarrow> json_norm x)"
  using json_norm_dict_lookup [of d k] by (simp add: dget_def split: option.splits)

lemma json_norm_truthy [simp]: "truthy (json_norm v) = truthy v"
  by (cases v) auto

lemma json_norm_PStr [simp]: "json_norm v = PStr s \<longleftrightarrow> v = PStr s"
  by (cases v) auto

lemma json_norm_idem: "json_norm (json_norm v) = json_norm v"
proof (induction v rule: json_norm.induct)
  case (2 d)
  let ?s = "sort_key fst (map (\<lambda>(k, v). (k, json_norm v)) d)"
  have "map (\<lambda>(k, v). (k, json_norm v)) ?s = ?s"
    using 2 by (intro map_idI) (auto simp: set_json_norm_items)
  moreover have "sort_key fst ?s = ?s" by (rule sort_key_id_if_sorted) (rule sorted_sort_key)
  ultimately show ?case by simp
qed (auto intro: map_cong)

lemma json_norm_PDict_iff: "json_norm v = PDict d \<longleftrightarrow> (\<exists>e. v = PDict e \<and> d = as_dict (json_norm (PDict e)))"
  by (cases v) auto

end
