(* ===== verification/Hashing.thy ===== *)
theory Hashing
  imports Json "HOL-Library.Word"
begin

text \<open>
  \<open>netlab/hashing.py\<close>: the SHA-256 of the canonical JSON text of a value, and the per-domain hashes
  of a configuration. SHA-256 (\<open>hashlib.sha256\<close>) is written out on 32-bit words.
\<close>

unbundle bit_operations_syntax

section \<open>SHA-256\<close>

definition sha_k :: "32 word list" where
  "sha_k =
     [1116352408, 1899447441, 3049323471, 3921009573, 961987163, 1508970993, 2453635748,
      2870763221, 3624381080, 310598401, 607225278, 1426881987, 1925078388, 2162078206,
      2614888103, 3248222580, 3835390401, 4022224774, 264347078, 604807628, 770255983,
      1249150122, 1555081692, 1996064986, 2554220882, 2821834349, 2952996808, 3210313671,
      3336571891, 3584528711, 113926993, 338241895, 666307205, 773529912, 1294757372,
      1396182291, 1695183700, 1986661051, 2177026350, 2456956037, 2730485921, 2820302411,
      3259730800, 3345764771, 3516065817, 3600352804, 4094571909, 275423344, 430227734,
      506948616, 659060556, 883997877, 958139571, 1322822218, 1537002063, 1747873779,
      1955562222, 2024104815, 2227730452, 2361852424, 2428436474, 2756734187, 3204031479,
      3329325298]"

definition rotr :: "nat \<Rightarrow> 32 word \<Rightarrow> 32 word" where
  "rotr n w = (drop_bit n w OR push_bit (32 - n) w)"

definition sha_pad :: "int list \<Rightarrow> int list" where
  "sha_pad bytes =
     (let n = length bytes; zeros = (119 - n mod 64) mod 64; bits = 8 * int n
      in bytes @ [128] @ replicate zeros 0
         @ map (\<lambda>i. bits div 256 ^ (7 - i) mod 256) [0..<8])"

fun sha_words :: "int list \<Rightarrow> 32 word list" where
  "sha_words (a # b # c # d # rest) =
     word_of_int (((a * 256 + b) * 256 + c) * 256 + d) # sha_words rest"
| "sha_words _ = []"

text \<open>The message schedule, newest word first.\<close>

fun sha_schedule :: "nat \<Rightarrow> 32 word list \<Rightarrow> 32 word list" where
  "sha_schedule 0 ws = ws"
| "sha_schedule (Suc n) ws =
     (let x = ws ! 14; y = ws ! 1;
          s0 = rotr 7 x XOR rotr 18 x XOR drop_bit 3 x;
          s1 = rotr 17 y XOR rotr 19 y XOR drop_bit 10 y
      in sha_schedule n ((ws ! 15 + s0 + ws ! 6 + s1) # ws))"

type_synonym sha_state = "32 word \<times> 32 word \<times> 32 word \<times> 32 word \<times> 32 word \<times> 32 word \<times> 32 word \<times> 32 word"

definition sha_round :: "32 word \<times> 32 word \<Rightarrow> sha_state \<Rightarrow> sha_state" where
  "sha_round = (\<lambda>(k, w) (a, b, c, d, e, f, g, h).
     let s1 = rotr 6 e XOR rotr 11 e XOR rotr 25 e;
         ch = (e AND f) XOR (NOT e AND g);
         t1 = h + s1 + ch + k + w;
         s0 = rotr 2 a XOR rotr 13 a XOR rotr 22 a;
         maj = (a AND b) XOR (a AND c) XOR (b AND c)
     in (t1 + (s0 + maj), a, b, c, d + t1, e, f, g))"

definition sha_block :: "32 word list \<Rightarrow> sha_state \<Rightarrow> sha_state" where
  "sha_block block st =
     (let ws = rev (sha_schedule 48 (rev block));
          (a, b, c, d, e, f, g, h) = st;
          (a', b', c', d', e', f', g', h') = fold sha_round (zip sha_k ws) st
      in (a + a', b + b', c + c', d + d', e + e', f + f', g + g', h + h'))"

function sha_blocks :: "32 word list \<Rightarrow> sha_state \<Rightarrow> sha_state" where
  "sha_blocks ws st =
     (if ws = [] then st else sha_blocks (drop 16 ws) (sha_block (take 16 ws) st))"
  by pat_completeness auto
termination
  by (relation "measure (\<lambda>(ws, st). length ws)") auto

definition word_hex :: "32 word \<Rightarrow> string" where
  "word_hex w = map (\<lambda>i. hex_digit (nat (uint w div 16 ^ (7 - i) mod 16))) [0..<8]"

definition sha256 :: "string \<Rightarrow> string" where
  "sha256 s =
     (case sha_blocks (sha_words (sha_pad (map of_char s)))
             (1779033703, 3144134277, 1013904242, 2773480762, 1359893119, 2600822924, 528734635, 1541459225) of
        (a, b, c, d, e, f, g, h) \<Rightarrow> concat (map word_hex [a, b, c, d, e, f, g, h]))"

section \<open>Hashes of a configuration\<close>

definition sha256_value :: "pyval \<Rightarrow> string res" where
  "sha256_value v = bindR (canonical_json v) (\<lambda>t. Inr (sha256 t))"

text \<open>
  \<open>component_hashes\<close>: the assignments in order, each overwriting or appending its key; \<open>rstrip('s')\<close> is
  applied only to \<open>failures\<close>, so the key written by the loop for the antennas is \<open>antennas_hash\<close>, and
  the canonical \<open>antenna_hash\<close> is a further key.
\<close>

definition hash_domains :: "(string \<times> string) list" where
  "hash_domains =
     [(''topology_hash'', ''topology''), (''swarm_hash'', ''swarm''), (''antennas_hash'', ''antennas''),
      (''world_hash'', ''world''), (''traffic_hash'', ''traffic''), (''failure_hash'', ''failures''),
      (''topology_hash'', ''topology''), (''swarm_hash'', ''swarm''), (''antenna_hash'', ''antennas''),
      (''world_hash'', ''world''), (''traffic_hash'', ''traffic''), (''failure_hash'', ''failures'')]"

definition component_hashes :: "pyval \<Rightarrow> pydict res" where
  "component_hashes config =
     bindR (sha256_value config) (\<lambda>h.
       foldR (\<lambda>(name, key) out.
           bindR (pget config key (PDict [])) (\<lambda>part.
             bindR (sha256_value part) (\<lambda>h. Inr (dset name (PStr h) out))))
         hash_domains [(''config_hash'', PStr h)])"

section \<open>Lemmas\<close>

text \<open>The test vector of the standard.\<close>

lemma sha256_abc:
  "sha256 ''abc'' = ''ba7816bf8f01cfea414140de5dae2223b00361a396177a9cb410ff61f20015ad''"
  by code_simp

lemma json_ok_dget: "json_ok (PDict r) \<Longrightarrow> json_ok v \<Longrightarrow> json_ok (dget r k v)"
  by (auto simp: dget_def split: option.splits dest: map_of_SomeD)

lemma json_ok_dset: "json_ok v \<Longrightarrow> json_ok (PDict d) \<Longrightarrow> json_ok (PDict (dset k v d))"
  by (induction d) (auto simp: json_ok.simps(3) split: if_splits)

lemma sha256_value_ok: "json_ok v \<Longrightarrow> sha256_value v = Inr (sha256 (json_text (json_norm v)))"
  by (simp add: sha256_value_def canonical_json_def)

text \<open>The hashes of a configuration that JSON can represent exist; each is the digest of its part.\<close>

definition part_hash :: "pydict \<Rightarrow> string \<Rightarrow> pyval" where
  "part_hash config key = PStr (sha256 (json_text (json_norm (dget config key (PDict [])))))"

lemma component_hashes_ok:
  assumes "json_ok (PDict config)"
  shows "component_hashes (PDict config) = Inr
    [(''config_hash'', PStr (sha256 (json_text (json_norm (PDict config))))),
     (''topology_hash'', part_hash config ''topology''), (''swarm_hash'', part_hash config ''swarm''),
     (''antennas_hash'', part_hash config ''antennas''), (''world_hash'', part_hash config ''world''),
     (''traffic_hash'', part_hash config ''traffic''), (''failure_hash'', part_hash config ''failures''),
     (''antenna_hash'', part_hash config ''antennas'')]"
proof -
  have part: "sha256_value (dget config k (PDict [])) = Inr (sha256 (json_text (json_norm (dget config k (PDict [])))))"
    for k by (rule sha256_value_ok [OF json_ok_dget [OF assms]], simp)
  show ?thesis
    unfolding component_hashes_def hash_domains_def sha256_value_ok [OF assms]
    by (simp add: pget_def part part_hash_def)
qed

lemma component_hashes_Inr_ok:
  assumes "component_hashes v = Inr h"
  shows "json_ok v" "\<exists>config. v = PDict config"
proof -
  show "json_ok v"
    using assms
    by (auto simp: component_hashes_def sha256_value_def canonical_json_def bindR_Inr_iff split: if_splits)
  show "\<exists>config. v = PDict config"
    using assms
    by (cases v) (auto simp: component_hashes_def bindR_Inr_iff hash_domains_def pget_def)
qed

end
