(* ===== verification/Py_Math.thy ===== *)
theory Py_Math
  imports Py_Value
begin

text \<open>
  More of the language and its standard library: \<open>len\<close>, \<open>list\<close> of a value, \<open>startswith\<close>, fixed-point
  formatting, \<open>math.sqrt\<close>, \<open>math.dist\<close>. The square root is the correctly rounded one; \<open>math.dist\<close>
  rounds the coordinate differences and then the norm once.
\<close>

section \<open>Sequences and dictionaries\<close>

definition plen :: "pyval \<Rightarrow> int res" where
  "plen v =
     (case v of
        PStr s \<Rightarrow> Inr (int (length s))
      | PList xs \<Rightarrow> Inr (int (length xs))
      | PDict d \<Rightarrow> Inr (int (length d))
      | _ \<Rightarrow> Inl TypeError)"

text \<open>\<open>list(v)\<close> and \<open>tuple(v)\<close>.\<close>

definition ptuple :: "pyval \<Rightarrow> pyval list res" where
  "ptuple v =
     (case v of
        PList xs \<Rightarrow> Inr xs
      | PStr s \<Rightarrow> Inr (map (\<lambda>c. PStr [c]) s)
      | PDict d \<Rightarrow> Inr (map (PStr \<circ> fst) d)
      | _ \<Rightarrow> Inl TypeError)"

text \<open>The dictionary on which \<open>.get\<close>, \<open>.items()\<close> or \<open>.update\<close> is called.\<close>

definition pitems :: "pyval \<Rightarrow> pydict res" where
  "pitems v = (case v of PDict d \<Rightarrow> Inr d | _ \<Rightarrow> Inl AttributeError)"

text \<open>\<open>d[key]\<close> on a value that may be no dictionary.\<close>

definition pitem :: "pyval \<Rightarrow> string \<Rightarrow> pyval res" where
  "pitem v k = (case v of PDict d \<Rightarrow> dget_item d k | _ \<Rightarrow> Inl TypeError)"

text \<open>\<open>d.get(key, default)\<close> and \<open>key in d\<close> for a key of any type.\<close>

definition dget_key :: "pydict \<Rightarrow> pyval \<Rightarrow> pyval \<Rightarrow> pyval res" where
  "dget_key d key v =
     (case key of
        PStr s \<Rightarrow> Inr (dget d s v)
      | PList _ \<Rightarrow> Inl TypeError
      | PDict _ \<Rightarrow> Inl TypeError
      | _ \<Rightarrow> Inr v)"

text \<open>\<open>base[section].update(patch)\<close> on a dictionary whose section is a dictionary.\<close>

definition section_of :: "pydict \<Rightarrow> string \<Rightarrow> pydict" where
  "section_of base name = as_dict (dget base name PNone)"

definition update_section :: "string \<Rightarrow> pydict \<Rightarrow> pydict \<Rightarrow> pydict" where
  "update_section name patch base = dset name (PDict (dupdate (section_of base name) patch)) base"

fun starts_with :: "string \<Rightarrow> string \<Rightarrow> bool" where
  "starts_with s [] = True"
| "starts_with [] (c # p) = False"
| "starts_with (d # s) (c # p) = (c = d \<and> starts_with s p)"

text \<open>A float literal.\<close>

abbreviation flit :: "rat \<Rightarrow> pyval" where
  "flit q \<equiv> PFloat (rnd64 q)"

definition int_range :: "int \<Rightarrow> int \<Rightarrow> int list" where
  "int_range lo hi = map (\<lambda>i. lo + int i) [0..<nat (hi - lo)]"

lemma set_int_range [simp]: "set (int_range lo hi) = {lo..<hi}"
proof -
  have "x \<in> (\<lambda>i. lo + int i) ` {0..<nat (hi - lo)}" if "lo \<le> x" "x < hi" for x
    by (rule image_eqI [where x = "nat (x - lo)"]) (use that in auto)
  then show ?thesis by (auto simp: int_range_def)
qed

lemma length_int_range [simp]: "length (int_range lo hi) = nat (hi - lo)"
  by (simp add: int_range_def)

lemma distinct_int_range: "distinct (int_range lo hi)"
  by (simp add: int_range_def distinct_map inj_on_def)

section \<open>Fixed-point formatting\<close>

definition pad_zeros :: "nat \<Rightarrow> string \<Rightarrow> string" where
  "pad_zeros n s = replicate (n - length s) (CHR ''0'') @ s"

definition format_fixed_rat :: "nat \<Rightarrow> rat \<Rightarrow> string" where
  "format_fixed_rat n q =
     (let s = pad_zeros (Suc n) (show_int (round_half_even (\<bar>q\<bar> * 10 ^ n)));
          k = length s - n
      in (if q < 0 then ''-'' else '''') @ take k s @ (if n = 0 then '''' else CHR ''.'' # drop k s))"

fun format_fixed :: "nat \<Rightarrow> pyfloat \<Rightarrow> string" where
  "format_fixed n (Fin q) = format_fixed_rat n q"
| "format_fixed n PInf = ''inf''"
| "format_fixed n NInf = ''-inf''"
| "format_fixed n NaN = ''nan''"

section \<open>Arithmetic on values\<close>

text \<open>The float an operand of a float operation is converted to.\<close>

definition operand :: "pyval \<Rightarrow> pyfloat res" where
  "operand v =
     (case v of
        PFloat f \<Rightarrow> Inr f
      | PInt i \<Rightarrow> float_of_int i
      | PBool b \<Rightarrow> Inr (Fin (if b then 1 else 0))
      | _ \<Rightarrow> Inl TypeError)"

text \<open>
  The transcendental functions of the platform's C library, which \<open>math\<close> calls, are parameters:
  logarithms on positive exact values, and \<open>10 ** x\<close>, which may overflow.
\<close>

record libm =
  lm_log10 :: "rat \<Rightarrow> pyfloat"
  lm_log2 :: "rat \<Rightarrow> pyfloat"
  lm_pow10 :: "rat \<Rightarrow> pyfloat res"

definition math_log :: "(rat \<Rightarrow> pyfloat) \<Rightarrow> pyval \<Rightarrow> pyfloat res" where
  "math_log f v =
     (case num_of v of
        Some (Fin q) \<Rightarrow> if q > 0 then Inr (f q) else Inl ValueError
      | Some PInf \<Rightarrow> Inr PInf
      | Some NInf \<Rightarrow> Inl ValueError
      | Some NaN \<Rightarrow> Inr NaN
      | None \<Rightarrow> Inl TypeError)"

section \<open>Square root and distance\<close>

function isqrt :: "int \<Rightarrow> int" where
  "isqrt n = (if n \<le> 0 then 0 else let r = 2 * isqrt (n div 4) in if (r + 1) * (r + 1) \<le> n then r + 1 else r)"
  by pat_completeness auto
termination
  by (relation "measure nat") auto

declare isqrt.simps [simp del]

lemma isqrt_bounds: "n \<ge> 0 \<Longrightarrow> isqrt n \<ge> 0 \<and> isqrt n * isqrt n \<le> n \<and> n < (isqrt n + 1) * (isqrt n + 1)"
proof (induction n rule: isqrt.induct)
  case (1 n)
  show ?case
  proof (cases "n \<le> 0")
    case True
    with 1 have "n = 0" by simp
    then show ?thesis by (simp add: isqrt.simps [of 0])
  next
    case False
    define m where "m = isqrt (n div 4)"
    from 1 False have m: "m \<ge> 0" "m * m \<le> n div 4" "n div 4 < (m + 1) * (m + 1)"
      unfolding m_def by auto
    have four: "4 * (m * m) \<le> n" "n < 4 * ((m + 1) * (m + 1))" using m(2,3) by linarith+
    have "isqrt n = (if (2 * m + 1) * (2 * m + 1) \<le> n then 2 * m + 1 else 2 * m)"
      using False by (simp add: isqrt.simps [of n] m_def Let_def)
    with four m(1) show ?thesis by (auto simp: algebra_simps)
  qed
qed

text \<open>
  The root of a positive rational: at least 60 bits of the integer root, with a last bit set when
  it is not exact, so that one rounding to binary64 is the rounding of the real root.
\<close>

definition sqrt_pos :: "rat \<Rightarrow> rat" where
  "sqrt_pos x =
     (let k = max 0 (60 - ilog2 x div 2);
          y = x * pow2 (2 * k);
          r = isqrt \<lfloor>y\<rfloor>
      in (if of_int r * of_int r = y then of_int r else of_int r + 1 / 2) / pow2 k)"

fun fsqrt :: "pyfloat \<Rightarrow> pyfloat res" where
  "fsqrt (Fin q) =
     (if q < 0 then Inl ValueError else if q = 0 then Inr (Fin 0) else Inr (rnd64 (sqrt_pos q)))"
| "fsqrt PInf = Inr PInf"
| "fsqrt NInf = Inl ValueError"
| "fsqrt NaN = Inr NaN"

fun fin_part :: "pyfloat \<Rightarrow> rat" where
  "fin_part (Fin q) = q"
| "fin_part _ = 0"

definition fdist :: "pyfloat list \<Rightarrow> pyfloat list \<Rightarrow> pyfloat" where
  "fdist p q =
     (let d = map2 (\<lambda>a b. fabs (fsub a b)) p q
      in if PInf \<in> set d then PInf
         else if NaN \<in> set d then NaN
         else (let s = sum_list (map (\<lambda>x. fin_part x * fin_part x) d)
               in if s = 0 then Fin 0 else rnd64 (sqrt_pos s)))"

lemma sqrt_pos_nonneg:
  assumes "x > 0"
  shows "sqrt_pos x \<ge> 0"
proof -
  have "isqrt \<lfloor>x * pow2 (2 * max 0 (60 - ilog2 x div 2))\<rfloor> \<ge> 0"
    using isqrt_bounds assms by simp
  then show ?thesis unfolding sqrt_pos_def Let_def by simp
qed

end
