(* ===== verification/Revision_Store.thy ===== *)
theory Revision_Store
  imports Models Hashing Py_Math
begin

text \<open>
  \<open>RevisionStore\<close> of \<open>netlab/revisions.py\<close>: the typed low-level store of configuration revisions. A
  revision is saved as one JSON file; \<open>revision_current.json\<close> holds the committed one and
  \<open>revision_desired.json\<close> the last one created. Paths are relative to the store's root. The
  fields a loaded document fills without a check are \<open>pyval\<close>s, as they are in the code.
\<close>

section \<open>Revisions\<close>

record revision =
  rv_id :: pyval
  rv_parent :: pyval
  rv_command_id :: pyval
  rv_idempotency_key :: pyval
  rv_hashes :: pyval
  rv_candidate :: pyval
  rv_status :: revision_status
  rv_initiator :: pyval
  rv_created_at :: time
  rv_updated_at :: time
  rv_acks :: pyval
  rv_error :: pyval
  rv_retry_count :: int
  rv_scene_checksum :: pyval

definition revision_to_dict :: "revision \<Rightarrow> pydict" where
  "revision_to_dict r =
     [(''revision_id'', rv_id r), (''parent_revision_id'', rv_parent r),
      (''command_id'', rv_command_id r), (''idempotency_key'', rv_idempotency_key r),
      (''hashes'', rv_hashes r), (''candidate'', rv_candidate r),
      (''status'', PStr (revision_status_value (rv_status r))), (''initiator'', rv_initiator r),
      (''created_at'', PFloat (rv_created_at r)), (''updated_at'', PFloat (rv_updated_at r)),
      (''acknowledgements'', rv_acks r), (''error'', rv_error r),
      (''retry_count'', PInt (rv_retry_count r)), (''scene_checksum'', rv_scene_checksum r)]"

definition all_revision_statuses :: "revision_status list" where
  "all_revision_statuses =
     [RS_DRAFT_SAVED, RS_VALIDATED, RS_PENDING_RUNTIME_APPLY, RS_PENDING_ROS, RS_PENDING_SIONNA,
      RS_PENDING_ISAAC, RS_APPLIED_TO_ROS, RS_APPLIED_TO_SIONNA, RS_APPLIED_TO_ISAAC,
      RS_DRIFT_DETECTED, RS_RECONCILING, RS_IN_SYNC, RS_COMMITTED, RS_DEGRADED, RS_FAILED,
      RS_ROLLED_BACK]"

text \<open>\<open>RevisionStatus(value)\<close>.\<close>

definition revision_status_of :: "pyval \<Rightarrow> revision_status res" where
  "revision_status_of v =
     (case find (\<lambda>s. v = PStr (revision_status_value s)) all_revision_statuses of
        Some s \<Rightarrow> Inr s | None \<Rightarrow> Inl ValueError)"

definition revision_from_dict :: "env \<Rightarrow> pyval \<Rightarrow> revision res" where
  "revision_from_dict w v =
     bindR (pitem v ''revision_id'') (\<lambda>rid.
       let d = as_dict v
       in bindR (revision_status_of (dget d ''status'' (PStr ''DRAFT_SAVED''))) (\<lambda>status.
          bindR (py_float (dget d ''created_at'' (PFloat (env_now w)))) (\<lambda>created.
          bindR (py_float (dget d ''updated_at'' (PFloat (env_now w)))) (\<lambda>updated.
          bindR (py_int (dget d ''retry_count'' (PInt 0))) (\<lambda>retries.
            Inr \<lparr>rv_id = rid, rv_parent = dget d ''parent_revision_id'' (PStr ''''),
                 rv_command_id = dget d ''command_id'' (PStr ''''),
                 rv_idempotency_key = dget d ''idempotency_key'' (PStr ''''),
                 rv_hashes = dget d ''hashes'' (PDict []), rv_candidate = dget d ''candidate'' (PDict []),
                 rv_status = status, rv_initiator = dget d ''initiator'' (PStr ''operator''),
                 rv_created_at = created, rv_updated_at = updated,
                 rv_acks = dget d ''acknowledgements'' (PDict []), rv_error = dget d ''error'' PNone,
                 rv_retry_count = retries, rv_scene_checksum = dget d ''scene_checksum'' (PStr '''')\<rparr>)))))"

section \<open>The store\<close>

definition current_path :: string where "current_path = ''revision_current.json''"
definition desired_path :: string where "desired_path = ''revision_desired.json''"

definition revision_path :: "pyval \<Rightarrow> string" where
  "revision_path rid = ''revisions/'' @ py_str rid @ ''.json''"

definition store_save :: "env \<Rightarrow> files \<Rightarrow> revision \<Rightarrow> (files \<times> revision) res" where
  "store_save w fs r =
     (let r1 = r\<lparr>rv_updated_at := env_now w\<rparr>
      in bindR (write_json fs (revision_path (rv_id r1)) (PDict (revision_to_dict r1)))
           (\<lambda>fs1. Inr (fs1, r1)))"

definition load_path :: "env \<Rightarrow> files \<Rightarrow> string \<Rightarrow> revision option res" where
  "load_path w fs path =
     (let d = read_json fs path PNone
      in if truthy d then bindR (revision_from_dict w d) (\<lambda>r. Inr (Some r)) else Inr None)"

definition store_load :: "env \<Rightarrow> files \<Rightarrow> pyval \<Rightarrow> revision option res" where
  "store_load w fs rid = load_path w fs (revision_path rid)"

definition store_current :: "env \<Rightarrow> files \<Rightarrow> revision option res" where
  "store_current w fs = load_path w fs current_path"

definition store_desired :: "env \<Rightarrow> files \<Rightarrow> revision option res" where
  "store_desired w fs = load_path w fs desired_path"

text \<open>
  \<open>create\<close>: the identifier is drawn first, then the idempotency key when none is given.
\<close>

definition draft_revision ::
  "env \<Rightarrow> revision option \<Rightarrow> pyval \<Rightarrow> pyval \<Rightarrow> pyval \<Rightarrow> pyval \<Rightarrow> pydict \<Rightarrow> revision" where
  "draft_revision w current candidate command_id idempotency_key initiator hashes =
     \<lparr>rv_id = PStr (fresh_uuid (env_uuid w)),
      rv_parent = (case current of Some c \<Rightarrow> rv_id c | None \<Rightarrow> PStr ''''),
      rv_command_id = command_id,
      rv_idempotency_key = py_or idempotency_key (PStr (fresh_uuid (Suc (env_uuid w)))),
      rv_hashes = PDict hashes, rv_candidate = candidate, rv_status = RS_DRAFT_SAVED,
      rv_initiator = initiator, rv_created_at = env_now w, rv_updated_at = env_now w,
      rv_acks = PDict [], rv_error = PNone, rv_retry_count = 0, rv_scene_checksum = PStr ''''\<rparr>"

definition after_create :: "env \<Rightarrow> pyval \<Rightarrow> env" where
  "after_create w idempotency_key =
     w\<lparr>env_uuid := env_uuid w + (if truthy idempotency_key then 1 else 2)\<rparr>"

definition store_create ::
  "env \<Rightarrow> files \<Rightarrow> pyval \<Rightarrow> pyval \<Rightarrow> pyval \<Rightarrow> pyval \<Rightarrow> (env \<times> files \<times> revision) res" where
  "store_create w fs candidate command_id idempotency_key initiator =
     bindR (store_current w fs) (\<lambda>current.
       bindR (component_hashes candidate) (\<lambda>hashes.
         bindR (store_save w fs
             (draft_revision w current candidate command_id idempotency_key initiator hashes)) (\<lambda>(fs1, r1).
           bindR (write_json fs1 desired_path (PDict (revision_to_dict r1))) (\<lambda>fs2.
             Inr (after_create w idempotency_key, fs2, r1)))))"

definition store_set_status ::
  "env \<Rightarrow> files \<Rightarrow> revision \<Rightarrow> revision_status \<Rightarrow> pyval \<Rightarrow> (files \<times> revision) res" where
  "store_set_status w fs r status error = store_save w fs (r\<lparr>rv_status := status, rv_error := error\<rparr>)"

text \<open>\<open>ParticipantAck\<close>.\<close>

record participant_ack =
  ack_participant :: string
  ack_revision_id :: pyval
  ack_accepted :: bool
  ack_observed_hashes :: pyval
  ack_timestamp :: time
  ack_message :: pyval
  ack_details :: pyval

definition ack_entry :: "participant_ack \<Rightarrow> pydict" where
  "ack_entry ack =
     [(''participant'', PStr (ack_participant ack)), (''revision_id'', ack_revision_id ack),
      (''accepted'', PBool (ack_accepted ack)), (''observed_hashes'', ack_observed_hashes ack),
      (''timestamp'', PFloat (ack_timestamp ack)), (''message'', ack_message ack),
      (''details'', ack_details ack)]"

text \<open>\<open>d[key] = value\<close> on a value that may not be a dictionary.\<close>

definition pset :: "string \<Rightarrow> pyval \<Rightarrow> pyval \<Rightarrow> pyval res" where
  "pset k x v = (case v of PDict d \<Rightarrow> Inr (PDict (dset k x d)) | _ \<Rightarrow> Inl TypeError)"

definition store_acknowledge ::
  "env \<Rightarrow> files \<Rightarrow> revision \<Rightarrow> participant_ack \<Rightarrow> (files \<times> revision) res" where
  "store_acknowledge w fs r ack =
     (if \<not> py_eq (ack_revision_id ack) (rv_id r)
      then Inl (RevisionError ''Acknowledgement revision mismatch'')
      else bindR (pset (ack_participant ack) (PDict (ack_entry ack)) (rv_acks r)) (\<lambda>acks.
             store_save w fs (r\<lparr>rv_acks := acks\<rparr>)))"

section \<open>Commit\<close>

text \<open>\<open>key in observed\<close> and then \<open>observed[key]\<close>.\<close>

fun is_prefix :: "string \<Rightarrow> string \<Rightarrow> bool" where
  "is_prefix [] t = True"
| "is_prefix (c # s) t = (case t of [] \<Rightarrow> False | d # t' \<Rightarrow> c = d \<and> is_prefix s t')"

fun is_substring :: "string \<Rightarrow> string \<Rightarrow> bool" where
  "is_substring s [] = (s = [])"
| "is_substring s (c # t) = (is_prefix s (c # t) \<or> is_substring s t)"

definition observed_at :: "pyval \<Rightarrow> string \<Rightarrow> pyval option res" where
  "observed_at observed key =
     (case observed of
        PDict d \<Rightarrow> Inr (map_of d key)
      | PList xs \<Rightarrow> if PStr key \<in> set xs then Inl TypeError else Inr None
      | PStr s \<Rightarrow> if is_substring key s then Inl TypeError else Inr None
      | _ \<Rightarrow> Inl TypeError)"

fun hash_mismatches :: "string \<Rightarrow> pyval \<Rightarrow> pydict \<Rightarrow> string list res" where
  "hash_mismatches name observed [] = Inr []"
| "hash_mismatches name observed ((key, val) # hashes) =
     bindR (observed_at observed key) (\<lambda>seen.
       bindR (hash_mismatches name observed hashes) (\<lambda>rest.
         case seen of
           None \<Rightarrow> Inr rest
         | Some x \<Rightarrow> Inr (if py_eq x val then rest else (name @ '':'' @ key) # rest)))"

text \<open>One participant: missing, or its mismatching hashes.\<close>

definition check_participant :: "revision \<Rightarrow> string \<Rightarrow> (string list \<times> string list) res" where
  "check_participant r name =
     bindR (pget (rv_acks r) name PNone) (\<lambda>ack.
       if \<not> truthy ack then Inr ([name], [])
       else bindR (pget ack ''accepted'' PNone) (\<lambda>accepted.
         if \<not> truthy accepted then Inr ([name], [])
         else bindR (pget ack ''observed_hashes'' PNone) (\<lambda>observed.
           bindR (pitems (rv_hashes r)) (\<lambda>hashes.
             bindR (hash_mismatches name (py_or observed (PDict [])) hashes) (\<lambda>mm.
               Inr ([], mm))))))"

definition check_participants :: "revision \<Rightarrow> string list \<Rightarrow> (string list \<times> string list) res" where
  "check_participants r names =
     bindR (mapR (check_participant r) names) (\<lambda>rs. Inr (concat (map fst rs), concat (map snd rs)))"

definition store_commit ::
  "env \<Rightarrow> files \<Rightarrow> revision \<Rightarrow> string list \<Rightarrow> (files \<times> revision) res" where
  "store_commit w fs r participants =
     bindR (check_participants r participants) (\<lambda>(missing, mismatch).
       if missing \<noteq> [] then
         Inl (RevisionError (''Missing participant acknowledgement: '' @ comma_join missing))
       else if mismatch \<noteq> [] then
         Inl (RevisionError (''Observed-state hash mismatch: '' @ comma_join mismatch))
       else bindR (store_save w fs (r\<lparr>rv_status := RS_COMMITTED\<rparr>)) (\<lambda>(fs1, r1).
         bindR (write_json fs1 current_path (PDict (revision_to_dict r1))) (\<lambda>fs2. Inr (fs2, r1))))"

definition store_rollback :: "env \<Rightarrow> files \<Rightarrow> pyval \<Rightarrow> (env \<times> files \<times> revision) res" where
  "store_rollback w fs rid =
     bindR (store_load w fs rid) (\<lambda>target.
       case target of
         None \<Rightarrow> Inl (RevisionError (''Unknown revision '' @ py_str rid))
       | Some t \<Rightarrow>
           bindR (store_create w fs (rv_candidate t) (PStr ''rollback'') (PStr '''') (PStr ''operator''))
             (\<lambda>(w1, fs1, candidate).
               bindR (store_save w1 fs1 (candidate\<lparr>rv_status := RS_ROLLED_BACK\<rparr>)) (\<lambda>(fs2, r2).
                 Inr (w1, fs2, r2))))"

section \<open>Lemmas\<close>

lemma revision_status_of_value [simp]:
  "revision_status_of (PStr (revision_status_value st)) = Inr st"
  by (cases st) (simp_all add: revision_status_of_def all_revision_statuses_def)

text \<open>What a revision is after a round trip through its file.\<close>

definition revision_norm :: "revision \<Rightarrow> revision" where
  "revision_norm r =
     r\<lparr>rv_id := json_norm (rv_id r), rv_parent := json_norm (rv_parent r),
       rv_command_id := json_norm (rv_command_id r),
       rv_idempotency_key := json_norm (rv_idempotency_key r), rv_hashes := json_norm (rv_hashes r),
       rv_candidate := json_norm (rv_candidate r), rv_initiator := json_norm (rv_initiator r),
       rv_acks := json_norm (rv_acks r), rv_error := json_norm (rv_error r),
       rv_scene_checksum := json_norm (rv_scene_checksum r)\<rparr>"

lemma revision_dict_get:
  "dget (as_dict (json_norm (PDict (revision_to_dict r)))) k v
   = (case map_of (revision_to_dict r) k of None \<Rightarrow> v | Some x \<Rightarrow> json_norm x)"
  by (rule json_norm_dget)

lemma revision_round_trip:
  "revision_from_dict w (json_norm (PDict (revision_to_dict r))) = Inr (revision_norm r)"
proof -
  have "pitem (json_norm (PDict (revision_to_dict r))) ''revision_id'' = Inr (json_norm (rv_id r))"
    using json_norm_dict_lookup [of "revision_to_dict r" "''revision_id''"]
    by (simp add: pitem_def dget_item_def revision_to_dict_def split: option.splits)
  then show ?thesis
    unfolding revision_from_dict_def Let_def revision_dict_get
    by (simp add: revision_to_dict_def revision_norm_def)
qed

lemma revision_path_neq [simp]:
  "revision_path rid \<noteq> current_path" "current_path \<noteq> revision_path rid"
  "revision_path rid \<noteq> desired_path" "desired_path \<noteq> revision_path rid"
  "current_path \<noteq> desired_path" "desired_path \<noteq> current_path"
  by (simp_all add: revision_path_def current_path_def desired_path_def)

lemma store_save_Inr:
  assumes "store_save w fs r = Inr (fs', r')"
  shows "r' = r\<lparr>rv_updated_at := env_now w\<rparr>"
    and "fs' = fs(revision_path (rv_id r) \<mapsto> json_norm (PDict (revision_to_dict r')))"
    and "json_ok (PDict (revision_to_dict r'))"
  using assms by (auto simp: store_save_def write_json_def Let_def bindR_Inr_iff split: if_splits)

lemma store_save_current:
  "store_save w fs r = Inr (fs', r') \<Longrightarrow> fs' current_path = fs current_path"
  by (drule store_save_Inr(2)) simp

lemma load_path_saved:
  assumes "fs path = Some (json_norm (PDict (revision_to_dict r)))"
  shows "load_path w fs path = Inr (Some (revision_norm r))"
proof -
  have "truthy (json_norm (PDict (revision_to_dict r)))"
    by (simp add: revision_to_dict_def del: json_norm.simps)
  with assms show ?thesis
    by (simp add: load_path_def read_json_def Let_def revision_round_trip del: json_norm.simps)
qed

lemma store_save_load:
  assumes "store_save w fs r = Inr (fs', r')"
  shows "store_load w2 fs' (rv_id r) = Inr (Some (revision_norm r'))"
  unfolding store_load_def
  by (rule load_path_saved) (simp add: store_save_Inr(2) [OF assms] del: json_norm.simps)

text \<open>When a commit succeeds.\<close>

definition ack_ok :: "revision \<Rightarrow> string \<Rightarrow> bool" where
  "ack_ok r name \<longleftrightarrow>
     (\<exists>ack. pget (rv_acks r) name PNone = Inr (PDict ack) \<and> truthy (dget ack ''accepted'' PNone)
        \<and> (\<exists>hashes. rv_hashes r = PDict hashes
             \<and> hash_mismatches name (py_or (dget ack ''observed_hashes'' PNone) (PDict [])) hashes = Inr []))"

lemma check_participant_clean: "check_participant r name = Inr ([], []) \<longleftrightarrow> ack_ok r name"
proof (cases "pget (rv_acks r) name PNone")
  case (Inl e)
  then show ?thesis by (simp add: check_participant_def ack_ok_def)
next
  case (Inr ack)
  show ?thesis
  proof (cases ack)
    case (PDict d)
    with Inr show ?thesis
      by (auto simp: check_participant_def ack_ok_def pget_def pitems_def bindR_Inr_iff
          split: pyval.splits)
  qed (use Inr in \<open>auto simp: check_participant_def ack_ok_def pget_def bindR_Inr_iff\<close>)
qed

lemma check_participants_clean:
  "check_participants r names = Inr ([], []) \<longleftrightarrow> (\<forall>n\<in>set names. ack_ok r n)"
proof (induction names)
  case Nil
  then show ?case by (simp add: check_participants_def)
next
  case (Cons n names)
  have "check_participants r (n # names) = Inr ([], [])
      \<longleftrightarrow> check_participant r n = Inr ([], []) \<and> check_participants r names = Inr ([], [])"
    by (auto simp: check_participants_def bindR_Inr_iff split: prod.splits)
  with Cons check_participant_clean show ?case by simp
qed

lemma store_commit_Inr_iff:
  "(\<exists>fs' r'. store_commit w fs r names = Inr (fs', r')) \<longleftrightarrow>
   (\<forall>n\<in>set names. ack_ok r n)
   \<and> json_ok (PDict (revision_to_dict (r\<lparr>rv_status := RS_COMMITTED, rv_updated_at := env_now w\<rparr>)))"
proof -
  have "(\<exists>fs' r'. store_commit w fs r names = Inr (fs', r')) \<longleftrightarrow>
      check_participants r names = Inr ([], []) \<and>
      json_ok (PDict (revision_to_dict (r\<lparr>rv_status := RS_COMMITTED, rv_updated_at := env_now w\<rparr>)))"
    by (auto simp: store_commit_def bindR_Inr_iff store_save_def write_json_def Let_def
        split: if_splits prod.splits simp del: json_norm.simps json_ok.simps)
  then show ?thesis by (simp only: check_participants_clean)
qed

lemma store_commit_Inr:
  assumes "store_commit w fs r names = Inr (fs', r')"
  shows "\<forall>n\<in>set names. ack_ok r n"
    and "r' = r\<lparr>rv_status := RS_COMMITTED, rv_updated_at := env_now w\<rparr>"
    and "fs' current_path = Some (json_norm (PDict (revision_to_dict r')))"
    and "fs' desired_path = fs desired_path"
proof -
  show "\<forall>n\<in>set names. ack_ok r n" using store_commit_Inr_iff assms by blast
  from assms obtain fs1 where sv: "store_save w fs (r\<lparr>rv_status := RS_COMMITTED\<rparr>) = Inr (fs1, r')"
    and wr: "write_json fs1 current_path (PDict (revision_to_dict r')) = Inr fs'"
    by (auto simp: store_commit_def bindR_Inr_iff split: if_splits prod.splits)
  note s = store_save_Inr [OF sv]
  show "r' = r\<lparr>rv_status := RS_COMMITTED, rv_updated_at := env_now w\<rparr>" using s(1) by simp
  from wr have fs': "fs' = fs1(current_path \<mapsto> json_norm (PDict (revision_to_dict r')))"
    by (simp add: write_json_def split: if_splits del: json_norm.simps)
  show "fs' current_path = Some (json_norm (PDict (revision_to_dict r')))"
    by (simp add: fs' del: json_norm.simps)
  show "fs' desired_path = fs desired_path" by (simp add: fs' s(2))
qed

end
