(* ===== verification/Sync_Coordinator.thy ===== *)
theory Sync_Coordinator
  imports Revision_Store
begin

text \<open>
  The transactional \<open>SynchronizationCoordinator\<close> of \<open>netlab/synchronization.py\<close>: a revision is created,
  offered to the participants in order, and committed only when all of them acknowledged it. A
  participant is the code's protocol \<open>Participant\<close>, a name and an \<open>apply\<close> operation on the shared
  files; \<open>file_participant\<close> and \<open>immediate_participant\<close> are the two implementations.
\<close>

section \<open>Participants\<close>

record participant =
  pa_name :: string
  pa_apply :: "env \<Rightarrow> files \<Rightarrow> revision \<Rightarrow> (files \<times> participant_ack) res"

text \<open>
  The polling loop of \<open>FileParticipant.apply\<close>: \<open>polls\<close> are the contents of the acknowledgement file at
  the successive polls before the deadline (\<open>None\<close>: no readable file), what another process wrote there.
\<close>

fun poll_ack :: "string \<Rightarrow> env \<Rightarrow> revision \<Rightarrow> string \<Rightarrow> pyval option list \<Rightarrow> participant_ack res" where
  "poll_ack name w r timeout_text [] =
     Inr \<lparr>ack_participant = name, ack_revision_id = rv_id r, ack_accepted = False,
          ack_observed_hashes = PDict [], ack_timestamp = env_now w,
          ack_message = PStr (name @ '' acknowledgement timeout after '' @ timeout_text @ ''s''),
          ack_details = PDict []\<rparr>"
| "poll_ack name w r timeout_text (content # polls) =
     (let ack = (case content of None \<Rightarrow> PDict [] | Some v \<Rightarrow> v)
      in bindR (pget ack ''revision_id'' PNone) (\<lambda>rid.
           if py_eq rid (rv_id r)
           then (let d = as_dict ack
                 in Inr \<lparr>ack_participant = name, ack_revision_id = rv_id r,
                      ack_accepted = truthy (dget d ''accepted'' (PBool False)),
                      ack_observed_hashes = dget d ''observed_hashes'' (PDict []),
                      ack_timestamp = env_now w, ack_message = dget d ''message'' (PStr ''''),
                      ack_details = ack\<rparr>)
           else poll_ack name w r timeout_text polls))"

definition file_request :: "env \<Rightarrow> revision \<Rightarrow> pydict" where
  "file_request w r =
     [(''revision_id'', rv_id r), (''command_id'', rv_command_id r), (''hashes'', rv_hashes r),
      (''candidate'', rv_candidate r), (''timestamp'', PFloat (env_now w))]"

definition file_participant :: "string \<Rightarrow> string \<Rightarrow> string \<Rightarrow> pyval option list \<Rightarrow> participant" where
  "file_participant name request_path timeout_text polls =
     \<lparr>pa_name = name, pa_apply = (\<lambda>w fs r.
        bindR (write_json fs request_path (PDict (file_request w r))) (\<lambda>fs1.
          bindR (poll_ack name w r timeout_text polls) (\<lambda>ack. Inr (fs1, ack))))\<rparr>"

definition immediate_participant :: "string \<Rightarrow> bool \<Rightarrow> participant" where
  "immediate_participant name accept =
     \<lparr>pa_name = name, pa_apply = (\<lambda>w fs r.
        case rv_hashes r of
          PDict h \<Rightarrow> Inr (fs, \<lparr>ack_participant = name, ack_revision_id = rv_id r, ack_accepted = accept,
              ack_observed_hashes = PDict h, ack_timestamp = env_now w,
              ack_message = PStr ''embedded acceptance participant'', ack_details = PDict []\<rparr>)
        | _ \<Rightarrow> Inl TypeError)\<rparr>"

section \<open>Commands\<close>

record command =
  cm_type :: string
  cm_payload :: pyval
  cm_initiator :: string
  cm_id :: string
  cm_key :: string
  cm_requested_revision :: pyval
  cm_status :: command_status
  cm_created_at :: time
  cm_updated_at :: time
  cm_acks :: pydict
  cm_error :: pyval
  cm_resulting_revision :: pyval
  cm_evidence :: "string list"

definition new_command :: "env \<Rightarrow> string \<Rightarrow> pyval \<Rightarrow> env \<times> command" where
  "new_command w type payload =
     (w\<lparr>env_uuid := env_uuid w + 2\<rparr>,
      \<lparr>cm_type = type, cm_payload = payload, cm_initiator = ''operator'',
       cm_id = fresh_uuid (env_uuid w), cm_key = fresh_uuid (Suc (env_uuid w)),
       cm_requested_revision = PStr '''', cm_status = CS_CREATED, cm_created_at = env_now w,
       cm_updated_at = env_now w, cm_acks = [], cm_error = PNone, cm_resulting_revision = PStr '''',
       cm_evidence = []\<rparr>)"

definition command_to_dict :: "command \<Rightarrow> pydict" where
  "command_to_dict c =
     [(''command_type'', PStr (cm_type c)), (''payload'', cm_payload c),
      (''initiator'', PStr (cm_initiator c)), (''command_id'', PStr (cm_id c)),
      (''idempotency_key'', PStr (cm_key c)), (''requested_revision'', cm_requested_revision c),
      (''status'', PStr (command_status_value (cm_status c))),
      (''created_at'', PFloat (cm_created_at c)), (''updated_at'', PFloat (cm_updated_at c)),
      (''acknowledgements'', PDict (cm_acks c)), (''error'', cm_error c),
      (''resulting_revision'', cm_resulting_revision c),
      (''evidence'', PList (map PStr (cm_evidence c)))]"

section \<open>The coordinator\<close>

definition status_path :: string where "status_path = ''state/synchronization_status.json''"

definition write_status :: "env \<Rightarrow> files \<Rightarrow> revision \<Rightarrow> string \<Rightarrow> pydict \<Rightarrow> files res" where
  "write_status w fs r stage extra =
     write_json fs status_path (PDict (dupdate
       [(''revision_id'', rv_id r), (''stage'', PStr stage),
        (''status'', PStr (revision_status_value (rv_status r))), (''hashes'', rv_hashes r),
        (''acknowledgements'', rv_acks r), (''updated_at'', PFloat (env_now w))] extra))"

definition pending_status :: "string \<Rightarrow> revision_status" where
  "pending_status name =
     (if name = ''ros'' then RS_PENDING_ROS else if name = ''sionna'' then RS_PENDING_SIONNA
      else if name = ''isaac'' then RS_PENDING_ISAAC else RS_PENDING_RUNTIME_APPLY)"

definition applied_status :: "string \<Rightarrow> revision_status" where
  "applied_status name =
     (if name = ''ros'' then RS_APPLIED_TO_ROS else if name = ''sionna'' then RS_APPLIED_TO_SIONNA
      else if name = ''isaac'' then RS_APPLIED_TO_ISAAC else RS_PENDING_RUNTIME_APPLY)"

text \<open>
  One iteration of the loop, in two parts: the participant is asked and its answer recorded; then
  the answer is settled. The flag tells whether the participant accepted.
\<close>

definition offer_ask :: "env \<Rightarrow> participant \<Rightarrow> files \<Rightarrow> revision
   \<Rightarrow> (files \<times> revision \<times> participant_ack) res" where
  "offer_ask w p fs r =
     bindR (store_save w fs (r\<lparr>rv_status := pending_status (pa_name p)\<rparr>)) (\<lambda>(fs1, r1).
       bindR (write_status w fs1 r1 (''WAITING_FOR_'' @ py_upper (pa_name p)) []) (\<lambda>fs2.
         bindR (pa_apply p w fs2 r1) (\<lambda>(fs3, ack).
           bindR (store_acknowledge w fs3 r1 ack) (\<lambda>(fs4, r2). Inr (fs4, r2, ack)))))"

definition ack_failed_error :: "participant \<Rightarrow> participant_ack \<Rightarrow> pyval" where
  "ack_failed_error p ack =
     PDict [(''code'', PStr (py_upper (pa_name p) @ ''_ACK_FAILED'')), (''message'', ack_message ack)]"

definition settle :: "env \<Rightarrow> participant \<Rightarrow> files \<Rightarrow> revision \<Rightarrow> command \<Rightarrow> participant_ack
   \<Rightarrow> (files \<times> revision \<times> command \<times> bool) res" where
  "settle w p fs r c ack =
     (if \<not> ack_accepted ack
      then bindR (store_save w fs (r\<lparr>rv_status := RS_DEGRADED, rv_error := ack_failed_error p ack\<rparr>))
             (\<lambda>(fs1, r1).
               bindR (write_status w fs1 r1 ''DEGRADED'' [(''failed_participant'', PStr (pa_name p))])
                 (\<lambda>fs2. Inr (fs2, r1, c\<lparr>cm_status := CS_PARTIALLY_APPLIED,
                                        cm_error := ack_failed_error p ack\<rparr>, False)))
      else bindR (store_save w fs (r\<lparr>rv_status := applied_status (pa_name p)\<rparr>)) (\<lambda>(fs1, r1).
             Inr (fs1, r1, c, True)))"

definition offer :: "env \<Rightarrow> participant \<Rightarrow> files \<Rightarrow> revision \<Rightarrow> command
   \<Rightarrow> (files \<times> revision \<times> command \<times> bool) res" where
  "offer w p fs r c =
     bindR (offer_ask w p fs r) (\<lambda>(fs1, r1, ack).
       bindR (pitem (rv_acks r1) (pa_name p)) (\<lambda>entry.
         settle w p fs1 r1
           (c\<lparr>cm_status := CS_WAITING_FOR_ACK, cm_acks := dset (pa_name p) entry (cm_acks c)\<rparr>) ack))"

fun offer_all :: "env \<Rightarrow> participant list \<Rightarrow> files \<Rightarrow> revision \<Rightarrow> command
   \<Rightarrow> (files \<times> revision \<times> command \<times> bool) res" where
  "offer_all w [] fs r c = Inr (fs, r, c, True)"
| "offer_all w (p # ps) fs r c =
     bindR (offer w p fs r c) (\<lambda>(fs1, r1, c1, ok).
       if ok then offer_all w ps fs1 r1 c1 else Inr (fs1, r1, c1, False))"

text \<open>The end of \<open>apply\<close>: the commit, or the report of the drift it found.\<close>

definition finish :: "env \<Rightarrow> string list \<Rightarrow> files \<Rightarrow> revision \<Rightarrow> command
   \<Rightarrow> (files \<times> revision \<times> command) res" where
  "finish w names fs r c =
     bindR (store_save w fs (r\<lparr>rv_status := RS_IN_SYNC\<rparr>)) (\<lambda>(fs1, r1).
       case store_commit w fs1 r1 names of
         Inl (RevisionError message) \<Rightarrow>
           (let error = PDict [(''code'', PStr ''REVISION_DRIFT''), (''message'', PStr message)]
            in bindR (store_save w fs1 (r1\<lparr>rv_status := RS_DRIFT_DETECTED, rv_error := error\<rparr>))
               (\<lambda>(fs2, r2).
                 let c1 = c\<lparr>cm_status := CS_FAILED, cm_error := error\<rparr>
                 in bindR (write_status w fs2 r2 ''DRIFT_DETECTED'' []) (\<lambda>fs3. Inr (fs3, r2, c1))))
       | Inl e \<Rightarrow> Inl e
       | Inr (fs2, r2) \<Rightarrow>
           (let c1 = c\<lparr>cm_status := CS_COMPLETED, cm_resulting_revision := rv_id r2\<rparr>
            in bindR (write_status w fs2 r2 ''COMMITTED'' []) (\<lambda>fs3. Inr (fs3, r2, c1))))"

definition sync_run :: "env \<Rightarrow> participant list \<Rightarrow> files \<Rightarrow> pyval \<Rightarrow> command
   \<Rightarrow> (env \<times> files \<times> revision \<times> command) res" where
  "sync_run w participants fs candidate c =
     bindR (store_create w fs candidate (PStr (cm_id c)) (PStr (cm_key c)) (PStr (cm_initiator c)))
       (\<lambda>(w1, fs1, r).
         bindR (store_save w1 fs1 (r\<lparr>rv_status := RS_VALIDATED\<rparr>)) (\<lambda>(fs2, r1).
           bindR (write_status w1 fs2 r1 ''VALIDATED'' []) (\<lambda>fs3.
             bindR (offer_all w1 participants fs3 r1
                      (c\<lparr>cm_requested_revision := rv_id r1, cm_status := CS_DISPATCHING\<rparr>))
               (\<lambda>(fs4, r2, c2, ok).
                 bindR (if ok then finish w1 (map pa_name participants) fs4 r2 c2 else Inr (fs4, r2, c2))
                   (\<lambda>(fs5, r3, c3). Inr (w1, fs5, r3, c3))))))"

definition start_command :: "env \<Rightarrow> pyval \<Rightarrow> command option \<Rightarrow> env \<times> command" where
  "start_command w candidate command_opt =
     (case command_opt of
        Some c \<Rightarrow> (w, c)
      | None \<Rightarrow> new_command w ''apply_configuration'' (PDict [(''candidate'', candidate)]))"

definition sync_apply :: "env \<Rightarrow> participant list \<Rightarrow> files \<Rightarrow> pyval \<Rightarrow> command option
   \<Rightarrow> (env \<times> files \<times> revision \<times> command) res" where
  "sync_apply w participants fs candidate command_opt =
     (let (w1, c) = start_command w candidate command_opt
      in sync_run w1 participants fs candidate (c\<lparr>cm_status := CS_VALIDATING\<rparr>))"

definition sync_inspect :: "env \<Rightarrow> files \<Rightarrow> pydict res" where
  "sync_inspect w fs =
     bindR (store_desired w fs) (\<lambda>desired.
       bindR (store_current w fs) (\<lambda>current.
         Inr [(''desired_revision'', (case desired of Some r \<Rightarrow> rv_id r | None \<Rightarrow> PStr '''')),
              (''committed_revision'', (case current of Some r \<Rightarrow> rv_id r | None \<Rightarrow> PStr '''')),
              (''in_sync'', PBool (case (desired, current) of
                 (Some d, Some c) \<Rightarrow> py_eq (rv_id d) (rv_id c) | _ \<Rightarrow> False)),
              (''status'', read_json fs status_path (PDict []))]))"

end
