(* ===== verification/Sync_Props.thy ===== *)
theory Sync_Props
  imports Sync_Coordinator
begin

text \<open>
  Properties of the synchronization transaction. What the coordinator relies on from a participant is
  the locale \<open>participant_protocol\<close>, interpreted on both implementations; inside it, one offer is
  shown to record the participant's own acknowledgement of this revision and to leave the
  committed revision alone.
\<close>

section \<open>The participant protocol\<close>

locale participant_protocol =
  fixes p :: participant
  assumes keeps_committed: "pa_apply p w fs r = Inr (fs', ack) \<Longrightarrow> fs' current_path = fs current_path"
    and keeps_desired: "pa_apply p w fs r = Inr (fs', ack) \<Longrightarrow> fs' desired_path = fs desired_path"
    and own_name: "pa_apply p w fs r = Inr (fs', ack) \<Longrightarrow> ack_participant ack = pa_name p"

text \<open>An entry of the acknowledgement table that this participant's acceptance of the revision put there.\<close>

definition accepted_entry :: "pyval \<Rightarrow> string \<Rightarrow> pyval \<Rightarrow> bool" where
  "accepted_entry rid name entry \<longleftrightarrow>
     (\<exists>ack. entry = PDict (ack_entry ack) \<and> ack_participant ack = name \<and> ack_accepted ack
        \<and> py_eq (ack_revision_id ack) rid)"

lemma write_status_Inr:
  assumes "write_status w fs r stage extra = Inr fs'"
  shows "fs' current_path = fs current_path" "fs' desired_path = fs desired_path"
  using assms
  by (auto simp: write_status_def write_json_def status_path_def current_path_def desired_path_def
      split: if_splits)

lemma store_acknowledge_Inr:
  assumes "store_acknowledge w fs r ack = Inr (fs', r')"
  shows "py_eq (ack_revision_id ack) (rv_id r)"
    and "\<exists>acks. rv_acks r = PDict acks
          \<and> r' = r\<lparr>rv_acks := PDict (dset (ack_participant ack) (PDict (ack_entry ack)) acks),
                  rv_updated_at := env_now w\<rparr>"
    and "fs' current_path = fs current_path" and "fs' desired_path = fs desired_path"
proof -
  from assms have eq: "py_eq (ack_revision_id ack) (rv_id r)"
    by (auto simp: store_acknowledge_def split: if_splits)
  with assms obtain acks' where ps: "pset (ack_participant ack) (PDict (ack_entry ack)) (rv_acks r) = Inr acks'"
    and sv: "store_save w fs (r\<lparr>rv_acks := acks'\<rparr>) = Inr (fs', r')"
    by (auto simp: store_acknowledge_def bindR_Inr_iff)
  note s = store_save_Inr [OF sv]
  show "py_eq (ack_revision_id ack) (rv_id r)" by (rule eq)
  show "\<exists>acks. rv_acks r = PDict acks
          \<and> r' = r\<lparr>rv_acks := PDict (dset (ack_participant ack) (PDict (ack_entry ack)) acks),
                  rv_updated_at := env_now w\<rparr>"
    using ps s(1) by (auto simp: pset_def split: pyval.splits)
  show "fs' current_path = fs current_path" "fs' desired_path = fs desired_path"
    using s(2) by simp_all
qed

text \<open>What an offer keeps, and what it leaves behind.\<close>

definition offer_frame :: "files \<Rightarrow> revision \<Rightarrow> files \<Rightarrow> revision \<Rightarrow> bool" where
  "offer_frame fs r fs' r' \<longleftrightarrow>
     fs' current_path = fs current_path \<and> fs' desired_path = fs desired_path
     \<and> rv_id r' = rv_id r \<and> rv_hashes r' = rv_hashes r \<and> rv_candidate r' = rv_candidate r
     \<and> rv_parent r' = rv_parent r"

lemma offer_frame_refl: "offer_frame fs r fs r"
  by (simp add: offer_frame_def)

lemma offer_frame_trans: "offer_frame fs r fs1 r1 \<Longrightarrow> offer_frame fs1 r1 fs2 r2 \<Longrightarrow> offer_frame fs r fs2 r2"
  by (simp add: offer_frame_def)

context participant_protocol
begin

lemma offer_ask_effect:
  assumes "offer_ask w p fs r = Inr (fs', r', ack)"
  shows "offer_frame fs r fs' r'"
    and "\<exists>acks. rv_acks r = PDict acks \<and> rv_acks r' = PDict (dset (pa_name p) (PDict (ack_entry ack)) acks)"
    and "ack_accepted ack \<Longrightarrow> accepted_entry (rv_id r) (pa_name p) (PDict (ack_entry ack))"
proof -
  from assms obtain fs1 r1 fs2 fs3 where
    s1: "store_save w fs (r\<lparr>rv_status := pending_status (pa_name p)\<rparr>) = Inr (fs1, r1)"
    and s2: "write_status w fs1 r1 (''WAITING_FOR_'' @ py_upper (pa_name p)) [] = Inr fs2"
    and s3: "pa_apply p w fs2 r1 = Inr (fs3, ack)"
    and s4: "store_acknowledge w fs3 r1 ack = Inr (fs', r')"
    by (auto simp: offer_ask_def bindR_Inr_iff)
  note f1 = store_save_Inr(1,2) [OF s1]
  have nm: "ack_participant ack = pa_name p" by (rule own_name [OF s3])
  obtain acks where acks: "rv_acks r1 = PDict acks"
    and r': "r' = r1\<lparr>rv_acks := PDict (dset (ack_participant ack) (PDict (ack_entry ack)) acks),
                  rv_updated_at := env_now w\<rparr>"
    using store_acknowledge_Inr(2) [OF s4] by blast
  show "offer_frame fs r fs' r'"
    using f1 write_status_Inr [OF s2] keeps_committed [OF s3] keeps_desired [OF s3]
      store_acknowledge_Inr(3,4) [OF s4] r'
    by (simp add: offer_frame_def)
  show "\<exists>acks. rv_acks r = PDict acks \<and> rv_acks r' = PDict (dset (pa_name p) (PDict (ack_entry ack)) acks)"
    using acks f1(1) r' nm by simp
  show "ack_accepted ack \<Longrightarrow> accepted_entry (rv_id r) (pa_name p) (PDict (ack_entry ack))"
    using nm store_acknowledge_Inr(1) [OF s4] f1(1) by (auto simp: accepted_entry_def)
qed

lemma settle_effect:
  assumes "settle w p fs r c ack = Inr (fs', r', c', ok)"
  shows "offer_frame fs r fs' r'" and "ok = ack_accepted ack" and "rv_acks r' = rv_acks r"
    and "\<not> ok \<Longrightarrow> rv_status r' = RS_DEGRADED \<and> cm_status c' = CS_PARTIALLY_APPLIED"
proof -
  have "offer_frame fs r fs' r' \<and> ok = ack_accepted ack \<and> rv_acks r' = rv_acks r
    \<and> (\<not> ok \<longrightarrow> rv_status r' = RS_DEGRADED \<and> cm_status c' = CS_PARTIALLY_APPLIED)"
  proof (cases "ack_accepted ack")
    case True
    with assms have "store_save w fs (r\<lparr>rv_status := applied_status (pa_name p)\<rparr>) = Inr (fs', r')" "ok"
      by (auto simp: settle_def bindR_Inr_iff)
    with True store_save_Inr(1,2) [OF this(1)] show ?thesis by (simp add: offer_frame_def)
  next
    case False
    with assms obtain fs1 where
      sv: "store_save w fs (r\<lparr>rv_status := RS_DEGRADED, rv_error := ack_failed_error p ack\<rparr>) = Inr (fs1, r')"
      and ws: "write_status w fs1 r' ''DEGRADED'' [(''failed_participant'', PStr (pa_name p))] = Inr fs'"
      and c': "cm_status c' = CS_PARTIALLY_APPLIED" "\<not> ok"
      by (auto simp: settle_def bindR_Inr_iff)
    with False store_save_Inr(1,2) [OF sv] write_status_Inr [OF ws] show ?thesis
      by (simp add: offer_frame_def)
  qed
  then show "offer_frame fs r fs' r'" "ok = ack_accepted ack" "rv_acks r' = rv_acks r"
    "\<not> ok \<Longrightarrow> rv_status r' = RS_DEGRADED \<and> cm_status c' = CS_PARTIALLY_APPLIED" by blast+
qed

lemma offer_effect:
  assumes "offer w p fs r c = Inr (fs', r', c', ok)"
  shows "offer_frame fs r fs' r'"
    and "if ok then \<exists>acks entry. rv_acks r = PDict acks \<and> rv_acks r' = PDict (dset (pa_name p) entry acks)
             \<and> accepted_entry (rv_id r) (pa_name p) entry
         else rv_status r' = RS_DEGRADED \<and> cm_status c' = CS_PARTIALLY_APPLIED"
proof -
  from assms obtain fs1 r1 ack c1 where a: "offer_ask w p fs r = Inr (fs1, r1, ack)"
    and s: "settle w p fs1 r1 c1 ack = Inr (fs', r', c', ok)"
    by (auto simp: offer_def bindR_Inr_iff)
  note ask = offer_ask_effect [OF a] and st = settle_effect [OF s]
  show "offer_frame fs r fs' r'" by (rule offer_frame_trans [OF ask(1) st(1)])
  show "if ok then \<exists>acks entry. rv_acks r = PDict acks \<and> rv_acks r' = PDict (dset (pa_name p) entry acks)
             \<and> accepted_entry (rv_id r) (pa_name p) entry
         else rv_status r' = RS_DEGRADED \<and> cm_status c' = CS_PARTIALLY_APPLIED"
    using ask(2,3) st(2,3,4) by auto
qed

end

text \<open>Both implementations follow the protocol; requests go to files of their own.\<close>

definition request_file :: "string \<Rightarrow> string" where
  "request_file s = ''requests/'' @ s"

lemma poll_ack_name: "poll_ack name w r t polls = Inr ack \<Longrightarrow> ack_participant ack = name"
  by (induction name w r t polls rule: poll_ack.induct)
    (auto simp: Let_def bindR_Inr_iff split: if_splits option.splits)

interpretation file_part: participant_protocol "file_participant name (request_file s) t polls" for name s t polls
proof
  fix w fs r fs' ack
  assume run: "pa_apply (file_participant name (request_file s) t polls) w fs r = Inr (fs', ack)"
  then show "fs' current_path = fs current_path" "fs' desired_path = fs desired_path"
    by (auto simp: file_participant_def bindR_Inr_iff write_json_def request_file_def current_path_def
        desired_path_def split: if_splits)
  from run show "ack_participant ack = pa_name (file_participant name (request_file s) t polls)"
    by (auto simp: file_participant_def bindR_Inr_iff poll_ack_name)
qed

interpretation immediate_part: participant_protocol "immediate_participant name accept" for name accept
  by unfold_locales (auto simp: immediate_participant_def split: pyval.splits)

section \<open>The transaction\<close>

lemma participant_immediate: "participant_protocol (immediate_participant name accept)"
  by (rule immediate_part.participant_protocol_axioms)

lemma participant_file: "participant_protocol (file_participant name (request_file s) t polls)"
  by (rule file_part.participant_protocol_axioms)

definition acked :: "revision \<Rightarrow> string \<Rightarrow> bool" where
  "acked r name \<longleftrightarrow>
     (\<exists>acks e. rv_acks r = PDict acks \<and> map_of acks name = Some e \<and> accepted_entry (rv_id r) name e)"

lemma offer_acked:
  assumes "participant_protocol p" and "offer w p fs r c = Inr (fs', r', c', True)"
  shows "acked r' (pa_name p)" and "acked r n \<Longrightarrow> acked r' n"
  using participant_protocol.offer_effect [OF assms]
  by (auto simp: acked_def offer_frame_def)

lemma offer_all_effect:
  assumes "\<forall>p\<in>set ps. participant_protocol p" and "offer_all w ps fs r c = Inr (fs', r', c', ok)"
  shows "offer_frame fs r fs' r'
    \<and> (if ok then (\<forall>p\<in>set ps. acked r' (pa_name p)) \<and> (\<forall>n. acked r n \<longrightarrow> acked r' n)
       else rv_status r' = RS_DEGRADED \<and> cm_status c' = CS_PARTIALLY_APPLIED)"
  using assms
proof (induction ps arbitrary: fs r c)
  case Nil
  then show ?case by (auto simp: offer_frame_refl)
next
  case (Cons p ps)
  from Cons.prems(2) obtain fs1 r1 c1 ok1 where one: "offer w p fs r c = Inr (fs1, r1, c1, ok1)"
    and rest: "if ok1 then offer_all w ps fs1 r1 c1 = Inr (fs', r', c', ok)
               else fs' = fs1 \<and> r' = r1 \<and> c' = c1 \<and> \<not> ok"
    by (auto simp: bindR_Inr_iff split: if_splits)
  have p: "participant_protocol p" using Cons.prems(1) by simp
  note eff = participant_protocol.offer_effect [OF p one]
  show ?case
  proof (cases ok1)
    case True
    with rest have "offer_all w ps fs1 r1 c1 = Inr (fs', r', c', ok)" by simp
    from Cons.IH [OF _ this] Cons.prems(1)
    have ih: "offer_frame fs1 r1 fs' r'"
      "if ok then (\<forall>p\<in>set ps. acked r' (pa_name p)) \<and> (\<forall>n. acked r1 n \<longrightarrow> acked r' n)
       else rv_status r' = RS_DEGRADED \<and> cm_status c' = CS_PARTIALLY_APPLIED" by auto
    from one True have one': "offer w p fs r c = Inr (fs1, r1, c1, True)" by simp
    show ?thesis
      using offer_frame_trans [OF eff(1) ih(1)] ih(2) offer_acked [OF p one'] by (auto split: if_splits)
  next
    case False
    with rest eff show ?thesis by simp
  qed
qed

lemma finish_effect:
  assumes "finish w names fs r c = Inr (fs', r', c')"
  shows "rv_id r' = rv_id r \<and> rv_acks r' = rv_acks r \<and> rv_hashes r' = rv_hashes r
    \<and> rv_candidate r' = rv_candidate r \<and> fs' desired_path = fs desired_path
    \<and> (cm_status c' = CS_COMPLETED \<and> rv_status r' = RS_COMMITTED \<and> (\<forall>n\<in>set names. ack_ok r' n)
         \<and> cm_resulting_revision c' = rv_id r
         \<and> fs' current_path = Some (json_norm (PDict (revision_to_dict r')))
       \<or> cm_status c' = CS_FAILED \<and> rv_status r' = RS_DRIFT_DETECTED
         \<and> fs' current_path = fs current_path)"
proof -
  from assms obtain fs1 r1 where s1: "store_save w fs (r\<lparr>rv_status := RS_IN_SYNC\<rparr>) = Inr (fs1, r1)"
    and rest: "(case store_commit w fs1 r1 names of
         Inl (RevisionError message) \<Rightarrow>
           (let error = PDict [(''code'', PStr ''REVISION_DRIFT''), (''message'', PStr message)]
            in bindR (store_save w fs1 (r1\<lparr>rv_status := RS_DRIFT_DETECTED, rv_error := error\<rparr>))
               (\<lambda>(fs2, r2).
                 let c1 = c\<lparr>cm_status := CS_FAILED, cm_error := error\<rparr>
                 in bindR (write_status w fs2 r2 ''DRIFT_DETECTED'' []) (\<lambda>fs3. Inr (fs3, r2, c1))))
       | Inl e \<Rightarrow> Inl e
       | Inr (fs2, r2) \<Rightarrow>
           (let c1 = c\<lparr>cm_status := CS_COMPLETED, cm_resulting_revision := rv_id r2\<rparr>
            in bindR (write_status w fs2 r2 ''COMMITTED'' []) (\<lambda>fs3. Inr (fs3, r2, c1)))) = Inr (fs', r', c')"
    by (auto simp: finish_def bindR_Inr_iff)
  note f1 = store_save_Inr(1,2) [OF s1]
  show ?thesis
  proof (cases "store_commit w fs1 r1 names")
    case (Inl e)
    with rest obtain message where e: "e = RevisionError message" by (cases e) simp_all
    with Inl rest obtain fs2 error where
      s2: "store_save w fs1 (r1\<lparr>rv_status := RS_DRIFT_DETECTED, rv_error := error\<rparr>) = Inr (fs2, r')"
      and ws: "write_status w fs2 r' ''DRIFT_DETECTED'' [] = Inr fs'" and c': "cm_status c' = CS_FAILED"
      by (auto simp: Let_def bindR_Inr_iff)
    show ?thesis
      using store_save_Inr(1,2) [OF s2] write_status_Inr [OF ws] c' f1 by simp
  next
    case (Inr x)
    obtain fs2 r2 where x: "x = (fs2, r2)" by (cases x)
    with Inr rest have ws: "write_status w fs2 r' ''COMMITTED'' [] = Inr fs'"
      and c': "r' = r2" "cm_status c' = CS_COMPLETED" "cm_resulting_revision c' = rv_id r2"
      by (auto simp: Let_def bindR_Inr_iff)
    note cm = store_commit_Inr [OF Inr [unfolded x]]
    have "ack_ok r' n" if "n \<in> set names" for n
      using cm(1,2) that c'(1) by (simp add: ack_ok_def)
    then show ?thesis
      using cm(2,3,4) write_status_Inr [OF ws] c' f1 by (simp del: json_norm.simps)
  qed
qed

lemma store_create_Inr:
  assumes "store_create w fs candidate cid key ini = Inr (w', fs', r)"
  shows "fs' current_path = fs current_path"
    and "fs' desired_path = Some (json_norm (PDict (revision_to_dict r)))"
    and "rv_id r = PStr (fresh_uuid (env_uuid w))" "rv_acks r = PDict []" "rv_candidate r = candidate"
    and "\<exists>h. component_hashes candidate = Inr h \<and> rv_hashes r = PDict h"
    and "env_uuid w < env_uuid w'" "env_now w' = env_now w"
proof -
  from assms obtain cur h fs1 where hs: "component_hashes candidate = Inr h"
    and sv: "store_save w fs (draft_revision w cur candidate cid key ini h) = Inr (fs1, r)"
    and wr: "write_json fs1 desired_path (PDict (revision_to_dict r)) = Inr fs'"
    and w': "w' = after_create w key"
    by (auto simp: store_create_def bindR_Inr_iff)
  note s = store_save_Inr(1,2) [OF sv]
  from wr have fs': "fs' = fs1(desired_path \<mapsto> json_norm (PDict (revision_to_dict r)))"
    by (simp add: write_json_def split: if_splits del: json_norm.simps)
  show "fs' current_path = fs current_path" using s(2) by (simp add: fs')
  show "fs' desired_path = Some (json_norm (PDict (revision_to_dict r)))"
    by (simp add: fs' del: json_norm.simps)
  show "rv_id r = PStr (fresh_uuid (env_uuid w))" "rv_acks r = PDict []" "rv_candidate r = candidate"
    "\<exists>h. component_hashes candidate = Inr h \<and> rv_hashes r = PDict h"
    using s(1) hs by (simp_all add: draft_revision_def)
  show "env_uuid w < env_uuid w'" "env_now w' = env_now w" using w' by (simp_all add: after_create_def)
qed

lemma sync_run_effect:
  assumes ps: "\<forall>p\<in>set ps. participant_protocol p"
    and run: "sync_run w ps fs candidate c0 = Inr (w', fs', r, c)"
  shows "rv_candidate r = candidate \<and> store_desired wr fs' \<noteq> Inr None
    \<and> (cm_status c = CS_COMPLETED \<and> rv_status r = RS_COMMITTED
         \<and> (\<forall>p\<in>set ps. acked r (pa_name p) \<and> ack_ok r (pa_name p))
         \<and> fs' current_path = Some (json_norm (PDict (revision_to_dict r)))
       \<or> cm_status c = CS_FAILED \<and> rv_status r = RS_DRIFT_DETECTED
         \<and> (\<forall>p\<in>set ps. acked r (pa_name p)) \<and> fs' current_path = fs current_path
       \<or> cm_status c = CS_PARTIALLY_APPLIED \<and> rv_status r = RS_DEGRADED
         \<and> fs' current_path = fs current_path)"
proof -
  from run obtain fs1 r0 fs2 r1 fs3 fs4 r2 c3 ok where
    cr: "store_create w fs candidate (PStr (cm_id c0)) (PStr (cm_key c0)) (PStr (cm_initiator c0))
       = Inr (w', fs1, r0)"
    and sv: "store_save w' fs1 (r0\<lparr>rv_status := RS_VALIDATED\<rparr>) = Inr (fs2, r1)"
    and ws: "write_status w' fs2 r1 ''VALIDATED'' [] = Inr fs3"
    and al: "offer_all w' ps fs3 r1
      (c0\<lparr>cm_requested_revision := rv_id r1, cm_status := CS_DISPATCHING\<rparr>) = Inr (fs4, r2, c3, ok)"
    and fin: "(if ok then finish w' (map pa_name ps) fs4 r2 c3 else Inr (fs4, r2, c3)) = Inr (fs', r, c)"
    by (auto simp: sync_run_def bindR_Inr_iff simp del: if_split)
  note cr' = store_create_Inr [OF cr] and sv' = store_save_Inr(1,2) [OF sv] and ws' = write_status_Inr [OF ws]
  note al' = offer_all_effect [OF ps al]
  have upto: "fs4 current_path = fs current_path" "fs4 desired_path = fs1 desired_path"
    "rv_candidate r2 = candidate"
    using cr' sv' ws' al' by (simp_all add: offer_frame_def)
  have desired: "store_desired wr fs' \<noteq> Inr None" if "fs' desired_path = fs4 desired_path"
    using load_path_saved [of fs' desired_path r0 wr] that upto(2) cr'(2)
    by (simp add: store_desired_def del: json_norm.simps)
  show ?thesis
  proof (cases ok)
    case True
    with fin have f: "finish w' (map pa_name ps) fs4 r2 c3 = Inr (fs', r, c)" by simp
    have ak: "\<forall>p\<in>set ps. acked r (pa_name p)"
      using al' True finish_effect [OF f] by (auto simp: acked_def)
    show ?thesis
      using finish_effect [OF f] ak upto desired by auto
  next
    case False
    with fin al' upto desired show ?thesis by auto
  qed
qed

lemma sync_apply_run:
  "sync_apply w ps fs candidate co = x \<Longrightarrow>
   \<exists>w1 c. start_command w candidate co = (w1, c) \<and> sync_run w1 ps fs candidate (c\<lparr>cm_status := CS_VALIDATING\<rparr>) = x"
  by (auto simp: sync_apply_def split: prod.splits)

section \<open>When every participant accepts\<close>

lemma json_ok_revision:
  "json_ok (PDict (revision_to_dict r)) \<longleftrightarrow>
     json_ok (rv_id r) \<and> json_ok (rv_parent r) \<and> json_ok (rv_command_id r)
     \<and> json_ok (rv_idempotency_key r) \<and> json_ok (rv_hashes r) \<and> json_ok (rv_candidate r)
     \<and> json_ok (rv_initiator r) \<and> is_finite (rv_created_at r) \<and> is_finite (rv_updated_at r)
     \<and> json_ok (rv_acks r) \<and> json_ok (rv_error r) \<and> json_ok (rv_scene_checksum r)"
  by (auto simp: revision_to_dict_def)

declare json_ok.simps(3) [simp del]

lemma json_ok_empty [simp]: "json_ok (PDict [])"
  by (simp add: json_ok.simps(3))

lemma store_save_total:
  assumes "json_ok (PDict (revision_to_dict r))" and "is_finite (env_now w)"
  obtains fs' where "store_save w fs r = Inr (fs', r\<lparr>rv_updated_at := env_now w\<rparr>)"
  using assms that
  by (simp add: store_save_def write_json_def json_ok_revision Let_def del: json_norm.simps)

lemma write_status_total:
  assumes "json_ok (PDict (revision_to_dict r))" and "is_finite (env_now w)" and "extra = []"
  obtains fs' where "write_status w fs r stage extra = Inr fs'"
proof -
  from assms(1) have "json_ok (rv_id r)" "json_ok (rv_hashes r)" "json_ok (rv_acks r)"
    by (simp_all add: json_ok_revision)
  with assms(2,3) that show thesis by (simp add: write_status_def write_json_def json_ok.simps(3))
qed

text \<open>The observed hashes of an acknowledgement show every hash of \<open>h\<close>.\<close>

definition observes :: "participant_ack \<Rightarrow> pydict \<Rightarrow> bool" where
  "observes a h \<longleftrightarrow> (\<exists>seen. ack_observed_hashes a = PDict seen \<and> (\<forall>(k, v)\<in>set h. map_of seen k = Some v))"

lemma hash_mismatches_shown:
  assumes "\<forall>(k, v)\<in>set h. map_of seen k = Some v \<and> (\<exists>s. v = PStr s)"
  shows "hash_mismatches name (PDict seen) h = Inr []"
  using assms by (induction h) (auto simp: observed_at_def)

text \<open>
  A participant that accepts revision \<open>rid\<close> with the hashes \<open>h\<close>: asked for it, it returns, and its
  acknowledgement of this revision is an acceptance that shows every hash and is representable in JSON.
\<close>

locale accepting_participant = participant_protocol p for p :: participant +
  fixes rid :: string and h :: pydict
  assumes accepts: "is_finite (env_now w) \<Longrightarrow> json_ok (PDict (revision_to_dict r)) \<Longrightarrow> rv_id r = PStr rid
      \<Longrightarrow> rv_hashes r = PDict h \<Longrightarrow> distinct (dict_keys h) \<Longrightarrow>
      \<exists>fs' ack. pa_apply p w fs r = Inr (fs', ack) \<and> ack_accepted ack \<and> ack_revision_id ack = PStr rid
        \<and> observes ack h \<and> json_ok (PDict (ack_entry ack))"

interpretation accepting_immediate: accepting_participant "immediate_participant name True" rid h for name rid h
proof
  fix w :: env and fs r
  assume "is_finite (env_now w)" and ok: "json_ok (PDict (revision_to_dict r))" and "rv_id r = PStr rid"
    "rv_hashes r = PDict h" "distinct (dict_keys h)"
  with ok [unfolded json_ok_revision] show "\<exists>fs' ack. pa_apply (immediate_participant name True) w fs r = Inr (fs', ack) \<and> ack_accepted ack
      \<and> ack_revision_id ack = PStr rid \<and> observes ack h \<and> json_ok (PDict (ack_entry ack))"
    by (auto simp: immediate_participant_def observes_def ack_entry_def json_ok.simps(3) dict_keys_def)
qed

text \<open>
  The file participant accepts when an acceptance is what a poll finds before the deadline; earlier polls
  may find no file or the acknowledgements of other revisions.
\<close>

definition acceptance :: "string \<Rightarrow> pydict \<Rightarrow> pydict" where
  "acceptance rid h = [(''revision_id'', PStr rid), (''accepted'', PBool True), (''observed_hashes'', PDict h)]"

definition other_poll :: "string \<Rightarrow> pyval option \<Rightarrow> bool" where
  "other_poll rid content \<longleftrightarrow>
     (case content of None \<Rightarrow> True | Some (PDict d) \<Rightarrow> \<not> py_eq (dget d ''revision_id'' PNone) (PStr rid) | _ \<Rightarrow> False)"

lemma poll_ack_skips:
  "\<forall>x\<in>set before. other_poll rid x \<Longrightarrow> rv_id r = PStr rid \<Longrightarrow>
   poll_ack name w r t (before @ polls) = poll_ack name w r t polls"
proof (induction before)
  case (Cons x before)
  then show ?case
    by (cases x) (auto simp: other_poll_def pget_def dget_def Let_def split: pyval.splits)
qed simp

lemma accepting_file_participant:
  assumes "\<forall>x\<in>set before. other_poll rid x"
  shows "accepting_participant (file_participant name (request_file s) t (before @ Some (PDict (acceptance rid h)) # after)) rid h"
proof (rule accepting_participant.intro [OF participant_file], unfold_locales)
  fix w :: env and fs r
  let ?p = "file_participant name (request_file s) t (before @ Some (PDict (acceptance rid h)) # after)"
  assume r: "is_finite (env_now w)" "json_ok (PDict (revision_to_dict r))" "rv_id r = PStr rid"
    "rv_hashes r = PDict h" "distinct (dict_keys h)"
  note ok = r(2) [unfolded json_ok_revision]
  with r(1) have "json_ok (PDict (file_request w r))"
    by (simp add: file_request_def json_ok.simps(3))
  then obtain fs1 where "write_json fs (request_file s) (PDict (file_request w r)) = Inr fs1"
    by (simp add: write_json_def del: json_norm.simps)
  with r(1,3-5) ok poll_ack_skips [OF assms r(3), of name w t] show "\<exists>fs' ack. pa_apply ?p w fs r = Inr (fs', ack)
      \<and> ack_accepted ack \<and> ack_revision_id ack = PStr rid \<and> observes ack h \<and> json_ok (PDict (ack_entry ack))"
    by (auto simp: file_participant_def acceptance_def pget_def dget_def observes_def
        ack_entry_def json_ok.simps(3) dict_keys_def)
qed

interpretation accepting_file: accepting_participant
  "file_participant name (request_file s) t (replicate k None @ Some (PDict (acceptance rid h)) # after)" rid h
  for name s t k after rid h
  by (rule accepting_file_participant) (simp add: other_poll_def)

text \<open>The state of the revision while participants accept it.\<close>

definition willing :: "env \<Rightarrow> pydict \<Rightarrow> string \<Rightarrow> revision \<Rightarrow> string set \<Rightarrow> bool" where
  "willing w h rid r names \<longleftrightarrow>
     json_ok (PDict (revision_to_dict r)) \<and> is_finite (env_now w) \<and> rv_id r = PStr rid
     \<and> rv_hashes r = PDict h
     \<and> (\<exists>acks. rv_acks r = PDict acks \<and> (\<forall>n\<in>names. \<exists>a. map_of acks n = Some (PDict (ack_entry a))
          \<and> ack_accepted a \<and> observes a h))"

lemma willing_status:
  "willing w h rid r names \<Longrightarrow> willing w h rid (r\<lparr>rv_status := st, rv_updated_at := env_now w\<rparr>) names"
  unfolding willing_def json_ok_revision by auto

context accepting_participant
begin

lemma offer_accepted:
  assumes "willing w h rid r names" and dist: "distinct (dict_keys h)"
  obtains fs' r' c' where "offer w p fs r c = Inr (fs', r', c', True)"
    and "willing w h rid r' (insert (pa_name p) names)"
proof -
  let ?n = "pa_name p"
  let ?r1 = "r\<lparr>rv_status := pending_status ?n, rv_updated_at := env_now w\<rparr>"
  have fin: "is_finite (env_now w)" using assms by (simp add: willing_def)
  from assms obtain acks where acks: "rv_acks r = PDict acks"
    and old: "\<forall>n\<in>names. \<exists>a. map_of acks n = Some (PDict (ack_entry a)) \<and> ack_accepted a \<and> observes a h"
    and h: "rv_hashes r = PDict h" and rid: "rv_id r = PStr rid"
    by (auto simp: willing_def)
  have ok1: "json_ok (PDict (revision_to_dict (r\<lparr>rv_status := pending_status ?n\<rparr>)))"
    and ok1': "json_ok (PDict (revision_to_dict ?r1))"
    using assms by (auto simp: willing_def json_ok_revision)
  obtain fs1 where s1: "store_save w fs (r\<lparr>rv_status := pending_status ?n\<rparr>) = Inr (fs1, ?r1)"
    using store_save_total [OF ok1 fin] by auto
  obtain fs2 where s2: "write_status w fs1 ?r1 (''WAITING_FOR_'' @ py_upper ?n) [] = Inr fs2"
    by (rule write_status_total [OF ok1' fin]) simp
  obtain fs3 ack where s3: "pa_apply p w fs2 ?r1 = Inr (fs3, ack)" and good: "ack_accepted ack" "observes ack h"
    and ack: "ack_revision_id ack = PStr rid" "json_ok (PDict (ack_entry ack))"
    using accepts [OF fin ok1' _ _ dist, of fs2] h rid by auto
  have name: "ack_participant ack = ?n" by (rule own_name [OF s3])
  let ?r2 = "?r1\<lparr>rv_acks := PDict (dset ?n (PDict (ack_entry ack)) acks), rv_updated_at := env_now w\<rparr>"
  let ?r3 = "?r2\<lparr>rv_status := applied_status ?n, rv_updated_at := env_now w\<rparr>"
  have ok2: "json_ok (PDict (revision_to_dict (?r1\<lparr>rv_acks := PDict (dset ?n (PDict (ack_entry ack)) acks)\<rparr>)))"
    using assms ack(2) acks json_ok_dset [OF ack(2), of acks ?n]
    by (auto simp: willing_def json_ok_revision)
  obtain fs4 where s4: "store_acknowledge w fs3 ?r1 ack = Inr (fs4, ?r2)"
    using store_save_total [OF ok2 fin, of fs3] acks rid ack(1) name
    by (auto simp: store_acknowledge_def pset_def)
  have ok3: "json_ok (PDict (revision_to_dict (?r2\<lparr>rv_status := applied_status ?n\<rparr>)))"
    using ok2 by (simp add: json_ok_revision)
  obtain fs5 where s5: "store_save w fs4 (?r2\<lparr>rv_status := applied_status ?n\<rparr>) = Inr (fs5, ?r3)"
    using store_save_total [OF ok3 fin, of fs4] by auto
  have ask: "offer_ask w p fs r = Inr (fs4, ?r2, ack)"
    using s1 s2 s3 s4 by (simp add: offer_ask_def)
  have "offer w p fs r c = Inr (fs5, ?r3, c\<lparr>cm_status := CS_WAITING_FOR_ACK,
      cm_acks := dset ?n (PDict (ack_entry ack)) (cm_acks c)\<rparr>, True)"
    using ask s5 good(1) by (simp add: offer_def settle_def pitem_def dget_item_def)
  moreover have "willing w h rid ?r3 (insert ?n names)"
    using assms ok3 old h rid fin good by (auto simp: willing_def json_ok_revision)
  ultimately show ?thesis by (rule that)
qed

end

lemma offer_all_accepted:
  assumes "\<forall>p\<in>set ps. accepting_participant p rid h" and dist: "distinct (dict_keys h)"
    and "willing w h rid r names"
  obtains fs' r' c' where "offer_all w ps fs r c = Inr (fs', r', c', True)"
    and "willing w h rid r' (names \<union> pa_name ` set ps)"
  using assms(1,3)
proof (induction ps arbitrary: thesis fs r c names)
  case Nil
  then show ?case by simp
next
  case (Cons p ps)
  from Cons.prems(2) have p: "accepting_participant p rid h" by simp
  obtain fs1 r1 c1 where one: "offer w p fs r c = Inr (fs1, r1, c1, True)"
    and w1: "willing w h rid r1 (insert (pa_name p) names)"
    by (rule accepting_participant.offer_accepted [OF p Cons.prems(3) dist])
  obtain fs2 r2 c2 where rest: "offer_all w ps fs1 r1 c1 = Inr (fs2, r2, c2, True)"
    and wr: "willing w h rid r2 (insert (pa_name p) names \<union> pa_name ` set ps)"
    by (rule Cons.IH [OF _ _ w1]) (use Cons.prems(2) in auto)
  show ?case
    by (rule Cons.prems(1) [of fs2 r2 c2]) (use one rest wr in simp_all)
qed

lemma willing_ack_ok:
  assumes "willing w h rid r names" "n \<in> names" "\<forall>(k, v)\<in>set h. \<exists>s. v = PStr s"
  shows "ack_ok r n"
proof -
  from assms(1,2) obtain acks a seen where "rv_acks r = PDict acks" "map_of acks n = Some (PDict (ack_entry a))"
    "ack_accepted a" "ack_observed_hashes a = PDict seen" and h: "rv_hashes r = PDict h"
    and seen: "\<forall>(k, v)\<in>set h. map_of seen k = Some v"
    by (auto simp: willing_def observes_def)
  moreover have "py_or (PDict seen) (PDict []) = PDict seen" by (cases seen) (simp_all add: py_or_def)
  moreover have "hash_mismatches n (PDict seen) h = Inr []"
    using seen assms(3) by (intro hash_mismatches_shown) fastforce
  ultimately show ?thesis by (simp add: ack_ok_def pget_def dget_def ack_entry_def)
qed

lemma finish_total:
  assumes "willing w h rid r (set names)" "\<forall>(k, v)\<in>set h. \<exists>s. v = PStr s"
  obtains fs' r' c' where "finish w names fs r c = Inr (fs', r', c')" "cm_status c' = CS_COMPLETED"
proof -
  let ?r1 = "r\<lparr>rv_status := RS_IN_SYNC, rv_updated_at := env_now w\<rparr>"
  have w0: "willing w h rid (r\<lparr>rv_status := RS_IN_SYNC\<rparr>) (set names)"
    using assms(1) by (auto simp: willing_def json_ok_revision)
  have w1: "willing w h rid ?r1 (set names)" by (rule willing_status [OF assms(1)])
  obtain fs1 where s1: "store_save w fs (r\<lparr>rv_status := RS_IN_SYNC\<rparr>) = Inr (fs1, ?r1)"
    using store_save_total [of "r\<lparr>rv_status := RS_IN_SYNC\<rparr>" w fs] w0 by (auto simp: willing_def)
  have "\<exists>fs' r'. store_commit w fs1 ?r1 names = Inr (fs', r')"
    unfolding store_commit_Inr_iff
    using willing_ack_ok [OF w1 _ assms(2)] w1 by (auto simp: willing_def json_ok_revision)
  then obtain fs2 r2 where s2: "store_commit w fs1 ?r1 names = Inr (fs2, r2)" by blast
  have "willing w h rid r2 (set names)"
    using store_commit_Inr(2) [OF s2] willing_status [OF w1] by simp
  then have ok2: "json_ok (PDict (revision_to_dict r2))" "is_finite (env_now w)"
    by (simp_all add: willing_def)
  obtain fs3 where s3: "write_status w fs2 r2 ''COMMITTED'' [] = Inr fs3"
    by (rule write_status_total [OF ok2 refl])
  show ?thesis
    by (rule that [of fs3 r2 "c\<lparr>cm_status := CS_COMPLETED, cm_resulting_revision := rv_id r2\<rparr>"])
      (use s1 s2 s3 in \<open>simp_all add: finish_def Let_def\<close>)
qed

lemma component_hashes_shape:
  assumes "json_ok (PDict config)"
  obtains h where "component_hashes (PDict config) = Inr h" "distinct (dict_keys h)"
    "\<forall>(k, v)\<in>set h. \<exists>s. v = PStr s" "json_ok (PDict h)"
  by (rule that [OF component_hashes_ok [OF assms]]) (simp_all add: part_hash_def json_ok.simps(3))

lemma sync_run_accepted:
  assumes config: "json_ok (PDict config)" and now: "is_finite (env_now w)"
    and cur: "store_current w fs = Inr current" "\<forall>c. current = Some c \<longrightarrow> json_ok (rv_id c)"
    and hashes: "component_hashes (PDict config) = Inr h"
    and ps: "\<forall>p\<in>set ps. accepting_participant p (fresh_uuid (env_uuid w)) h"
  obtains w' fs' r c where
    "sync_run w ps fs (PDict config) c0 = Inr (w', fs', r, c)"
    and "cm_status c = CS_COMPLETED" and "rv_id r = PStr (fresh_uuid (env_uuid w))"
    and "\<exists>d. rv_id d = rv_id r \<and> fs' desired_path = Some (json_norm (PDict (revision_to_dict d)))"
proof -
  have h: "component_hashes (PDict config) = Inr h" "distinct (dict_keys h)"
    "\<forall>(k, v)\<in>set h. \<exists>s. v = PStr s" "json_ok (PDict h)"
    using component_hashes_shape [OF config] hashes by auto
  let ?rid = "fresh_uuid (env_uuid w)"
  let ?d = "draft_revision w current (PDict config) (PStr (cm_id c0)) (PStr (cm_key c0))
      (PStr (cm_initiator c0)) h"
  have key: "json_ok (py_or (PStr (cm_key c0)) (PStr s))" for s by (simp add: py_or_def)
  have d_ok: "json_ok (PDict (revision_to_dict ?d))"
    using config now cur(2) h(4) key
    by (auto simp: json_ok_revision draft_revision_def split: option.splits)
  let ?r0 = "?d\<lparr>rv_updated_at := env_now w\<rparr>"
  obtain fs1 where s1: "store_save w fs ?d = Inr (fs1, ?r0)"
    by (rule store_save_total [OF d_ok now])
  have wl: "willing w h ?rid ?r0 {}"
    using d_ok now by (simp add: willing_def json_ok_revision draft_revision_def)
  let ?fs2 = "fs1(desired_path \<mapsto> json_norm (PDict (revision_to_dict ?r0)))"
  let ?w1 = "after_create w (PStr (cm_key c0))"
  have cr: "store_create w fs (PDict config) (PStr (cm_id c0)) (PStr (cm_key c0)) (PStr (cm_initiator c0))
      = Inr (?w1, ?fs2, ?r0)"
    using wl by (simp add: store_create_def cur(1) h(1) s1 write_json_def willing_def del: json_norm.simps)
  have now1: "env_now ?w1 = env_now w" by (simp add: after_create_def)
  then have wl1: "willing ?w1 h ?rid ?r0 {}" using wl by (simp add: willing_def)
  let ?r1 = "?r0\<lparr>rv_status := RS_VALIDATED, rv_updated_at := env_now ?w1\<rparr>"
  have wl2: "willing ?w1 h ?rid ?r1 {}" by (rule willing_status [OF wl1])
  have "json_ok (PDict (revision_to_dict (?r0\<lparr>rv_status := RS_VALIDATED\<rparr>)))" "is_finite (env_now ?w1)"
    using wl1 by (auto simp: willing_def json_ok_revision)
  then obtain fs3 where s2: "store_save ?w1 ?fs2 (?r0\<lparr>rv_status := RS_VALIDATED\<rparr>) = Inr (fs3, ?r1)"
    using store_save_total [of "?r0\<lparr>rv_status := RS_VALIDATED\<rparr>" ?w1 ?fs2] by auto
  from wl2 have "json_ok (PDict (revision_to_dict ?r1))" "is_finite (env_now ?w1)"
    by (simp_all add: willing_def)
  then obtain fs4 where s3: "write_status ?w1 fs3 ?r1 ''VALIDATED'' [] = Inr fs4"
    by (rule write_status_total) simp
  obtain fs5 r2 c2 where s4: "offer_all ?w1 ps fs4 ?r1
      (c0\<lparr>cm_requested_revision := rv_id ?r1, cm_status := CS_DISPATCHING\<rparr>) = Inr (fs5, r2, c2, True)"
    and wl3: "willing ?w1 h ?rid r2 ({} \<union> pa_name ` set ps)"
    by (rule offer_all_accepted [OF ps h(2) wl2])
  from wl3 have wl4: "willing ?w1 h ?rid r2 (set (map pa_name ps))" by simp
  obtain fs6 r3 c3 where s5: "finish ?w1 (map pa_name ps) fs5 r2 c2 = Inr (fs6, r3, c3)" "cm_status c3 = CS_COMPLETED"
    by (rule finish_total [OF wl4 h(3)])
  have run: "sync_run w ps fs (PDict config) c0 = Inr (?w1, fs6, r3, c3)"
    by (simp only: sync_run_def cr s2 s3 s4 s5(1) bindR_simps split_conv if_True)
  have fr: "offer_frame fs4 ?r1 fs5 r2"
    using offer_all_effect [OF _ s4] ps accepting_participant.axioms(1) by blast
  have ids: "rv_id r3 = PStr ?rid" "fs6 desired_path = fs5 desired_path"
    using finish_effect [OF s5(1)] wl4 by (simp_all add: willing_def)
  have "fs6 desired_path = Some (json_norm (PDict (revision_to_dict ?r0)))"
    using ids(2) fr write_status_Inr [OF s3] store_save_Inr(2) [OF s2]
    by (simp add: offer_frame_def del: json_norm.simps)
  moreover have "rv_id ?r0 = rv_id r3" using ids(1) by (simp add: draft_revision_def)
  ultimately show ?thesis
    using that [OF run s5(2) ids(1)] by blast
qed

text \<open>Loading depends on the clock only.\<close>

lemma store_current_env: "env_now w1 = env_now w \<Longrightarrow> store_current w1 fs = store_current w fs"
  by (simp add: store_current_def load_path_def revision_from_dict_def cong: if_cong)

text \<open>The identifier that the transaction gives to its revision.\<close>

definition next_revision :: "env \<Rightarrow> pyval \<Rightarrow> command option \<Rightarrow> string" where
  "next_revision w candidate co = fresh_uuid (env_uuid (fst (start_command w candidate co)))"

lemma start_command_env: "start_command w candidate co = (w1, c) \<Longrightarrow> env_now w1 = env_now w"
  by (auto simp: start_command_def new_command_def split: option.splits)

lemma accepting_apply:
  assumes "json_ok (PDict config)" and "is_finite (env_now w)"
    and "store_current w fs = Inr current" and "\<forall>c. current = Some c \<longrightarrow> json_ok (rv_id c)"
    and "component_hashes (PDict config) = Inr h"
    and ps: "\<forall>p\<in>set ps. accepting_participant p (next_revision w (PDict config) co) h"
  shows "\<exists>w' fs' r c d. sync_apply w ps fs (PDict config) co = Inr (w', fs', r, c)
    \<and> cm_status c = CS_COMPLETED \<and> rv_status r = RS_COMMITTED
    \<and> sync_inspect wr fs' = Inr d \<and> dget d ''in_sync'' PNone = PBool True"
proof -
  obtain w1 c0 where sc: "start_command w (PDict config) co = (w1, c0)" by fastforce
  note now = start_command_env [OF sc]
  then have now1: "is_finite (env_now w1)" using assms(2) by simp
  have cur1: "store_current w1 fs = Inr current"
    using assms(3) store_current_env [OF now] by simp
  have ps1: "\<forall>p\<in>set ps. accepting_participant p (fresh_uuid (env_uuid w1)) h"
    using ps by (simp add: next_revision_def sc)
  obtain w' fs' r c where run: "sync_run w1 ps fs (PDict config) (c0\<lparr>cm_status := CS_VALIDATING\<rparr>)
      = Inr (w', fs', r, c)" "cm_status c = CS_COMPLETED" "rv_id r = PStr (fresh_uuid (env_uuid w1))"
    "\<exists>d. rv_id d = rv_id r \<and> fs' desired_path = Some (json_norm (PDict (revision_to_dict d)))"
    by (rule sync_run_accepted [OF assms(1) now1 cur1 assms(4,5) ps1])
  have "\<forall>p\<in>set ps. participant_protocol p" using ps accepting_participant.axioms(1) by blast
  then have eff: "rv_status r = RS_COMMITTED" "fs' current_path = Some (json_norm (PDict (revision_to_dict r)))"
    using sync_run_effect [OF _ run(1)] run(2) by auto
  have cur: "store_current wr fs' = Inr (Some (revision_norm r))"
    unfolding store_current_def by (rule load_path_saved) (rule eff(2))
  obtain d where d: "rv_id d = rv_id r" "store_desired wr fs' = Inr (Some (revision_norm d))"
    using run(4) load_path_saved by (auto simp: store_desired_def)
  have "sync_apply w ps fs (PDict config) co = Inr (w', fs', r, c)"
    using run(1) by (simp add: sync_apply_def sc)
  with run(2,3) eff(1) cur d show ?thesis
    by (simp add: sync_inspect_def revision_norm_def)
qed

section \<open>The properties\<close>

text \<open>C20: safety of the synchronization transaction. With participants that follow the protocol, when
  \<open>apply\<close> returns, either its command is \<open>COMPLETED\<close>, the revision \<open>COMMITTED\<close> and every participant has on
  record its own acceptance of exactly this revision, with no observed hash that differs, and the
  committed-revision file holds this revision; or the command failed, the revision is
  \<open>DEGRADED\<close> (a refusal) or \<open>DRIFT_DETECTED\<close> (a differing hash), and the committed revision is the one
  it was.\<close>

theorem commit_needs_every_acknowledgement:
  assumes "\<forall>p\<in>set ps. participant_protocol p"
    and "sync_apply w ps fs candidate co = Inr (w', fs', r, c)"
  shows "if cm_status c = CS_COMPLETED
    then rv_status r = RS_COMMITTED \<and> rv_candidate r = candidate
      \<and> (\<forall>p\<in>set ps. acked r (pa_name p) \<and> ack_ok r (pa_name p))
      \<and> store_current wr fs' = Inr (Some (revision_norm r))
    else fs' current_path = fs current_path
      \<and> (rv_status r = RS_DEGRADED \<and> cm_status c = CS_PARTIALLY_APPLIED
         \<or> rv_status r = RS_DRIFT_DETECTED \<and> cm_status c = CS_FAILED)"
proof -
  obtain w1 c1 where "sync_run w1 ps fs candidate (c1\<lparr>cm_status := CS_VALIDATING\<rparr>) = Inr (w', fs', r, c)"
    using sync_apply_run [OF assms(2)] by blast
  note eff = sync_run_effect [OF assms(1) this]
  have "store_current wr fs' = Inr (Some (revision_norm r))" if "cm_status c = CS_COMPLETED"
    using load_path_saved [of fs' current_path r wr] eff that
    by (simp add: store_current_def del: json_norm.simps)
  with eff show ?thesis by auto
qed

definition demo_store_env :: env where
  "demo_store_env = \<lparr>env_now = Fin 100, env_uuid = 0\<rparr>"

definition demo_config :: pydict where
  "demo_config = [(''topology'', PDict [(''mode'', PStr ''chain'')]), (''swarm'', PDict [])]"

lemma demo_config_ok:
  "json_ok (PDict demo_config)" "is_finite (env_now demo_store_env)"
  "store_current demo_store_env (\<lambda>_. None) = Inr None"
  by (simp_all add: demo_config_def demo_store_env_def store_current_def load_path_def read_json_def
      json_ok.simps(3))

lemma commit_needs_every_acknowledgement_witness:
  "\<exists>w' fs' r c. sync_apply demo_store_env (map (\<lambda>n. immediate_participant n True) [''ros'', ''sionna'', ''isaac''])
      (\<lambda>_. None) (PDict demo_config) None = Inr (w', fs', r, c)
    \<and> rv_status r = RS_COMMITTED \<and> acked r ''isaac''
    \<and> store_current demo_store_env fs' = Inr (Some (revision_norm r))"
proof -
  let ?ps = "map (\<lambda>n. immediate_participant n True) [''ros'', ''sionna'', ''isaac'']"
  obtain w' fs' r c where run: "sync_apply demo_store_env ?ps (\<lambda>_. None) (PDict demo_config) None
      = Inr (w', fs', r, c)" "cm_status c = CS_COMPLETED"
    using accepting_apply [OF demo_config_ok(1,2,3) _ component_hashes_ok [OF demo_config_ok(1)], of ?ps None demo_store_env]
      accepting_immediate.accepting_participant_axioms by auto
  have "\<forall>p\<in>set ?ps. participant_protocol p" using participant_immediate by auto
  from commit_needs_every_acknowledgement [OF this run(1), of demo_store_env] run show ?thesis
    by (auto simp: immediate_participant_def)
qed

text \<open>C21: liveness. When the candidate is representable in JSON, the clock is finite and the committed revision,
  if there is one, loads, a transaction over any number of participants that accept the revision it
  creates, file participants or embedded ones, with or without a command of its own, returns, is
  \<open>COMPLETED\<close>, and \<open>inspect\<close> then reports the store in sync.\<close>

theorem accepting_participants_commit:
  assumes "json_ok (PDict config)" and "is_finite (env_now w)"
    and "store_current w fs = Inr current" and "\<forall>c. current = Some c \<longrightarrow> json_ok (rv_id c)"
    and "component_hashes (PDict config) = Inr h"
    and "\<forall>p\<in>set ps. accepting_participant p (next_revision w (PDict config) co) h"
  shows "\<exists>w' fs' r c d. sync_apply w ps fs (PDict config) co = Inr (w', fs', r, c)
    \<and> cm_status c = CS_COMPLETED \<and> rv_status r = RS_COMMITTED
    \<and> sync_inspect wr fs' = Inr d \<and> dget d ''in_sync'' PNone = PBool True"
  using assms by (rule accepting_apply)

text \<open>ROS and Isaac answer through files, ROS at the second poll; Sionna is embedded.\<close>

lemma accepting_participants_commit_witness:
  "\<exists>h w' fs' r c d. component_hashes (PDict demo_config) = Inr h
    \<and> sync_apply demo_store_env
        [file_participant ''ros'' (request_file ''ros.json'') ''20''
           [None, Some (PDict (acceptance (next_revision demo_store_env (PDict demo_config) None) h))],
         immediate_participant ''sionna'' True,
         file_participant ''isaac'' (request_file ''isaac.json'') ''180''
           [Some (PDict (acceptance (next_revision demo_store_env (PDict demo_config) None) h)), None]]
        (\<lambda>_. None) (PDict demo_config) None = Inr (w', fs', r, c)
    \<and> cm_status c = CS_COMPLETED \<and> rv_status r = RS_COMMITTED
    \<and> sync_inspect demo_store_env fs' = Inr d \<and> dget d ''in_sync'' PNone = PBool True"
proof -
  obtain h where h: "component_hashes (PDict demo_config) = Inr h"
    by (rule component_hashes_shape [OF demo_config_ok(1)])
  let ?rid = "next_revision demo_store_env (PDict demo_config) None"
  let ?ps = "[file_participant ''ros'' (request_file ''ros.json'') ''20'' [None, Some (PDict (acceptance ?rid h))],
     immediate_participant ''sionna'' True,
     file_participant ''isaac'' (request_file ''isaac.json'') ''180'' [Some (PDict (acceptance ?rid h)), None]]"
  have "accepting_participant (file_participant ''ros'' (request_file ''ros.json'') ''20''
      [None, Some (PDict (acceptance ?rid h))]) ?rid h"
    using accepting_file_participant [of "[None]" ?rid _ _ _ h "[]"] by (simp add: other_poll_def)
  moreover have "accepting_participant (file_participant ''isaac'' (request_file ''isaac.json'') ''180''
      [Some (PDict (acceptance ?rid h)), None]) ?rid h"
    using accepting_file_participant [of "[]" ?rid _ _ _ h "[None]"] by simp
  ultimately have "\<forall>p\<in>set ?ps. accepting_participant p ?rid h"
    using accepting_immediate.accepting_participant_axioms by simp
  from accepting_participants_commit [OF demo_config_ok(1,2,3) _ h this, of demo_store_env] h show ?thesis by blast
qed

end
