(* ===== verification/State_Store.thy ===== *)
theory State_Store
  imports Models Hashing
begin

text \<open>
  \<open>netlab/state.py\<close>: the authoritative runtime state (one JSON file), the append-only event and command
  logs (JSON lines), the command ledger and the scene synchronisation signal. The disk is the
  JSON files, the time each was last written, and the lines of each log. \<open>StateStore\<close> serialises its
  updates with a lock, so they are one after the other here. Paths are relative to the
  repository root.
\<close>

record disk =
  dk_files :: files
  dk_mtime :: "string \<Rightarrow> time"
  dk_logs :: "string \<Rightarrow> pyval list"

section \<open>Paths\<close>

definition results_dir :: string where "results_dir = ''Docker/workspace/results/''"

definition config_file :: string where
  "config_file = ''Docker/workspace/shared/snaas_relay_config.json''"
definition state_file :: string where "state_file = results_dir @ ''netlab_runtime_state.json''"
definition legacy_status_file :: string where
  "legacy_status_file = results_dir @ ''snaas_relay_latest_status.json''"
definition event_log :: string where "event_log = results_dir @ ''netlab_events.jsonl''"
definition command_log :: string where "command_log = results_dir @ ''netlab_commands.jsonl''"
definition isaac_signal_file :: string where
  "isaac_signal_file = results_dir @ ''snaas_isaac_sync_signal.json''"
definition isaac_ack_file :: string where "isaac_ack_file = results_dir @ ''snaas_isaac_sync_ack.json''"
definition isaac_heartbeat_file :: string where
  "isaac_heartbeat_file = results_dir @ ''snaas_isaac_heartbeat.json''"
definition packet_heartbeat_file :: string where
  "packet_heartbeat_file = results_dir @ ''snaas_packet_runtime_heartbeat.json''"
definition revisions_dir :: string where "revisions_dir = results_dir @ ''revisions/''"
definition desired_revision_file :: string where
  "desired_revision_file = results_dir @ ''netlab_desired_revision.json''"
definition committed_revision_file :: string where
  "committed_revision_file = results_dir @ ''netlab_committed_revision.json''"
definition reconciliation_file :: string where
  "reconciliation_file = results_dir @ ''netlab_reconciliation_state.json''"
definition ros_ack_file :: string where "ros_ack_file = results_dir @ ''snaas_ros_revision_ack.json''"
definition sionna_ack_file :: string where
  "sionna_ack_file = results_dir @ ''snaas_sionna_revision_ack.json''"

section \<open>Disk operations\<close>

definition disk_write :: "env \<Rightarrow> disk \<Rightarrow> string \<Rightarrow> pyval \<Rightarrow> disk res" where
  "disk_write w dk path v =
     bindR (write_json (dk_files dk) path v) (\<lambda>fs.
       Inr (dk\<lparr>dk_files := fs, dk_mtime := (dk_mtime dk)(path := env_now w)\<rparr>))"

definition append_jsonl :: "disk \<Rightarrow> string \<Rightarrow> pyval \<Rightarrow> disk res" where
  "append_jsonl dk path v =
     (if json_ok v
      then Inr (dk\<lparr>dk_logs := (dk_logs dk)(path := dk_logs dk path @ [json_norm v])\<rparr>)
      else Inl ValueError)"

definition tail_jsonl :: "disk \<Rightarrow> string \<Rightarrow> int \<Rightarrow> pyval list" where
  "tail_jsonl dk path limit =
     (let lines = dk_logs dk path
      in filter is_mapping (drop (length lines - nat (max 1 limit)) lines))"

text \<open>\<open>round(x, n)\<close>: half to even on the exact value, then the nearest float.\<close>

fun py_round :: "nat \<Rightarrow> pyfloat \<Rightarrow> pyfloat" where
  "py_round n (Fin q) = rnd64 (of_int (round_half_even (q * 10 ^ n)) / 10 ^ n)"
| "py_round n x = x"

definition file_freshness :: "env \<Rightarrow> disk \<Rightarrow> string \<Rightarrow> time \<Rightarrow> pydict" where
  "file_freshness w dk path timeout_s =
     (case dk_files dk path of
        None \<Rightarrow> [(''exists'', PBool False), (''fresh'', PBool False), (''age_s'', PNone), (''path'', PStr path)]
      | Some _ \<Rightarrow>
          (let age = py_max (Fin 0) (fsub (env_now w) (dk_mtime dk path))
           in [(''exists'', PBool True), (''fresh'', PBool (fle age timeout_s)),
               (''age_s'', PFloat (py_round 3 age)), (''path'', PStr path)]))"

section \<open>The store\<close>

definition default_state :: "env \<Rightarrow> pydict" where
  "default_state w =
     [(''schema_version'', PStr ''1.0.0''), (''sequence'', PInt 0), (''updated_at'', PFloat (env_now w)),
      (''phase'', PStr (runtime_phase_value RP_STOPPED)), (''experiment_id'', PStr ''''),
      (''run_id'', PStr ''''), (''config_hash'', PStr ''''),
      (''telemetry_source'', PStr (telemetry_source_value TS_OFFLINE)), (''readiness'', PDict []),
      (''services'', PDict []), (''packet'', PDict []), (''topology'', PDict []),
      (''failures'', PList []), (''last_error'', PNone), (''last_command_id'', PNone),
      (''desired_revision_id'', PStr ''''), (''committed_revision_id'', PStr ''''),
      (''synchronization_state'', PStr ''NO_REVISION'')]"

definition state_read :: "env \<Rightarrow> disk \<Rightarrow> pydict" where
  "state_read w dk =
     (case read_json (dk_files dk) state_file (PDict (default_state w)) of
        PDict d \<Rightarrow> d | _ \<Rightarrow> default_state w)"

definition append_event :: "env \<Rightarrow> disk \<Rightarrow> string \<Rightarrow> pydict \<Rightarrow> string \<Rightarrow> string \<Rightarrow> string \<Rightarrow> string \<Rightarrow> string
   \<Rightarrow> (env \<times> disk \<times> runtime_event) res" where
  "append_event w dk event_type payload component severity entity command_id correlation_id =
     (let state = state_read w dk
      in bindR (py_int (dget state ''sequence'' (PInt 0))) (\<lambda>n.
           let event =
             \<lparr>ev_event_type = event_type, ev_source_component = component, ev_payload = payload,
              ev_severity = severity,
              ev_experiment_id = py_str (dget state ''experiment_id'' (PStr '''')),
              ev_run_id = py_str (dget state ''run_id'' (PStr '''')), ev_affected_entity = entity,
              ev_correlation_id = correlation_id, ev_command_id = command_id, ev_model_version = '''',
              ev_timestamp_wall = env_now w, ev_timestamp_sim = None, ev_sequence = n,
              ev_event_id = fresh_uuid (env_uuid w)\<rparr>
           in bindR (append_jsonl dk event_log (PDict (event_as_dict event))) (\<lambda>dk1.
                Inr (w\<lparr>env_uuid := Suc (env_uuid w)\<rparr>, dk1, event))))"

definition state_update ::
  "env \<Rightarrow> disk \<Rightarrow> pydict \<Rightarrow> string \<Rightarrow> string \<Rightarrow> (env \<times> disk \<times> pydict) res" where
  "state_update w dk patch event_type component =
     (let state = dupdate (state_read w dk) patch
      in bindR (py_int (dget state ''sequence'' (PInt 0))) (\<lambda>n.
           let state1 = dset ''updated_at'' (PFloat (env_now w)) (dset ''sequence'' (PInt (n + 1)) state)
           in bindR (disk_write w dk state_file (PDict state1)) (\<lambda>dk1.
                bindR (append_event w dk1 event_type
                         [(''patch'', PDict patch), (''state_sequence'', PInt (n + 1))]
                         component ''INFO'' '''' '''' '''') (\<lambda>(w2, dk2, _).
                  Inr (w2, dk2, state1)))))"

definition set_phase ::
  "env \<Rightarrow> disk \<Rightarrow> runtime_phase \<Rightarrow> pydict option \<Rightarrow> (env \<times> disk \<times> pydict) res" where
  "set_phase w dk phase error =
     state_update w dk
       ((''phase'', PStr (runtime_phase_value phase))
        # (case error of None \<Rightarrow> [] | Some e \<Rightarrow> [(''last_error'', PDict e)]))
       ''RUNTIME_PHASE_CHANGED'' ''orchestrator''"

text \<open>\<open>configuration_hash\<close> of \<open>config.py\<close>: unlike \<open>hashing.py\<close> it admits non-finite numbers.\<close>

fun lax_text :: "pyfloat \<Rightarrow> string" where
  "lax_text NaN = ''NaN''"
| "lax_text PInf = ''Infinity''"
| "lax_text NInf = ''-Infinity''"
| "lax_text (Fin q) = float_repr (Fin q)"

fun lax_json_text :: "pyval \<Rightarrow> string" where
  "lax_json_text (PFloat f) = lax_text f"
| "lax_json_text (PList xs) = ''['' @ sep_join '','' (map lax_json_text xs) @ '']''"
| "lax_json_text (PDict d) =
     ''{'' @ sep_join '','' (map (\<lambda>(k, v). json_string k @ '':'' @ lax_json_text v) d) @ ''}''"
| "lax_json_text v = json_text v"

definition configuration_hash :: "pyval \<Rightarrow> string" where
  "configuration_hash config = sha256 (lax_json_text (json_norm config))"

definition start_run :: "env \<Rightarrow> disk \<Rightarrow> pydict \<Rightarrow> (env \<times> disk \<times> pydict) res" where
  "start_run w dk experiment =
     (let w1 = w\<lparr>env_uuid := Suc (env_uuid w)\<rparr>;
          meta = as_dict (dget experiment ''experiment'' PNone)
      in state_update w1 dk
           [(''experiment_id'', PStr (py_str (dget meta ''id'' (PStr ''experiment'')))),
            (''run_id'', PStr (fresh_uuid (env_uuid w))),
            (''config_hash'', PStr (configuration_hash (PDict experiment))),
            (''phase'', PStr (runtime_phase_value RP_STARTING_EXPERIMENT)), (''failures'', PList [])]
           ''RUN_CREATED'' ''experiment_manager'')"

definition create_command ::
  "env \<Rightarrow> disk \<Rightarrow> string \<Rightarrow> pydict \<Rightarrow> string \<Rightarrow> (env \<times> disk \<times> pydict) res" where
  "create_command w dk name payload component =
     (let command_id = fresh_uuid (env_uuid w);
          w1 = w\<lparr>env_uuid := Suc (env_uuid w)\<rparr>;
          command =
            [(''command_id'', PStr command_id),
             (''idempotency_key'', PStr (py_str (dget payload ''idempotency_key'' (PStr '''')))),
             (''name'', PStr name), (''payload'', PDict payload), (''component'', PStr component),
             (''status'', PStr (command_status_value CS_ACCEPTED)),
             (''created_at'', PFloat (env_now w)), (''updated_at'', PFloat (env_now w)),
             (''acknowledgement'', PNone), (''participant_acknowledgements'', PDict []),
             (''resulting_revision_id'', PStr ''''), (''error'', PNone)]
      in bindR (append_jsonl dk command_log (PDict command)) (\<lambda>dk1.
           bindR (state_update w1 dk1 [(''last_command_id'', PStr command_id)] ''COMMAND_ACCEPTED'' component)
             (\<lambda>(w2, dk2, _). Inr (w2, dk2, command))))"

definition acknowledge_command ::
  "env \<Rightarrow> disk \<Rightarrow> pydict \<Rightarrow> string \<Rightarrow> pyval \<Rightarrow> pyval \<Rightarrow> (env \<times> disk \<times> pydict) res" where
  "acknowledge_command w dk command status acknowledgement error =
     (let updated = dupdate command
            [(''status'', PStr status), (''updated_at'', PFloat (env_now w)),
             (''acknowledgement'', acknowledgement), (''error'', error)];
          good = (status = ''ACKNOWLEDGED'' \<or> status = ''COMPLETED'')
      in bindR (append_jsonl dk command_log (PDict updated)) (\<lambda>dk1.
           bindR (append_event w dk1 (if good then ''COMMAND_ACKNOWLEDGED'' else ''COMMAND_FAILED'') updated
                    (py_str (dget command ''component'' (PStr ''mission_control'')))
                    (if good then ''INFO'' else ''ERROR'') ''''
                    (py_str (dget command ''command_id'' (PStr ''''))) '''')
             (\<lambda>(w2, dk2, _). Inr (w2, dk2, updated))))"

definition write_sync_signal ::
  "env \<Rightarrow> disk \<Rightarrow> string \<Rightarrow> string \<Rightarrow> string \<Rightarrow> string \<Rightarrow> string \<Rightarrow> pydict \<Rightarrow> string
   \<Rightarrow> (env \<times> disk \<times> pydict) res" where
  "write_sync_signal w dk reason config_hash command_id revision_id parent_revision_id hashes config_path =
     (let (rev, w1) = (if revision_id \<noteq> [] then (revision_id, w)
                       else (fresh_uuid (env_uuid w), w\<lparr>env_uuid := Suc (env_uuid w)\<rparr>));
          signal =
            [(''revision'', PStr rev), (''revision_id'', PStr revision_id),
             (''parent_revision_id'', PStr parent_revision_id), (''timestamp'', PFloat (env_now w)),
             (''reason'', PStr reason), (''config_hash'', PStr config_hash), (''hashes'', PDict hashes),
             (''config_path'', PStr config_path), (''command_id'', PStr command_id)]
      in bindR (disk_write w1 dk isaac_signal_file (PDict signal)) (\<lambda>dk1.
           bindR (append_event w1 dk1 ''ISAAC_SYNC_REQUESTED'' signal ''mission_control'' ''INFO'' ''''
                    command_id '''') (\<lambda>(w2, dk2, _). Inr (w2, dk2, signal))))"

text \<open>\<open>sync_status\<close>: the scene acknowledged the signal it was sent.\<close>

definition sync_status :: "env \<Rightarrow> disk \<Rightarrow> time \<Rightarrow> pydict res" where
  "sync_status w dk timeout_s =
     (let signal = py_or (read_json (dk_files dk) isaac_signal_file (PDict [])) (PDict []);
          ack = py_or (read_json (dk_files dk) isaac_ack_file (PDict [])) (PDict []);
          heartbeat = py_or (read_json (dk_files dk) isaac_heartbeat_file (PDict [])) (PDict []);
          freshness = file_freshness w dk isaac_heartbeat_file timeout_s
      in bindR (pget signal ''revision_id'' PNone) (\<lambda>_.
         bindR (pget ack ''revision_id'' PNone) (\<lambda>_.
           let s = as_dict signal; a = as_dict ack;
               signal_revision = py_str (py_or (dget s ''revision_id'' PNone) (dget s ''revision'' (PStr '''')));
               ack_revision = py_str (py_or (dget a ''revision_id'' PNone) (dget a ''revision'' (PStr '''')));
               requested = py_str (dget s ''config_hash'' (PStr ''''));
               applied = py_str (dget a ''applied_config_hash'' (PStr ''''));
               hash_matches = (requested = [] \<or> requested = applied);
               acknowledged = (signal_revision \<noteq> [] \<and> ack_revision = signal_revision \<and> hash_matches
                               \<and> truthy (dget a ''scene_ready'' (PBool True)))
           in Inr [(''state'', PStr (if acknowledged then ''SYNCED''
                      else if dget freshness ''fresh'' PNone = PBool True then ''ISAAC_ALIVE_ACK_PENDING''
                      else ''WAITING_FOR_ISAAC'')),
                   (''acknowledged'', PBool acknowledged), (''signal'', signal), (''ack'', ack),
                   (''heartbeat'', heartbeat), (''heartbeat_freshness'', PDict freshness),
                   (''hash_matches'', PBool hash_matches)])))"

definition iter_events :: "disk \<Rightarrow> int \<Rightarrow> pyval list" where
  "iter_events dk limit = tail_jsonl dk event_log limit"

end
