(* ===== verification/State_Props.thy ===== *)
theory State_Props
  imports State_Store
begin

text \<open>
  Properties of the state store: the sequence number counts the updates, the event log only grows
  and is ordered by that number, and the scene counts as synchronised only for the signal it
  acknowledged.
\<close>

section \<open>One update\<close>

text \<open>The stored state is a dictionary with sequence number \<open>n\<close>.\<close>

definition state_at :: "disk \<Rightarrow> int \<Rightarrow> bool" where
  "state_at dk n \<longleftrightarrow>
     (case dk_files dk state_file of
        Some (PDict d) \<Rightarrow> distinct (dict_keys d) \<and> dget d ''sequence'' (PInt 0) = PInt n
      | _ \<Rightarrow> n = 0)"

definition event_seq :: "pyval \<Rightarrow> pyval" where
  "event_seq e = dget (as_dict e) ''sequence'' PNone"

lemma state_at_read:
  assumes "state_at dk n"
  shows "distinct (dict_keys (state_read w dk))" "dget (state_read w dk) ''sequence'' (PInt 0) = PInt n"
  using assms
  by (auto simp: state_at_def state_read_def read_json_def default_state_def
      split: option.splits pyval.splits)

lemma append_event_effect:
  assumes "state_at dk n" and "append_event w dk t pl cmp sev ent cid corr = Inr (w', dk', e)"
  shows "dk_files dk' = dk_files dk" "ev_sequence e = n"
    and "dk_logs dk' = (dk_logs dk)(event_log := dk_logs dk event_log @ [json_norm (PDict (event_as_dict e))])"
    and "event_seq (json_norm (PDict (event_as_dict e))) = PInt n"
    and "env_now w' = env_now w"
proof -
  have main: "dk_files dk' = dk_files dk \<and> ev_sequence e = n \<and> env_now w' = env_now w
    \<and> dk_logs dk' = (dk_logs dk)(event_log := dk_logs dk event_log @ [json_norm (PDict (event_as_dict e))])"
    using assms state_at_read [OF assms(1), of w]
    by (auto simp: append_event_def Let_def bindR_Inr_iff append_jsonl_def split: if_splits
        simp del: json_norm.simps)
  then show "dk_files dk' = dk_files dk" "ev_sequence e = n" "env_now w' = env_now w"
    "dk_logs dk' = (dk_logs dk)(event_log := dk_logs dk event_log @ [json_norm (PDict (event_as_dict e))])"
    by blast+
  have "map_of (event_as_dict e) ''sequence'' = Some (PInt n)"
    using main by (simp add: event_as_dict_def)
  then show "event_seq (json_norm (PDict (event_as_dict e))) = PInt n"
    unfolding event_seq_def json_norm_dget by simp
qed

lemma distinct_dupdate: "distinct (dict_keys d) \<Longrightarrow> distinct (dict_keys (dupdate d p))"
  by (induction p arbitrary: d) (auto simp: dupdate_Cons distinct_dset)

lemma map_of_dupdate_other: "k \<notin> set (dict_keys p) \<Longrightarrow> map_of (dupdate d p) k = map_of d k"
  by (induction p arbitrary: d) (auto simp: dupdate_Cons)

lemma state_update_effect:
  assumes at: "state_at dk n" and patch: "''sequence'' \<notin> set (dict_keys patch)"
    and run: "state_update w dk patch t cmp = Inr (w', dk', s)"
  shows "state_at dk' (n + 1)" "env_now w' = env_now w"
    and "\<exists>e. event_seq e = PInt (n + 1)
          \<and> dk_logs dk' = (dk_logs dk)(event_log := dk_logs dk event_log @ [e])"
    and "\<forall>p. p \<noteq> state_file \<longrightarrow> dk_files dk' p = dk_files dk p"
proof -
  let ?st = "dupdate (state_read w dk) patch"
  let ?s = "dset ''updated_at'' (PFloat (env_now w)) (dset ''sequence'' (PInt (n + 1)) ?st)"
  have seq: "dget ?st ''sequence'' (PInt 0) = PInt n"
    using state_at_read(2) [OF at, of w] map_of_dupdate_other [OF patch] by (simp add: dget_def)
  have dist: "distinct (dict_keys ?s)"
    by (intro distinct_dset distinct_dupdate state_at_read(1) [OF at])
  from run seq obtain dk1 e where wr: "disk_write w dk state_file (PDict ?s) = Inr dk1"
    and ev: "append_event w dk1 t [(''patch'', PDict patch), (''state_sequence'', PInt (n + 1))]
       cmp ''INFO'' '''' '''' '''' = Inr (w', dk', e)"
    by (auto simp: state_update_def Let_def bindR_Inr_iff)
  from wr have dk1: "dk_files dk1 = (dk_files dk)(state_file \<mapsto> json_norm (PDict ?s))"
    "dk_logs dk1 = dk_logs dk"
    by (auto simp: disk_write_def bindR_Inr_iff write_json_def split: if_splits simp del: json_norm.simps)
  have "map_of ?s ''sequence'' = Some (PInt (n + 1))" by simp
  then have "dget (as_dict (json_norm (PDict ?s))) ''sequence'' (PInt 0) = PInt (n + 1)"
    unfolding json_norm_dget by simp
  moreover have "distinct (dict_keys (as_dict (json_norm (PDict ?s))))"
    by (rule json_norm_keys_distinct [OF dist])
  ultimately have at1: "state_at dk1 (n + 1)"
    by (simp add: state_at_def dk1)
  note eff = append_event_effect [OF at1 ev]
  show "state_at dk' (n + 1)" using at1 eff(1) by (simp add: state_at_def)
  show "env_now w' = env_now w" by (rule eff(5))
  show "\<exists>e. event_seq e = PInt (n + 1)
      \<and> dk_logs dk' = (dk_logs dk)(event_log := dk_logs dk event_log @ [e])"
    using eff(3,4) dk1(2) by auto
  show "\<forall>p. p \<noteq> state_file \<longrightarrow> dk_files dk' p = dk_files dk p"
    using eff(1) dk1(1) by simp
qed

section \<open>A history of calls\<close>

datatype store_call =
    Update pydict string string
  | SetPhase runtime_phase "pydict option"
  | StartRun pydict
  | AppendEvent string pydict string string
  | CreateCommand string pydict string
  | AcknowledgeCommand pydict string pyval pyval
  | SyncSignal string string string string string pydict string

fun exec_call :: "env \<Rightarrow> disk \<Rightarrow> store_call \<Rightarrow> (env \<times> disk) res" where
  "exec_call w dk (Update patch t cmp) = bindR (state_update w dk patch t cmp) (\<lambda>(w, dk, _). Inr (w, dk))"
| "exec_call w dk (SetPhase ph err) = bindR (set_phase w dk ph err) (\<lambda>(w, dk, _). Inr (w, dk))"
| "exec_call w dk (StartRun ex) = bindR (start_run w dk ex) (\<lambda>(w, dk, _). Inr (w, dk))"
| "exec_call w dk (AppendEvent t pl cmp sev) =
     bindR (append_event w dk t pl cmp sev '''' '''' '''') (\<lambda>(w, dk, _). Inr (w, dk))"
| "exec_call w dk (CreateCommand name pl cmp) =
     bindR (create_command w dk name pl cmp) (\<lambda>(w, dk, _). Inr (w, dk))"
| "exec_call w dk (AcknowledgeCommand c st a e) =
     bindR (acknowledge_command w dk c st a e) (\<lambda>(w, dk, _). Inr (w, dk))"
| "exec_call w dk (SyncSignal r h c i p hs path) =
     bindR (write_sync_signal w dk r h c i p hs path) (\<lambda>(w, dk, _). Inr (w, dk))"

text \<open>How many updates a call makes; a patch may not set the sequence number itself.\<close>

fun call_updates :: "store_call \<Rightarrow> int" where
  "call_updates (Update _ _ _) = 1"
| "call_updates (SetPhase _ _) = 1"
| "call_updates (StartRun _) = 1"
| "call_updates (CreateCommand _ _ _) = 1"
| "call_updates _ = 0"

fun call_ok :: "store_call \<Rightarrow> bool" where
  "call_ok (Update patch _ _) = (''sequence'' \<notin> set (dict_keys patch))"
| "call_ok _ = True"

text \<open>The log is ordered by the state sequence, and not ahead of it.\<close>

definition log_ordered :: "disk \<Rightarrow> int \<Rightarrow> bool" where
  "log_ordered dk n \<longleftrightarrow>
     (\<exists>ns. map event_seq (dk_logs dk event_log) = map PInt ns \<and> sorted ns \<and> (\<forall>m\<in>set ns. m \<le> n))"

lemma log_ordered_append:
  assumes "log_ordered dk n" "n \<le> m" "event_seq e = PInt m"
    "dk_logs dk' event_log = dk_logs dk event_log @ [e]"
  shows "log_ordered dk' m"
proof -
  from assms(1) obtain ns where ns: "map event_seq (dk_logs dk event_log) = map PInt ns" "sorted ns"
    "\<forall>m\<in>set ns. m \<le> n" unfolding log_ordered_def by blast
  have "map event_seq (dk_logs dk' event_log) = map PInt (ns @ [m])" using assms(3,4) ns(1) by simp
  moreover have "sorted (ns @ [m])" using ns assms(2) by (auto simp: sorted_append)
  moreover have "\<forall>k\<in>set (ns @ [m]). k \<le> m" using ns(3) assms(2) by auto
  ultimately show ?thesis unfolding log_ordered_def by blast
qed

lemma log_names [simp]: "command_log \<noteq> event_log" "event_log \<noteq> command_log"
  "isaac_signal_file \<noteq> state_file" "state_file \<noteq> isaac_signal_file"
  by (simp_all add: command_log_def event_log_def isaac_signal_file_def state_file_def)

lemma exec_call_effect:
  assumes "state_at dk n" "call_ok c" "exec_call w dk c = Inr (w', dk')"
  shows "state_at dk' (n + call_updates c)
    \<and> (\<exists>e. event_seq e = PInt (n + call_updates c)
         \<and> dk_logs dk' event_log = dk_logs dk event_log @ [e])"
proof (cases c)
  case (Update patch t cmp)
  with assms obtain s where "state_update w dk patch t cmp = Inr (w', dk', s)"
    by (auto simp: bindR_Inr_iff)
  from state_update_effect [OF assms(1) _ this] assms(2) Update show ?thesis by auto
next
  case (SetPhase ph err)
  with assms obtain s patch where st: "state_update w dk patch ''RUNTIME_PHASE_CHANGED'' ''orchestrator'' = Inr (w', dk', s)"
    and p: "''sequence'' \<notin> set (dict_keys patch)"
    by (auto simp: bindR_Inr_iff set_phase_def dict_keys_def split: option.splits)
  from state_update_effect [OF assms(1) p st] SetPhase show ?thesis by auto
next
  case (StartRun ex)
  with assms obtain s w1 patch where st: "state_update w1 dk patch ''RUN_CREATED'' ''experiment_manager'' = Inr (w', dk', s)"
    and p: "''sequence'' \<notin> set (dict_keys patch)"
    by (auto simp: bindR_Inr_iff start_run_def Let_def)
  from state_update_effect [OF assms(1) p st] StartRun show ?thesis by auto
next
  case (AppendEvent t pl cmp sev)
  with assms obtain e where "append_event w dk t pl cmp sev '''' '''' '''' = Inr (w', dk', e)"
    by (auto simp: bindR_Inr_iff)
  from append_event_effect [OF assms(1) this] assms(1) AppendEvent show ?thesis
    by (auto simp: state_at_def)
next
  case (CreateCommand name pl cmp)
  with assms obtain w1 dk1 patch s where st: "state_update w1 dk1 patch ''COMMAND_ACCEPTED'' cmp = Inr (w', dk', s)"
    and p: "''sequence'' \<notin> set (dict_keys patch)"
    and l: "dk_files dk1 = dk_files dk" "dk_logs dk1 event_log = dk_logs dk event_log"
    by (auto simp: bindR_Inr_iff create_command_def Let_def append_jsonl_def split: if_splits)
  from assms(1) l have "state_at dk1 n" by (simp add: state_at_def)
  from state_update_effect [OF this p st] CreateCommand l show ?thesis by auto
next
  case (AcknowledgeCommand cm st a e)
  with assms obtain dk1 t pl cp sv cid ev where ap: "append_event w dk1 t pl cp sv '''' cid '''' = Inr (w', dk', ev)"
    and l: "dk_files dk1 = dk_files dk" "dk_logs dk1 event_log = dk_logs dk event_log"
    by (auto simp: bindR_Inr_iff acknowledge_command_def Let_def append_jsonl_def split: if_splits)
  from assms(1) l have at: "state_at dk1 n" by (simp add: state_at_def)
  from append_event_effect [OF this ap] AcknowledgeCommand l at show ?thesis
    by (auto simp: state_at_def)
next
  case (SyncSignal r h cm i p hs path)
  with assms obtain w1 dk1 t pl cp sv cid ev where ap: "append_event w1 dk1 t pl cp sv '''' cid '''' = Inr (w', dk', ev)"
    and l: "dk_files dk1 state_file = dk_files dk state_file" "dk_logs dk1 event_log = dk_logs dk event_log"
    by (auto simp: bindR_Inr_iff write_sync_signal_def Let_def disk_write_def write_json_def split: if_splits)
  from assms(1) l have at: "state_at dk1 n" by (simp add: state_at_def)
  from append_event_effect [OF this ap] SyncSignal l at show ?thesis
    by (auto simp: state_at_def)
qed

text \<open>The calls of a history, each at its own clock reading; a call that raises ends it.\<close>

fun exec_calls :: "env \<Rightarrow> disk \<Rightarrow> (time \<times> store_call) list \<Rightarrow> (env \<times> disk) res" where
  "exec_calls w dk [] = Inr (w, dk)"
| "exec_calls w dk ((t, c) # cs) =
     bindR (exec_call (w\<lparr>env_now := t\<rparr>) dk c) (\<lambda>(w1, dk1). exec_calls w1 dk1 cs)"

lemma exec_calls_effect:
  assumes "state_at dk n" "log_ordered dk n" "\<forall>(t, c)\<in>set cs. call_ok c"
    "exec_calls w dk cs = Inr (w', dk')"
  shows "state_at dk' (n + sum_list (map (\<lambda>x. call_updates (snd x)) cs))
    \<and> log_ordered dk' (n + sum_list (map (\<lambda>x. call_updates (snd x)) cs))
    \<and> (\<exists>es. length es = length cs \<and> dk_logs dk' event_log = dk_logs dk event_log @ es)"
  using assms
proof (induction cs arbitrary: w dk n)
  case Nil
  then show ?case by auto
next
  case (Cons x cs)
  obtain t c where x: "x = (t, c)" by (cases x)
  with Cons.prems(4) obtain w1 dk1 where one: "exec_call (w\<lparr>env_now := t\<rparr>) dk c = Inr (w1, dk1)"
    and rest: "exec_calls w1 dk1 cs = Inr (w', dk')" by (auto simp: bindR_Inr_iff)
  have ok: "call_ok c" using Cons.prems(3) x by simp
  obtain e where e: "state_at dk1 (n + call_updates c)" "event_seq e = PInt (n + call_updates c)"
    "dk_logs dk1 event_log = dk_logs dk event_log @ [e]"
    using exec_call_effect [OF Cons.prems(1) ok one] by blast
  have "0 \<le> call_updates c" by (cases c) simp_all
  then have lo: "log_ordered dk1 (n + call_updates c)"
    using log_ordered_append [OF Cons.prems(2) _ e(2,3)] by simp
  from Cons.IH [OF e(1) lo _ rest] Cons.prems(3) obtain es where
    ih: "state_at dk' (n + call_updates c + sum_list (map (\<lambda>x. call_updates (snd x)) cs))"
      "log_ordered dk' (n + call_updates c + sum_list (map (\<lambda>x. call_updates (snd x)) cs))"
      "length es = length cs" "dk_logs dk' event_log = dk_logs dk1 event_log @ es" by auto
  have "length (e # es) = length (x # cs) \<and> dk_logs dk' event_log = dk_logs dk event_log @ e # es"
    using ih(3,4) e(3) by simp
  with ih(1,2) x show ?case by (auto simp: add.assoc)
qed

text \<open>Whatever its patch, a call that returns has logged one event.\<close>

lemma append_event_logs:
  "append_event w dk t pl cmp sev ent cid corr = Inr (w', dk', e) \<Longrightarrow>
   length (dk_logs dk' event_log) = Suc (length (dk_logs dk event_log))"
  by (auto simp: append_event_def Let_def bindR_Inr_iff append_jsonl_def split: if_splits)

lemma state_update_logs:
  assumes "state_update w dk patch t cmp = Inr (w', dk', s)"
  shows "length (dk_logs dk' event_log) = Suc (length (dk_logs dk event_log))"
proof -
  from assms obtain v dk1 n e where wr: "disk_write w dk state_file v = Inr dk1"
    and ev: "append_event w dk1 t [(''patch'', PDict patch), (''state_sequence'', PInt (n + 1))]
       cmp ''INFO'' '''' '''' '''' = Inr (w', dk', e)"
    by (auto simp: state_update_def Let_def bindR_Inr_iff)
  from wr have "dk_logs dk1 = dk_logs dk" by (auto simp: disk_write_def bindR_Inr_iff)
  with append_event_logs [OF ev] show ?thesis by simp
qed

lemma exec_call_logs:
  assumes "exec_call w dk c = Inr (w', dk')"
  shows "length (dk_logs dk' event_log) = Suc (length (dk_logs dk event_log))"
proof (cases c)
  case (CreateCommand name pl cmp)
  with assms obtain w1 dk1 patch s where st: "state_update w1 dk1 patch ''COMMAND_ACCEPTED'' cmp = Inr (w', dk', s)"
    and l: "dk_logs dk1 event_log = dk_logs dk event_log"
    by (auto simp: bindR_Inr_iff create_command_def Let_def append_jsonl_def split: if_splits)
  from state_update_logs [OF st] l show ?thesis by simp
next
  case (AcknowledgeCommand cm st a e)
  with assms obtain dk1 t pl cp sv cid ev where ap: "append_event w dk1 t pl cp sv '''' cid '''' = Inr (w', dk', ev)"
    and l: "dk_logs dk1 event_log = dk_logs dk event_log"
    by (auto simp: bindR_Inr_iff acknowledge_command_def Let_def append_jsonl_def split: if_splits)
  from append_event_logs [OF ap] l show ?thesis by simp
next
  case (SyncSignal r h cm i p hs path)
  with assms obtain w1 dk1 t pl cp sv cid ev where ap: "append_event w1 dk1 t pl cp sv '''' cid '''' = Inr (w', dk', ev)"
    and l: "dk_logs dk1 event_log = dk_logs dk event_log"
    by (auto simp: bindR_Inr_iff write_sync_signal_def Let_def disk_write_def write_json_def split: if_splits)
  from append_event_logs [OF ap] l show ?thesis by simp
qed (use assms in \<open>auto simp: bindR_Inr_iff set_phase_def start_run_def Let_def
    dest!: state_update_logs append_event_logs\<close>)

lemma exec_calls_logs:
  "exec_calls w dk cs = Inr (w', dk') \<Longrightarrow>
   length (dk_logs dk' event_log) = length (dk_logs dk event_log) + length cs"
proof (induction cs arbitrary: w dk)
  case (Cons x cs)
  then show ?case by (cases x) (auto simp: bindR_Inr_iff dest!: exec_call_logs)
qed simp

section \<open>The properties\<close>

definition empty_disk :: disk where
  "empty_disk = \<lparr>dk_files = (\<lambda>_. None), dk_mtime = (\<lambda>_. Fin 0), dk_logs = (\<lambda>_. [])\<rparr>"

text \<open>C22: on a fresh disk, any history of store calls that returns (updates, phase changes, run starts, events,
  commands, acknowledgements, scene signals) has logged exactly one event per call. When no update
  patches the field \<open>sequence\<close> itself, the events' sequence numbers never decrease, and the state's
  sequence number is the number of updates made.\<close>

theorem event_log_ordered:
  assumes "exec_calls w empty_disk cs = Inr (w', dk')"
  shows "length (dk_logs dk' event_log) = length cs
    \<and> ((\<forall>(t, c)\<in>set cs. call_ok c) \<longrightarrow>
         (\<exists>ns. map event_seq (dk_logs dk' event_log) = map PInt ns \<and> sorted ns)
       \<and> dget (state_read wr dk') ''sequence'' (PInt 0) = PInt (sum_list (map (\<lambda>x. call_updates (snd x)) cs)))"
proof -
  have start: "state_at empty_disk 0" "log_ordered empty_disk 0"
    by (simp_all add: state_at_def empty_disk_def log_ordered_def)
  have "length (dk_logs dk' event_log) = length cs"
    using exec_calls_logs [OF assms] by (simp add: empty_disk_def)
  moreover have "(\<exists>ns. map event_seq (dk_logs dk' event_log) = map PInt ns \<and> sorted ns)
      \<and> dget (state_read wr dk') ''sequence'' (PInt 0) = PInt (sum_list (map (\<lambda>x. call_updates (snd x)) cs))"
    if "\<forall>(t, c)\<in>set cs. call_ok c"
  proof -
    from exec_calls_effect [OF start that assms]
    have "state_at dk' (sum_list (map (\<lambda>x. call_updates (snd x)) cs))"
      "\<exists>ns. map event_seq (dk_logs dk' event_log) = map PInt ns \<and> sorted ns"
      by (auto simp: log_ordered_def)
    with state_at_read(2) show ?thesis by blast
  qed
  ultimately show ?thesis by blast
qed

definition demo_calls :: "(time \<times> store_call) list" where
  "demo_calls =
     [(Fin 1, SetPhase RP_PREFLIGHT None),
      (Fin 2, Update [(''packet'', PDict [])] ''STATE_UPDATED'' ''state_store''),
      (Fin 3, AppendEvent ''NOTE'' [] ''operator'' ''INFO'')]"

lemma event_log_ordered_witness:
  "\<exists>w' dk'. exec_calls \<lparr>env_now = Fin 0, env_uuid = 0\<rparr> empty_disk demo_calls = Inr (w', dk')
     \<and> length (dk_logs dk' event_log) = 3
     \<and> dget (state_read w' dk') ''sequence'' (PInt 0) = PInt 2"
proof -
  have "case exec_calls \<lparr>env_now = Fin 0, env_uuid = 0\<rparr> empty_disk demo_calls of Inl _ \<Rightarrow> False | Inr _ \<Rightarrow> True"
    by code_simp
  then obtain w' dk' where run: "exec_calls \<lparr>env_now = Fin 0, env_uuid = 0\<rparr> empty_disk demo_calls = Inr (w', dk')"
    by (auto split: sum.splits)
  have "\<forall>(t, c)\<in>set demo_calls. call_ok c" by (simp add: demo_calls_def)
  with event_log_ordered [OF run, of w'] run show ?thesis by (auto simp: demo_calls_def)
qed

lemma sync_status_dicts:
  assumes "py_or (read_json (dk_files dk) isaac_signal_file (PDict [])) (PDict []) = PDict s"
    and "py_or (read_json (dk_files dk) isaac_ack_file (PDict [])) (PDict []) = PDict a"
  shows "\<exists>d. sync_status w dk timeout = Inr d \<and> dget d ''acknowledged'' PNone = PBool
    (py_str (py_or (dget s ''revision_id'' PNone) (dget s ''revision'' (PStr ''''))) \<noteq> []
     \<and> py_str (py_or (dget a ''revision_id'' PNone) (dget a ''revision'' (PStr '''')))
         = py_str (py_or (dget s ''revision_id'' PNone) (dget s ''revision'' (PStr '''')))
     \<and> (py_str (dget s ''config_hash'' (PStr '''')) = []
         \<or> py_str (dget s ''config_hash'' (PStr '''')) = py_str (dget a ''applied_config_hash'' (PStr '''')))
     \<and> truthy (dget a ''scene_ready'' (PBool True)))"
  unfolding sync_status_def Let_def assms pget_def by simp

text \<open>C23: a scene acknowledgement counts only for the signal it answers: after a signal with a revision and a
  configuration hash, \<open>sync_status\<close> returns, and reports \<open>acknowledged\<close> exactly when the
  acknowledgement on disk names that revision and that applied hash and does not deny that
  the scene is ready.\<close>

theorem sync_status_stale_ack:
  assumes sig: "write_sync_signal w dk reason h cid rid pid hs path = Inr (w', dk', signal)"
    and ne: "rid \<noteq> []" "h \<noteq> []" and ack: "dk_files dk' isaac_ack_file = Some (PDict a)"
  shows "\<exists>d. sync_status wr dk' timeout = Inr d \<and>
    dget d ''acknowledged'' PNone = PBool
      (py_str (py_or (dget a ''revision_id'' PNone) (dget a ''revision'' (PStr ''''))) = rid
       \<and> py_str (dget a ''applied_config_hash'' (PStr '''')) = h
       \<and> truthy (dget a ''scene_ready'' (PBool True)))"
proof -
  let ?s = "[(''revision'', PStr rid), (''revision_id'', PStr rid),
     (''parent_revision_id'', PStr pid), (''timestamp'', PFloat (env_now w)),
     (''reason'', PStr reason), (''config_hash'', PStr h), (''hashes'', PDict hs),
     (''config_path'', PStr path), (''command_id'', PStr cid)]"
  from sig ne(1) obtain w1 dk1 e where wr: "disk_write w1 dk isaac_signal_file (PDict ?s) = Inr dk1"
    and ev: "append_event w1 dk1 ''ISAAC_SYNC_REQUESTED'' ?s ''mission_control'' ''INFO'' '''' cid '''' = Inr (w', dk', e)"
    by (auto simp: write_sync_signal_def Let_def bindR_Inr_iff)
  from ev have "dk_files dk' = dk_files dk1"
    by (auto simp: append_event_def Let_def bindR_Inr_iff append_jsonl_def split: if_splits)
  with wr have stored: "dk_files dk' isaac_signal_file = Some (json_norm (PDict ?s))"
    by (auto simp: disk_write_def bindR_Inr_iff write_json_def split: if_splits simp del: json_norm.simps)
  let ?n = "json_norm (PDict ?s)"
  have look: "dget (as_dict ?n) k v = (case map_of ?s k of None \<Rightarrow> v | Some x \<Rightarrow> json_norm x)" for k v
    by (rule json_norm_dget)
  have sig_val: "py_or (read_json (dk_files dk') isaac_signal_file (PDict [])) (PDict []) = ?n"
    by (simp add: read_json_def stored py_or_def del: json_norm.simps)
  have ack_val: "py_or (read_json (dk_files dk') isaac_ack_file (PDict [])) (PDict []) = PDict a"
    by (simp add: read_json_def ack py_or_def)
  obtain b where b: "?n = PDict b" by simp
  have fields: "dget (as_dict ?n) ''revision_id'' PNone = PStr rid"
    "dget (as_dict ?n) ''config_hash'' (PStr '''') = PStr h"
    unfolding look by simp_all
  have f: "dget b ''revision_id'' PNone = PStr rid" "dget b ''config_hash'' (PStr '''') = PStr h"
    using fields [unfolded b] by simp_all
  have sig_rev: "py_or (PStr rid) v = PStr rid" for v using ne(1) by (simp add: py_or_def)
  show ?thesis
    using sync_status_dicts [OF sig_val [unfolded b] ack_val, of wr timeout] ne
    unfolding f sig_rev by auto
qed

lemma sync_status_stale_ack_witness:
  "\<exists>w' dk' signal d. write_sync_signal \<lparr>env_now = Fin 0, env_uuid = 0\<rparr>
      (empty_disk\<lparr>dk_files := (\<lambda>_. None)(isaac_ack_file := Some (PDict [(''revision_id'', PStr ''old'')]))\<rparr>)
      ''edit'' ''h1'' ''c'' ''new'' '''' [] '''' = Inr (w', dk', signal)
    \<and> sync_status w' dk' (Fin 15) = Inr d \<and> dget d ''acknowledged'' PNone = PBool False"
proof -
  let ?w = "\<lparr>env_now = Fin 0, env_uuid = 0\<rparr>"
  let ?dk = "empty_disk\<lparr>dk_files := (\<lambda>_. None)(isaac_ack_file := Some (PDict [(''revision_id'', PStr ''old'')]))\<rparr>"
  let ?run = "write_sync_signal ?w ?dk ''edit'' ''h1'' ''c'' ''new'' '''' [] ''''"
  have "case ?run of Inl _ \<Rightarrow> False
    | Inr (_, dk', _) \<Rightarrow> dk_files dk' isaac_ack_file = Some (PDict [(''revision_id'', PStr ''old'')])"
    by code_simp
  then obtain w' dk' signal where run: "?run = Inr (w', dk', signal)"
    and ack: "dk_files dk' isaac_ack_file = Some (PDict [(''revision_id'', PStr ''old'')])"
    by (auto split: sum.splits)
  from sync_status_stale_ack [OF run _ _ ack, of w' "Fin 15"] run show ?thesis
    by (auto simp: py_or_def)
qed

end
