(* ===== verification/Revision_Manager.thy ===== *)
theory Revision_Manager
  imports State_Store Revision_Store
begin

text \<open>
  \<open>RevisionManager\<close> of \<open>netlab/revisions.py\<close>: the dict-based desired/observed reconciliation used by the HTTP
  API. A revision record is a JSON object in \<open>results/revisions/<id>.json\<close>; three further files hold
  the desired and the committed record and the reconciliation report. The acknowledgement files
  are written by the participants and only read here.
\<close>

definition required_names :: "string list" where
  "required_names = [''ros'', ''sionna'', ''isaac'']"

definition mgr_path :: "string \<Rightarrow> string" where
  "mgr_path rid = revisions_dir @ rid @ ''.json''"

text \<open>\<open>read_json(path, {}) or {}\<close>.\<close>

definition read_or_empty :: "files \<Rightarrow> string \<Rightarrow> pyval" where
  "read_or_empty fs path = py_or (read_json fs path (PDict [])) (PDict [])"

definition mgr_desired :: "files \<Rightarrow> pyval" where
  "mgr_desired fs = read_or_empty fs desired_revision_file"

definition mgr_committed :: "files \<Rightarrow> pyval" where
  "mgr_committed fs = read_or_empty fs committed_revision_file"

definition mgr_summary :: "pydict \<Rightarrow> pydict" where
  "mgr_summary r =
     [(''revision_id'', dget r ''revision_id'' PNone),
      (''parent_revision_id'', dget r ''parent_revision_id'' PNone), (''phase'', dget r ''phase'' PNone),
      (''state'', dget r ''state'' PNone), (''hashes'', dget r ''hashes'' (PDict [])),
      (''required_participants'', dget r ''required_participants'' (PList (map PStr required_names))),
      (''affected_entities'', dget r ''affected_entities'' (PList [])),
      (''updated_at'', dget r ''updated_at'' PNone)]"

section \<open>Creating, writing and reading records\<close>

definition write_reconciliation :: "env \<Rightarrow> files \<Rightarrow> pydict \<Rightarrow> files res" where
  "write_reconciliation w fs r =
     write_json fs reconciliation_file (PDict
       [(''revision_id'', dget r ''revision_id'' PNone), (''state'', dget r ''state'' PNone),
        (''phase'', dget r ''phase'' PNone), (''participants'', dget r ''participants'' (PDict [])),
        (''hashes'', dget r ''hashes'' (PDict [])), (''updated_at'', PFloat (env_now w))])"

definition mgr_write :: "env \<Rightarrow> files \<Rightarrow> pydict \<Rightarrow> (files \<times> pydict) res" where
  "mgr_write w fs r =
     (let r1 = dset ''updated_at'' (PFloat (env_now w)) r
      in bindR (dget_item r1 ''revision_id'') (\<lambda>rid.
           bindR (write_json fs (mgr_path (py_str rid)) (PDict r1)) (\<lambda>fs1. Inr (fs1, r1))))"

definition mgr_read :: "files \<Rightarrow> string \<Rightarrow> pyval res" where
  "mgr_read fs rid =
     (let v = read_or_empty fs (mgr_path rid)
      in if truthy v then Inr v else Inl (RuntimeError (''Unknown revision '' @ rid)))"

definition pending_participant :: pyval where
  "pending_participant =
     PDict [(''state'', PStr (participant_state_value PT_PENDING)), (''observed_revision'', PStr ''''),
            (''observed_hashes'', PDict []), (''message'', PStr ''''), (''timestamp'', PNone)]"

definition new_record ::
  "env \<Rightarrow> pyval \<Rightarrow> pyval \<Rightarrow> string \<Rightarrow> string \<Rightarrow> pyval \<Rightarrow> string \<Rightarrow> string list \<Rightarrow> string list \<Rightarrow> pydict \<Rightarrow> pydict" where
  "new_record w parent candidate reason command_id idempotency_key initiator required affected hashes =
     [(''revision_id'', PStr (fresh_uuid (env_uuid w))), (''parent_revision_id'', PStr (py_str parent)),
      (''command_id'', PStr command_id),
      (''idempotency_key'', py_or idempotency_key (PStr (fresh_uuid (Suc (env_uuid w))))),
      (''reason'', PStr reason), (''initiator'', PStr initiator), (''phase'', PStr ''DRAFT_SAVED''),
      (''state'', PStr ''PENDING_ROS''), (''created_at'', PFloat (env_now w)),
      (''updated_at'', PFloat (env_now w)), (''hashes'', PDict hashes), (''candidate'', candidate),
      (''config'', candidate), (''required_participants'', PList (map PStr required)),
      (''affected_entities'', PList (map PStr affected)),
      (''participants'', PDict (fold (\<lambda>name. dset name pending_participant) required [])),
      (''retry_count'', PInt 0), (''error'', PNone)]"

definition mgr_create ::
  "env \<Rightarrow> files \<Rightarrow> pyval \<Rightarrow> string \<Rightarrow> string \<Rightarrow> pyval \<Rightarrow> string \<Rightarrow> string list \<Rightarrow> string list
   \<Rightarrow> (env \<times> files \<times> pydict) res" where
  "mgr_create w fs candidate reason command_id idempotency_key initiator required affected =
     bindR (pget (mgr_committed fs) ''revision_id'' (PStr '''')) (\<lambda>parent.
       bindR (component_hashes candidate) (\<lambda>hashes.
         let r = new_record w parent candidate reason command_id idempotency_key initiator required
                   affected hashes
         in bindR (mgr_write w fs r) (\<lambda>(fs1, _).
              bindR (write_json fs1 desired_revision_file (PDict r)) (\<lambda>fs2.
                bindR (write_reconciliation w fs2 r) (\<lambda>fs3.
                  Inr (after_create w idempotency_key, fs3, r))))))"

text \<open>
  \<open>list\<close>: the values of the revision files in the directory's order, sorted by their time of update,
  the latest first (a stable sort on the negated key).
\<close>

definition update_key :: "pyval \<Rightarrow> (pyfloat \<times> pyval) res" where
  "update_key v =
     bindR (pget v ''updated_at'' (PInt 0)) (\<lambda>t. bindR (py_float t) (\<lambda>f. Inr (f, v)))"

fun insert_latest :: "pyfloat \<times> pyval \<Rightarrow> (pyfloat \<times> pyval) list \<Rightarrow> (pyfloat \<times> pyval) list" where
  "insert_latest x [] = [x]"
| "insert_latest x (y # ys) = (if flt (fst y) (fst x) then x # y # ys else y # insert_latest x ys)"

definition mgr_list :: "files \<Rightarrow> string list \<Rightarrow> nat \<Rightarrow> pyval list res" where
  "mgr_list fs paths limit =
     bindR (mapR (\<lambda>p. update_key (read_or_empty fs p)) paths) (\<lambda>rs.
       Inr (take limit (map snd (fold insert_latest rs []))))"

section \<open>Acknowledgements\<close>

definition participant_entry ::
  "env \<Rightarrow> string \<Rightarrow> string \<Rightarrow> pydict \<Rightarrow> string \<Rightarrow> pydict \<Rightarrow> pydict" where
  "participant_entry w state observed_revision observed_hashes message details =
     [(''state'', PStr state), (''observed_revision'', PStr observed_revision),
      (''observed_hashes'', PDict observed_hashes), (''message'', PStr message),
      (''details'', PDict details), (''timestamp'', PFloat (env_now w))]"

definition next_state :: "string \<Rightarrow> string" where
  "next_state participant =
     (if participant = ''ros'' then ''PENDING_SIONNA''
      else if participant = ''sionna'' then ''PENDING_ISAAC'' else ''IN_SYNC'')"

definition advance_state :: "string \<Rightarrow> string \<Rightarrow> pydict \<Rightarrow> pydict" where
  "advance_state participant state r =
     (if state = participant_state_value PT_ACKNOWLEDGED
      then dset ''phase'' (PStr (''APPLIED_TO_'' @ py_upper participant))
             (dset ''state'' (PStr (next_state participant)) r)
      else if state = participant_state_value PT_FAILED
      then dset ''phase'' (PStr ''FAILED'') (dset ''state'' (PStr ''FAILED'') r)
      else r)"

definition mark_participant ::
  "env \<Rightarrow> files \<Rightarrow> string \<Rightarrow> string \<Rightarrow> string \<Rightarrow> string \<Rightarrow> pydict \<Rightarrow> string \<Rightarrow> pydict
   \<Rightarrow> (files \<times> pydict) res" where
  "mark_participant w fs rid participant state observed_revision observed_hashes message details =
     (if participant \<notin> set required_names
      then Inl (RuntimeError (''Unknown revision participant '' @ participant))
      else bindR (mgr_read fs rid) (\<lambda>v. bindR (pitems v) (\<lambda>r.
        bindR (pset participant
                 (PDict (participant_entry w state observed_revision observed_hashes message details))
                 (dget r ''participants'' (PDict []))) (\<lambda>ps.
          let r1 = advance_state participant state (dset ''participants'' ps r)
          in bindR (mgr_write w fs r1) (\<lambda>(fs1, _).
               bindR (write_reconciliation w fs1 r1) (\<lambda>fs2. Inr (fs2, r1)))))))"

text \<open>\<open>_ack_drift\<close>.\<close>

definition drift_entry :: "pyval \<Rightarrow> pyval \<Rightarrow> string \<Rightarrow> pyval" where
  "drift_entry expected observed reason =
     PDict [(''expected'', expected), (''observed'', observed), (''reason'', PStr reason)]"

fun drift_hashes :: "pyval \<Rightarrow> pydict \<Rightarrow> pydict \<Rightarrow> pydict res" where
  "drift_hashes observed [] out = Inr out"
| "drift_hashes observed ((key, expected) # rest) out =
     bindR (observed_at observed key) (\<lambda>seen.
       drift_hashes observed rest
         (case seen of
            None \<Rightarrow> dset key (drift_entry expected PNone ''MISSING'') out
          | Some x \<Rightarrow> if py_eq x expected then out
                      else dset key (drift_entry expected x ''MISMATCH'') out))"

definition ack_drift :: "pydict \<Rightarrow> pydict \<Rightarrow> pydict res" where
  "ack_drift r ack =
     (let expected = py_str (dget r ''revision_id'' (PStr ''''));
          observed = py_str (py_or (py_or (dget ack ''revision_id'' PNone) (dget ack ''revision'' PNone)) (PStr ''''));
          hashes = py_or (py_or (py_or (dget ack ''applied_hashes'' PNone) (dget ack ''observed_hashes'' PNone))
                     (dget ack ''hashes'' PNone)) (PDict [])
      in bindR (pitems (py_or (dget r ''hashes'' PNone) (PDict []))) (\<lambda>items.
           bindR (drift_hashes hashes items []) (\<lambda>mm.
             Inr [(''revision_mismatch'', PBool (observed \<noteq> [] \<and> observed \<noteq> expected)),
                  (''expected_revision'', PStr expected), (''observed_revision'', PStr observed),
                  (''hash_mismatches'', PDict mm)])))"

section \<open>Commit\<close>

text \<open>\<open>d.get(name)\<close> for a name of any type.\<close>

definition pget_any :: "pyval \<Rightarrow> pyval \<Rightarrow> pyval res" where
  "pget_any v name =
     (case v of
        PDict d \<Rightarrow> (case name of
            PStr s \<Rightarrow> Inr (dget d s PNone)
          | PList _ \<Rightarrow> Inl TypeError
          | PDict _ \<Rightarrow> Inl TypeError
          | _ \<Rightarrow> Inr PNone)
      | _ \<Rightarrow> Inl AttributeError)"

definition required_of :: "pydict \<Rightarrow> pyval list res" where
  "required_of r =
     ptuple (py_or (dget r ''required_participants'' PNone) (PList (map PStr required_names)))"

definition participant_of :: "pydict \<Rightarrow> pyval \<Rightarrow> pyval res" where
  "participant_of r name =
     bindR (pget_any (py_or (dget r ''participants'' PNone) (PDict [])) name) (\<lambda>p.
       Inr (py_or p (PDict [])))"

fun hashes_agree :: "pydict \<Rightarrow> pyval \<Rightarrow> bool res" where
  "hashes_agree [] observed = Inr True"
| "hashes_agree ((key, value) # rest) observed =
     bindR (pget observed key PNone) (\<lambda>x.
       if py_eq x value then hashes_agree rest observed else Inr False)"

definition participant_acknowledged :: "pydict \<Rightarrow> pyval \<Rightarrow> bool res" where
  "participant_acknowledged r name =
     bindR (participant_of r name) (\<lambda>p.
       bindR (pget p ''state'' PNone) (\<lambda>state.
         if \<not> py_eq state (PStr (participant_state_value PT_ACKNOWLEDGED)) then Inr False
         else bindR (pget p ''observed_revision'' PNone) (\<lambda>rev.
           if \<not> py_eq rev (dget r ''revision_id'' PNone) then Inr False
           else bindR (pget p ''observed_hashes'' PNone) (\<lambda>observed.
             bindR (pitems (py_or (dget r ''hashes'' PNone) (PDict []))) (\<lambda>expected.
               hashes_agree expected (py_or observed (PDict [])))))))"

fun all_acknowledged :: "pydict \<Rightarrow> pyval list \<Rightarrow> bool res" where
  "all_acknowledged r [] = Inr True"
| "all_acknowledged r (name # names) =
     bindR (participant_acknowledged r name) (\<lambda>ok.
       if ok then all_acknowledged r names else Inr False)"

definition all_required_acknowledged :: "pydict \<Rightarrow> bool res" where
  "all_required_acknowledged r = bindR (required_of r) (all_acknowledged r)"

definition mgr_commit :: "env \<Rightarrow> files \<Rightarrow> string \<Rightarrow> (files \<times> pydict) res" where
  "mgr_commit w fs rid =
     bindR (mgr_read fs rid) (\<lambda>v. bindR (pitems v) (\<lambda>r.
       bindR (all_required_acknowledged r) (\<lambda>ok.
         if \<not> ok
         then Inl (RuntimeError ''Revision cannot commit before all matching participant acknowledgements'')
         else (let r1 = dset ''state'' (PStr ''IN_SYNC'') (dset ''phase'' (PStr ''COMMITTED'') r)
               in bindR (mgr_write w fs r1) (\<lambda>(fs1, r2).
                    bindR (write_json fs1 committed_revision_file (PDict r2)) (\<lambda>fs2.
                      bindR (write_json fs2 desired_revision_file (PDict r2)) (\<lambda>fs3.
                        bindR (write_reconciliation w fs3 r2) (\<lambda>fs4. Inr (fs4, r2)))))))))"

definition mgr_rollback :: "env \<Rightarrow> files \<Rightarrow> string \<Rightarrow> (env \<times> files \<times> pydict) res" where
  "mgr_rollback w fs rid =
     bindR (mgr_read fs rid) (\<lambda>v. bindR (pitems v) (\<lambda>target.
       bindR (mgr_create w fs (dget target ''candidate'' (PDict [])) (''rollback_to:'' @ rid) ''rollback''
                (PStr '''') ''operator'' required_names []) (\<lambda>(w1, fs1, r).
         bindR (mgr_write w1 fs1
                  (dset ''state'' (PStr ''ROLLED_BACK'') (dset ''phase'' (PStr ''ROLLED_BACK'') r)))
           (\<lambda>(fs2, r2). Inr (w1, fs2, r2)))))"

section \<open>Status\<close>

definition ack_files :: "(string \<times> string) list" where
  "ack_files = [(''ros'', ros_ack_file), (''sionna'', sionna_ack_file), (''isaac'', isaac_ack_file)]"

definition drift_of :: "files \<Rightarrow> pydict \<Rightarrow> string \<times> string \<Rightarrow> pydict \<Rightarrow> pydict res" where
  "drift_of fs r = (\<lambda>(name, path) out.
     (let ack = read_or_empty fs path
      in if \<not> truthy ack then Inr out
         else bindR (pitems ack) (\<lambda>a. bindR (ack_drift r a) (\<lambda>detail.
           if truthy (dget detail ''revision_mismatch'' PNone) \<or> truthy (dget detail ''hash_mismatches'' PNone)
           then Inr (dset name (PDict detail) out) else Inr out))))"

definition pending_names :: "pydict \<Rightarrow> pyval list \<Rightarrow> pyval list res" where
  "pending_names r names =
     bindR (mapR (\<lambda>name. bindR (participant_of r name) (\<lambda>p.
        bindR (pget p ''state'' PNone) (\<lambda>st.
          Inr (name, \<not> py_eq st (PStr (participant_state_value PT_ACKNOWLEDGED)))))) names)
       (\<lambda>flags. Inr (map fst (filter snd flags)))"

definition status_state :: "pydict \<Rightarrow> pydict \<Rightarrow> pyval list \<Rightarrow> string res" where
  "status_state r drift pending =
     (let state = py_str (py_or (py_or (dget r ''state'' PNone) (dget r ''phase'' PNone)) (PStr ''PENDING_ROS''))
      in if drift \<noteq> [] then Inr ''DRIFT_DETECTED''
         else if pending \<noteq> [] then Inr state
         else bindR (all_required_acknowledged r) (\<lambda>ok.
           Inr (if ok then (if py_eq (dget r ''phase'' PNone) (PStr ''COMMITTED'') then ''IN_SYNC''
                            else ''READY_TO_COMMIT'')
                else state)))"

definition status_of_record :: "files \<Rightarrow> pydict \<Rightarrow> (files \<times> pydict) res" where
  "status_of_record fs r =
     bindR (required_of r) (\<lambda>names.
       bindR (pending_names r names) (\<lambda>pending.
         bindR (foldR (drift_of fs r) ack_files []) (\<lambda>drift.
           bindR (status_state r drift pending) (\<lambda>state.
             let result =
               [(''revision_id'', dget r ''revision_id'' PNone), (''state'', PStr state),
                (''phase'', dget r ''phase'' PNone), (''in_sync'', PBool (state = ''IN_SYNC'')),
                (''pending_participants'', PList pending),
                (''participants'', py_or (dget r ''participants'' PNone) (PDict [])),
                (''drift_participants'', PList (map PStr (sort (dict_keys drift)))),
                (''drift_details'', PDict drift), (''hashes'', dget r ''hashes'' (PDict [])),
                (''updated_at'', dget r ''updated_at'' PNone)]
             in bindR (write_json fs reconciliation_file (PDict result)) (\<lambda>fs1. Inr (fs1, result))))))"

definition mgr_status :: "files \<Rightarrow> string \<Rightarrow> (files \<times> pydict) res" where
  "mgr_status fs rid =
     bindR (if rid \<noteq> [] then mgr_read fs rid
            else Inr (py_or (py_or (read_json fs desired_revision_file (PDict []))
                                   (read_json fs committed_revision_file (PDict []))) (PDict []))) (\<lambda>v.
       if \<not> truthy v
       then Inr (fs, [(''state'', PStr ''NO_REVISION''), (''in_sync'', PBool False),
                      (''pending_participants'', PList (map PStr required_names)),
                      (''drift_participants'', PList []), (''drift_details'', PDict [])])
       else bindR (pitems v) (status_of_record fs))"

end
