(* ===== verification/Runtime_Sync.thy ===== *)
theory Runtime_Sync
  imports Revision_Manager
begin

text \<open>
  \<open>RuntimeSynchronizer\<close> of \<open>netlab/synchronization.py\<close>: one durable revision is offered to ROS 2, Sionna and
  Isaac in this order. What the participants do is outside the program and a parameter of a run
  (\<open>runtime_world\<close>): the contents of the acknowledgement files at each round of polling, and the
  answer of the Sionna HTTP service or the text of the exception it raised.
\<close>

record runtime_world =
  rw_ros_polls :: "pyval option list list"
  rw_sionna :: "string + pyval"
  rw_isaac_polls :: "pyval option list list"

definition shared_dir :: string where "shared_dir = ''Docker/workspace/shared/''"

definition ros_request_file :: string where "ros_request_file = shared_dir @ ''revision_ros_request.json''"
definition isaac_request_file :: string where
  "isaac_request_file = shared_dir @ ''revision_isaac_request.json''"
definition transaction_file :: string where
  "transaction_file = results_dir @ ''netlab_runtime_transaction.json''"
definition candidate_file :: "string \<Rightarrow> string" where
  "candidate_file rid = shared_dir @ ''revisions/'' @ rid @ ''.json''"

definition record_config :: "pydict \<Rightarrow> pyval" where
  "record_config r =
     py_or (py_or (dget r ''config'' PNone) (dget r ''candidate'' PNone)) (PDict [])"

definition runtime_payload :: "env \<Rightarrow> pydict \<Rightarrow> pydict res" where
  "runtime_payload w r =
     bindR (dget_item r ''revision_id'') (\<lambda>rid.
       Inr [(''revision_id'', rid), (''revision'', rid),
            (''parent_revision_id'', dget r ''parent_revision_id'' (PStr '''')),
            (''command_id'', dget r ''command_id'' (PStr '''')),
            (''idempotency_key'', dget r ''idempotency_key'' (PStr '''')),
            (''hashes'', dget r ''hashes'' (PDict [])), (''candidate'', record_config r),
            (''configuration'', record_config r),
            (''reason'', dget r ''reason'' (PStr ''runtime_apply'')),
            (''timestamp'', PFloat (env_now w))])"

section \<open>Waiting for an acknowledgement\<close>

definition ack_revision :: "pyval \<Rightarrow> string res" where
  "ack_revision v =
     bindR (pget v ''revision_id'' PNone) (\<lambda>a.
       bindR (pget v ''revision'' PNone) (\<lambda>b. Inr (py_str (py_or (py_or a b) (PStr '''')))))"

text \<open>One round over the paths: the matching acknowledgement, or the latest other one seen.\<close>

fun poll_round :: "string \<Rightarrow> pyval \<Rightarrow> pyval option list \<Rightarrow> (pyval + pyval) res" where
  "poll_round rid latest [] = Inr (Inr latest)"
| "poll_round rid latest (content # rest) =
     (let v = py_or (case content of None \<Rightarrow> PDict [] | Some x \<Rightarrow> x) (PDict []);
          latest1 = (if truthy v then v else latest)
      in bindR (ack_revision v) (\<lambda>observed.
           if observed = rid then Inr (Inl v) else poll_round rid latest1 rest))"

fun wait_ack :: "string \<Rightarrow> pyval \<Rightarrow> pyval option list list \<Rightarrow> pyval res" where
  "wait_ack rid latest [] = Inr latest"
| "wait_ack rid latest (contents # rounds) =
     bindR (poll_round rid latest contents) (\<lambda>res.
       case res of Inl v \<Rightarrow> Inr v | Inr latest1 \<Rightarrow> wait_ack rid latest1 rounds)"

definition ack_flag :: "pydict \<Rightarrow> pyval" where
  "ack_flag a = dget a ''accepted'' (dget a ''ok'' (dget a ''ready'' (PBool False)))"

definition mark_from_ack ::
  "env \<Rightarrow> files \<Rightarrow> string \<Rightarrow> string \<Rightarrow> pyval \<Rightarrow> (files \<times> pydict) res" where
  "mark_from_ack w fs rid participant ack =
     bindR (pitems ack) (\<lambda>a.
       bindR (pitems (py_or (py_or (py_or (dget a ''observed_hashes'' PNone) (dget a ''applied_hashes'' PNone))
                              (dget a ''hashes'' PNone)) (PDict []))) (\<lambda>observed.
         mark_participant w fs rid participant
           (participant_state_value (if truthy (ack_flag a) then PT_ACKNOWLEDGED else PT_FAILED))
           (py_str (py_or (py_or (dget a ''revision_id'' PNone) (dget a ''revision'' PNone)) (PStr '''')))
           observed
           (py_str (py_or (py_or (dget a ''message'' PNone) (dget a ''error'' PNone)) (PStr '''')))
           a))"

section \<open>The three participants\<close>

definition mark_if :: "bool \<Rightarrow> env \<Rightarrow> files \<Rightarrow> string \<Rightarrow> string \<Rightarrow> pyval \<Rightarrow> (files \<times> pyval) res" where
  "mark_if cond w fs rid participant ack =
     (if cond then bindR (mark_from_ack w fs rid participant ack) (\<lambda>(fs1, _). Inr (fs1, ack))
      else Inr (fs, ack))"

definition apply_ros ::
  "env \<Rightarrow> files \<Rightarrow> pydict \<Rightarrow> string \<Rightarrow> pyval option list list \<Rightarrow> (files \<times> pyval) res" where
  "apply_ros w fs r rid polls =
     bindR (runtime_payload w r) (\<lambda>payload.
       bindR (write_json fs ros_request_file (PDict payload)) (\<lambda>fs1.
         bindR (wait_ack rid (PDict []) polls) (\<lambda>ack.
           mark_if (truthy ack) w fs1 rid ''ros'' ack)))"

definition apply_sionna ::
  "env \<Rightarrow> files \<Rightarrow> pydict \<Rightarrow> string \<Rightarrow> string + pyval \<Rightarrow> (files \<times> pyval) res" where
  "apply_sionna w fs r rid response =
     bindR (runtime_payload w r) (\<lambda>_.
       let ack = (case response of
             Inr v \<Rightarrow> v
           | Inl text \<Rightarrow> PDict [(''ok'', PBool False), (''accepted'', PBool False),
                                (''message'', PStr text), (''revision_id'', PStr rid)])
       in bindR (pget ack ''ok'' PNone) (\<lambda>ok.
            bindR (pget ack ''accepted'' PNone) (\<lambda>accepted.
              mark_if (truthy ok \<or> truthy accepted) w fs rid ''sionna'' ack)))"

definition isaac_candidate :: "pydict \<Rightarrow> pydict \<Rightarrow> pydict \<Rightarrow> pydict" where
  "isaac_candidate r config hashes =
     dset ''_netlab_revision''
       (PDict (dupdate
         [(''revision_id'', dget r ''revision_id'' PNone),
          (''parent_revision_id'', dget r ''parent_revision_id'' (PStr '''')),
          (''command_id'', dget r ''command_id'' (PStr ''''))] hashes)) config"

definition apply_isaac ::
  "env \<Rightarrow> files \<Rightarrow> pydict \<Rightarrow> string \<Rightarrow> pyval option list list \<Rightarrow> (files \<times> pyval) res" where
  "apply_isaac w fs r rid polls =
     bindR (runtime_payload w r) (\<lambda>payload.
       bindR (pitems (record_config r)) (\<lambda>config.
         bindR (pitems (py_or (dget r ''hashes'' PNone) (PDict []))) (\<lambda>hashes.
           bindR (write_json fs (candidate_file rid) (PDict (isaac_candidate r config hashes))) (\<lambda>fs1.
             let payload1 = dset ''config_path'' (PStr (candidate_file rid)) payload
             in bindR (write_json fs1 isaac_request_file (PDict payload1)) (\<lambda>fs2.
                  bindR (write_json fs2 isaac_signal_file (PDict payload1)) (\<lambda>fs3.
                    bindR (wait_ack rid (PDict []) polls) (\<lambda>ack.
                      mark_if (truthy ack) w fs3 rid ''isaac'' ack)))))))"

section \<open>The transaction\<close>

definition ack_accepts :: "string \<Rightarrow> pyval \<Rightarrow> bool res" where
  "ack_accepts rid ack =
     (if \<not> truthy ack then Inr False
      else bindR (pget ack ''revision'' PNone) (\<lambda>b.
        bindR (pget ack ''revision_id'' b) (\<lambda>rev.
          Inr (py_eq rev (PStr rid) \<and> truthy (ack_flag (as_dict ack))))))"

text \<open>The loop over the participants; it stops at the first refusal when pending is not allowed.\<close>

fun offer_runtime ::
  "bool \<Rightarrow> string \<Rightarrow> (string \<times> (files \<Rightarrow> (files \<times> pyval) res)) list \<Rightarrow> files
   \<Rightarrow> (files \<times> pydict \<times> string list) res" where
  "offer_runtime offline_is_pending rid [] fs = Inr (fs, [], [])"
| "offer_runtime offline_is_pending rid ((name, callback) # rest) fs =
     bindR (callback fs) (\<lambda>(fs1, ack).
       bindR (ack_accepts rid ack) (\<lambda>accepted.
         let entry = PDict [(''accepted'', PBool accepted), (''acknowledgement'', ack)]
         in if \<not> accepted \<and> \<not> offline_is_pending then Inr (fs1, [(name, entry)], [name])
            else bindR (offer_runtime offline_is_pending rid rest fs1) (\<lambda>(fs2, results, pending).
                   Inr (fs2, (name, entry) # results, (if accepted then [] else [name]) @ pending))))"

definition transaction_error :: "bool \<Rightarrow> bool \<Rightarrow> string list \<Rightarrow> pyval" where
  "transaction_error committable offline_is_pending pending =
     (if committable then PNone
      else PDict [(''code'', PStr (if offline_is_pending then ''RUNTIME_ACKNOWLEDGEMENTS_PENDING''
                                   else ''RUNTIME_ACKNOWLEDGEMENT_FAILED'')),
                  (''message'', PStr ''Required runtime participants have not acknowledged the same revision and hashes.''),
                  (''pending_participants'', PList (map PStr pending))])"

definition runtime_apply ::
  "env \<Rightarrow> files \<Rightarrow> runtime_world \<Rightarrow> pydict \<Rightarrow> bool \<Rightarrow> (files \<times> pydict) res" where
  "runtime_apply w fs rw r offline_is_pending =
     bindR (dget_item r ''revision_id'') (\<lambda>rid_value.
       let rid = py_str rid_value
       in bindR (offer_runtime offline_is_pending rid
                   [(''ros'', \<lambda>fs. apply_ros w fs r rid (rw_ros_polls rw)),
                    (''sionna'', \<lambda>fs. apply_sionna w fs r rid (rw_sionna rw)),
                    (''isaac'', \<lambda>fs. apply_isaac w fs r rid (rw_isaac_polls rw))] fs)
            (\<lambda>(fs1, results, pending).
              bindR (mgr_read fs1 rid) (\<lambda>v. bindR (pitems v) (\<lambda>current.
                bindR (all_required_acknowledged current) (\<lambda>committable.
                  bindR (mgr_status fs1 rid) (\<lambda>(fs2, status).
                    let transaction =
                      [(''revision_id'', PStr rid), (''committable'', PBool committable),
                       (''pending'', PList (map PStr pending)), (''participants'', PDict results),
                       (''synchronization'', PDict status),
                       (''error'', transaction_error committable offline_is_pending pending)]
                    in bindR (write_json fs2 transaction_file (PDict transaction)) (\<lambda>fs3.
                         Inr (fs3, transaction))))))))"

definition runtime_reconcile ::
  "env \<Rightarrow> files \<Rightarrow> runtime_world \<Rightarrow> string \<Rightarrow> (files \<times> pydict) res" where
  "runtime_reconcile w fs rw revision_id =
     bindR (if revision_id \<noteq> [] then Inr revision_id
            else bindR (pget (mgr_desired fs) ''revision_id'' (PStr '''')) (\<lambda>v. Inr (py_str v))) (\<lambda>rid.
       if rid = []
       then Inr (fs, [(''revision_id'', PStr ''''), (''committable'', PBool False), (''pending'', PList []),
                      (''error'', PDict [(''code'', PStr ''NO_DESIRED_REVISION''),
                                         (''message'', PStr ''No desired revision exists.'')])])
       else bindR (mgr_read fs rid) (\<lambda>v. bindR (pitems v) (\<lambda>r. runtime_apply w fs rw r True)))"

end
