(* ===== verification/Runtime_Props.thy ===== *)
theory Runtime_Props
  imports Runtime_Sync
begin

text \<open>
  Properties of the revision manager and of the runtime transaction. The contract of the three
  participant callbacks is the locale \<open>runtime_participant\<close>: a callback keeps the revision record,
  leaves the other participants' entries as they were, and makes its own entry a matching
  acknowledgement only when the answer it returns is one.
\<close>

section \<open>Commit\<close>

text \<open>A participant's entry acknowledges the record: its state, its revision and every expected hash.\<close>

definition entry_complete :: "pydict \<Rightarrow> pyval \<Rightarrow> bool" where
  "entry_complete r name \<longleftrightarrow>
     (\<exists>p expected observed. participant_of r name = Inr (PDict p)
        \<and> dget p ''state'' PNone = PStr (participant_state_value PT_ACKNOWLEDGED)
        \<and> py_eq (dget p ''observed_revision'' PNone) (dget r ''revision_id'' PNone)
        \<and> py_or (dget r ''hashes'' PNone) (PDict []) = PDict expected
        \<and> py_or (dget p ''observed_hashes'' PNone) (PDict []) = observed
        \<and> hashes_agree expected observed = Inr True)"

lemma participant_acknowledged_True:
  "participant_acknowledged r name = Inr True \<longleftrightarrow> entry_complete r name"
proof (cases "participant_of r name")
  case (Inl e)
  then show ?thesis by (simp add: participant_acknowledged_def entry_complete_def)
next
  case (Inr p)
  show ?thesis
  proof (cases p)
    case (PDict d)
    with Inr show ?thesis
      by (auto simp: participant_acknowledged_def entry_complete_def pget_def pitems_def bindR_Inr_iff
          py_eq_PStr_right split: if_splits pyval.splits)
  qed (use Inr in \<open>auto simp: participant_acknowledged_def entry_complete_def pget_def bindR_Inr_iff\<close>)
qed

lemma all_acknowledged_True:
  "all_acknowledged r names = Inr True \<longleftrightarrow> (\<forall>n\<in>set names. entry_complete r n)"
proof (induction names)
  case Nil
  then show ?case by simp
next
  case (Cons n names)
  have "all_acknowledged r (n # names) = Inr True \<longleftrightarrow>
      participant_acknowledged r n = Inr True \<and> all_acknowledged r names = Inr True"
    by (auto simp: bindR_Inr_iff split: if_splits)
  with Cons participant_acknowledged_True show ?case by simp
qed

lemma all_required_True:
  "all_required_acknowledged r = Inr True \<longleftrightarrow>
     (\<exists>names. required_of r = Inr names \<and> (\<forall>n\<in>set names. entry_complete r n))"
  by (auto simp: all_required_acknowledged_def bindR_Inr_iff all_acknowledged_True)

lemma hashes_agree_True:
  "hashes_agree expected observed = Inr True \<longleftrightarrow>
     expected = [] \<or> (\<exists>ob. observed = PDict ob \<and> (\<forall>(k, v)\<in>set expected. py_eq (dget ob k PNone) v))"
proof (induction expected)
  case Nil
  then show ?case by simp
next
  case (Cons x expected)
  obtain k v where x: "x = (k, v)" by (cases x)
  have "hashes_agree (x # expected) observed = Inr True \<longleftrightarrow>
      (\<exists>ob. observed = PDict ob \<and> py_eq (dget ob k PNone) v) \<and> hashes_agree expected observed = Inr True"
    by (auto simp: x bindR_Inr_iff pget_def split: if_splits pyval.splits)
  with Cons x show ?case by auto
qed

section \<open>The record of a revision on disk\<close>

text \<open>
  The file of revision \<open>rid\<close> holds record \<open>r\<close>, whose hashes are the strings \<open>h\<close> and whose
  participant table is \<open>ps\<close>.
\<close>

definition rec_at :: "files \<Rightarrow> string \<Rightarrow> pydict \<Rightarrow> pydict \<Rightarrow> bool" where
  "rec_at fs rid h ps \<longleftrightarrow>
     (\<exists>r. fs (mgr_path rid) = Some (PDict r) \<and> map_of r ''revision_id'' = Some (PStr rid)
        \<and> map_of r ''participants'' = Some (PDict ps)
        \<and> (\<exists>d. map_of r ''hashes'' = Some (PDict d) \<and> map_of d = map_of h)
        \<and> map_of r ''required_participants'' = Some (PList (map PStr required_names)))"

definition string_hashes :: "pydict \<Rightarrow> bool" where
  "string_hashes h \<longleftrightarrow> (\<forall>(k, v)\<in>set h. \<exists>s. v = PStr s)"

definition shows_hashes :: "pydict \<Rightarrow> pyval \<Rightarrow> bool" where
  "shows_hashes h observed \<longleftrightarrow> (\<forall>k v. map_of h k = Some v \<longrightarrow> dget (as_dict observed) k PNone = v)"

text \<open>A participant's entry in the table acknowledges revision \<open>rid\<close> with the hashes \<open>h\<close>.\<close>

definition table_ack :: "string \<Rightarrow> pydict \<Rightarrow> pydict \<Rightarrow> string \<Rightarrow> bool" where
  "table_ack rid h ps name \<longleftrightarrow>
     (\<exists>p. map_of ps name = Some (PDict p)
        \<and> dget p ''state'' PNone = PStr (participant_state_value PT_ACKNOWLEDGED)
        \<and> dget p ''observed_revision'' PNone = PStr rid
        \<and> shows_hashes h (dget p ''observed_hashes'' PNone))"

text \<open>An answer acknowledges revision \<open>rid\<close> with the hashes \<open>h\<close>.\<close>

definition ack_matches :: "string \<Rightarrow> pydict \<Rightarrow> pydict \<Rightarrow> bool" where
  "ack_matches rid h a \<longleftrightarrow>
     truthy (ack_flag a)
     \<and> py_str (py_or (py_or (dget a ''revision_id'' PNone) (dget a ''revision'' PNone)) (PStr '''')) = rid
     \<and> shows_hashes h (py_or (py_or (py_or (dget a ''observed_hashes'' PNone) (dget a ''applied_hashes'' PNone))
                     (dget a ''hashes'' PNone)) (PDict []))"

lemma dget_norm_PStr: "dget (as_dict (json_norm (PDict p))) k PNone = PStr s \<longleftrightarrow> dget p k PNone = PStr s"
  unfolding json_norm_dget by (simp add: dget_def split: option.splits)

lemma string_hash: "string_hashes h \<Longrightarrow> map_of h k = Some v \<Longrightarrow> \<exists>s. v = PStr s"
  by (auto simp: string_hashes_def dest!: map_of_SomeD)

lemma as_dict_norm: "as_dict (json_norm v) = as_dict (json_norm (PDict (as_dict v)))"
  by (cases v) auto

lemma shows_hashes_norm:
  assumes "string_hashes h"
  shows "shows_hashes h (json_norm v) \<longleftrightarrow> shows_hashes h v"
proof -
  have "dget (as_dict (json_norm v)) k PNone = x \<longleftrightarrow> dget (as_dict v) k PNone = x" if "map_of h k = Some x" for k x
  proof -
    from string_hash [OF assms that] obtain s where "x = PStr s" by blast
    then show ?thesis unfolding as_dict_norm [of v] by (simp add: dget_norm_PStr del: json_norm.simps)
  qed
  then show ?thesis unfolding shows_hashes_def by blast
qed

lemma table_ack_norm:
  assumes "string_hashes h"
  shows "table_ack rid h (as_dict (json_norm (PDict ps))) n \<longleftrightarrow> table_ack rid h ps n"
proof -
  have "shows_hashes h (dget (as_dict (json_norm (PDict p))) k PNone) \<longleftrightarrow> shows_hashes h (dget p k PNone)" for p k
    unfolding json_norm_dget using shows_hashes_norm [OF assms] by (simp add: dget_def split: option.splits)
  then show ?thesis
    unfolding table_ack_def json_norm_dict_lookup
    by (auto simp: json_norm_PDict_iff dget_norm_PStr simp del: json_norm.simps)
qed

lemma table_ack_other: "n \<noteq> m \<Longrightarrow> table_ack rid h (dset m x ps) n \<longleftrightarrow> table_ack rid h ps n"
  by (simp add: table_ack_def)

lemma entry_complete_table:
  assumes "entry_complete r (PStr name)" and "string_hashes h"
    and "map_of r ''revision_id'' = Some (PStr rid)" and "map_of r ''participants'' = Some (PDict ps)"
    and d: "map_of r ''hashes'' = Some (PDict d)" "map_of d = map_of h"
  shows "table_ack rid h ps name"
proof -
  from assms(1) obtain p expected observed where
    p: "participant_of r (PStr name) = Inr (PDict p)"
    and st: "dget p ''state'' PNone = PStr (participant_state_value PT_ACKNOWLEDGED)"
    and rev: "py_eq (dget p ''observed_revision'' PNone) (dget r ''revision_id'' PNone)"
    and ex: "py_or (dget r ''hashes'' PNone) (PDict []) = PDict expected"
    and ob: "py_or (dget p ''observed_hashes'' PNone) (PDict []) = observed"
    and agree: "hashes_agree expected observed = Inr True"
    unfolding entry_complete_def by blast
  from p st assms(4) have "map_of ps name = Some (PDict p)"
    by (auto simp: participant_of_def pget_any_def py_or_def dget_def bindR_Inr_iff split: option.splits if_splits)
  moreover from rev assms(3) have "dget p ''observed_revision'' PNone = PStr rid"
    by (simp add: dget_def py_eq_PStr_right)
  moreover from ex d(1) have expected: "expected = d" by (auto simp: dget_def py_or_def split: if_splits)
  have "shows_hashes h (dget p ''observed_hashes'' PNone)"
    unfolding shows_hashes_def
  proof (intro allI impI)
    fix k v assume kv: "map_of h k = Some v"
    then have "(k, v) \<in> set expected" using d(2) expected by (metis map_of_SomeD)
    with agree hashes_agree_True obtain o' where o': "observed = PDict o'" "py_eq (dget o' k PNone) v" by fastforce
    with string_hash [OF assms(2) kv] have "dget o' k PNone = v" "o' \<noteq> []" by (auto simp: py_eq_PStr_right)
    with ob o'(1) show "dget (as_dict (dget p ''observed_hashes'' PNone)) k PNone = v"
      by (auto simp: py_or_def split: if_splits)
  qed
  ultimately show ?thesis using st unfolding table_ack_def by blast
qed

section \<open>Records that can be written\<close>

lemma write_json_ok: "json_ok v \<Longrightarrow> write_json fs p v = Inr (fs(p \<mapsto> json_norm v))"
  by (simp add: write_json_def)

lemma write_reconciliation_ok:
  assumes "json_ok (PDict r)" and "is_finite (env_now w)"
  shows "\<exists>v. write_reconciliation w fs r = Inr (fs(reconciliation_file \<mapsto> v))"
proof -
  have "json_ok (dget r k v)" if "json_ok v" for k v using assms(1) that by (rule json_ok_dget)
  with assms(2) show ?thesis
    unfolding write_reconciliation_def
    by (simp add: write_json_def del: json_norm.simps) (rule exI, rule refl)
qed

lemma mgr_write_ok:
  assumes "json_ok (PDict r)" and "is_finite (env_now w)" and "map_of r ''revision_id'' = Some (PStr rid)"
  shows "mgr_write w fs r = Inr (fs(mgr_path rid \<mapsto> json_norm (PDict (dset ''updated_at'' (PFloat (env_now w)) r))),
      dset ''updated_at'' (PFloat (env_now w)) r)"
proof -
  have "json_ok (PDict (dset ''updated_at'' (PFloat (env_now w)) r))"
    by (rule json_ok_dset) (use assms in simp_all)
  with assms(3) show ?thesis
    by (simp add: mgr_write_def Let_def dget_item_def write_json_ok del: json_norm.simps json_ok.simps(3))
qed

text \<open>The paths of the manager are different files.\<close>

lemma paths_distinct:
  "mgr_path rid \<noteq> reconciliation_file" "mgr_path rid \<noteq> desired_revision_file"
  "mgr_path rid \<noteq> committed_revision_file" "mgr_path rid \<noteq> ros_ack_file"
  "mgr_path rid \<noteq> sionna_ack_file" "mgr_path rid \<noteq> isaac_ack_file"
  "mgr_path rid \<noteq> ros_request_file" "mgr_path rid \<noteq> isaac_request_file"
  "mgr_path rid \<noteq> candidate_file rd" "mgr_path rid \<noteq> isaac_signal_file"
  "mgr_path rid \<noteq> transaction_file"
  "committed_revision_file \<noteq> reconciliation_file" "desired_revision_file \<noteq> reconciliation_file"
  "committed_revision_file \<noteq> desired_revision_file"
  "ros_ack_file \<noteq> reconciliation_file" "sionna_ack_file \<noteq> reconciliation_file"
  "isaac_ack_file \<noteq> reconciliation_file"
  by (simp_all add: mgr_path_def revisions_dir_def reconciliation_file_def desired_revision_file_def
      committed_revision_file_def ros_ack_file_def sionna_ack_file_def isaac_ack_file_def
      ros_request_file_def isaac_request_file_def candidate_file_def isaac_signal_file_def
      transaction_file_def shared_dir_def results_dir_def)

definition committed_record :: "env \<Rightarrow> pydict \<Rightarrow> pydict" where
  "committed_record w r =
     dset ''updated_at'' (PFloat (env_now w)) (dset ''state'' (PStr ''IN_SYNC'') (dset ''phase'' (PStr ''COMMITTED'') r))"

lemma mgr_commit_accepted:
  assumes r: "mgr_read fs rid = Inr (PDict r)" and id: "map_of r ''revision_id'' = Some (PStr rid)"
    and ok: "json_ok (PDict r)" and now: "is_finite (env_now w)"
    and ack: "all_required_acknowledged r = Inr True"
  shows "\<exists>fs'. mgr_commit w fs rid = Inr (fs', committed_record w r)
    \<and> fs' (mgr_path rid) = Some (json_norm (PDict (committed_record w r)))
    \<and> fs' committed_revision_file = Some (json_norm (PDict (committed_record w r)))
    \<and> fs' desired_revision_file = Some (json_norm (PDict (committed_record w r)))"
proof -
  let ?r1 = "dset ''state'' (PStr ''IN_SYNC'') (dset ''phase'' (PStr ''COMMITTED'') r)"
  let ?c = "committed_record w r"
  have ok1: "json_ok (PDict ?r1)" using ok by (intro json_ok_dset) simp_all
  have okc: "json_ok (PDict ?c)"
    unfolding committed_record_def by (rule json_ok_dset) (use ok1 now in simp_all)
  have wr: "mgr_write w fs ?r1 = Inr (fs(mgr_path rid \<mapsto> json_norm (PDict ?c)), ?c)"
    unfolding committed_record_def by (rule mgr_write_ok) (use ok1 now id in simp_all)
  let ?f = "fs(mgr_path rid \<mapsto> json_norm (PDict ?c), committed_revision_file \<mapsto> json_norm (PDict ?c),
             desired_revision_file \<mapsto> json_norm (PDict ?c))"
  obtain v where rec: "write_reconciliation w ?f ?c = Inr (?f(reconciliation_file \<mapsto> v))"
    using write_reconciliation_ok [OF okc now] by blast
  have "mgr_commit w fs rid = Inr (?f(reconciliation_file \<mapsto> v), ?c)"
    by (simp add: mgr_commit_def r pitems_def ack wr write_json_ok [OF okc] rec
        del: json_norm.simps json_ok.simps(3))
  then show ?thesis by (simp add: paths_distinct del: json_norm.simps)
qed

lemma mgr_commit_refused:
  assumes "mgr_read fs rid = Inr (PDict r)" and "all_required_acknowledged r \<noteq> Inr True"
  shows "\<exists>e. mgr_commit w fs rid = Inl e"
  using assms by (cases "all_required_acknowledged r") (auto simp: mgr_commit_def pitems_def)

text \<open>C24: the manager commits a stored revision exactly when every required participant's entry
  acknowledges this revision with all of its hashes; then the committed, the desired and the
  revision file hold the record in phase COMMITTED, otherwise \<open>commit\<close> raises.\<close>

theorem mgr_commit_iff:
  assumes "mgr_read fs rid = Inr (PDict r)" and "map_of r ''revision_id'' = Some (PStr rid)"
    and "json_ok (PDict r)" and "is_finite (env_now w)"
  shows "if \<exists>names. required_of r = Inr names \<and> (\<forall>n\<in>set names. entry_complete r n)
    then \<exists>fs'. mgr_commit w fs rid = Inr (fs', committed_record w r)
      \<and> fs' (mgr_path rid) = Some (json_norm (PDict (committed_record w r)))
      \<and> fs' committed_revision_file = Some (json_norm (PDict (committed_record w r)))
      \<and> fs' desired_revision_file = Some (json_norm (PDict (committed_record w r)))
    else \<exists>e. mgr_commit w fs rid = Inl e"
  using mgr_commit_accepted [OF assms] mgr_commit_refused [OF assms(1)] all_required_True
  by presburger

definition demo_ack :: pyval where
  "demo_ack = PDict [(''state'', PStr ''ACKNOWLEDGED''), (''observed_revision'', PStr ''7''),
     (''observed_hashes'', PDict [(''world_hash'', PStr ''a'')])]"

definition demo_record :: "pyval \<Rightarrow> pyval \<Rightarrow> pydict" where
  "demo_record ros isaac =
     [(''revision_id'', PStr ''7''), (''phase'', PStr ''DRAFT_SAVED''), (''state'', PStr ''PENDING_ROS''),
      (''hashes'', PDict [(''world_hash'', PStr ''a'')]),
      (''required_participants'', PList [PStr ''ros'', PStr ''isaac'']),
      (''participants'', PDict [(''ros'', ros), (''isaac'', isaac)])]"

definition demo_files :: "pyval \<Rightarrow> pyval \<Rightarrow> files" where
  "demo_files ros isaac = [mgr_path ''7'' \<mapsto> PDict (demo_record ros isaac)]"

lemma demo_read: "mgr_read (demo_files ros isaac) ''7'' = Inr (PDict (demo_record ros isaac))"
  by (simp add: mgr_read_def read_or_empty_def read_json_def demo_files_def demo_record_def py_or_def)

lemma mgr_commit_iff_witness:
  "(\<exists>fs'. mgr_commit \<lparr>env_now = Fin 5, env_uuid = 0\<rparr> (demo_files demo_ack demo_ack) ''7''
      = Inr (fs', committed_record \<lparr>env_now = Fin 5, env_uuid = 0\<rparr> (demo_record demo_ack demo_ack)))
   \<and> (\<exists>e. mgr_commit \<lparr>env_now = Fin 5, env_uuid = 0\<rparr> (demo_files demo_ack (PDict [])) ''7'' = Inl e)"
proof -
  let ?w = "\<lparr>env_now = Fin 5, env_uuid = 0\<rparr>"
  have yes: "all_required_acknowledged (demo_record demo_ack demo_ack) = Inr True" by code_simp
  have no: "all_required_acknowledged (demo_record demo_ack (PDict [])) = Inr False" by code_simp
  have pre: "map_of (demo_record ros isaac) ''revision_id'' = Some (PStr ''7'')" for ros isaac
    by (simp add: demo_record_def)
  have ok: "json_ok (PDict (demo_record demo_ack demo_ack))" "json_ok (PDict (demo_record demo_ack (PDict [])))"
    by (simp_all add: demo_record_def demo_ack_def)
  have fin: "is_finite (env_now ?w)" by simp
  show ?thesis
    using mgr_commit_iff [OF demo_read pre ok(1) fin] mgr_commit_iff [OF demo_read pre ok(2) fin]
      all_required_True [of "demo_record demo_ack demo_ack"]
      all_required_True [of "demo_record demo_ack (PDict [])"] yes no
    by (auto split: if_splits)
qed

section \<open>Status\<close>

text \<open>What a clean acknowledgement file looks like to \<open>status\<close>.\<close>

definition ack_hashes :: "pydict \<Rightarrow> pyval" where
  "ack_hashes a =
     py_or (py_or (py_or (dget a ''applied_hashes'' PNone) (dget a ''observed_hashes'' PNone))
              (dget a ''hashes'' PNone)) (PDict [])"

definition ack_clean :: "pydict \<Rightarrow> pydict \<Rightarrow> bool" where
  "ack_clean r a \<longleftrightarrow>
     (let rev = py_str (py_or (py_or (dget a ''revision_id'' PNone) (dget a ''revision'' PNone)) (PStr ''''))
      in rev = [] \<or> rev = py_str (dget r ''revision_id'' (PStr '''')))
     \<and> (\<forall>(k, v)\<in>set (as_dict (py_or (dget r ''hashes'' PNone) (PDict []))).
          \<exists>x. observed_at (ack_hashes a) k = Inr (Some x) \<and> py_eq x v)"

lemma dset_not_Nil [simp]: "dset k v d \<noteq> []"
  unfolding dset_def by (cases d) auto

lemma drift_hashes_Nil:
  "drift_hashes observed items out = Inr mm \<Longrightarrow> (mm = [] \<longrightarrow> out = [] \<and>
     (\<forall>(k, v)\<in>set items. \<exists>x. observed_at observed k = Inr (Some x) \<and> py_eq x v))"
proof (induction items arbitrary: out)
  case Nil
  then show ?case by simp
next
  case (Cons p items)
  obtain k v where p: "p = (k, v)" by (cases p)
  from Cons.prems p obtain seen where seen: "observed_at observed k = Inr seen"
    by (auto simp: bindR_Inr_iff)
  from Cons.prems p seen Cons.IH show ?case
    by (cases seen) (fastforce split: if_splits)+
qed

lemma ack_drift_clean:
  assumes "ack_drift r a = Inr d" and "\<not> truthy (dget d ''revision_mismatch'' PNone)"
    and "\<not> truthy (dget d ''hash_mismatches'' PNone)"
  shows "ack_clean r a"
proof -
  from assms(1) obtain items mm where
    items: "pitems (py_or (dget r ''hashes'' PNone) (PDict [])) = Inr items"
    and mm: "drift_hashes (ack_hashes a) items [] = Inr mm"
    and d: "dget d ''hash_mismatches'' PNone = PDict mm"
      "dget d ''revision_mismatch'' PNone = PBool
         (let rev = py_str (py_or (py_or (dget a ''revision_id'' PNone) (dget a ''revision'' PNone)) (PStr ''''))
          in rev \<noteq> [] \<and> rev \<noteq> py_str (dget r ''revision_id'' (PStr '''')))"
    unfolding ack_drift_def Let_def ack_hashes_def by (auto simp: bindR_Inr_iff)
  have "items = as_dict (py_or (dget r ''hashes'' PNone) (PDict []))"
    using items by (auto simp: pitems_def split: pyval.splits)
  moreover have "mm = []" using assms(3) d(1) by simp
  ultimately show ?thesis
    using drift_hashes_Nil [OF mm] assms(2) d(2) unfolding ack_clean_def by (auto simp: Let_def)
qed

lemma drift_of_Nil:
  assumes "drift_of fs r (name, path) out = Inr out'" and "out' = []"
  shows "out = [] \<and> (\<forall>a. read_or_empty fs path = PDict a \<longrightarrow> a = [] \<or> ack_clean r a)"
proof (cases "truthy (read_or_empty fs path)")
  case False
  with assms show ?thesis by (auto simp: drift_of_def)
next
  case True
  with assms(1) obtain a d where a: "read_or_empty fs path = PDict a" and d: "ack_drift r a = Inr d"
    and out: "out' = (if truthy (dget d ''revision_mismatch'' PNone) \<or> truthy (dget d ''hash_mismatches'' PNone)
      then dset name (PDict d) out else out)"
    by (auto simp: drift_of_def bindR_Inr_iff pitems_def split: pyval.splits if_splits)
  from out assms(2) have "\<not> truthy (dget d ''revision_mismatch'' PNone)"
    "\<not> truthy (dget d ''hash_mismatches'' PNone)" "out = []"
    using dset_not_Nil [of name "PDict d" out, THEN not_sym] by (auto split: if_splits)
  with ack_drift_clean [OF d] a show ?thesis by simp
qed

lemma drift_fold_Nil:
  "foldR (drift_of fs r) xs out = Inr [] \<Longrightarrow> out = [] \<and>
     (\<forall>(name, path)\<in>set xs. \<forall>a. read_or_empty fs path = PDict a \<longrightarrow> a = [] \<or> ack_clean r a)"
proof (induction xs arbitrary: out)
  case Nil
  then show ?case by simp
next
  case (Cons x xs)
  obtain name path where x: "x = (name, path)" by (cases x)
  from Cons.prems obtain out1 where one: "drift_of fs r (name, path) out = Inr out1"
    and rest: "foldR (drift_of fs r) xs out1 = Inr []"
    by (auto simp: x bindR_Inr_iff)
  from Cons.IH [OF rest] have "out1 = []" "\<forall>(name, path)\<in>set xs. \<forall>a. read_or_empty fs path = PDict a \<longrightarrow> a = [] \<or> ack_clean r a"
    by blast+
  with drift_of_Nil [OF one] x show ?case by simp
qed

lemma mgr_status_of_record:
  "rid \<noteq> [] \<Longrightarrow> mgr_read fs rid = Inr (PDict r) \<Longrightarrow> mgr_status fs rid = status_of_record fs r"
  by (auto simp: mgr_status_def mgr_read_def pitems_def Let_def split: if_splits)

text \<open>C26: when the status of a stored revision is \<open>in_sync\<close>, no acknowledgement file on disk drifts from the
  record (each names this revision or none, and shows every expected hash), and either the
  record is committed with every required participant complete, or its own state field says
  IN_SYNC.\<close>

theorem status_in_sync_no_drift:
  assumes "mgr_read fs rid = Inr (PDict r)" and "rid \<noteq> []"
    and "mgr_status fs rid = Inr (fs', d)" and "dget d ''in_sync'' PNone = PBool True"
  shows "(\<forall>(name, path)\<in>set ack_files. \<forall>a. read_or_empty fs path = PDict a \<longrightarrow> a = [] \<or> ack_clean r a)
    \<and> (py_eq (dget r ''phase'' PNone) (PStr ''COMMITTED'') \<and> all_required_acknowledged r = Inr True
       \<or> py_str (py_or (py_or (dget r ''state'' PNone) (dget r ''phase'' PNone)) (PStr ''PENDING_ROS'')) = ''IN_SYNC'')"
proof -
  from assms(3) have "status_of_record fs r = Inr (fs', d)"
    using mgr_status_of_record [OF assms(2,1)] by simp
  then obtain names pending drift st where
    drift: "foldR (drift_of fs r) ack_files [] = Inr drift"
    and st: "status_state r drift pending = Inr st"
    and d: "dget d ''in_sync'' PNone = PBool (st = ''IN_SYNC'')"
    unfolding status_of_record_def Let_def by (auto simp: bindR_Inr_iff)
  from d assms(4) st have "drift = []" "py_eq (dget r ''phase'' PNone) (PStr ''COMMITTED'') \<and> all_required_acknowledged r = Inr True
       \<or> py_str (py_or (py_or (dget r ''state'' PNone) (dget r ''phase'' PNone)) (PStr ''PENDING_ROS'')) = ''IN_SYNC''"
    by (auto simp: status_state_def Let_def bindR_Inr_iff split: if_splits)
  with drift drift_fold_Nil [of fs r ack_files "[]"] show ?thesis by simp
qed

text \<open>A record in phase COMMITTED with both entries complete, and a ROS acknowledgement that agrees.\<close>

definition demo_status_files :: files where
  "demo_status_files = [mgr_path ''7'' \<mapsto> PDict (dset ''phase'' (PStr ''COMMITTED'') (demo_record demo_ack demo_ack)),
     ros_ack_file \<mapsto> PDict [(''revision_id'', PStr ''7''), (''hashes'', PDict [(''world_hash'', PStr ''a'')])]]"

lemma status_in_sync_no_drift_witness:
  "\<exists>a. read_or_empty demo_status_files ros_ack_file = PDict a \<and> a \<noteq> []
     \<and> ack_clean (dset ''phase'' (PStr ''COMMITTED'') (demo_record demo_ack demo_ack)) a"
proof -
  let ?r = "dset ''phase'' (PStr ''COMMITTED'') (demo_record demo_ack demo_ack)"
  let ?a = "[(''revision_id'', PStr ''7''), (''hashes'', PDict [(''world_hash'', PStr ''a'')])]"
  have read: "mgr_read demo_status_files ''7'' = Inr (PDict ?r)"
    by (simp add: mgr_read_def read_or_empty_def read_json_def demo_status_files_def demo_record_def py_or_def
        paths_distinct)
  have ack: "read_or_empty demo_status_files ros_ack_file = PDict ?a"
    by (simp add: read_or_empty_def read_json_def demo_status_files_def py_or_def)
  have "case mgr_status demo_status_files ''7'' of Inl _ \<Rightarrow> False | Inr (_, d) \<Rightarrow> dget d ''in_sync'' PNone = PBool True"
    by code_simp
  then obtain fs' d where run: "mgr_status demo_status_files ''7'' = Inr (fs', d)"
    and sync: "dget d ''in_sync'' PNone = PBool True" by (auto split: sum.splits)
  from status_in_sync_no_drift [OF read _ run sync] ack show ?thesis
    by (auto simp: ack_files_def)
qed

text \<open>
  The state field is set by the last acknowledgement alone: an Isaac acknowledgement makes the
  manager report \<open>in_sync\<close> whatever the other two participants did.
\<close>

definition no_acks :: "files \<Rightarrow> bool" where
  "no_acks fs \<longleftrightarrow> fs ros_ack_file = None \<and> fs sionna_ack_file = None \<and> fs isaac_ack_file = None"

lemma drift_without_acks: "no_acks fs \<Longrightarrow> foldR (drift_of fs r) ack_files [] = Inr []"
  by (simp add: no_acks_def ack_files_def drift_of_def read_or_empty_def read_json_def py_or_def)

lemma mark_participant_Inr:
  assumes "mark_participant w fs rid name state orev ohash msg det = Inr (fs', r')"
  shows "\<exists>r ps. mgr_read fs rid = Inr (PDict r) \<and> name \<in> set required_names
    \<and> dget r ''participants'' (PDict []) = PDict ps
    \<and> r' = advance_state name state (dset ''participants''
             (PDict (dset name (PDict (participant_entry w state orev ohash msg det)) ps)) r)
    \<and> (\<exists>fs1 r2 v. mgr_write w fs r' = Inr (fs1, r2) \<and> fs' = fs1(reconciliation_file \<mapsto> v))"
proof -
  from assms obtain v r psv fs1 r2 where
    name: "name \<in> set required_names" and v: "mgr_read fs rid = Inr v" "pitems v = Inr r"
    and ps: "pset name (PDict (participant_entry w state orev ohash msg det)) (dget r ''participants'' (PDict [])) = Inr psv"
    and r': "r' = advance_state name state (dset ''participants'' psv r)"
    and wr: "mgr_write w fs r' = Inr (fs1, r2)" and rec: "write_reconciliation w fs1 r' = Inr fs'"
    by (auto simp: mark_participant_def bindR_Inr_iff Let_def split: if_splits)
  from v have "mgr_read fs rid = Inr (PDict r)" by (auto simp: pitems_def split: pyval.splits)
  moreover from ps obtain ps0 where "dget r ''participants'' (PDict []) = PDict ps0"
    "psv = PDict (dset name (PDict (participant_entry w state orev ohash msg det)) ps0)"
    by (auto simp: pset_def split: pyval.splits)
  moreover from rec have "\<exists>v. fs' = fs1(reconciliation_file \<mapsto> v)"
    by (auto simp: write_reconciliation_def write_json_def split: if_splits)
  ultimately show ?thesis using name r' wr by blast
qed

lemma mgr_write_Inr:
  assumes "mgr_write w fs r = Inr (fs', r')" and "dget r ''revision_id'' PNone = PStr rid"
  shows "fs' = fs(mgr_path rid \<mapsto> json_norm (PDict r'))" "r' = dset ''updated_at'' (PFloat (env_now w)) r"
proof -
  from assms(2) have "map_of r ''revision_id'' = Some (PStr rid)"
    by (auto simp: dget_def split: option.splits)
  with assms(1) show "fs' = fs(mgr_path rid \<mapsto> json_norm (PDict r'))" "r' = dset ''updated_at'' (PFloat (env_now w)) r"
    by (auto simp: mgr_write_def Let_def bindR_Inr_iff dget_item_def write_json_def split: if_splits
        simp del: json_norm.simps json_ok.simps(3))
qed

lemma advance_state_dget:
  "k \<noteq> ''phase'' \<Longrightarrow> k \<noteq> ''state'' \<Longrightarrow> dget (advance_state p st r) k v = dget r k v"
  by (simp add: advance_state_def)

lemma pending_names_mem:
  assumes "pending_names r names = Inr pending" and "n \<in> set names"
    and "participant_of r n = Inr p" and "pget p ''state'' PNone = Inr st"
    and "\<not> py_eq st (PStr (participant_state_value PT_ACKNOWLEDGED))"
  shows "n \<in> set pending"
proof -
  let ?f = "\<lambda>name. bindR (participant_of r name) (\<lambda>p. bindR (pget p ''state'' PNone) (\<lambda>st.
      Inr (name, \<not> py_eq st (PStr (participant_state_value PT_ACKNOWLEDGED)))))"
  from assms(1) obtain flags where flags: "mapR ?f names = Inr flags"
    and pending: "pending = map fst (filter snd flags)"
    by (auto simp: pending_names_def bindR_Inr_iff)
  from flags assms(2) have "\<exists>y\<in>set flags. ?f n = Inr y"
    by (induction names arbitrary: flags) (auto simp: bindR_Inr_iff)
  with assms(3-5) have "(n, True) \<in> set flags" by auto
  with pending show ?thesis by force
qed

lemma mgr_read_written:
  assumes "fs (mgr_path rid) = Some (json_norm (PDict r))" and "r \<noteq> []"
  shows "mgr_read fs rid = Inr (PDict (as_dict (json_norm (PDict r))))"
  using assms by (simp add: mgr_read_def read_or_empty_def read_json_def py_or_def)

lemma no_acks_upd: "no_acks fs \<Longrightarrow> p \<notin> {ros_ack_file, sionna_ack_file, isaac_ack_file} \<Longrightarrow> no_acks (fs(p \<mapsto> v))"
  by (auto simp: no_acks_def)

text \<open>The state machine of \<open>mark_participant\<close> follows the last participant only: with no acknowledgement file
  on disk, once Isaac alone has acknowledged a revision, \<open>status\<close> reports \<open>in_sync\<close> while the ROS
  participant is listed as pending in the same report.\<close>

theorem isaac_alone_in_sync:
  assumes mark: "mark_participant w fs rid ''isaac'' ''ACKNOWLEDGED'' rid h msg det = Inr (fs', r')"
    and read: "mgr_read fs rid = Inr (PDict r)" and rid: "rid \<noteq> []" "dget r ''revision_id'' PNone = PStr rid"
    and req: "dget r ''required_participants'' PNone = PList (map PStr names)" "''ros'' \<in> set names"
    and ros: "dget r ''participants'' (PDict []) = PDict ps" "map_of ps ''ros'' = Some (PDict p)"
      "dget p ''state'' PNone = PStr ''PENDING''"
    and acks: "no_acks fs"
    and st: "mgr_status fs' rid = Inr (fs2, d)"
  shows "dget d ''in_sync'' PNone = PBool True
    \<and> PStr ''ros'' \<in> set (as_list (dget d ''pending_participants'' PNone))"
proof -
  let ?ps = "dset ''isaac'' (PDict (participant_entry w ''ACKNOWLEDGED'' rid h msg det)) ps"
  from mark_participant_Inr [OF mark] read ros(1) obtain fs1 r2 v where
    r': "r' = advance_state ''isaac'' ''ACKNOWLEDGED'' (dset ''participants'' (PDict ?ps) r)"
    and wr: "mgr_write w fs r' = Inr (fs1, r2)" and fs': "fs' = fs1(reconciliation_file \<mapsto> v)" by auto
  have "dget r' ''revision_id'' PNone = PStr rid" by (simp add: r' advance_state_dget rid(2))
  note w = mgr_write_Inr [OF wr this]
  let ?n = "as_dict (json_norm (PDict r2))"
  have stored: "fs' (mgr_path rid) = Some (json_norm (PDict r2))"
    by (simp add: fs' w(1) paths_distinct del: json_norm.simps)
  have read': "mgr_read fs' rid = Inr (PDict ?n)"
    by (rule mgr_read_written [where fs = fs' and rid = rid and r = r2, OF stored]) (simp add: w(2))
  have "no_acks fs'"
    unfolding fs' w(1) using acks paths_distinct [THEN not_sym]
    by (intro no_acks_upd) (auto simp: paths_distinct)
  note drift = drift_without_acks [OF this]
  have n_state: "dget ?n ''state'' PNone = PStr ''IN_SYNC''"
    unfolding json_norm_dget by (simp add: w(2) r' advance_state_def next_state_def)
  have n_req: "dget ?n ''required_participants'' PNone = PList (map PStr names)"
    using req(1) unfolding json_norm_dget
    by (auto simp: w(2) r' advance_state_def dget_def o_def split: option.splits)
  have n_parts: "dget ?n ''participants'' PNone = json_norm (PDict ?ps)"
    unfolding json_norm_dget by (simp add: w(2) r' advance_state_def del: json_norm.simps)
  obtain q where q: "json_norm (PDict ?ps) = PDict q" by simp
  have "dget (as_dict (json_norm (PDict ?ps))) ''ros'' PNone = json_norm (PDict p)"
    unfolding json_norm_dget by (simp add: ros(2) del: json_norm.simps)
  then have q_ros: "dget q ''ros'' PNone = json_norm (PDict p)" by (simp add: q del: json_norm.simps)
  have p_ne: "p \<noteq> []" using ros(3) by auto
  have q_ne: "q \<noteq> []" using q_ros by auto
  have part: "participant_of ?n (PStr ''ros'') = Inr (json_norm (PDict p))"
    unfolding participant_of_def n_parts q using q_ne q_ros p_ne by (simp add: py_or_def pget_any_def)
  have "dget (as_dict (json_norm (PDict p))) ''state'' PNone = PStr ''PENDING''"
    unfolding json_norm_dget using ros(3) by (auto simp: dget_def split: option.splits)
  then have part_state: "pget (json_norm (PDict p)) ''state'' PNone = Inr (PStr ''PENDING'')"
    by (simp add: pget_def)
  have names: "required_of ?n = Inr (map PStr names)"
    unfolding required_of_def n_req using req(2) by (auto simp: py_or_def ptuple_def)
  from st have "status_of_record fs' ?n = Inr (fs2, d)"
    using mgr_status_of_record [OF rid(1) read'] by simp
  then obtain pending state where pend: "pending_names ?n (map PStr names) = Inr pending"
    and state: "status_state ?n [] pending = Inr state"
    and d: "dget d ''in_sync'' PNone = PBool (state = ''IN_SYNC'')" "dget d ''pending_participants'' PNone = PList pending"
    unfolding status_of_record_def names drift Let_def by (auto simp: bindR_Inr_iff simp del: as_dict.simps json_norm.simps)
  have mem: "PStr ''ros'' \<in> set pending"
    by (rule pending_names_mem [OF pend _ part part_state]) (use req(2) in auto)
  have "state = ''IN_SYNC''"
    using state mem unfolding status_state_def n_state by (auto simp: Let_def py_or_def split: if_splits)
  with d mem show ?thesis by simp
qed

lemma isaac_alone_in_sync_witness:
  "\<exists>fs' r' fs2 d. mark_participant \<lparr>env_now = Fin 5, env_uuid = 0\<rparr>
       (demo_files (PDict [(''state'', PStr ''PENDING'')]) (PDict [])) ''7'' ''isaac'' ''ACKNOWLEDGED'' ''7'' [] '''' []
       = Inr (fs', r')
     \<and> mgr_status fs' ''7'' = Inr (fs2, d) \<and> dget d ''in_sync'' PNone = PBool True
     \<and> PStr ''ros'' \<in> set (as_list (dget d ''pending_participants'' PNone))"
proof -
  let ?w = "\<lparr>env_now = Fin 5, env_uuid = 0\<rparr>"
  let ?p = "[(''state'', PStr ''PENDING'')]"
  let ?fs = "demo_files (PDict ?p) (PDict [])"
  let ?m = "mark_participant ?w ?fs ''7'' ''isaac'' ''ACKNOWLEDGED'' ''7'' [] '''' []"
  have "case ?m of Inl _ \<Rightarrow> False | Inr (fs', _) \<Rightarrow> (case mgr_status fs' ''7'' of Inl _ \<Rightarrow> False | Inr _ \<Rightarrow> True)"
    by code_simp
  then obtain fs' r' fs2 d where m: "?m = Inr (fs', r')" and st: "mgr_status fs' ''7'' = Inr (fs2, d)"
    by (auto split: sum.splits)
  have acks: "no_acks ?fs" using paths_distinct [THEN not_sym] by (auto simp: no_acks_def demo_files_def)
  have "dget d ''in_sync'' PNone = PBool True \<and> PStr ''ros'' \<in> set (as_list (dget d ''pending_participants'' PNone))"
    by (rule isaac_alone_in_sync [where names = "[''ros'', ''isaac'']" and p = ?p
        and ps = "[(''ros'', PDict ?p), (''isaac'', PDict [])]", OF m demo_read _ _ _ _ _ _ _ acks st])
      (simp_all add: demo_record_def)
  with m st show ?thesis by blast
qed

section \<open>The transaction\<close>

text \<open>
  The contract of a participant callback on the record of revision \<open>rid\<close> with hashes \<open>h\<close>: the
  record stays there, the other participants' entries are untouched, and the participant's own entry
  becomes an acknowledgement only by an answer that is one.
\<close>

locale runtime_participant =
  fixes name :: string and callback :: "files \<Rightarrow> (files \<times> pyval) res"
    and rid :: string and h :: pydict
  assumes keeps_record: "string_hashes h \<Longrightarrow> rec_at fs rid h ps \<Longrightarrow> callback fs = Inr (fs', ack) \<Longrightarrow>
      \<exists>ps'. rec_at fs' rid h ps'
        \<and> (\<forall>n. table_ack rid h ps' n \<longrightarrow> table_ack rid h ps n
             \<or> (n = name \<and> (\<exists>a. ack = PDict a \<and> ack_matches rid h a)))"
begin

text \<open>A refusing participant adds no acknowledgement.\<close>

lemma refusal_adds_nothing:
  assumes "string_hashes h" and "rec_at fs rid h ps" and "callback fs = Inr (fs', ack)"
    and "\<And>a. ack = PDict a \<Longrightarrow> \<not> ack_matches rid h a"
  shows "\<exists>ps'. rec_at fs' rid h ps' \<and> (\<forall>n. table_ack rid h ps' n \<longrightarrow> table_ack rid h ps n)"
  using keeps_record [OF assms(1-3)] assms(4) by blast

text \<open>One participant among others of a transaction: what is acknowledged afterwards.\<close>

lemma offered:
  assumes "string_hashes h" and "rec_at fs rid h ps" and "callback fs = Inr (fs', ack)"
  obtains ps' where "rec_at fs' rid h ps'"
    and "\<And>n. table_ack rid h ps' n \<Longrightarrow> table_ack rid h ps n
           \<or> (n = name \<and> (\<exists>a. ack = PDict a \<and> ack_matches rid h a))"
  using keeps_record [OF assms] by blast

end

lemma rec_at_other: "rec_at fs rid h ps \<Longrightarrow> p \<noteq> mgr_path rid \<Longrightarrow> rec_at (fs(p \<mapsto> v)) rid h ps"
  by (simp add: rec_at_def)

lemma write_json_rec_at:
  "write_json fs p v = Inr fs' \<Longrightarrow> p \<noteq> mgr_path rid \<Longrightarrow> rec_at fs rid h ps \<Longrightarrow> rec_at fs' rid h ps"
  by (auto simp: write_json_def rec_at_other split: if_splits)

lemma rec_at_written:
  assumes "string_hashes h" and f: "fs (mgr_path rid) = Some (json_norm (PDict r))"
    and "map_of r ''revision_id'' = Some (PStr rid)" and ps: "map_of r ''participants'' = Some (PDict ps)"
    and d: "map_of r ''hashes'' = Some (PDict d)" "map_of d = map_of h"
    and "map_of r ''required_participants'' = Some (PList (map PStr required_names))"
  shows "rec_at fs rid h (as_dict (json_norm (PDict ps)))"
proof -
  obtain r' where r': "json_norm (PDict r) = PDict r'" by simp
  have look: "map_of r' k = map_option json_norm (map_of r k)" for k
    using json_norm_dict_lookup [of r k] by (simp add: r' del: json_norm.simps)
  have "map_of (as_dict (json_norm (PDict d))) k = map_of h k" for k
    unfolding json_norm_dict_lookup d(2) using string_hash [OF assms(1)]
    by (cases "map_of h k") fastforce+
  then have "map_of (as_dict (json_norm (PDict d))) = map_of h" by blast
  then have "\<exists>d'. map_of r' ''hashes'' = Some (PDict d') \<and> map_of d' = map_of h"
    by (simp add: look d(1))
  moreover have "map_of r' ''participants'' = Some (PDict (as_dict (json_norm (PDict ps))))"
    by (simp add: look ps)
  ultimately show ?thesis
    unfolding rec_at_def f r' by (simp add: look assms(3,7) o_def del: json_norm.simps(2))
qed

lemma mark_participant_rec_at:
  assumes h: "string_hashes h" and rec: "rec_at fs rid h ps"
    and mark: "mark_participant w fs rid name state orev ohash msg det = Inr (fs', r')"
  shows "\<exists>ps'. rec_at fs' rid h ps' \<and> (\<forall>n. table_ack rid h ps' n \<longrightarrow> table_ack rid h ps n
      \<or> (n = name \<and> state = participant_state_value PT_ACKNOWLEDGED \<and> orev = rid \<and> shows_hashes h (PDict ohash)))"
proof -
  from rec obtain r d where r: "fs (mgr_path rid) = Some (PDict r)" "map_of r ''revision_id'' = Some (PStr rid)"
    "map_of r ''participants'' = Some (PDict ps)" "map_of r ''hashes'' = Some (PDict d)" "map_of d = map_of h"
    "map_of r ''required_participants'' = Some (PList (map PStr required_names))"
    unfolding rec_at_def by blast
  let ?e = "PDict (participant_entry w state orev ohash msg det)"
  from r(2) have "r \<noteq> []" by auto
  then have "mgr_read fs rid = Inr (PDict r)" by (simp add: mgr_read_def read_or_empty_def read_json_def py_or_def r(1))
  with mark_participant_Inr [OF mark] r(3) obtain fs1 r2 v where
    r': "r' = advance_state name state (dset ''participants'' (PDict (dset name ?e ps)) r)"
    and wr: "mgr_write w fs r' = Inr (fs1, r2)" and fs': "fs' = fs1(reconciliation_file \<mapsto> v)"
    by (auto simp: dget_def)
  have "dget r' ''revision_id'' PNone = PStr rid" by (simp add: r' advance_state_dget) (simp add: dget_def r(2))
  note w = mgr_write_Inr [OF wr this]
  have r2: "map_of r2 k = (if k = ''participants'' then Some (PDict (dset name ?e ps)) else map_of r k)"
    if "k \<notin> {''phase'', ''state'', ''updated_at''}" for k
    using that by (simp add: w(2) r' advance_state_def)
  have "rec_at fs1 rid h (as_dict (json_norm (PDict (dset name ?e ps))))"
    by (rule rec_at_written [where r = r2 and d = d, OF h]) (simp_all add: w(1) r2 r del: json_norm.simps)
  then have "rec_at fs' rid h (as_dict (json_norm (PDict (dset name ?e ps))))"
    unfolding fs' by (rule rec_at_other) (simp add: paths_distinct [THEN not_sym])
  moreover have "table_ack rid h (dset name ?e ps) n \<longrightarrow> table_ack rid h ps n
      \<or> (n = name \<and> state = participant_state_value PT_ACKNOWLEDGED \<and> orev = rid \<and> shows_hashes h (PDict ohash))" for n
    by (cases "n = name") (simp_all add: table_ack_other, simp add: table_ack_def participant_entry_def)
  ultimately show ?thesis using table_ack_norm [OF h] by blast
qed

lemma mark_from_ack_rec_at:
  assumes h: "string_hashes h" and rec: "rec_at fs rid h ps"
    and mark: "mark_from_ack w fs rid name ack = Inr (fs', r')"
  shows "\<exists>ps'. rec_at fs' rid h ps' \<and> (\<forall>n. table_ack rid h ps' n \<longrightarrow> table_ack rid h ps n
      \<or> (n = name \<and> (\<exists>a. ack = PDict a \<and> ack_matches rid h a)))"
proof -
  from mark obtain a observed where a: "ack = PDict a"
    and ob: "py_or (py_or (py_or (dget a ''observed_hashes'' PNone) (dget a ''applied_hashes'' PNone))
                     (dget a ''hashes'' PNone)) (PDict []) = PDict observed"
    and m: "mark_participant w fs rid name
           (participant_state_value (if truthy (ack_flag a) then PT_ACKNOWLEDGED else PT_FAILED))
           (py_str (py_or (py_or (dget a ''revision_id'' PNone) (dget a ''revision'' PNone)) (PStr '''')))
           observed (py_str (py_or (py_or (dget a ''message'' PNone) (dget a ''error'' PNone)) (PStr '''')))
           a = Inr (fs', r')"
    unfolding mark_from_ack_def by (auto simp: bindR_Inr_iff pitems_def split: pyval.splits)
  have flag: "participant_state_value (if truthy (ack_flag a) then PT_ACKNOWLEDGED else PT_FAILED)
      = participant_state_value PT_ACKNOWLEDGED \<Longrightarrow> truthy (ack_flag a)"
    by (auto split: if_splits)
  from mark_participant_rec_at [OF h rec m] a ob flag show ?thesis
    unfolding ack_matches_def by auto
qed

lemma mark_if_rec_at:
  assumes "string_hashes h" and "rec_at fs rid h ps" and "mark_if c w fs rid name ack = Inr (fs', ack')"
  shows "ack' = ack \<and> (\<exists>ps'. rec_at fs' rid h ps' \<and> (\<forall>n. table_ack rid h ps' n \<longrightarrow> table_ack rid h ps n
      \<or> (n = name \<and> (\<exists>a. ack = PDict a \<and> ack_matches rid h a))))"
proof (cases c)
  case False
  with assms show ?thesis by (auto simp: mark_if_def)
next
  case True
  with assms(3) have "bindR (mark_from_ack w fs rid name ack) (\<lambda>(fs1, _). Inr (fs1, ack)) = Inr (fs', ack')"
    by (simp add: mark_if_def)
  then have "\<exists>r'. mark_from_ack w fs rid name ack = Inr (fs', r') \<and> ack' = ack"
    unfolding bindR_Inr_iff by (clarsimp split: prod.splits)
  then obtain r' where m: "mark_from_ack w fs rid name ack = Inr (fs', r')" and "ack' = ack" by blast
  with mark_from_ack_rec_at [OF assms(1,2) m] show ?thesis by simp
qed

lemmas request_paths = paths_distinct [THEN not_sym]

interpretation ros_part: runtime_participant "''ros''" "\<lambda>fs. apply_ros w fs r rid polls" rid h for w r rid polls h
proof
  fix fs ps fs' ack
  assume h: "string_hashes h" and rec: "rec_at fs rid h ps" and run: "apply_ros w fs r rid polls = Inr (fs', ack)"
  from run obtain payload fs1 ack0 where wr: "write_json fs ros_request_file (PDict payload) = Inr fs1"
    and m: "mark_if (truthy ack0) w fs1 rid ''ros'' ack0 = Inr (fs', ack)"
    unfolding apply_ros_def by (auto simp: bindR_Inr_iff)
  have "rec_at fs1 rid h ps" by (rule write_json_rec_at [OF wr request_paths(7) rec])
  from mark_if_rec_at [OF h this m]
  show "\<exists>ps'. rec_at fs' rid h ps' \<and> (\<forall>n. table_ack rid h ps' n \<longrightarrow> table_ack rid h ps n
       \<or> (n = ''ros'' \<and> (\<exists>a. ack = PDict a \<and> ack_matches rid h a)))" by blast
qed

interpretation sionna_part: runtime_participant "''sionna''" "\<lambda>fs. apply_sionna w fs r rid response" rid h
  for w r rid response h
proof
  fix fs ps fs' ack
  assume h: "string_hashes h" and rec: "rec_at fs rid h ps" and run: "apply_sionna w fs r rid response = Inr (fs', ack)"
  from run obtain c ack0 where m: "mark_if c w fs rid ''sionna'' ack0 = Inr (fs', ack)"
    unfolding apply_sionna_def Let_def by (auto simp: bindR_Inr_iff)
  from mark_if_rec_at [OF h rec m]
  show "\<exists>ps'. rec_at fs' rid h ps' \<and> (\<forall>n. table_ack rid h ps' n \<longrightarrow> table_ack rid h ps n
       \<or> (n = ''sionna'' \<and> (\<exists>a. ack = PDict a \<and> ack_matches rid h a)))" by blast
qed

interpretation isaac_part: runtime_participant "''isaac''" "\<lambda>fs. apply_isaac w fs r rid polls" rid h for w r rid polls h
proof
  fix fs ps fs' ack
  assume h: "string_hashes h" and rec: "rec_at fs rid h ps" and run: "apply_isaac w fs r rid polls = Inr (fs', ack)"
  from run obtain a b c fs1 fs2 fs3 ack0 where wr: "write_json fs (candidate_file rid) a = Inr fs1"
      "write_json fs1 isaac_request_file b = Inr fs2" "write_json fs2 isaac_signal_file c = Inr fs3"
    and m: "mark_if (truthy ack0) w fs3 rid ''isaac'' ack0 = Inr (fs', ack)"
    unfolding apply_isaac_def Let_def by (auto simp: bindR_Inr_iff)
  have "rec_at fs1 rid h ps" by (rule write_json_rec_at [OF wr(1) request_paths(9) rec])
  then have "rec_at fs2 rid h ps" by (rule write_json_rec_at [OF wr(2) request_paths(8)])
  then have "rec_at fs3 rid h ps" by (rule write_json_rec_at [OF wr(3) request_paths(10)])
  from mark_if_rec_at [OF h this m]
  show "\<exists>ps'. rec_at fs' rid h ps' \<and> (\<forall>n. table_ack rid h ps' n \<longrightarrow> table_ack rid h ps n
       \<or> (n = ''isaac'' \<and> (\<exists>a. ack = PDict a \<and> ack_matches rid h a)))" by blast
qed

text \<open>The loop over participants that keep the contract.\<close>

definition answered :: "string \<Rightarrow> pydict \<Rightarrow> pydict \<Rightarrow> string \<Rightarrow> bool" where
  "answered rid h results n \<longleftrightarrow>
     (\<exists>e a. (n, PDict e) \<in> set results \<and> dget e ''acknowledgement'' PNone = PDict a \<and> ack_matches rid h a)"

lemma offer_runtime_acks:
  assumes "string_hashes h" and "\<forall>(name, cb)\<in>set cbs. runtime_participant name cb rid h"
    and "rec_at fs rid h ps" and "offer_runtime off rid cbs fs = Inr (fs', results, pending)"
  shows "\<exists>ps'. rec_at fs' rid h ps' \<and> (\<forall>n. table_ack rid h ps' n \<longrightarrow> table_ack rid h ps n \<or> answered rid h results n)"
  using assms(2-4)
proof (induction cbs arbitrary: fs ps results pending)
  case Nil
  then show ?case by auto
next
  case (Cons c cbs)
  obtain name cb where c: "c = (name, cb)" by (cases c)
  from Cons.prems(3) c obtain fs1 ack acc where run: "cb fs = Inr (fs1, ack)"
    and rest: "(let entry = PDict [(''accepted'', PBool acc), (''acknowledgement'', ack)]
       in if \<not> acc \<and> \<not> off then Inr (fs1, [(name, entry)], [name])
          else bindR (offer_runtime off rid cbs fs1) (\<lambda>(fs2, results, pending).
                 Inr (fs2, (name, entry) # results, (if acc then [] else [name]) @ pending)))
       = Inr (fs', results, pending)"
    by (auto simp: bindR_Inr_iff)
  from Cons.prems(1) c have "runtime_participant name cb rid h" by simp
  from runtime_participant.offered [OF this assms(1) Cons.prems(2) run]
  obtain ps1 where ps1: "rec_at fs1 rid h ps1"
    and own: "\<And>n. table_ack rid h ps1 n \<Longrightarrow> table_ack rid h ps n
           \<or> (n = name \<and> (\<exists>a. ack = PDict a \<and> ack_matches rid h a))" by blast
  have mem: "(name, PDict [(''accepted'', PBool acc), (''acknowledgement'', ack)]) \<in> set results"
    using rest by (auto simp: Let_def bindR_Inr_iff split: if_splits)
  have own': "table_ack rid h ps n \<or> answered rid h results n" if "table_ack rid h ps1 n" for n
  proof -
    from own [OF that] consider "table_ack rid h ps n"
      | a where "n = name" "ack = PDict a" "ack_matches rid h a" by blast
    then show ?thesis
      by cases (use mem in \<open>fastforce simp: answered_def\<close>)+
  qed
  show ?case
  proof (cases "\<not> acc \<and> \<not> off")
    case True
    with rest have "fs' = fs1" by simp
    with ps1 own' show ?thesis by blast
  next
    case False
    with rest obtain results1 pending1 where r: "offer_runtime off rid cbs fs1 = Inr (fs', results1, pending1)"
      and res: "results = (name, PDict [(''accepted'', PBool acc), (''acknowledgement'', ack)]) # results1"
      by (auto simp: Let_def bindR_Inr_iff split: if_splits)
    from Cons.IH [OF _ ps1 r] Cons.prems(1) obtain ps2 where
      "rec_at fs' rid h ps2" "\<And>n. table_ack rid h ps2 n \<Longrightarrow> table_ack rid h ps1 n \<or> answered rid h results1 n"
      by auto
    moreover have "answered rid h results n" if "answered rid h results1 n" for n
      using that unfolding answered_def res by auto
    ultimately show ?thesis using own' by blast
  qed
qed

text \<open>C25: a runtime transaction on a stored revision is committable only when each of ROS, Sionna and Isaac
  either answered in this transaction with an acceptance of this very revision that shows every
  expected hash, or had already such an acknowledgement on the stored record (as when a revision is
  reconciled). A revision that nobody had acknowledged therefore needs the answers of all three.\<close>

theorem runtime_committable_needs_all:
  assumes h: "string_hashes h" and rec: "rec_at fs rid h ps"
    and id: "map_of r ''revision_id'' = Some (PStr rid)"
    and run: "runtime_apply w fs rw r off = Inr (fs', t)"
    and ok: "dget t ''committable'' PNone = PBool True"
  shows "\<forall>n\<in>set required_names. answered rid h (as_dict (dget t ''participants'' PNone)) n \<or> table_ack rid h ps n"
proof -
  let ?cbs = "[(''ros'', \<lambda>fs. apply_ros w fs r rid (rw_ros_polls rw)),
               (''sionna'', \<lambda>fs. apply_sionna w fs r rid (rw_sionna rw)),
               (''isaac'', \<lambda>fs. apply_isaac w fs r rid (rw_isaac_polls rw))]"
  from run id obtain fs1 results pending v current committable where
    offers: "offer_runtime off rid ?cbs fs = Inr (fs1, results, pending)"
    and cur: "mgr_read fs1 rid = Inr v" "pitems v = Inr current"
    and ack: "all_required_acknowledged current = Inr committable"
    and t: "dget t ''committable'' PNone = PBool committable" "dget t ''participants'' PNone = PDict results"
    unfolding runtime_apply_def Let_def
    by (auto simp: bindR_Inr_iff dget_item_def simp del: offer_runtime.simps)
  have "\<forall>(name, cb)\<in>set ?cbs. runtime_participant name cb rid h"
    by (simp add: ros_part.runtime_participant_axioms sionna_part.runtime_participant_axioms
        isaac_part.runtime_participant_axioms)
  from offer_runtime_acks [OF h this rec offers] obtain ps' where
    ps': "rec_at fs1 rid h ps'" and ans: "\<And>n. table_ack rid h ps' n \<Longrightarrow> answered rid h results n \<or> table_ack rid h ps n" by blast
  from ps' obtain c d where c: "fs1 (mgr_path rid) = Some (PDict c)" "map_of c ''revision_id'' = Some (PStr rid)"
    "map_of c ''participants'' = Some (PDict ps')" "map_of c ''hashes'' = Some (PDict d)" "map_of d = map_of h"
    "map_of c ''required_participants'' = Some (PList (map PStr required_names))"
    unfolding rec_at_def by blast
  from c(1,2) cur have "current = c"
    by (auto simp: mgr_read_def read_or_empty_def read_json_def py_or_def pitems_def split: if_splits)
  with ack t(1) ok all_required_True obtain names where
    "required_of c = Inr names" "\<forall>n\<in>set names. entry_complete c n" by auto
  moreover have "required_of c = Inr (map PStr required_names)"
    by (simp add: required_of_def dget_def c(6) py_or_def ptuple_def required_names_def)
  ultimately have "\<forall>n\<in>set required_names. entry_complete c (PStr n)" by auto
  then show ?thesis
    using entry_complete_table [OF _ h c(2,3,4,5)] ans t(2) by auto
qed

text \<open>The demonstration: Sionna acknowledged the revision earlier and its service is now unreachable.\<close>

definition demo_sionna_entry :: pyval where
  "demo_sionna_entry = PDict [(''state'', PStr ''ACKNOWLEDGED''), (''observed_revision'', PStr ''7''),
     (''observed_hashes'', PDict [(''world_hash'', PStr ''a'')])]"

definition demo_runtime_record :: pydict where
  "demo_runtime_record =
     [(''revision_id'', PStr ''7''), (''hashes'', PDict [(''world_hash'', PStr ''a'')]),
      (''config'', PDict [(''schema_version'', PStr ''v6'')]),
      (''required_participants'', PList (map PStr required_names)),
      (''participants'', PDict [(''sionna'', demo_sionna_entry)])]"

definition demo_runtime_files :: files where
  "demo_runtime_files = [mgr_path ''7'' \<mapsto> PDict demo_runtime_record]"

definition demo_runtime_ack :: pyval where
  "demo_runtime_ack = PDict [(''revision_id'', PStr ''7''), (''accepted'', PBool True),
     (''observed_hashes'', PDict [(''world_hash'', PStr ''a'')])]"

definition demo_world :: runtime_world where
  "demo_world = \<lparr>rw_ros_polls = [[None, None], [Some demo_runtime_ack, None]], rw_sionna = Inl ''unreachable'',
     rw_isaac_polls = [[Some demo_runtime_ack]]\<rparr>"

lemma runtime_committable_needs_all_witness:
  "\<exists>fs' t. runtime_apply \<lparr>env_now = Fin 5, env_uuid = 0\<rparr> demo_runtime_files demo_world demo_runtime_record True
       = Inr (fs', t)
     \<and> dget t ''committable'' PNone = PBool True
     \<and> answered ''7'' [(''world_hash'', PStr ''a'')] (as_dict (dget t ''participants'' PNone)) ''ros''
     \<and> answered ''7'' [(''world_hash'', PStr ''a'')] (as_dict (dget t ''participants'' PNone)) ''isaac''
     \<and> table_ack ''7'' [(''world_hash'', PStr ''a'')] [(''sionna'', demo_sionna_entry)] ''sionna''"
proof -
  let ?run = "runtime_apply \<lparr>env_now = Fin 5, env_uuid = 0\<rparr> demo_runtime_files demo_world demo_runtime_record True"
  let ?h = "[(''world_hash'', PStr ''a'')]"
  let ?ps = "[(''sionna'', demo_sionna_entry)]"
  have "case ?run of Inl _ \<Rightarrow> False | Inr (_, t) \<Rightarrow> dget t ''committable'' PNone = PBool True"
    by code_simp
  then obtain fs' t where run: "?run = Inr (fs', t)" and ok: "dget t ''committable'' PNone = PBool True"
    by (auto split: sum.splits)
  have h: "string_hashes ?h" by (simp add: string_hashes_def)
  have rec: "rec_at demo_runtime_files ''7'' ?h ?ps"
    by (simp add: rec_at_def demo_runtime_files_def demo_runtime_record_def)
  have id: "map_of demo_runtime_record ''revision_id'' = Some (PStr ''7'')" by (simp add: demo_runtime_record_def)
  have none: "\<not> table_ack ''7'' ?h ?ps ''ros''" "\<not> table_ack ''7'' ?h ?ps ''isaac''"
    by (simp_all add: table_ack_def)
  have sionna: "table_ack ''7'' ?h ?ps ''sionna''"
    by (simp add: table_ack_def demo_sionna_entry_def shows_hashes_def dget_def)
  from runtime_committable_needs_all [OF h rec id run ok] none run ok sionna show ?thesis
    by (auto simp: required_names_def)
qed

end
