(* ===== verification/Config_Defaults.thy ===== *)
theory Config_Defaults
  imports State_Store Py_Math
begin

text \<open>
  The defaults of \<open>netlab/config.py\<close>: supported names, \<open>deep_merge\<close>, the reference drone and
  \<open>default_experiment\<close>, one definition per section. A drone's index is small enough for its conversion to a float.
\<close>

definition schema_version :: string where "schema_version = ''2.0.0''"

definition supported_coordinate_frames :: "string list" where
  "supported_coordinate_frames = [''ENU'', ''NED'', ''ECEF'', ''WGS84'', ''ISAAC_STAGE'']"

definition supported_propagation_models :: "string list" where
  "supported_propagation_models =
     [''free_space'', ''log_distance'', ''probabilistic_air_to_ground'', ''stochastic_shadowing'',
      ''sionna_analytical'', ''sionna_rt'', ''trace_replay'', ''plugin'']"

definition supported_traffic_models :: "string list" where
  "supported_traffic_models =
     [''constant_packet_rate'', ''constant_bit_rate'', ''poisson'', ''on_off'', ''bursty_on_off'',
      ''deadline_sensitive'', ''trace_replay'', ''plugin'']"

definition topology_mode_names :: "string list" where
  "topology_mode_names = map topology_mode_value [TM_CHAIN, TM_PARALLEL, TM_FOREST, TM_MANUAL]"

section \<open>Deep merge\<close>

text \<open>Two mappings merge recursively; any other override value replaces the base value.\<close>

function deep_merge :: "pydict \<Rightarrow> pydict \<Rightarrow> pydict" where
  "deep_merge base [] = base"
| "deep_merge base ((k, v) # rest) =
     deep_merge
       (dset k (case (v, dget base k PNone) of
                  (PDict inner, PDict old) \<Rightarrow> PDict (deep_merge old inner)
                | _ \<Rightarrow> v) base) rest"
  by pat_completeness auto
termination
  by (relation "measure (\<lambda>(base, override). size (PDict override))") auto

section \<open>The default experiment\<close>

definition drone_name :: "int \<Rightarrow> string" where
  "drone_name i = ''drone_'' @ show_int i"

definition default_drone :: "int \<Rightarrow> int \<Rightarrow> pydict" where
  "default_drone i relay_count =
     [(''id'', PStr (drone_name i)), (''index'', PInt i), (''type'', PStr ''quadrotor_reference''),
      (''role'', PStr (if i \<le> relay_count then ''relay'' else ''standby'')), (''active'', PBool True),
      (''failed'', PBool False),
      (''position'', PList [PFloat (py_round 6 (fmul (rnd64 (of_int i)) (Fin 28))), flit 0,
                            PFloat (fadd (Fin 28) (Fin (of_int ((i - 1) mod 3))))]),
      (''orientation_xyzw'', PList [flit 0, flit 0, flit 0, flit 1]),
      (''velocity'', PList [flit 0, flit 0, flit 0]), (''battery_soc_pct'', flit 100),
      (''antenna_id'', PStr ''uav_omni_reference'')]"

definition default_drones :: "int \<Rightarrow> int \<Rightarrow> pyval list" where
  "default_drones n relay = map (\<lambda>i. PDict (default_drone i relay)) (int_range 1 (n + 1))"

definition default_drone_count :: int where "default_drone_count = 8"
definition default_relay_count :: int where "default_relay_count = 6"

definition default_meta :: "time \<Rightarrow> pydict" where
  "default_meta now =
     [(''id'', PStr ''first_feasible_relay_chain''),
      (''name'', PStr ''First Feasible Relay Chain''),
      (''description'', PStr ''Reference SNaaS experiment with communication-gated packet forwarding.''),
      (''author'', PStr ''''),
      (''tags'', PList [PStr ''snaas'', PStr ''relay-chain'', PStr ''reference'']),
      (''seed'', PInt 20260715), (''duration_s'', flit 300), (''replications'', PInt 1),
      (''fidelity_profile'', PStr (fidelity_profile_value FP_ANALYTICAL)),
      (''created_at'', PFloat now), (''updated_at'', PFloat now)]"

definition default_clock :: pydict where
  "default_clock =
     [(''mode'', PStr ''REAL_TIME''), (''physics_step_s'', flit (1 / 60)),
      (''control_step_s'', flit (1 / 10)), (''link_update_period_s'', flit (5 / 10)),
      (''telemetry_period_s'', flit (25 / 100)), (''use_sim_time'', PBool False)]"

definition default_environment :: pydict where
  "default_environment =
     [(''temperature_c'', flit 25), (''humidity_pct'', flit 40), (''rain_rate_mm_h'', flit 0),
      (''fog_visibility_m'', flit 10000), (''wind_speed_mps'', flit (12 / 10)),
      (''wind_direction_deg'', flit 35), (''gust_speed_mps'', flit (8 / 10)),
      (''turbulence_intensity'', flit (15 / 100))]"

definition default_world :: pydict where
  "default_world =
     [(''template'', PStr ''open_reference''), (''coordinate_frame'', PStr ''ENU''),
      (''stage_units_m'', flit 1), (''origin'', PList [flit 0, flit 0, flit 0]),
      (''terrain'', PStr ''flat''), (''assets'', PList []),
      (''environment'', PDict default_environment), (''electromagnetic_materials'', PList [])]"

definition default_service_region :: pydict where
  "default_service_region =
     [(''shape'', PStr ''rectangle''), (''center'', PList [flit 120, flit 0, flit 0]),
      (''length_m'', flit 240), (''width_m'', flit 120), (''min_altitude_m'', flit 10),
      (''max_altitude_m'', flit 120), (''geofence_enabled'', PBool True),
      (''restricted_regions'', PList [])]"

definition default_station :: pydict where
  "default_station =
     [(''id'', PStr ''station''), (''type'', PStr ''ground_station''),
      (''position'', PList [flit 0, flit 0, flit (15 / 10)]),
      (''orientation_xyzw'', PList [flit 0, flit 0, flit 0, flit 1]),
      (''antenna_id'', PStr ''ground_sector_reference''), (''backhaul_capacity_mbps'', flit 1000),
      (''active'', PBool True)]"

definition default_controller :: pydict where
  "default_controller =
     [(''type'', PStr ''communication_aware_formation''), (''plugin_id'', PNone),
      (''update_rate_hz'', flit 10), (''command_timeout_s'', flit 1),
      (''collision_avoidance'', PBool True), (''safe_fallback'', PStr ''hold_position'')]"

definition default_mobility :: pydict where
  "default_mobility =
     [(''model'', PStr ''hold''), (''formation'', PStr ''chain''),
      (''waypoint_smoothing'', PBool True), (''wind_response'', PBool True),
      (''parameters'', PDict [])]"

definition default_energy :: pydict where
  "default_energy =
     [(''model'', PStr ''simple_power_budget''), (''battery_capacity_wh'', flit 180),
      (''initial_soc_pct'', flit 100), (''reserve_soc_pct'', flit 20),
      (''hover_power_w'', flit 180), (''communication_power_w'', flit 8),
      (''computing_power_w'', flit 15)]"

definition default_swarm :: pydict where
  "default_swarm =
     [(''drone_count'', PInt default_drone_count), (''relay_count'', PInt default_relay_count),
      (''standby_count'', PInt (default_drone_count - default_relay_count)),
      (''visual_asset_scale'', flit (2 / 10)),
      (''physical_collision_dimensions_m'', PList [flit (32 / 100), flit (32 / 100), flit (12 / 100)]),
      (''reference_dimensions_m'', PList [flit (32 / 100), flit (32 / 100), flit (12 / 100)]),
      (''mass_kg'', flit (14 / 10)), (''payload_mass_kg'', flit (2 / 10)),
      (''minimum_separation_m'', flit 4), (''max_horizontal_speed_mps'', flit 12),
      (''max_vertical_speed_mps'', flit 4), (''max_acceleration_mps2'', flit 5),
      (''max_deceleration_mps2'', flit 6), (''max_jerk_mps3'', flit 8),
      (''max_yaw_rate_deg_s'', flit 90), (''max_climb_rate_mps'', flit 4),
      (''max_descent_rate_mps'', flit 3), (''controller'', PDict default_controller),
      (''mobility'', PDict default_mobility), (''energy'', PDict default_energy),
      (''drones'', PList (default_drones default_drone_count default_relay_count))]"

definition default_topology :: pydict where
  "default_topology =
     [(''mode'', PStr (topology_mode_value TM_CHAIN)), (''source'', PStr ''station''),
      (''sinks'', PList [PStr (drone_name default_relay_count)]), (''branch_count'', PInt 1),
      (''branches'', PList [PList (map PInt (int_range 1 (default_relay_count + 1)))]),
      (''manual_edges'', PList []), (''routing_policy'', PStr ''ordered_path''),
      (''forwarding_policy'', PStr ''store_and_forward''), (''queue_model'', PStr ''fifo''),
      (''recompute_on_failure'', PBool True), (''redundancy_target'', PInt 1),
      (''update_period_s'', flit (5 / 10))]"

definition default_communication :: pydict where
  "default_communication =
     [(''model'', PStr ''sionna_analytical''),
      (''fidelity'', PStr (fidelity_profile_value FP_ANALYTICAL)),
      (''carrier_frequency_hz'', flit 3500000000), (''bandwidth_hz'', flit 20000000),
      (''tx_power_dbm'', flit 23), (''receiver_noise_figure_db'', flit 7),
      (''implementation_loss_db'', flit 2), (''operational_range_m'', flit 90),
      (''hard_outage_distance_m'', flit 220), (''min_snr_db'', flit 3), (''min_sinr_db'', flit 3),
      (''min_capacity_mbps'', flit 1), (''spectral_efficiency_factor'', flit (75 / 100)),
      (''metric_ttl_s'', flit 2), (''shadowing_sigma_db'', flit 0),
      (''path_loss_exponent'', flit 2), (''rain_enabled'', PBool False),
      (''foliage_enabled'', PBool False), (''clutter_enabled'', PBool False),
      (''interference_enabled'', PBool False), (''interference_margin_db'', flit 0),
      (''allow_fallback'', PBool True), (''fallback_model'', PStr ''free_space'')]"

definition ground_sector_antenna :: pydict where
  "ground_sector_antenna =
     [(''id'', PStr ''ground_sector_reference''), (''name'', PStr ''Ground Sector Reference''),
      (''model'', PStr ''sector''), (''provenance'', PStr ''analytical_reference''),
      (''center_frequency_hz'', flit 3500000000), (''bandwidth_hz'', flit 20000000),
      (''gain_dbi'', flit 8), (''efficiency'', flit (8 / 10)),
      (''polarization'', PStr ''vertical''), (''beamwidth_azimuth_deg'', flit 110),
      (''beamwidth_elevation_deg'', flit 60), (''front_to_back_ratio_db'', flit 20),
      (''cable_loss_db'', flit 1), (''position_offset_m'', PList [flit 0, flit 0, flit 0]),
      (''rotation_rpy_deg'', PList [flit 0, flit 0, flit 0])]"

definition uav_omni_antenna :: pydict where
  "uav_omni_antenna =
     [(''id'', PStr ''uav_omni_reference''), (''name'', PStr ''UAV Omni Reference''),
      (''model'', PStr ''omnidirectional''), (''provenance'', PStr ''analytical_reference''),
      (''center_frequency_hz'', flit 3500000000), (''bandwidth_hz'', flit 20000000),
      (''gain_dbi'', flit (25 / 10)), (''efficiency'', flit (75 / 100)),
      (''polarization'', PStr ''vertical''), (''beamwidth_azimuth_deg'', flit 360),
      (''beamwidth_elevation_deg'', flit 120), (''front_to_back_ratio_db'', flit 0),
      (''cable_loss_db'', flit (5 / 10)),
      (''position_offset_m'', PList [flit 0, flit 0, flit (12 / 100)]),
      (''rotation_rpy_deg'', PList [flit 0, flit 0, flit 0])]"

definition default_antennas :: pydict where
  "default_antennas =
     [(''definitions'', PList [PDict ground_sector_antenna, PDict uav_omni_antenna]),
      (''assignments'', PDict ((''station'', PStr ''ground_sector_reference'')
        # map (\<lambda>i. (drone_name i, PStr ''uav_omni_reference'')) (int_range 1 (default_drone_count + 1))))]"

definition default_flow :: pydict where
  "default_flow =
     [(''id'', PStr ''service_flow_1''), (''source'', PStr ''station''),
      (''destination'', PStr (drone_name default_relay_count)), (''branch_id'', PStr ''branch_0''),
      (''service_class'', PStr ''user_data''),
      (''generation_model'', PStr ''constant_packet_rate''), (''packet_size_bytes'', PInt 512),
      (''packet_rate_pps'', flit 2), (''priority'', PInt 1), (''max_delay_ms'', flit 150),
      (''min_throughput_mbps'', flit 1), (''reliability_target'', flit (99 / 100)),
      (''queue_capacity_packets'', PInt 128), (''start_time_s'', flit 0),
      (''stop_time_s'', flit 300)]"

definition default_traffic :: pydict where
  "default_traffic =
     [(''flows'', PList [PDict default_flow]), (''scheduler'', PStr ''round_robin''),
      (''queue_model'', PStr ''fifo'')]"

definition default_failures :: pydict where
  "default_failures =
     [(''schedule'', PList []), (''recovery_policy'', PStr ''communication_aware_standby''),
      (''failure_detection_s'', flit (15 / 10)), (''recovery_timeout_s'', flit 20),
      (''retry_limit'', PInt 3), (''operator_approval_required'', PBool False)]"

definition default_visualization :: pydict where
  "default_visualization =
     [(''custom_drone_usd'', PStr ''/workspace/isaac/local_assets/drones/tu_drone.usd''),
      (''visual_asset_scale'', flit (2 / 10)), (''show_service_region'', PBool True),
      (''show_link_lines'', PBool True), (''show_packet_markers'', PBool True),
      (''show_coverage_preview'', PBool True), (''coverage_opacity'', flit (35 / 1000)),
      (''status_marker_scale'', flit (7 / 10)), (''packet_marker_scale'', flit (9 / 10)),
      (''camera_preset'', PStr ''overview'')]"

definition default_evidence :: pydict where
  "default_evidence =
     [(''output_directory'', PStr ''/workspace/results''), (''write_jsonl_events'', PBool True),
      (''write_csv_metrics'', PBool True), (''write_run_manifest'', PBool True),
      (''record_rosbag'', PBool False), (''capture_screenshots'', PBool False),
      (''record_video'', PBool False), (''retention_policy'', PStr ''keep_completed_runs'')]"

definition default_runtime :: pydict where
  "default_runtime =
     [(''sionna_url'', PStr ''http://127.0.0.1:8090/link''),
      (''sionna_health_url'', PStr ''http://127.0.0.1:8090/health''),
      (''command_timeout_s'', flit 30), (''startup_timeout_s'', flit 600),
      (''isaac_heartbeat_timeout_s'', flit 15), (''packet_heartbeat_timeout_s'', flit 5),
      (''retry_count'', PInt 3)]"

definition default_compatibility :: pydict where
  "default_compatibility =
     [(''legacy_config_version'', PStr ''v4.1''), (''legacy_fields_emitted'', PBool True),
      (''generated_reference'', PBool True)]"

definition default_experiment :: "env \<Rightarrow> pydict" where
  "default_experiment w =
     [(''schema_version'', PStr schema_version), (''experiment'', PDict (default_meta (env_now w))),
      (''clock'', PDict default_clock), (''world'', PDict default_world),
      (''service_region'', PDict default_service_region), (''station'', PDict default_station),
      (''swarm'', PDict default_swarm), (''topology'', PDict default_topology),
      (''communication'', PDict default_communication), (''antennas'', PDict default_antennas),
      (''traffic'', PDict default_traffic), (''failures'', PDict default_failures),
      (''visualization'', PDict default_visualization), (''evidence'', PDict default_evidence),
      (''runtime'', PDict default_runtime), (''compatibility'', PDict default_compatibility)]"

end
