(* ===== verification/Config_Migration.thy ===== *)
theory Config_Migration
  imports Config_Defaults
begin

text \<open>
  \<open>migrate_legacy_config\<close> of \<open>netlab/config.py\<close>: a versioned document (at the top, or nested under \<open>v6\<close> or
  \<open>v5\<close>) is merged over the defaults; any other mapping is read as the flat legacy form, one
  definition per block of the function, each of which updates its section of the defaults. A
  conversion that raises ends the migration.
\<close>

section \<open>Helpers\<close>

definition get_int :: "pydict \<Rightarrow> string \<Rightarrow> pyval \<Rightarrow> int res" where
  "get_int d k v = py_int (dget d k v)"

definition get_float :: "pydict \<Rightarrow> string \<Rightarrow> pyval \<Rightarrow> pyfloat res" where
  "get_float d k v = py_float (dget d k v)"

text \<open>The mapping under a key, empty when it is no mapping.\<close>

definition get_mapping :: "pydict \<Rightarrow> string \<Rightarrow> pydict" where
  "get_mapping d k = as_dict (dget d k PNone)"

definition is_versioned :: "pydict \<Rightarrow> bool" where
  "is_versioned config \<longleftrightarrow>
     py_eq (dget config ''schema_version'' PNone) (PStr schema_version)
     \<and> is_mapping (dget config ''experiment'' PNone)"

section \<open>The blocks of the flat form\<close>

definition migrate_meta :: "pydict \<Rightarrow> pydict \<Rightarrow> pydict res" where
  "migrate_meta source base =
     (let meta = section_of base ''experiment'';
          id0 = dget meta ''id'' PNone;
          name = py_strip (py_str (dget source ''scenario_id'' (dget source ''experiment_name'' id0)))
      in bindR (get_int source ''seed'' (dget meta ''seed'' PNone)) (\<lambda>seed.
           bindR (get_float source ''duration_s'' (dget meta ''duration_s'' PNone)) (\<lambda>duration.
             Inr (update_section ''experiment''
               [(''id'', py_or (PStr name) id0),
                (''name'', PStr (py_str (dget source ''experiment_name'' (dget meta ''name'' PNone)))),
                (''seed'', PInt seed), (''duration_s'', PFloat duration)] base))))"

definition drone_counts :: "pydict \<Rightarrow> pydict \<Rightarrow> (int \<times> int) res" where
  "drone_counts source swarm =
     bindR (plen (dget source ''drones'' (PList []))) (\<lambda>listed.
       bindR (get_int source ''drone_count'' (py_or (PInt listed) (dget swarm ''drone_count'' PNone))) (\<lambda>n.
         let fleet = max 1 n
         in bindR (get_int source ''standby_count'' (PInt 0)) (\<lambda>standby.
              bindR (get_int source ''relay_count'' (PInt (max 1 (fleet - standby)))) (\<lambda>relay.
                Inr (fleet, max 1 (min fleet relay))))))"

definition legacy_drone :: "pyval list \<Rightarrow> int \<Rightarrow> int \<Rightarrow> pydict" where
  "legacy_drone legacy relay i =
     (let item = (if i - 1 < int (length legacy) then as_dict (legacy ! nat (i - 1)) else []);
          d = dupdate (default_drone i relay) item
      in dset ''index'' (PInt i)
           (dset ''id'' (PStr (py_str (py_or (dget d ''id'' PNone) (PStr (drone_name i))))) d))"

definition migrate_drones :: "pydict \<Rightarrow> int \<Rightarrow> int \<Rightarrow> pyval list" where
  "migrate_drones source fleet relay =
     (case dget source ''drones'' (PList []) of
        PList (x # xs) \<Rightarrow> map (\<lambda>i. PDict (legacy_drone (x # xs) relay i)) (int_range 1 (fleet + 1))
      | _ \<Rightarrow> default_drones fleet relay)"

definition migrate_swarm :: "pydict \<Rightarrow> int \<Rightarrow> int \<Rightarrow> pydict \<Rightarrow> pydict res" where
  "migrate_swarm source fleet relay base =
     bindR (pget (dget source ''visual'' (PDict [])) ''drone_scale'' (dget source ''drone_scale'' (flit (2 / 10))))
       (\<lambda>v. bindR (py_float v) (\<lambda>scale.
         Inr (update_section ''swarm''
           [(''drone_count'', PInt fleet), (''relay_count'', PInt relay),
            (''standby_count'', PInt (max 0 (fleet - relay))), (''visual_asset_scale'', PFloat scale),
            (''drones'', PList (migrate_drones source fleet relay))] base)))"

definition migrate_world :: "pydict \<Rightarrow> pydict \<Rightarrow> pydict res" where
  "migrate_world source base =
     (let world = section_of base ''world'';
          env0 = section_of world ''environment'';
          environment = get_mapping source ''environment'';
          assets = (case dget source ''worlds'' (PList []) of
                      PList xs \<Rightarrow> [(''assets'', PList xs)] | _ \<Rightarrow> []);
          either = (\<lambda>k. get_float source k (dget environment k (dget env0 k PNone)))
      in bindR (either ''wind_speed_mps'') (\<lambda>speed. bindR (either ''wind_direction_deg'') (\<lambda>direction.
         bindR (either ''turbulence_intensity'') (\<lambda>turbulence.
         bindR (get_float environment ''rain_rate_mm_h'' (dget source ''rain_rate_mm_h'' (flit 0))) (\<lambda>rain.
           Inr (dset ''world'' (PDict (update_section ''environment''
             [(''wind_speed_mps'', PFloat speed), (''wind_direction_deg'', PFloat direction),
              (''turbulence_intensity'', PFloat turbulence), (''rain_rate_mm_h'', PFloat rain)]
             (dupdate world assets))) base))))))"

definition migrate_service :: "pydict \<Rightarrow> pydict \<Rightarrow> pydict res" where
  "migrate_service source base =
     (let service = section_of base ''service_region'';
          field = (\<lambda>k k'. get_float source k (dget service k' PNone))
      in bindR (field ''coverage_radius_m'' ''length_m'') (\<lambda>len.
         bindR (field ''coverage_width_m'' ''width_m'') (\<lambda>width.
         bindR (field ''altitude_start_m'' ''min_altitude_m'') (\<lambda>low.
         bindR (field ''altitude_end_m'' ''max_altitude_m'') (\<lambda>high.
           Inr (update_section ''service_region''
             [(''length_m'', PFloat len), (''width_m'', PFloat width),
              (''min_altitude_m'', PFloat low), (''max_altitude_m'', PFloat high)] base))))))"

definition migrate_station :: "pydict \<Rightarrow> pydict \<Rightarrow> pydict res" where
  "migrate_station source base =
     Inr (update_section ''station'' (get_mapping source ''station'') base)"

text \<open>The relays \<open>1..relay\<close> dealt out to \<open>n\<close> branches in turn.\<close>

definition dealt_branch :: "int \<Rightarrow> int \<Rightarrow> int \<Rightarrow> pyval" where
  "dealt_branch relay n k =
     PList (map PInt (filter (\<lambda>i. (i - 1) mod n = k) (int_range 1 (relay + 1))))"

definition migrate_branches :: "pydict \<Rightarrow> pydict \<Rightarrow> string \<Rightarrow> int \<Rightarrow> pyval list res" where
  "migrate_branches source topology mode relay =
     (case dget topology ''manual_branches'' (dget source ''manual_branches'' (PList [])) of
        PList (x # xs) \<Rightarrow> Inr (x # xs)
      | _ \<Rightarrow>
          if mode = ''chain'' then Inr [PList (map PInt (int_range 1 (relay + 1)))]
          else bindR (get_int source ''branch_count'' (PInt 1)) (\<lambda>n.
                 let count = max 1 n in Inr (map (dealt_branch relay count) (int_range 0 count))))"

definition migrate_topology :: "pydict \<Rightarrow> int \<Rightarrow> pydict \<Rightarrow> pydict res" where
  "migrate_topology source relay base =
     (let topology = get_mapping source ''topology'';
          field = (\<lambda>k v. PStr (py_str (dget topology k (dget source k (PStr v)))));
          given = py_lower (py_str (field ''transmission_mode'' ''chain''))
      in bindR (if given \<in> set topology_mode_names then Inr given
                else bindR (get_int source ''branch_count'' (PInt 1)) (\<lambda>n.
                       Inr (if n > 1 then ''parallel'' else ''chain''))) (\<lambda>mode.
           bindR (migrate_branches source topology mode relay) (\<lambda>branches.
             Inr (update_section ''topology''
               [(''mode'', PStr mode), (''branch_count'', PInt (int (length branches))),
                (''branches'', PList branches),
                (''forwarding_policy'', field ''forwarding_policy'' ''store_and_forward''),
                (''queue_model'', field ''queue_model'' ''fifo'')] base))))"

definition migrate_radio :: "pydict \<Rightarrow> pydict \<Rightarrow> pydict res" where
  "migrate_radio source base =
     (let radio = get_mapping source ''radio''; comm = section_of base ''communication'';
          old = (\<lambda>k. dget comm k PNone)
      in bindR (get_float radio ''frequency_hz'' (dget source ''frequency_hz'' (old ''carrier_frequency_hz'')))
           (\<lambda>frequency.
         bindR (get_float radio ''bandwidth_hz'' (dget source ''bandwidth_hz'' (old ''bandwidth_hz''))) (\<lambda>bandwidth.
         bindR (get_float radio ''tx_power_dbm'' (dget source ''tx_power_dbm'' (old ''tx_power_dbm''))) (\<lambda>power.
         bindR (get_float source ''max_single_hop_range_m'' (old ''operational_range_m'')) (\<lambda>operational.
         bindR (get_float source ''hard_outage_range_m'' (old ''hard_outage_distance_m'')) (\<lambda>hard.
         bindR (get_float radio ''min_snr_db'' (old ''min_snr_db'')) (\<lambda>snr.
         bindR (get_float radio ''required_capacity_mbps'' (old ''min_capacity_mbps'')) (\<lambda>capacity.
         bindR (case dget radio ''noise_floor_dbm'' PNone of PNone \<Rightarrow> Inr []
                | v \<Rightarrow> bindR (py_float v) (\<lambda>x. Inr [(''legacy_noise_floor_dbm'', PFloat x)])) (\<lambda>noise.
           Inr (update_section ''communication''
             ([(''carrier_frequency_hz'', PFloat frequency), (''bandwidth_hz'', PFloat bandwidth),
               (''tx_power_dbm'', PFloat power), (''operational_range_m'', PFloat operational),
               (''hard_outage_distance_m'', PFloat hard), (''min_snr_db'', PFloat snr),
               (''min_capacity_mbps'', PFloat capacity)] @ noise) base))))))))))"

section \<open>Antennas and visualisation\<close>

definition legacy_antenna :: "pydict \<Rightarrow> int \<Rightarrow> pydict \<Rightarrow> pydict res" where
  "legacy_antenna comm idx item =
     (let ant_id = py_str (dget item ''id'' (PStr (''antenna_'' @ show_int idx)))
      in bindR (get_float item ''frequency_hz'' (dget comm ''carrier_frequency_hz'' PNone)) (\<lambda>frequency.
         bindR (get_float item ''bandwidth_hz'' (dget comm ''bandwidth_hz'' PNone)) (\<lambda>bandwidth.
         bindR (get_float item ''gain_dbi'' (flit 0)) (\<lambda>gain.
         bindR (get_float item ''beamwidth_deg'' (flit 360)) (\<lambda>azimuth.
         bindR (get_float item ''beamwidth_deg'' (flit 120)) (\<lambda>elevation.
         bindR (ptuple (dget item ''position'' (PList [flit 0, flit 0, flit 0]))) (\<lambda>position.
         bindR (ptuple (dget item ''rotation_xyz'' (PList [flit 0, flit 0, flit 0]))) (\<lambda>rotation.
           Inr [(''id'', PStr ant_id), (''name'', PStr (py_str (dget item ''name'' (PStr ant_id)))),
                (''model'', PStr (py_str (dget item ''role'' (PStr ''custom_reference'')))),
                (''provenance'', PStr ''legacy_config''), (''center_frequency_hz'', PFloat frequency),
                (''bandwidth_hz'', PFloat bandwidth), (''gain_dbi'', PFloat gain),
                (''polarization'', PStr (py_str (dget item ''polarization'' (PStr ''vertical'')))),
                (''beamwidth_azimuth_deg'', PFloat azimuth), (''beamwidth_elevation_deg'', PFloat elevation),
                (''position_offset_m'', PList position), (''rotation_rpy_deg'', PList rotation),
                (''cable_loss_db'', flit 0)]))))))))"

fun legacy_antennas :: "pydict \<Rightarrow> int \<Rightarrow> pyval list \<Rightarrow> pyval list \<times> pydict \<Rightarrow> (pyval list \<times> pydict) res" where
  "legacy_antennas comm idx [] out = Inr out"
| "legacy_antennas comm idx (PDict item # rest) (defs, assignments) =
     bindR (legacy_antenna comm idx item) (\<lambda>a.
       let attached = py_str (dget item ''attached_to'' (PStr (if idx = 1 then ''station'' else '''')))
       in legacy_antennas comm (idx + 1) rest
            (defs @ [PDict a],
             if attached \<noteq> [] then dset attached (dget a ''id'' PNone) assignments else assignments))"
| "legacy_antennas comm idx (item # rest) out = legacy_antennas comm (idx + 1) rest out"

definition migrate_antennas :: "pydict \<Rightarrow> pydict \<Rightarrow> pydict res" where
  "migrate_antennas source base =
     (case dget source ''antennas'' (PList []) of
        PList (x # xs) \<Rightarrow>
          bindR (legacy_antennas (section_of base ''communication'') 1 (x # xs) ([], []))
            (\<lambda>(defs, assignments).
              Inr (if defs \<noteq> []
                   then dset ''antennas'' (PDict [(''definitions'', PList defs), (''assignments'', PDict assignments)]) base
                   else base))
      | _ \<Rightarrow> Inr base)"

definition migrate_visual :: "pydict \<Rightarrow> pydict \<Rightarrow> pydict res" where
  "migrate_visual source base =
     (let visual = get_mapping source ''visual''; old = section_of base ''visualization'';
          flag = (\<lambda>k. PBool (truthy (dget visual k (PBool True))))
      in bindR (get_float visual ''drone_scale'' (flit (2 / 10))) (\<lambda>scale.
         bindR (get_float visual ''drone_coverage_opacity'' (flit (35 / 1000))) (\<lambda>opacity.
           Inr (update_section ''visualization''
             [(''custom_drone_usd'', PStr (py_str (dget visual ''custom_drone_usd'' (dget old ''custom_drone_usd'' PNone)))),
              (''visual_asset_scale'', PFloat scale), (''show_service_region'', flag ''show_coverage_area''),
              (''show_coverage_preview'', flag ''show_drone_coverage_rings''),
              (''coverage_opacity'', PFloat opacity)] base))))"

section \<open>Migration\<close>

definition migrate_flat :: "env \<Rightarrow> pydict \<Rightarrow> pydict res" where
  "migrate_flat w source =
     bindR (migrate_meta source (default_experiment w)) (\<lambda>base1.
       bindR (drone_counts source (section_of base1 ''swarm'')) (\<lambda>(fleet, relay).
         bindR (foldR (\<lambda>block. block)
                  [migrate_swarm source fleet relay, migrate_world source, migrate_service source,
                   migrate_station source, migrate_topology source relay, migrate_radio source,
                   migrate_antennas source, migrate_visual source] base1) (\<lambda>base2.
           Inr (update_section ''experiment'' [(''updated_at'', PFloat (env_now w))]
             (update_section ''compatibility'' [(''migrated_from_flat_config'', PBool True)] base2)))))"

definition nested_version :: "pydict \<Rightarrow> string \<Rightarrow> pydict option" where
  "nested_version config key =
     (case dget config key PNone of
        PDict nested \<Rightarrow> if is_versioned nested then Some nested else None
      | _ \<Rightarrow> None)"

definition migrate_legacy_config :: "env \<Rightarrow> pydict \<Rightarrow> pydict res" where
  "migrate_legacy_config w config =
     (if is_versioned config then Inr (deep_merge (default_experiment w) config)
      else case nested_version config ''v6'' of
             Some nested \<Rightarrow> Inr (deep_merge (default_experiment w) nested)
           | None \<Rightarrow>
               (case nested_version config ''v5'' of
                  Some nested \<Rightarrow> Inr (deep_merge (default_experiment w) nested)
                | None \<Rightarrow> migrate_flat w config))"

end
