(* ===== verification/Config_Validation.thy ===== *)
theory Config_Validation
  imports Config_Migration
begin

text \<open>
  \<open>validate_experiment\<close> of \<open>netlab/config.py\<close>: the configuration is migrated and each block of checks
  appends to the list of errors or of warnings. A block is a function of the migrated
  configuration (and of what earlier blocks computed) that returns its errors and warnings; it raises
  where the source would call \<open>.get\<close> on something that is no mapping.
\<close>

type_synonym report = "pyval list \<times> pyval list"

section \<open>Issues and value checks\<close>

definition issue :: "string \<Rightarrow> string \<Rightarrow> string \<Rightarrow> pyval" where
  "issue path cd message = PDict [(''path'', PStr path), (''code'', PStr cd), (''message'', PStr message)]"

definition report_if :: "bool \<Rightarrow> string \<Rightarrow> string \<Rightarrow> string \<Rightarrow> pyval list" where
  "report_if bad path cd message = (if bad then [issue path cd message] else [])"

definition finite_value :: "pyval \<Rightarrow> bool" where
  "finite_value v = (case py_float v of Inl _ \<Rightarrow> False | Inr f \<Rightarrow> is_finite f)"

definition float_value :: "pyval \<Rightarrow> pyfloat" where
  "float_value v = (case py_float v of Inl _ \<Rightarrow> Fin 0 | Inr f \<Rightarrow> f)"

definition indexed :: "string \<Rightarrow> nat \<Rightarrow> string" where
  "indexed path i = path @ ''['' @ show_nat i @ '']''"

definition read_vec3 :: "pyval \<Rightarrow> string \<Rightarrow> pyfloat list \<times> pyval list" where
  "read_vec3 v path =
     (case v of
        PList [x, y, z] \<Rightarrow>
          (map (\<lambda>c. if finite_value c then float_value c else Fin 0) [x, y, z],
           concat (map (\<lambda>(i, c). report_if (\<not> finite_value c) (indexed path i) ''NON_FINITE'' ''Value must be finite.'')
                     [(0, x), (1, y), (2, z)]))
      | _ \<Rightarrow> ([Fin 0, Fin 0, Fin 0],
              [issue path ''VECTOR_LENGTH'' ''Expected a three-element numeric vector.'']))"

text \<open>\<open>_range\<close>: the bounds are literals, integers or floats.\<close>

definition literal :: "pyval \<Rightarrow> pyfloat" where
  "literal v = (case num_of v of Some x \<Rightarrow> x | None \<Rightarrow> NaN)"

definition check_range :: "string \<Rightarrow> pyval \<Rightarrow> pyval \<Rightarrow> pyval \<Rightarrow> pyfloat \<times> pyval list" where
  "check_range path v lo hi =
     (if \<not> finite_value v then (literal lo, [issue path ''NON_NUMERIC'' ''Expected a finite number.''])
      else (let number = float_value v
            in (number,
                if flt number (literal lo) \<or> flt (literal hi) number
                then [PDict [(''path'', PStr path), (''code'', PStr ''OUT_OF_RANGE''),
                             (''message'', PStr (''Expected '' @ py_str lo @ '' <= value <= '' @ py_str hi @ ''.'')),
                             (''value'', PFloat number)]]
                else [])))"

definition supported_text :: "string list \<Rightarrow> string" where
  "supported_text names = py_repr (PList (map PStr (sort names)))"

section \<open>Experiment and world\<close>

definition check_meta :: "pydict \<Rightarrow> pyval list res" where
  "check_meta cfg =
     bindR (pitems (dget cfg ''experiment'' (PDict []))) (\<lambda>experiment.
       Inr (report_if (\<not> py_eq (dget cfg ''schema_version'' PNone) (PStr schema_version))
              ''schema_version'' ''SCHEMA_VERSION'' (''Expected '' @ schema_version @ ''.'')
            @ report_if (py_strip (py_str (dget experiment ''id'' (PStr ''''))) = [])
                ''experiment.id'' ''REQUIRED'' ''Experiment ID is required.''
            @ snd (check_range ''experiment.duration_s'' (dget experiment ''duration_s'' (PInt 0)) (flit (1 / 10)) (flit 864000))
            @ report_if (case py_int (dget experiment ''seed'' PNone) of Inl _ \<Rightarrow> True | Inr _ \<Rightarrow> False)
                ''experiment.seed'' ''INTEGER'' ''Deterministic seed must be an integer.''))"

definition check_world :: "pydict \<Rightarrow> pyval list" where
  "check_world world =
     report_if (py_upper (py_str (dget world ''coordinate_frame'' (PStr ''ENU''))) \<notin> set supported_coordinate_frames)
       ''world.coordinate_frame'' ''UNSUPPORTED_FRAME''
       (''Supported frames: '' @ supported_text supported_coordinate_frames @ ''.'')
     @ snd (read_vec3 (dget world ''origin'' (PList [])) ''world.origin'')"

section \<open>Swarm\<close>

definition swarm_counts :: "pydict \<Rightarrow> (int \<times> int \<times> int) \<times> pyval list" where
  "swarm_counts swarm =
     (case bindR (get_int swarm ''drone_count'' (PInt 0)) (\<lambda>n.
             bindR (get_int swarm ''relay_count'' (PInt 0)) (\<lambda>r.
               bindR (get_int swarm ''standby_count'' (PInt 0)) (\<lambda>s. Inr (n, r, s)))) of
        Inr counts \<Rightarrow> (counts, [])
      | Inl _ \<Rightarrow> ((0, 0, 0), [issue ''swarm'' ''COUNT_TYPE'' ''Drone counts must be integers.'']))"

definition check_counts :: "int \<Rightarrow> int \<Rightarrow> int \<Rightarrow> pyval list" where
  "check_counts fleet relay standby =
     report_if (fleet < 1 \<or> fleet > 512) ''swarm.drone_count'' ''OUT_OF_RANGE''
       ''Drone count must be between 1 and 512.''
     @ report_if (relay < 1 \<or> relay > fleet) ''swarm.relay_count'' ''COUNT_CONSISTENCY''
         ''Relay count must be between 1 and drone count.''
     @ report_if (standby < 0 \<or> relay + standby \<noteq> fleet) ''swarm.standby_count'' ''COUNT_CONSISTENCY''
         ''Relay plus standby count must equal drone count.''"

text \<open>The loop over the drones: the IDs seen so far, then the errors, all IDs and the positions.\<close>

fun check_drones :: "nat \<Rightarrow> pyval list \<Rightarrow> string list
   \<Rightarrow> pyval list \<times> string list \<times> (string \<times> pyfloat list) list" where
  "check_drones i [] ids = ([], ids, [])"
| "check_drones i (PDict item # rest) ids =
     (let drone_id = py_str (dget item ''id'' (PStr ''''));
          here = indexed ''swarm.drones'' i;
          (pos, vector_errors) = read_vec3 (dget item ''position'' (PList [])) (here @ ''.position'');
          (errors, all_ids, positions) = check_drones (Suc i) rest (drone_id # ids)
      in ((if drone_id = [] then [issue (here @ ''.id'') ''REQUIRED'' ''Drone ID is required.'']
           else report_if (drone_id \<in> set ids) (here @ ''.id'') ''DUPLICATE'' (''Duplicate drone ID '' @ drone_id @ ''.''))
          @ vector_errors @ errors, all_ids, (drone_id, pos) # positions))"
| "check_drones i (item # rest) ids =
     (let (errors, all_ids, positions) = check_drones (Suc i) rest ids
      in (issue (indexed ''swarm.drones'' i) ''OBJECT'' ''Drone entry must be an object.'' # errors, all_ids, positions))"

fun separation_warnings :: "pyfloat \<Rightarrow> (string \<times> pyfloat list) list \<Rightarrow> pyval list" where
  "separation_warnings sep [] = []"
| "separation_warnings sep ((a, p) # rest) =
     concat (map (\<lambda>(b, q). let d = fdist p q in
        report_if (flt d sep) ''swarm.drones'' ''MINIMUM_SEPARATION''
          (a @ '' and '' @ b @ '' are '' @ format_fixed 3 d @ '' m apart, below '' @ format_fixed 3 sep @ '' m.''))
       rest) @ separation_warnings sep rest"

record swarm_view =
  sv_fleet :: int
  sv_relay :: int
  sv_ids :: "string list"

definition check_swarm :: "pydict \<Rightarrow> swarm_view \<times> report" where
  "check_swarm swarm =
     (let ((fleet, relay, standby), count_errors) = swarm_counts swarm;
          (scale, scale_errors) = check_range ''swarm.visual_asset_scale''
             (dget swarm ''visual_asset_scale'' (flit (2 / 10))) (flit (1 / 100)) (flit 10);
          (sep, sep_errors) = check_range ''swarm.minimum_separation_m''
             (dget swarm ''minimum_separation_m'' (PInt 0)) (flit (1 / 10)) (flit 1000);
          given = dget swarm ''drones'' (PList []);
          (drone_errors, ids, positions) = check_drones 0 (as_list given) []
      in (\<lparr>sv_fleet = fleet, sv_relay = relay, sv_ids = ids\<rparr>,
          count_errors @ check_counts fleet relay standby @ scale_errors @ sep_errors
          @ report_if (\<not> is_list given \<or> int (length (as_list given)) \<noteq> fleet) ''swarm.drones'' ''INVENTORY_SIZE''
              (''Expected exactly '' @ show_int fleet @ '' drone records.'')
          @ drone_errors,
          report_if (flt (rnd64 (1 / 1000000000)) (fabs (fsub scale (rnd64 (2 / 10)))))
            ''swarm.visual_asset_scale'' ''NON_REFERENCE_SCALE''
            ''The project reference visual scale is 0.2; physical dimensions remain independent.''
          @ separation_warnings sep positions))"

section \<open>Topology\<close>

fun check_edges :: "nat \<Rightarrow> string list \<Rightarrow> pyval list \<Rightarrow> pyval list" where
  "check_edges i known [] = []"
| "check_edges i known (edge # rest) =
     (let here = indexed ''topology.manual_edges'' i
      in (case edge of
            PList [a, b] \<Rightarrow>
              (let source = py_str a; destination = py_str b
               in report_if (source \<notin> set known \<or> destination \<notin> set known) here ''UNKNOWN_ENDPOINT''
                    (''Unknown manual-edge endpoint '' @ source @ ''->'' @ destination @ ''.'')
                  @ report_if (source = destination) here ''SELF_LOOP''
                      ''Self-loops are not permitted in an operational relay graph.'')
          | _ \<Rightarrow> [issue here ''EDGE_SHAPE'' ''Manual edges must be [source, destination] pairs.''])
        @ check_edges (Suc i) known rest)"

text \<open>One branch: the relays seen in it and in all branches so far.\<close>

fun check_branch :: "string \<Rightarrow> string \<Rightarrow> int \<Rightarrow> pyval list \<Rightarrow> int list \<Rightarrow> int list \<Rightarrow> report \<times> int list" where
  "check_branch here mode relay [] seen used = (([], []), used)"
| "check_branch here mode relay (raw # rest) seen used =
     (case py_int raw of
        Inl _ \<Rightarrow>
          (let ((errors, warnings), used1) = check_branch here mode relay rest seen used
           in ((issue here ''INTEGER'' ''Relay indices must be integers.'' # errors, warnings), used1))
      | Inr idx \<Rightarrow>
          (let ((errors, warnings), used1) = check_branch here mode relay rest (idx # seen) (idx # used)
           in ((report_if (idx < 1 \<or> idx > relay) here ''UNKNOWN_RELAY''
                  (''Relay '' @ show_int idx @ '' is outside active relay inventory 1..'' @ show_int relay @ ''.'')
                @ report_if (idx \<in> set seen) here ''DUPLICATE_NODE''
                    (''Relay '' @ show_int idx @ '' occurs twice in one branch.'')
                @ errors,
                report_if (mode = ''parallel'' \<and> idx \<in> set used) here ''SHARED_RELAY''
                  (''Relay '' @ show_int idx @ '' is shared between parallel branches; failures may couple branch availability.'')
                @ warnings), used1)))"

fun check_branches :: "nat \<Rightarrow> string \<Rightarrow> int \<Rightarrow> pyval list \<Rightarrow> int list \<Rightarrow> report" where
  "check_branches i mode relay [] used = ([], [])"
| "check_branches i mode relay (branch # rest) used =
     (let here = indexed ''topology.branches'' i
      in case branch of
           PList (x # xs) \<Rightarrow>
             (let ((errors, warnings), used1) = check_branch here mode relay (x # xs) [] used;
                  (errors1, warnings1) = check_branches (Suc i) mode relay rest used1
              in (errors @ errors1, warnings @ warnings1))
         | _ \<Rightarrow>
             (let (errors, warnings) = check_branches (Suc i) mode relay rest used
              in (issue here ''EMPTY_BRANCH'' ''A branch must contain at least one relay.'' # errors, warnings)))"

definition check_topology :: "pydict \<Rightarrow> swarm_view \<Rightarrow> report" where
  "check_topology topology sv =
     (let mode = py_lower (py_str (dget topology ''mode'' (PStr ''chain'')));
          mode_errors = report_if (mode \<notin> set topology_mode_names) ''topology.mode'' ''ENUM''
            ''Topology mode must be chain, parallel, forest, or manual.''
      in if mode = ''manual''
         then (case dget topology ''manual_edges'' (PList []) of
                 PList (e # es) \<Rightarrow> (mode_errors @ check_edges 0 (''station'' # sv_ids sv) (e # es), [])
               | _ \<Rightarrow> (mode_errors @ [issue ''topology.manual_edges'' ''REQUIRED''
                         ''Manual topology requires at least one directed edge.''], []))
         else (case dget topology ''branches'' (PList []) of
                 PList (b # bs) \<Rightarrow>
                   (let (errors, warnings) = check_branches 0 mode (sv_relay sv) (b # bs) []
                    in (mode_errors @ errors, warnings))
               | _ \<Rightarrow> (mode_errors @ [issue ''topology.branches'' ''REQUIRED'' ''At least one branch is required.''], [])))"

section \<open>Communication, antennas, traffic\<close>

definition check_communication :: "pydict \<Rightarrow> pydict \<Rightarrow> report" where
  "check_communication comm world =
     (let model = py_str (dget comm ''model'' (PStr ''free_space''));
          range = (\<lambda>k lo hi. check_range (''communication.'' @ k) (dget comm k (PInt 0)) lo hi);
          (frequency, e1) = range ''carrier_frequency_hz'' (flit 1000000) (flit 300000000000);
          (_, e2) = range ''bandwidth_hz'' (flit 1) (flit 10000000000);
          (operational, e3) = range ''operational_range_m'' (flit (1 / 10)) (flit 10000000);
          (hard, e4) = range ''hard_outage_distance_m'' (flit (1 / 10)) (flit 100000000)
      in (report_if (model \<notin> set supported_propagation_models) ''communication.model'' ''UNSUPPORTED_MODEL''
            (''Supported models: '' @ supported_text supported_propagation_models @ ''.'')
          @ e1 @ e2 @ e3 @ e4
          @ report_if (flt hard operational) ''communication.hard_outage_distance_m'' ''THRESHOLD_ORDER''
              ''Hard-outage distance must be greater than or equal to operational range.''
          @ report_if (model = ''sionna_rt'' \<and> \<not> truthy (dget world ''assets'' PNone)) ''world.assets''
              ''RAY_TRACING_WORLD_REQUIRED'' ''Sionna RT requires geometry and electromagnetic material mappings.'',
          report_if (model = ''free_space'' \<and> starts_with (py_lower (py_str (dget world ''template'' (PStr '''')))) ''urban'')
            ''communication.model'' ''MODEL_VALIDITY''
            ''Free-space path loss is not a realistic urban propagation model; use it only as a baseline.''
          @ report_if (flt (rnd64 100000000000) frequency) ''communication.carrier_frequency_hz'' ''HIGH_FREQUENCY''
              ''Verify material and atmospheric models for frequencies above 100 GHz.''))"

fun check_antennas :: "nat \<Rightarrow> pyval list \<Rightarrow> string list \<Rightarrow> pyval list \<times> string list" where
  "check_antennas i [] ids = ([], ids)"
| "check_antennas i (PDict item # rest) ids =
     (let ant_id = py_str (dget item ''id'' (PStr ''''));
          here = indexed ''antennas.definitions'' i;
          (errors, all_ids) = check_antennas (Suc i) rest (ant_id # ids)
      in (report_if (ant_id = [] \<or> ant_id \<in> set ids) (here @ ''.id'') ''DUPLICATE_OR_MISSING''
            ''Antenna IDs must be unique and non-empty.''
          @ snd (check_range (here @ ''.gain_dbi'') (dget item ''gain_dbi'' (PInt 0)) (flit (- 100)) (flit 100))
          @ errors, all_ids))"
| "check_antennas i (item # rest) ids =
     (let (errors, all_ids) = check_antennas (Suc i) rest ids
      in (issue (indexed ''antennas.definitions'' i) ''OBJECT'' ''Antenna definition must be an object.'' # errors, all_ids))"

definition check_assignments :: "string list \<Rightarrow> pyval \<Rightarrow> pyval list" where
  "check_assignments ids assignments =
     (case assignments of
        PDict d \<Rightarrow> concat (map (\<lambda>(entity, ant_id). report_if (py_str ant_id \<notin> set ids)
            (''antennas.assignments.'' @ entity) ''UNKNOWN_ANTENNA'' (''Unknown antenna '' @ py_str ant_id @ ''.'')) d)
      | _ \<Rightarrow> [issue ''antennas.assignments'' ''OBJECT'' ''Antenna assignments must be an object.''])"

definition check_antenna_section :: "pyval \<Rightarrow> pyval list" where
  "check_antenna_section ant =
     (let defs = (case ant of PDict d \<Rightarrow> dget d ''definitions'' (PList []) | _ \<Rightarrow> PList []);
          assignments = (case ant of PDict d \<Rightarrow> dget d ''assignments'' (PDict []) | _ \<Rightarrow> PDict []);
          (errors, ids) = check_antennas 0 (as_list defs) []
      in report_if (\<not> is_list defs) ''antennas.definitions'' ''ARRAY'' ''Antenna definitions must be an array.''
         @ errors @ check_assignments ids assignments)"

fun check_flows :: "nat \<Rightarrow> pyval list \<Rightarrow> string list \<Rightarrow> pyval list" where
  "check_flows i [] ids = []"
| "check_flows i (PDict flow # rest) ids =
     (let flow_id = py_str (dget flow ''id'' (PStr ''''));
          here = indexed ''traffic.flows'' i
      in report_if (flow_id = [] \<or> flow_id \<in> set ids) (here @ ''.id'') ''DUPLICATE_OR_MISSING''
           ''Flow IDs must be unique and non-empty.''
         @ report_if (py_str (dget flow ''generation_model'' (PStr '''')) \<notin> set supported_traffic_models)
             (here @ ''.generation_model'') ''UNSUPPORTED_MODEL''
             (''Supported traffic models: '' @ supported_text supported_traffic_models @ ''.'')
         @ snd (check_range (here @ ''.packet_size_bytes'') (dget flow ''packet_size_bytes'' (PInt 0)) (PInt 1) (PInt 10000000))
         @ snd (check_range (here @ ''.packet_rate_pps'') (dget flow ''packet_rate_pps'' (PInt 0)) (PInt 0) (PInt 1000000))
         @ check_flows (Suc i) rest (flow_id # ids))"
| "check_flows i (flow # rest) ids =
     issue (indexed ''traffic.flows'' i) ''OBJECT'' ''Flow must be an object.'' # check_flows (Suc i) rest ids"

definition check_traffic :: "pyval \<Rightarrow> pyval list" where
  "check_traffic traffic =
     (case (case traffic of PDict d \<Rightarrow> dget d ''flows'' (PList []) | _ \<Rightarrow> PList []) of
        PList (f # fs) \<Rightarrow> check_flows 0 (f # fs) []
      | _ \<Rightarrow> [issue ''traffic.flows'' ''REQUIRED'' ''At least one traffic flow is required.''])"

section \<open>Validation\<close>

text \<open>The checks on the migrated configuration, in the order of the source.\<close>

definition check_experiment :: "pydict \<Rightarrow> report res" where
  "check_experiment cfg =
     bindR (check_meta cfg) (\<lambda>meta_errors.
     bindR (pitems (dget cfg ''world'' (PDict []))) (\<lambda>world.
     bindR (pitems (dget cfg ''swarm'' (PDict []))) (\<lambda>swarm.
     bindR (pitems (dget cfg ''topology'' (PDict []))) (\<lambda>topology.
     bindR (pitems (dget cfg ''communication'' (PDict []))) (\<lambda>comm.
       let (sv, swarm_errors, swarm_warnings) = check_swarm swarm;
           (topology_errors, topology_warnings) = check_topology topology sv;
           (comm_errors, comm_warnings) = check_communication comm world
       in Inr (meta_errors @ check_world world @ swarm_errors @ topology_errors @ comm_errors
                 @ check_antenna_section (dget cfg ''antennas'' (PDict []))
                 @ check_traffic (dget cfg ''traffic'' (PDict [])),
               swarm_warnings @ topology_warnings @ comm_warnings))))))"

definition validate_experiment :: "env \<Rightarrow> pydict \<Rightarrow> bool \<Rightarrow> pydict res" where
  "validate_experiment w config strict =
     bindR (migrate_legacy_config w config) (\<lambda>cfg.
       bindR (check_experiment cfg) (\<lambda>(errors, warnings).
         if errors \<noteq> [] \<and> strict then Inl (NetlabError ''CONFIG_VALIDATION_FAILED'')
         else Inr [(''ok'', PBool (errors = [])), (''config'', PDict cfg), (''errors'', PList errors),
                   (''warnings'', PList warnings)]))"

end
