(* ===== verification/Config_Legacy.thy ===== *)
theory Config_Legacy
  imports Config_Validation
begin

text \<open>
  The flat compatibility envelope of \<open>netlab/config.py\<close> (\<open>emit_legacy_config\<close>), and loading and saving an
  experiment. The envelope carries the versioned document itself under \<open>v6\<close> and \<open>v5\<close>, which is what
  loading reads back.
\<close>

section \<open>Drones and antennas of the envelope\<close>

fun first_definition :: "pyval list \<Rightarrow> pyval \<Rightarrow> pydict res" where
  "first_definition [] ant_id = Inr []"
| "first_definition (x # xs) ant_id =
     bindR (pitems x) (\<lambda>d. if py_eq (dget d ''id'' PNone) ant_id then Inr d else first_definition xs ant_id)"

definition emit_drone :: "pydict \<Rightarrow> pyval \<Rightarrow> pyval res" where
  "emit_drone antennas v =
     bindR (pitems (dget antennas ''assignments'' (PDict []))) (\<lambda>assignments.
     bindR (pitem v ''id'') (\<lambda>drone_id.
     bindR (pitems v) (\<lambda>item.
     bindR (dget_key assignments drone_id (dget item ''antenna_id'' (PStr ''uav_omni_reference''))) (\<lambda>ant_id.
     bindR (bindR (ptuple (dget antennas ''definitions'' (PList []))) (\<lambda>defs. first_definition defs ant_id)) (\<lambda>ant_def.
     bindR (dget_item item ''index'') (\<lambda>index.
     bindR (bindR (dget_item item ''position'') ptuple) (\<lambda>position.
       Inr (PDict
         [(''id'', drone_id), (''index'', index), (''position'', PList position),
          (''role'', dget item ''role'' (PStr ''relay'')),
          (''active'', PBool (truthy (dget item ''active'' (PBool True)))),
          (''failed'', PBool (truthy (dget item ''failed'' (PBool False)))),
          (''battery_pct'', dget item ''battery_soc_pct'' (flit 100)), (''antenna_name'', ant_id),
          (''antenna_gain_dbi'', dget ant_def ''gain_dbi'' (flit 0))]))))))))"

text \<open>\<open>v[i] if len(v') == 3 else 0.0\<close> on the rotation of an antenna.\<close>

definition rotation_angle :: "pydict \<Rightarrow> nat \<Rightarrow> pyval res" where
  "rotation_angle item i =
     bindR (plen (dget item ''rotation_rpy_deg'' (PList []))) (\<lambda>n.
       if n \<noteq> 3 then Inr (flit 0)
       else (case dget item ''rotation_rpy_deg'' (PList [flit 0, flit 0, flit 0]) of
               PList xs \<Rightarrow> Inr (xs ! i)
             | PStr s \<Rightarrow> Inr (PStr [s ! i])
             | _ \<Rightarrow> Inl (KeyError (show_nat i))))"

definition emit_antenna :: "pydict \<Rightarrow> pyval \<Rightarrow> pyval \<Rightarrow> pyval res" where
  "emit_antenna antennas comm v =
     bindR (pitems v) (\<lambda>item.
     bindR (pitems (dget antennas ''assignments'' (PDict []))) (\<lambda>assignments.
     bindR (rotation_angle item 2) (\<lambda>azimuth.
     bindR (rotation_angle item 1) (\<lambda>elevation.
     bindR (pitem comm ''carrier_frequency_hz'') (\<lambda>frequency.
     bindR (pitem comm ''bandwidth_hz'') (\<lambda>bandwidth.
     bindR (pitem comm ''tx_power_dbm'') (\<lambda>power.
       Inr (PDict
         [(''id'', dget item ''id'' PNone), (''name'', dget item ''name'' PNone), (''enabled'', PBool True),
          (''role'', dget item ''model'' (PStr ''custom'')),
          (''attached_to'', (case find (\<lambda>(entity, aid). py_eq aid (dget item ''id'' PNone)) assignments of
             Some (entity, _) \<Rightarrow> PStr entity | None \<Rightarrow> PStr ''world'')),
          (''position'', dget item ''position_offset_m'' (PList [flit 0, flit 0, flit 0])),
          (''rotation_xyz'', dget item ''rotation_rpy_deg'' (PList [flit 0, flit 0, flit 0])),
          (''gain_dbi'', dget item ''gain_dbi'' (flit 0)), (''azimuth_deg'', azimuth),
          (''elevation_deg'', elevation), (''beamwidth_deg'', dget item ''beamwidth_azimuth_deg'' (flit 360)),
          (''frequency_hz'', dget item ''center_frequency_hz'' frequency),
          (''bandwidth_hz'', dget item ''bandwidth_hz'' bandwidth), (''tx_power_dbm'', power),
          (''polarization'', dget item ''polarization'' (PStr ''vertical'')),
          (''technology'', PStr ''SNaaS research antenna''),
          (''provenance'', dget item ''provenance'' (PStr ''unknown''))]))))))))"

section \<open>The envelope\<close>

text \<open>\<open>{new: section[old]}\<close> for a list of keys.\<close>

definition copy_fields :: "pyval \<Rightarrow> (string \<times> string) list \<Rightarrow> pydict res" where
  "copy_fields v keys = mapR (\<lambda>(new, old). bindR (pitem v old) (\<lambda>x. Inr (new, x))) keys"

definition failed_index :: "pyval \<Rightarrow> pyval list res" where
  "failed_index v =
     bindR (pitems v) (\<lambda>item.
       if truthy (dget item ''failed'' (PBool False))
       then bindR (dget_item item ''index'') (\<lambda>x. bindR (py_int x) (\<lambda>i. Inr [PInt i]))
       else Inr [])"

definition emit_topology :: "pyval \<Rightarrow> pydict res" where
  "emit_topology topology =
     copy_fields topology
       [(''transmission_mode'', ''mode''), (''manual_branches'', ''branches''),
        (''forwarding_policy'', ''forwarding_policy''), (''queue_model'', ''queue_model''),
        (''routing_policy'', ''routing_policy'')]"

definition mobility_field :: "pyval \<Rightarrow> string \<Rightarrow> rat \<Rightarrow> pyval res" where
  "mobility_field swarm k dflt =
     bindR (pitem swarm ''mobility'') (\<lambda>m. bindR (pget m ''parameters'' (PDict [])) (\<lambda>p.
       bindR (pget p k (flit dflt)) (\<lambda>v. bindR (py_float v) (\<lambda>x. Inr (PFloat x)))))"

definition emit_scenario :: "pydict \<Rightarrow> pyval \<Rightarrow> pyval \<Rightarrow> pydict res" where
  "emit_scenario cfg swarm topology =
     bindR (dget_item cfg ''schema_version'') (\<lambda>version.
     bindR (dget_item cfg ''experiment'') (\<lambda>experiment.
     bindR (copy_fields experiment
              [(''experiment_name'', ''name''), (''scenario_id'', ''id''), (''seed'', ''seed''),
               (''duration_s'', ''duration_s''), (''fidelity_profile'', ''fidelity_profile'')]) (\<lambda>meta_fields.
     bindR (copy_fields swarm [(''drone_count'', ''drone_count''), (''relay_count'', ''relay_count''),
              (''standby_count'', ''standby_count'')]) (\<lambda>counts.
     bindR (bindR (bindR (pitem swarm ''drones'') ptuple) (mapR failed_index)) (\<lambda>failed.
     bindR (bindR (pitem topology ''branches'') plen) (\<lambda>branch_count.
     bindR (copy_fields topology [(''transmission_mode'', ''mode''), (''manual_branches'', ''branches'')]) (\<lambda>modes.
     bindR (emit_topology topology) (\<lambda>topology_fields.
       Inr ((''schema_version'', version) # meta_fields @ counts
            @ [(''failed_indices'', PList (concat failed)), (''branch_count'', PInt branch_count)] @ modes
            @ [(''topology'', PDict topology_fields)])))))))))"

definition emit_region :: "pydict \<Rightarrow> pyval \<Rightarrow> pyval \<Rightarrow> pyval \<Rightarrow> pydict res" where
  "emit_region cfg swarm world comm =
     bindR (dget_item cfg ''clock'') (\<lambda>clock. bindR (pitem clock ''link_update_period_s'') (\<lambda>hop.
     bindR (dget_item cfg ''failures'') (\<lambda>failures. bindR (pitem failures ''failure_detection_s'') (\<lambda>detection.
     bindR (dget_item cfg ''service_region'') (\<lambda>region.
     bindR (copy_fields region
              [(''coverage_radius_m'', ''length_m''), (''coverage_width_m'', ''width_m''),
               (''altitude_start_m'', ''min_altitude_m''), (''altitude_end_m'', ''max_altitude_m'')]) (\<lambda>coverage.
     bindR (bindR (pitem swarm ''mobility'') (\<lambda>m. pitem m ''model'')) (\<lambda>model.
     bindR (mobility_field swarm ''amplitude_m'' 0) (\<lambda>amplitude.
     bindR (mobility_field swarm ''speed_multiplier'' 1) (\<lambda>speed.
     bindR (bindR (pitem world ''environment'') (\<lambda>e. copy_fields e
              [(''wind_speed_mps'', ''wind_speed_mps''), (''wind_direction_deg'', ''wind_direction_deg''),
               (''turbulence_intensity'', ''turbulence_intensity'')])) (\<lambda>wind.
     bindR (bindR (pitem swarm ''minimum_separation_m'') operand) (\<lambda>separation.
     bindR (copy_fields comm [(''max_single_hop_range_m'', ''operational_range_m''),
              (''hard_outage_range_m'', ''hard_outage_distance_m'')]) (\<lambda>ranges.
       Inr ([(''hop_period_s'', hop), (''failure_detection_s'', detection)] @ coverage
            @ [(''direction_deg'', flit 0), (''movement_pattern'', model), (''movement_amplitude_m'', amplitude),
               (''movement_speed'', speed), (''visual_follow_alpha'', flit (18 / 100))] @ wind
            @ [(''standby_activation_radius_m'', PFloat (py_max (Fin 5) (fmul separation (Fin 8))))] @ ranges
            @ [(''allow_degraded_forwarding'', PBool False),
               (''distance_penalty_db_per_m_after_soft_range'', flit (22 / 100))])))))))))))))"

text \<open>The noise floor is computed also when a legacy value overrides it.\<close>

definition emit_radio :: "libm \<Rightarrow> pydict \<Rightarrow> pydict res" where
  "emit_radio lm comm =
     bindR (copy_fields (PDict comm) [(''frequency_hz'', ''carrier_frequency_hz''), (''bandwidth_hz'', ''bandwidth_hz''),
              (''tx_power_dbm'', ''tx_power_dbm'')]) (\<lambda>carrier.
     bindR (dget_item comm ''bandwidth_hz'') (\<lambda>bandwidth.
     bindR (math_log (lm_log10 lm) bandwidth) (\<lambda>decades.
     bindR (dget_item comm ''receiver_noise_figure_db'') (\<lambda>figure.
     bindR (operand figure) (\<lambda>nf.
     bindR (copy_fields (PDict comm)
              [(''receiver_noise_figure_db'', ''receiver_noise_figure_db''),
               (''implementation_loss_db'', ''implementation_loss_db''), (''min_snr_db'', ''min_snr_db''),
               (''required_capacity_mbps'', ''min_capacity_mbps''), (''model'', ''model''),
               (''fidelity'', ''fidelity''), (''spectral_efficiency_factor'', ''spectral_efficiency_factor'')]) (\<lambda>fields.
       Inr (carrier
            @ [(''noise_floor_dbm'', dget comm ''legacy_noise_floor_dbm''
                  (PFloat (fadd (fadd (Fin (- 174)) (fmul (Fin 10) decades)) nf)))]
            @ fields @ [(''antenna_model'', PStr ''versioned_antenna_registry'')])))))))"

definition first_packet_size :: "pyval \<Rightarrow> pyval res" where
  "first_packet_size traffic =
     bindR (pitem traffic ''flows'') (\<lambda>flows.
       if \<not> truthy flows then Inr (PInt 512)
       else (case flows of
               PList (f # _) \<Rightarrow> pitem f ''packet_size_bytes''
             | PDict _ \<Rightarrow> Inl (KeyError ''0'')
             | _ \<Rightarrow> Inl TypeError))"

definition emit_visual :: "pyval \<Rightarrow> pyval \<Rightarrow> pyval \<Rightarrow> pydict res" where
  "emit_visual visualization swarm comm =
     bindR (pitem visualization ''custom_drone_usd'') (\<lambda>usd.
     bindR (pitem swarm ''physical_collision_dimensions_m'') (\<lambda>dimensions.
     bindR (pitem visualization ''show_service_region'') (\<lambda>region.
     bindR (pitem visualization ''show_coverage_preview'') (\<lambda>preview.
     bindR (pitem visualization ''coverage_opacity'') (\<lambda>opacity.
     bindR (pitem comm ''operational_range_m'') (\<lambda>operational.
       Inr [(''custom_drone_usd'', usd), (''drone_scale'', flit (2 / 10)), (''visual_asset_scale'', flit (2 / 10)),
            (''physical_collision_dimensions_m'', dimensions), (''show_coverage_area'', region),
            (''show_drone_coverage_rings'', preview), (''show_drone_coverage_spheres'', PBool False),
            (''drone_coverage_opacity'', opacity), (''coverage_visual_radius_m'', operational)]))))))"

definition service_payload :: string where
  "service_payload = ''SNaaS service request: preserve service continuity, append UAV state, and return acknowledgement.''"

definition emit_inventory :: "pydict \<Rightarrow> pyval \<Rightarrow> pyval \<Rightarrow> pyval list \<Rightarrow> pyval list \<Rightarrow> pydict res" where
  "emit_inventory cfg world swarm drones antennas =
     bindR (dget_item cfg ''station'') (\<lambda>station.
     bindR (pget world ''assets'' (PList [])) (\<lambda>assets.
     bindR (plen assets) (\<lambda>world_count.
       Inr [(''station'', station), (''drones'', PList drones), (''antennas'', PList antennas),
            (''antenna_count'', PInt (int (length antennas))), (''worlds'', assets),
            (''world_count'', PInt world_count)])))"

text \<open>The envelope of a migrated configuration.\<close>

definition emit_envelope :: "libm \<Rightarrow> pydict \<Rightarrow> pydict res" where
  "emit_envelope lm cfg =
     bindR (dget_item cfg ''swarm'') (\<lambda>swarm.
     bindR (dget_item cfg ''topology'') (\<lambda>topology.
     bindR (dget_item cfg ''communication'') (\<lambda>comm.
     bindR (dget_item cfg ''world'') (\<lambda>world.
     bindR (dget_item cfg ''visualization'') (\<lambda>visualization.
     bindR (dget_item cfg ''antennas'') (\<lambda>antennas.
     bindR (bindR (pitem swarm ''drones'') ptuple) (\<lambda>drones.
     bindR (if drones = [] then Inr [] else bindR (pitems antennas) (\<lambda>a. mapR (emit_drone a) drones)) (\<lambda>legacy_drones.
     bindR (pitems antennas) (\<lambda>a.
     bindR (bindR (ptuple (dget a ''definitions'' (PList []))) (mapR (emit_antenna a comm)))
       (\<lambda>legacy_antennas.
     bindR (emit_scenario cfg swarm topology) (\<lambda>scenario.
     bindR (emit_region cfg swarm world comm) (\<lambda>region.
     bindR (emit_inventory cfg world swarm legacy_drones legacy_antennas) (\<lambda>inventory.
     bindR (bindR (pitems comm) (emit_radio lm)) (\<lambda>radio.
     bindR (dget_item cfg ''traffic'') (\<lambda>traffic.
     bindR (first_packet_size traffic) (\<lambda>payload_bytes.
     bindR (pitem world ''environment'') (\<lambda>environment.
     bindR (pitem swarm ''energy'') (\<lambda>energy.
     bindR (emit_visual visualization swarm comm) (\<lambda>visual.
       Inr (scenario @ region @ inventory
            @ [(''radio'', PDict radio),
               (''message'', PDict [(''payload'', PStr service_payload), (''payload_bytes'', payload_bytes)]),
               (''traffic'', traffic), (''environment'', environment), (''energy'', energy),
               (''visual'', PDict visual), (''v6'', PDict cfg), (''v5'', PDict cfg)]))))))))))))))))))))"

definition emit_legacy_config :: "libm \<Rightarrow> env \<Rightarrow> pydict \<Rightarrow> pydict res" where
  "emit_legacy_config lm w config = bindR (migrate_legacy_config w config) (emit_envelope lm)"

section \<open>Loading and saving\<close>

definition load_experiment :: "env \<Rightarrow> files \<Rightarrow> string \<Rightarrow> pyval res" where
  "load_experiment w fs path =
     (case fs path of
        None \<Rightarrow> Inr (PDict (default_experiment w))
      | Some (PDict d) \<Rightarrow> bindR (validate_experiment w d False) (\<lambda>v. dget_item v ''config'')
      | Some _ \<Rightarrow> Inl (NetlabError ''CONFIG_ROOT_TYPE''))"

definition save_experiment :: "libm \<Rightarrow> env \<Rightarrow> files \<Rightarrow> string \<Rightarrow> pydict \<Rightarrow> bool \<Rightarrow> (files \<times> pydict) res" where
  "save_experiment lm w fs path config emit_legacy =
     bindR (validate_experiment w config True) (\<lambda>v.
       bindR (bindR (dget_item v ''config'') pitems) (\<lambda>validated.
         bindR (if emit_legacy then emit_legacy_config lm w validated else Inr validated) (\<lambda>payload.
           bindR (write_json fs path (PDict payload)) (\<lambda>fs1. Inr (fs1, payload)))))"

end
