(* ===== verification/Config_Merge.thy ===== *)
theory Config_Merge
  imports Config_Defaults
begin

text \<open>
  Laws of \<open>deep_merge\<close> up to the order of keys, which is what the saved JSON and the configuration
  hash depend on: lookup in the merge, and that merging a document over defaults it already covers
  gives the document back.
\<close>

section \<open>Equality up to key order\<close>

text \<open>The sorted form of a dictionary without repeated keys is determined by its lookups.\<close>

lemma sorted_keys_eq:
  assumes "sorted (map fst xs)" and "sorted (map fst ys)"
    and d: "distinct (map fst xs)" "distinct (map fst ys)" and eq: "map_of xs = map_of ys"
  shows "xs = ys"
proof -
  have s: "set xs = set ys" using d eq by (metis map_of_inject_set)
  have "inj_on fst (set xs \<union> set ys)" using d(1) by (simp add: s [symmetric] distinct_map)
  then show ?thesis using assms(1) d(1) assms(2) d(2) s by (rule map_sorted_distinct_set_unique)
qed

lemma json_norm_ext:
  assumes "distinct (dict_keys a)" and "distinct (dict_keys b)"
    and "\<And>k. map_option json_norm (map_of a k) = map_option json_norm (map_of b k)"
  shows "json_norm (PDict a) = json_norm (PDict b)"
proof -
  let ?n = "\<lambda>d. sort_key fst (map (\<lambda>(k, v). (k, json_norm v)) d)"
  have dist: "distinct (map fst (?n d))" if "distinct (dict_keys d)" for d :: pydict
    using json_norm_keys_distinct [where d = d] that by (simp add: dict_keys_def)
  have "map_of (?n a) = map_of (?n b)"
    using assms(3) by (intro ext) (simp add: map_of_sort_key map_of_json_items)
  with assms(1,2) have "?n a = ?n b" by (intro sorted_keys_eq dist) simp_all
  then show ?thesis by simp
qed

lemma keys_ok_dict: "keys_ok (PDict d) \<Longrightarrow> distinct (dict_keys d)"
  by simp

lemma keys_ok_lookup: "keys_ok (PDict d) \<Longrightarrow> map_of d k = Some v \<Longrightarrow> keys_ok v"
  by (auto dest: map_of_SomeD)

lemma keys_ok_dset: "keys_ok (PDict d) \<Longrightarrow> keys_ok v \<Longrightarrow> keys_ok (PDict (dset k v d))"
proof -
  assume d: "keys_ok (PDict d)" and v: "keys_ok v"
  have "set (dset k v d) \<subseteq> insert (k, v) (set d)" unfolding dset_def by (induction d) auto
  with d v distinct_dset show ?thesis by fastforce
qed

lemma keys_ok_json_norm: "keys_ok v \<Longrightarrow> keys_ok (json_norm v)"
proof (induction v rule: json_norm.induct)
  case (2 d)
  then have "distinct (dict_keys (as_dict (json_norm (PDict d))))" by (intro json_norm_keys_distinct) simp
  with 2 show ?case by (fastforce simp: set_json_norm_items)
qed auto

section \<open>Lookup in a merge\<close>

definition merge_value :: "pyval \<Rightarrow> pyval \<Rightarrow> pyval" where
  "merge_value old v =
     (case (v, old) of (PDict inner, PDict d) \<Rightarrow> PDict (deep_merge d inner) | _ \<Rightarrow> v)"

lemma deep_merge_Cons:
  "deep_merge base ((k, v) # rest) = deep_merge (dset k (merge_value (dget base k PNone) v) base) rest"
  by (simp add: merge_value_def split: pyval.splits)

lemma map_of_deep_merge:
  "distinct (dict_keys override) \<Longrightarrow> map_of (deep_merge base override) k =
     (case map_of override k of None \<Rightarrow> map_of base k
      | Some v \<Rightarrow> Some (merge_value (dget base k PNone) v))"
proof (induction override arbitrary: base)
  case Nil
  then show ?case by simp
next
  case (Cons p override)
  obtain j v where p: "p = (j, v)" by (cases p)
  from Cons.prems p have j: "map_of override j = None" and d: "distinct (dict_keys override)"
    by (auto simp: dict_keys_def map_of_eq_None_iff)
  from Cons.IH [OF d] j show ?case
    unfolding p deep_merge_Cons by (cases "k = j") (auto split: option.splits)
qed

lemma keys_ok_deep_merge:
  "keys_ok (PDict base) \<Longrightarrow> keys_ok (PDict override) \<Longrightarrow> keys_ok (PDict (deep_merge base override))"
proof (induction base override rule: deep_merge.induct)
  case (1 base)
  then show ?case by simp
next
  case (2 base k v rest)
  have v: "keys_ok v" and rest: "keys_ok (PDict rest)" using 2(4) by auto
  have "keys_ok (merge_value (dget base k PNone) v)"
  proof (cases "is_mapping v \<and> is_mapping (dget base k PNone)")
    case True
    then obtain inner old where e: "v = PDict inner" "dget base k PNone = PDict old"
      by (metis is_mapping.elims(2))
    then have "map_of base k = Some (PDict old)" by (auto simp: dget_def split: option.splits)
    with 2(3) have "keys_ok (PDict old)" by (rule keys_ok_lookup)
    with 2(1) [of v "dget base k PNone" inner old] e v show ?thesis by (simp add: merge_value_def)
  next
    case False
    with v show ?thesis by (auto simp: merge_value_def split: pyval.splits)
  qed
  then have "keys_ok (PDict (dset k (merge_value (dget base k PNone) v) base))" by (rule keys_ok_dset [OF 2(3)])
  with 2(2) rest show ?case unfolding deep_merge_Cons merge_value_def by simp
qed

lemma size_member: "(k, v) \<in> set d \<Longrightarrow> size v < size (PDict d)"
  by (induction d) auto

text \<open>Merging a document over itself gives it back, order of keys included.\<close>

lemma dset_present: "map_of d k = Some v \<Longrightarrow> distinct (dict_keys d) \<Longrightarrow> dset k v d = d"
  by (induction d) (auto simp: dict_keys_def)

lemma deep_merge_present:
  "(\<And>k v. (k, v) \<in> set override \<Longrightarrow> map_of base k = Some v \<and> (\<forall>i. v = PDict i \<longrightarrow> deep_merge i i = i)) \<Longrightarrow>
     distinct (dict_keys base) \<Longrightarrow> deep_merge base override = base"
proof (induction override)
  case Nil
  then show ?case by simp
next
  case (Cons p override)
  obtain k v where p: "p = (k, v)" by (cases p)
  from Cons.prems(1) [of k v] p have kv: "map_of base k = Some v" "\<forall>i. v = PDict i \<longrightarrow> deep_merge i i = i" by auto
  then have "merge_value (dget base k PNone) v = v"
    by (auto simp: merge_value_def dget_def split: pyval.splits)
  moreover have "deep_merge base override = base" by (rule Cons.IH) (use Cons.prems p in auto)
  ultimately show ?case using dset_present [OF kv(1) Cons.prems(2)]
    unfolding p deep_merge_Cons by simp
qed

lemma deep_merge_self: "keys_ok (PDict d) \<Longrightarrow> deep_merge d d = d"
proof (induction "size (PDict d)" arbitrary: d rule: less_induct)
  case less
  show ?case
  proof (rule deep_merge_present)
    show "distinct (dict_keys d)" using less.prems by simp
    fix k v assume kv: "(k, v) \<in> set d"
    with less.prems have "map_of d k = Some v" by (intro map_of_is_SomeI) (auto simp: dict_keys_def)
    moreover have "deep_merge i i = i" if "v = PDict i" for i
      using less.hyps [of i] size_member [OF kv] keys_ok_lookup [OF less.prems \<open>map_of d k = Some v\<close>] that by simp
    ultimately show "map_of d k = Some v \<and> (\<forall>i. v = PDict i \<longrightarrow> deep_merge i i = i)" by blast
  qed
qed

section \<open>Documents that cover the defaults\<close>

text \<open>
  \<open>covers d m\<close>: the document \<open>m\<close> has every key of \<open>d\<close>, also inside the sections that are mappings in
  both. \<open>matches d b\<close>: moreover the mappings of \<open>d\<close> are mappings in \<open>b\<close>.
\<close>

fun covers :: "pydict \<Rightarrow> pydict \<Rightarrow> bool" where
  "covers [] m = True"
| "covers ((k, v) # d) m =
     ((case map_of m k of
         None \<Rightarrow> False
       | Some x \<Rightarrow> (case v of PDict a \<Rightarrow> (case x of PDict b \<Rightarrow> covers a b | _ \<Rightarrow> True) | _ \<Rightarrow> True))
      \<and> covers d m)"

fun matches :: "pydict \<Rightarrow> pydict \<Rightarrow> bool" where
  "matches [] m = True"
| "matches ((k, v) # d) m =
     ((case map_of m k of
         None \<Rightarrow> False
       | Some x \<Rightarrow> (case v of PDict a \<Rightarrow> (case x of PDict b \<Rightarrow> matches a b | _ \<Rightarrow> False) | _ \<Rightarrow> True))
      \<and> matches d m)"

lemma covers_lookup:
  "covers d m \<Longrightarrow> map_of d k = Some v \<Longrightarrow>
     \<exists>x. map_of m k = Some x \<and> (\<forall>a b. v = PDict a \<longrightarrow> x = PDict b \<longrightarrow> covers a b)"
  by (induction d) (auto split: option.splits if_splits pyval.splits)

lemma coversI:
  "(\<And>k v. (k, v) \<in> set d \<Longrightarrow>
      \<exists>x. map_of m k = Some x \<and> (\<forall>a b. v = PDict a \<longrightarrow> x = PDict b \<longrightarrow> covers a b)) \<Longrightarrow> covers d m"
proof (induction d)
  case Nil
  then show ?case by simp
next
  case (Cons p d)
  obtain k v where p: "p = (k, v)" by (cases p)
  from Cons.prems [of k v] p obtain x where "map_of m k = Some x" "\<forall>a b. v = PDict a \<longrightarrow> x = PDict b \<longrightarrow> covers a b"
    by auto
  moreover have "covers d m" by (rule Cons.IH) (use Cons.prems in auto)
  ultimately show ?case unfolding p by (auto split: pyval.splits)
qed

lemma matches_lookup:
  "matches d m \<Longrightarrow> (k, v) \<in> set d \<Longrightarrow>
     \<exists>x. map_of m k = Some x \<and> (\<forall>a. v = PDict a \<longrightarrow> (\<exists>b. x = PDict b \<and> matches a b))"
  by (induction d) (auto split: option.splits if_splits pyval.splits)

lemma matchesI:
  "(\<And>k v. (k, v) \<in> set d \<Longrightarrow>
      \<exists>x. map_of m k = Some x \<and> (\<forall>a. v = PDict a \<longrightarrow> (\<exists>b. x = PDict b \<and> matches a b))) \<Longrightarrow> matches d m"
proof (induction d)
  case Nil
  then show ?case by simp
next
  case (Cons p d)
  obtain k v where p: "p = (k, v)" by (cases p)
  from Cons.prems [of k v] p obtain x where "map_of m k = Some x" "\<forall>a. v = PDict a \<longrightarrow> (\<exists>b. x = PDict b \<and> matches a b)"
    by auto
  moreover have "matches d m" by (rule Cons.IH) (use Cons.prems in auto)
  ultimately show ?case unfolding p by (auto split: pyval.splits)
qed

lemma matches_refl: "keys_ok (PDict d) \<Longrightarrow> matches d d"
proof (induction "size (PDict d)" arbitrary: d rule: less_induct)
  case less
  show ?case
  proof (rule matchesI)
    fix k v assume kv: "(k, v) \<in> set d"
    with less.prems have "map_of d k = Some v" by (intro map_of_is_SomeI) (auto simp: dict_keys_def)
    moreover have "\<forall>a. v = PDict a \<longrightarrow> matches a a"
      using less.hyps size_member [OF kv] less.prems kv by fastforce
    ultimately show "\<exists>x. map_of d k = Some x \<and> (\<forall>a. v = PDict a \<longrightarrow> (\<exists>b. x = PDict b \<and> matches a b))" by blast
  qed
qed

lemma matches_covers: "matches d m \<Longrightarrow> covers d m"
  by (induction d m rule: covers.induct) (auto split: option.splits pyval.splits)

lemma covers_merge_over:
  "matches d base \<Longrightarrow> keys_ok (PDict override) \<Longrightarrow> covers d (deep_merge base override)"
proof (induction "size (PDict override)" arbitrary: d base override rule: less_induct)
  case less
  show ?case
  proof (rule coversI)
    fix k v assume "(k, v) \<in> set d"
    from matches_lookup [OF less.prems(1) this] obtain x where x: "map_of base k = Some x"
      and sub: "\<forall>a. v = PDict a \<longrightarrow> (\<exists>b. x = PDict b \<and> matches a b)" by auto
    note look = map_of_deep_merge [OF keys_ok_dict [OF less.prems(2)], of base k]
    show "\<exists>y. map_of (deep_merge base override) k = Some y \<and> (\<forall>a b. v = PDict a \<longrightarrow> y = PDict b \<longrightarrow> covers a b)"
    proof (cases "map_of override k")
      case None
      have "covers a b" if "v = PDict a" "x = PDict b" for a b
        using sub that matches_covers by auto
      with None look x show ?thesis by auto
    next
      case (Some u)
      then have mem: "(k, u) \<in> set override" by (rule map_of_SomeD)
      have "covers a b" if v: "v = PDict a" and b: "merge_value x u = PDict b" for a b
      proof -
        from sub v obtain c where c: "x = PDict c" "matches a c" by blast
        from b c obtain inner where inner: "u = PDict inner" "b = deep_merge c inner"
          by (cases u) (auto simp: merge_value_def)
        have "size (PDict inner) < size (PDict override)" using size_member [OF mem] inner by simp
        moreover have "keys_ok (PDict inner)" using keys_ok_lookup [OF less.prems(2) Some] inner by simp
        ultimately show ?thesis using less.hyps c(2) inner(2) by blast
      qed
      with Some look x show ?thesis by (auto simp: dget_def)
    qed
  qed
qed

lemma merge_covered:
  "covers d m \<Longrightarrow> keys_ok (PDict d) \<Longrightarrow> keys_ok (PDict m) \<Longrightarrow>
     json_norm (PDict (deep_merge d m)) = json_norm (PDict m)"
proof (induction "size (PDict m)" arbitrary: d m rule: less_induct)
  case less
  show ?case
  proof (rule json_norm_ext)
    show "distinct (dict_keys (deep_merge d m))"
      by (rule keys_ok_dict) (rule keys_ok_deep_merge [OF less.prems(2,3)])
    show "distinct (dict_keys m)" by (rule keys_ok_dict [OF less.prems(3)])
    fix k
    note look = map_of_deep_merge [OF keys_ok_dict [OF less.prems(3)], of d k]
    show "map_option json_norm (map_of (deep_merge d m) k) = map_option json_norm (map_of m k)"
    proof (cases "map_of m k")
      case None
      with covers_lookup [OF less.prems(1)] have "map_of d k = None" by (metis not_None_eq option.simps(3))
      with None look show ?thesis by simp
    next
      case (Some v)
      have "json_norm (merge_value (dget d k PNone) v) = json_norm v"
      proof (cases "is_mapping v \<and> is_mapping (dget d k PNone)")
        case True
        then obtain inner old where e: "v = PDict inner" "dget d k PNone = PDict old"
          by (metis is_mapping.elims(2))
        then have d: "map_of d k = Some (PDict old)" by (auto simp: dget_def split: option.splits)
        with covers_lookup [OF less.prems(1) d] Some e have "covers old inner" by auto
        moreover have "size (PDict inner) < size (PDict m)"
          using size_member [OF map_of_SomeD [OF Some]] e by simp
        moreover have "keys_ok (PDict old)" "keys_ok (PDict inner)"
          using keys_ok_lookup [OF less.prems(2) d] keys_ok_lookup [OF less.prems(3) Some] e by simp_all
        ultimately have "json_norm (PDict (deep_merge old inner)) = json_norm (PDict inner)"
          using less.hyps by blast
        with e show ?thesis by (simp add: merge_value_def del: json_norm.simps)
      next
        case False
        then show ?thesis by (auto simp: merge_value_def split: pyval.splits)
      qed
      with Some look show ?thesis by simp
    qed
  qed
qed

lemma covers_member:
  "covers d m \<Longrightarrow> (k, v) \<in> set d \<Longrightarrow>
     \<exists>x. map_of m k = Some x \<and> (\<forall>a b. v = PDict a \<longrightarrow> x = PDict b \<longrightarrow> covers a b)"
  by (induction d) (auto split: option.splits if_splits pyval.splits)

lemma covers_iff:
  "covers d m \<longleftrightarrow> (\<forall>(k, v)\<in>set d. \<exists>x. map_of m k = Some x
     \<and> (\<forall>a b. v = PDict a \<longrightarrow> x = PDict b \<longrightarrow> covers a b))"
  using covers_member [of d m] coversI [of d m] by blast

lemma covers_json_norm: "covers d (as_dict (json_norm (PDict m))) \<longleftrightarrow> covers d m"
proof (induction "size (PDict m)" arbitrary: d m rule: less_induct)
  case less
  have "(\<exists>y. map_of (as_dict (json_norm (PDict m))) k = Some y \<and> (\<forall>a b. v = PDict a \<longrightarrow> y = PDict b \<longrightarrow> covers a b))
    \<longleftrightarrow> (\<exists>x. map_of m k = Some x \<and> (\<forall>a b. v = PDict a \<longrightarrow> x = PDict b \<longrightarrow> covers a b))" for k v
  proof (cases "map_of m k")
    case None
    then show ?thesis unfolding json_norm_dict_lookup by simp
  next
    case (Some x)
    have "(\<forall>a b. v = PDict a \<longrightarrow> json_norm x = PDict b \<longrightarrow> covers a b) \<longleftrightarrow>
        (\<forall>a b. v = PDict a \<longrightarrow> x = PDict b \<longrightarrow> covers a b)"
    proof (cases x)
      case (PDict c)
      have "size (PDict c) < size (PDict m)" using size_member [OF map_of_SomeD [OF Some]] PDict by simp
      with less.hyps have "covers a (as_dict (json_norm (PDict c))) \<longleftrightarrow> covers a c" for a by blast
      with PDict show ?thesis by auto
    qed auto
    with Some show ?thesis unfolding json_norm_dict_lookup by simp
  qed
  then show ?case unfolding covers_iff [of d] by blast
qed

section \<open>The defaults\<close>

lemmas default_sections =
  default_clock_def default_environment_def default_world_def default_service_region_def default_station_def
  default_controller_def default_mobility_def default_energy_def default_swarm_def default_topology_def
  default_communication_def ground_sector_antenna_def uav_omni_antenna_def default_antennas_def
  default_flow_def default_traffic_def default_failures_def default_visualization_def
  default_evidence_def default_runtime_def default_compatibility_def

lemma keys_ok_drone: "keys_ok (PDict (default_drone i relay))"
  by (simp add: default_drone_def)

lemma keys_ok_drones: "keys_ok (PList (default_drones n relay))"
  using keys_ok_drone by (auto simp: default_drones_def simp del: keys_ok.simps(2))

lemma keys_ok_assignments:
  "keys_ok (PDict ((''station'', PStr s) # map (\<lambda>i. (drone_name i, PStr t)) (int_range 1 n)))"
  by (auto simp: dict_keys_def o_def drone_name_def distinct_map inj_on_def distinct_int_range)

lemma default_experiment_keys_ok: "keys_ok (PDict (default_experiment w))"
proof -
  have "keys_ok (PDict default_antennas)"
    using keys_ok_assignments
    by (simp add: default_antennas_def ground_sector_antenna_def uav_omni_antenna_def del: int_range_def)
  moreover have "keys_ok (PDict default_swarm)"
    using keys_ok_drones by (simp add: default_swarm_def default_controller_def default_mobility_def default_energy_def)
  ultimately show ?thesis
    by (simp add: default_experiment_def default_meta_def default_sections)
qed

lemma default_matches: "matches (default_experiment w) (default_experiment w')"
proof -
  have same: "matches d d" if "keys_ok (PDict d)" for d using that by (rule matches_refl)
  have "matches (default_meta t) (default_meta t')" for t t'
    by (simp add: default_meta_def)
  with default_experiment_keys_ok [of w] show ?thesis
    unfolding default_experiment_def by (simp add: same)
qed

end
