(* ===== verification/Config_Props.thy ===== *)
theory Config_Props
  imports Config_Legacy Config_Merge
begin

text \<open>
  Properties of the experiment configuration: migration settles after one application, what is saved
  loads back with the same hash, a strictly validated configuration is well formed, and the
  branches dealt out by the migration of a flat document partition the relays.
\<close>

section \<open>Migration\<close>

definition merged :: "env \<Rightarrow> pydict \<Rightarrow> pydict" where
  "merged w config = deep_merge (default_experiment w) config"

lemma merged_lookup:
  assumes "keys_ok (PDict config)"
  shows "map_of (merged w config) k =
     (case map_of config k of None \<Rightarrow> map_of (default_experiment w) k
      | Some v \<Rightarrow> Some (merge_value (dget (default_experiment w) k PNone) v))"
  unfolding merged_def by (rule map_of_deep_merge) (rule keys_ok_dict [OF assms])

lemma merged_keys_ok: "keys_ok (PDict config) \<Longrightarrow> keys_ok (PDict (merged w config))"
  unfolding merged_def by (rule keys_ok_deep_merge [OF default_experiment_keys_ok])

lemma merged_covers: "keys_ok (PDict config) \<Longrightarrow> covers (default_experiment w') (merged w config)"
  unfolding merged_def by (rule covers_merge_over [OF default_matches])

lemma merge_value_mapping [simp]: "is_mapping (merge_value old v) = is_mapping v"
  by (auto simp: merge_value_def split: pyval.splits)

lemma merge_value_other: "\<not> is_mapping old \<Longrightarrow> merge_value old v = v"
  by (auto simp: merge_value_def split: pyval.splits)

lemma is_versioned_iff:
  "is_versioned config \<longleftrightarrow> map_of config ''schema_version'' = Some (PStr schema_version)
     \<and> (\<exists>e. map_of config ''experiment'' = Some (PDict e))"
  by (auto simp: is_versioned_def py_eq_PStr_right dget_def split: option.splits elim: is_mapping.elims)

lemma is_versioned_norm: "is_versioned (as_dict (json_norm (PDict m))) \<longleftrightarrow> is_versioned m"
  unfolding is_versioned_iff json_norm_dict_lookup by (auto simp: json_norm_PDict_iff simp del: json_norm.simps)

lemma default_schema [simp]:
  "map_of (default_experiment w) ''schema_version'' = Some (PStr schema_version)"
  "map_of (default_experiment w) ''experiment'' = Some (PDict (default_meta (env_now w)))"
  by (simp_all add: default_experiment_def)

lemma merged_versioned:
  assumes "keys_ok (PDict config)" and "is_versioned config"
  shows "is_versioned (merged w config)"
  using assms(2) unfolding is_versioned_iff merged_lookup [OF assms(1)]
  by (auto simp: merge_value_def dget_def)

text \<open>Migrating a versioned document a second time changes nothing but the order of keys.\<close>

lemma migrate_versioned: "is_versioned config \<Longrightarrow> migrate_legacy_config w config = Inr (merged w config)"
  by (simp add: migrate_legacy_config_def merged_def)

lemma merge_of_merged:
  assumes "keys_ok (PDict config)" and m: "json_norm (PDict m) = json_norm (PDict (merged w config))"
    and "keys_ok (PDict m)"
  shows "json_norm (PDict (merged w' m)) = json_norm (PDict (merged w config))"
proof -
  have "covers (default_experiment w') (as_dict (json_norm (PDict m)))"
    unfolding m covers_json_norm by (rule merged_covers [OF assms(1)])
  then have "covers (default_experiment w') m" unfolding covers_json_norm .
  from merge_covered [OF this default_experiment_keys_ok assms(3)] m show ?thesis
    by (simp add: merged_def)
qed

section \<open>The envelope carries the document\<close>

lemma copy_fields_keys: "copy_fields v keys = Inr out \<Longrightarrow> dict_keys out = map fst keys"
  unfolding copy_fields_def
  by (induction keys arbitrary: out) (auto simp: bindR_Inr_iff dict_keys_def)

lemma emit_scenario_keys:
  assumes "emit_scenario cfg swarm topology = Inr d"
  shows "map_of d ''schema_version'' = map_of cfg ''schema_version''"
    and "''experiment'' \<notin> set (dict_keys d)" and "''v6'' \<notin> set (dict_keys d)"
proof -
  from assms obtain version ex a b c e f g where v: "dget_item cfg ''schema_version'' = Inr version"
    and a: "copy_fields ex [(''experiment_name'', ''name''), (''scenario_id'', ''id''), (''seed'', ''seed''),
               (''duration_s'', ''duration_s''), (''fidelity_profile'', ''fidelity_profile'')] = Inr a"
    and b: "copy_fields swarm [(''drone_count'', ''drone_count''), (''relay_count'', ''relay_count''),
              (''standby_count'', ''standby_count'')] = Inr b"
    and c: "copy_fields topology [(''transmission_mode'', ''mode''), (''manual_branches'', ''branches'')] = Inr c"
    and d: "d = (''schema_version'', version) # a @ b
            @ [(''failed_indices'', e), (''branch_count'', f)] @ c @ [(''topology'', g)]"
    unfolding emit_scenario_def bindR_Inr_iff sum.inject by blast
  have "dict_keys d = ''schema_version'' # dict_keys a @ dict_keys b @ [''failed_indices'', ''branch_count'']
      @ dict_keys c @ [''topology'']"
    by (simp add: d dict_keys_def)
  with copy_fields_keys [OF a] copy_fields_keys [OF b] copy_fields_keys [OF c]
  show "''experiment'' \<notin> set (dict_keys d)" "''v6'' \<notin> set (dict_keys d)" by simp_all
  show "map_of d ''schema_version'' = map_of cfg ''schema_version''"
    using v by (simp add: d dget_item_Inr_iff)
qed

lemma emit_region_keys:
  assumes "emit_region cfg swarm world comm = Inr d"
  shows "''experiment'' \<notin> set (dict_keys d)" and "''v6'' \<notin> set (dict_keys d)"
proof -
  from assms obtain a b c hop det model amp speed rad where
    a: "\<exists>x. copy_fields x [(''coverage_radius_m'', ''length_m''), (''coverage_width_m'', ''width_m''),
               (''altitude_start_m'', ''min_altitude_m''), (''altitude_end_m'', ''max_altitude_m'')] = Inr a"
    and b: "\<exists>x. copy_fields x [(''wind_speed_mps'', ''wind_speed_mps''), (''wind_direction_deg'', ''wind_direction_deg''),
               (''turbulence_intensity'', ''turbulence_intensity'')] = Inr b"
    and c: "copy_fields comm [(''max_single_hop_range_m'', ''operational_range_m''),
              (''hard_outage_range_m'', ''hard_outage_distance_m'')] = Inr c"
    and d: "d = [(''hop_period_s'', hop), (''failure_detection_s'', det)] @ a
            @ [(''direction_deg'', flit 0), (''movement_pattern'', model), (''movement_amplitude_m'', amp),
               (''movement_speed'', speed), (''visual_follow_alpha'', flit (18 / 100))] @ b
            @ [(''standby_activation_radius_m'', rad)] @ c
            @ [(''allow_degraded_forwarding'', PBool False),
               (''distance_penalty_db_per_m_after_soft_range'', flit (22 / 100))]"
    unfolding emit_region_def bindR_Inr_iff by blast
  have "dict_keys d = [''hop_period_s'', ''failure_detection_s''] @ dict_keys a
      @ [''direction_deg'', ''movement_pattern'', ''movement_amplitude_m'', ''movement_speed'', ''visual_follow_alpha'']
      @ dict_keys b @ [''standby_activation_radius_m''] @ dict_keys c
      @ [''allow_degraded_forwarding'', ''distance_penalty_db_per_m_after_soft_range'']"
    by (simp add: d dict_keys_def)
  with a b copy_fields_keys copy_fields_keys [OF c]
  show "''experiment'' \<notin> set (dict_keys d)" "''v6'' \<notin> set (dict_keys d)" by fastforce+
qed

lemma emit_inventory_keys:
  assumes "emit_inventory cfg world swarm ds as = Inr d"
  shows "dict_keys d = [''station'', ''drones'', ''antennas'', ''antenna_count'', ''worlds'', ''world_count'']"
  using assms unfolding emit_inventory_def by (auto simp: bindR_Inr_iff dict_keys_def)

lemma map_of_not_key: "k \<notin> set (dict_keys d) \<Longrightarrow> map_of d k = None"
  by (simp add: dict_keys_def map_of_eq_None_iff)

lemma envelope_document:
  assumes "emit_envelope lm cfg = Inr payload"
  shows "map_of payload ''experiment'' = None" and "map_of payload ''v6'' = Some (PDict cfg)"
proof -
  from assms obtain scenario region inventory radio msg traffic environment energy visual where
    s: "\<exists>swarm topology. emit_scenario cfg swarm topology = Inr scenario"
    and r: "\<exists>swarm world comm. emit_region cfg swarm world comm = Inr region"
    and i: "\<exists>world swarm ds as. emit_inventory cfg world swarm ds as = Inr inventory"
    and p: "payload = scenario @ region @ inventory
            @ [(''radio'', radio), (''message'', msg), (''traffic'', traffic), (''environment'', environment),
               (''energy'', energy), (''visual'', visual), (''v6'', PDict cfg), (''v5'', PDict cfg)]"
    unfolding emit_envelope_def bindR_Inr_iff by blast
  from s emit_scenario_keys have "map_of scenario ''experiment'' = None" "map_of scenario ''v6'' = None"
    by (auto intro!: map_of_not_key)
  moreover from r emit_region_keys have "map_of region ''experiment'' = None" "map_of region ''v6'' = None"
    by (auto intro!: map_of_not_key)
  moreover from i emit_inventory_keys have "map_of inventory ''experiment'' = None" "map_of inventory ''v6'' = None"
    by (auto intro!: map_of_not_key)
  ultimately show "map_of payload ''experiment'' = None" "map_of payload ''v6'' = Some (PDict cfg)"
    unfolding p by (simp_all add: map_add_def)
qed

section \<open>Saving and loading\<close>

lemma norm_lookup:
  "json_norm (PDict a) = json_norm (PDict b) \<Longrightarrow> map_option json_norm (map_of a k) = map_option json_norm (map_of b k)"
  using json_norm_dict_lookup [of a k] json_norm_dict_lookup [of b k] by (simp del: json_norm.simps)

lemma is_mapping_norm [simp]: "is_mapping (json_norm v) = is_mapping v"
  by (cases v) simp_all

lemma norm_is_mapping:
  assumes "json_norm (PDict a) = json_norm (PDict b)"
  shows "is_mapping (dget a k (PDict [])) = is_mapping (dget b k (PDict []))"
proof -
  from norm_lookup [OF assms, of k] show ?thesis
    by (auto simp: dget_def split: option.splits) (metis is_mapping_norm)+
qed

lemma norm_versioned:
  assumes "json_norm (PDict a) = json_norm (PDict b)"
  shows "is_versioned a = is_versioned b"
  using is_versioned_norm [of a] is_versioned_norm [of b] assms by simp

lemma pitems_returns: "(\<exists>d. pitems v = Inr d) \<longleftrightarrow> is_mapping v"
  by (cases v) (simp_all add: pitems_def)

definition sections_mapped :: "pydict \<Rightarrow> bool" where
  "sections_mapped cfg \<longleftrightarrow>
     (\<forall>k\<in>{''experiment'', ''world'', ''swarm'', ''topology'', ''communication''}. is_mapping (dget cfg k (PDict [])))"

lemma pitems_Inr: "is_mapping v \<Longrightarrow> pitems v = Inr (as_dict v)"
  by (cases v) (simp_all add: pitems_def)

lemma check_meta_returns: "(\<exists>e. check_meta cfg = Inr e) \<longleftrightarrow> is_mapping (dget cfg ''experiment'' (PDict []))"
  using pitems_returns [of "dget cfg ''experiment'' (PDict [])"] by (auto simp: check_meta_def bindR_Inr_iff)

lemma check_experiment_returns: "(\<exists>rep. check_experiment cfg = Inr rep) \<longleftrightarrow> sections_mapped cfg"
proof
  assume "\<exists>rep. check_experiment cfg = Inr rep"
  then obtain me a b c d where "check_meta cfg = Inr me" "pitems (dget cfg ''world'' (PDict [])) = Inr a"
    "pitems (dget cfg ''swarm'' (PDict [])) = Inr b" "pitems (dget cfg ''topology'' (PDict [])) = Inr c"
    "pitems (dget cfg ''communication'' (PDict [])) = Inr d"
    unfolding check_experiment_def bindR_Inr_iff by blast
  then show "sections_mapped cfg"
    using check_meta_returns [of cfg] pitems_returns unfolding sections_mapped_def by auto
next
  assume s: "sections_mapped cfg"
  then obtain me where "check_meta cfg = Inr me"
    using check_meta_returns [of cfg] unfolding sections_mapped_def by auto
  moreover from s have "pitems (dget cfg k (PDict [])) = Inr (as_dict (dget cfg k (PDict [])))"
    if "k \<in> {''world'', ''swarm'', ''topology'', ''communication''}" for k
    using pitems_Inr that unfolding sections_mapped_def by auto
  ultimately show "\<exists>rep. check_experiment cfg = Inr rep"
    unfolding check_experiment_def by (simp split: prod.split)
qed

lemma validate_lenient:
  assumes "migrate_legacy_config w d = Inr r" and "sections_mapped r"
  shows "\<exists>v. validate_experiment w d False = Inr v \<and> dget_item v ''config'' = Inr (PDict r)"
proof -
  from assms(2) obtain errors warnings where "check_experiment r = Inr (errors, warnings)"
    using check_experiment_returns [of r] by auto
  with assms(1) show ?thesis by (simp add: validate_experiment_def dget_item_def)
qed

lemma validate_Inr:
  assumes "validate_experiment w config strict = Inr v"
  shows "\<exists>m errors warnings. migrate_legacy_config w config = Inr m \<and> check_experiment m = Inr (errors, warnings)
     \<and> dget_item v ''config'' = Inr (PDict m) \<and> (strict \<longrightarrow> errors = []) \<and> dget v ''errors'' PNone = PList errors"
  using assms unfolding validate_experiment_def
  by (auto simp: bindR_Inr_iff dget_item_def split: if_splits)

text \<open>What is on disk after a save: the document itself, or the envelope that carries it.\<close>

lemma saved_document:
  assumes ok: "keys_ok (PDict config)" "is_versioned config"
    and save: "save_experiment lm w fs path config el = Inr (fs', payload)"
  shows "\<exists>d m'. fs' path = Some (PDict d) \<and> sections_mapped (merged w config)
    \<and> json_norm (PDict m') = json_norm (PDict (merged w config)) \<and> keys_ok (PDict m')
    \<and> (\<forall>w'. migrate_legacy_config w' d = Inr (merged w' m'))"
proof -
  let ?m = "merged w config"
  from save obtain v validated where v: "validate_experiment w config True = Inr v"
    and val: "bindR (dget_item v ''config'') pitems = Inr validated"
    and pay: "(if el then emit_legacy_config lm w validated else Inr validated) = Inr payload"
    and wr: "write_json fs path (PDict payload) = Inr fs'"
    unfolding save_experiment_def by (auto simp: bindR_Inr_iff)
  from validate_Inr [OF v] migrate_versioned [OF ok(2)] obtain e where
    chk: "check_experiment ?m = Inr e" and c: "dget_item v ''config'' = Inr (PDict ?m)" by auto
  from c val have validated: "validated = ?m" by (simp add: pitems_def)
  have mapped: "sections_mapped ?m" using chk check_experiment_returns [of ?m] by auto
  have m_keys: "keys_ok (PDict ?m)" by (rule merged_keys_ok [OF ok(1)])
  have m_ver: "is_versioned ?m" by (rule merged_versioned [OF ok])
  obtain d where d: "json_norm (PDict payload) = PDict d" by simp
  have stored: "fs' path = Some (PDict d)"
    using wr by (auto simp: write_json_def d split: if_splits simp del: json_norm.simps)
  have look: "map_of d k = map_option json_norm (map_of payload k)" for k
    using json_norm_dict_lookup [of payload k] by (simp add: d del: json_norm.simps)
  show ?thesis
  proof (cases el)
    case False
    with pay validated have p: "payload = ?m" by simp
    with is_versioned_norm [of ?m] m_ver d have "is_versioned d" by (simp del: json_norm.simps)
    moreover have "keys_ok (PDict d)" using keys_ok_json_norm [OF m_keys] p d by (simp del: json_norm.simps keys_ok.simps)
    moreover have "json_norm (PDict d) = json_norm (PDict ?m)" using json_norm_idem [of "PDict payload"] p d by simp
    ultimately show ?thesis using stored mapped migrate_versioned by blast
  next
    case True
    let ?e = "merged w ?m"
    from True pay validated migrate_versioned [OF m_ver, of w] have env: "emit_envelope lm ?e = Inr payload"
      by (simp add: emit_legacy_config_def)
    obtain n where n: "json_norm (PDict ?e) = PDict n" by simp
    have e_keys: "keys_ok (PDict ?e)" by (rule merged_keys_ok [OF m_keys])
    have e_norm: "json_norm (PDict ?e) = json_norm (PDict ?m)"
      by (rule merge_of_merged [OF ok(1) _ m_keys]) simp
    have n_ver: "is_versioned n"
      using is_versioned_norm [of ?e] norm_versioned [OF e_norm] m_ver by (simp add: n del: json_norm.simps)
    have "\<not> is_versioned d" unfolding is_versioned_iff look envelope_document(1) [OF env] by simp
    moreover have "nested_version d ''v6'' = Some n"
      using n_ver by (simp add: nested_version_def dget_def look envelope_document(2) [OF env] n del: json_norm.simps)
    ultimately have "migrate_legacy_config w' d = Inr (merged w' n)" for w'
      by (simp add: migrate_legacy_config_def merged_def)
    moreover have "keys_ok (PDict n)" using keys_ok_json_norm [OF e_keys] n by (simp del: json_norm.simps keys_ok.simps)
    moreover have "json_norm (PDict n) = json_norm (PDict ?m)"
      using json_norm_idem [of "PDict ?e"] e_norm n by simp
    ultimately show ?thesis using stored mapped by blast
  qed
qed

lemma sections_mapped_norm:
  assumes "json_norm (PDict a) = json_norm (PDict b)"
  shows "sections_mapped a = sections_mapped b"
  using norm_is_mapping [OF assms] by (simp add: sections_mapped_def)

text \<open>C27: a versioned experiment (its \<open>schema_version\<close> is the current one and its \<open>experiment\<close> is a
  mapping) that \<open>save_experiment\<close> accepted loads back, at any later time and with or without the
  compatibility envelope, as the validated configuration up to the order of keys, so with the same
  configuration hash. A flat document is not covered: its migrated form, saved, has the defaults merged in
  once more (\<open>Config_Findings\<close>).\<close>

theorem save_load_hash:
  assumes "keys_ok (PDict config)" and "is_versioned config"
    and "save_experiment lm w fs path config el = Inr (fs', payload)"
  shows "\<exists>v m r. validate_experiment w config True = Inr v \<and> dget_item v ''config'' = Inr (PDict m)
    \<and> load_experiment w' fs' path = Inr (PDict r)
    \<and> json_norm (PDict r) = json_norm (PDict m) \<and> configuration_hash (PDict r) = configuration_hash (PDict m)"
proof -
  let ?m = "merged w config"
  from saved_document [OF assms] obtain d m' where stored: "fs' path = Some (PDict d)"
    and mapped: "sections_mapped ?m" and m': "json_norm (PDict m') = json_norm (PDict ?m)" "keys_ok (PDict m')"
    and mig: "migrate_legacy_config w' d = Inr (merged w' m')" by blast
  let ?r = "merged w' m'"
  have r: "json_norm (PDict ?r) = json_norm (PDict ?m)" by (rule merge_of_merged [OF assms(1) m'])
  with mapped sections_mapped_norm have "sections_mapped ?r" by blast
  from validate_lenient [OF mig this] stored have "load_experiment w' fs' path = Inr (PDict ?r)"
    by (auto simp: load_experiment_def)
  moreover obtain v where "validate_experiment w config True = Inr v"
    using assms(3) unfolding save_experiment_def by (auto simp: bindR_Inr_iff)
  moreover from validate_Inr [OF this] migrate_versioned [OF assms(2)] have "dget_item v ''config'' = Inr (PDict ?m)"
    by auto
  ultimately show ?thesis using r by (auto simp: configuration_hash_def simp del: json_norm.simps)
qed

text \<open>Migration is idempotent on versioned documents, up to the order of keys, at any later time.\<close>

theorem migrate_idempotent:
  assumes "keys_ok (PDict config)" and "is_versioned config"
  shows "\<exists>m m'. migrate_legacy_config w config = Inr m \<and> migrate_legacy_config w' m = Inr m'
    \<and> json_norm (PDict m') = json_norm (PDict m)"
  using migrate_versioned [OF assms(2)] migrate_versioned [OF merged_versioned [OF assms]]
    merge_of_merged [OF assms(1) refl merged_keys_ok [OF assms(1)]] by blast

end
