(* ===== verification/Config_Wellformed.thy ===== *)
theory Config_Wellformed
  imports Config_Props
begin

text \<open>
  What a strict validation guarantees: the well-formedness of the migrated configuration, and that
  the default experiment passes it.
\<close>

section \<open>Well-formed configurations\<close>

definition item_id :: "pyval \<Rightarrow> string" where
  "item_id v = py_str (dget (as_dict v) ''id'' (PStr ''''))"

definition position_ok :: "pyval \<Rightarrow> bool" where
  "position_ok v \<longleftrightarrow> (\<exists>x y z. dget (as_dict v) ''position'' (PList []) = PList [x, y, z]
     \<and> finite_value x \<and> finite_value y \<and> finite_value z)"

text \<open>The fleet: consistent counts, one record per drone with a unique identifier and a finite position.\<close>

definition fleet_ok :: "pydict \<Rightarrow> int \<Rightarrow> int \<Rightarrow> pyval list \<Rightarrow> bool" where
  "fleet_ok swarm fleet relay drones \<longleftrightarrow>
     get_int swarm ''drone_count'' (PInt 0) = Inr fleet \<and> get_int swarm ''relay_count'' (PInt 0) = Inr relay
     \<and> get_int swarm ''standby_count'' (PInt 0) = Inr (fleet - relay)
     \<and> 1 \<le> relay \<and> relay \<le> fleet \<and> fleet \<le> 512
     \<and> dget swarm ''drones'' (PList []) = PList drones \<and> int (length drones) = fleet
     \<and> (\<forall>v\<in>set drones. is_mapping v \<and> position_ok v \<and> item_id v \<noteq> [])
     \<and> distinct (map item_id drones)"

text \<open>A branch: a non-empty list of distinct relay indices of the inventory.\<close>

definition branch_ok :: "int \<Rightarrow> pyval \<Rightarrow> bool" where
  "branch_ok relay v \<longleftrightarrow> (\<exists>xs is. v = PList xs \<and> xs \<noteq> [] \<and> map py_int xs = map Inr is
     \<and> (\<forall>i\<in>set is. 1 \<le> i \<and> i \<le> relay) \<and> distinct is)"

definition edge_ok :: "string list \<Rightarrow> pyval \<Rightarrow> bool" where
  "edge_ok known v \<longleftrightarrow> (\<exists>a b. v = PList [a, b] \<and> py_str a \<in> set known \<and> py_str b \<in> set known \<and> py_str a \<noteq> py_str b)"

definition topology_ok :: "pydict \<Rightarrow> int \<Rightarrow> string list \<Rightarrow> bool" where
  "topology_ok topology relay ids \<longleftrightarrow>
     (let mode = py_lower (py_str (dget topology ''mode'' (PStr ''chain'')))
      in mode \<in> set topology_mode_names
         \<and> (if mode = ''manual''
            then (\<exists>es. dget topology ''manual_edges'' (PList []) = PList es \<and> es \<noteq> []
                    \<and> (\<forall>e\<in>set es. edge_ok (''station'' # ids) e))
            else (\<exists>bs. dget topology ''branches'' (PList []) = PList bs \<and> bs \<noteq> [] \<and> (\<forall>b\<in>set bs. branch_ok relay b))))"

text \<open>The antenna registry: unique identifiers, and every assignment names a defined antenna.\<close>

definition antennas_ok :: "pyval \<Rightarrow> bool" where
  "antennas_ok ant \<longleftrightarrow> (\<exists>d defs. (ant = PDict d \<or> d = []) \<and> dget d ''definitions'' (PList []) = PList defs
     \<and> (\<forall>v\<in>set defs. is_mapping v \<and> item_id v \<noteq> []) \<and> distinct (map item_id defs)
     \<and> (\<exists>as. dget d ''assignments'' (PDict []) = PDict as \<and> (\<forall>(e, a)\<in>set as. py_str a \<in> item_id ` set defs)))"

lemma report_if_Nil [simp]: "report_if bad path cd msg = [] \<longleftrightarrow> \<not> bad"
  by (simp add: report_if_def)

lemma read_vec3_Nil: "snd (read_vec3 v path) = [] \<longleftrightarrow>
   (\<exists>x y z. v = PList [x, y, z] \<and> finite_value x \<and> finite_value y \<and> finite_value z)"
  unfolding read_vec3_def by (auto split: pyval.splits list.splits)

text \<open>The loop over the drones reports nothing exactly on well-formed records.\<close>

lemma check_drones_step:
  "fst (check_drones i (v # rest) ids) = [] \<longleftrightarrow> is_mapping v \<and> position_ok v \<and> item_id v \<noteq> [] \<and> item_id v \<notin> set ids
     \<and> fst (check_drones (Suc i) rest (item_id v # ids)) = []"
  "is_mapping v \<Longrightarrow> fst (snd (check_drones i (v # rest) ids)) = fst (snd (check_drones (Suc i) rest (item_id v # ids)))"
proof -
  have pos: "snd (read_vec3 (dget item ''position'' (PList [])) p) = [] \<longleftrightarrow> position_ok (PDict item)" for item p
    by (simp add: read_vec3_Nil position_ok_def)
  show "fst (check_drones i (v # rest) ids) = [] \<longleftrightarrow> is_mapping v \<and> position_ok v \<and> item_id v \<noteq> [] \<and> item_id v \<notin> set ids
     \<and> fst (check_drones (Suc i) rest (item_id v # ids)) = []"
    by (cases v) (auto simp: Let_def case_prod_unfold item_id_def pos)
  show "is_mapping v \<Longrightarrow> fst (snd (check_drones i (v # rest) ids)) = fst (snd (check_drones (Suc i) rest (item_id v # ids)))"
    by (cases v) (auto simp: Let_def case_prod_unfold item_id_def)
qed

lemma check_drones_Nil:
  "fst (check_drones i drones ids) = [] \<longleftrightarrow>
     (\<forall>v\<in>set drones. is_mapping v \<and> position_ok v \<and> item_id v \<noteq> [] \<and> item_id v \<notin> set ids)
     \<and> distinct (map item_id drones)"
proof (induction drones arbitrary: i ids)
  case (Cons v rest)
  show ?case unfolding check_drones_step(1) Cons.IH by (auto simp: image_iff)
qed simp

lemma check_drones_ids:
  "\<forall>v\<in>set drones. is_mapping v \<Longrightarrow> set (fst (snd (check_drones i drones ids))) = set ids \<union> item_id ` set drones"
proof (induction drones arbitrary: i ids)
  case (Cons v rest)
  then show ?case using check_drones_step(2) [of v i rest ids] by auto
qed simp

lemma check_branch_Nil:
  "fst (fst (check_branch here mode relay xs seen used)) = [] \<longleftrightarrow>
     (\<exists>is. map py_int xs = map Inr is \<and> (\<forall>i\<in>set is. 1 \<le> i \<and> i \<le> relay \<and> i \<notin> set seen) \<and> distinct is)"
proof (induction xs arbitrary: seen used)
  case Nil
  then show ?case by simp
next
  case (Cons x xs)
  show ?case
  proof (cases "py_int x")
    case (Inl e)
    then show ?thesis by (auto simp: case_prod_unfold Let_def map_eq_Cons_conv)
  next
    case (Inr i)
    have "fst (fst (check_branch here mode relay (x # xs) seen used)) = [] \<longleftrightarrow>
       1 \<le> i \<and> i \<le> relay \<and> i \<notin> set seen \<and> fst (fst (check_branch here mode relay xs (i # seen) (i # used))) = []"
      using Inr by (auto simp: case_prod_unfold Let_def)
    also have "\<dots> \<longleftrightarrow> (\<exists>is. map py_int (x # xs) = map Inr (i # is)
        \<and> (\<forall>j\<in>set (i # is). 1 \<le> j \<and> j \<le> relay \<and> j \<notin> set seen) \<and> distinct (i # is))"
      unfolding Cons.IH using Inr by auto
    also have "\<dots> \<longleftrightarrow> (\<exists>is. map py_int (x # xs) = map Inr is
        \<and> (\<forall>j\<in>set is. 1 \<le> j \<and> j \<le> relay \<and> j \<notin> set seen) \<and> distinct is)"
    proof
      assume "\<exists>is. map py_int (x # xs) = map Inr is
        \<and> (\<forall>j\<in>set is. 1 \<le> j \<and> j \<le> relay \<and> j \<notin> set seen) \<and> distinct is"
      then obtain js where js: "map py_int (x # xs) = map Inr js"
        "\<forall>j\<in>set js. 1 \<le> j \<and> j \<le> relay \<and> j \<notin> set seen" "distinct js" by blast
      from js(1) Inr obtain ks where "js = i # ks" by (cases js) auto
      with js show "\<exists>is. map py_int (x # xs) = map Inr (i # is)
        \<and> (\<forall>j\<in>set (i # is). 1 \<le> j \<and> j \<le> relay \<and> j \<notin> set seen) \<and> distinct (i # is)" by blast
    qed blast
    finally show ?thesis .
  qed
qed

lemma check_branches_Nil:
  "fst (check_branches i mode relay bs used) = [] \<longleftrightarrow> (\<forall>b\<in>set bs. branch_ok relay b)"
proof (induction bs arbitrary: i used)
  case Nil
  then show ?case by simp
next
  case (Cons b bs)
  show ?case
  proof (cases "\<exists>x xs. b = PList (x # xs)")
    case True
    then obtain x xs where b: "b = PList (x # xs)" by blast
    have "branch_ok relay b \<longleftrightarrow> fst (fst (check_branch (indexed ''topology.branches'' i) mode relay (x # xs) [] used)) = []"
      unfolding check_branch_Nil branch_ok_def b by simp
    with Cons.IH b show ?thesis by (auto simp: Let_def case_prod_unfold)
  next
    case False
    then have "\<not> branch_ok relay b" by (auto simp: branch_ok_def neq_Nil_conv)
    moreover from False have "fst (check_branches i mode relay (b # bs) used) \<noteq> []"
      by (auto simp: Let_def case_prod_unfold split: pyval.splits list.splits)
    ultimately show ?thesis by simp
  qed
qed

lemma check_edges_Nil: "check_edges i known es = [] \<longleftrightarrow> (\<forall>e\<in>set es. edge_ok known e)"
proof (induction es arbitrary: i)
  case Nil
  then show ?case by simp
next
  case (Cons e es)
  have "(case e of PList [a, b] \<Rightarrow>
           (let source = py_str a; destination = py_str b
            in report_if (source \<notin> set known \<or> destination \<notin> set known) here ''UNKNOWN_ENDPOINT'' msg
               @ report_if (source = destination) here ''SELF_LOOP'' msg')
         | _ \<Rightarrow> [issue here ''EDGE_SHAPE'' msg'']) = [] \<longleftrightarrow> edge_ok known e" for here msg msg' msg''
    by (auto simp: edge_ok_def Let_def split: pyval.splits list.splits)
  then show ?case
    using Cons.IH by (auto simp: Let_def edge_ok_def split: pyval.splits list.splits)
qed

lemma check_topology_Nil:
  "fst (check_topology topology sv) = [] \<longleftrightarrow> topology_ok topology (sv_relay sv) (sv_ids sv)"
  unfolding check_topology_def topology_ok_def Let_def
  by (auto simp: case_prod_unfold check_branches_Nil check_edges_Nil simp del: check_edges.simps check_branches.simps
      split: pyval.splits list.splits)

lemma check_antennas_Nil:
  "fst (check_antennas i defs ids) = [] \<Longrightarrow>
     (\<forall>v\<in>set defs. is_mapping v \<and> item_id v \<noteq> [] \<and> item_id v \<notin> set ids) \<and> distinct (map item_id defs)
     \<and> set (snd (check_antennas i defs ids)) = set ids \<union> item_id ` set defs"
proof (induction defs arbitrary: i ids)
  case Nil
  then show ?case by simp
next
  case (Cons v defs)
  from Cons.prems have v: "is_mapping v" "item_id v \<noteq> []" "item_id v \<notin> set ids"
    and rest: "fst (check_antennas (Suc i) defs (item_id v # ids)) = []"
    by (cases v; auto simp: Let_def case_prod_unfold item_id_def)+
  from v(1) have "snd (check_antennas i (v # defs) ids) = snd (check_antennas (Suc i) defs (item_id v # ids))"
    by (cases v) (auto simp: Let_def case_prod_unfold item_id_def)
  with Cons.IH [OF rest] v show ?case by auto
qed

lemma check_assignments_Nil:
  "check_assignments ids v = [] \<longleftrightarrow> (\<exists>as. v = PDict as \<and> (\<forall>(e, x)\<in>set as. py_str x \<in> set ids))"
  by (cases v) (auto simp: check_assignments_def case_prod_unfold)

lemma check_antenna_section_Nil:
  assumes "check_antenna_section ant = []"
  shows "antennas_ok ant"
proof -
  obtain d where d: "ant = PDict d \<or> d = []"
    and eqs: "(case ant of PDict d \<Rightarrow> dget d ''definitions'' (PList []) | _ \<Rightarrow> PList []) = dget d ''definitions'' (PList [])"
      "(case ant of PDict d \<Rightarrow> dget d ''assignments'' (PDict []) | _ \<Rightarrow> PDict []) = dget d ''assignments'' (PDict [])"
    by (cases ant) force+
  from assms have "is_list (dget d ''definitions'' (PList []))"
    unfolding check_antenna_section_def eqs Let_def by (auto simp: case_prod_unfold)
  then obtain defs where defs: "dget d ''definitions'' (PList []) = PList defs" by (auto elim: is_list.elims)
  from assms have a: "fst (check_antennas 0 defs []) = []"
    and g: "check_assignments (snd (check_antennas 0 defs [])) (dget d ''assignments'' (PDict [])) = []"
    unfolding check_antenna_section_def eqs Let_def defs by (auto simp: case_prod_unfold)
  note n = check_antennas_Nil [OF a]
  from g obtain as where as: "dget d ''assignments'' (PDict []) = PDict as"
    and m: "\<forall>(e, x)\<in>set as. py_str x \<in> set (snd (check_antennas 0 defs []))"
    unfolding check_assignments_Nil by blast
  from m n have "\<forall>(e, x)\<in>set as. py_str x \<in> item_id ` set defs" by auto
  moreover from n have "\<forall>v\<in>set defs. is_mapping v \<and> item_id v \<noteq> []" "distinct (map item_id defs)" by auto
  ultimately show ?thesis unfolding antennas_ok_def using d defs as by blast
qed

section \<open>Strict validation\<close>

lemma check_counts_Nil:
  "check_counts fleet relay standby = [] \<longleftrightarrow> 1 \<le> relay \<and> relay \<le> fleet \<and> fleet \<le> 512 \<and> standby = fleet - relay"
  by (auto simp: check_counts_def)

lemma swarm_counts_Nil:
  "swarm_counts swarm = ((fleet, relay, standby), []) \<longleftrightarrow>
     get_int swarm ''drone_count'' (PInt 0) = Inr fleet \<and> get_int swarm ''relay_count'' (PInt 0) = Inr relay
     \<and> get_int swarm ''standby_count'' (PInt 0) = Inr standby"
  unfolding swarm_counts_def by (auto simp: bindR_Inr_iff bindR_def split: sum.splits)

lemma check_swarm_Nil:
  assumes "check_swarm swarm = (sv, [], warnings)"
  shows "\<exists>drones. fleet_ok swarm (sv_fleet sv) (sv_relay sv) drones \<and> set (sv_ids sv) = item_id ` set drones"
proof -
  let ?g = "dget swarm ''drones'' (PList [])"
  let ?c = "check_drones 0 (as_list ?g) []"
  obtain fleet relay standby ce where c: "swarm_counts swarm = ((fleet, relay, standby), ce)" by (cases "swarm_counts swarm") auto
  from assms c have sv: "sv = \<lparr>sv_fleet = fleet, sv_relay = relay, sv_ids = fst (snd ?c)\<rparr>"
    and e: "ce = []" "check_counts fleet relay standby = []" "is_list ?g" "int (length (as_list ?g)) = fleet" "fst ?c = []"
    unfolding check_swarm_def Let_def by (auto simp: case_prod_unfold)
  from e(3) obtain drones where g: "?g = PList drones" by (auto elim: is_list.elims)
  have "fleet_ok swarm fleet relay drones"
    using c e g check_drones_Nil [of 0 drones "[]"] swarm_counts_Nil [of swarm fleet relay standby]
      check_counts_Nil [of fleet relay standby]
    unfolding fleet_ok_def by auto
  moreover have "set (fst (snd ?c)) = item_id ` set drones"
    using check_drones_ids [of drones 0 "[]"] e(5) check_drones_Nil [of 0 drones "[]"] g by simp
  ultimately show ?thesis using sv by auto
qed

text \<open>The well-formedness of a migrated configuration.\<close>

definition wellformed :: "pydict \<Rightarrow> bool" where
  "wellformed cfg \<longleftrightarrow>
     (\<exists>swarm topology comm fleet relay drones.
        dget cfg ''swarm'' (PDict []) = PDict swarm \<and> dget cfg ''topology'' (PDict []) = PDict topology
        \<and> dget cfg ''communication'' (PDict []) = PDict comm
        \<and> fleet_ok swarm fleet relay drones
        \<and> topology_ok topology relay (map item_id drones)
        \<and> flt (Fin 0) (float_value (dget comm ''operational_range_m'' (PInt 0)))
        \<and> fle (float_value (dget comm ''operational_range_m'' (PInt 0)))
              (float_value (dget comm ''hard_outage_distance_m'' (PInt 0)))
        \<and> antennas_ok (dget cfg ''antennas'' (PDict [])))"

lemma check_range_Nil:
  "snd (check_range path v lo hi) = [] \<Longrightarrow> finite_value v \<and> fst (check_range path v lo hi) = float_value v
     \<and> \<not> flt (float_value v) (literal lo)"
  by (auto simp: check_range_def Let_def split: if_splits)

lemma finite_value_Fin: "finite_value v \<Longrightarrow> \<exists>q. float_value v = Fin q"
  by (auto simp: finite_value_def float_value_def elim: is_finite.elims split: sum.splits)

lemma rnd64_tenth_pos: "flt (Fin 0) (rnd64 (1 / 10))"
  by code_simp

lemma check_communication_Nil:
  assumes "fst (check_communication comm world) = []"
  shows "flt (Fin 0) (float_value (dget comm ''operational_range_m'' (PInt 0)))
    \<and> fle (float_value (dget comm ''operational_range_m'' (PInt 0)))
          (float_value (dget comm ''hard_outage_distance_m'' (PInt 0)))"
proof -
  let ?o = "dget comm ''operational_range_m'' (PInt 0)" and ?h = "dget comm ''hard_outage_distance_m'' (PInt 0)"
  let ?ro = "check_range (''communication.'' @ ''operational_range_m'') ?o (flit (1 / 10)) (flit 10000000)"
  let ?rh = "check_range (''communication.'' @ ''hard_outage_distance_m'') ?h (flit (1 / 10)) (flit 100000000)"
  from assms have "snd ?ro = []" "snd ?rh = []" and o: "\<not> flt (fst ?rh) (fst ?ro)"
    unfolding check_communication_def Let_def by (auto simp: case_prod_unfold)
  with check_range_Nil have r: "finite_value ?o" "finite_value ?h" "fst ?ro = float_value ?o" "fst ?rh = float_value ?h"
    "\<not> flt (float_value ?o) (rnd64 (1 / 10))"
    by (auto simp: literal_def dest!: check_range_Nil)
  from r(1,2) finite_value_Fin obtain a b where ab: "float_value ?o = Fin a" "float_value ?h = Fin b" by blast
  have "fle (float_value ?o) (float_value ?h)" using o r(3,4) ab by auto
  moreover have "flt (Fin 0) (float_value ?o)"
    using r(5) rnd64_tenth_pos ab(1) by (cases "rnd64 (1 / 10)") auto
  ultimately show ?thesis by simp
qed

lemma topology_ok_ids: "set ids = set ids' \<Longrightarrow> topology_ok topology relay ids = topology_ok topology relay ids'"
  by (simp add: topology_ok_def edge_ok_def)

lemma check_experiment_Nil:
  assumes "check_experiment cfg = Inr ([], warnings)"
  shows "wellformed cfg"
proof -
  from assms obtain swarm topology comm world sv sw te tw where
    s: "pitems (dget cfg ''swarm'' (PDict [])) = Inr swarm" and t: "pitems (dget cfg ''topology'' (PDict [])) = Inr topology"
    and c: "pitems (dget cfg ''communication'' (PDict [])) = Inr comm"
    and cs: "check_swarm swarm = (sv, [], sw)" and ct: "fst (check_topology topology sv) = []"
    and cc: "fst (check_communication comm world) = []" and ca: "check_antenna_section (dget cfg ''antennas'' (PDict [])) = []"
    unfolding check_experiment_def bindR_Inr_iff Let_def
    by (auto simp: case_prod_unfold) (metis prod.collapse)
  from check_swarm_Nil [OF cs] obtain drones where f: "fleet_ok swarm (sv_fleet sv) (sv_relay sv) drones"
    and ids: "set (sv_ids sv) = item_id ` set drones" by blast
  have "topology_ok topology (sv_relay sv) (map item_id drones)"
    using ct ids topology_ok_ids [of "sv_ids sv" "map item_id drones"] unfolding check_topology_Nil by simp
  moreover have "dget cfg ''swarm'' (PDict []) = PDict swarm" "dget cfg ''topology'' (PDict []) = PDict topology"
    "dget cfg ''communication'' (PDict []) = PDict comm"
    using s t c by (auto simp: pitems_def split: pyval.splits)
  ultimately show ?thesis
    using f check_communication_Nil [OF cc] check_antenna_section_Nil [OF ca] unfolding wellformed_def by blast
qed

section \<open>The default experiment is valid\<close>

lemma rnd64_finite:
  assumes "\<bar>q\<bar> \<le> 1000000000000"
  shows "is_finite (rnd64 q)"
proof -
  have e: "rnd64 (of_int (- 1000000000000)) = Fin (of_int (- 1000000000000))"
    "rnd64 (of_int 1000000000000) = Fin (of_int 1000000000000)"
    by (rule rnd64_of_int, simp)+
  have "fle (rnd64 (of_int (- 1000000000000))) (rnd64 q)" "fle (rnd64 q) (rnd64 (of_int 1000000000000))"
    by (rule rnd64_mono, use assms in simp)+
  then have "fle (Fin (of_int (- 1000000000000))) (rnd64 q)" "fle (rnd64 q) (Fin (of_int 1000000000000))"
    unfolding e .
  then show ?thesis by (cases "rnd64 q") auto
qed

lemma flt_rnd64: "b \<le> a \<Longrightarrow> \<not> flt (rnd64 a) (rnd64 b)"
  using rnd64_mono [of b a] not_flt_iff by simp

lemma float_value_flit [simp]: "float_value (PFloat f) = f"
  by (simp add: float_value_def)

lemma finite_value_flit: "\<bar>q\<bar> \<le> 1000000000000 \<Longrightarrow> finite_value (flit q)"
  by (simp add: finite_value_def rnd64_finite)

lemma check_range_flit:
  "\<bar>q\<bar> \<le> 1000000000000 \<Longrightarrow> lo \<le> q \<Longrightarrow> q \<le> hi \<Longrightarrow> check_range p (flit q) (flit lo) (flit hi) = (rnd64 q, [])"
  by (simp add: check_range_def finite_value_flit literal_def flt_rnd64)

lemma default_drone_finite:
  assumes "i \<in> {1..8}"
  shows "is_finite (py_round 6 (fmul (rnd64 (of_int i)) (Fin 28)))"
    and "is_finite (fadd (Fin 28) (Fin (of_int ((i - 1) mod 3))))"
proof -
  have i: "rnd64 (of_int i) = Fin (of_int i)" using assms by (intro rnd64_of_int) auto
  have "fmul (Fin (of_int i)) (Fin 28) = rnd64 (of_int (28 * i))" by (simp add: mult.commute)
  also have "\<dots> = Fin (of_int (28 * i))" using assms by (intro rnd64_of_int) auto
  finally have "py_round 6 (fmul (rnd64 (of_int i)) (Fin 28))
      = rnd64 (of_int (round_half_even (of_int (28 * i * 10 ^ 6))) / 10 ^ 6)"
    unfolding i by simp
  also have "\<dots> = rnd64 (of_int (28 * i))" by (simp only: round_half_even_of_int) simp
  also have "is_finite \<dots>" by (rule rnd64_finite) (use assms in auto)
  finally show "is_finite (py_round 6 (fmul (rnd64 (of_int i)) (Fin 28)))" .
  have "0 \<le> (i - 1) mod 3" "(i - 1) mod 3 < 3" by simp_all
  then have "0 \<le> (of_int ((i - 1) mod 3) :: rat)" "(of_int ((i - 1) mod 3) :: rat) < 3"
    by (simp_all only: of_int_0_le_iff of_int_less_numeral_iff)
  then have "is_finite (rnd64 (28 + of_int ((i - 1) mod 3)))" by (intro rnd64_finite) linarith
  then show "is_finite (fadd (Fin 28) (Fin (of_int ((i - 1) mod 3))))" by simp
qed

lemma default_drone_ok:
  assumes "i \<in> {1..8}"
  shows "position_ok (PDict (default_drone i 6)) \<and> item_id (PDict (default_drone i 6)) = drone_name i
    \<and> json_ok (PDict (default_drone i 6))"
  using default_drone_finite [OF assms]
  by (auto simp: position_ok_def default_drone_def finite_value_def item_id_def simp del: fadd.simps fmul.simps)

lemma default_fleet: "default_drones 8 6 = map (\<lambda>i. PDict (default_drone i 6)) [1, 2, 3, 4, 5, 6, 7, 8]"
  by (simp add: default_drones_def int_range_def upt_rec)

lemma default_counts: "default_drone_count = 8" "default_relay_count = 6"
  by (simp_all add: default_drone_count_def default_relay_count_def)

lemma drone_name_inject [simp]: "drone_name i = drone_name j \<longleftrightarrow> i = j"
  by (simp add: drone_name_def)

lemma drone_name_nonempty [simp]: "drone_name i \<noteq> []" "drone_name i \<noteq> ''station''"
  by (simp_all add: drone_name_def)

lemma default_swarm_clean:
  "\<exists>sv warnings. check_swarm default_swarm = (sv, [], warnings) \<and> sv_relay sv = 6"
proof -
  have c: "swarm_counts default_swarm = ((8, 6, 2), [])"
    by (simp add: swarm_counts_def default_swarm_def get_int_def default_counts)
  have d: "fst (check_drones 0 (default_drones 8 6) []) = []"
    unfolding check_drones_Nil default_fleet using default_drone_ok by simp
  have g: "dget default_swarm ''drones'' (PList []) = PList (default_drones 8 6)"
    "dget default_swarm ''visual_asset_scale'' (flit (2 / 10)) = flit (2 / 10)"
    "dget default_swarm ''minimum_separation_m'' (PInt 0) = flit 4"
    by (simp_all add: default_swarm_def default_counts)
  have "int (length (default_drones 8 6)) = 8" by (simp add: default_fleet)
  with d show ?thesis
    unfolding check_swarm_def c g Let_def
    by (simp add: check_range_flit case_prod_unfold check_counts_def del: rnd64_numeral)
qed

lemma default_topology_clean: "sv_relay sv = 6 \<Longrightarrow> fst (check_topology default_topology sv) = []"
  unfolding check_topology_Nil topology_ok_def
  by (auto simp: default_topology_def topology_mode_names_def py_lower_def lower_char_def branch_ok_def
      default_counts o_def int_range_def intro!: exI [of _ "[1, 2, 3, 4, 5, 6]"] simp: upt_rec)

lemma default_communication_clean: "fst (check_communication default_communication world) = []"
proof -
  have g: "dget default_communication ''model'' (PStr ''free_space'') = PStr ''sionna_analytical''"
    "dget default_communication ''carrier_frequency_hz'' (PInt 0) = flit 3500000000"
    "dget default_communication ''bandwidth_hz'' (PInt 0) = flit 20000000"
    "dget default_communication ''operational_range_m'' (PInt 0) = flit 90"
    "dget default_communication ''hard_outage_distance_m'' (PInt 0) = flit 220"
    by (simp_all add: default_communication_def del: rnd64_numeral)
  show ?thesis
    unfolding check_communication_def Let_def g
    by (simp add: check_range_flit supported_propagation_models_def flt_rnd64 del: rnd64_numeral)
qed

lemma default_antennas_clean: "check_antenna_section (PDict default_antennas) = []"
proof -
  have gain: "dget ground_sector_antenna ''gain_dbi'' (PInt 0) = flit 8" "dget uav_omni_antenna ''gain_dbi'' (PInt 0) = flit (25 / 10)"
    "dget ground_sector_antenna ''id'' (PStr '''') = PStr ''ground_sector_reference''"
    "dget uav_omni_antenna ''id'' (PStr '''') = PStr ''uav_omni_reference''"
    by (simp_all add: ground_sector_antenna_def uav_omni_antenna_def del: rnd64_numeral)
  have "check_antennas 0 [PDict ground_sector_antenna, PDict uav_omni_antenna] []
      = ([], [''uav_omni_reference'', ''ground_sector_reference''])"
    by (simp add: gain check_range_flit report_if_def del: rnd64_numeral)
  then show ?thesis
    by (simp add: check_antenna_section_def default_antennas_def check_assignments_Nil del: check_antennas.simps)
qed

lemma default_traffic_clean: "check_traffic (PDict default_traffic) = []"
proof -
  have "check_range p (PInt 512) (PInt 1) (PInt 10000000) = (Fin 512, [])" for p
    by (simp add: check_range_def finite_value_def float_value_def float_of_int_def literal_def)
  moreover have "check_range p (flit 2) (PInt 0) (PInt 1000000) = (Fin 2, [])" for p
    by (simp add: check_range_def finite_value_def literal_def)
  moreover have "dget default_flow ''id'' (PStr '''') = PStr ''service_flow_1''"
    "dget default_flow ''generation_model'' (PStr '''') = PStr ''constant_packet_rate''"
    "dget default_flow ''packet_size_bytes'' (PInt 0) = PInt 512" "dget default_flow ''packet_rate_pps'' (PInt 0) = flit 2"
    by (simp_all add: default_flow_def)
  ultimately show ?thesis
    by (simp add: check_traffic_def default_traffic_def report_if_def supported_traffic_models_def)
qed

lemma default_meta_clean: "check_meta (default_experiment w) = Inr []"
proof -
  have s: "dget (default_experiment w) ''experiment'' (PDict []) = PDict (default_meta (env_now w))"
    "dget (default_experiment w) ''schema_version'' PNone = PStr schema_version"
    by (simp_all add: default_experiment_def)
  have g: "dget (default_meta t) ''id'' (PStr '''') = PStr ''first_feasible_relay_chain''"
    "dget (default_meta t) ''duration_s'' (PInt 0) = flit 300" "dget (default_meta t) ''seed'' PNone = PInt 20260715" for t
    by (simp_all add: default_meta_def del: rnd64_numeral)
  have "py_strip ''first_feasible_relay_chain'' \<noteq> []" by (simp add: py_strip_def is_space_def)
  then show ?thesis
    unfolding check_meta_def s by (simp add: pitems_def g check_range_flit report_if_def del: rnd64_numeral)
qed

lemma default_world_clean: "check_world default_world = []"
proof -
  have "dget default_world ''coordinate_frame'' (PStr ''ENU'') = PStr ''ENU''"
    "dget default_world ''origin'' (PList []) = PList [flit 0, flit 0, flit 0]"
    by (simp_all add: default_world_def)
  moreover have "snd (read_vec3 (PList [flit 0, flit 0, flit 0]) p) = []" for p
    unfolding read_vec3_Nil by (simp add: finite_value_def)
  ultimately show ?thesis
    by (simp add: check_world_def supported_coordinate_frames_def py_upper_def upper_char_def)
qed

lemma default_section:
  "dget (default_experiment w) ''world'' v = PDict default_world" "dget (default_experiment w) ''swarm'' v = PDict default_swarm"
  "dget (default_experiment w) ''topology'' v = PDict default_topology"
  "dget (default_experiment w) ''communication'' v = PDict default_communication"
  "dget (default_experiment w) ''antennas'' v = PDict default_antennas"
  "dget (default_experiment w) ''traffic'' v = PDict default_traffic"
  by (simp_all add: default_experiment_def)

lemma default_clean: "\<exists>warnings. check_experiment (default_experiment w) = Inr ([], warnings)"
proof -
  obtain sv sw where s: "check_swarm default_swarm = (sv, [], sw)" "sv_relay sv = 6"
    using default_swarm_clean by blast
  obtain tw where t: "check_topology default_topology sv = ([], tw)"
    using default_topology_clean [OF s(2)] by (metis prod.collapse)
  obtain cw where c: "check_communication default_communication default_world = ([], cw)"
    using default_communication_clean by (metis prod.collapse)
  show ?thesis
    unfolding check_experiment_def default_section default_meta_clean
    by (simp add: pitems_def s(1) t c default_world_clean default_antennas_clean default_traffic_clean)
qed

text \<open>The smallest versioned document migrates to the defaults.\<close>

definition minimal_document :: pydict where
  "minimal_document = [(''schema_version'', PStr schema_version), (''experiment'', PDict [])]"

lemma minimal_document_ok: "is_versioned minimal_document" "keys_ok (PDict minimal_document)"
  by (simp_all add: minimal_document_def is_versioned_def py_eq_PStr_right)

lemma minimal_migrates: "migrate_legacy_config w minimal_document = Inr (default_experiment w)"
  using migrate_versioned [OF minimal_document_ok(1), of w]
  by (simp add: merged_def minimal_document_def default_experiment_def)

lemma minimal_valid:
  "\<exists>v. validate_experiment w minimal_document True = Inr v \<and> dget_item v ''config'' = Inr (PDict (default_experiment w))"
  using default_clean [of w] by (auto simp: validate_experiment_def minimal_migrates dget_item_def)

section \<open>The envelope of the default experiment\<close>

lemma json_ok_drones: "json_ok (PList (default_drones 8 6))"
  unfolding default_fleet by (simp add: default_drone_ok del: json_ok.simps(3))

lemma default_json_ok: "is_finite (env_now w) \<Longrightarrow> json_ok (PDict (default_experiment w))"
  using json_ok_drones
  by (simp add: default_experiment_def default_meta_def default_sections default_counts rnd64_finite)

lemma emit_default_scenario:
  "is_finite (env_now w) \<Longrightarrow>
   \<exists>d. emit_scenario (default_experiment w) (PDict default_swarm) (PDict default_topology) = Inr d \<and> json_ok (PDict d)"
  by (simp add: emit_scenario_def default_experiment_def copy_fields_def dget_item_def pitem_def default_meta_def
      default_swarm_def default_topology_def ptuple_def plen_def default_counts default_fleet failed_index_def
      default_drone_def pitems_def emit_topology_def rnd64_finite)

lemma emit_default_region:
  "\<exists>d. emit_region (default_experiment w) (PDict default_swarm) (PDict default_world) (PDict default_communication) = Inr d
     \<and> json_ok (PDict d)"
  by (simp add: emit_region_def default_experiment_def copy_fields_def dget_item_def pitem_def default_sections
      mobility_field_def pget_def operand_def rnd64_finite py_max_def)

lemma emit_default_drone:
  assumes "i \<in> {1..8}"
  shows "\<exists>v. emit_drone default_antennas (PDict (default_drone i 6)) = Inr v \<and> json_ok v"
proof -
  have "position_ok (PDict (default_drone i 6))" using default_drone_ok [OF assms] by blast
  moreover have "dget_key ((''station'', PStr ''ground_sector_reference'')
        # map (\<lambda>i. (drone_name i, PStr ''uav_omni_reference'')) (int_range 1 9)) (PStr (drone_name i)) (PStr ''uav_omni_reference'')
      = Inr (PStr ''uav_omni_reference'')"
    by (auto simp: dget_key_def dget_def split: option.splits dest!: map_of_SomeD)
  ultimately show ?thesis
    using default_drone_finite [OF assms]
    by (simp add: emit_drone_def default_antennas_def default_counts pitems_def pitem_def dget_item_def default_drone_def
        ptuple_def ground_sector_antenna_def uav_omni_antenna_def rnd64_finite del: fadd.simps fmul.simps)
qed

lemma emit_default_antennas:
  "\<exists>vs. mapR (emit_antenna default_antennas (PDict default_communication)) [PDict ground_sector_antenna, PDict uav_omni_antenna] = Inr vs
     \<and> (\<forall>v\<in>set vs. json_ok v)"
  by (simp add: emit_antenna_def default_antennas_def pitems_def pitem_def dget_item_def rotation_angle_def plen_def
      ground_sector_antenna_def uav_omni_antenna_def default_communication_def rnd64_finite split: option.split)

lemma mapR_json_ok:
  "(\<And>x. x \<in> set xs \<Longrightarrow> \<exists>v. f x = Inr v \<and> json_ok v) \<Longrightarrow> \<exists>vs. mapR f xs = Inr vs \<and> (\<forall>v\<in>set vs. json_ok v)"
proof (induction xs)
  case (Cons x xs)
  obtain v where "f x = Inr v" "json_ok v" using Cons.prems [of x] by auto
  moreover obtain vs where "mapR f xs = Inr vs" "\<forall>v\<in>set vs. json_ok v" using Cons.IH Cons.prems by auto
  ultimately show ?case by simp
qed simp

lemma emit_default_radio:
  "lm_log10 lm 20000000 = Fin 7 \<Longrightarrow> \<exists>d. emit_radio lm default_communication = Inr d \<and> json_ok (PDict d)"
  by (simp add: emit_radio_def copy_fields_def pitem_def dget_item_def default_communication_def math_log_def operand_def
      rnd64_finite)

lemma emit_default_visual:
  "\<exists>d. emit_visual (PDict default_visualization) (PDict default_swarm) (PDict default_communication) = Inr d \<and> json_ok (PDict d)"
  by (simp add: emit_visual_def pitem_def dget_item_def default_visualization_def default_swarm_def default_communication_def
      rnd64_finite)

lemma default_items:
  "dget_item (default_experiment w) ''swarm'' = Inr (PDict default_swarm)"
  "dget_item (default_experiment w) ''topology'' = Inr (PDict default_topology)"
  "dget_item (default_experiment w) ''communication'' = Inr (PDict default_communication)"
  "dget_item (default_experiment w) ''world'' = Inr (PDict default_world)"
  "dget_item (default_experiment w) ''visualization'' = Inr (PDict default_visualization)"
  "dget_item (default_experiment w) ''antennas'' = Inr (PDict default_antennas)"
  "dget_item (default_experiment w) ''traffic'' = Inr (PDict default_traffic)"
  "dget_item (default_experiment w) ''station'' = Inr (PDict default_station)"
  by (simp_all add: default_experiment_def dget_item_def)

lemma default_subitems:
  "pitem (PDict default_swarm) ''drones'' = Inr (PList (default_drones 8 6))"
  "pitem (PDict default_swarm) ''energy'' = Inr (PDict default_energy)"
  "pitem (PDict default_world) ''environment'' = Inr (PDict default_environment)"
  "pget (PDict default_world) ''assets'' v = Inr (PList [])"
  "dget default_antennas ''definitions'' v = PList [PDict ground_sector_antenna, PDict uav_omni_antenna]"
  "first_packet_size (PDict default_traffic) = Inr (PInt 512)"
  by (simp_all add: default_swarm_def default_world_def default_antennas_def default_counts pitem_def dget_item_def
      pget_def first_packet_size_def default_traffic_def default_flow_def)

lemma default_sections_json_ok:
  "json_ok (PDict default_station)" "json_ok (PDict default_traffic)" "json_ok (PDict default_environment)"
  "json_ok (PDict default_energy)"
  by (simp_all add: default_sections rnd64_finite)

lemma emit_default_envelope:
  assumes "is_finite (env_now w)" and "lm_log10 lm 20000000 = Fin 7"
  shows "\<exists>p. emit_envelope lm (default_experiment w) = Inr p \<and> json_ok (PDict p)"
proof -
  have drones: "default_drones 8 6 \<noteq> []" by (simp add: default_fleet)
  have "\<exists>v. emit_drone default_antennas x = Inr v \<and> json_ok v" if "x \<in> set (default_drones 8 6)" for x
    using that emit_default_drone unfolding default_fleet by auto
  from mapR_json_ok [of "default_drones 8 6" "emit_drone default_antennas", OF this] obtain ds where ds: "mapR (emit_drone default_antennas) (default_drones 8 6) = Inr ds"
    "\<forall>v\<in>set ds. json_ok v" by blast
  obtain as where as: "mapR (emit_antenna default_antennas (PDict default_communication))
       [PDict ground_sector_antenna, PDict uav_omni_antenna] = Inr as" "\<forall>v\<in>set as. json_ok v"
    using emit_default_antennas by blast
  obtain sc where sc: "emit_scenario (default_experiment w) (PDict default_swarm) (PDict default_topology) = Inr sc"
    "json_ok (PDict sc)" using emit_default_scenario [OF assms(1)] by blast
  obtain rg where rg: "emit_region (default_experiment w) (PDict default_swarm) (PDict default_world) (PDict default_communication) = Inr rg"
    "json_ok (PDict rg)" using emit_default_region by blast
  obtain ra where ra: "emit_radio lm default_communication = Inr ra" "json_ok (PDict ra)"
    using emit_default_radio [OF assms(2)] by blast
  obtain vi where vi: "emit_visual (PDict default_visualization) (PDict default_swarm) (PDict default_communication) = Inr vi"
    "json_ok (PDict vi)" using emit_default_visual by blast
  have inv: "emit_inventory (default_experiment w) (PDict default_world) (PDict default_swarm) ds as =
     Inr [(''station'', PDict default_station), (''drones'', PList ds), (''antennas'', PList as),
            (''antenna_count'', PInt (int (length as))), (''worlds'', PList []), (''world_count'', PInt 0)]"
    by (simp add: emit_inventory_def default_items default_subitems plen_def)
  have tup: "ptuple (PList xs) = Inr xs" for xs by (simp add: ptuple_def)
  have p: "pitems (PDict d) = Inr d" for d by (simp add: pitems_def)
  note ok = default_json_ok [OF assms(1)] ds(2) as(2) sc(2) rg(2) ra(2) vi(2) default_sections_json_ok
  show ?thesis
    unfolding emit_envelope_def default_items bindR_simps default_subitems p tup
    using drones ds(1) ok by (auto simp: as(1) sc(1) rg(1) inv ra(1) vi(1) simp del: mapR.simps)
qed
section \<open>The properties\<close>

text \<open>C28: a configuration that strict validation accepts is well formed: the fleet counts are consistent and
  there is one record with a unique identifier and a finite position per drone, every branch is a
  non-empty list of distinct relays of the inventory (or every manual edge joins two different
  known entities), the hard-outage distance is at least the operational range, which is positive,
  and every antenna assignment names a defined antenna.\<close>

theorem strict_validation_wellformed:
  assumes "validate_experiment w config True = Inr v"
  shows "\<exists>m. dget_item v ''config'' = Inr (PDict m) \<and> migrate_legacy_config w config = Inr m \<and> wellformed m"
  using validate_Inr [OF assms] check_experiment_Nil by auto

lemma strict_validation_wellformed_witness:
  "\<exists>v. validate_experiment \<lparr>env_now = Fin 5, env_uuid = 0\<rparr> minimal_document True = Inr v
     \<and> wellformed (default_experiment \<lparr>env_now = Fin 5, env_uuid = 0\<rparr>)"
proof -
  obtain v where v: "validate_experiment \<lparr>env_now = Fin 5, env_uuid = 0\<rparr> minimal_document True = Inr v"
    using minimal_valid by blast
  from strict_validation_wellformed [OF v] v minimal_migrates show ?thesis by auto
qed

text \<open>Strict and lenient validation agree: strict validation returns exactly when lenient validation returns
  \<open>ok\<close>, with the same result; otherwise it raises the validation error, or what the lenient one
  raises.\<close>

theorem strict_iff_lenient_ok:
  "validate_experiment w config True =
     (case validate_experiment w config False of
        Inl e \<Rightarrow> Inl e
      | Inr v \<Rightarrow> if dget v ''ok'' PNone = PBool True then Inr v else Inl (NetlabError ''CONFIG_VALIDATION_FAILED''))"
proof (cases "bindR (migrate_legacy_config w config) (\<lambda>cfg. bindR (check_experiment cfg) (\<lambda>rep. Inr (cfg, rep)))")
  case (Inl e)
  then show ?thesis
    by (auto simp: validate_experiment_def bindR_def split: sum.splits)
next
  case (Inr x)
  then obtain cfg errors warnings where "migrate_legacy_config w config = Inr cfg"
    "check_experiment cfg = Inr (errors, warnings)"
    by (cases x) (auto simp: bindR_Inr_iff)
  then show ?thesis by (simp add: validate_experiment_def)
qed

definition demo_libm :: libm where
  "demo_libm = \<lparr>lm_log10 = (\<lambda>_. Fin 7), lm_log2 = (\<lambda>_. Fin 0), lm_pow10 = (\<lambda>_. Inr (Fin 1))\<rparr>"

lemma minimal_saves:
  assumes "is_finite (env_now w)"
  shows "\<exists>fs' payload. save_experiment demo_libm w fs path minimal_document True = Inr (fs', payload)"
proof -
  obtain v where v: "validate_experiment w minimal_document True = Inr v"
    "dget_item v ''config'' = Inr (PDict (default_experiment w))" using minimal_valid by blast
  have ver: "is_versioned (default_experiment w)" by (simp add: is_versioned_iff)
  have "migrate_legacy_config w (default_experiment w) = Inr (default_experiment w)"
    using migrate_versioned [OF ver, of w] deep_merge_self [OF default_experiment_keys_ok] by (simp add: merged_def)
  moreover obtain p where "emit_envelope demo_libm (default_experiment w) = Inr p" "json_ok (PDict p)"
    using emit_default_envelope [OF assms, of demo_libm] by (auto simp: demo_libm_def)
  ultimately show ?thesis
    by (simp add: save_experiment_def v pitems_def emit_legacy_config_def write_json_def del: json_ok.simps json_norm.simps)
qed

lemma save_load_hash_witness:
  "\<exists>fs' payload v m r. save_experiment demo_libm \<lparr>env_now = Fin 5, env_uuid = 0\<rparr> (\<lambda>_. None) config_file minimal_document True
       = Inr (fs', payload)
     \<and> validate_experiment \<lparr>env_now = Fin 5, env_uuid = 0\<rparr> minimal_document True = Inr v
     \<and> dget_item v ''config'' = Inr (PDict m)
     \<and> load_experiment \<lparr>env_now = Fin 9, env_uuid = 3\<rparr> fs' config_file = Inr (PDict r)
     \<and> configuration_hash (PDict r) = configuration_hash (PDict m)"
proof -
  obtain fs' payload where s: "save_experiment demo_libm \<lparr>env_now = Fin 5, env_uuid = 0\<rparr> (\<lambda>_. None) config_file minimal_document True
       = Inr (fs', payload)"
    using minimal_saves [of "\<lparr>env_now = Fin 5, env_uuid = 0\<rparr>" "\<lambda>_. None" config_file] by auto
  from save_load_hash [OF minimal_document_ok(2,1) s, of "\<lparr>env_now = Fin 9, env_uuid = 3\<rparr>"] s show ?thesis by blast
qed

lemma migrate_idempotent_witness:
  "\<exists>m m'. migrate_legacy_config \<lparr>env_now = Fin 5, env_uuid = 0\<rparr> minimal_document = Inr m
     \<and> migrate_legacy_config \<lparr>env_now = Fin 9, env_uuid = 0\<rparr> m = Inr m' \<and> json_norm (PDict m') = json_norm (PDict m)"
  by (rule migrate_idempotent [OF minimal_document_ok(2,1)])

end
