(* ===== verification/Config_Findings.thy ===== *)
theory Config_Findings
  imports Config_Wellformed
begin

text \<open>
  A defect of the migration shown on the model: the defaults are merged into an already migrated
  document again whenever it is validated, saved or loaded, so a flat document that brings its own
  antennas is accepted once and its own migrated form is rejected, because the merge adds the
  default assignments, which name an antenna that the document's registry does not define.
\<close>

section \<open>The merge adds the default assignments\<close>

lemma merged_antennas:
  assumes "keys_ok (PDict m)" and "map_of m ''antennas'' = Some (PDict a)"
  shows "map_of (merged w m) ''antennas'' = Some (PDict (deep_merge default_antennas a))"
proof -
  have "dget (default_experiment w) ''antennas'' PNone = PDict default_antennas" by (simp add: default_experiment_def)
  then show ?thesis unfolding merged_lookup [OF assms(1)] by (simp add: assms(2) merge_value_def)
qed

lemma merged_registry:
  assumes "distinct (dict_keys a)" and "map_of a ''definitions'' = Some (PList defs)"
    and "map_of a ''assignments'' = Some (PDict as)" and "distinct (dict_keys as)" and "map_of as ''drone_1'' = None"
  shows "dget (deep_merge default_antennas a) ''definitions'' v = PList defs"
    and "\<exists>d. dget (deep_merge default_antennas a) ''assignments'' v' = PDict d \<and> map_of d ''drone_1'' = Some (PStr ''uav_omni_reference'')"
proof -
  let ?d = "(''station'', PStr ''ground_sector_reference'')
        # map (\<lambda>i. (drone_name i, PStr ''uav_omni_reference'')) (int_range 1 (default_drone_count + 1))"
  note look = map_of_deep_merge [OF assms(1), of default_antennas]
  show "dget (deep_merge default_antennas a) ''definitions'' v = PList defs"
    by (simp add: dget_def look assms(2) merge_value_def)
  have old: "dget default_antennas ''assignments'' PNone = PDict ?d" by (simp add: default_antennas_def)
  have one: "drone_name 1 = ''drone_1''" by (simp add: drone_name_def show_int_def show_digits.simps digit_char_def)
  have "map_of ?d ''drone_1'' = Some (PStr ''uav_omni_reference'')"
    by (simp add: one default_counts int_range_def upt_rec)
  then have "map_of (deep_merge ?d as) ''drone_1'' = Some (PStr ''uav_omni_reference'')"
    using map_of_deep_merge [OF assms(4), of ?d "''drone_1''"] assms(5) by simp
  then show "\<exists>d. dget (deep_merge default_antennas a) ''assignments'' v' = PDict d \<and> map_of d ''drone_1'' = Some (PStr ''uav_omni_reference'')"
    using old by (simp add: dget_def look assms(3) merge_value_def)
qed

lemma unknown_assignment_error:
  assumes "dget a ''definitions'' (PList []) = PList defs" and "dget a ''assignments'' (PDict []) = PDict d"
    and "map_of d e = Some (PStr n)" and "\<forall>v\<in>set defs. item_id v \<noteq> n"
  shows "check_antenna_section (PDict a) \<noteq> []"
proof
  assume "check_antenna_section (PDict a) = []"
  from check_antenna_section_Nil [OF this] obtain b defs' as where
    b: "PDict a = PDict b \<or> b = []" "dget b ''definitions'' (PList []) = PList defs'"
      "dget b ''assignments'' (PDict []) = PDict as" "\<forall>(e, x)\<in>set as. py_str x \<in> item_id ` set defs'"
    unfolding antennas_ok_def by blast
  show False
  proof (cases "a = b")
    case True
    with assms(1,2) b(2,3) have "defs' = defs" "as = d" by simp_all
    with b(4) map_of_SomeD [OF assms(3)] assms(4) show False by fastforce
  next
    case False
    with b(1) have "b = []" by simp
    have "check_antenna_section (PDict a) = []" by fact
    then have "check_assignments (snd (check_antennas 0 defs [])) (PDict d) = []"
      and "fst (check_antennas 0 defs []) = []"
      unfolding check_antenna_section_def Let_def by (auto simp: case_prod_unfold assms(1,2))
    with check_antennas_Nil [of 0 defs "[]"] map_of_SomeD [OF assms(3)] assms(4) show False
      unfolding check_assignments_Nil by fastforce
  qed
qed

text \<open>C29: strict validation can reject the configuration it has itself just returned: when it accepts a document
  whose migrated form defines antennas without the reference one and assigns none to
  \<open>drone_1\<close>, validating that form again raises.\<close>

theorem accepted_then_rejected:
  assumes "validate_experiment w config True = Inr v" and "dget_item v ''config'' = Inr (PDict m)"
    and "is_versioned m" and "keys_ok (PDict m)"
    and "map_of m ''antennas'' = Some (PDict a)"
    and "map_of a ''definitions'' = Some (PList defs)" and "\<forall>x\<in>set defs. item_id x \<noteq> ''uav_omni_reference''"
    and "map_of a ''assignments'' = Some (PDict as)" and "map_of as ''drone_1'' = None"
  shows "\<exists>e. validate_experiment w' m True = Inl e"
proof -
  have a: "keys_ok (PDict a)" by (rule keys_ok_lookup [OF assms(4,5)])
  then have as: "keys_ok (PDict as)" using assms(8) by (rule keys_ok_lookup)
  note reg = merged_registry [OF keys_ok_dict [OF a] assms(6,8) keys_ok_dict [OF as] assms(9)]
  from reg(2) [of "PDict []"] obtain d where
    d: "dget (deep_merge default_antennas a) ''assignments'' (PDict []) = PDict d"
      "map_of d ''drone_1'' = Some (PStr ''uav_omni_reference'')" by blast
  have "check_antenna_section (PDict (deep_merge default_antennas a)) \<noteq> []"
    by (rule unknown_assignment_error [OF reg(1) d assms(7)])
  moreover have "dget (merged w' m) ''antennas'' (PDict []) = PDict (deep_merge default_antennas a)"
    using merged_antennas [OF assms(4,5)] by (simp add: dget_def)
  ultimately have no: "check_experiment (merged w' m) \<noteq> Inr ([], warnings)" for warnings
    unfolding check_experiment_def by (auto simp: bindR_Inr_iff Let_def case_prod_unfold)
  show ?thesis
  proof (cases "check_experiment (merged w' m)")
    case (Inl e)
    then show ?thesis by (simp add: validate_experiment_def migrate_versioned [OF assms(3)])
  next
    case (Inr rep)
    then obtain errors warnings where "check_experiment (merged w' m) = Inr (errors, warnings)" by (cases rep) auto
    moreover from this no have "errors \<noteq> []" by auto
    ultimately show ?thesis by (simp add: validate_experiment_def migrate_versioned [OF assms(3)])
  qed
qed

section \<open>A flat document\<close>

definition flat_document :: pydict where
  "flat_document = [(''relay_count'', PInt 6), (''antennas'', PList [PDict [(''id'', PStr ''mast'')]])]"

definition mast_antennas :: pydict where
  "mast_antennas =
     [(''definitions'', PList [PDict
         [(''id'', PStr ''mast''), (''name'', PStr ''mast''), (''model'', PStr ''custom_reference''),
          (''provenance'', PStr ''legacy_config''), (''center_frequency_hz'', flit 3500000000),
          (''bandwidth_hz'', flit 20000000), (''gain_dbi'', flit 0), (''polarization'', PStr ''vertical''),
          (''beamwidth_azimuth_deg'', flit 360), (''beamwidth_elevation_deg'', flit 120),
          (''position_offset_m'', PList [flit 0, flit 0, flit 0]),
          (''rotation_rpy_deg'', PList [flit 0, flit 0, flit 0]), (''cable_loss_db'', flit 0)]]),
      (''assignments'', PDict [(''station'', PStr ''mast'')])]"

definition mast_base :: "env \<Rightarrow> pydict" where
  "mast_base w = dset ''antennas'' (PDict mast_antennas) (default_experiment w)"

lemma flat_blocks:
  "migrate_meta flat_document (default_experiment w) = Inr (default_experiment w)"
  "drone_counts flat_document default_swarm = Inr (8, 6)"
  "migrate_world flat_document (default_experiment w) = Inr (default_experiment w)"
  "migrate_service flat_document (default_experiment w) = Inr (default_experiment w)"
  "migrate_station flat_document (default_experiment w) = Inr (default_experiment w)"
  "migrate_topology flat_document 6 (default_experiment w) = Inr (default_experiment w)"
  "migrate_radio flat_document (default_experiment w) = Inr (default_experiment w)"
proof -
  have strip: "py_strip ''first_feasible_relay_chain'' = ''first_feasible_relay_chain''"
    by (simp add: py_strip_def is_space_def)
  show "migrate_meta flat_document (default_experiment w) = Inr (default_experiment w)"
    by (simp add: migrate_meta_def default_experiment_def section_of_def default_meta_def flat_document_def get_int_def
        get_float_def update_section_def dupdate_def strip py_or_def Let_def)
  show "drone_counts flat_document default_swarm = Inr (8, 6)"
    by (simp add: drone_counts_def flat_document_def plen_def get_int_def py_or_def default_swarm_def default_counts)
  show "migrate_world flat_document (default_experiment w) = Inr (default_experiment w)"
    by (simp add: migrate_world_def default_experiment_def section_of_def default_world_def default_environment_def
        get_mapping_def flat_document_def get_float_def update_section_def dupdate_def Let_def)
  show "migrate_service flat_document (default_experiment w) = Inr (default_experiment w)"
    by (simp add: migrate_service_def default_experiment_def section_of_def default_service_region_def
        flat_document_def get_float_def update_section_def dupdate_def Let_def)
  show "migrate_station flat_document (default_experiment w) = Inr (default_experiment w)"
    by (simp add: migrate_station_def default_experiment_def section_of_def get_mapping_def
        flat_document_def update_section_def dupdate_def)
  show "migrate_topology flat_document 6 (default_experiment w) = Inr (default_experiment w)"
    by (simp add: migrate_topology_def migrate_branches_def default_experiment_def section_of_def default_topology_def get_mapping_def
        flat_document_def update_section_def dupdate_def Let_def py_lower_def lower_char_def topology_mode_names_def default_counts)
  show "migrate_radio flat_document (default_experiment w) = Inr (default_experiment w)"
    by (simp add: migrate_radio_def default_experiment_def section_of_def default_communication_def get_mapping_def
        flat_document_def get_float_def update_section_def dupdate_def Let_def)
qed

lemma flat_blocks_late:
  "migrate_swarm flat_document 8 6 (default_experiment w) = Inr (default_experiment w)"
  "migrate_antennas flat_document (default_experiment w) = Inr (mast_base w)"
  "migrate_visual flat_document (mast_base w) = Inr (mast_base w)"
proof -
  have c: "section_of (default_experiment w) ''communication'' = default_communication"
    by (simp add: default_experiment_def section_of_def)
  show "migrate_swarm flat_document 8 6 (default_experiment w) = Inr (default_experiment w)"
    by (simp add: migrate_swarm_def migrate_drones_def default_experiment_def section_of_def default_swarm_def
        flat_document_def update_section_def dupdate_def pget_def default_counts)
  have "legacy_antenna default_communication 1 [(''id'', PStr ''mast'')] =
      Inr (as_dict (hd (as_list (dget mast_antennas ''definitions'' PNone))))"
    by (simp add: legacy_antenna_def mast_antennas_def get_float_def default_communication_def ptuple_def Let_def)
  then show "migrate_antennas flat_document (default_experiment w) = Inr (mast_base w)"
    unfolding migrate_antennas_def c by (simp add: flat_document_def mast_base_def mast_antennas_def Let_def)
  have v: "section_of (mast_base w) ''visualization'' = default_visualization"
    "map_of (mast_base w) ''visualization'' = Some (PDict default_visualization)"
    "distinct (dict_keys (mast_base w))"
    by (simp_all add: mast_base_def default_experiment_def section_of_def)
  have "dupdate default_visualization
      [(''custom_drone_usd'', PStr (py_str (dget default_visualization ''custom_drone_usd'' PNone))),
       (''visual_asset_scale'', flit (2 / 10)), (''show_service_region'', PBool True),
       (''show_coverage_preview'', PBool True), (''coverage_opacity'', flit (35 / 1000))] = default_visualization"
    by (simp add: default_visualization_def dupdate_def)
  with dset_present [OF v(2,3)] show "migrate_visual flat_document (mast_base w) = Inr (mast_base w)"
    unfolding migrate_visual_def v(1)
    by (simp add: flat_document_def get_mapping_def get_float_def update_section_def v(1) Let_def)
qed

definition mast_document :: "env \<Rightarrow> pydict" where
  "mast_document w =
     dset ''compatibility'' (PDict (dset ''migrated_from_flat_config'' (PBool True) default_compatibility)) (mast_base w)"

lemma flat_migrates: "migrate_legacy_config w flat_document = Inr (mast_document w)"
proof -
  have "\<not> is_versioned flat_document" "nested_version flat_document ''v6'' = None" "nested_version flat_document ''v5'' = None"
    by (simp_all add: is_versioned_def nested_version_def flat_document_def)
  moreover have "section_of (default_experiment w) ''swarm'' = default_swarm"
    by (simp add: default_experiment_def section_of_def)
  moreover have "update_section ''experiment'' [(''updated_at'', PFloat (env_now w))]
       (update_section ''compatibility'' [(''migrated_from_flat_config'', PBool True)] (mast_base w)) = mast_document w"
    by (simp add: update_section_def section_of_def mast_document_def mast_base_def default_experiment_def dupdate_def
        default_meta_def)
  ultimately show ?thesis
    by (simp add: migrate_legacy_config_def migrate_flat_def flat_blocks flat_blocks_late)
qed

lemma mast_sections:
  "dget (mast_document w) ''world'' v = PDict default_world" "dget (mast_document w) ''swarm'' v = PDict default_swarm"
  "dget (mast_document w) ''topology'' v = PDict default_topology"
  "dget (mast_document w) ''communication'' v = PDict default_communication"
  "dget (mast_document w) ''antennas'' v = PDict mast_antennas"
  "dget (mast_document w) ''traffic'' v = PDict default_traffic"
  by (simp_all add: mast_document_def mast_base_def default_experiment_def)

lemma mast_meta_clean: "check_meta (mast_document w) = Inr []"
proof -
  have "dget (mast_document w) k v = dget (default_experiment w) k v" if "k \<in> {''experiment'', ''schema_version''}" for k v
    using that by (auto simp: mast_document_def mast_base_def)
  then show ?thesis using default_meta_clean [of w] unfolding check_meta_def by simp
qed

lemma mast_antennas_clean: "check_antenna_section (PDict mast_antennas) = []"
proof -
  have "check_range p (flit 0) (flit (- 100)) (flit 100) = (rnd64 0, [])" for p
    by (rule check_range_flit) simp_all
  then show ?thesis
    by (simp add: check_antenna_section_def mast_antennas_def check_assignments_Nil report_if_def)
qed

lemma flat_accepted:
  "\<exists>v. validate_experiment w flat_document True = Inr v \<and> dget_item v ''config'' = Inr (PDict (mast_document w))"
proof -
  obtain sv sw where s: "check_swarm default_swarm = (sv, [], sw)" "sv_relay sv = 6"
    using default_swarm_clean by blast
  obtain tw where t: "check_topology default_topology sv = ([], tw)"
    using default_topology_clean [OF s(2)] by (metis prod.collapse)
  obtain cw where c: "check_communication default_communication default_world = ([], cw)"
    using default_communication_clean by (metis prod.collapse)
  have "\<exists>warnings. check_experiment (mast_document w) = Inr ([], warnings)"
    unfolding check_experiment_def mast_sections mast_meta_clean
    by (simp add: pitems_def s(1) t c default_world_clean mast_antennas_clean default_traffic_clean)
  then show ?thesis by (auto simp: validate_experiment_def flat_migrates dget_item_def)
qed

lemma accepted_then_rejected_witness:
  "\<exists>v m e. validate_experiment \<lparr>env_now = Fin 5, env_uuid = 0\<rparr> flat_document True = Inr v
     \<and> dget_item v ''config'' = Inr (PDict m)
     \<and> validate_experiment \<lparr>env_now = Fin 6, env_uuid = 0\<rparr> m True = Inl e"
proof -
  let ?w = "\<lparr>env_now = Fin 5, env_uuid = 0\<rparr>"
  obtain v where v: "validate_experiment ?w flat_document True = Inr v" "dget_item v ''config'' = Inr (PDict (mast_document ?w))"
    using flat_accepted by blast
  have k: "keys_ok (PDict (mast_document ?w))"
    unfolding mast_document_def mast_base_def
    by (intro keys_ok_dset default_experiment_keys_ok) (simp_all add: mast_antennas_def default_compatibility_def)
  have ver: "is_versioned (mast_document ?w)"
    by (simp add: is_versioned_iff mast_document_def mast_base_def)
  have a: "map_of (mast_document ?w) ''antennas'' = Some (PDict mast_antennas)"
    by (simp add: mast_document_def mast_base_def)
  have "\<exists>e. validate_experiment \<lparr>env_now = Fin 6, env_uuid = 0\<rparr> (mast_document ?w) True = Inl e"
    by (rule accepted_then_rejected [OF v ver k a, where as = "[(''station'', PStr ''mast'')]"
          and defs = "as_list (dget mast_antennas ''definitions'' PNone)"])
      (simp_all add: mast_antennas_def item_id_def)
  with v show ?thesis by blast
qed

section \<open>Branches dealt out by the migration\<close>

lemma mset_dealt:
  assumes "n \<ge> 1"
  shows "(\<Sum>k\<leftarrow>int_range 0 n. mset (filter (\<lambda>i. (i - 1) mod n = k) xs)) = mset xs"
proof (induction xs)
  case Nil
  have "(\<Sum>k\<leftarrow>ks. {#}) = ({#} :: int multiset)" for ks :: "int list" by (induction ks) simp_all
  then show ?case by simp
next
  case (Cons x xs)
  let ?m = "(x - 1) mod n"
  have m: "?m \<in> set (int_range 0 n)" using assms by simp
  have "(\<Sum>k\<leftarrow>ks. mset (filter (\<lambda>i. (i - 1) mod n = k) (x # xs)))
      = (\<Sum>k\<leftarrow>ks. mset (filter (\<lambda>i. (i - 1) mod n = k) xs)) + (if ?m \<in> set ks then {#x#} else {#})"
    if "distinct ks" for ks
    using that by (induction ks) auto
  from this [OF distinct_int_range] m Cons show ?case by simp
qed

definition branch_relays :: "pyval \<Rightarrow> int list" where
  "branch_relays v = map (\<lambda>x. case x of PInt i \<Rightarrow> i | _ \<Rightarrow> 0) (as_list v)"

lemma branch_relays_ints: "branch_relays (PList (map PInt is)) = is"
  by (simp add: branch_relays_def o_def)

lemma mset_concat_sum: "mset (concat (map f ks)) = (\<Sum>k\<leftarrow>ks. mset (f k))"
  by (induction ks) simp_all

text \<open>: for a flat document that brings no branches of its own, the branches the migration makes, whatever the
  mode and the branch count, hold every relay of \<open>1..relay\<close> exactly once between them.\<close>

theorem migrated_branches_partition:
  assumes "migrate_branches source topology mode relay = Inr branches"
    and "dget topology ''manual_branches'' (dget source ''manual_branches'' (PList [])) = PList []"
  shows "mset (concat (map branch_relays branches)) = mset (int_range 1 (relay + 1))"
proof (cases "mode = ''chain''")
  case True
  with assms have "branches = [PList (map PInt (int_range 1 (relay + 1)))]"
    by (simp add: migrate_branches_def)
  then show ?thesis by (simp add: branch_relays_ints)
next
  case False
  with assms obtain n where b: "branches = map (dealt_branch relay (max 1 n)) (int_range 0 (max 1 n))"
    by (auto simp: migrate_branches_def bindR_Inr_iff Let_def)
  have "branch_relays (dealt_branch relay (max 1 n) k) = filter (\<lambda>i. (i - 1) mod max 1 n = k) (int_range 1 (relay + 1))" for k
    unfolding dealt_branch_def by (rule branch_relays_ints)
  then have "mset (concat (map branch_relays branches))
      = (\<Sum>k\<leftarrow>int_range 0 (max 1 n). mset (filter (\<lambda>i. (i - 1) mod max 1 n = k) (int_range 1 (relay + 1))))"
    unfolding b map_map o_def mset_concat_sum by simp
  with mset_dealt [of "max 1 n"] show ?thesis by simp
qed

lemma migrated_branches_partition_witness:
  "\<exists>branches. migrate_branches [(''branch_count'', PInt 2)] [] ''parallel'' 5 = Inr branches
     \<and> length branches = 2 \<and> mset (concat (map branch_relays branches)) = mset [1, 2, 3, 4, 5]"
proof -
  let ?b = "[PList [PInt 1, PInt 3, PInt 5], PList [PInt 2, PInt 4]]"
  have run: "migrate_branches [(''branch_count'', PInt 2)] [] ''parallel'' 5 = Inr ?b" by code_simp
  have "mset (int_range 1 6) = mset [1, 2, 3, 4, 5]" by (simp add: int_range_def upt_rec)
  with migrated_branches_partition [OF run] run show ?thesis by simp
qed

end
