(* ===== verification/Link.thy ===== *)
theory Link
  imports Models Hashing Py_Math
begin

text \<open>
  The analytical link engine and the execution gate (\<open>netlab/link.py\<close>, and \<open>LinkMetrics\<close> of
  \<open>netlab/models.py\<close>).

  \<^item> \<open>link_request\<close>, \<open>link_metrics\<close>: the two dataclasses; the positions of a request are unchecked
    values until \<open>compute_analytical_link\<close> reads them;
  \<^item> \<open>link_env\<close>: what a computation reads from outside: the clock when the metrics are stamped, when
    the gate judges their age, and when they are printed, the measured computation time, the
    number of identifiers drawn so far, and the standard normal deviate that Python's generator
    draws first from a seed;
  \<^item> logarithms and powers come from the C library (\<open>libm\<close>);
  \<^item> \<open>sum\<close> adds from the left, as the Python releases before 3.12 do.
\<close>

definition C_MPS :: pyfloat where
  "C_MPS = Fin 299792458"

definition BOLTZMANN_DBM_HZ :: pyfloat where
  "BOLTZMANN_DBM_HZ = Fin (- 174)"

definition math_pi :: pyfloat where
  "math_pi = rnd64 (3141592653589793 / 1000000000000000)"

definition millimetre :: pyfloat where
  "millimetre = rnd64 (1 / 1000)"

record link_env =
  le_metric_at :: time
  le_decision_at :: time
  le_printed_at :: time
  le_elapsed_ms :: pyfloat
  le_uuid :: nat
  le_deviate :: "int \<Rightarrow> pyfloat"

section \<open>Requests\<close>

record link_request =
  lr_src :: string
  lr_dst :: string
  lr_tx_position :: pyval
  lr_rx_position :: pyval
  lr_frequency_hz :: pyfloat
  lr_bandwidth_hz :: pyfloat
  lr_tx_power_dbm :: pyfloat
  lr_receiver_noise_figure_db :: pyfloat
  lr_implementation_loss_db :: pyfloat
  lr_tx_gain_dbi :: pyfloat
  lr_rx_gain_dbi :: pyfloat
  lr_tx_cable_loss_db :: pyfloat
  lr_rx_cable_loss_db :: pyfloat
  lr_atmospheric_loss_db :: pyfloat
  lr_rain_loss_db :: pyfloat
  lr_foliage_loss_db :: pyfloat
  lr_clutter_loss_db :: pyfloat
  lr_blockage_loss_db :: pyfloat
  lr_polarization_loss_db :: pyfloat
  lr_miscellaneous_loss_db :: pyfloat
  lr_interference_margin_db :: pyfloat
  lr_path_loss_exponent :: pyfloat
  lr_reference_distance_m :: pyfloat
  lr_shadowing_sigma_db :: pyfloat
  lr_seed :: int
  lr_model :: string
  lr_spectral_efficiency_factor :: pyfloat
  lr_request_id :: string

text \<open>The dataclass with its defaults, given the fields that have none.\<close>

definition new_link_request ::
  "string \<Rightarrow> string \<Rightarrow> pyval \<Rightarrow> pyval \<Rightarrow> pyfloat \<Rightarrow> pyfloat \<Rightarrow> pyfloat \<Rightarrow> link_request" where
  "new_link_request src dst tx rx frequency bandwidth tx_power =
     \<lparr>lr_src = src, lr_dst = dst, lr_tx_position = tx, lr_rx_position = rx,
      lr_frequency_hz = frequency, lr_bandwidth_hz = bandwidth, lr_tx_power_dbm = tx_power,
      lr_receiver_noise_figure_db = Fin 7, lr_implementation_loss_db = Fin 2,
      lr_tx_gain_dbi = Fin 0, lr_rx_gain_dbi = Fin 0, lr_tx_cable_loss_db = Fin 0,
      lr_rx_cable_loss_db = Fin 0, lr_atmospheric_loss_db = Fin 0, lr_rain_loss_db = Fin 0,
      lr_foliage_loss_db = Fin 0, lr_clutter_loss_db = Fin 0, lr_blockage_loss_db = Fin 0,
      lr_polarization_loss_db = Fin 0, lr_miscellaneous_loss_db = Fin 0,
      lr_interference_margin_db = Fin 0, lr_path_loss_exponent = Fin 2,
      lr_reference_distance_m = Fin 1, lr_shadowing_sigma_db = Fin 0, lr_seed = 0,
      lr_model = ''free_space'', lr_spectral_efficiency_factor = Fin (3 / 4), lr_request_id = ''''\<rparr>"

definition origin_value :: pyval where
  "origin_value = PList [PFloat (Fin 0), PFloat (Fin 0), PFloat (Fin 0)]"

text \<open>\<open>float(value.get(key, default))\<close> with an exact default.\<close>

definition fget :: "pydict \<Rightarrow> string \<Rightarrow> rat \<Rightarrow> pyfloat res" where
  "fget d key dflt = py_float (dget d key (PFloat (Fin dflt)))"

text \<open>\<open>float(value.get(key, value.get(other, default)))\<close>.\<close>

definition fget2 :: "pydict \<Rightarrow> string \<Rightarrow> string \<Rightarrow> rat \<Rightarrow> pyfloat res" where
  "fget2 d key other dflt = py_float (dget d key (dget d other (PFloat (Fin dflt))))"

definition request_from_mapping :: "pydict \<Rightarrow> link_request res" where
  "request_from_mapping v =
     bindR (fget v ''frequency_hz'' 3500000000) (\<lambda>frequency.
     bindR (fget v ''bandwidth_hz'' 20000000) (\<lambda>bandwidth.
     bindR (fget v ''tx_power_dbm'' 23) (\<lambda>tx_power.
     bindR (fget2 v ''receiver_noise_figure_db'' ''noise_figure_db'' 7) (\<lambda>noise.
     bindR (fget v ''implementation_loss_db'' 2) (\<lambda>implementation.
     bindR (fget2 v ''tx_gain_dbi'' ''tx_antenna_gain_dbi'' 0) (\<lambda>tx_gain.
     bindR (fget2 v ''rx_gain_dbi'' ''rx_antenna_gain_dbi'' 0) (\<lambda>rx_gain.
     bindR (fget v ''tx_cable_loss_db'' 0) (\<lambda>tx_cable.
     bindR (fget v ''rx_cable_loss_db'' 0) (\<lambda>rx_cable.
     bindR (fget v ''atmospheric_loss_db'' 0) (\<lambda>atmospheric.
     bindR (fget v ''rain_loss_db'' 0) (\<lambda>rain.
     bindR (fget v ''foliage_loss_db'' 0) (\<lambda>foliage.
     bindR (fget v ''clutter_loss_db'' 0) (\<lambda>clutter.
     bindR (fget v ''blockage_loss_db'' 0) (\<lambda>blockage.
     bindR (fget v ''polarization_loss_db'' 0) (\<lambda>polarization.
     bindR (fget v ''miscellaneous_loss_db'' 0) (\<lambda>misc.
     bindR (fget v ''interference_margin_db'' 0) (\<lambda>interference.
     bindR (fget v ''path_loss_exponent'' 2) (\<lambda>exponent.
     bindR (fget v ''reference_distance_m'' 1) (\<lambda>reference.
     bindR (fget2 v ''shadowing_sigma_db'' ''shadow_loss_db'' 0) (\<lambda>shadowing.
     bindR (py_int (dget v ''seed'' (PInt 0))) (\<lambda>seed.
     bindR (fget v ''spectral_efficiency_factor'' (3 / 4)) (\<lambda>efficiency.
       Inr \<lparr>lr_src = py_str (dget v ''src'' (dget v ''tx_entity'' (PStr ''tx''))),
            lr_dst = py_str (dget v ''dst'' (dget v ''rx_entity'' (PStr ''rx''))),
            lr_tx_position = dget v ''tx_position'' (dget v ''tx'' origin_value),
            lr_rx_position = dget v ''rx_position'' (dget v ''rx'' origin_value),
            lr_frequency_hz = frequency, lr_bandwidth_hz = bandwidth, lr_tx_power_dbm = tx_power,
            lr_receiver_noise_figure_db = noise, lr_implementation_loss_db = implementation,
            lr_tx_gain_dbi = tx_gain, lr_rx_gain_dbi = rx_gain, lr_tx_cable_loss_db = tx_cable,
            lr_rx_cable_loss_db = rx_cable, lr_atmospheric_loss_db = atmospheric,
            lr_rain_loss_db = rain, lr_foliage_loss_db = foliage, lr_clutter_loss_db = clutter,
            lr_blockage_loss_db = blockage, lr_polarization_loss_db = polarization,
            lr_miscellaneous_loss_db = misc, lr_interference_margin_db = interference,
            lr_path_loss_exponent = exponent, lr_reference_distance_m = reference,
            lr_shadowing_sigma_db = shadowing, lr_seed = seed,
            lr_model = py_str (dget v ''model'' (PStr ''free_space'')),
            lr_spectral_efficiency_factor = efficiency,
            lr_request_id = py_str (dget v ''request_id'' (PStr ''''))\<rparr>))))))))))))))))))))))"

section \<open>Path loss\<close>

definition thermal_noise_dbm :: "libm \<Rightarrow> pyfloat \<Rightarrow> pyfloat \<Rightarrow> pyfloat res" where
  "thermal_noise_dbm m bandwidth noise_figure =
     (if fle bandwidth (Fin 0) then Inl ValueError
      else bindR (math_log (lm_log10 m) (PFloat bandwidth)) (\<lambda>l.
             Inr (fadd (fadd BOLTZMANN_DBM_HZ (fmul (Fin 10) l)) noise_figure)))"

definition free_space_path_loss_db :: "libm \<Rightarrow> pyfloat \<Rightarrow> pyfloat \<Rightarrow> pyfloat res" where
  "free_space_path_loss_db m distance frequency =
     (if fle distance (Fin 0) \<or> fle frequency (Fin 0) then Inl ValueError
      else bindR (fdiv C_MPS frequency) (\<lambda>wavelength.
           bindR (fdiv (fmul (fmul (Fin 4) math_pi) distance) wavelength) (\<lambda>ratio.
           bindR (math_log (lm_log10 m) (PFloat ratio)) (\<lambda>l. Inr (fmul (Fin 20) l)))))"

definition log_distance_path_loss_db ::
  "libm \<Rightarrow> pyfloat \<Rightarrow> pyfloat \<Rightarrow> pyfloat \<Rightarrow> pyfloat \<Rightarrow> pyfloat res" where
  "log_distance_path_loss_db m distance frequency exponent reference =
     (if flt exponent (Fin 1) \<or> fgt exponent (Fin 8) then Inl ValueError
      else let d0 = py_max millimetre reference; d = py_max distance d0
           in bindR (free_space_path_loss_db m d0 frequency) (\<lambda>base.
              bindR (fdiv d d0) (\<lambda>ratio.
              bindR (math_log (lm_log10 m) (PFloat ratio)) (\<lambda>l.
                Inr (fadd base (fmul (fmul (Fin 10) exponent) l))))))"

section \<open>Metrics\<close>

record link_metrics =
  lk_link_id :: string
  lk_src :: string
  lk_dst :: string
  lk_distance_m :: pyfloat
  lk_path_loss_db :: pyfloat
  lk_rx_power_dbm :: pyfloat
  lk_snr_db :: pyfloat
  lk_capacity_mbps :: pyfloat
  lk_propagation_delay_ms :: pyfloat
  lk_sinr_db :: "pyfloat option"
  lk_queue_delay_ms :: pyfloat
  lk_total_delay_ms :: pyfloat
  lk_los_state :: string
  lk_model :: string
  lk_model_version :: string
  lk_fidelity :: fidelity_profile
  lk_timestamp_wall_s :: time
  lk_valid_for_s :: pyfloat
  lk_components_db :: "(string \<times> pyfloat) list"
  lk_request_id :: string
  lk_computation_ms :: pyfloat
  lk_cache_status :: string

definition age_s :: "time \<Rightarrow> link_metrics \<Rightarrow> pyfloat" where
  "age_s now m = py_max (Fin 0) (fsub now (lk_timestamp_wall_s m))"

definition metrics_as_dict :: "time \<Rightarrow> link_metrics \<Rightarrow> pydict" where
  "metrics_as_dict now m =
     [(''link_id'', PStr (lk_link_id m)), (''src'', PStr (lk_src m)), (''dst'', PStr (lk_dst m)),
      (''distance_m'', PFloat (lk_distance_m m)), (''path_loss_db'', PFloat (lk_path_loss_db m)),
      (''rx_power_dbm'', PFloat (lk_rx_power_dbm m)), (''snr_db'', PFloat (lk_snr_db m)),
      (''capacity_mbps'', PFloat (lk_capacity_mbps m)),
      (''propagation_delay_ms'', PFloat (lk_propagation_delay_ms m)),
      (''sinr_db'', opt_float (lk_sinr_db m)), (''queue_delay_ms'', PFloat (lk_queue_delay_ms m)),
      (''total_delay_ms'', PFloat (lk_total_delay_ms m)), (''los_state'', PStr (lk_los_state m)),
      (''model'', PStr (lk_model m)), (''model_version'', PStr (lk_model_version m)),
      (''fidelity'', PStr (fidelity_profile_value (lk_fidelity m))),
      (''timestamp_wall_s'', PFloat (lk_timestamp_wall_s m)),
      (''valid_for_s'', PFloat (lk_valid_for_s m)),
      (''components_db'', PDict (map_values PFloat (lk_components_db m))),
      (''request_id'', PStr (lk_request_id m)), (''computation_ms'', PFloat (lk_computation_ms m)),
      (''cache_status'', PStr (lk_cache_status m)), (''age_s'', PFloat (age_s now m))]"

text \<open>The vector of a value: its length is taken first, then each element is converted.\<close>

definition position_of :: "pyval \<Rightarrow> vec3 res" where
  "position_of v = bindR (ptuple v) normalize_vec3"

definition vec_list :: "vec3 \<Rightarrow> pyfloat list" where
  "vec_list v = (case v of (x, y, z) \<Rightarrow> [x, y, z])"

definition hex_value :: "char \<Rightarrow> int" where
  "hex_value c = (if is_digit c then char_digit c else of_char c - 87)"

text \<open>The first eight bytes of the digest as a big-endian integer: its first sixteen hex digits.\<close>

definition shadowing_seed :: "link_request \<Rightarrow> pyfloat \<Rightarrow> int" where
  "shadowing_seed r distance =
     foldl (\<lambda>n c. 16 * n + hex_value c) 0
       (take 16 (sha256 (show_int (lr_seed r) @ ''|'' @ lr_src r @ ''|'' @ lr_dst r @ ''|''
                         @ format_fixed 3 distance)))"

text \<open>\<open>gauss(0.0, sigma)\<close> is \<open>0.0 + z * sigma\<close> for the deviate \<open>z\<close> of the seeded generator.\<close>

definition shadowing_of :: "link_env \<Rightarrow> link_request \<Rightarrow> pyfloat \<Rightarrow> pyfloat" where
  "shadowing_of w r distance =
     (if fgt (lr_shadowing_sigma_db r) (Fin 0)
      then fadd (Fin 0) (fmul (le_deviate w (shadowing_seed r distance)) (lr_shadowing_sigma_db r))
      else Fin 0)"

definition base_path_loss :: "libm \<Rightarrow> link_request \<Rightarrow> pyfloat \<Rightarrow> (pyfloat \<times> string) res" where
  "base_path_loss m r distance =
     (let model = py_strip (py_lower (lr_model r))
      in if model \<in> set [''free_space'', ''sionna_analytical'', ''analytical_fspl'']
         then bindR (free_space_path_loss_db m distance (lr_frequency_hz r)) (\<lambda>b.
                Inr (b, if model = ''free_space'' then ''free_space''
                        else ''sionna_analytical_reference''))
         else if model \<in> set [''log_distance'', ''stochastic_shadowing'',
                              ''probabilistic_air_to_ground'']
         then bindR (log_distance_path_loss_db m distance (lr_frequency_hz r)
                       (lr_path_loss_exponent r) (lr_reference_distance_m r)) (\<lambda>b. Inr (b, model))
         else Inl ValueError)"

definition loss_components :: "link_request \<Rightarrow> pyfloat \<Rightarrow> pyfloat \<Rightarrow> (string \<times> pyfloat) list" where
  "loss_components r base shadowing =
     [(''base_path_loss_db'', base), (''shadowing_db'', shadowing),
      (''atmospheric_loss_db'', lr_atmospheric_loss_db r), (''rain_loss_db'', lr_rain_loss_db r),
      (''foliage_loss_db'', lr_foliage_loss_db r), (''clutter_loss_db'', lr_clutter_loss_db r),
      (''blockage_loss_db'', lr_blockage_loss_db r),
      (''polarization_loss_db'', lr_polarization_loss_db r),
      (''tx_cable_loss_db'', lr_tx_cable_loss_db r), (''rx_cable_loss_db'', lr_rx_cable_loss_db r),
      (''implementation_loss_db'', lr_implementation_loss_db r),
      (''miscellaneous_loss_db'', lr_miscellaneous_loss_db r)]"

text \<open>\<open>10.0 ** x\<close>.\<close>

fun pow10_float :: "libm \<Rightarrow> pyfloat \<Rightarrow> pyfloat res" where
  "pow10_float m (Fin x) = lm_pow10 m x"
| "pow10_float m PInf = Inr PInf"
| "pow10_float m NInf = Inr (Fin 0)"
| "pow10_float m NaN = Inr NaN"

definition capacity_of :: "libm \<Rightarrow> link_request \<Rightarrow> pyfloat \<Rightarrow> pyfloat res" where
  "capacity_of m r sinr =
     bindR (fdiv sinr (Fin 10)) (\<lambda>decades.
     bindR (pow10_float m decades) (\<lambda>linear.
     bindR (math_log (lm_log2 m) (PFloat (fadd (Fin 1) (py_max (Fin 0) linear)))) (\<lambda>bits.
       fdiv (fmul (fmul (lr_spectral_efficiency_factor r) (lr_bandwidth_hz r)) bits)
         (Fin 1000000))))"

definition compute_analytical_link :: "libm \<Rightarrow> link_env \<Rightarrow> link_request \<Rightarrow> link_metrics res" where
  "compute_analytical_link m w r =
     bindR (position_of (lr_tx_position r)) (\<lambda>tx.
     bindR (position_of (lr_rx_position r)) (\<lambda>rx.
     (let distance = py_max millimetre (fdist (vec_list tx) (vec_list rx))
      in bindR (base_path_loss m r distance) (\<lambda>(base, normalized_model).
         (let components = loss_components r base (shadowing_of w r distance);
              path_loss = foldl fadd (Fin 0) (map snd components);
              rx_power = fsub (fadd (fadd (lr_tx_power_dbm r) (lr_tx_gain_dbi r))
                                    (lr_rx_gain_dbi r)) path_loss
          in bindR (thermal_noise_dbm m (lr_bandwidth_hz r) (lr_receiver_noise_figure_db r)) (\<lambda>noise.
             (let snr = fsub rx_power noise;
                  sinr = fsub snr (lr_interference_margin_db r)
              in bindR (capacity_of m r sinr) (\<lambda>capacity.
                 bindR (fdiv distance C_MPS) (\<lambda>seconds.
                 (let delay = fmul seconds (Fin 1000);
                      request_id = (if lr_request_id r = [] then fresh_uuid (le_uuid w)
                                    else lr_request_id r)
                  in Inr \<lparr>lk_link_id = lr_src r @ ''->'' @ lr_dst r @ '':'' @ take 8 request_id,
                          lk_src = lr_src r, lk_dst = lr_dst r, lk_distance_m = distance,
                          lk_path_loss_db = path_loss, lk_rx_power_dbm = rx_power,
                          lk_snr_db = snr, lk_capacity_mbps = capacity,
                          lk_propagation_delay_ms = delay, lk_sinr_db = Some sinr,
                          lk_queue_delay_ms = Fin 0, lk_total_delay_ms = delay,
                          lk_los_state = ''UNDETERMINED_ANALYTICAL'', lk_model = normalized_model,
                          lk_model_version = ''2.0'',
                          lk_fidelity = (if fgt (lr_shadowing_sigma_db r) (Fin 0)
                                         then FP_STOCHASTIC else FP_ANALYTICAL),
                          lk_timestamp_wall_s = le_metric_at w, lk_valid_for_s = Fin 2,
                          lk_components_db = components, lk_request_id = request_id,
                          lk_computation_ms = le_elapsed_ms w, lk_cache_status = ''MISS''\<rparr>))))))))))"

end
