(* ===== verification/Link_Gate.thy ===== *)
theory Link_Gate
  imports Link
begin

text \<open>
  The execution gate of \<open>netlab/link.py\<close>: \<open>evaluate_feasibility\<close> with its early returns in the
  order of the code, and \<open>evaluate_mapping\<close>, the service operation that computes a link and judges
  it.
\<close>

record gate_limits =
  gl_operational_range_m :: pyfloat
  gl_hard_outage_distance_m :: pyfloat
  gl_min_snr_db :: pyfloat
  gl_min_capacity_mbps :: pyfloat
  gl_min_sinr_db :: "pyfloat option"
  gl_metric_ttl_s :: pyfloat

record gate_ends =
  ge_source_active :: bool
  ge_destination_active :: bool
  ge_source_failed :: bool
  ge_destination_failed :: bool

definition flag_predicate :: "string \<Rightarrow> bool \<Rightarrow> bool \<Rightarrow> bool \<Rightarrow> gate_predicate" where
  "flag_predicate name passed v expected =
     \<lparr>gp_name = name, gp_passed = passed, gp_value = PBool v, gp_threshold = PBool expected,
      gp_margin = None, gp_unit = ''''\<rparr>"

definition limit_predicate ::
  "string \<Rightarrow> bool \<Rightarrow> pyfloat \<Rightarrow> pyfloat \<Rightarrow> pyfloat \<Rightarrow> string \<Rightarrow> gate_predicate" where
  "limit_predicate name passed v threshold margin unit =
     \<lparr>gp_name = name, gp_passed = passed, gp_value = PFloat v, gp_threshold = PFloat threshold,
      gp_margin = Some margin, gp_unit = unit\<rparr>"

definition node_predicates :: "gate_ends \<Rightarrow> gate_predicate list" where
  "node_predicates e =
     [flag_predicate ''source_active'' (ge_source_active e) (ge_source_active e) True,
      flag_predicate ''destination_active'' (ge_destination_active e) (ge_destination_active e) True,
      flag_predicate ''source_not_failed'' (\<not> ge_source_failed e) (ge_source_failed e) False,
      flag_predicate ''destination_not_failed'' (\<not> ge_destination_failed e)
        (ge_destination_failed e) False]"

definition decide ::
  "time \<Rightarrow> bool \<Rightarrow> gate_reason \<Rightarrow> gate_predicate list \<Rightarrow> pyfloat option \<Rightarrow> feasibility_decision" where
  "decide now feasible reason ps age =
     \<lparr>fd_feasible = feasible, fd_reason = reason, fd_predicates = ps, fd_metric_age_s = age,
      fd_evaluated_at = now\<rparr>"

definition no_metric_predicate :: gate_predicate where
  "no_metric_predicate =
     \<lparr>gp_name = ''link_metric_available'', gp_passed = False, gp_value = PNone,
      gp_threshold = PStr ''available'', gp_margin = None, gp_unit = ''''\<rparr>"

text \<open>The checks of a metric that exists; \<open>ps\<close> are the predicates recorded before.\<close>

definition evaluate_metric ::
  "time \<Rightarrow> link_metrics \<Rightarrow> gate_limits \<Rightarrow> gate_predicate list \<Rightarrow> feasibility_decision" where
  "evaluate_metric now m l ps =
     (let age = age_s now m; ttl = gl_metric_ttl_s l;
          fresh = fle age ttl;
          ps1 = ps @ [limit_predicate ''metric_fresh'' fresh age ttl (fsub ttl age) ''s'']
      in if \<not> fresh then decide now False GR_STALE_LINK_METRIC ps1 (Some age)
      else let dist = lk_distance_m m; hard = gl_hard_outage_distance_m l;
          within_hard = flt dist hard;
          ps2 = ps1 @ [limit_predicate ''hard_outage_distance'' within_hard dist hard
                         (fsub hard dist) ''m'']
      in if \<not> within_hard then decide now False GR_HARD_OUTAGE_DISTANCE ps2 (Some age)
      else let rng = gl_operational_range_m l;
          within_operational = fle dist rng;
          ps3 = ps2 @ [limit_predicate ''operational_range'' within_operational dist rng
                         (fsub rng dist) ''m'']
      in if \<not> within_operational then decide now False GR_OUT_OF_RANGE ps3 (Some age)
      else let snr = lk_snr_db m; min_snr = gl_min_snr_db l;
          snr_ok = fge snr min_snr;
          ps4 = ps3 @ [limit_predicate ''snr'' snr_ok snr min_snr (fsub snr min_snr) ''dB'']
      in if \<not> snr_ok then decide now False GR_SNR_BELOW_THRESHOLD ps4 (Some age)
      else let (sinr_ok, ps5) =
            (case (gl_min_sinr_db l, lk_sinr_db m) of
               (Some min_sinr, Some sinr) \<Rightarrow>
                 (fge sinr min_sinr,
                  ps4 @ [limit_predicate ''sinr'' (fge sinr min_sinr) sinr min_sinr
                           (fsub sinr min_sinr) ''dB''])
             | _ \<Rightarrow> (True, ps4))
      in if \<not> sinr_ok then decide now False GR_SINR_BELOW_THRESHOLD ps5 (Some age)
      else let cap = lk_capacity_mbps m; min_cap = gl_min_capacity_mbps l;
          capacity_ok = fge cap min_cap;
          ps6 = ps5 @ [limit_predicate ''capacity'' capacity_ok cap min_cap (fsub cap min_cap)
                         ''Mbit/s'']
      in if \<not> capacity_ok then decide now False GR_CAPACITY_BELOW_THRESHOLD ps6 (Some age)
      else decide now True GR_FEASIBLE ps6 (Some age))"

definition evaluate_feasibility ::
  "time \<Rightarrow> link_metrics option \<Rightarrow> gate_ends \<Rightarrow> gate_limits \<Rightarrow> feasibility_decision" where
  "evaluate_feasibility now metrics e l =
     (let ps = node_predicates e
      in if \<not> ge_source_active e then decide now False GR_SOURCE_INACTIVE ps None
         else if \<not> ge_destination_active e then decide now False GR_DESTINATION_INACTIVE ps None
         else if ge_source_failed e then decide now False GR_SOURCE_FAILED ps None
         else if ge_destination_failed e then decide now False GR_DESTINATION_FAILED ps None
         else case metrics of
             None \<Rightarrow> decide now False GR_LINK_SERVICE_UNAVAILABLE (ps @ [no_metric_predicate]) None
           | Some m \<Rightarrow> evaluate_metric now m l ps)"

text \<open>The limits of the gate in a mapping, with their defaults.\<close>

definition read_limits :: "pydict \<Rightarrow> gate_limits res" where
  "read_limits d =
     bindR (fget d ''operational_range_m'' 90) (\<lambda>rng.
     bindR (fget d ''hard_outage_distance_m'' 220) (\<lambda>hard.
     bindR (fget d ''min_snr_db'' 3) (\<lambda>snr.
     bindR (fget2 d ''min_sinr_db'' ''min_snr_db'' 3) (\<lambda>sinr.
     bindR (fget d ''min_capacity_mbps'' 1) (\<lambda>cap.
     bindR (fget d ''metric_ttl_s'' 2) (\<lambda>ttl.
       Inr \<lparr>gl_operational_range_m = rng, gl_hard_outage_distance_m = hard, gl_min_snr_db = snr,
            gl_min_capacity_mbps = cap, gl_min_sinr_db = Some sinr, gl_metric_ttl_s = ttl\<rparr>))))))"

definition evaluate_mapping :: "libm \<Rightarrow> link_env \<Rightarrow> pydict \<Rightarrow> pydict \<Rightarrow> pydict res" where
  "evaluate_mapping lm w payload thresholds =
     bindR (request_from_mapping payload) (\<lambda>r.
     bindR (compute_analytical_link lm w r) (\<lambda>m.
     bindR (read_limits thresholds) (\<lambda>l.
     (let d = evaluate_feasibility (le_decision_at w) (Some m)
                \<lparr>ge_source_active = truthy (dget payload ''source_active'' (PBool True)),
                 ge_destination_active = truthy (dget payload ''destination_active'' (PBool True)),
                 ge_source_failed = truthy (dget payload ''source_failed'' (PBool False)),
                 ge_destination_failed = truthy (dget payload ''destination_failed'' (PBool False))\<rparr> l
      in Inr [(''metrics'', PDict (metrics_as_dict (le_printed_at w) m)),
              (''decision'', PDict (decision_as_dict d))]))))"

section \<open>What the gate accepts\<close>

text \<open>The acceptance condition of a metric, as one formula.\<close>

definition metric_acceptable :: "time \<Rightarrow> link_metrics \<Rightarrow> gate_limits \<Rightarrow> bool" where
  "metric_acceptable now m l =
     (fle (age_s now m) (gl_metric_ttl_s l)
      \<and> flt (lk_distance_m m) (gl_hard_outage_distance_m l)
      \<and> fle (lk_distance_m m) (gl_operational_range_m l)
      \<and> fge (lk_snr_db m) (gl_min_snr_db l)
      \<and> (case (gl_min_sinr_db l, lk_sinr_db m) of
           (Some t, Some s) \<Rightarrow> fge s t | _ \<Rightarrow> True)
      \<and> fge (lk_capacity_mbps m) (gl_min_capacity_mbps l))"

definition ends_acceptable :: "gate_ends \<Rightarrow> bool" where
  "ends_acceptable e =
     (ge_source_active e \<and> ge_destination_active e \<and> \<not> ge_source_failed e
      \<and> \<not> ge_destination_failed e)"

lemma decide_fields [simp]:
  "fd_feasible (decide now b reason ps age) = b"
  "fd_reason (decide now b reason ps age) = reason"
  "fd_predicates (decide now b reason ps age) = ps"
  "fd_metric_age_s (decide now b reason ps age) = age"
  by (simp_all add: decide_def)

lemma limit_predicate_passed [simp]: "gp_passed (limit_predicate n b v t g u) = b"
  by (simp add: limit_predicate_def)

lemma node_predicates_passed: "list_all gp_passed (node_predicates e) \<longleftrightarrow> ends_acceptable e"
  by (auto simp: node_predicates_def flag_predicate_def ends_acceptable_def)

lemma evaluate_metric_feasible:
  "fd_feasible (evaluate_metric now m l ps) \<longleftrightarrow> metric_acceptable now m l"
  unfolding evaluate_metric_def metric_acceptable_def Let_def
  by (auto split: option.splits)

lemma evaluate_metric_predicates:
  "list_all gp_passed ps \<Longrightarrow>
   list_all gp_passed (fd_predicates (evaluate_metric now m l ps)) \<longleftrightarrow> metric_acceptable now m l"
  unfolding evaluate_metric_def metric_acceptable_def Let_def
  by (auto split: option.splits)

lemma evaluate_metric_reason:
  "fd_reason (evaluate_metric now m l ps) = GR_FEASIBLE \<longleftrightarrow> metric_acceptable now m l"
  unfolding evaluate_metric_def metric_acceptable_def Let_def
  by (auto split: option.splits)

text \<open>C30 The gate opens exactly when both ends are active and unfailed and a metric exists that is fresh, inside both distance limits and at or above every threshold; it opens exactly when every predicate it recorded passed, and the reason is FEASIBLE exactly then. A comparison with not-a-number never passes.\<close>

theorem gate_accepts_iff:
  "let d = evaluate_feasibility now metrics e l
   in (fd_feasible d \<longleftrightarrow>
         ends_acceptable e \<and> (\<exists>m. metrics = Some m \<and> metric_acceptable now m l))
      \<and> (fd_feasible d \<longleftrightarrow> list_all gp_passed (fd_predicates d))
      \<and> (fd_feasible d \<longleftrightarrow> fd_reason d = GR_FEASIBLE)"
proof (cases "ends_acceptable e")
  case True
  then have "list_all gp_passed (node_predicates e)" by (simp add: node_predicates_passed)
  with True show ?thesis
    by (auto simp: evaluate_feasibility_def ends_acceptable_def Let_def evaluate_metric_feasible
        evaluate_metric_predicates evaluate_metric_reason no_metric_predicate_def
        split: option.splits)
next
  case False
  then have "\<not> list_all gp_passed (node_predicates e)" by (simp add: node_predicates_passed)
  with False show ?thesis
    by (auto simp: evaluate_feasibility_def ends_acceptable_def Let_def)
qed

section \<open>Monotonicity\<close>

text \<open>Limits that ask for no more than others do, in every respect.\<close>

definition limits_relaxed :: "gate_limits \<Rightarrow> gate_limits \<Rightarrow> bool" where
  "limits_relaxed l l' =
     (fle (gl_operational_range_m l) (gl_operational_range_m l')
      \<and> fle (gl_hard_outage_distance_m l) (gl_hard_outage_distance_m l')
      \<and> fle (gl_metric_ttl_s l) (gl_metric_ttl_s l')
      \<and> fle (gl_min_snr_db l') (gl_min_snr_db l)
      \<and> fle (gl_min_capacity_mbps l') (gl_min_capacity_mbps l)
      \<and> (case gl_min_sinr_db l' of
           None \<Rightarrow> True
         | Some t' \<Rightarrow> (case gl_min_sinr_db l of None \<Rightarrow> False | Some t \<Rightarrow> fle t' t)))"

lemma py_max_zero_mono: "fle x y \<Longrightarrow> fle (py_max (Fin 0) x) (py_max (Fin 0) y)"
  by (cases x; cases y) (auto simp: py_max_def)

lemma py_max_zero_nonneg: "fle (Fin 0) (py_max (Fin 0) x)"
  by (cases x) (auto simp: py_max_def)

lemma elapsed_mono:
  assumes "fle x y"
  shows "fle (py_max (Fin 0) (fsub x t)) (py_max (Fin 0) (fsub y t))"
proof (cases t)
  case (Fin c)
  show ?thesis
  proof (cases "\<exists>a b. x = Fin a \<and> y = Fin b")
    case True
    then obtain a b where xy: "x = Fin a" "y = Fin b" by blast
    with assms have "fle (rnd64 (a - c)) (rnd64 (b - c))" by (intro rnd64_mono) simp
    then show ?thesis by (intro py_max_zero_mono) (simp add: xy Fin fsub_def)
  next
    case False
    have top: "fle (rnd64 q) PInf" for q using rnd64_not_NaN [of q] by (cases "rnd64 q") auto
    from False assms show ?thesis
      by (cases x; cases y) (auto simp: Fin fsub_def py_max_def fle_refl_iff top flt_imp_fle)
  qed
qed (use assms in \<open>cases x; cases y; simp add: fsub_def py_max_def fle_def\<close>)+

text \<open>Asking for less never closes the gate: a metric accepted at some time under some limits is accepted at every earlier time under limits that are relaxed in every respect, also when the interference threshold is dropped altogether.\<close>

theorem gate_monotone:
  assumes "limits_relaxed l l'" and "fle now' now"
    and "fd_feasible (evaluate_feasibility now (Some m) e l)"
  shows "fd_feasible (evaluate_feasibility now' (Some m) e l')"
proof -
  from assms(3) have ends: "ends_acceptable e" and acc: "metric_acceptable now m l"
    by (auto simp: evaluate_feasibility_def ends_acceptable_def Let_def evaluate_metric_feasible
        split: if_splits)
  have "fle (age_s now' m) (age_s now m)"
    unfolding age_s_def by (rule elapsed_mono [OF assms(2)])
  with assms(1) acc have "metric_acceptable now' m l'"
    unfolding metric_acceptable_def limits_relaxed_def
    by (auto intro: fle_trans flt_fle_trans split: option.splits)
  with ends show ?thesis
    by (simp add: evaluate_feasibility_def ends_acceptable_def Let_def evaluate_metric_feasible)
qed

definition demo_metrics :: link_metrics where
  "demo_metrics =
     \<lparr>lk_link_id = ''a->b:1'', lk_src = ''a'', lk_dst = ''b'', lk_distance_m = Fin 80,
      lk_path_loss_db = Fin 85, lk_rx_power_dbm = Fin (- 62), lk_snr_db = Fin 20,
      lk_capacity_mbps = Fin 100, lk_propagation_delay_ms = Fin 0, lk_sinr_db = Some (Fin 17),
      lk_queue_delay_ms = Fin 0, lk_total_delay_ms = Fin 0, lk_los_state = ''UNKNOWN'',
      lk_model = ''free_space'', lk_model_version = ''2.0'', lk_fidelity = FP_ANALYTICAL,
      lk_timestamp_wall_s = Fin 10, lk_valid_for_s = Fin 2, lk_components_db = [],
      lk_request_id = ''1'', lk_computation_ms = Fin 0, lk_cache_status = ''MISS''\<rparr>"

definition demo_limits :: gate_limits where
  "demo_limits =
     \<lparr>gl_operational_range_m = Fin 90, gl_hard_outage_distance_m = Fin 220, gl_min_snr_db = Fin 3,
      gl_min_capacity_mbps = Fin 1, gl_min_sinr_db = Some (Fin 3), gl_metric_ttl_s = Fin 2\<rparr>"

definition demo_ends :: gate_ends where
  "demo_ends =
     \<lparr>ge_source_active = True, ge_destination_active = True, ge_source_failed = False,
      ge_destination_failed = False\<rparr>"

lemma gate_monotone_witness:
  "fd_feasible (evaluate_feasibility (Fin 11) (Some demo_metrics) demo_ends
     (demo_limits\<lparr>gl_min_sinr_db := None, gl_operational_range_m := PInf\<rparr>))"
proof (rule gate_monotone [of demo_limits _ _ "Fin 12"])
  show "limits_relaxed demo_limits
      (demo_limits\<lparr>gl_min_sinr_db := None, gl_operational_range_m := PInf\<rparr>)"
    by (simp add: limits_relaxed_def demo_limits_def)
  show "fle (Fin 11) (Fin 12)" by simp
  show "fd_feasible (evaluate_feasibility (Fin 12) (Some demo_metrics) demo_ends demo_limits)"
    by code_simp
qed

end
