(* ===== verification/Graph_Search.thy ===== *)
theory Graph_Search
  imports Prelude
begin

text \<open>
  The graph routines of \<open>netlab/topology.py\<close> that search: \<open>adjacency\<close>, \<open>reachable\<close>, \<open>has_cycle\<close>,
  \<open>connected_components\<close>, \<open>shortest_path\<close>.

  A graph is a dictionary from a node to the set of its successors; the set is a list without
  repetition, in the order in which the code would iterate over it. The theorems hold for every
  graph, so for every such order.

  \<^item> \<open>arcs g\<close> is the edge relation, the abstraction the properties speak about;
  \<^item> the two breadth-first loops are total functions, by a measure on the vertices not seen yet;
  \<^item> the recursion of \<open>has_cycle\<close> runs on fuel; the number of nodes is enough
    (\<open>cycle_loop_correct\<close>).
\<close>

type_synonym digraph = "(string \<times> string list) list"
type_synonym edge = "string \<times> string"

section \<open>Adjacency\<close>

definition nbrs :: "digraph \<Rightarrow> string \<Rightarrow> string list" where
  "nbrs g n = (case map_of g n of None \<Rightarrow> [] | Some xs \<Rightarrow> xs)"

definition set_add :: "'a \<Rightarrow> 'a list \<Rightarrow> 'a list" where
  "set_add x xs = (if x \<in> set xs then xs else xs @ [x])"

definition set_default :: "string \<Rightarrow> digraph \<Rightarrow> digraph" where
  "set_default n g = (if map_of g n = None then g @ [(n, [])] else g)"

definition add_arc :: "edge \<Rightarrow> digraph \<Rightarrow> digraph" where
  "add_arc e g =
     (let g' = set_default (fst e) g
      in AList.update (fst e) (set_add (snd e) (nbrs g' (fst e))) g')"

text \<open>One edge: \<open>graph.setdefault(src, set()).add(dst); graph.setdefault(dst, set())\<close>, and the reverse.\<close>

definition add_edge :: "bool \<Rightarrow> edge \<Rightarrow> digraph \<Rightarrow> digraph" where
  "add_edge directed e g =
     (let g1 = set_default (snd e) (add_arc e g)
      in if directed then g1 else add_arc (snd e, fst e) g1)"

definition adjacency :: "string list \<Rightarrow> edge list \<Rightarrow> bool \<Rightarrow> digraph" where
  "adjacency nodes edges directed =
     fold (add_edge directed) edges (fold (\<lambda>n. AList.update n []) nodes [])"

definition arcs :: "digraph \<Rightarrow> (string \<times> string) set" where
  "arcs g = {(u, v). v \<in> set (nbrs g u)}"

definition graph_ok :: "digraph \<Rightarrow> bool" where
  "graph_ok g =
     (distinct (dict_keys g)
      \<and> list_all (\<lambda>(n, xs). distinct xs \<and> list_all (\<lambda>x. x \<in> set (dict_keys g)) xs) g)"

lemma in_arcs: "(u, v) \<in> arcs g \<longleftrightarrow> v \<in> set (nbrs g u)"
  by (simp add: arcs_def)

lemma nbrs_update: "nbrs (AList.update k xs g) n = (if n = k then xs else nbrs g n)"
  by (simp add: nbrs_def update_conv')

lemma nbrs_default [simp]: "nbrs (set_default k g) n = nbrs g n"
  by (auto simp: nbrs_def set_default_def map_add_def split: option.splits)

lemma set_set_add [simp]: "set (set_add x xs) = insert x (set xs)"
  by (auto simp: set_add_def)

lemma arcs_add_arc [simp]: "arcs (add_arc e g) = insert e (arcs g)"
  by (cases e) (auto simp: arcs_def add_arc_def nbrs_update Let_def split: if_splits)

lemma arcs_default [simp]: "arcs (set_default n g) = arcs g"
  by (simp add: arcs_def)

lemma arcs_add_edge:
  "arcs (add_edge directed e g) =
   (if directed then insert e (arcs g) else insert (snd e, fst e) (insert e (arcs g)))"
  by (simp add: add_edge_def Let_def)

lemma keys_default [simp]: "set (dict_keys (set_default n g)) = insert n (set (dict_keys g))"
proof (cases "map_of g n")
  case None
  then show ?thesis by (simp add: set_default_def dict_keys_def)
next
  case (Some xs)
  then have "n \<in> set (dict_keys g)" by (simp add: set_dict_keys domI)
  with Some show ?thesis by (auto simp: set_default_def)
qed

lemma keys_update [simp]: "set (dict_keys (AList.update n xs g)) = insert n (set (dict_keys g))"
  by (auto simp: set_dict_keys update_conv')

lemma keys_add_edge [simp]:
  "set (dict_keys (add_edge directed e g)) = {fst e, snd e} \<union> set (dict_keys g)"
  by (auto simp: add_edge_def add_arc_def Let_def)

lemma keys_fold_update:
  "set (dict_keys (fold (\<lambda>n. AList.update n []) ns g)) = set ns \<union> set (dict_keys g)"
  by (induction ns arbitrary: g) auto

lemma arcs_fold_update: "arcs g = {} \<Longrightarrow> arcs (fold (\<lambda>n. AList.update n []) ns g) = {}"
proof (induction ns arbitrary: g)
  case (Cons n ns)
  then have "arcs (AList.update n [] g) = {}" by (auto simp: arcs_def nbrs_update)
  with Cons.IH show ?case by simp
qed simp

lemma adjacency_keys:
  "set (dict_keys (adjacency nodes edges d)) = set nodes \<union> fst ` set edges \<union> snd ` set edges"
proof -
  have "set (dict_keys (fold (add_edge d) edges g))
      = set (dict_keys g) \<union> fst ` set edges \<union> snd ` set edges" for g
    by (induction edges arbitrary: g) auto
  then show ?thesis by (simp add: adjacency_def keys_fold_update)
qed

lemma adjacency_arcs:
  "arcs (adjacency nodes edges d) = (if d then set edges else set edges \<union> (set edges)\<inverse>)"
proof -
  have "arcs (fold (add_edge d) edges g)
      = arcs g \<union> (if d then set edges else set edges \<union> (set edges)\<inverse>)" for g
    by (induction edges arbitrary: g) (auto simp: arcs_add_edge)
  moreover have "arcs (fold (\<lambda>n. AList.update n []) nodes []) = {}"
    by (rule arcs_fold_update) (simp add: arcs_def nbrs_def)
  ultimately show ?thesis by (simp add: adjacency_def)
qed

lemma graph_ok_iff:
  "graph_ok g \<longleftrightarrow> distinct (dict_keys g) \<and> (\<forall>n. distinct (nbrs g n))
     \<and> (\<forall>u v. (u, v) \<in> arcs g \<longrightarrow> v \<in> set (dict_keys g))"
proof (cases "distinct (dict_keys g)")
  case True
  then have mem: "(n, xs) \<in> set g \<longleftrightarrow> map_of g n = Some xs" for n xs
    by (simp add: dict_keys_def)
  have "(\<forall>(n, xs)\<in>set g. P xs) \<longleftrightarrow> (\<forall>n. P (nbrs g n))" if "P []" for P
    unfolding nbrs_def using that by (auto simp: mem split: option.splits)
  from this [of "\<lambda>xs. distinct xs \<and> (\<forall>x\<in>set xs. x \<in> set (dict_keys g))"] show ?thesis
    unfolding graph_ok_def list_all_iff arcs_def using True by auto
qed (simp add: graph_ok_def)

lemma distinct_default: "distinct (dict_keys g) \<Longrightarrow> distinct (dict_keys (set_default n g))"
  by (auto simp: set_default_def dict_keys_def map_of_eq_None_iff)

lemma distinct_set_add [simp]: "distinct (set_add x xs) = distinct xs"
  by (auto simp: set_add_def)

lemma adjacency_ok: "graph_ok (adjacency nodes edges d)"
proof -
  let ?P = "\<lambda>g. distinct (dict_keys g) \<and> (\<forall>n. distinct (nbrs g n))"
  have arc: "?P g \<Longrightarrow> ?P (add_arc e g)" for e g
    by (auto simp: add_arc_def Let_def nbrs_update distinct_dict_keys_update distinct_default)
  have edge: "?P g \<Longrightarrow> ?P (add_edge d e g)" for e g
    using arc [of g e] arc [of "set_default (snd e) (add_arc e g)" "(snd e, fst e)"]
    by (auto simp: add_edge_def Let_def distinct_default)
  have edges: "?P g \<Longrightarrow> ?P (fold (add_edge d) es g)" for es g
    by (induction es arbitrary: g) (auto intro: edge [THEN conjunct1] edge [THEN conjunct2, rule_format])
  have "?P g \<Longrightarrow> ?P (fold (\<lambda>n. AList.update n []) ns g)" for ns g
    by (induction ns arbitrary: g) (auto simp: distinct_dict_keys_update nbrs_update)
  from this [of "[]" nodes] edges have "?P (adjacency nodes edges d)"
    unfolding adjacency_def by (simp add: nbrs_def)
  moreover have "v \<in> set (dict_keys (adjacency nodes edges d))"
    if "(u, v) \<in> arcs (adjacency nodes edges d)" for u v
    using that by (force simp: adjacency_arcs adjacency_keys split: if_splits)
  ultimately show ?thesis unfolding graph_ok_iff by blast
qed

section \<open>Reachability\<close>

lemma card_diff_insert:
  "finite A \<Longrightarrow> n \<in> A \<Longrightarrow> n \<notin> B \<Longrightarrow> card (A - insert n B) < card (A - B)"
  by (intro psubset_card_mono) auto

lemma nbrs_no_key:
  fixes g :: digraph and n :: string
  assumes "n \<notin> set (dict_keys g)"
  shows "nbrs g n = []"
  using assms by (auto simp: nbrs_def set_dict_keys dom_def split: option.splits)

text \<open>The breadth-first loop over the queue and the nodes seen.\<close>

function reach_loop :: "digraph \<Rightarrow> string list \<Rightarrow> string list \<Rightarrow> string list" where
  "reach_loop g [] seen = seen"
| "reach_loop g (n # queue) seen =
     (if n \<in> set seen then reach_loop g queue seen
      else reach_loop g (queue @ filter (\<lambda>x. x \<notin> set (seen @ [n])) (nbrs g n)) (seen @ [n]))"
  by pat_completeness auto
termination
proof (relation "measures [\<lambda>(g, queue, seen). card (set (dict_keys g) - set seen),
                           \<lambda>(g, queue, seen). length queue]")
  fix g :: digraph and n :: string and queue seen :: "string list"
  assume "n \<notin> set seen"
  then show "((g, queue @ filter (\<lambda>x. x \<notin> set (seen @ [n])) (nbrs g n), seen @ [n]),
              (g, n # queue, seen))
      \<in> measures [\<lambda>(g, queue, seen). card (set (dict_keys g) - set seen),
                  \<lambda>(g, queue, seen). length queue]"
    using card_diff_insert [of "set (dict_keys g)" n "set seen"]
    by (cases "n \<in> set (dict_keys g)") (auto simp: nbrs_no_key)
qed auto

definition reachable :: "digraph \<Rightarrow> string \<Rightarrow> string list" where
  "reachable g source = reach_loop g [source] []"

lemma reach_loop_mono: "set seen \<union> set queue \<subseteq> set (reach_loop g queue seen)"
  by (induction g queue seen rule: reach_loop.induct) (auto split: if_splits)

lemma reach_loop_sound: "set (reach_loop g queue seen) \<subseteq> set seen \<union> (arcs g)\<^sup>* `` set queue"
proof (induction g queue seen rule: reach_loop.induct)
  case (2 g n queue seen)
  show ?case
  proof (cases "n \<in> set seen")
    case True
    with 2 show ?thesis by auto
  next
    case False
    have "(arcs g)\<^sup>* `` set (filter (\<lambda>x. x \<notin> set (seen @ [n])) (nbrs g n)) \<subseteq> (arcs g)\<^sup>* `` {n}"
      by (auto simp: in_arcs [symmetric] intro: converse_rtrancl_into_rtrancl)
    with 2 False show ?thesis by (auto simp: Image_Un)
  qed
qed simp

lemma reach_loop_closed:
  assumes "\<And>u v. u \<in> set seen \<Longrightarrow> (u, v) \<in> arcs g \<Longrightarrow> v \<in> set seen \<union> set queue"
  shows "u \<in> set (reach_loop g queue seen) \<Longrightarrow> (u, v) \<in> arcs g \<Longrightarrow> v \<in> set (reach_loop g queue seen)"
  using assms
proof (induction g queue seen arbitrary: u v rule: reach_loop.induct)
  case (2 g n queue seen)
  show ?case
  proof (cases "n \<in> set seen")
    case True
    with 2 show ?thesis by fastforce
  next
    case False
    have "v \<in> set (seen @ [n]) \<union> set (queue @ filter (\<lambda>x. x \<notin> set (seen @ [n])) (nbrs g n))"
      if "u \<in> set (seen @ [n])" "(u, v) \<in> arcs g" for u v
      using that 2(5) by (auto simp: in_arcs)
    with 2(2) [OF False] 2(3,4) False show ?thesis by auto
  qed
qed auto

lemma reach_loop_distinct: "distinct seen \<Longrightarrow> distinct (reach_loop g queue seen)"
  by (induction g queue seen rule: reach_loop.induct) auto

lemma reachable_distinct: "distinct (reachable g s)"
  by (simp add: reachable_def reach_loop_distinct)

lemma set_reachable: "set (reachable g s) = (arcs g)\<^sup>* `` {s}"
proof
  show "set (reachable g s) \<subseteq> (arcs g)\<^sup>* `` {s}"
    using reach_loop_sound [of g "[s]" "[]"] by (simp add: reachable_def)
  show "(arcs g)\<^sup>* `` {s} \<subseteq> set (reachable g s)"
  proof
    fix v
    assume "v \<in> (arcs g)\<^sup>* `` {s}"
    then have "(s, v) \<in> (arcs g)\<^sup>*" by simp
    then show "v \<in> set (reachable g s)"
    proof (induction rule: rtrancl_induct)
      case base
      show ?case using reach_loop_mono [of "[]" "[s]" g] by (simp add: reachable_def)
    next
      case (step y z)
      with reach_loop_closed [of "[]" g "[s]"] show ?case by (auto simp: reachable_def)
    qed
  qed
qed

section \<open>Connected components\<close>

function component_loop :: "digraph \<Rightarrow> string list \<Rightarrow> string list list" where
  "component_loop g [] = []"
| "component_loop g (n # ns) =
     (let component = reachable g n
      in component # component_loop g (filter (\<lambda>x. x \<notin> set component) (n # ns)))"
  by pat_completeness auto
termination
proof (relation "measure (length \<circ> snd)")
  fix g :: digraph and n :: string and ns component :: "string list"
  assume c: "component = reachable g n"
  have "n \<in> set component" by (simp add: c set_reachable)
  then have "length (filter (\<lambda>x. x \<notin> set component) (n # ns)) \<le> length ns" by simp
  then show "((g, filter (\<lambda>x. x \<notin> set component) (n # ns)), (g, n # ns)) \<in> measure (length \<circ> snd)"
    by simp
qed simp

definition connected_components :: "string list \<Rightarrow> edge list \<Rightarrow> string list list" where
  "connected_components nodes edges =
     (let g = adjacency nodes edges False in component_loop g (dict_keys g))"

lemma class_eq_iff:
  assumes "sym r"
  shows "r\<^sup>* `` {u} = r\<^sup>* `` {v} \<longleftrightarrow> (u, v) \<in> r\<^sup>*"
proof
  assume "r\<^sup>* `` {u} = r\<^sup>* `` {v}"
  then have "v \<in> r\<^sup>* `` {u}" by auto
  then show "(u, v) \<in> r\<^sup>*" by simp
next
  assume uv: "(u, v) \<in> r\<^sup>*"
  moreover from uv assms have "(v, u) \<in> r\<^sup>*" by (meson sym_rtrancl symD)
  ultimately show "r\<^sup>* `` {u} = r\<^sup>* `` {v}" by (auto intro: rtrancl_trans)
qed

lemma component_loop_spec:
  assumes "sym (arcs g)" and "\<And>u v. u \<in> set ns \<Longrightarrow> (u, v) \<in> (arcs g)\<^sup>* \<Longrightarrow> v \<in> set ns"
  shows "set ` set (component_loop g ns) = (\<lambda>n. (arcs g)\<^sup>* `` {n}) ` set ns
    \<and> distinct (map set (component_loop g ns))"
  using assms(2)
proof (induction ns rule: measure_induct_rule [where f = length])
  case (less ns)
  show ?case
  proof (cases ns)
    case Nil
    then show ?thesis by simp
  next
    case (Cons n ms)
    define c where "c = reachable g n"
    define rest where "rest = filter (\<lambda>x. x \<notin> set c) ns"
    have c: "set c = (arcs g)\<^sup>* `` {n}" by (simp add: c_def set_reachable)
    have sym': "(v, u) \<in> (arcs g)\<^sup>*" if "(u, v) \<in> (arcs g)\<^sup>*" for u v
      using that assms(1) by (meson sym_rtrancl symD)
    have "n \<notin> set rest" by (simp add: rest_def c)
    have "length rest \<le> length ms" unfolding rest_def Cons by (simp add: c)
    then have shorter: "length rest < length ns" by (simp add: Cons)
    have step: "component_loop g ns = c # component_loop g rest"
      unfolding Cons rest_def c_def by (simp only: component_loop.simps Let_def)
    have closed: "v \<in> set rest" if "u \<in> set rest" "(u, v) \<in> (arcs g)\<^sup>*" for u v
    proof -
      from that less.prems have "v \<in> set ns" by (auto simp: rest_def)
      moreover have "v \<notin> set c"
      proof
        assume "v \<in> set c"
        then have "(n, v) \<in> (arcs g)\<^sup>*" by (simp add: c)
        from this sym' [OF that(2)] have "(n, u) \<in> (arcs g)\<^sup>*" by (rule rtrancl_trans)
        with that(1) show False by (simp add: rest_def c)
      qed
      ultimately show ?thesis by (simp add: rest_def)
    qed
    have "set ` set (component_loop g rest) = (\<lambda>n. (arcs g)\<^sup>* `` {n}) ` set rest
        \<and> distinct (map set (component_loop g rest))"
      by (rule less.IH [OF shorter]) (rule closed)
    then have img: "set ` set (component_loop g rest) = (\<lambda>n. (arcs g)\<^sup>* `` {n}) ` set rest"
      and dist: "distinct (map set (component_loop g rest))" by blast+
    have "(\<lambda>n. (arcs g)\<^sup>* `` {n}) ` set ns = insert (set c) ((\<lambda>n. (arcs g)\<^sup>* `` {n}) ` set rest)"
    proof -
      have "(arcs g)\<^sup>* `` {u} = set c" if "u \<in> set ns - set rest" for u
      proof -
        from that have "(n, u) \<in> (arcs g)\<^sup>*" by (simp add: rest_def c)
        from sym' [OF this] show ?thesis by (simp only: c class_eq_iff [OF assms(1)])
      qed
      moreover have "n \<in> set ns - set rest" using \<open>n \<notin> set rest\<close> by (simp add: Cons)
      ultimately have "(\<lambda>n. (arcs g)\<^sup>* `` {n}) ` (set ns - set rest) = {set c}" by blast
      moreover have "set ns = (set ns - set rest) \<union> set rest" by (auto simp: rest_def)
      ultimately show ?thesis by (metis image_Un insert_is_Un)
    qed
    moreover have "set c \<notin> set ` set (component_loop g rest)"
    proof
      assume "set c \<in> set ` set (component_loop g rest)"
      then obtain u where "u \<in> set rest" "(arcs g)\<^sup>* `` {u} = set c" by (auto simp: img)
      then have "u \<in> set c" by auto
      with \<open>u \<in> set rest\<close> show False by (simp add: rest_def)
    qed
    ultimately show ?thesis using img dist by (simp add: step)
  qed
qed

section \<open>Cycles\<close>

text \<open>
  The colours of the depth-first search: not visited, on the recursion stack, finished. The search
  of a node returns whether it met a cycle.
\<close>

type_synonym colours = "string list \<times> string list \<times> string list"

function visit :: "nat \<Rightarrow> digraph \<Rightarrow> string \<Rightarrow> colours \<Rightarrow> (bool \<times> colours) option"
  and visit_all :: "nat \<Rightarrow> digraph \<Rightarrow> string list \<Rightarrow> colours \<Rightarrow> (bool \<times> colours) option" where
  "visit 0 g n st = None"
| "visit (Suc k) g n (white, gray, black) =
     (case visit_all k g (nbrs g n) (removeAll n white, n # gray, black) of
        None \<Rightarrow> None
      | Some (found, white', gray', black') \<Rightarrow>
          if found then Some (True, white', gray', black')
          else Some (False, white', removeAll n gray', n # black'))"
| "visit_all k g [] st = Some (False, st)"
| "visit_all k g (x # xs) (white, gray, black) =
     (if x \<in> set black then visit_all k g xs (white, gray, black)
      else if x \<in> set gray then Some (True, white, gray, black)
      else if x \<in> set white
           then (case visit k g x (white, gray, black) of
                   None \<Rightarrow> None
                 | Some (found, st) \<Rightarrow> if found then Some (True, st) else visit_all k g xs st)
           else visit_all k g xs (white, gray, black))"
  by pat_completeness auto
termination
  by (relation "measures [\<lambda>a. case a of Inl (k, g, n, st) \<Rightarrow> k | Inr (k, g, xs, st) \<Rightarrow> k,
                          \<lambda>a. case a of Inl (k, g, n, st) \<Rightarrow> 0 | Inr (k, g, xs, st) \<Rightarrow> Suc (length xs)]")
    auto

fun cycle_loop :: "nat \<Rightarrow> digraph \<Rightarrow> colours \<Rightarrow> bool option" where
  "cycle_loop fuel g ([], gray, black) = Some False"
| "cycle_loop 0 g (n # white, gray, black) = None"
| "cycle_loop (Suc k) g (n # white, gray, black) =
     (case visit (length (n # white)) g n (n # white, gray, black) of
        None \<Rightarrow> None
      | Some (found, st) \<Rightarrow> if found then Some True else cycle_loop k g st)"

definition has_cycle :: "digraph \<Rightarrow> bool option" where
  "has_cycle g = cycle_loop (length g) g (dict_keys g, [], [])"

text \<open>
  The invariant of the search: the colours partition the nodes, every stacked node reaches the top
  of the stack, and finished nodes are closed under the edges and lie on no cycle.
\<close>

definition colours_ok :: "digraph \<Rightarrow> colours \<Rightarrow> bool" where
  "colours_ok g st \<longleftrightarrow>
     (case st of (white, gray, black) \<Rightarrow>
        distinct (white @ gray) \<and> set black \<inter> (set white \<union> set gray) = {}
        \<and> set white \<union> set gray \<union> set black = set (dict_keys g)
        \<and> (\<forall>x\<in>set gray. (x, hd gray) \<in> (arcs g)\<^sup>*)
        \<and> (\<forall>u v. u \<in> set black \<longrightarrow> (u, v) \<in> arcs g \<longrightarrow> v \<in> set black)
        \<and> (\<forall>u\<in>set black. (u, u) \<notin> (arcs g)\<^sup>+))"

lemma colours_push:
  assumes "colours_ok g (white, gray, black)" and "n \<in> set white"
    and "gray \<noteq> [] \<Longrightarrow> (hd gray, n) \<in> arcs g"
  shows "colours_ok g (removeAll n white, n # gray, black)"
proof -
  have "(x, n) \<in> (arcs g)\<^sup>*" if "x \<in> set gray" for x
  proof -
    from that have "gray \<noteq> []" by auto
    with assms(3) have "(hd gray, n) \<in> arcs g" .
    moreover from assms(1) that have "(x, hd gray) \<in> (arcs g)\<^sup>*" by (simp add: colours_ok_def)
    ultimately show ?thesis by (meson rtrancl.rtrancl_into_rtrancl)
  qed
  with assms(1,2) show ?thesis by (auto simp: colours_ok_def distinct_removeAll)
qed

lemma black_closed:
  assumes "colours_ok g (white, gray, black)" and "(u, v) \<in> (arcs g)\<^sup>*" and "u \<in> set black"
  shows "v \<in> set black"
  using assms(2,3)
proof (induction rule: rtrancl_induct)
  case (step y z)
  with assms(1) show ?case by (auto simp: colours_ok_def)
qed simp

lemma colours_pop:
  assumes ok: "colours_ok g (white, n # gray, black)"
    and gray: "\<And>x. x \<in> set gray \<Longrightarrow> (x, hd gray) \<in> (arcs g)\<^sup>*"
    and done_nbrs: "set (nbrs g n) \<subseteq> set black"
  shows "colours_ok g (white, gray, n # black)"
proof -
  have n: "n \<notin> set black" "n \<notin> set gray" "n \<notin> set white" using ok by (auto simp: colours_ok_def)
  have "(n, n) \<notin> (arcs g)\<^sup>+"
  proof
    assume "(n, n) \<in> (arcs g)\<^sup>+"
    then obtain v where "(n, v) \<in> arcs g" "(v, n) \<in> (arcs g)\<^sup>*" by (meson tranclD)
    with done_nbrs have "v \<in> set black" by (auto simp: in_arcs)
    with ok \<open>(v, n) \<in> (arcs g)\<^sup>*\<close> have "n \<in> set black" by (rule black_closed)
    with n show False by simp
  qed
  moreover have "v \<in> set (n # black)" if "u \<in> set (n # black)" "(u, v) \<in> arcs g" for u v
    using that done_nbrs ok by (auto simp: colours_ok_def in_arcs)
  ultimately show ?thesis
    using ok gray n by (auto simp: colours_ok_def)
qed

text \<open>What one search, and the loop over the successors of the top of the stack, achieve.\<close>

definition search_effect :: "digraph \<Rightarrow> colours \<Rightarrow> string list \<Rightarrow> bool \<times> colours \<Rightarrow> bool" where
  "search_effect g st goal r \<longleftrightarrow>
     (case (st, r) of ((white, gray, black), (found, white', gray', black')) \<Rightarrow>
        if found then \<not> acyclic (arcs g)
        else colours_ok g (white', gray', black') \<and> gray' = gray \<and> set goal \<subseteq> set black'
          \<and> set black \<subseteq> set black' \<and> length white' \<le> length white)"

lemma search_correct:
  "graph_ok g \<Longrightarrow> colours_ok g st \<Longrightarrow> n \<in> set (fst st) \<Longrightarrow> length (fst st) \<le> k \<Longrightarrow>
     (fst (snd st) \<noteq> [] \<Longrightarrow> (hd (fst (snd st)), n) \<in> arcs g) \<Longrightarrow>
     \<exists>r. visit k g n st = Some r \<and> search_effect g st [n] r
       \<and> (\<not> fst r \<longrightarrow> length (fst (snd r)) < length (fst st))"
  "graph_ok g \<Longrightarrow> colours_ok g st \<Longrightarrow> fst (snd st) \<noteq> [] \<Longrightarrow>
     (\<And>x. x \<in> set xs \<Longrightarrow> (hd (fst (snd st)), x) \<in> arcs g) \<Longrightarrow> length (fst st) \<le> k \<Longrightarrow>
     \<exists>r. visit_all k g xs st = Some r \<and> search_effect g st xs r"
proof (induction k g n st and k g xs st rule: visit_visit_all.induct)
  case (1 g n st)
  then show ?case by (cases "fst st") auto
next
  case (2 k g n white gray black)
  let ?st = "(removeAll n white, n # gray, black)"
  have n: "n \<in> set white" and ok: "colours_ok g (white, gray, black)"
    and len: "length white \<le> Suc k" using 2 by auto
  have pushed: "colours_ok g ?st" using colours_push [OF ok n] 2(6) by simp
  have fewer: "length (removeAll n white) < length white"
    using n by (rule length_removeAll_less)
  obtain r where r: "visit_all k g (nbrs g n) ?st = Some r" "search_effect g ?st (nbrs g n) r"
    using 2(1) [OF 2(2) pushed] len fewer by (auto simp: in_arcs)
  obtain found white' gray' black' where rr: "r = (found, white', gray', black')" by (cases r)
  show ?case
  proof (cases found)
    case True
    with r rr show ?thesis by (simp add: search_effect_def)
  next
    case False
    with r(2) rr have eff: "colours_ok g (white', gray', black')" "gray' = n # gray"
      "set (nbrs g n) \<subseteq> set black'" "set black \<subseteq> set black'"
      "length white' \<le> length (removeAll n white)"
      by (auto simp: search_effect_def)
    have "n \<notin> set gray" using n ok by (auto simp: colours_ok_def)
    have "colours_ok g (white', gray, n # black')"
      using eff ok by (intro colours_pop) (auto simp: colours_ok_def)
    with False r rr eff fewer \<open>n \<notin> set gray\<close> show ?thesis
      by (auto simp: search_effect_def)
  qed
next
  case (3 k g st)
  then show ?case by (cases st) (simp add: search_effect_def)
next
  case (4 k g x xs white gray black)
  let ?st = "(white, gray, black)"
  have x: "(hd gray, x) \<in> arcs g" and ok: "colours_ok g ?st" and gray: "gray \<noteq> []"
    and len: "length white \<le> k" using 4 by auto
  consider "x \<in> set black" | "x \<notin> set black" "x \<in> set gray" | "x \<notin> set black" "x \<notin> set gray"
    by blast
  then show ?case
  proof cases
    case 1
    have "\<exists>r. visit_all k g xs ?st = Some r \<and> search_effect g ?st xs r"
      using 4(1) [OF 1] 4 by simp
    with 1 show ?thesis by (fastforce simp: search_effect_def)
  next
    case 2
    with ok have "(x, hd gray) \<in> (arcs g)\<^sup>*" by (simp add: colours_ok_def)
    with x have "\<not> acyclic (arcs g)" unfolding acyclic_def by (meson rtrancl_into_trancl2)
    with 2 show ?thesis by (simp add: search_effect_def)
  next
    case 3
    have "x \<in> set (dict_keys g)" using 4(5) x by (auto simp: graph_ok_iff)
    with 3 ok have white: "x \<in> set white" by (auto simp: colours_ok_def)
    obtain r where r: "visit k g x ?st = Some r" "search_effect g ?st [x] r"
      using 4(2) [OF 3 white] 4(5) ok white len x by auto
    obtain found st' where rr: "r = (found, st')" by (cases r)
    show ?thesis
    proof (cases found)
      case True
      with r rr 3 white show ?thesis by (simp add: search_effect_def)
    next
      case False
      obtain white' gray' black' where st': "st' = (white', gray', black')" by (cases st')
      from r(2) False rr st' have eff: "colours_ok g st'" "gray' = gray" "x \<in> set black'"
        "set black \<subseteq> set black'" "length white' \<le> length white"
        by (auto simp: search_effect_def)
      obtain r' where "visit_all k g xs st' = Some r'" "search_effect g st' xs r'"
        using 4(3) [OF 3 white r(1) [unfolded rr] refl False] 4(5) eff 4(8) gray len st' by auto
      with r rr 3 white False st' eff show ?thesis
        by (cases r') (auto simp: search_effect_def split: if_splits)
    qed
  qed
qed

lemma all_black_acyclic:
  assumes "colours_ok g ([], [], black)"
  shows "acyclic (arcs g)"
proof -
  have "(u, u) \<notin> (arcs g)\<^sup>+" for u
  proof
    assume cyc: "(u, u) \<in> (arcs g)\<^sup>+"
    then obtain v where "(u, v) \<in> arcs g" by (meson tranclD)
    then have "u \<in> set (dict_keys g)"
      using nbrs_no_key [of u g] by (cases "u \<in> set (dict_keys g)") (auto simp: in_arcs)
    with assms have "u \<in> set black" by (auto simp: colours_ok_def)
    with assms cyc show False by (simp add: colours_ok_def)
  qed
  then show ?thesis by (simp add: acyclic_def)
qed

lemma cycle_loop_correct:
  assumes "graph_ok g" and "colours_ok g (white, [], black)" and "length white \<le> fuel"
  shows "cycle_loop fuel g (white, [], black) = Some (\<not> acyclic (arcs g))"
  using assms(2,3)
proof (induction fuel arbitrary: white black)
  case (0 white black)
  then show ?case by (simp add: all_black_acyclic)
next
  case (Suc k white black)
  show ?case
  proof (cases white)
    case Nil
    with Suc.prems show ?thesis by (simp add: all_black_acyclic)
  next
    case (Cons n ns)
    obtain r where r: "visit (length white) g n (white, [], black) = Some r"
      "search_effect g (white, [], black) [n] r"
      "\<not> fst r \<longrightarrow> length (fst (snd r)) < length white"
      using search_correct(1) [OF assms(1) Suc.prems(1), of n "length white"] Cons by auto
    obtain found white' gray' black' where rr: "r = (found, white', gray', black')" by (cases r)
    show ?thesis
    proof (cases found)
      case True
      with r rr Cons show ?thesis by (simp add: search_effect_def)
    next
      case False
      with r rr have "colours_ok g (white', [], black')" "gray' = []" "length white' \<le> k"
        using Suc.prems(2) by (auto simp: search_effect_def)
      with Suc.IH [of white' black'] r(1) rr False Cons show ?thesis by simp
    qed
  qed
qed

lemma has_cycle_correct:
  assumes "graph_ok g"
  shows "has_cycle g = Some (\<not> acyclic (arcs g))"
  unfolding has_cycle_def
  by (rule cycle_loop_correct [OF assms])
    (use assms in \<open>auto simp: colours_ok_def graph_ok_def dict_keys_def\<close>)

section \<open>Shortest paths\<close>

type_synonym path_queue = "(string \<times> string list) list"

definition expand :: "string list \<Rightarrow> string list \<Rightarrow> path_queue \<times> string list \<Rightarrow> path_queue \<times> string list" where
  "expand path = fold (\<lambda>nxt (queue, seen).
     if nxt \<in> set seen then (queue, seen) else (queue @ [(nxt, path @ [nxt])], seen @ [nxt]))"

definition verts :: "digraph \<Rightarrow> string set" where
  "verts g = set (dict_keys g) \<union> (\<Union>(n, xs)\<in>set g. set xs)"

lemma finite_verts [simp]: "finite (verts g)"
  by (auto simp: verts_def)

lemma nbrs_verts: "set (nbrs g n) \<subseteq> verts g"
proof (cases "map_of g n")
  case (Some xs)
  then have "(n, xs) \<in> set g" by (rule map_of_SomeD)
  with Some show ?thesis by (auto simp: nbrs_def verts_def)
qed (simp add: nbrs_def)

lemma expand_measure:
  "set xs \<subseteq> V \<Longrightarrow> finite V \<Longrightarrow> expand path xs (queue, seen) = (queue', seen') \<Longrightarrow>
   card (V - set seen') + length queue' = card (V - set seen) + length queue"
proof (induction xs arbitrary: queue seen)
  case Nil
  then show ?case by (simp add: expand_def)
next
  case (Cons x xs)
  show ?case
  proof (cases "x \<in> set seen")
    case True
    with Cons show ?thesis by (simp add: expand_def)
  next
    case False
    have "V - insert x (set seen) = (V - set seen) - {x}" by auto
    moreover have "x \<in> V - set seen" "finite (V - set seen)" using False Cons.prems by auto
    ultimately have "Suc (card (V - insert x (set seen))) = card (V - set seen)"
      by (metis card_Suc_Diff1)
    with Cons.IH [of "queue @ [(x, path @ [x])]" "seen @ [x]"] Cons.prems False
    show ?thesis by (simp add: expand_def)
  qed
qed

lemma expand_smaller:
  "(queue', seen') = expand path (nbrs g node) (queue, seen) \<Longrightarrow>
   card (verts g - set seen') + length queue' < Suc (card (verts g - set seen) + length queue)"
  using expand_measure [OF nbrs_verts finite_verts, of path g node queue seen queue' seen'] by simp

function path_loop :: "digraph \<Rightarrow> string \<Rightarrow> path_queue \<Rightarrow> string list \<Rightarrow> string list option" where
  "path_loop g target [] seen = None"
| "path_loop g target ((node, path) # queue) seen =
     (if node = target then Some path
      else case expand path (nbrs g node) (queue, seen) of
             (queue', seen') \<Rightarrow> path_loop g target queue' seen')"
  by pat_completeness auto
termination
  by (relation "measure (\<lambda>(g, target, queue, seen). card (verts g - set seen) + length queue)")
    (auto split: prod.splits dest: expand_smaller [OF sym])

definition shortest_path :: "digraph \<Rightarrow> string \<Rightarrow> string \<Rightarrow> string list option" where
  "shortest_path g source target = path_loop g target [(source, [source])] [source]"

text \<open>A walk of \<open>k\<close> edges, as the list of its nodes.\<close>

definition walk :: "digraph \<Rightarrow> string \<Rightarrow> string \<Rightarrow> nat \<Rightarrow> string list \<Rightarrow> bool" where
  "walk g s n k p \<longleftrightarrow>
     length p = Suc k \<and> hd p = s \<and> last p = n \<and> successively (\<lambda>u v. (u, v) \<in> arcs g) p"

definition nearer :: "digraph \<Rightarrow> string \<Rightarrow> nat \<Rightarrow> string set" where
  "nearer g s k = (\<Union>i<k. ((arcs g) ^^ i) `` {s})"

lemma nearer_Suc: "nearer g s (Suc k) = {s} \<union> arcs g `` nearer g s k"
proof -
  have "nearer g s (Suc k) = {s} \<union> (\<Union>i<k. ((arcs g) ^^ Suc i) `` {s})"
    unfolding nearer_def lessThan_Suc_eq_insert_0 by auto
  moreover have "((arcs g) ^^ Suc i) `` {s} = arcs g `` (((arcs g) ^^ i) `` {s})" for i
    by auto
  ultimately show ?thesis unfolding nearer_def by auto
qed

lemma nearer_mono: "nearer g s k \<subseteq> nearer g s (Suc k)"
  by (auto simp: nearer_def less_Suc_eq)

lemma walk_relpow: "walk g s n k p \<Longrightarrow> (s, n) \<in> (arcs g) ^^ k"
proof (induction k arbitrary: n p)
  case 0
  then show ?case by (auto simp: walk_def length_Suc_conv)
next
  case (Suc k)
  then obtain q where p: "p = q @ [n]" and "length q = Suc k"
    by (cases p rule: rev_cases) (auto simp: walk_def)
  then have q: "q \<noteq> []" "length q = Suc k" by auto
  have "walk g s (last q) k q" "(last q, n) \<in> arcs g"
    using Suc.prems q unfolding walk_def p by (auto simp: successively_append_iff)
  with Suc.IH show ?case by auto
qed

lemma walk_step:
  assumes "walk g s n k p" and "(n, v) \<in> arcs g"
  shows "walk g s v (Suc k) (p @ [v])"
proof -
  from assms(1) have "p \<noteq> []" by (auto simp: walk_def)
  with assms show ?thesis by (auto simp: walk_def successively_append_iff)
qed

lemma expand_new:
  "distinct xs \<Longrightarrow>
   expand path xs (queue, seen) =
     (queue @ map (\<lambda>v. (v, path @ [v])) (filter (\<lambda>v. v \<notin> set seen) xs),
      seen @ filter (\<lambda>v. v \<notin> set seen) xs)"
proof (induction xs arbitrary: queue seen)
  case (Cons x xs)
  then have "filter (\<lambda>v. v \<notin> set (seen @ [x])) xs = filter (\<lambda>v. v \<notin> set seen) xs"
    by (auto intro: filter_cong)
  with Cons show ?case by (simp add: expand_def)
qed (simp add: expand_def)

text \<open>
  The invariant of the loop: the queue holds a level \<open>k\<close> that is being expanded, then the part of the
  next level found so far. \<open>nearer g s k\<close> are the nodes nearer than \<open>k\<close> edges.
\<close>

definition levels ::
  "digraph \<Rightarrow> string \<Rightarrow> string \<Rightarrow> nat \<Rightarrow> path_queue \<Rightarrow> path_queue \<Rightarrow> string list \<Rightarrow> bool" where
  "levels g s t k q1 q2 seen \<longleftrightarrow>
     nearer g s (Suc k) \<subseteq> set seen
     \<and> set seen \<subseteq> nearer g s (Suc k) \<union> fst ` set q2
     \<and> (\<forall>x\<in>nearer g s (Suc k). x \<in> fst ` set q1 \<or> arcs g `` {x} \<subseteq> set seen)
     \<and> (t \<in> set seen \<longrightarrow> t \<in> fst ` (set q1 \<union> set q2))
     \<and> (\<forall>(n, p)\<in>set q1. walk g s n k p \<and> n \<notin> nearer g s k)
     \<and> (\<forall>(n, p)\<in>set q2. walk g s n (Suc k) p \<and> n \<notin> nearer g s (Suc k))"

lemma levels_shift:
  assumes "levels g s t k [] q seen"
  shows "levels g s t (Suc k) q [] seen"
proof -
  from assms have sub: "nearer g s (Suc k) \<subseteq> set seen"
      "set seen \<subseteq> nearer g s (Suc k) \<union> fst ` set q"
    and closed: "\<And>x. x \<in> nearer g s (Suc k) \<Longrightarrow> arcs g `` {x} \<subseteq> set seen"
    and rest: "t \<in> set seen \<longrightarrow> t \<in> fst ` set q"
      "\<forall>(n, p)\<in>set q. walk g s n (Suc k) p \<and> n \<notin> nearer g s (Suc k)"
    by (auto simp: levels_def)
  have "s \<in> nearer g s (Suc k)" by (simp add: nearer_Suc)
  then have up: "nearer g s (Suc (Suc k)) \<subseteq> set seen"
    unfolding nearer_Suc [of g s "Suc k"] using closed sub(1) by blast
  have seen: "set seen \<subseteq> nearer g s (Suc (Suc k))"
  proof
    fix x assume "x \<in> set seen"
    with sub(2) consider "x \<in> nearer g s (Suc k)" | "x \<in> fst ` set q" by blast
    then show "x \<in> nearer g s (Suc (Suc k))"
    proof cases
      case 1
      then show ?thesis using nearer_mono by blast
    next
      case 2
      then obtain p where "walk g s x (Suc k) p" using rest(2) by auto
      then have "(s, x) \<in> (arcs g) ^^ Suc k" by (rule walk_relpow)
      then show ?thesis unfolding nearer_def by blast
    qed
  qed
  show ?thesis
    unfolding levels_def
  proof (intro conjI)
    show "nearer g s (Suc (Suc k)) \<subseteq> set seen" by (rule up)
    show "set seen \<subseteq> nearer g s (Suc (Suc k)) \<union> fst ` set []" using seen by simp
    show "\<forall>x\<in>nearer g s (Suc (Suc k)). x \<in> fst ` set q \<or> arcs g `` {x} \<subseteq> set seen"
      using up sub(2) closed by blast
    show "t \<in> set seen \<longrightarrow> t \<in> fst ` (set q \<union> set [])" using rest(1) by simp
    show "\<forall>(n, p)\<in>set q. walk g s n (Suc k) p \<and> n \<notin> nearer g s (Suc k)" by (rule rest(2))
  qed simp
qed

lemma levels_pop:
  assumes ok: "graph_ok g" and inv: "levels g s t k ((n, p) # q1) q2 seen" and "n \<noteq> t"
    and e: "expand p (nbrs g n) (q1 @ q2, seen) = (queue', seen')"
  shows "\<exists>q2'. queue' = q1 @ q2' \<and> levels g s t k q1 q2' seen'"
proof -
  define new where "new = filter (\<lambda>v. v \<notin> set seen) (nbrs g n)"
  have "distinct (nbrs g n)" using ok by (simp add: graph_ok_iff)
  from expand_new [OF this, of p "q1 @ q2" seen] e
  have out: "queue' = q1 @ q2 @ map (\<lambda>v. (v, p @ [v])) new" "seen' = seen @ new"
    by (simp_all add: new_def)
  define q2' where "q2' = q2 @ map (\<lambda>v. (v, p @ [v])) new"
  from inv have near: "nearer g s (Suc k) \<subseteq> set seen"
      "set seen \<subseteq> nearer g s (Suc k) \<union> fst ` set q2"
    and closed: "\<forall>x\<in>nearer g s (Suc k). x \<in> insert n (fst ` set q1) \<or> arcs g `` {x} \<subseteq> set seen"
    and goal: "t \<in> set seen \<longrightarrow> t \<in> insert n (fst ` (set q1 \<union> set q2))"
    and q1: "walk g s n k p" "\<forall>(n, p)\<in>set q1. walk g s n k p \<and> n \<notin> nearer g s k"
    and q2: "\<forall>(n, p)\<in>set q2. walk g s n (Suc k) p \<and> n \<notin> nearer g s (Suc k)"
    by (auto simp: levels_def)
  have fst_new: "fst ` set q2' = fst ` set q2 \<union> set new" by (force simp: q2'_def)
  have new: "set new = arcs g `` {n} - set seen" by (auto simp: new_def arcs_def)
  have "levels g s t k q1 q2' seen'"
    unfolding levels_def out(2)
  proof (intro conjI)
    show "nearer g s (Suc k) \<subseteq> set (seen @ new)" using near(1) by auto
    show "set (seen @ new) \<subseteq> nearer g s (Suc k) \<union> fst ` set q2'" using near(2) fst_new by auto
    show "\<forall>x\<in>nearer g s (Suc k). x \<in> fst ` set q1 \<or> arcs g `` {x} \<subseteq> set (seen @ new)"
      using closed new by auto
    show "t \<in> set (seen @ new) \<longrightarrow> t \<in> fst ` (set q1 \<union> set q2')"
      using goal \<open>n \<noteq> t\<close> fst_new by (auto simp: image_Un)
    show "\<forall>(n, p)\<in>set q1. walk g s n k p \<and> n \<notin> nearer g s k" by (rule q1(2))
    show "\<forall>(n, p)\<in>set q2'. walk g s n (Suc k) p \<and> n \<notin> nearer g s (Suc k)"
    proof -
      have "walk g s v (Suc k) (p @ [v]) \<and> v \<notin> nearer g s (Suc k)" if "v \<in> set new" for v
        using that new near(1) walk_step [OF q1(1)] by auto
      with q2 show ?thesis by (auto simp: q2'_def)
    qed
  qed
  with out(1) show ?thesis by (auto simp: q2'_def)
qed

lemma path_loop_correct:
  assumes "graph_ok g" and "levels g s t k q1 q2 seen"
  shows "case path_loop g t (q1 @ q2) seen of
      None \<Rightarrow> (s, t) \<notin> (arcs g)\<^sup>*
    | Some p \<Rightarrow> \<exists>d. walk g s t d p \<and> t \<notin> nearer g s d"
  using assms
proof (induction g t "q1 @ q2" seen arbitrary: k q1 q2 rule: path_loop.induct)
  case (1 g t seen)
  then have inv: "levels g s t k [] [] seen" by simp
  have closed: "v \<in> set seen" if "u \<in> set seen" "(u, v) \<in> arcs g" for u v
    using inv that unfolding levels_def by auto
  have start: "s \<in> set seen" using inv by (auto simp: levels_def nearer_Suc)
  have "v \<in> set seen" if "(s, v) \<in> (arcs g)\<^sup>*" for v
    using that by (induction rule: rtrancl_induct) (auto intro: start closed)
  moreover have "t \<notin> set seen" using inv by (simp add: levels_def)
  ultimately have "(s, t) \<notin> (arcs g)\<^sup>*" by blast
  with 1 show ?case by simp
next
  case (2 g t n p queue seen)
  have head: ?case if split: "queue = r1 @ r2" and inv: "levels g s t j ((n, p) # r1) r2 seen" for j r1 r2
  proof (cases "n = t")
    case True
    with inv have "walk g s t j p \<and> t \<notin> nearer g s j" by (simp add: levels_def)
    with 2(2) [symmetric] True show ?thesis by auto
  next
    case False
    obtain queue' seen' where e: "expand p (nbrs g n) (queue, seen) = (queue', seen')"
      by (cases "expand p (nbrs g n) (queue, seen)")
    from levels_pop [OF 2(3) inv False e [unfolded split]]
    obtain r2' where r2': "queue' = r1 @ r2'" "levels g s t j r1 r2' seen'" by blast
    from 2(1) [OF False _ 2(3) r2'(2)] r2'(1) e False 2(2) [symmetric] show ?thesis by simp
  qed
  show ?case
  proof (cases q1)
    case Nil
    with 2 have "levels g s t (Suc k) ((n, p) # queue) [] seen" by (auto intro: levels_shift)
    from head [OF _ this] show ?thesis by simp
  next
    case (Cons a r1)
    with 2 head [of r1 q2 k] show ?thesis by auto
  qed
qed

lemma levels_start: "levels g s t 0 [(s, [s])] [] [s]"
  by (auto simp: levels_def nearer_def walk_def)

lemma shortest_path_correct:
  assumes "graph_ok g"
  shows "case shortest_path g s t of
      None \<Rightarrow> (s, t) \<notin> (arcs g)\<^sup>*
    | Some p \<Rightarrow> walk g s t (length p - 1) p \<and> (\<forall>d q. walk g s t d q \<longrightarrow> length p \<le> length q)"
proof (cases "shortest_path g s t")
  case None
  with path_loop_correct [OF assms levels_start [of g s t]] show ?thesis
    by (simp add: shortest_path_def)
next
  case (Some p)
  with path_loop_correct [OF assms levels_start [of g s t]]
  obtain d where d: "walk g s t d p" "t \<notin> nearer g s d" by (auto simp: shortest_path_def)
  have "length p \<le> length q" if "walk g s t e q" for e q
  proof -
    from that have "(s, t) \<in> (arcs g) ^^ e" by (rule walk_relpow)
    with d(2) have "d \<le> e" by (auto simp: nearer_def not_less [symmetric])
    with d(1) that show ?thesis by (simp add: walk_def)
  qed
  moreover have "length p - 1 = d" using d(1) by (simp add: walk_def)
  ultimately show ?thesis using Some d(1) by simp
qed

end
