(* ===== verification/Topology_Branches.thy ===== *)
theory Topology_Branches
  imports Graph_Search Config_Defaults Models
begin

text \<open>
  Branches and edges of \<open>netlab/topology.py\<close>: \<open>sanitize_branches\<close>, \<open>generate_branches\<close>,
  \<open>branches_to_edges\<close>, \<open>normalize_manual_edges\<close>, \<open>remove_failed_from_branches\<close>,
  \<open>candidate_standby_promotions\<close>, \<open>normalize_branches\<close>, \<open>build_edges\<close>.
\<close>

section \<open>Reading branches\<close>

text \<open>One element of a branch: skipped when it is no integer, out of range, or a repetition.\<close>

definition sanitize_item :: "int \<Rightarrow> bool \<Rightarrow> pyval \<Rightarrow> int list \<times> int list \<Rightarrow> int list \<times> int list" where
  "sanitize_item relay_count allow_shared raw st =
     (case py_int raw of
        Inl _ \<Rightarrow> st
      | Inr idx \<Rightarrow>
          (case st of (branch, used) \<Rightarrow>
             if idx < 1 \<or> idx > relay_count \<or> idx \<in> set branch then st
             else if \<not> allow_shared \<and> idx \<in> set used then st
             else (branch @ [idx], set_add idx used)))"

definition sanitize_branch ::
  "int \<Rightarrow> bool \<Rightarrow> pyval \<Rightarrow> int list list \<times> int list \<Rightarrow> int list list \<times> int list" where
  "sanitize_branch relay_count allow_shared raw_branch st =
     (case raw_branch of
        PList raws \<Rightarrow>
          (case st of (result, used) \<Rightarrow>
             (case fold (sanitize_item relay_count allow_shared) raws ([], used) of
                (branch, used') \<Rightarrow> (if branch = [] then result else result @ [branch], used')))
      | _ \<Rightarrow> st)"

definition sanitize_branches :: "pyval \<Rightarrow> int \<Rightarrow> bool \<Rightarrow> int list list" where
  "sanitize_branches branches relay_count allow_shared =
     (case branches of
        PList bs \<Rightarrow> fst (fold (sanitize_branch relay_count allow_shared) bs ([], []))
      | _ \<Rightarrow> [])"

definition normalize_branches :: "pyval \<Rightarrow> int \<Rightarrow> int list list" where
  "normalize_branches v relay_count = sanitize_branches v relay_count True"

section \<open>Generating branches\<close>

text \<open>\<open>for offset, x in enumerate(xs): buckets[offset % n].append(x)\<close>.\<close>

definition deal_out :: "nat \<Rightarrow> int list \<Rightarrow> int list list" where
  "deal_out n xs =
     fold (\<lambda>(offset, x) buckets. buckets[offset mod n := buckets ! (offset mod n) @ [x]])
       (enumerate 0 xs) (replicate n [])"

definition generate_branches :: "int \<Rightarrow> int \<Rightarrow> string \<Rightarrow> int list list" where
  "generate_branches relay_count branch_count mode =
     (let relays = max 1 relay_count;
          branches = max 1 (min branch_count relays);
          m = py_lower mode
      in if m = topology_mode_value TM_CHAIN then [int_range 1 (relays + 1)]
         else if m = topology_mode_value TM_PARALLEL
         then filter (\<lambda>b. b \<noteq> []) (deal_out (nat branches) (int_range 1 (relays + 1)))
         else if m = topology_mode_value TM_FOREST
         then if relays = 1 then [[1]]
              else let roots = min branches (max 1 (relays div 3));
                       buckets = deal_out (nat branches) (int_range (roots + 1) (relays + 1))
                   in filter (\<lambda>b. b \<noteq> [])
                        (map (\<lambda>i. (1 + int i mod roots) # buckets ! i) [0..<nat branches])
         else [int_range 1 (relays + 1)])"

section \<open>Edges\<close>

fun path_edges :: "string \<Rightarrow> int list \<Rightarrow> edge list" where
  "path_edges prev [] = []"
| "path_edges prev (idx # branch) = (prev, drone_name idx) # path_edges (drone_name idx) branch"

definition branches_to_edges :: "int list list \<Rightarrow> string \<Rightarrow> edge list" where
  "branches_to_edges branches source = concat (map (path_edges source) branches)"

text \<open>The same loop over values that are not checked yet: iteration and \<open>int(idx)\<close> may raise.\<close>

definition read_branches :: "pyval \<Rightarrow> int list list res" where
  "read_branches v =
     bindR (ptuple v) (mapR (\<lambda>b. bindR (ptuple b) (mapR py_int)))"

definition build_edges :: "int list list \<Rightarrow> string \<Rightarrow> string list list" where
  "build_edges branches source = map (\<lambda>(a, b). [a, b]) (branches_to_edges branches source)"

definition edge_text :: "pyval \<Rightarrow> string" where
  "edge_text v = py_strip (py_str (py_or v (PStr '''')))"

definition manual_edge :: "pyval \<Rightarrow> edge list" where
  "manual_edge item =
     (let both = (\<lambda>src dst. if edge_text src \<noteq> [] \<and> edge_text dst \<noteq> []
                           then [(edge_text src, edge_text dst)] else [])
      in case item of
           PDict d \<Rightarrow> both (dget d ''src'' PNone) (dget d ''dst'' PNone)
         | PList [src, dst] \<Rightarrow> both src dst
         | _ \<Rightarrow> [])"

definition normalize_manual_edges :: "pyval \<Rightarrow> edge list" where
  "normalize_manual_edges v =
     (case v of PList items \<Rightarrow> concat (map manual_edge items) | _ \<Rightarrow> [])"

section \<open>Failures and standby relays\<close>

definition remove_failed_from_branches :: "int list list \<Rightarrow> int list \<Rightarrow> int list list" where
  "remove_failed_from_branches branches failed =
     map (filter (\<lambda>idx. idx \<notin> set failed))
       (filter (list_ex (\<lambda>idx. idx \<notin> set failed)) branches)"

record promotion =
  pm_branch_id :: nat
  pm_replace_index :: nat
  pm_failed_index :: int
  pm_standby_index :: int
  pm_geometric_cost_m :: pyfloat

fun index_of :: "'a \<Rightarrow> 'a list \<Rightarrow> nat" where
  "index_of x [] = 0"
| "index_of x (y # ys) = (if x = y then 0 else Suc (index_of x ys))"

text \<open>The distance to a neighbour on the branch, when both positions are known.\<close>

definition neighbour_cost :: "(int \<times> vec3) list \<Rightarrow> int option \<Rightarrow> int \<Rightarrow> pyfloat \<Rightarrow> pyfloat" where
  "neighbour_cost positions neighbour standby score =
     (case neighbour of
        None \<Rightarrow> score
      | Some n \<Rightarrow>
          (case (map_of positions n, map_of positions standby) of
             (Some (a, b, c), Some (x, y, z)) \<Rightarrow> fadd score (fdist [a, b, c] [x, y, z])
           | _ \<Rightarrow> score))"

definition branch_promotions ::
  "int \<Rightarrow> int list \<Rightarrow> (int \<times> vec3) list \<Rightarrow> nat \<times> int list \<Rightarrow> promotion list" where
  "branch_promotions failed standbys positions b =
     (case b of (branch_id, branch) \<Rightarrow>
        if failed \<notin> set branch then []
        else let position = index_of failed branch;
                 prev_idx = (if position > 0 then Some (branch ! (position - 1)) else None);
                 next_idx = (if position + 1 < length branch then Some (branch ! (position + 1)) else None)
             in map (\<lambda>standby.
                  \<lparr>pm_branch_id = branch_id, pm_replace_index = position, pm_failed_index = failed,
                   pm_standby_index = standby,
                   pm_geometric_cost_m =
                     neighbour_cost positions next_idx standby
                       (neighbour_cost positions prev_idx standby (Fin 0))\<rparr>) standbys)"

text \<open>\<open>sorted\<close> by cost, then standby index: a stable insertion by the strict order of the key tuples.\<close>

definition promotion_less :: "promotion \<Rightarrow> promotion \<Rightarrow> bool" where
  "promotion_less a b =
     (if feq (pm_geometric_cost_m a) (pm_geometric_cost_m b)
      then pm_standby_index a < pm_standby_index b
      else flt (pm_geometric_cost_m a) (pm_geometric_cost_m b))"

fun insert_promotion :: "promotion \<Rightarrow> promotion list \<Rightarrow> promotion list" where
  "insert_promotion a [] = [a]"
| "insert_promotion a (b # bs) =
     (if promotion_less b a then b # insert_promotion a bs else a # b # bs)"

definition candidate_standby_promotions ::
  "int list list \<Rightarrow> int \<Rightarrow> int list \<Rightarrow> (int \<times> vec3) list \<Rightarrow> promotion list" where
  "candidate_standby_promotions branches failed standbys positions =
     foldr insert_promotion
       (concat (map (branch_promotions failed standbys positions) (enumerate 0 branches))) []"

end
