(* ===== verification/Branches_Props.thy ===== *)
theory Branches_Props
  imports Topology_Branches "HOL-Library.Multiset"
begin

text \<open>
  Properties of the branches: \<open>sanitize_branches\<close> yields well-formed branches and leaves well-formed
  branches alone; \<open>generate_branches\<close> covers every relay, and its edges form an acyclic graph in which
  every relay is reached from the source. The first section states what the graph searches compute
  on the graph of an edge list.
\<close>

section \<open>Searches on the graph of an edge list\<close>

text \<open>Breadth-first reachability on the directed graph of an edge list returns, without repetition, exactly the nodes that a chain of edges joins to the source, whatever the nodes listed.\<close>

theorem reachable_exact:
  "set (reachable (adjacency nodes edges True) s) = (set edges)\<^sup>* `` {s}
   \<and> distinct (reachable (adjacency nodes edges True) s)"
  by (simp add: set_reachable reachable_distinct adjacency_arcs)

text \<open>C31: the coloured depth-first search ends on every finite graph - as much fuel as there are nodes is enough for the outer loop and for the recursion - and it reports a cycle exactly when the edges have one.\<close>

theorem has_cycle_exact:
  "has_cycle (adjacency nodes edges True) = Some (\<not> acyclic (set edges))"
  by (simp add: has_cycle_correct adjacency_ok adjacency_arcs)

text \<open>The connected components of a graph are its classes under undirected connection: their sets are exactly the classes of the nodes, no class appears twice, and two different components share no node.\<close>

theorem connected_components_partition:
  "set ` set (connected_components nodes edges) =
     (set nodes \<union> fst ` set edges \<union> snd ` set edges) // ((set edges \<union> (set edges)\<inverse>)\<^sup>*)
   \<and> distinct (map set (connected_components nodes edges))
   \<and> pairwise (\<lambda>a b. set a \<inter> set b = {}) (set (connected_components nodes edges))"
proof -
  let ?g = "adjacency nodes edges False"
  let ?r = "(set edges \<union> (set edges)\<inverse>)\<^sup>*"
  have arcs: "arcs ?g = set edges \<union> (set edges)\<inverse>" by (simp add: adjacency_arcs)
  have sym: "sym (arcs ?g)" unfolding arcs by (auto simp: sym_def)
  have inside: "v \<in> set (dict_keys ?g)" if "u \<in> set (dict_keys ?g)" "(u, v) \<in> (arcs ?g)\<^sup>*" for u v
    using that(2,1)
  proof (induction rule: rtrancl_induct)
    case (step y z)
    then show ?case using adjacency_ok [of nodes edges False] by (auto simp: graph_ok_iff)
  qed simp
  have "set ` set (component_loop ?g (dict_keys ?g)) = (\<lambda>n. (arcs ?g)\<^sup>* `` {n}) ` set (dict_keys ?g)
      \<and> distinct (map set (component_loop ?g (dict_keys ?g)))"
    by (rule component_loop_spec [OF sym]) (rule inside)
  then have classes: "set ` set (connected_components nodes edges) = (\<lambda>n. ?r `` {n}) ` set (dict_keys ?g)"
    and dist: "distinct (map set (connected_components nodes edges))"
    unfolding connected_components_def Let_def arcs by blast+
  have "set a \<inter> set b = {}" if ab: "a \<in> set (connected_components nodes edges)"
      "b \<in> set (connected_components nodes edges)" "a \<noteq> b" for a b
  proof -
    from dist ab have neq: "set a \<noteq> set b" by (auto simp: distinct_map inj_on_def)
    have "\<exists>m. set c = ?r `` {m}" if "c \<in> set (connected_components nodes edges)" for c
    proof -
      from that have "set c \<in> (\<lambda>n. ?r `` {n}) ` set (dict_keys ?g)"
        unfolding classes [symmetric] by (rule imageI)
      then show ?thesis by (rule imageE) (rule exI)
    qed
    from this [OF ab(1)] this [OF ab(2)]
    obtain m n where mn: "set a = ?r `` {m}" "set b = ?r `` {n}" by (elim exE)
    have meet: "?r `` {m} = ?r `` {n}" if "x \<in> ?r `` {m}" "x \<in> ?r `` {n}" for x
    proof -
      from that have "(m, x) \<in> ?r" "(n, x) \<in> ?r" by simp_all
      then have "?r `` {m} = ?r `` {x}" "?r `` {n} = ?r `` {x}"
        by (simp_all only: class_eq_iff [OF sym, unfolded arcs])
      then show ?thesis by simp
    qed
    show ?thesis using neq meet unfolding mn by auto
  qed
  with classes dist show ?thesis
    by (auto simp: pairwise_def quotient_def adjacency_keys image_def)
qed

text \<open>C32: the search for a shortest path returns nothing exactly when the target cannot be reached, and otherwise a path from the source to the target along the edges that no other path undercuts.\<close>

theorem shortest_path_optimal:
  "case shortest_path (adjacency nodes edges True) s t of
     None \<Rightarrow> (s, t) \<notin> (set edges)\<^sup>*
   | Some p \<Rightarrow> p \<noteq> [] \<and> hd p = s \<and> last p = t \<and> successively (\<lambda>u v. (u, v) \<in> set edges) p
       \<and> (\<forall>q. q \<noteq> [] \<and> hd q = s \<and> last q = t \<and> successively (\<lambda>u v. (u, v) \<in> set edges) q
            \<longrightarrow> length p \<le> length q)"
proof -
  let ?g = "adjacency nodes edges True"
  have walk: "walk ?g s t (length q - 1) q \<longleftrightarrow>
      q \<noteq> [] \<and> hd q = s \<and> last q = t \<and> successively (\<lambda>u v. (u, v) \<in> set edges) q" for q
    by (cases q) (auto simp: walk_def adjacency_arcs)
  show ?thesis
    using shortest_path_correct [OF adjacency_ok [of nodes edges True], where s = s and t = t]
    by (auto simp: walk [symmetric] adjacency_arcs split: option.splits)
qed

lemma shortest_path_optimal_witness:
  "shortest_path (adjacency [''a'', ''b'', ''c'', ''d''] [(''a'', ''b''), (''b'', ''c''), (''c'', ''d''), (''a'', ''c'')] True)
     ''a'' ''d'' = Some [''a'', ''c'', ''d'']
   \<and> (\<nexists>q. q \<noteq> [] \<and> hd q = ''a'' \<and> last q = ''d''
        \<and> successively (\<lambda>u v. (u, v) \<in> set [(''a'', ''b''), (''b'', ''c''), (''c'', ''d''), (''a'', ''c'')]) q
        \<and> length q < 3)"
proof -
  let ?e = "[(''a'', ''b''), (''b'', ''c''), (''c'', ''d''), (''a'', ''c'')]"
  have run: "shortest_path (adjacency [''a'', ''b'', ''c'', ''d''] ?e True) ''a'' ''d''
      = Some [''a'', ''c'', ''d'']" by code_simp
  show ?thesis
    using shortest_path_optimal [where nodes = "[''a'', ''b'', ''c'', ''d'']" and edges = ?e and s = "''a''" and t = "''d''"] unfolding run by (auto simp: numeral_3_eq_3 not_less [symmetric])
qed

section \<open>Sanitized branches\<close>

text \<open>Branches the code accepts: none empty, no repetition in one, every index a relay, and no relay in two branches where sharing is not allowed.\<close>

definition branches_wf :: "int \<Rightarrow> bool \<Rightarrow> int list list \<Rightarrow> bool" where
  "branches_wf n allow_shared bs =
     (list_all (\<lambda>b. b \<noteq> [] \<and> distinct b \<and> set b \<subseteq> {1..n}) bs
      \<and> (allow_shared \<or> distinct (concat bs)))"

definition encode_branches :: "int list list \<Rightarrow> pyval" where
  "encode_branches bs = PList (map (\<lambda>b. PList (map PInt b)) bs)"

lemma sanitize_items:
  assumes "distinct branch" "set branch \<subseteq> {1..n}"
    and "fold (sanitize_item n allow) raws (branch, used) = (branch', used')"
    and "\<not> allow \<Longrightarrow> set branch \<inter> U = {}" and "U \<union> set branch = set used"
  shows "distinct branch' \<and> set branch' \<subseteq> {1..n} \<and> (allow \<or> set branch' \<inter> U = {})
    \<and> set used' = U \<union> set branch'"
  using assms
proof (induction raws arbitrary: branch used)
  case Nil
  then show ?case by auto
next
  case (Cons raw raws)
  obtain b u where step: "sanitize_item n allow raw (branch, used) = (b, u)" by force
  with Cons.prems(1,2,4,5) have "distinct b \<and> set b \<subseteq> {1..n} \<and> (\<not> allow \<longrightarrow> set b \<inter> U = {}) \<and> U \<union> set b = set u"
    by (auto simp: sanitize_item_def subset_iff split: sum.splits if_splits)
  with Cons.IH [of b u] Cons.prems(3) step show ?case by simp
qed

lemma sanitize_branch_wf:
  assumes "branches_wf n allow result" "set used = set (concat result)"
    and "sanitize_branch n allow raw (result, used) = (result', used')"
  shows "branches_wf n allow result' \<and> set used' = set (concat result')"
proof (cases "\<exists>raws. raw = PList raws")
  case True
  then obtain raws where raw: "raw = PList raws" by blast
  obtain b u where f: "fold (sanitize_item n allow) raws ([], used) = (b, u)" by force
  from sanitize_items [OF _ _ f, of "set used"]
  have "distinct b \<and> set b \<subseteq> {1..n} \<and> (allow \<or> set b \<inter> set used = {}) \<and> set u = set used \<union> set b"
    by simp
  with assms raw f show ?thesis
    by (cases "b = []") (auto simp: sanitize_branch_def branches_wf_def disjoint_iff)
next
  case False
  with assms show ?thesis by (auto simp: sanitize_branch_def split: pyval.splits)
qed

lemma sanitize_branches_wf: "branches_wf n allow (sanitize_branches v n allow)"
proof -
  have "branches_wf n allow (fst (fold (sanitize_branch n allow) bs (result, used)))"
    if "branches_wf n allow result" "set used = set (concat result)" for bs result used
    using that
  proof (induction bs arbitrary: result used)
    case (Cons b bs)
    obtain result' used' where s: "sanitize_branch n allow b (result, used) = (result', used')" by force
    from sanitize_branch_wf [OF Cons.prems s] Cons.IH s show ?case by simp
  qed simp
  from this [of "[]" "[]"] show ?thesis
    by (auto simp: sanitize_branches_def branches_wf_def split: pyval.splits)
qed

lemma sanitize_items_id:
  "distinct (acc @ b) \<Longrightarrow> set b \<subseteq> {1..n} \<Longrightarrow> allow \<or> set b \<inter> set used = {} \<Longrightarrow>
   \<exists>u. fold (sanitize_item n allow) (map PInt b) (acc, used) = (acc @ b, u)
     \<and> set u = set used \<union> set b"
proof (induction b arbitrary: acc used)
  case (Cons x b)
  have "sanitize_item n allow (PInt x) (acc, used) = (acc @ [x], set_add x used)"
    using Cons.prems by (auto simp: sanitize_item_def)
  moreover have "\<exists>u. fold (sanitize_item n allow) (map PInt b) (acc @ [x], set_add x used)
      = ((acc @ [x]) @ b, u) \<and> set u = set (set_add x used) \<union> set b"
    by (rule Cons.IH) (use Cons.prems in auto)
  ultimately show ?case by auto
qed simp

lemma sanitize_encoded:
  assumes "branches_wf n allow bs"
  shows "sanitize_branches (encode_branches bs) n allow = bs"
proof -
  have "fst (fold (sanitize_branch n allow) (map (\<lambda>b. PList (map PInt b)) bs) (acc, used)) = acc @ bs"
    if "branches_wf n allow (acc @ bs)" "set used = set (concat acc)" for acc used
    using that
  proof (induction bs arbitrary: acc used)
    case (Cons b bs)
    then have b: "b \<noteq> []" "distinct ([] @ b)" "set b \<subseteq> {1..n}" "allow \<or> set b \<inter> set used = {}"
      by (auto simp: branches_wf_def)
    from sanitize_items_id [OF b(2-4)] obtain u
      where u: "fold (sanitize_item n allow) (map PInt b) ([], used) = (b, u)" "set u = set used \<union> set b"
      by auto
    from Cons.IH [of "acc @ [b]" u] Cons.prems u b(1) show ?case
      by (simp add: sanitize_branch_def)
  qed simp
  from this [of "[]" "[]"] assms show ?thesis by (simp add: sanitize_branches_def encode_branches_def)
qed

text \<open>C33: whatever value is read, the sanitized branches are well formed - no empty branch, no repetition, only relays of the swarm, and no shared relay where sharing is not allowed - and sanitizing them again changes nothing.\<close>

theorem sanitize_branches_canonical:
  "branches_wf n allow (sanitize_branches v n allow)
   \<and> sanitize_branches (encode_branches (sanitize_branches v n allow)) n allow
       = sanitize_branches v n allow"
  by (simp add: sanitize_branches_wf sanitize_encoded)

section \<open>Generated branches\<close>

lemma deal_out_steps:
  assumes "length bs = n" and "n > 0"
  shows "fold (\<lambda>(offset, x) buckets. buckets[offset mod n := buckets ! (offset mod n) @ [x]]) ps bs
    = map (\<lambda>i. bs ! i @ map snd (filter (\<lambda>p. fst p mod n = i) ps)) [0..<n]"
  using assms(1)
proof (induction ps arbitrary: bs)
  case Nil
  then show ?case using map_nth [of bs] by simp
next
  case (Cons p ps)
  obtain k x where p: "p = (k, x)" by (cases p)
  have "k mod n < n" using assms(2) by simp
  with Cons show ?case by (auto simp: p nth_list_update)
qed

lemma deal_out_alt:
  "n > 0 \<Longrightarrow> deal_out n xs = map (\<lambda>i. map snd (filter (\<lambda>p. fst p mod n = i) (enumerate 0 xs))) [0..<n]"
  by (simp add: deal_out_def deal_out_steps)

lemma mset_bucket_step:
  "k < length bs \<Longrightarrow> mset (concat (bs[k := bs ! k @ [x]])) = add_mset x (mset (concat bs))"
  by (induction bs arbitrary: k) (auto split: nat.splits)

lemma mset_deal_out: "n > 0 \<Longrightarrow> mset (concat (deal_out n xs)) = mset xs"
proof -
  assume n: "n > 0"
  have "mset (concat (fold (\<lambda>(offset, x) buckets. buckets[offset mod n := buckets ! (offset mod n) @ [x]]) ps bs))
      = mset (concat bs) + mset (map snd ps)" if "length bs = n" for ps bs
    using that
  proof (induction ps arbitrary: bs)
    case (Cons p ps)
    obtain k x where p: "p = (k, x)" by (cases p)
    with Cons n show ?case by (simp add: mset_bucket_step)
  qed simp
  from this [of "replicate n []" "enumerate 0 xs"] show ?thesis by (simp add: deal_out_def)
qed

lemma deal_out_sorted:
  assumes "n > 0" and "sorted_wrt (<) xs" and "b \<in> set (deal_out n xs)"
  shows "sorted_wrt (<) b"
proof -
  from assms(1,3) obtain i where b: "b = map snd (filter (\<lambda>p. fst p mod n = i) (enumerate 0 xs))"
    by (auto simp: deal_out_alt)
  have "sorted_wrt (\<lambda>p q. snd p < snd q) (enumerate 0 xs)"
    using assms(2) by (simp add: sorted_wrt_map [symmetric])
  then have "sorted_wrt (\<lambda>p q. snd p < snd q) (filter (\<lambda>p. fst p mod n = i) (enumerate 0 xs))"
    by (rule sorted_wrt_filter)
  then show ?thesis by (simp add: b sorted_wrt_map)
qed

lemma length_deal_out [simp]: "n > 0 \<Longrightarrow> length (deal_out n xs) = n"
  by (simp add: deal_out_alt)

lemma sorted_int_range: "sorted_wrt (<) (int_range a b)"
  by (simp add: int_range_def sorted_wrt_map)

lemma concat_nonempty [simp]: "concat (filter (\<lambda>b. b \<noteq> []) bs) = concat bs"
  by (induction bs) auto

text \<open>The kinds of branches that are generated: a single chain, relays dealt out, or a rooted forest.\<close>

definition chain_branches :: "int \<Rightarrow> int list list" where
  "chain_branches relays = [int_range 1 (relays + 1)]"

definition parallel_branches :: "int \<Rightarrow> int \<Rightarrow> int list list" where
  "parallel_branches relays n =
     filter (\<lambda>b. b \<noteq> []) (deal_out (nat n) (int_range 1 (relays + 1)))"

definition forest_branches :: "int \<Rightarrow> int \<Rightarrow> int \<Rightarrow> int list list" where
  "forest_branches relays n roots =
     map (\<lambda>i. (1 + int i mod roots) # deal_out (nat n) (int_range (roots + 1) (relays + 1)) ! i)
       [0..<nat n]"

lemma generate_branches_unfolded:
  assumes "relays = max 1 relay_count" and "n = max 1 (min branch_count relays)"
  shows "generate_branches relay_count branch_count mode =
      (if py_lower mode = ''chain'' then chain_branches relays
       else if py_lower mode = ''parallel'' then parallel_branches relays n
       else if py_lower mode = ''forest'' then (if relays = 1 then chain_branches 1
         else forest_branches relays n (min n (max 1 (relays div 3))))
       else chain_branches relays)"
proof -
  have one: "[[1]] = chain_branches 1" by (simp add: chain_branches_def int_range_def)
  have nonempty: "filter (\<lambda>b. b \<noteq> []) (forest_branches relays n r) = forest_branches relays n r" for r
    by (simp add: forest_branches_def filter_id_conv)
  show ?thesis
    unfolding generate_branches_def Let_def assms(1) [symmetric] assms(2) [symmetric]
      nonempty [unfolded forest_branches_def] one [symmetric]
    by (simp add: chain_branches_def parallel_branches_def forest_branches_def)
qed

lemma generate_branches_cases:
  assumes "relays = max 1 relay_count" and "n = max 1 (min branch_count relays)"
  obtains "generate_branches relay_count branch_count mode = chain_branches relays"
    | "generate_branches relay_count branch_count mode = parallel_branches relays n"
    | roots where "generate_branches relay_count branch_count mode = forest_branches relays n roots"
        "1 \<le> roots" "roots \<le> n" "roots \<le> relays" "py_lower mode = ''forest''"
proof -
  have roots: "1 \<le> min n (max 1 (relays div 3))" "min n (max 1 (relays div 3)) \<le> n"
    "min n (max 1 (relays div 3)) \<le> relays"
  proof -
    have "1 \<le> relays" using assms(1) by simp
    then have "1 \<le> n" "n \<le> relays" using assms(2) by simp_all
    then show "1 \<le> min n (max 1 (relays div 3))" "min n (max 1 (relays div 3)) \<le> n"
      "min n (max 1 (relays div 3)) \<le> relays" by auto
  qed
  let ?m = "py_lower mode"
  note unfolded = generate_branches_unfolded [OF assms, of mode]
  consider "?m \<noteq> ''forest'' \<or> relays = 1" | "?m = ''forest''" "relays \<noteq> 1" by blast
  then show thesis
  proof cases
    case 1
    with unfolded that(1,2) show thesis by (auto split: if_splits)
  next
    case 2
    with unfolded have "generate_branches relay_count branch_count mode
        = forest_branches relays n (min n (max 1 (relays div 3)))" by simp
    from that(3) [OF this roots 2(1)] show thesis .
  qed
qed

lemma forest_bucket:
  assumes "b \<in> set (forest_branches relays n roots)" "n \<ge> 1"
  obtains i where "b = (1 + int i mod roots) # deal_out (nat n) (int_range (roots + 1) (relays + 1)) ! i"
    "i < nat n"
  using assms by (auto simp: forest_branches_def)

lemma deal_out_members: "n > 0 \<Longrightarrow> b \<in> set (deal_out n xs) \<Longrightarrow> set b \<subseteq> set xs"
  using mset_deal_out [of n xs] by (metis UN_upper set_concat set_mset_mset)

lemma forest_branch_ok:
  assumes "b \<in> set (forest_branches relays n roots)" "n \<ge> 1" "1 \<le> roots" "roots \<le> relays"
  shows "b \<noteq> [] \<and> sorted_wrt (<) b \<and> set b \<subseteq> {1..relays} \<and> hd b \<in> {1..relays}"
proof -
  let ?d = "deal_out (nat n) (int_range (roots + 1) (relays + 1))"
  from assms obtain i where b: "b = (1 + int i mod roots) # ?d ! i" and i: "i < nat n"
    by (elim forest_bucket)
  have bucket: "?d ! i \<in> set ?d" using i assms(2) by (intro nth_mem) simp
  from deal_out_sorted [OF _ sorted_int_range bucket] assms(2) have "sorted_wrt (<) (?d ! i)" by simp
  moreover from deal_out_members [OF _ bucket] assms(2)
  have "set (?d ! i) \<subseteq> {roots + 1..relays}" by auto
  moreover have "0 \<le> int i mod roots" "int i mod roots < roots" using assms(3) by simp_all
  ultimately show ?thesis using assms(4) unfolding b by auto
qed

lemma forest_member:
  "i < nat n \<Longrightarrow> (1 + int i mod roots) # deal_out (nat n) (int_range (roots + 1) (relays + 1)) ! i
     \<in> set (forest_branches relays n roots)"
  unfolding forest_branches_def set_map by (rule image_eqI [where x = i]) simp_all

lemma forest_covers:
  assumes "n \<ge> 1" "1 \<le> roots" "roots \<le> n" "roots \<le> relays"
  shows "{1..relays} \<subseteq> set (concat (forest_branches relays n roots))"
proof
  let ?d = "deal_out (nat n) (int_range (roots + 1) (relays + 1))"
  fix x assume x: "x \<in> {1..relays}"
  show "x \<in> set (concat (forest_branches relays n roots))"
  proof (cases "x \<le> roots")
    case True
    then have root: "1 + int (nat (x - 1)) mod roots = x" "nat (x - 1) < nat n"
      using x assms by auto
    have "(1 + int (nat (x - 1)) mod roots) # ?d ! nat (x - 1) \<in> set (forest_branches relays n roots)"
      using root(2) by (rule forest_member)
    with root(1) show ?thesis by (auto intro!: bexI)
  next
    case False
    with x have "x \<in> set (int_range (roots + 1) (relays + 1))" by simp
    also have "\<dots> = set (concat ?d)" 
      using assms(1) by (intro mset_eq_setD [symmetric] mset_deal_out) simp
    finally obtain b where "b \<in> set ?d" "x \<in> set b" by auto
    then obtain i where "i < nat n" "x \<in> set (?d ! i)" using assms(1) by (auto simp: in_set_conv_nth)
    from forest_member [OF this(1), of roots relays] show ?thesis
      unfolding set_concat by (rule UN_I) (simp add: \<open>x \<in> set (?d ! i)\<close>)
  qed
qed

lemma generated_cover:
  "let relays = max 1 relay_count; bs = generate_branches relay_count branch_count mode
   in bs \<noteq> [] \<and> int (length bs) \<le> max 1 (min branch_count relays)
      \<and> branches_wf relays True bs \<and> list_all (sorted_wrt (<)) bs
      \<and> set (concat bs) = {1..relays}
      \<and> (py_lower mode = ''forest'' \<or> mset (concat bs) = mset (int_range 1 (relays + 1)))"
proof -
  define relays n where "relays = max 1 relay_count" and "n = max 1 (min branch_count relays)"
  have pos: "1 \<le> relays" "1 \<le> n" by (simp_all add: relays_def n_def)
  have wf: "branches_wf relays True bs" if "\<And>b. b \<in> set bs \<Longrightarrow> b \<noteq> [] \<and> sorted_wrt (<) b"
    "set (concat bs) = {1..relays}" for bs
  proof -
    have "distinct b" if "sorted_wrt (<) b" for b :: "int list"
      using that by (simp add: strict_sorted_iff)
    with that show ?thesis by (auto simp: branches_wf_def list_all_iff)
  qed
  consider "generate_branches relay_count branch_count mode = chain_branches relays"
    | "generate_branches relay_count branch_count mode = parallel_branches relays n"
    | roots where "generate_branches relay_count branch_count mode = forest_branches relays n roots"
        "1 \<le> roots" "roots \<le> n" "roots \<le> relays" "py_lower mode = ''forest''"
    by (rule generate_branches_cases [OF relays_def n_def])
  then have "generate_branches relay_count branch_count mode \<noteq> []
      \<and> int (length (generate_branches relay_count branch_count mode)) \<le> n
      \<and> branches_wf relays True (generate_branches relay_count branch_count mode)
      \<and> list_all (sorted_wrt (<)) (generate_branches relay_count branch_count mode)
      \<and> set (concat (generate_branches relay_count branch_count mode)) = {1..relays}
      \<and> (py_lower mode = ''forest''
         \<or> mset (concat (generate_branches relay_count branch_count mode)) = mset (int_range 1 (relays + 1)))"
  proof cases
    case 1
    have "int_range 1 (relays + 1) \<noteq> []" using pos by (simp flip: length_greater_0_conv)
    with pos sorted_int_range show ?thesis
      unfolding 1 by (auto simp: chain_branches_def list_all_iff intro!: wf)
  next
    case 2
    let ?bs = "parallel_branches relays n" and ?d = "deal_out (nat n) (int_range 1 (relays + 1))"
    have m: "mset (concat ?bs) = mset (int_range 1 (relays + 1))"
      unfolding parallel_branches_def concat_nonempty using pos by (intro mset_deal_out) simp
    from mset_eq_setD [OF m] have cover: "set (concat ?bs) = {1..relays}" by auto
    have each: "b \<noteq> [] \<and> sorted_wrt (<) b" if "b \<in> set ?bs" for b
      using that deal_out_sorted [OF _ sorted_int_range, of "nat n" b] pos
      by (auto simp: parallel_branches_def)
    have "length ?bs \<le> length ?d" unfolding parallel_branches_def by (rule length_filter_le)
    then have len: "int (length ?bs) \<le> n" using pos by simp
    have "?bs \<noteq> []" using cover pos by (cases ?bs) auto
    with m cover each len wf [OF each cover] show ?thesis unfolding 2 by (simp add: list_all_iff)
  next
    case 3
    let ?bs = "forest_branches relays n roots"
    have each: "b \<noteq> [] \<and> sorted_wrt (<) b \<and> set b \<subseteq> {1..relays}" if "b \<in> set ?bs" for b
      using forest_branch_ok [OF that pos(2) 3(2,4)] by simp
    have cover: "set (concat ?bs) = {1..relays}"
    proof
      show "set (concat ?bs) \<subseteq> {1..relays}" using each by fastforce
      show "{1..relays} \<subseteq> set (concat ?bs)" using forest_covers [OF pos(2) 3(2-4)] .
    qed
    have len: "int (length ?bs) \<le> n" "?bs \<noteq> []" using pos by (simp_all add: forest_branches_def)
    have "branches_wf relays True ?bs" using each by (intro wf [OF _ cover]) simp
    with cover each len 3(5) show ?thesis unfolding 3(1) by (simp add: list_all_iff)
  qed
  then show ?thesis by (simp add: Let_def relays_def n_def)
qed

text \<open>C34: the generated branches - for any relay count, branch count and mode - are non-empty, strictly increasing lists of relays that together hold every relay, at most as many as asked for; outside the forest mode every relay is in exactly one branch.\<close>

theorem generated_branches_cover:
  "let relays = max 1 relay_count; bs = generate_branches relay_count branch_count mode
   in bs \<noteq> [] \<and> int (length bs) \<le> max 1 (min branch_count relays)
      \<and> branches_wf relays True bs \<and> list_all (sorted_wrt (<)) bs
      \<and> set (concat bs) = {1..relays}
      \<and> (py_lower mode = ''forest'' \<or> mset (concat bs) = mset (int_range 1 (relays + 1)))"
  by (rule generated_cover)

section \<open>The graph of generated branches\<close>

lemma drone_name_eq [simp]: "drone_name i = drone_name j \<longleftrightarrow> i = j"
  by (simp add: drone_name_def)

lemma path_edges_ordered:
  "sorted_wrt (<) (p # b) \<Longrightarrow> (u, v) \<in> set (path_edges (drone_name p) b) \<Longrightarrow>
   \<exists>i j. u = drone_name i \<and> v = drone_name j \<and> p \<le> i \<and> i < j"
proof (induction b arbitrary: p)
  case (Cons x b)
  from Cons.prems(2) consider "u = drone_name p" "v = drone_name x"
    | "(u, v) \<in> set (path_edges (drone_name x) b)" by auto
  then show ?case
  proof cases
    case 1
    with Cons.prems(1) show ?thesis by fastforce
  next
    case 2
    with Cons.IH [of x] Cons.prems(1) show ?thesis by fastforce
  qed
qed simp

lemma path_edges_reach:
  "x \<in> set b \<Longrightarrow> (prev, drone_name x) \<in> (set (path_edges prev b))\<^sup>*"
proof (induction b arbitrary: prev)
  case (Cons y b)
  let ?r = "set (path_edges prev (y # b))"
  have first: "(prev, drone_name y) \<in> ?r" by simp
  show ?case
  proof (cases "x = y")
    case True
    with first show ?thesis by auto
  next
    case False
    with Cons have "(drone_name y, drone_name x) \<in> (set (path_edges (drone_name y) b))\<^sup>*" by simp
    then have "(drone_name y, drone_name x) \<in> ?r\<^sup>*" by (rule rtrancl_mono [THEN subsetD, rotated]) auto
    with first show ?thesis by (rule converse_rtrancl_into_rtrancl)
  qed
qed simp

lemma sorted_branches_acyclic:
  assumes "\<And>b. b \<in> set bs \<Longrightarrow> sorted_wrt (<) b \<and> set b \<subseteq> {1..}" and "\<And>i. source \<noteq> drone_name i"
  shows "acyclic (set (branches_to_edges bs source))"
proof -
  define rank where "rank v = (if v = source then 0 else nat (THE i. v = drone_name i))" for v
  have rank: "rank source = 0" "rank (drone_name i) = nat i" for i
    using assms(2) [of i] by (auto simp: rank_def)
  have "rank u < rank v" if "(u, v) \<in> set (branches_to_edges bs source)" for u v
  proof -
    from that obtain b where b: "b \<in> set bs" "(u, v) \<in> set (path_edges source b)"
      by (auto simp: branches_to_edges_def)
    from b(2) obtain x c where x: "b = x # c" by (cases b) simp_all
    with assms(1) [OF b(1)] have sorted: "sorted_wrt (<) (x # c)" "1 \<le> x" by auto
    from b(2) x consider "u = source" "v = drone_name x" | "(u, v) \<in> set (path_edges (drone_name x) c)"
      by auto
    then show ?thesis
    proof cases
      case 1
      with sorted show ?thesis by (simp add: rank)
    next
      case 2
      from path_edges_ordered [OF sorted(1) this] sorted(2) show ?thesis by (auto simp: rank)
    qed
  qed
  then have "set (branches_to_edges bs source) \<subseteq> measure rank" by auto
  then show ?thesis by (rule wf_acyclic [OF wf_subset [OF wf_measure]])
qed

text \<open>With a source that is no relay, the graph of the generated branches passes the cycle test in every mode, and every relay can be reached from the source.\<close>

theorem generated_graph_acyclic:
  assumes "\<And>i. source \<noteq> drone_name i"
  shows "let edges = branches_to_edges (generate_branches relay_count branch_count mode) source;
             g = adjacency nodes edges True
         in has_cycle g = Some False
            \<and> drone_name ` {1..max 1 relay_count} \<subseteq> set (reachable g source)"
proof -
  let ?bs = "generate_branches relay_count branch_count mode"
  let ?e = "branches_to_edges ?bs source"
  have cover: "set (concat ?bs) = {1..max 1 relay_count}"
    and sorted: "\<And>b. b \<in> set ?bs \<Longrightarrow> sorted_wrt (<) b \<and> set b \<subseteq> {1..}"
    using generated_cover [of relay_count branch_count mode]
    by (auto simp: Let_def list_all_iff branches_wf_def)
  have "(source, drone_name i) \<in> (set ?e)\<^sup>*" if "i \<in> {1..max 1 relay_count}" for i
  proof -
    from that cover obtain b where b: "b \<in> set ?bs" "i \<in> set b" by (metis UN_E set_concat)
    have "set (path_edges source b) \<subseteq> set ?e" using b(1) by (auto simp: branches_to_edges_def)
    with path_edges_reach [OF b(2), of source] show ?thesis by (meson rtrancl_mono subsetD)
  qed
  with sorted_branches_acyclic [OF sorted assms] show ?thesis
    by (auto simp: Let_def has_cycle_correct adjacency_ok adjacency_arcs set_reachable)
qed

lemma generated_graph_acyclic_witness:
  "has_cycle (adjacency [] (branches_to_edges (generate_branches 4 2 ''Forest'') ''station'') True) = Some False
   \<and> branches_to_edges (generate_branches 4 2 ''Forest'') ''station'' =
      [(''station'', ''drone_1''), (''drone_1'', ''drone_2''), (''drone_2'', ''drone_4''),
       (''station'', ''drone_1''), (''drone_1'', ''drone_3'')]"
proof -
  have source: "''station'' \<noteq> drone_name i" for i by (simp add: drone_name_def)
  have "branches_to_edges (generate_branches 4 2 ''Forest'') ''station'' =
      [(''station'', ''drone_1''), (''drone_1'', ''drone_2''), (''drone_2'', ''drone_4''),
       (''station'', ''drone_1''), (''drone_1'', ''drone_3'')]" by code_simp
  with generated_graph_acyclic [OF source, of 4 2 "''Forest''" "[]"] show ?thesis by (simp add: Let_def)
qed

end
