(* ===== verification/Link_Preview.thy ===== *)
theory Link_Preview
  imports Link_Gate Topology_Branches
begin

text \<open>
  \<open>evaluate_experiment_topology_preview\<close> of \<open>netlab/link.py\<close>: every configured edge is judged with the
  preview model before a live runtime exists.

  The readings of the clock and of the generator during the \<open>i\<close>-th edge are \<open>pe_link i\<close>, and the text of
  an exception caught there is \<open>pe_text i\<close>.
\<close>

record preview_env =
  pe_libm :: libm
  pe_link :: "nat \<Rightarrow> link_env"
  pe_text :: "nat \<Rightarrow> pyexc \<Rightarrow> string"

record topology_preview =
  tp_ok :: bool
  tp_configured_model :: string
  tp_preview_model :: string
  tp_fallback_used :: bool
  tp_links :: "pydict list"
  tp_feasibility :: "(edge \<times> bool) list"
  tp_all_feasible :: bool

text \<open>\<open>config.get(name, {}) if isinstance(config.get(name), Mapping) else {}\<close>.\<close>

definition mapping_section :: "pydict \<Rightarrow> string \<Rightarrow> pydict" where
  "mapping_section config name = as_dict (dget config name (PDict []))"

text \<open>\<open>{str(item.get("id")): item for item in items if isinstance(item, Mapping)}\<close>.\<close>

definition by_id :: "pyval list \<Rightarrow> pydict \<Rightarrow> pydict" where
  "by_id items start =
     fold (\<lambda>item d. case item of PDict f \<Rightarrow> dset (py_str (dget f ''id'' PNone)) item d | _ \<Rightarrow> d) items start"

definition preview_edges :: "pydict \<Rightarrow> edge list res" where
  "preview_edges topology =
     (if py_str (dget topology ''mode'' (PStr ''chain'')) = ''manual''
          \<and> truthy (dget topology ''manual_edges'' PNone)
      then Inr (normalize_manual_edges (dget topology ''manual_edges'' PNone))
      else bindR (read_branches (dget topology ''branches'' (PList []))) (\<lambda>bs.
             Inr (branches_to_edges bs (py_str (dget topology ''source'' (PStr ''station''))))))"

definition analytical_models :: "string list" where
  "analytical_models =
     [''free_space'', ''log_distance'', ''stochastic_shadowing'', ''probabilistic_air_to_ground'',
      ''sionna_analytical'']"

definition configured_model :: "pydict \<Rightarrow> string" where
  "configured_model communication = py_str (dget communication ''model'' (PStr ''free_space''))"

definition preview_model :: "pydict \<Rightarrow> string" where
  "preview_model communication =
     (if configured_model communication \<in> set analytical_models then configured_model communication
      else py_str (dget communication ''fallback_model'' (PStr ''free_space'')))"

text \<open>The antenna of an entity: the assignment, or else the entity's own field.\<close>

definition antenna_id_of :: "pydict \<Rightarrow> string \<Rightarrow> pydict \<Rightarrow> string" where
  "antenna_id_of assignments name entity =
     py_str (dget assignments name (dget entity ''antenna_id'' (PStr '''')))"

definition preview_request ::
  "pydict \<Rightarrow> pydict \<Rightarrow> edge \<Rightarrow> pydict \<Rightarrow> pydict \<Rightarrow> pydict \<Rightarrow> pydict \<Rightarrow> link_request res" where
  "preview_request config communication e source destination tx_antenna rx_antenna =
     bindR (fget communication ''carrier_frequency_hz'' 3500000000) (\<lambda>frequency.
     bindR (fget communication ''bandwidth_hz'' 20000000) (\<lambda>bandwidth.
     bindR (fget communication ''tx_power_dbm'' 23) (\<lambda>tx_power.
     bindR (fget communication ''receiver_noise_figure_db'' 7) (\<lambda>noise.
     bindR (fget communication ''implementation_loss_db'' 2) (\<lambda>implementation.
     bindR (fget tx_antenna ''gain_dbi'' 0) (\<lambda>tx_gain.
     bindR (fget rx_antenna ''gain_dbi'' 0) (\<lambda>rx_gain.
     bindR (fget tx_antenna ''cable_loss_db'' 0) (\<lambda>tx_cable.
     bindR (fget rx_antenna ''cable_loss_db'' 0) (\<lambda>rx_cable.
     bindR (fget communication ''interference_margin_db'' 0) (\<lambda>interference.
     bindR (fget communication ''path_loss_exponent'' 2) (\<lambda>exponent.
     bindR (fget communication ''shadowing_sigma_db'' 0) (\<lambda>shadowing.
     bindR (pget (dget config ''experiment'' (PDict [])) ''seed'' (PInt 0)) (\<lambda>raw_seed.
     bindR (py_int raw_seed) (\<lambda>seed.
     bindR (fget communication ''spectral_efficiency_factor'' (3 / 4)) (\<lambda>efficiency.
       Inr ((new_link_request (fst e) (snd e) (dget source ''position'' origin_value)
               (dget destination ''position'' origin_value) frequency bandwidth tx_power)
            \<lparr>lr_receiver_noise_figure_db := noise, lr_implementation_loss_db := implementation,
             lr_tx_gain_dbi := tx_gain, lr_rx_gain_dbi := rx_gain, lr_tx_cable_loss_db := tx_cable,
             lr_rx_cable_loss_db := rx_cable, lr_interference_margin_db := interference,
             lr_path_loss_exponent := exponent, lr_shadowing_sigma_db := shadowing, lr_seed := seed,
             lr_model := preview_model communication,
             lr_spectral_efficiency_factor := efficiency\<rparr>))))))))))))))))"

definition preview_ends :: "pydict \<Rightarrow> pydict \<Rightarrow> gate_ends" where
  "preview_ends source destination =
     \<lparr>ge_source_active = truthy (dget source ''active'' (PBool True)),
      ge_destination_active = truthy (dget destination ''active'' (PBool True)),
      ge_source_failed = truthy (dget source ''failed'' (PBool False)),
      ge_destination_failed = truthy (dget destination ''failed'' (PBool False))\<rparr>"

definition preview_limits :: "pydict \<Rightarrow> gate_limits res" where
  "preview_limits communication =
     bindR (read_limits communication) (\<lambda>l.
       Inr (l\<lparr>gl_metric_ttl_s := py_max (Fin 2) (gl_metric_ttl_s l)\<rparr>))"

text \<open>The body of the \<open>try\<close>: the metrics and the verdict of one edge.\<close>

definition preview_decision ::
  "preview_env \<Rightarrow> nat \<Rightarrow> pydict \<Rightarrow> link_request \<Rightarrow> pydict \<Rightarrow> pydict
   \<Rightarrow> (link_metrics \<times> feasibility_decision) res" where
  "preview_decision w i communication r source destination =
     bindR (compute_analytical_link (pe_libm w) (pe_link w i) r) (\<lambda>m.
     bindR (preview_limits communication) (\<lambda>l.
       Inr (m, evaluate_feasibility (le_decision_at (pe_link w i)) (Some m)
                 (preview_ends source destination) l)))"

definition preview_record ::
  "preview_env \<Rightarrow> pydict \<Rightarrow> nat \<Rightarrow> edge \<Rightarrow> string \<Rightarrow> string
   \<Rightarrow> (link_metrics \<times> feasibility_decision) res \<Rightarrow> pydict" where
  "preview_record w communication i e tx_antenna_id rx_antenna_id outcome =
     (let models = [(''configured_model'', PStr (configured_model communication)),
                    (''preview_model'', PStr (preview_model communication)),
                    (''fallback_used'', PBool (preview_model communication \<noteq> configured_model communication))]
      in case outcome of
           Inr (m, d) \<Rightarrow>
             dupdate (dupdate (metrics_as_dict (le_printed_at (pe_link w i)) m) (decision_as_dict d))
               ([(''src'', PStr (fst e)), (''dst'', PStr (snd e)), (''feasible'', PBool (fd_feasible d)),
                 (''gate_reason'', PStr (gate_reason_value (fd_reason d))), (''source'', PStr ''PREVIEW'')]
                @ models
                @ [(''tx_antenna'', PStr tx_antenna_id), (''rx_antenna'', PStr rx_antenna_id)])
         | Inl exc \<Rightarrow>
             [(''src'', PStr (fst e)), (''dst'', PStr (snd e)), (''feasible'', PBool False),
              (''gate_reason'', PStr ''PREVIEW_MODEL_UNAVAILABLE''), (''source'', PStr ''UNAVAILABLE'')]
             @ models @ [(''error'', PStr (pe_text w i exc))])"

definition missing_endpoint_record :: "edge \<Rightarrow> pydict" where
  "missing_endpoint_record e =
     [(''src'', PStr (fst e)), (''dst'', PStr (snd e)), (''feasible'', PBool False),
      (''gate_reason'', PStr ''MISSING_ENDPOINT''), (''source'', PStr ''PREVIEW'')]"

record preview_tables =
  pt_config :: pydict
  pt_communication :: pydict
  pt_definitions :: pydict
  pt_assignments :: pydict
  pt_entities :: pydict

definition preview_link :: "preview_env \<Rightarrow> preview_tables \<Rightarrow> nat \<times> edge \<Rightarrow> pydict res" where
  "preview_link w t item =
     (let (i, e) = item; communication = pt_communication t
      in case (map_of (pt_entities t) (fst e), map_of (pt_entities t) (snd e)) of
           (Some source, Some destination) \<Rightarrow>
             (let s = as_dict source; d = as_dict destination;
                  tx_id = antenna_id_of (pt_assignments t) (fst e) s;
                  rx_id = antenna_id_of (pt_assignments t) (snd e) d;
                  tx = as_dict (dget (pt_definitions t) tx_id (PDict []));
                  rx = as_dict (dget (pt_definitions t) rx_id (PDict []))
              in bindR (preview_request (pt_config t) communication e s d tx rx) (\<lambda>r.
                   Inr (preview_record w communication i e tx_id rx_id
                          (preview_decision w i communication r s d))))
         | _ \<Rightarrow> Inr (missing_endpoint_record e))"

definition preview_tables_of :: "pydict \<Rightarrow> preview_tables res" where
  "preview_tables_of config =
     (let swarm = mapping_section config ''swarm''; antennas = mapping_section config ''antennas'';
          station = mapping_section config ''station''
      in bindR (ptuple (dget antennas ''definitions'' (PList []))) (\<lambda>definitions.
         bindR (ptuple (dget swarm ''drones'' (PList []))) (\<lambda>drones.
           Inr \<lparr>pt_config = config, pt_communication = mapping_section config ''communication'',
                pt_definitions = by_id definitions [],
                pt_assignments = mapping_section antennas ''assignments'',
                pt_entities = by_id drones
                  [(py_str (dget station ''id'' (PStr ''station'')), PDict station)]\<rparr>)))"

definition link_feasible :: "pydict \<Rightarrow> bool" where
  "link_feasible r = truthy (dget r ''feasible'' PNone)"

definition evaluate_experiment_topology_preview :: "preview_env \<Rightarrow> pydict \<Rightarrow> topology_preview res" where
  "evaluate_experiment_topology_preview w config =
     bindR (preview_tables_of config) (\<lambda>t.
     bindR (preview_edges (mapping_section config ''topology'')) (\<lambda>edges.
     bindR (mapR (preview_link w t) (enumerate 0 edges)) (\<lambda>links.
     (let communication = pt_communication t
      in Inr
        \<lparr>tp_ok = list_all (\<lambda>r. dget r ''source'' PNone \<noteq> PStr ''UNAVAILABLE'') links,
         tp_configured_model = configured_model communication,
         tp_preview_model = preview_model communication,
         tp_fallback_used = (preview_model communication \<noteq> configured_model communication),
         tp_links = links,
         tp_feasibility = fold (\<lambda>(e, r). AList.update e (link_feasible r)) (zip edges links) [],
         tp_all_feasible = (links \<noteq> [] \<and> list_all link_feasible links)\<rparr>))))"

end
