(* ===== verification/Graph_Flow.thy ===== *)
theory Graph_Flow
  imports Graph_Search "HOL-Library.Multiset"
begin

text \<open>
  Path diversity in \<open>netlab/topology.py\<close>: \<open>_max_flow\<close> (augmenting paths found breadth first) and the
  counts of edge-disjoint and node-disjoint paths built on it.

  \<^item> a dictionary of dictionaries \<open>d[u][v]\<close> is one association list with the pair as its key; the
    order of the keys with first component \<open>u\<close> is the iteration order of \<open>d[u]\<close>;
  \<^item> the loop \<open>while True\<close> is \<open>partial_function (option)\<close>: \<open>None\<close> is a call that does not return. For
    \<open>source = sink\<close> it never returns; otherwise it returns the capacity of a minimal cut;
  \<^item> \<open>parent\<close> keeps the newest entry first. A parent is always an older entry, so following parents is a
    walk down this list.
\<close>

type_synonym capacities = "(edge \<times> int) list"
type_synonym parents = "(string \<times> string option) list"

definition cap_at :: "capacities \<Rightarrow> edge \<Rightarrow> int" where
  "cap_at c e = (case map_of c e of None \<Rightarrow> 0 | Some x \<Rightarrow> x)"

section \<open>The residual graph\<close>

definition group_by_source :: "capacities \<Rightarrow> capacities" where
  "group_by_source c =
     concat (map (\<lambda>u. filter (\<lambda>(e, x). fst e = u) c) (fold set_add (map (fst \<circ> fst) c) []))"

definition add_residual :: "edge \<times> int \<Rightarrow> capacities \<Rightarrow> capacities" where
  "add_residual a r =
     (case a of ((u, v), c) \<Rightarrow>
        let r1 = AList.update (u, v) c r
        in if map_of r1 (v, u) = None then r1 @ [((v, u), 0)] else r1)"

definition residual_of :: "capacities \<Rightarrow> capacities" where
  "residual_of c = fold add_residual (group_by_source c) []"

section \<open>Augmenting paths\<close>

definition visit_residual ::
  "string \<Rightarrow> edge \<times> int \<Rightarrow> string list \<times> parents \<Rightarrow> string list \<times> parents" where
  "visit_residual node a st =
     (case (a, st) of (((u, v), c), queue, ps) \<Rightarrow>
        if u = node \<and> c > 0 \<and> v \<notin> set (dict_keys ps)
        then (queue @ [v], (v, Some node) # ps) else (queue, ps))"

definition heads :: "capacities \<Rightarrow> string set" where
  "heads r = (snd \<circ> fst) ` set r"

lemma visit_residual_measure:
  "set xs \<subseteq> set r \<Longrightarrow> fold (visit_residual node) xs (queue, ps) = (queue', ps') \<Longrightarrow>
   card (heads r - set (dict_keys ps')) + length queue'
     = card (heads r - set (dict_keys ps)) + length queue"
proof (induction xs arbitrary: queue ps)
  case (Cons a xs)
  obtain u v c where a: "a = ((u, v), c)" by (metis surj_pair)
  show ?case
  proof (cases "u = node \<and> c > 0 \<and> v \<notin> set (dict_keys ps)")
    case True
    have "v \<in> heads r" using Cons.prems(1) a by (force simp: heads_def)
    moreover have "finite (heads r)" by (simp add: heads_def)
    ultimately have "Suc (card (heads r - insert v (set (dict_keys ps)))) = card (heads r - set (dict_keys ps))"
      using True by (metis Diff_iff Diff_insert card_Suc_Diff1 finite_Diff)
    with Cons.IH [of "queue @ [v]" "(v, Some node) # ps"] Cons.prems True a
    show ?thesis by (simp add: visit_residual_def)
  next
    case False
    with Cons a show ?thesis by (auto simp: visit_residual_def)
  qed
qed simp

lemma visit_residual_smaller:
  "fold (visit_residual node) r (queue, ps) = (queue', ps') \<Longrightarrow>
   card (heads r - set (dict_keys ps')) + length queue'
     < Suc (card (heads r - set (dict_keys ps)) + length queue)"
  using visit_residual_measure [OF subset_refl, of node r queue ps queue' ps'] by simp

function parent_loop :: "capacities \<Rightarrow> string \<Rightarrow> string list \<Rightarrow> parents \<Rightarrow> parents" where
  "parent_loop r sink [] ps = ps"
| "parent_loop r sink (node # queue) ps =
     (if sink \<in> set (dict_keys ps) then ps
      else case fold (visit_residual node) r (queue, ps) of
             (queue', ps') \<Rightarrow> parent_loop r sink queue' ps')"
  by pat_completeness auto
termination
  by (relation "measure (\<lambda>(r, sink, queue, ps). card (heads r - set (dict_keys ps)) + length queue)")
    (auto split: prod.splits dest: visit_residual_smaller)

text \<open>The edges from the node back to the source, in the order the code follows them.\<close>

fun trace_path :: "parents \<Rightarrow> string \<Rightarrow> edge list" where
  "trace_path [] node = []"
| "trace_path ((n, p) # ps) node =
     (if n = node then (case p of None \<Rightarrow> [] | Some q \<Rightarrow> (q, node) # trace_path ps q)
      else trace_path ps node)"

definition bottleneck :: "capacities \<Rightarrow> edge list \<Rightarrow> int" where
  "bottleneck r path = foldl (\<lambda>m e. min m (cap_at r e)) 1000000000 path"

definition flip :: "edge \<Rightarrow> edge" where
  "flip e = (snd e, fst e)"

definition push_edge :: "int \<Rightarrow> edge \<Rightarrow> capacities \<Rightarrow> capacities" where
  "push_edge inc e r =
     (let r1 = AList.update e (cap_at r e - inc) r;
          b = flip e
      in AList.update b (cap_at r1 b + inc) r1)"

definition push_path :: "int \<Rightarrow> edge list \<Rightarrow> capacities \<Rightarrow> capacities" where
  "push_path inc path r = fold (push_edge inc) path r"

partial_function (option) flow_loop :: "string \<Rightarrow> string \<Rightarrow> capacities \<Rightarrow> int \<Rightarrow> int option" where
  "flow_loop source sink r flow =
     (let ps = parent_loop r sink [source] [(source, None)]
      in if sink \<notin> set (dict_keys ps) then Some flow
         else let path = trace_path ps sink; inc = bottleneck r path
              in flow_loop source sink (push_path inc path r) (flow + inc))"

definition max_flow :: "capacities \<Rightarrow> string \<Rightarrow> string \<Rightarrow> int option" where
  "max_flow c source sink = flow_loop source sink (residual_of c) 0"

section \<open>Disjoint paths\<close>

definition edge_capacities :: "edge list \<Rightarrow> capacities" where
  "edge_capacities edges = fold (\<lambda>e c. AList.update e (cap_at c e + 1) c) edges []"

definition edge_disjoint_count :: "edge list \<Rightarrow> string \<Rightarrow> string \<Rightarrow> int option" where
  "edge_disjoint_count edges source sink = max_flow (edge_capacities edges) source sink"

definition node_in :: "string \<Rightarrow> string" where "node_in n = n @ '':in''"
definition node_out :: "string \<Rightarrow> string" where "node_out n = n @ '':out''"

definition node_capacities :: "string list \<Rightarrow> edge list \<Rightarrow> string \<Rightarrow> string \<Rightarrow> capacities" where
  "node_capacities nodes edges source sink =
     (let maximum = max 1 (int (length nodes))
      in fold (\<lambda>(u, v). AList.update (node_out u, node_in v) 1) edges
           (fold (\<lambda>n. AList.update (node_in n, node_out n)
                    (if n \<in> set [source, sink] then maximum else 1)) nodes []))"

definition node_disjoint_count :: "string list \<Rightarrow> edge list \<Rightarrow> string \<Rightarrow> string \<Rightarrow> int option" where
  "node_disjoint_count nodes edges source sink =
     max_flow (node_capacities nodes edges source sink) (node_in source) (node_out sink)"

end
