(* ===== verification/Graph_Metrics.thy ===== *)
theory Graph_Metrics
  imports Graph_Flow Py_Math Topology_Branches "HOL-Library.List_Lexorder" "HOL-Library.Char_ord"
begin

text \<open>
  The remaining graph metrics of \<open>netlab/topology.py\<close>: articulation points and bridges by one
  depth-first search with low points, the diameter, Brandes betweenness, the count of simple
  paths, and \<open>topology_metrics\<close>, which puts them together.

  \<^item> the recursive searches and the breadth-first loop of Brandes' algorithm run on fuel; every call
    consumes a node that was not visited before, so the number of nodes plus one is enough;
  \<^item> dictionaries that are only read by key are functions to options;
  \<^item> the eigenvalues that numpy and scipy compute are a parameter.
\<close>

section \<open>Low points\<close>

record low_state =
  ls_counter :: nat
  ls_discovery :: "string \<Rightarrow> nat option"
  ls_low :: "string \<Rightarrow> nat option"
  ls_parent :: "string \<Rightarrow> string option"
  ls_points :: "string list"
  ls_bridges :: "edge list"

definition low_start :: low_state where
  "low_start =
     \<lparr>ls_counter = 0, ls_discovery = (\<lambda>_. None), ls_low = (\<lambda>_. None), ls_parent = (\<lambda>_. None),
      ls_points = [], ls_bridges = []\<rparr>"

definition num_at :: "(string \<Rightarrow> nat option) \<Rightarrow> string \<Rightarrow> nat" where
  "num_at m n = (case m n of None \<Rightarrow> 0 | Some k \<Rightarrow> k)"

definition sorted_pair :: "string \<Rightarrow> string \<Rightarrow> edge" where
  "sorted_pair a b = (if a \<le> b then (a, b) else (b, a))"

text \<open>What \<open>articulation_points\<close> does after the search of a child has returned.\<close>

definition note_point :: "string \<Rightarrow> string \<Rightarrow> nat \<Rightarrow> low_state \<Rightarrow> low_state" where
  "note_point node nxt children st =
     (let st1 = st\<lparr>ls_low := (ls_low st)(node \<mapsto> min (num_at (ls_low st) node) (num_at (ls_low st) nxt))\<rparr>;
          st2 = (if ls_parent st1 node = None \<and> children > 1
                 then st1\<lparr>ls_points := set_add node (ls_points st1)\<rparr> else st1)
      in if ls_parent st2 node \<noteq> None \<and> num_at (ls_low st2) nxt \<ge> num_at (ls_discovery st2) node
         then st2\<lparr>ls_points := set_add node (ls_points st2)\<rparr> else st2)"

text \<open>What \<open>bridge_edges\<close> does there.\<close>

definition note_bridge :: "string \<Rightarrow> string \<Rightarrow> nat \<Rightarrow> low_state \<Rightarrow> low_state" where
  "note_bridge node nxt children st =
     (let st1 = st\<lparr>ls_low := (ls_low st)(node \<mapsto> min (num_at (ls_low st) node) (num_at (ls_low st) nxt))\<rparr>
      in if num_at (ls_low st1) nxt > num_at (ls_discovery st1) node
         then st1\<lparr>ls_bridges := set_add (sorted_pair node nxt) (ls_bridges st1)\<rparr> else st1)"

text \<open>The search the two routines share, up to what is noted after a child.\<close>

function low_dfs ::
    "(string \<Rightarrow> string \<Rightarrow> nat \<Rightarrow> low_state \<Rightarrow> low_state) \<Rightarrow> nat \<Rightarrow> digraph \<Rightarrow> string \<Rightarrow> low_state \<Rightarrow> low_state option"
  and low_children ::
    "(string \<Rightarrow> string \<Rightarrow> nat \<Rightarrow> low_state \<Rightarrow> low_state) \<Rightarrow> nat \<Rightarrow> digraph \<Rightarrow> string \<Rightarrow> string list \<Rightarrow> nat
       \<Rightarrow> low_state \<Rightarrow> low_state option" where
  "low_dfs note 0 g node st = None"
| "low_dfs note (Suc k) g node st =
     (let c = Suc (ls_counter st)
      in low_children note k g node (nbrs g node) 0
           (st\<lparr>ls_counter := c, ls_discovery := (ls_discovery st)(node \<mapsto> c),
               ls_low := (ls_low st)(node \<mapsto> c)\<rparr>))"
| "low_children note k g node [] children st = Some st"
| "low_children note k g node (nxt # xs) children st =
     (if ls_discovery st nxt = None
      then (case low_dfs note k g nxt (st\<lparr>ls_parent := (ls_parent st)(nxt \<mapsto> node)\<rparr>) of
              None \<Rightarrow> None
            | Some st' \<Rightarrow>
                low_children note k g node xs (Suc children) (note node nxt (Suc children) st'))
      else if ls_parent st node \<noteq> Some nxt
      then low_children note k g node xs children
             (st\<lparr>ls_low := (ls_low st)(node \<mapsto> min (num_at (ls_low st) node) (num_at (ls_discovery st) nxt))\<rparr>)
      else low_children note k g node xs children st)"
  by pat_completeness auto
termination
  by (relation "measures [\<lambda>a. case a of Inl (f, k, g, n, st) \<Rightarrow> k | Inr (f, k, g, n, xs, c, st) \<Rightarrow> k,
       \<lambda>a. case a of Inl (f, k, g, n, st) \<Rightarrow> 0 | Inr (f, k, g, n, xs, c, st) \<Rightarrow> Suc (length xs)]")
    auto

fun low_loop ::
  "(string \<Rightarrow> string \<Rightarrow> nat \<Rightarrow> low_state \<Rightarrow> low_state) \<Rightarrow> nat \<Rightarrow> digraph \<Rightarrow> string list \<Rightarrow> low_state \<Rightarrow> low_state option"
where
  "low_loop note k g [] st = Some st"
| "low_loop note k g (n # ns) st =
     (if ls_discovery st n \<noteq> None then low_loop note k g ns st
      else case low_dfs note k g n st of
             None \<Rightarrow> None
           | Some st' \<Rightarrow> low_loop note k g ns st')"

definition articulation_points :: "string list \<Rightarrow> edge list \<Rightarrow> string list option" where
  "articulation_points nodes edges =
     (let g = adjacency nodes edges False
      in map_option ls_points (low_loop note_point (Suc (length g)) g (dict_keys g) low_start))"

definition bridge_edges :: "string list \<Rightarrow> edge list \<Rightarrow> edge list option" where
  "bridge_edges nodes edges =
     (let g = adjacency nodes edges False
      in map_option ls_bridges (low_loop note_bridge (Suc (length g)) g (dict_keys g) low_start))"

section \<open>Diameter\<close>

definition far_expand ::
  "nat \<Rightarrow> string list \<Rightarrow> (string \<times> nat) list \<times> string list \<Rightarrow> (string \<times> nat) list \<times> string list" where
  "far_expand d = fold (\<lambda>nxt (queue, seen).
     if nxt \<in> set seen then (queue, seen) else (queue @ [(nxt, Suc d)], seen @ [nxt]))"

lemma far_expand_measure:
  "set xs \<subseteq> V \<Longrightarrow> finite V \<Longrightarrow> far_expand d xs (queue, seen) = (queue', seen') \<Longrightarrow>
   card (V - set seen') + length queue' = card (V - set seen) + length queue"
proof (induction xs arbitrary: queue seen)
  case Nil
  then show ?case by (simp add: far_expand_def)
next
  case (Cons x xs)
  show ?case
  proof (cases "x \<in> set seen")
    case True
    with Cons show ?thesis by (simp add: far_expand_def)
  next
    case False
    have "V - insert x (set seen) = (V - set seen) - {x}" by auto
    moreover have "x \<in> V - set seen" "finite (V - set seen)" using False Cons.prems by auto
    ultimately have "Suc (card (V - insert x (set seen))) = card (V - set seen)"
      by (metis card_Suc_Diff1)
    with Cons.IH [of "queue @ [(x, Suc d)]" "seen @ [x]"] Cons.prems False
    show ?thesis by (simp add: far_expand_def)
  qed
qed

lemma far_expand_smaller:
  "far_expand d (nbrs g node) (queue, seen) = (queue', seen') \<Longrightarrow>
   card (verts g - set seen') + length queue' < Suc (card (verts g - set seen) + length queue)"
  using far_expand_measure [OF nbrs_verts finite_verts, of d g node queue seen queue' seen'] by simp

function far_loop ::
  "digraph \<Rightarrow> (string \<times> nat) list \<Rightarrow> string list \<Rightarrow> string \<times> nat \<Rightarrow> string \<times> nat \<times> nat" where
  "far_loop g [] seen far = (fst far, snd far, length seen)"
| "far_loop g ((node, d) # queue) seen far =
     (case far_expand d (nbrs g node) (queue, seen) of
        (queue', seen') \<Rightarrow> far_loop g queue' seen' (if d > snd far then (node, d) else far))"
  by pat_completeness auto
termination
  by (relation "measure (\<lambda>(g, queue, seen, far). card (verts g - set seen) + length queue)")
    (auto split: prod.splits dest: far_expand_smaller [OF sym])

definition farthest :: "digraph \<Rightarrow> string \<Rightarrow> string \<times> nat \<times> nat" where
  "farthest g start = far_loop g [(start, 0)] [start] (start, 0)"

fun diameter_loop :: "digraph \<Rightarrow> nat \<Rightarrow> string list \<Rightarrow> nat \<Rightarrow> nat option" where
  "diameter_loop g n [] best = Some best"
| "diameter_loop g n (source # ns) best =
     (case farthest g source of
        (_, distance, reached) \<Rightarrow>
          if reached \<noteq> n then None else diameter_loop g n ns (max best distance))"

definition undirected_edges :: "edge list \<Rightarrow> edge list" where
  "undirected_edges edges =
     fold set_add (map (\<lambda>(a, b). sorted_pair a b) (filter (\<lambda>(a, b). a \<noteq> b) edges)) []"

definition all_pairs_diameter :: "string list \<Rightarrow> edge list \<Rightarrow> nat option" where
  "all_pairs_diameter nodes edges =
     (let g = adjacency nodes edges False
      in case nodes of
           [] \<Rightarrow> Some 0
         | n # _ \<Rightarrow>
             (case farthest g n of
                (first, _, reached) \<Rightarrow>
                  if reached \<noteq> length nodes then None
                  else if length (undirected_edges edges) = length nodes - 1
                  then (case farthest g first of (_, diameter, _) \<Rightarrow> Some diameter)
                  else diameter_loop g (length nodes) nodes 0))"

section \<open>Simple paths\<close>

definition path_stack_less :: "((digraph \<times> string \<times> nat \<times> (string \<times> string list) list \<times> nat)
    \<times> (digraph \<times> string \<times> nat \<times> (string \<times> string list) list \<times> nat)) set" where
  "path_stack_less =
     inv_image (mult less_than)
       (\<lambda>(g, sink, limit, stack, found). mset (map (\<lambda>(n, seen). card (verts g - set seen)) stack))"

text \<open>The stack is kept with its top first; \<open>found\<close> paths have been counted.\<close>

function simple_path_loop ::
  "digraph \<Rightarrow> string \<Rightarrow> nat \<Rightarrow> (string \<times> string list) list \<Rightarrow> nat \<Rightarrow> nat" where
  "simple_path_loop g sink limit [] found = found"
| "simple_path_loop g sink limit ((node, seen) # stack) found =
     (if found \<ge> limit then found
      else if node = sink then simple_path_loop g sink limit stack (Suc found)
      else simple_path_loop g sink limit
             (rev (map (\<lambda>nxt. (nxt, seen @ [nxt])) (filter (\<lambda>nxt. nxt \<notin> set seen) (nbrs g node))) @ stack)
             found)"
  by pat_completeness auto
termination
proof (relation path_stack_less)
  show "wf path_stack_less" unfolding path_stack_less_def by (intro wf_inv_image wf_mult wf_less_than)
next
  fix g :: digraph and sink node :: string and limit found :: nat
    and seen :: "string list" and stack :: "(string \<times> string list) list"
  show "((g, sink, limit, stack, Suc found), (g, sink, limit, (node, seen) # stack, found)) \<in> path_stack_less"
    using one_step_implies_mult [of "{#card (verts g - set seen)#}" "{#}" less_than
        "mset (map (\<lambda>(n, seen). card (verts g - set seen)) stack)"]
    unfolding path_stack_less_def by simp
next
  fix g :: digraph and sink node :: string and limit found :: nat
    and seen :: "string list" and stack :: "(string \<times> string list) list"
  let ?c = "\<lambda>(n, seen). card (verts g - set seen)"
  let ?new = "map (\<lambda>nxt. (nxt, seen @ [nxt])) (filter (\<lambda>nxt. nxt \<notin> set seen) (nbrs g node))"
  have "card (verts g - insert x (set seen)) < card (verts g - set seen)"
    if "x \<in> set (nbrs g node)" "x \<notin> set seen" for x
    using that nbrs_verts [of g node] by (intro psubset_card_mono) auto
  then have "\<forall>k\<in>set_mset (mset (map ?c ?new)). \<exists>j\<in>set_mset {#?c (node, seen)#}. (k, j) \<in> less_than"
    by auto
  then have "(mset (map ?c stack) + mset (map ?c ?new), mset (map ?c stack) + {#?c (node, seen)#}) \<in> mult less_than"
    by (intro one_step_implies_mult) auto
  then show "((g, sink, limit, rev ?new @ stack, found), (g, sink, limit, (node, seen) # stack, found)) \<in> path_stack_less"
    unfolding path_stack_less_def by (simp add: ac_simps multiset.map_comp)
qed

definition simple_path_count :: "digraph \<Rightarrow> string \<Rightarrow> string \<Rightarrow> nat" where
  "simple_path_count g source sink = simple_path_loop g sink 1000 [(source, [source])] 0"

section \<open>Betweenness\<close>

text \<open>A call that may raise, and that may not return at all: \<open>None\<close>.\<close>

type_synonym 'a run = "'a res option"

definition bindT :: "'a run \<Rightarrow> ('a \<Rightarrow> 'b run) \<Rightarrow> 'b run" where
  "bindT m f = (case m of None \<Rightarrow> None | Some (Inl e) \<Rightarrow> Some (Inl e) | Some (Inr x) \<Rightarrow> f x)"

lemma bindT_simps [simp]:
  "bindT None f = None" "bindT (Some (Inl e)) f = Some (Inl e)" "bindT (Some (Inr x)) f = f x"
  by (simp_all add: bindT_def)

primrec foldT :: "('a \<Rightarrow> 's \<Rightarrow> 's run) \<Rightarrow> 'a list \<Rightarrow> 's \<Rightarrow> 's run" where
  "foldT f [] s = Some (Inr s)"
| "foldT f (x # xs) s = bindT (f x s) (foldT f xs)"

definition look :: "(string \<times> 'a) list \<Rightarrow> string \<Rightarrow> 'a res" where
  "look d k = (case map_of d k of None \<Rightarrow> Inl (KeyError k) | Some v \<Rightarrow> Inr v)"

definition init_dict :: "string list \<Rightarrow> 'a \<Rightarrow> (string \<times> 'a) list" where
  "init_dict nodes v = fold (\<lambda>n. AList.update n v) nodes []"

record brandes =
  br_queue :: "string list"
  br_distance :: "(string \<times> int) list"
  br_sigma :: "(string \<times> pyfloat) list"
  br_predecessors :: "(string \<times> string list) list"

definition brandes_visit :: "string \<Rightarrow> string \<Rightarrow> brandes \<Rightarrow> brandes res" where
  "brandes_visit node nxt b =
     bindR (look (br_distance b) nxt) (\<lambda>d.
     bindR (look (br_distance b) node) (\<lambda>dn.
     (let b1 = (if d < 0
                then b\<lparr>br_queue := br_queue b @ [nxt],
                       br_distance := AList.update nxt (dn + 1) (br_distance b)\<rparr> else b)
      in bindR (look (br_distance b1) nxt) (\<lambda>d1.
           if d1 = dn + 1
           then bindR (look (br_sigma b1) nxt) (\<lambda>s.
                bindR (look (br_sigma b1) node) (\<lambda>sn.
                bindR (look (br_predecessors b1) nxt) (\<lambda>ps.
                  Inr (b1\<lparr>br_sigma := AList.update nxt (fadd s sn) (br_sigma b1),
                          br_predecessors := AList.update nxt (ps @ [node]) (br_predecessors b1)\<rparr>))))
           else Inr b1))))"

text \<open>The breadth-first loop; the stack is kept with its top first.\<close>

fun brandes_bfs :: "nat \<Rightarrow> digraph \<Rightarrow> string list \<Rightarrow> brandes \<Rightarrow> (string list \<times> brandes) run" where
  "brandes_bfs fuel g stack b =
     (case br_queue b of
        [] \<Rightarrow> Some (Inr (stack, b))
      | node # queue \<Rightarrow>
          (case fuel of
             0 \<Rightarrow> None
           | Suc k \<Rightarrow>
               bindT (Some (foldR (brandes_visit node) (nbrs g node) (b\<lparr>br_queue := queue\<rparr>)))
                 (brandes_bfs k g (node # stack))))"

declare brandes_bfs.simps [simp del]

definition brandes_credit ::
  "brandes \<Rightarrow> string \<Rightarrow> string \<Rightarrow> (string \<times> pyfloat) list \<Rightarrow> (string \<times> pyfloat) list res" where
  "brandes_credit b node previous dependency =
     bindR (look (br_sigma b) node) (\<lambda>sn.
       if fgt sn (Fin 0)
       then bindR (look (br_sigma b) previous) (\<lambda>sp.
            bindR (fdiv sp sn) (\<lambda>ratio.
            bindR (look dependency node) (\<lambda>dn.
            bindR (look dependency previous) (\<lambda>dp.
              Inr (AList.update previous (fadd dp (fmul ratio (fadd (Fin 1) dn))) dependency)))))
       else Inr dependency)"

type_synonym centrality = "(string \<times> pyfloat) list"

definition brandes_pop ::
  "brandes \<Rightarrow> string \<Rightarrow> string \<Rightarrow> centrality \<times> centrality \<Rightarrow> (centrality \<times> centrality) res" where
  "brandes_pop b source node st =
     (case st of (dependency, centrality) \<Rightarrow>
        bindR (look (br_predecessors b) node) (\<lambda>ps.
        bindR (foldR (brandes_credit b node) ps dependency) (\<lambda>dependency'.
          if node \<noteq> source
          then bindR (look centrality node) (\<lambda>c.
               bindR (look dependency' node) (\<lambda>d.
                 Inr (dependency', AList.update node (fadd c d) centrality)))
          else Inr (dependency', centrality))))"

definition brandes_source :: "digraph \<Rightarrow> string list \<Rightarrow> string \<Rightarrow> centrality \<Rightarrow> centrality run" where
  "brandes_source g nodes source centrality =
     bindT (brandes_bfs (length nodes) g []
              \<lparr>br_queue = [source],
               br_distance = AList.update source 0 (init_dict nodes (- 1)),
               br_sigma = AList.update source (Fin 1) (init_dict nodes (Fin 0)),
               br_predecessors = init_dict nodes []\<rparr>)
       (\<lambda>(stack, b).
          bindT (Some (foldR (brandes_pop b source) stack (init_dict nodes (Fin 0), centrality)))
            (\<lambda>(_, centrality'). Some (Inr centrality')))"

definition true_div :: "int \<Rightarrow> int \<Rightarrow> pyfloat" where
  "true_div a b = rnd64 (of_int a / of_int b)"

definition sample_indices :: "int \<Rightarrow> int \<Rightarrow> int list" where
  "sample_indices n m =
     sort (remdups (map (\<lambda>i. round_half_even (fin_part (true_div (i * (n - 1)) (m - 1)))) (int_range 0 m)))"

definition brandes_sources :: "string list \<Rightarrow> string list \<times> string" where
  "brandes_sources nodes =
     (if length nodes > 256 \<and> 128 < length nodes
      then (map (\<lambda>i. nodes ! nat i)
              (sample_indices (int (length nodes)) (max 2 (min 128 (int (length nodes))))),
            ''deterministic_sampled_brandes'')
      else (nodes, ''exact_brandes''))"

definition brandes_scale :: "int \<Rightarrow> int \<Rightarrow> pyfloat res" where
  "brandes_scale n sources =
     (let correction = (if sources > 0 then true_div n sources else Fin 1);
          scale = fmul (Fin (1 / 2)) correction
      in if n > 2 then fdiv scale (true_div ((n - 1) * (n - 2)) 2) else Inr scale)"

definition brandes_betweenness ::
  "string list \<Rightarrow> edge list \<Rightarrow> (centrality \<times> string \<times> nat) run" where
  "brandes_betweenness nodes edges =
     (let g = adjacency nodes edges False
      in case brandes_sources nodes of (sources, way) \<Rightarrow>
           bindT (foldT (brandes_source g nodes) sources (init_dict nodes (Fin 0))) (\<lambda>centrality.
           bindT (Some (brandes_scale (int (length nodes)) (int (length sources)))) (\<lambda>scale.
             Some (Inr (map_values (\<lambda>v. fmul v scale) centrality, way, length sources)))))"

section \<open>All metrics\<close>

text \<open>
  The second smallest eigenvalue of the Laplacian, as numpy or scipy returns it for a number of nodes
  and a list of edges between their indices; \<open>None\<close> when that raises.
\<close>

type_synonym eigensolver = "nat \<Rightarrow> (nat \<times> nat) list \<Rightarrow> pyfloat option"

definition algebraic_connectivity :: "eigensolver \<Rightarrow> string list \<Rightarrow> edge list \<Rightarrow> pyfloat option" where
  "algebraic_connectivity eig nodes edges =
     (if length nodes < 2 then Some (Fin 0)
      else let index = fold (\<lambda>(i, n). AList.update n i) (enumerate 0 nodes) [];
               valid = filter (\<lambda>(a, b). map_of index a \<noteq> None \<and> map_of index b \<noteq> None) edges;
               pos_of = (\<lambda>n. case map_of index n of None \<Rightarrow> 0 | Some i \<Rightarrow> i)
           in map_option (py_max (Fin 0))
                (eig (length nodes) (map (\<lambda>(a, b). (pos_of a, pos_of b)) (undirected_edges valid))))"

record topo_metrics =
  tm_node_count :: nat
  tm_edge_count :: nat
  tm_connected_components :: nat
  tm_component_sizes :: "nat list"
  tm_average_degree :: pyfloat
  tm_max_degree :: nat
  tm_network_diameter_hops :: "nat option"
  tm_average_source_sink_hops :: "pyfloat option"
  tm_source_sink_paths :: "(string \<times> string list option) list"
  tm_articulation_points :: "string list"
  tm_bridge_edges :: "edge list"
  tm_edge_density :: pyfloat
  tm_node_betweenness :: centrality
  tm_betweenness_method :: string
  tm_betweenness_samples :: nat
  tm_algebraic_connectivity :: "pyfloat option"
  tm_algebraic_method :: string
  tm_edge_disjoint_paths :: "(string \<times> int) list"
  tm_node_disjoint_paths :: "(string \<times> int) list"
  tm_path_diversity :: "(string \<times> nat) list"
  tm_k_connectivity :: int
  tm_redundancy :: nat
  tm_resilience_score :: pyfloat

definition degrees_of :: "edge list \<Rightarrow> (string \<times> nat) list" where
  "degrees_of edges =
     fold (\<lambda>n d. AList.update n (Suc (case map_of d n of None \<Rightarrow> 0 | Some k \<Rightarrow> k)) d)
       (concat (map (\<lambda>(a, b). [a, b]) edges)) []"

definition per_sink :: "(string \<Rightarrow> 'a) \<Rightarrow> string list \<Rightarrow> (string \<times> 'a) list" where
  "per_sink f sinks = fold (\<lambda>s. AList.update s (f s)) sinks []"

definition per_sink_run :: "(string \<Rightarrow> 'a option) \<Rightarrow> string list \<Rightarrow> (string \<times> 'a) list run" where
  "per_sink_run f sinks =
     foldT (\<lambda>s d. case f s of None \<Rightarrow> None | Some v \<Rightarrow> Some (Inr (AList.update s v d))) sinks []"

definition min_list_or :: "'a::linorder \<Rightarrow> 'a list \<Rightarrow> 'a" where
  "min_list_or dflt xs = (case xs of [] \<Rightarrow> dflt | y # ys \<Rightarrow> fold min ys y)"

definition share :: "pyfloat \<Rightarrow> nat \<Rightarrow> pyfloat res" where
  "share w n =
     (if n = 0 then Inr (fmul w (Fin 1))
      else bindR (fdiv (Fin 1) (fadd (Fin 1) (rnd64 (of_nat n)))) (\<lambda>q. Inr (fmul w q)))"

definition resilience_score :: "int \<Rightarrow> nat \<Rightarrow> nat \<Rightarrow> nat \<Rightarrow> pyfloat res" where
  "resilience_score k redundancy cut_nodes cut_edges =
     bindR (share (rnd64 (1 / 5)) cut_nodes) (\<lambda>a.
     bindR (share (rnd64 (1 / 5)) cut_edges) (\<lambda>b.
       (let s1 = fmul (rnd64 (35 / 100)) (py_min (Fin 1) (true_div k 2));
            s2 = fmul (Fin (1 / 4)) (py_min (Fin 1) (true_div (int redundancy) 2))
        in Inr (py_max (Fin 0) (py_min (Fin 100) (fmul (Fin 100) (fadd (fadd (fadd s1 s2) a) b)))))))"

definition topology_metrics ::
  "eigensolver \<Rightarrow> string list \<Rightarrow> edge list \<Rightarrow> string \<Rightarrow> string list \<Rightarrow> topo_metrics run" where
  "topology_metrics eig nodes edges source sinks =
     (let valid = filter (\<lambda>(a, b). a \<in> set nodes \<and> b \<in> set nodes) edges;
          g = adjacency nodes valid True;
          degrees = map snd (degrees_of valid);
          paths = per_sink (shortest_path g source) sinks;
          hops = concat (map (\<lambda>(s, p). case p of None \<Rightarrow> [] | Some q \<Rightarrow> if q = [] then [] else [length q - 1]) paths);
          components = connected_components nodes valid;
          n = length nodes
      in case (articulation_points nodes valid, bridge_edges nodes valid) of
           (Some points, Some bridges) \<Rightarrow>
             bindT (per_sink_run (edge_disjoint_count valid source) sinks) (\<lambda>edge_disjoint.
             bindT (per_sink_run (node_disjoint_count nodes valid source) sinks) (\<lambda>node_disjoint.
             bindT (brandes_betweenness nodes valid) (\<lambda>(betweenness, way, samples).
             (let diversity = per_sink (simple_path_count g source) sinks;
                  algebraic = algebraic_connectivity eig nodes valid;
                  k = min_list_or 0 (map snd edge_disjoint @ map snd node_disjoint);
                  redundancy = min_list_or 0 (map snd diversity)
              in bindT (Some (resilience_score k redundancy (length points) (length bridges))) (\<lambda>score.
                   Some (Inr
                     \<lparr>tm_node_count = n, tm_edge_count = length valid,
                      tm_connected_components = length components,
                      tm_component_sizes = rev (sort (map length components)),
                      tm_average_degree =
                        (if n = 0 then Fin 0 else true_div (int (sum_list degrees)) (int n)),
                      tm_max_degree = fold max degrees 0,
                      tm_network_diameter_hops = all_pairs_diameter nodes valid,
                      tm_average_source_sink_hops =
                        (if hops = [] then None
                         else Some (true_div (int (sum_list hops)) (int (length hops)))),
                      tm_source_sink_paths = paths, tm_articulation_points = sort points,
                      tm_bridge_edges = sort_key (\<lambda>(a, b). [a, b]) bridges,
                      tm_edge_density = true_div (int (length valid)) (max 1 (int n * max 1 (int n - 1))),
                      tm_node_betweenness = betweenness, tm_betweenness_method = way,
                      tm_betweenness_samples = samples, tm_algebraic_connectivity = algebraic,
                      tm_algebraic_method =
                        (if n \<ge> 64 \<and> algebraic \<noteq> None then ''sparse_eigsh''
                         else if algebraic \<noteq> None then ''dense_eigvalsh'' else ''unavailable''),
                      tm_edge_disjoint_paths = edge_disjoint, tm_node_disjoint_paths = node_disjoint,
                      tm_path_diversity = diversity, tm_k_connectivity = k,
                      tm_redundancy = redundancy, tm_resilience_score = score\<rparr>))))))
         | _ \<Rightarrow> None)"

definition graph_metrics ::
  "eigensolver \<Rightarrow> string list \<Rightarrow> string list list \<Rightarrow> string \<Rightarrow> string list option \<Rightarrow> topo_metrics run" where
  "graph_metrics eig nodes edges source sinks =
     (let normalized = concat (map (\<lambda>e. case e of [a, b] \<Rightarrow> [(a, b)] | _ \<Rightarrow> []) edges);
          targets = (case sinks of
                       Some s \<Rightarrow> s
                     | None \<Rightarrow> filter (\<lambda>n. n \<noteq> source \<and> n \<notin> set (map fst normalized)) nodes)
      in topology_metrics eig nodes normalized source targets)"

end
