(* ===== verification/Topology_Validation.thy ===== *)
theory Topology_Validation
  imports Graph_Metrics
begin

text \<open>
  \<open>validate_topology\<close> of \<open>netlab/topology.py\<close>: the errors and warnings in the order of the code, the
  three verdicts, and the metrics of the graph. A call that does not return is \<open>None\<close> (the metrics do
  not return when the source is one of the sinks).
\<close>

record topology_input =
  ti_mode :: string
  ti_relay_count :: int
  ti_branches :: pyval
  ti_manual_edges :: pyval
  ti_positions :: "(string \<times> pyval) list"
  ti_source :: string
  ti_sinks :: "string list"
  ti_failed_nodes :: "string list"
  ti_minimum_separation_m :: pyfloat
  ti_altitude_bounds_m :: "(pyfloat \<times> pyfloat) option"
  ti_link_feasibility :: "(edge \<times> bool) list option"

record topology_validation =
  tv_structurally_valid :: bool
  tv_physically_valid :: bool
  tv_communication_feasible :: "bool option"
  tv_operational :: bool
  tv_errors :: "pydict list"
  tv_warnings :: "pydict list"
  tv_metrics :: topo_metrics
  tv_mode :: string
  tv_branches :: "int list list"
  tv_edges :: "edge list"

definition topo_issue :: "string \<Rightarrow> pydict \<Rightarrow> pydict" where
  "topo_issue code extra = (''code'', PStr code) # extra"

definition topo_issue_code :: "pydict \<Rightarrow> pyval" where
  "topo_issue_code d = dget d ''code'' PNone"

definition edge_value :: "edge \<Rightarrow> pyval" where
  "edge_value e = PList [PStr (fst e), PStr (snd e)]"

definition topology_modes :: "string list" where
  "topology_modes = map topology_mode_value [TM_CHAIN, TM_PARALLEL, TM_FOREST, TM_MANUAL]"

section \<open>Structure\<close>

definition normalized_mode :: "string \<Rightarrow> string" where
  "normalized_mode mode =
     (if py_lower mode \<in> set topology_modes then py_lower mode else topology_mode_value TM_MANUAL)"

definition mode_errors :: "string \<Rightarrow> pydict list" where
  "mode_errors mode =
     (if py_lower mode \<in> set topology_modes then []
      else [topo_issue ''INVALID_MODE''
              [(''message'', PStr (''Unsupported topology mode '' @ mode @ ''.''))]])"

definition branch_errors :: "string \<Rightarrow> int list list \<Rightarrow> pydict list" where
  "branch_errors mode branches =
     (if branches = [] \<and> mode \<noteq> topology_mode_value TM_MANUAL
      then [topo_issue ''NO_BRANCHES''
              [(''message'', PStr ''At least one non-empty branch is required.'')]] else [])
     @ concat (map (\<lambda>(bi, b). if distinct b then []
                              else [topo_issue ''DUPLICATE_NODE_IN_BRANCH'' [(''branch'', PInt (int bi))]])
                 (enumerate 0 branches))"

definition relay_list_text :: "int list \<Rightarrow> string" where
  "relay_list_text is = py_repr (PList (map PInt is))"

definition branch_warnings :: "string \<Rightarrow> int \<Rightarrow> int list list \<Rightarrow> pydict list" where
  "branch_warnings mode relay_count branches =
     (let observed = concat branches;
          missing = filter (\<lambda>i. i \<notin> set observed) (int_range 1 (relay_count + 1));
          shared = sort (filter (\<lambda>i. count_list observed i > 1) (remdups observed))
      in (if missing = [] then []
          else [topo_issue ''UNASSIGNED_RELAYS''
                  [(''message'', PStr (''Relays not assigned to a path: '' @ relay_list_text missing @ ''.''))]])
         @ (if shared \<noteq> [] \<and> mode = topology_mode_value TM_PARALLEL
            then [topo_issue ''SHARED_PARALLEL_RELAYS''
                    [(''message'', PStr (''Parallel branches share relays '' @ relay_list_text shared
                                        @ ''; failure independence is reduced.''))]]
            else []))"

definition duplicate_edges :: "edge list \<Rightarrow> edge list" where
  "duplicate_edges edges = filter (\<lambda>e. count_list edges e > 1) (fold set_add edges [])"

definition edge_errors :: "string list \<Rightarrow> edge list \<Rightarrow> pydict list" where
  "edge_errors nodes edges =
     (if duplicate_edges edges = [] then []
      else [topo_issue ''DUPLICATE_EDGES'' [(''edges'', PList (map edge_value (duplicate_edges edges)))]])
     @ concat (map (\<lambda>e.
         (if fst e \<notin> set nodes \<or> snd e \<notin> set nodes
          then [topo_issue ''MISSING_ENDPOINT'' [(''edge'', edge_value e)]] else [])
         @ (if fst e = snd e then [topo_issue ''SELF_LOOP'' [(''edge'', edge_value e)]] else [])) edges)"

definition acyclic_modes :: "string list" where
  "acyclic_modes = map topology_mode_value [TM_CHAIN, TM_PARALLEL, TM_FOREST]"

definition cycle_errors :: "string \<Rightarrow> digraph \<Rightarrow> pydict list option" where
  "cycle_errors mode g =
     (if mode \<in> set acyclic_modes
      then map_option (\<lambda>cyclic. if cyclic
             then [topo_issue ''CYCLE_NOT_ALLOWED''
                     [(''message'', PStr (''Cycles are not allowed in '' @ mode @ '' mode.''))]]
             else []) (has_cycle g)
      else Some [])"

definition sink_errors :: "digraph \<Rightarrow> string \<Rightarrow> string list \<Rightarrow> pydict list" where
  "sink_errors g source sinks =
     map (\<lambda>s. topo_issue ''UNREACHABLE_SINK'' [(''sink'', PStr s)])
       (filter (\<lambda>s. s \<notin> set (reachable g source)) sinks)"

definition failure_errors :: "string list \<Rightarrow> edge list \<Rightarrow> pydict list" where
  "failure_errors failed edges =
     map (\<lambda>e. topo_issue ''FAILED_NODE_IN_ACTIVE_ROUTE'' [(''edge'', edge_value e)])
       (filter (\<lambda>e. fst e \<in> set failed \<or> snd e \<in> set failed) edges)"

section \<open>Positions\<close>

definition float_list :: "pyval \<Rightarrow> pyfloat list res" where
  "float_list v = bindR (ptuple v) (mapR py_float)"

definition coordinates_of :: "pyval \<Rightarrow> vec3 res" where
  "coordinates_of v =
     bindR (float_list v) (\<lambda>fs.
       case fs of
         [x, y, z] \<Rightarrow> if list_all is_finite fs then Inr (x, y, z) else Inl ValueError
       | _ \<Rightarrow> Inl ValueError)"

definition is_drone :: "string \<Rightarrow> bool" where
  "is_drone n = starts_with n ''drone_''"

definition position_errors :: "(pyfloat \<times> pyfloat) option \<Rightarrow> string \<times> pyval \<Rightarrow> pydict list" where
  "position_errors bounds item =
     (case coordinates_of (snd item) of
        Inl _ \<Rightarrow> [topo_issue ''INVALID_COORDINATE'' [(''node'', PStr (fst item))]]
      | Inr (x, y, z) \<Rightarrow>
          (case bounds of
             None \<Rightarrow> []
           | Some (lo, hi) \<Rightarrow>
               if is_drone (fst item) \<and> \<not> (fle lo z \<and> fle z hi)
               then [topo_issue ''ALTITUDE_VIOLATION''
                       [(''node'', PStr (fst item)), (''z_m'', PFloat z),
                        (''bounds_m'', PList [PFloat lo, PFloat hi])]]
               else []))"

definition separation_errors :: "pyfloat \<Rightarrow> string \<times> pyval \<Rightarrow> string \<times> pyval \<Rightarrow> pydict list" where
  "separation_errors minimum a b =
     (case (float_list (snd a), float_list (snd b)) of
        (Inr p, Inr q) \<Rightarrow>
          if length p = length q \<and> is_drone (fst a) \<and> is_drone (fst b) \<and> flt (fdist p q) minimum
          then [topo_issue ''MINIMUM_SEPARATION_VIOLATION''
                  [(''nodes'', PList [PStr (fst a), PStr (fst b)]), (''distance_m'', PFloat (fdist p q)),
                   (''threshold_m'', PFloat minimum)]]
          else []
      | _ \<Rightarrow> [])"

fun pair_errors :: "pyfloat \<Rightarrow> (string \<times> pyval) list \<Rightarrow> pydict list" where
  "pair_errors minimum [] = []"
| "pair_errors minimum (a # items) =
     concat (map (separation_errors minimum a) items) @ pair_errors minimum items"

definition physical_errors ::
  "(pyfloat \<times> pyfloat) option \<Rightarrow> pyfloat \<Rightarrow> (string \<times> pyval) list \<Rightarrow> pydict list" where
  "physical_errors bounds minimum positions =
     concat (map (position_errors bounds) positions) @ pair_errors minimum positions"

definition physical_codes :: "string list" where
  "physical_codes = [''INVALID_COORDINATE'', ''ALTITUDE_VIOLATION'', ''MINIMUM_SEPARATION_VIOLATION'']"

section \<open>The validation\<close>

definition validated_branches :: "topology_input \<Rightarrow> int list list" where
  "validated_branches t = sanitize_branches (ti_branches t) (max 0 (ti_relay_count t)) True"

definition validated_nodes :: "topology_input \<Rightarrow> string list" where
  "validated_nodes t = ti_source t # map drone_name (int_range 1 (max 0 (ti_relay_count t) + 1))"

definition validated_edges :: "topology_input \<Rightarrow> edge list" where
  "validated_edges t =
     (if normalized_mode (ti_mode t) = topology_mode_value TM_MANUAL \<and> truthy (ti_manual_edges t)
      then normalize_manual_edges (ti_manual_edges t)
      else branches_to_edges (validated_branches t) (ti_source t))"

definition validated_sinks :: "topology_input \<Rightarrow> string list" where
  "validated_sinks t =
     (if ti_sinks t \<noteq> [] then ti_sinks t
      else case validated_branches t of [] \<Rightarrow> [] | b # _ \<Rightarrow> [drone_name (last b)])"

definition structure_errors :: "topology_input \<Rightarrow> pydict list option" where
  "structure_errors t =
     (let mode = normalized_mode (ti_mode t); branches = validated_branches t;
          nodes = validated_nodes t; edges = validated_edges t;
          g = adjacency nodes edges True
      in map_option (\<lambda>cycles.
           mode_errors (ti_mode t) @ branch_errors mode branches @ edge_errors nodes edges @ cycles
           @ sink_errors g (ti_source t) (validated_sinks t)
           @ failure_errors (ti_failed_nodes t) edges) (cycle_errors mode g))"

definition blocked_edges :: "topology_input \<Rightarrow> edge list" where
  "blocked_edges t =
     (case ti_link_feasibility t of
        None \<Rightarrow> []
      | Some f \<Rightarrow> filter (\<lambda>e. map_of f e \<noteq> Some True) (validated_edges t))"

definition validate_topology :: "eigensolver \<Rightarrow> topology_input \<Rightarrow> topology_validation run" where
  "validate_topology eig t =
     (let mode = normalized_mode (ti_mode t); branches = validated_branches t;
          nodes = validated_nodes t; edges = validated_edges t;
          physical = physical_errors (ti_altitude_bounds_m t) (ti_minimum_separation_m t) (ti_positions t);
          blocked = blocked_edges t
      in case structure_errors t of
           None \<Rightarrow> None
         | Some structural \<Rightarrow>
             (let errors = structural @ physical;
                  warnings = branch_warnings mode (max 0 (ti_relay_count t)) branches
                    @ (if blocked = [] then []
                       else [topo_issue ''INFEASIBLE_EDGES'' [(''edges'', PList (map edge_value blocked))]]);
                  physically_valid = (physical = []);
                  feasible = (if ti_link_feasibility t = None then None else Some (blocked = []));
                  structurally_valid =
                    (filter (\<lambda>e. topo_issue_code e \<notin> PStr ` set physical_codes) errors = [])
              in bindT (topology_metrics eig nodes edges (ti_source t) (validated_sinks t)) (\<lambda>m.
                   Some (Inr
                     \<lparr>tv_structurally_valid = structurally_valid, tv_physically_valid = physically_valid,
                      tv_communication_feasible = feasible,
                      tv_operational =
                        (structurally_valid \<and> physically_valid \<and> feasible \<noteq> Some False),
                      tv_errors = errors, tv_warnings = warnings, tv_metrics = m, tv_mode = mode,
                      tv_branches = branches, tv_edges = edges\<rparr>))))"

end
