(* ===== verification/Config_Topology.thy ===== *)
theory Config_Topology
  imports Link_Preview Topology_Validation
begin

text \<open>
  \<open>validate_config_topology\<close> of \<open>netlab/topology.py\<close>: the topology of a versioned experiment is read out of
  its sections, validated, and judged link by link with the analytical model. The readings during the
  \<open>i\<close>-th edge are \<open>pe_link i\<close>; the text of the exception that ends the preview is \<open>pe_text i\<close>, where \<open>i\<close>
  is the number of the edge it ended at.
\<close>

section \<open>Reading the sections\<close>

definition is_sequence :: "pyval \<Rightarrow> bool" where
  "is_sequence v = (case v of PList _ \<Rightarrow> True | PStr _ \<Rightarrow> True | _ \<Rightarrow> False)"

definition station_id :: "pydict \<Rightarrow> string" where
  "station_id station = py_str (dget station ''id'' (PStr ''station''))"

text \<open>\<open>str(item.get("id", f"drone_{item.get('index', '')}"))\<close>.\<close>

definition drone_id :: "pydict \<Rightarrow> string" where
  "drone_id item =
     py_str (dget item ''id'' (PStr (''drone_'' @ py_str (dget item ''index'' (PStr '''')))))"

definition listed_drones :: "pydict \<Rightarrow> pydict list" where
  "listed_drones swarm = map as_dict (filter is_mapping (as_list (dget swarm ''drones'' PNone)))"

definition config_positions :: "pydict \<Rightarrow> pydict \<Rightarrow> pydict" where
  "config_positions station swarm =
     fold (\<lambda>item d. if is_sequence (dget item ''position'' PNone)
                    then dset (drone_id item) (dget item ''position'' PNone) d else d)
       (listed_drones swarm)
       (if is_sequence (dget station ''position'' PNone)
        then [(station_id station, dget station ''position'' PNone)] else [])"

definition config_failed_nodes :: "pydict \<Rightarrow> string list res" where
  "config_failed_nodes swarm =
     bindR (ptuple (dget swarm ''drones'' (PList []))) (\<lambda>items.
       Inr (map (\<lambda>item. py_str (dget (as_dict item) ''id'' PNone))
              (filter (\<lambda>item. is_mapping item \<and> truthy (dget (as_dict item) ''failed'' PNone)) items)))"

definition config_topology_input ::
  "pydict \<Rightarrow> (edge \<times> bool) list option \<Rightarrow> topology_input res" where
  "config_topology_input config link_feasibility =
     (let swarm = mapping_section config ''swarm''; topology = mapping_section config ''topology'';
          region = mapping_section config ''service_region''; station = mapping_section config ''station''
      in bindR (config_failed_nodes swarm) (\<lambda>failed.
         bindR (py_int (dget swarm ''relay_count'' (dget swarm ''drone_count'' (PInt 0)))) (\<lambda>relay_count.
         bindR (fget swarm ''minimum_separation_m'' 0) (\<lambda>separation.
         bindR (fget region ''min_altitude_m'' (- 1000000000)) (\<lambda>low.
         bindR (fget region ''max_altitude_m'' 1000000000) (\<lambda>high.
           Inr \<lparr>ti_mode = py_str (dget topology ''mode'' (PStr ''chain'')),
                ti_relay_count = relay_count, ti_branches = dget topology ''branches'' (PList []),
                ti_manual_edges = dget topology ''manual_edges'' (PList []),
                ti_positions = config_positions station swarm,
                ti_source = py_str (dget topology ''source'' (dget station ''id'' (PStr ''station''))),
                ti_sinks = map py_str (as_list (dget topology ''sinks'' PNone)),
                ti_failed_nodes = failed, ti_minimum_separation_m = separation,
                ti_altitude_bounds_m = Some (low, high), ti_link_feasibility = link_feasibility\<rparr>))))))"

section \<open>The preview\<close>

record flags_table =
  ft_active :: "(string \<times> bool) list"
  ft_failed :: "(string \<times> bool) list"

definition config_flags :: "pydict \<Rightarrow> pydict \<Rightarrow> flags_table" where
  "config_flags station swarm =
     fold (\<lambda>item t.
         \<lparr>ft_active = AList.update (drone_id item) (truthy (dget item ''active'' (PBool True))) (ft_active t),
          ft_failed = AList.update (drone_id item) (truthy (dget item ''failed'' (PBool False))) (ft_failed t)\<rparr>)
       (listed_drones swarm)
       \<lparr>ft_active = [(station_id station, truthy (dget station ''active'' (PBool True)))],
        ft_failed = [(station_id station, False)]\<rparr>"

definition flag_of :: "(string \<times> bool) list \<Rightarrow> string \<Rightarrow> bool" where
  "flag_of table name = (map_of table name = Some True)"

definition preview_mapping ::
  "pydict \<Rightarrow> pydict \<Rightarrow> pydict \<Rightarrow> pydict \<Rightarrow> pydict \<Rightarrow> edge \<Rightarrow> pydict res" where
  "preview_mapping config communication positions source_antenna destination_antenna e =
     bindR (dget_item positions (fst e)) (\<lambda>tx.
     bindR (dget_item positions (snd e)) (\<lambda>rx.
     bindR (pget (py_or (dget config ''experiment'' (PDict [])) (PDict [])) ''seed'' (PInt 0)) (\<lambda>seed.
     (let setting = (\<lambda>key dflt. dget communication key (PFloat (Fin dflt)))
      in Inr
        [(''src'', PStr (fst e)), (''dst'', PStr (snd e)), (''tx_position'', tx), (''rx_position'', rx),
         (''frequency_hz'', setting ''carrier_frequency_hz'' 3500000000),
         (''bandwidth_hz'', setting ''bandwidth_hz'' 20000000),
         (''tx_power_dbm'', setting ''tx_power_dbm'' 23),
         (''receiver_noise_figure_db'', setting ''receiver_noise_figure_db'' 7),
         (''implementation_loss_db'', setting ''implementation_loss_db'' 2),
         (''tx_gain_dbi'', dget source_antenna ''gain_dbi'' (PFloat (Fin 0))),
         (''rx_gain_dbi'', dget destination_antenna ''gain_dbi'' (PFloat (Fin 0))),
         (''tx_cable_loss_db'', dget source_antenna ''cable_loss_db'' (PFloat (Fin 0))),
         (''rx_cable_loss_db'', dget destination_antenna ''cable_loss_db'' (PFloat (Fin 0))),
         (''path_loss_exponent'', setting ''path_loss_exponent'' 2),
         (''shadowing_sigma_db'', setting ''shadowing_sigma_db'' 0),
         (''interference_margin_db'', setting ''interference_margin_db'' 0),
         (''spectral_efficiency_factor'', setting ''spectral_efficiency_factor'' (3 / 4)),
         (''model'', dget communication ''fallback_model'' (PStr ''free_space'')),
         (''seed'', seed)]))))"

record config_tables =
  cf_config :: pydict
  cf_communication :: pydict
  cf_definitions :: pydict
  cf_assignments :: pydict
  cf_positions :: pydict
  cf_flags :: flags_table

record judged_link =
  jl_edge :: edge
  jl_metrics :: link_metrics
  jl_decision :: feasibility_decision
  jl_printed_at :: time

definition judged_as_dict :: "judged_link \<Rightarrow> pydict" where
  "judged_as_dict j =
     [(''source'', PStr ''PREVIEW''), (''fidelity'', PStr ''F1_ANALYTICAL''),
      (''src'', PStr (fst (jl_edge j))), (''dst'', PStr (snd (jl_edge j))),
      (''metrics'', PDict (metrics_as_dict (jl_printed_at j) (jl_metrics j))),
      (''decision'', PDict (decision_as_dict (jl_decision j)))]"

definition config_antenna :: "config_tables \<Rightarrow> string \<Rightarrow> pydict" where
  "config_antenna t name =
     as_dict (dget (cf_definitions t) (py_str (dget (cf_assignments t) name (PStr ''''))) (PDict []))"

definition judge_edge :: "preview_env \<Rightarrow> config_tables \<Rightarrow> nat \<Rightarrow> edge \<Rightarrow> judged_link res" where
  "judge_edge w t i e =
     bindR (preview_mapping (cf_config t) (cf_communication t) (cf_positions t)
              (config_antenna t (fst e)) (config_antenna t (snd e)) e) (\<lambda>payload.
     bindR (request_from_mapping payload) (\<lambda>r.
     bindR (compute_analytical_link (pe_libm w) (pe_link w i) r) (\<lambda>m.
     bindR (read_limits (cf_communication t)) (\<lambda>l.
     (let active = ft_active (cf_flags t); failed = ft_failed (cf_flags t)
      in Inr \<lparr>jl_edge = e, jl_metrics = m,
              jl_decision = evaluate_feasibility (le_decision_at (pe_link w i)) (Some m)
                 \<lparr>ge_source_active = flag_of active (fst e), ge_destination_active = flag_of active (snd e),
                  ge_source_failed = flag_of failed (fst e), ge_destination_failed = flag_of failed (snd e)\<rparr> l,
              jl_printed_at = le_printed_at (pe_link w i)\<rparr>)))))"

text \<open>The loop stops at the first exception; the links judged before it stay.\<close>

fun judge_edges ::
  "preview_env \<Rightarrow> config_tables \<Rightarrow> nat \<Rightarrow> edge list \<Rightarrow> judged_link list \<times> (nat \<times> pyexc) option" where
  "judge_edges w t i [] = ([], None)"
| "judge_edges w t i (e # edges) =
     (if fst e \<notin> fst ` set (cf_positions t) \<or> snd e \<notin> fst ` set (cf_positions t)
      then judge_edges w t (i + 1) edges
      else case judge_edge w t i e of
          Inl exc \<Rightarrow> ([], Some (i, exc))
        | Inr j \<Rightarrow> (case judge_edges w t (i + 1) edges of (js, stop) \<Rightarrow> (j # js, stop)))"

definition config_preview ::
  "preview_env \<Rightarrow> pydict \<Rightarrow> edge list \<Rightarrow> judged_link list \<times> (nat \<times> pyexc) option" where
  "config_preview w config edges =
     (let swarm = mapping_section config ''swarm''; station = mapping_section config ''station'';
          antennas = mapping_section config ''antennas''
      in case ptuple (dget antennas ''definitions'' (PList [])) of
           Inl exc \<Rightarrow> ([], Some (0, exc))
         | Inr items \<Rightarrow>
             judge_edges w
               \<lparr>cf_config = config, cf_communication = mapping_section config ''communication'',
                cf_definitions = by_id items [], cf_assignments = mapping_section antennas ''assignments'',
                cf_positions = config_positions station swarm, cf_flags = config_flags station swarm\<rparr>
               0 edges)"

section \<open>The payload\<close>

record config_topology =
  ct_validation :: topology_validation
  ct_nodes :: "string list"
  ct_link_preview :: "pydict list"

definition preview_warning :: "preview_env \<Rightarrow> (nat \<times> pyexc) option \<Rightarrow> pydict list" where
  "preview_warning w stop =
     (case stop of
        None \<Rightarrow> []
      | Some (i, exc) \<Rightarrow> [topo_issue ''LINK_PREVIEW_UNAVAILABLE'' [(''message'', PStr (pe_text w i exc))]])"

text \<open>When links were judged, their verdicts replace the ones of the validation.\<close>

definition with_preview :: "judged_link list \<Rightarrow> topology_validation \<Rightarrow> topology_validation" where
  "with_preview js v =
     (if js = [] then v
      else let feasible = list_all (\<lambda>j. fd_feasible (jl_decision j)) js
           in v\<lparr>tv_communication_feasible := Some feasible,
                tv_operational := (tv_structurally_valid v \<and> tv_physically_valid v \<and> feasible)\<rparr>)"

definition validate_config_topology ::
  "preview_env \<Rightarrow> eigensolver \<Rightarrow> pydict \<Rightarrow> (edge \<times> bool) list option \<Rightarrow> config_topology run" where
  "validate_config_topology w eig config link_feasibility =
     bindT (Some (config_topology_input config link_feasibility)) (\<lambda>t.
     bindT (validate_topology eig t) (\<lambda>v.
     (case config_preview w config (tv_edges v) of
        (js, stop) \<Rightarrow>
          Some (Inr
            \<lparr>ct_validation = with_preview js (v\<lparr>tv_warnings := tv_warnings v @ preview_warning w stop\<rparr>),
             ct_nodes = map fst (ti_positions t), ct_link_preview = map judged_as_dict js\<rparr>))))"

end
