(* ===== verification/Flow_Props.thy ===== *)
theory Flow_Props
  imports Graph_Flow
begin

text \<open>
  Correctness of \<open>_max_flow\<close>: the value returned is the capacity of a minimal cut. The residual graph
  keeps the sum of the flow and the capacity of any cut constant (\<open>push_path_cut\<close>), the search for an
  augmenting path leaves a closed set when it fails (\<open>parent_loop_ok\<close>), and the capacity that leaves the
  source decreases with every augmentation, so the loop ends (\<open>flow_loop_returns\<close>).
\<close>

section \<open>Residual capacities\<close>

definition distinct_caps :: "capacities \<Rightarrow> bool" where
  "distinct_caps c = distinct (dict_keys c)"

text \<open>The capacity of the edges that leave a set of nodes.\<close>

definition cut_cap :: "capacities \<Rightarrow> string set \<Rightarrow> int" where
  "cut_cap c S = (\<Sum>(e, x)\<leftarrow>c. if fst e \<in> S \<and> snd e \<notin> S then x else 0)"

definition leaves :: "string set \<Rightarrow> edge \<Rightarrow> int" where
  "leaves S e = (if fst e \<in> S \<and> snd e \<notin> S then 1 else 0)"

lemma cap_at_update: "cap_at (AList.update k x c) e = (if e = k then x else cap_at c e)"
  by (simp add: cap_at_def update_conv')

lemma cut_alt: "cut_cap c S = (\<Sum>(e, x)\<leftarrow>c. leaves S e * x)"
  by (simp add: cut_cap_def leaves_def split_def if_distrib [of "\<lambda>y. y * _"] cong: if_cong)

lemma cap_at_no_key: "k \<notin> set (dict_keys c) \<Longrightarrow> cap_at c k = 0"
  by (auto simp: cap_at_def set_dict_keys dom_def split: option.splits)

lemma cut_update:
  "distinct_caps c \<Longrightarrow> cut_cap (AList.update k x c) S = cut_cap c S + leaves S k * (x - cap_at c k)"
proof (induction c)
  case Nil
  then show ?case by (simp add: cut_alt cap_at_def)
next
  case (Cons a c)
  obtain e y where a: "a = (e, y)" by (cases a)
  show ?case
  proof (cases "e = k")
    case True
    then show ?thesis by (simp add: cut_alt a cap_at_def algebra_simps)
  next
    case False
    with Cons show ?thesis by (simp add: cut_alt a cap_at_def distinct_caps_def)
  qed
qed

lemma distinct_update: "distinct_caps c \<Longrightarrow> distinct_caps (AList.update k x c)"
  unfolding distinct_caps_def by (rule distinct_dict_keys_update)

lemma push_edge_cut:
  assumes "distinct_caps r"
  shows "cut_cap (push_edge inc (u, v) r) S
      = cut_cap r S - inc * ((if u \<in> S then 1 else 0) - (if v \<in> S then 1 else 0))"
    and "distinct_caps (push_edge inc (u, v) r)"
proof -
  let ?r1 = "AList.update (u, v) (cap_at r (u, v) - inc) r"
  have d: "distinct_caps ?r1" by (rule distinct_update [OF assms])
  have step: "push_edge inc (u, v) r = AList.update (v, u) (cap_at ?r1 (v, u) + inc) ?r1"
    by (simp add: push_edge_def flip_def Let_def)
  show "distinct_caps (push_edge inc (u, v) r)" unfolding step by (rule distinct_update [OF d])
  have "cut_cap (push_edge inc (u, v) r) S = cut_cap r S - leaves S (u, v) * inc + leaves S (v, u) * inc"
    unfolding step cut_update [OF d] cut_update [OF assms] by simp
  then show "cut_cap (push_edge inc (u, v) r) S
      = cut_cap r S - inc * ((if u \<in> S then 1 else 0) - (if v \<in> S then 1 else 0))"
    by (cases "u \<in> S"; cases "v \<in> S") (simp_all add: leaves_def)
qed

lemma flip_flip [simp]: "flip (flip e) = e"
  by (simp add: flip_def)

lemma flip_eq: "flip e = f \<longleftrightarrow> e = flip f"
  by (metis flip_flip)

lemma push_edge_at:
  "cap_at (push_edge inc f r) e = cap_at r e - (if e = f then inc else 0) + (if flip e = f then inc else 0)"
  unfolding push_edge_def Let_def cap_at_update flip_eq by simp

lemma push_path_at:
  "cap_at (push_path inc path r) e =
     cap_at r e - inc * int (count (mset path) e) + inc * int (count (mset path) (flip e))"
proof (induction path arbitrary: r)
  case (Cons f path)
  have "cap_at (push_path inc (f # path) r) e = cap_at (push_edge inc f r) e
      - inc * int (count (mset path) e) + inc * int (count (mset path) (flip e))"
    using Cons.IH [of "push_edge inc f r"] by (simp add: push_path_def)
  then show ?case by (simp add: push_edge_at distrib_left)
qed (simp add: push_path_def)

text \<open>Edges that follow one another from the end back to the start.\<close>

fun backward :: "string \<Rightarrow> edge list \<Rightarrow> string \<Rightarrow> bool" where
  "backward s [] t = (s = t)"
| "backward s ((u, v) # path) t = (v = t \<and> backward s path u)"

lemma push_path_cut:
  "distinct_caps r \<Longrightarrow> backward s path t \<Longrightarrow>
   cut_cap (push_path inc path r) S = cut_cap r S - inc * ((if s \<in> S then 1 else 0) - (if t \<in> S then 1 else 0))
   \<and> distinct_caps (push_path inc path r)"
proof (induction path arbitrary: r t)
  case (Cons e path)
  obtain u where e: "e = (u, t)" and b: "backward s path u" using Cons.prems(2) by (cases e) auto
  have "push_path inc (e # path) r = push_path inc path (push_edge inc (u, t) r)"
    by (simp add: push_path_def e)
  with Cons.IH [OF push_edge_cut(2) [OF Cons.prems(1), of inc u t] b]
    push_edge_cut(1) [OF Cons.prems(1), of inc u t S]
  show ?case by (simp add: distrib_left right_diff_distrib)
qed (simp add: push_path_def)

section \<open>Parents\<close>

text \<open>Every node but the source has an older entry as its parent, over an edge with capacity left.\<close>

fun parents_ok :: "capacities \<Rightarrow> string \<Rightarrow> parents \<Rightarrow> bool" where
  "parents_ok r s [] = False"
| "parents_ok r s [(n, p)] = (n = s \<and> p = None)"
| "parents_ok r s ((n, p) # ps) =
     (n \<notin> set (dict_keys ps) \<and> parents_ok r s ps
      \<and> (case p of None \<Rightarrow> False | Some q \<Rightarrow> q \<in> set (dict_keys ps) \<and> cap_at r (q, n) > 0))"

lemma parents_ok_Cons:
  "ps \<noteq> [] \<Longrightarrow> parents_ok r s ((n, p) # ps) \<longleftrightarrow> n \<notin> set (dict_keys ps) \<and> parents_ok r s ps
      \<and> (case p of None \<Rightarrow> False | Some q \<Rightarrow> q \<in> set (dict_keys ps) \<and> cap_at r (q, n) > 0)"
  by (cases ps) auto

lemma parents_ok_nonempty: "parents_ok r s ps \<Longrightarrow> ps \<noteq> []"
  by (cases ps) auto

lemma trace_path_ok:
  assumes "parents_ok r s ps" and "n \<in> set (dict_keys ps)"
  shows "backward s (trace_path ps n) n \<and> (\<forall>e\<in>set (trace_path ps n). cap_at r e > 0)
    \<and> set (map snd (trace_path ps n)) \<subseteq> set (dict_keys ps) \<and> distinct (map snd (trace_path ps n))"
  using assms
proof (induction ps arbitrary: n)
  case (Cons a ps)
  obtain m p where a: "a = (m, p)" by (cases a)
  show ?case
  proof (cases "ps = []")
    case True
    with Cons.prems a show ?thesis by simp
  next
    case False
    with Cons.prems a have ok: "m \<notin> set (dict_keys ps)" "parents_ok r s ps"
      "case p of None \<Rightarrow> False | Some q \<Rightarrow> q \<in> set (dict_keys ps) \<and> cap_at r (q, m) > 0"
      by (simp_all add: parents_ok_Cons)
    show ?thesis
    proof (cases "m = n")
      case True
      from ok(3) obtain q where q: "p = Some q" "q \<in> set (dict_keys ps)" "cap_at r (q, m) > 0"
        by (auto split: option.splits)
      from Cons.IH [OF ok(2) q(2)] ok(1) q True a show ?thesis by auto
    next
      case False
      with Cons.prems(2) a have "n \<in> set (dict_keys ps)" by simp
      from Cons.IH [OF ok(2) this] False a show ?thesis by auto
    qed
  qed
qed simp

text \<open>What the search for an augmenting path guarantees.\<close>

definition search_ok :: "capacities \<Rightarrow> string \<Rightarrow> string list \<Rightarrow> parents \<Rightarrow> bool" where
  "search_ok r s queue ps \<longleftrightarrow>
     parents_ok r s ps \<and> set queue \<subseteq> set (dict_keys ps)
     \<and> (\<forall>u v. u \<in> set (dict_keys ps) - set queue \<longrightarrow> cap_at r (u, v) > 0 \<longrightarrow> v \<in> set (dict_keys ps))"

lemma visit_residual_fold:
  assumes "distinct_caps r" "set xs \<subseteq> set r" "parents_ok r s ps" "set queue \<subseteq> set (dict_keys ps)"
    "node \<in> set (dict_keys ps)" "fold (visit_residual node) xs (queue, ps) = (queue', ps')"
  shows "parents_ok r s ps' \<and> set queue' \<subseteq> set (dict_keys ps')
    \<and> set (dict_keys ps) - set queue = set (dict_keys ps') - set queue' 
    \<and> set (dict_keys ps) \<subseteq> set (dict_keys ps')
    \<and> (\<forall>v c. ((node, v), c) \<in> set xs \<longrightarrow> c > 0 \<longrightarrow> v \<in> set (dict_keys ps'))"
  using assms(2-6)
proof (induction xs arbitrary: queue ps)
  case (Cons a xs)
  obtain u v c where a: "a = ((u, v), c)" by (metis surj_pair)
  show ?case
  proof (cases "u = node \<and> c > 0 \<and> v \<notin> set (dict_keys ps)")
    case True
    have "cap_at r (node, v) = c"
      using assms(1) Cons.prems(1) a True
      by (auto simp: cap_at_def distinct_caps_def dict_keys_def)
    with True Cons.prems parents_ok_nonempty [OF Cons.prems(2)]
    have "parents_ok r s ((v, Some node) # ps)" by (simp add: parents_ok_Cons)
    then have ih: "parents_ok r s ps' \<and> set queue' \<subseteq> set (dict_keys ps')
        \<and> set (dict_keys ((v, Some node) # ps)) - set (queue @ [v]) = set (dict_keys ps') - set queue'
        \<and> set (dict_keys ((v, Some node) # ps)) \<subseteq> set (dict_keys ps')
        \<and> (\<forall>v c. ((node, v), c) \<in> set xs \<longrightarrow> c > 0 \<longrightarrow> v \<in> set (dict_keys ps'))"
      using Cons.prems True a by (intro Cons.IH) (auto simp: visit_residual_def)
    moreover have "set (dict_keys ((v, Some node) # ps)) - set (queue @ [v]) = set (dict_keys ps) - set queue"
      using True by auto
    ultimately show ?thesis using a by auto
  next
    case False
    with Cons.IH [of ps queue] Cons.prems a show ?thesis by (auto simp: visit_residual_def)
  qed
qed auto

lemma parent_loop_ok:
  assumes "distinct_caps r" and "search_ok r s queue ps"
  shows "parents_ok r s (parent_loop r t queue ps)
    \<and> (t \<notin> set (dict_keys (parent_loop r t queue ps)) \<longrightarrow> search_ok r s [] (parent_loop r t queue ps))"
  using assms
proof (induction r t queue ps rule: parent_loop.induct)
  case (1 r t ps)
  then show ?case by (simp add: search_ok_def)
next
  case (2 r t node queue ps)
  show ?case
  proof (cases "t \<in> set (dict_keys ps)")
    case True
    with 2 show ?thesis by (simp add: search_ok_def)
  next
    case False
    obtain queue' ps' where f: "fold (visit_residual node) r (queue, ps) = (queue', ps')"
      by (cases "fold (visit_residual node) r (queue, ps)")
    from 2(3) have pre: "parents_ok r s ps" "set queue \<subseteq> set (dict_keys ps)" "node \<in> set (dict_keys ps)"
      and closed: "\<And>u v. u \<in> set (dict_keys ps) - set (node # queue) \<Longrightarrow> cap_at r (u, v) > 0 \<Longrightarrow> v \<in> set (dict_keys ps)"
      by (auto simp: search_ok_def)
    from visit_residual_fold [OF 2(2) subset_refl pre f]
    have out: "parents_ok r s ps'" "set queue' \<subseteq> set (dict_keys ps')"
      "set (dict_keys ps) - set queue = set (dict_keys ps') - set queue'"
      "set (dict_keys ps) \<subseteq> set (dict_keys ps')"
      and nbr: "\<And>v c. ((node, v), c) \<in> set r \<Longrightarrow> c > 0 \<Longrightarrow> v \<in> set (dict_keys ps')" by auto
    have "v \<in> set (dict_keys ps')" if "u \<in> set (dict_keys ps') - set queue'" "cap_at r (u, v) > 0" for u v
    proof (cases "u = node")
      case True
      from that(2) have "map_of r (u, v) = Some (cap_at r (u, v))"
        by (auto simp: cap_at_def split: option.splits)
      with that(2) True nbr show ?thesis by (auto dest: map_of_SomeD)
    next
      case False
      with that out(3) have "u \<in> set (dict_keys ps) - set (node # queue)" by auto
      with closed [OF this that(2)] out(4) show ?thesis by auto
    qed
    with out have "search_ok r s queue' ps'" by (auto simp: search_ok_def)
    with 2(1) [OF False f [symmetric] 2(2)] False f show ?thesis by simp
  qed
qed

lemma search_start: "search_ok r s [s] [(s, None)]"
  by (simp add: search_ok_def)

section \<open>Maximal flow and minimal cut\<close>

definition nonneg_caps :: "capacities \<Rightarrow> bool" where
  "nonneg_caps r = (\<forall>e. cap_at r e \<ge> 0)"

lemma cut_nonneg:
  assumes "distinct_caps r" "nonneg_caps r"
  shows "cut_cap r S \<ge> 0"
proof -
  have "x \<ge> 0" if "(e, x) \<in> set r" for e x
  proof -
    have "cap_at r e = x" using assms(1) that by (simp add: cap_at_def distinct_caps_def dict_keys_def)
    with assms(2) show ?thesis unfolding nonneg_caps_def by metis
  qed
  then show ?thesis unfolding cut_alt leaves_def by (intro sum_list_nonneg) auto
qed

lemma cut_closed:
  assumes "distinct_caps r" "nonneg_caps r"
    and "\<And>u v. u \<in> S \<Longrightarrow> cap_at r (u, v) > 0 \<Longrightarrow> v \<in> S"
  shows "cut_cap r S = 0"
proof -
  have "leaves S e * x = 0" if "(e, x) \<in> set r" for e x
  proof (cases e)
    case (Pair u v)
    have "cap_at r e = x" using assms(1) that by (simp add: cap_at_def distinct_caps_def dict_keys_def)
    moreover have "cap_at r e \<ge> 0" using assms(2) unfolding nonneg_caps_def by blast
    ultimately show ?thesis using assms(3) [of u v] Pair
      by (cases "cap_at r (u, v) > 0") (auto simp: leaves_def)
  qed
  then have eq: "map (\<lambda>(e, x). leaves S e * x) r = map (\<lambda>_. 0) r" by (intro map_cong) auto
  show ?thesis unfolding cut_alt eq by (rule sum_list_0)
qed

lemma bottleneck_bounds:
  assumes "\<forall>e\<in>set path. cap_at r e > 0"
  shows "bottleneck r path \<ge> 1 \<and> (\<forall>e\<in>set path. bottleneck r path \<le> cap_at r e)"
proof -
  have "foldl (\<lambda>m e. min m (cap_at r e)) m path \<ge> 1 \<and> foldl (\<lambda>m e. min m (cap_at r e)) m path \<le> m
      \<and> (\<forall>e\<in>set path. foldl (\<lambda>m e. min m (cap_at r e)) m path \<le> cap_at r e)" if "m \<ge> 1" for m
    using assms that
  proof (induction path arbitrary: m)
    case (Cons e path)
    from Cons.prems have "min m (cap_at r e) \<ge> 1" "\<forall>e\<in>set path. cap_at r e > 0" by auto
    from Cons.IH [OF this(2,1)] show ?case by auto
  qed simp
  from this [of 1000000000] show ?thesis by (simp add: bottleneck_def)
qed

lemma augment_ok:
  assumes r: "distinct_caps r" "nonneg_caps r" and t: "t \<in> set (dict_keys ps)" and ps: "parents_ok r s ps"
    and "path = trace_path ps t" "inc = bottleneck r path" "s \<in> S" "t \<notin> S"
  shows "distinct_caps (push_path inc path r) \<and> nonneg_caps (push_path inc path r) \<and> inc \<ge> 1
    \<and> cut_cap (push_path inc path r) S = cut_cap r S - inc"
proof -
  from trace_path_ok [OF ps t] assms(5) have path: "backward s path t" "\<forall>e\<in>set path. cap_at r e > 0"
    "distinct (map snd path)" by auto
  from bottleneck_bounds [OF path(2)] assms(6)
  have inc: "inc \<ge> 1" "\<And>e. e \<in> set path \<Longrightarrow> inc \<le> cap_at r e" by auto
  have "distinct path" using path(3) by (simp add: distinct_map)
  then have once: "count (mset path) e \<le> 1" for e
    using distinct_count_atmost_1 [of path]
    by (cases "e \<in> set path") (simp_all del: split_paired_All)
  have "cap_at (push_path inc path r) e \<ge> 0" for e
  proof -
    have rest: "inc * int (count (mset path) (flip e)) \<ge> 0" using inc(1) by simp
    show ?thesis
    proof (cases "e \<in> set path")
      case True
      with once [of e] have "count (mset path) e = 1"
        by (metis One_nat_def count_greater_zero_iff le_antisym less_eq_Suc_le set_mset_mset)
      with inc(2) [OF True] rest show ?thesis by (simp add: push_path_at)
    next
      case False
      then have none: "count (mset path) e = 0" by (simp add: count_eq_zero_iff)
      have "cap_at r e \<ge> 0" using r(2) unfolding nonneg_caps_def by blast
      with rest show ?thesis unfolding push_path_at none by simp
    qed
  qed
  with push_path_cut [OF r(1) path(1), of inc S] assms(7,8) inc(1)
  show ?thesis by (simp add: nonneg_caps_def)
qed

lemma parents_ok_source: "parents_ok r s ps \<Longrightarrow> s \<in> set (dict_keys ps)"
  by (induction r s ps rule: parents_ok.induct) auto

lemma flow_loop_returns:
  assumes "s \<noteq> t" "distinct_caps r" "nonneg_caps r"
  shows "\<exists>v. flow_loop s t r f = Some v
    \<and> (\<forall>S. s \<in> S \<longrightarrow> t \<notin> S \<longrightarrow> v \<le> f + cut_cap r S)
    \<and> (\<exists>S. s \<in> S \<and> t \<notin> S \<and> v = f + cut_cap r S)"
  using assms(2,3)
proof (induction "nat (cut_cap r {s})" arbitrary: r f rule: less_induct)
  case less
  define ps where "ps = parent_loop r t [s] [(s, None)]"
  from parent_loop_ok [OF less.prems(1) search_start, of s t]
  have ok: "parents_ok r s ps" and stop: "t \<notin> set (dict_keys ps) \<Longrightarrow> search_ok r s [] ps"
    by (simp_all add: ps_def)
  show ?case
  proof (cases "t \<in> set (dict_keys ps)")
    case False
    then have "flow_loop s t r f = Some f" by (simp add: flow_loop.simps [of s t r f] ps_def)
    moreover have "cut_cap r (set (dict_keys ps)) = 0"
      using stop [OF False] by (intro cut_closed less.prems) (auto simp: search_ok_def)
    ultimately show ?thesis
      using cut_nonneg [OF less.prems] parents_ok_source [OF ok] False by fastforce
  next
    case True
    define path inc where "path = trace_path ps t" and "inc = bottleneck r path"
    define r' where "r' = push_path inc path r"
    have step: "flow_loop s t r f = flow_loop s t r' (f + inc)"
      using True
      unfolding flow_loop.simps [of s t r f] ps_def [symmetric] Let_def path_def [symmetric]
        inc_def [symmetric] r'_def [symmetric] by simp
    note aug = augment_ok [OF less.prems True ok path_def inc_def, folded r'_def]
    from aug [of "{s}"] assms(1) have r': "distinct_caps r'" "nonneg_caps r'" "inc \<ge> 1"
      "cut_cap r' {s} = cut_cap r {s} - inc" by auto
    have "nat (cut_cap r' {s}) < nat (cut_cap r {s})"
      using r'(3,4) cut_nonneg [OF r'(1,2), of "{s}"] by linarith
    from less.hyps [OF this r'(1,2), of "f + inc"] obtain v
      where v: "flow_loop s t r' (f + inc) = Some v"
        "\<forall>S. s \<in> S \<longrightarrow> t \<notin> S \<longrightarrow> v \<le> f + inc + cut_cap r' S"
        "\<exists>S. s \<in> S \<and> t \<notin> S \<and> v = f + inc + cut_cap r' S" by blast
    have same: "f + inc + cut_cap r' S = f + cut_cap r S" if "s \<in> S" "t \<notin> S" for S
      using aug [OF that] by simp
    with v(2,3) have "\<forall>S. s \<in> S \<longrightarrow> t \<notin> S \<longrightarrow> v \<le> f + cut_cap r S"
      "\<exists>S. s \<in> S \<and> t \<notin> S \<and> v = f + cut_cap r S" by metis+
    with v(1) step show ?thesis by auto
  qed
qed

lemma flow_loop_diverges: "flow_loop s s r f = None"
proof -
  have key: "s \<noteq> t" if "flow_loop s t r f = Some v" for s t r f v
  proof (rule flow_loop.raw_induct [where P = "\<lambda>s t r f v. s \<noteq> t", OF _ that])
    fix loop s t r f v
    assume IH: "\<And>s t r f v. loop s t r f = Some v \<Longrightarrow> s \<noteq> t"
      and eq: "(let ps = parent_loop r t [s] [(s, None)]
        in if t \<notin> set (dict_keys ps) then Some f
           else let path = trace_path ps t; inc = bottleneck r path
                in loop s t (push_path inc path r) (f + inc)) = Some v"
    show "s \<noteq> t"
    proof
      assume "s = t"
      with eq have "loop s t (push_path 1000000000 [] r) (f + 1000000000) = Some v"
        by (simp add: Let_def bottleneck_def)
      from IH [OF this] \<open>s = t\<close> show False by simp
    qed
  qed
  then show ?thesis by (metis option.exhaust)
qed

section \<open>The residual graph at the start\<close>

lemma set_add_fold: "distinct acc \<Longrightarrow> distinct (fold set_add xs acc) \<and> set (fold set_add xs acc) = set acc \<union> set xs"
  by (induction xs arbitrary: acc) auto

lemma mset_grouped:
  assumes "distinct ks" "f ` set xs \<subseteq> set ks"
  shows "mset (concat (map (\<lambda>k. filter (\<lambda>x. f x = k) xs) ks)) = mset xs"
  using assms(2)
proof (induction xs)
  case Nil
  then show ?case by (induction ks) simp_all
next
  case (Cons x xs)
  have "mset (concat (map (\<lambda>k. filter (\<lambda>y. f y = k) (x # xs)) ks))
      = mset (concat (map (\<lambda>k. filter (\<lambda>y. f y = k) xs) ks)) + (if f x \<in> set ks then {#x#} else {#})"
    using assms(1) by (induction ks) auto
  with Cons show ?case by simp
qed

lemma mset_group_by_source: "mset (group_by_source c) = mset c"
proof -
  define ks where "ks = fold set_add (map (fst \<circ> fst) c) []"
  have "distinct ks \<and> set ks = set [] \<union> set (map (fst \<circ> fst) c)"
    unfolding ks_def by (rule set_add_fold) simp
  then have ks: "distinct ks" "(fst \<circ> fst) ` set c \<subseteq> set ks" by auto
  have "group_by_source c = concat (map (\<lambda>k. filter (\<lambda>a. (fst \<circ> fst) a = k) c) ks)"
    by (simp add: group_by_source_def ks_def [symmetric] case_prod_unfold)
  then show ?thesis by (simp only: mset_grouped [OF ks])
qed

lemma cut_mset: "mset c = mset d \<Longrightarrow> cut_cap c S = cut_cap d S"
  by (simp add: cut_cap_def sum_mset_sum_list [symmetric] del: sum_mset_sum_list)

lemma add_residual_step:
  assumes "distinct_caps r"
  shows "distinct_caps (add_residual (e, c) r)"
    and "cap_at (add_residual (e, c) r) d = (if d = e then c else cap_at r d)"
    and "cut_cap (add_residual (e, c) r) S = cut_cap r S + leaves S e * (c - cap_at r e)"
proof -
  let ?r1 = "AList.update e c r"
  have d: "distinct_caps ?r1" by (rule distinct_update [OF assms])
  have eq: "add_residual (e, c) r = (if map_of ?r1 (flip e) = None then ?r1 @ [(flip e, 0)] else ?r1)"
    by (cases e) (simp add: add_residual_def Let_def flip_def)
  have at: "cap_at (xs @ [(k, 0)]) b = cap_at xs b" for xs k b
    by (auto simp: cap_at_def map_add_def split: option.splits)
  show "distinct_caps (add_residual (e, c) r)"
    using d by (auto simp: eq distinct_caps_def dict_keys_def map_of_eq_None_iff)
  show "cap_at (add_residual (e, c) r) d = (if d = e then c else cap_at r d)"
    by (simp add: eq at cap_at_update)
  show "cut_cap (add_residual (e, c) r) S = cut_cap r S + leaves S e * (c - cap_at r e)"
    using cut_update [OF assms, of e c S] by (simp add: eq cut_alt)
qed

lemma add_residual_fold:
  assumes "distinct (map fst xs)" "distinct_caps r" "\<And>e. e \<in> set (map fst xs) \<Longrightarrow> cap_at r e = 0"
  shows "distinct_caps (fold add_residual xs r)
    \<and> cut_cap (fold add_residual xs r) S = cut_cap r S + cut_cap xs S
    \<and> (nonneg_caps r \<longrightarrow> (\<forall>a\<in>set xs. snd a \<ge> 0) \<longrightarrow> nonneg_caps (fold add_residual xs r))"
  using assms
proof (induction xs arbitrary: r)
  case (Cons a xs)
  obtain e c where a: "a = (e, c)" by (cases a)
  note step = add_residual_step [OF Cons.prems(2), of e c]
  have "cap_at (add_residual (e, c) r) d = 0" if "d \<in> set (map fst xs)" for d
    using that Cons.prems(1,3) a by (auto simp: step(2))
  with Cons.IH [OF _ step(1)] Cons.prems(1) a
  have ih: "distinct_caps (fold add_residual xs (add_residual (e, c) r))
    \<and> cut_cap (fold add_residual xs (add_residual (e, c) r)) S = cut_cap (add_residual (e, c) r) S + cut_cap xs S
    \<and> (nonneg_caps (add_residual (e, c) r) \<longrightarrow> (\<forall>a\<in>set xs. snd a \<ge> 0)
        \<longrightarrow> nonneg_caps (fold add_residual xs (add_residual (e, c) r)))" by simp
  have "nonneg_caps (add_residual (e, c) r)" if "nonneg_caps r" "c \<ge> 0"
    using that unfolding nonneg_caps_def step(2) by simp
  with ih step(3) Cons.prems(3) [of e] a show ?case by (simp add: cut_alt)
qed (simp add: cut_alt)

lemma residual_of_ok:
  assumes "distinct_caps c" "\<And>e x. (e, x) \<in> set c \<Longrightarrow> x \<ge> 0"
  shows "distinct_caps (residual_of c) \<and> nonneg_caps (residual_of c) \<and> cut_cap (residual_of c) S = cut_cap c S"
proof -
  have m: "mset (group_by_source c) = mset c" by (rule mset_group_by_source)
  then have "mset (map fst (group_by_source c)) = mset (map fst c)" by simp
  then have "distinct (map fst (group_by_source c))"
    using assms(1) by (metis distinct_caps_def dict_keys_def mset_eq_imp_distinct_iff)
  moreover have "\<forall>a\<in>set (group_by_source c). snd a \<ge> 0"
    using assms(2) mset_eq_setD [OF m] by auto
  moreover have "distinct_caps []" "nonneg_caps []" "cap_at [] e = 0" for e
    by (simp_all add: distinct_caps_def nonneg_caps_def cap_at_def)
  ultimately show ?thesis
    using add_residual_fold [of "group_by_source c" "[]" S] cut_mset [OF m, of S]
    by (simp add: residual_of_def cut_alt)
qed

lemma max_flow_cut:
  assumes "s \<noteq> t" "distinct_caps c" "\<And>e x. (e, x) \<in> set c \<Longrightarrow> x \<ge> 0"
  shows "\<exists>v. max_flow c s t = Some v
    \<and> (\<forall>S. s \<in> S \<longrightarrow> t \<notin> S \<longrightarrow> v \<le> cut_cap c S) \<and> (\<exists>S. s \<in> S \<and> t \<notin> S \<and> v = cut_cap c S)"
  using flow_loop_returns [OF assms(1), of "residual_of c" 0] residual_of_ok [OF assms(2,3)]
  unfolding max_flow_def by auto

section \<open>Disjoint paths\<close>

definition crossing :: "edge list \<Rightarrow> string set \<Rightarrow> int" where
  "crossing edges S = int (length (filter (\<lambda>(u, v). u \<in> S \<and> v \<notin> S) edges))"

lemma edge_capacities_ok:
  "distinct_caps (edge_capacities edges) \<and> nonneg_caps (edge_capacities edges)
   \<and> cut_cap (edge_capacities edges) S = crossing edges S"
proof -
  have "distinct_caps (fold (\<lambda>e c. AList.update e (cap_at c e + 1) c) edges c)
      \<and> nonneg_caps (fold (\<lambda>e c. AList.update e (cap_at c e + 1) c) edges c)
      \<and> cut_cap (fold (\<lambda>e c. AList.update e (cap_at c e + 1) c) edges c) S = cut_cap c S + crossing edges S"
    if "distinct_caps c" "nonneg_caps c" for c
    using that
  proof (induction edges arbitrary: c)
    case (Cons e edges)
    let ?c = "AList.update e (cap_at c e + 1) c"
    have "nonneg_caps ?c" using Cons.prems(2) unfolding nonneg_caps_def cap_at_update by (auto simp: add_nonneg_nonneg)
    moreover have "crossing (e # edges) S = leaves S e + crossing edges S"
      by (simp add: crossing_def leaves_def case_prod_unfold)
    ultimately show ?case
      using Cons.IH [OF distinct_update [OF Cons.prems(1)], of e "cap_at c e + 1"]
        cut_update [OF Cons.prems(1), of e "cap_at c e + 1" S] by simp
  qed (simp add: crossing_def)
  from this [of "[]"] show ?thesis
    by (simp add: edge_capacities_def distinct_caps_def nonneg_caps_def cap_at_def cut_alt)
qed

lemma nonneg_entries:
  assumes "distinct_caps c" "nonneg_caps c" "(e, x) \<in> set c"
  shows "x \<ge> 0"
proof -
  have "cap_at c e = x" using assms(1,3) by (simp add: cap_at_def distinct_caps_def dict_keys_def)
  with assms(2) show ?thesis unfolding nonneg_caps_def by metis
qed

lemma edge_disjoint_cut:
  assumes "s \<noteq> t"
  shows "\<exists>k. edge_disjoint_count edges s t = Some k
    \<and> (\<forall>S. s \<in> S \<longrightarrow> t \<notin> S \<longrightarrow> k \<le> crossing edges S)
    \<and> (\<exists>S. s \<in> S \<and> t \<notin> S \<and> k = crossing edges S)"
proof -
  have ok: "distinct_caps (edge_capacities edges)" "nonneg_caps (edge_capacities edges)"
    "cut_cap (edge_capacities edges) S = crossing edges S" for S
    using edge_capacities_ok [of edges S] by simp_all
  show ?thesis
    using max_flow_cut [OF assms ok(1) nonneg_entries [OF ok(1,2)]]
    by (simp add: edge_disjoint_count_def ok(3))
qed

lemma edge_disjoint_self: "edge_disjoint_count edges s s = None"
  by (simp add: edge_disjoint_count_def max_flow_def flow_loop_diverges)

text \<open>C35: for two different nodes the count of edge-disjoint paths is returned, and it is the smallest number of edges, repeated edges counted each time, whose removal separates the sink from the source (Menger).\<close>

theorem edge_disjoint_count_min_cut:
  assumes "s \<noteq> t"
  shows "\<exists>k. edge_disjoint_count edges s t = Some k
    \<and> (\<forall>S. s \<in> S \<longrightarrow> t \<notin> S \<longrightarrow> k \<le> crossing edges S)
    \<and> (\<exists>S. s \<in> S \<and> t \<notin> S \<and> k = crossing edges S)"
  using assms by (rule edge_disjoint_cut)

lemma edge_disjoint_count_min_cut_witness:
  "edge_disjoint_count [(''a'', ''b''), (''b'', ''d''), (''a'', ''c''), (''c'', ''d'')] ''a'' ''d'' \<noteq> None"
  using edge_disjoint_count_min_cut
    [of "''a''" "''d''" "[(''a'', ''b''), (''b'', ''d''), (''a'', ''c''), (''c'', ''d'')]"] by auto

text \<open>Asked for the paths from a node to itself, the count never returns: the breadth-first search holds the sink from the start, so the loop adds the default increment forever.\<close>

theorem edge_disjoint_count_diverges: "edge_disjoint_count edges s s = None"
  by (rule edge_disjoint_self)

lemma update_all_ok:
  assumes "distinct_caps c" "nonneg_caps c" "\<And>x. x \<in> set xs \<Longrightarrow> w x \<ge> 0"
  shows "distinct_caps (fold (\<lambda>x. AList.update (k x) (w x)) xs c)
    \<and> nonneg_caps (fold (\<lambda>x. AList.update (k x) (w x)) xs c)"
  using assms
proof (induction xs arbitrary: c)
  case (Cons x xs)
  have "nonneg_caps (AList.update (k x) (w x) c)"
    using Cons.prems(2,3) unfolding nonneg_caps_def cap_at_update by auto
  with Cons.IH [OF distinct_update [OF Cons.prems(1)]] Cons.prems(3) show ?case by simp
qed simp

lemma node_disjoint_cut:
  "\<exists>k. node_disjoint_count nodes edges s t = Some k
    \<and> (\<nexists>S. node_in s \<in> S \<and> node_out t \<notin> S \<and> cut_cap (node_capacities nodes edges s t) S < k)
    \<and> (\<exists>S. node_in s \<in> S \<and> node_out t \<notin> S \<and> k = cut_cap (node_capacities nodes edges s t) S)"
proof -
  let ?c = "node_capacities nodes edges s t"
  have ends: "node_in s \<noteq> node_out t"
  proof
    assume "node_in s = node_out t"
    then have "last (node_in s) = last (node_out t)" by simp
    then show False by (simp add: node_in_def node_out_def)
  qed
  have start: "distinct_caps []" "nonneg_caps []"
    by (simp_all add: distinct_caps_def nonneg_caps_def cap_at_def)
  note nodes = update_all_ok [OF start, of nodes
      "\<lambda>n. if n \<in> set [s, t] then max 1 (int (length nodes)) else 1" "\<lambda>n. (node_in n, node_out n)"]
  have "distinct_caps ?c \<and> nonneg_caps ?c"
    unfolding node_capacities_def Let_def case_prod_unfold
    by (rule update_all_ok [OF nodes [THEN conjunct1] nodes [THEN conjunct2]]) (simp_all add: le_max_iff_disj)
  then have ok: "distinct_caps ?c" "nonneg_caps ?c" by simp_all
  have entries: "x \<ge> 0" if "(e, x) \<in> set ?c" for e x by (rule nonneg_entries [OF ok that])
  have "\<exists>k. max_flow ?c (node_in s) (node_out t) = Some k
      \<and> (\<forall>S. node_in s \<in> S \<longrightarrow> node_out t \<notin> S \<longrightarrow> k \<le> cut_cap ?c S)
      \<and> (\<exists>S. node_in s \<in> S \<and> node_out t \<notin> S \<and> k = cut_cap ?c S)"
    by (rule max_flow_cut [OF ends ok(1)]) (rule entries)
  then show ?thesis unfolding node_disjoint_count_def by (auto simp: not_less)
qed

lemma node_disjoint_some: "node_disjoint_count nodes edges s t \<noteq> None"
  using node_disjoint_cut [of nodes edges s t] by auto

text \<open>The count of node-disjoint paths is returned for every pair of nodes, equal or not, and is the capacity of a minimal cut of the graph in which every node is split into an entry and an exit.\<close>

theorem node_disjoint_count_min_cut:
  "\<exists>k. node_disjoint_count nodes edges s t = Some k
    \<and> (\<nexists>S. node_in s \<in> S \<and> node_out t \<notin> S \<and> cut_cap (node_capacities nodes edges s t) S < k)
    \<and> (\<exists>S. node_in s \<in> S \<and> node_out t \<notin> S \<and> k = cut_cap (node_capacities nodes edges s t) S)"
  by (rule node_disjoint_cut)

end
