(* ===== verification/Metrics_Props.thy ===== *)
theory Metrics_Props
  imports Graph_Metrics Flow_Props
begin

text \<open>
  The metrics always come back, with one exception: a sink equal to the source. The searches with low
  points and Brandes' loop never run out of the fuel they are given, no dictionary lookup fails,
  and no division is by zero. The path diversity is the number of simple paths, up to its limit.
\<close>

section \<open>Simple paths\<close>

text \<open>The simple paths from the top of a partial path to the sink that avoid what the path has seen.\<close>

definition completions :: "digraph \<Rightarrow> string \<Rightarrow> string \<Rightarrow> string set \<Rightarrow> string list set" where
  "completions g sink n seen =
     {p. p \<noteq> [] \<and> hd p = n \<and> last p = sink \<and> distinct p \<and> set (tl p) \<inter> seen = {}
         \<and> successively (\<lambda>u v. (u, v) \<in> arcs g) p}"

lemma walk_in_verts: "successively (\<lambda>u v. (u, v) \<in> arcs g) p \<Longrightarrow> set (tl p) \<subseteq> verts g"
proof (induction p)
  case (Cons a p)
  then show ?case using nbrs_verts [of g a] by (cases p) (auto simp: in_arcs)
qed simp

lemma finite_completions: "finite (completions g sink n seen)"
proof -
  have "completions g sink n seen \<subseteq> {p. set p \<subseteq> insert n (verts g) \<and> distinct p}"
  proof
    fix p assume "p \<in> completions g sink n seen"
    then show "p \<in> {p. set p \<subseteq> insert n (verts g) \<and> distinct p}"
      using walk_in_verts [of g p] by (cases p) (auto simp: completions_def)
  qed
  moreover have "finite {p. set p \<subseteq> insert n (verts g) \<and> distinct p}"
    by (rule finite_subset_distinct) simp
  ultimately show ?thesis by (rule finite_subset)
qed

lemma completions_sink: "completions g sink sink seen = {[sink]}"
proof -
  have "p = [sink]" if "p \<noteq> []" "hd p = sink" "last p = sink" "distinct p" for p
    using that by (cases p) (auto split: if_splits dest: last_in_set)
  then show ?thesis by (auto simp: completions_def)
qed

lemma completions_step:
  assumes "n \<noteq> sink" "n \<in> seen"
  shows "completions g sink n seen
    = (\<Union>v\<in>{v. (n, v) \<in> arcs g \<and> v \<notin> seen}. (#) n ` completions g sink v (insert v seen))"
proof (intro subset_antisym subsetI)
  fix p assume p: "p \<in> completions g sink n seen"
  then obtain q where q: "p = n # q" by (cases p) (auto simp: completions_def)
  with p assms(1) have "q \<noteq> []" by (auto simp: completions_def)
  then obtain v r where r: "q = v # r" by (cases q) auto
  from p q r have "(n, v) \<in> arcs g" "v \<notin> seen" "v # r \<in> completions g sink v (insert v seen)"
    by (auto simp: completions_def)
  with q r show "p \<in> (\<Union>v\<in>{v. (n, v) \<in> arcs g \<and> v \<notin> seen}. (#) n ` completions g sink v (insert v seen))"
    by blast
next
  fix p assume "p \<in> (\<Union>v\<in>{v. (n, v) \<in> arcs g \<and> v \<notin> seen}. (#) n ` completions g sink v (insert v seen))"
  then obtain v q where v: "(n, v) \<in> arcs g" "v \<notin> seen" "q \<in> completions g sink v (insert v seen)" "p = n # q"
    by blast
  then obtain r where "q = v # r" by (cases q) (auto simp: completions_def)
  with v assms(2) show "p \<in> completions g sink n seen" by (auto simp: completions_def)
qed

lemma card_completions_step:
  assumes "graph_ok g" "n \<noteq> sink" "n \<in> seen"
  shows "card (completions g sink n seen)
    = (\<Sum>v\<leftarrow>filter (\<lambda>v. v \<notin> seen) (nbrs g n). card (completions g sink v (insert v seen)))"
proof -
  let ?vs = "filter (\<lambda>v. v \<notin> seen) (nbrs g n)"
  have d: "distinct ?vs" using assms(1) by (simp add: graph_ok_iff)
  have set: "{v. (n, v) \<in> arcs g \<and> v \<notin> seen} = set ?vs" by (auto simp: in_arcs)
  have disj: "(#) n ` completions g sink u (insert u seen) \<inter> (#) n ` completions g sink v (insert v seen) = {}"
    if "u \<noteq> v" for u v using that by (auto simp: completions_def)
  have "card (completions g sink n seen) = (\<Sum>v\<in>set ?vs. card ((#) n ` completions g sink v (insert v seen)))"
    unfolding completions_step [OF assms(2,3)] set
    by (rule card_UN_disjoint) (use finite_completions disj in auto)
  also have "\<dots> = (\<Sum>v\<in>set ?vs. card (completions g sink v (insert v seen)))"
    by (intro sum.cong card_image) auto
  finally show ?thesis using d by (simp add: sum_list_distinct_conv_sum_set)
qed

lemma simple_path_loop_counts:
  assumes "graph_ok g" "found \<le> limit" "\<forall>(n, seen)\<in>set stack. n \<in> set seen"
  shows "simple_path_loop g sink limit stack found
    = min limit (found + (\<Sum>(n, seen)\<leftarrow>stack. card (completions g sink n (set seen))))"
  using assms
proof (induction g sink limit stack found rule: simple_path_loop.induct)
  case (2 g sink limit node seen stack found)
  show ?case
  proof (cases "found \<ge> limit")
    case True
    with 2 show ?thesis by simp
  next
    case False
    show ?thesis
    proof (cases "node = sink")
      case True
      with 2 False show ?thesis by (simp add: completions_sink)
    next
      case neq: False
      let ?new = "map (\<lambda>nxt. (nxt, seen @ [nxt])) (filter (\<lambda>nxt. nxt \<notin> set seen) (nbrs g node))"
      have "(\<Sum>(n, s)\<leftarrow>rev ?new. card (completions g sink n (set s))) = card (completions g sink node (set seen))"
        using card_completions_step [of g node sink "set seen"] neq 2(3,5)
        by (simp add: rev_map [symmetric] sum_list_rev o_def)
      moreover have "simple_path_loop g sink limit (rev ?new @ stack) found
          = min limit (found + (\<Sum>(n, s)\<leftarrow>rev ?new @ stack. card (completions g sink n (set s))))"
        by (rule 2(2) [OF False neq 2(3,4)]) (use 2(5) in auto)
      ultimately have "simple_path_loop g sink limit (rev ?new @ stack) found
          = min limit (found + (card (completions g sink node (set seen))
              + (\<Sum>(n, s)\<leftarrow>stack. card (completions g sink n (set s)))))"
        by (simp only: map_append sum_list_append)
      with False neq show ?thesis by simp
    qed
  qed
qed simp

text \<open>C36: the path diversity of a sink is the number of simple paths that lead from the source to it along the edges, or 1000 when there are more.\<close>

theorem path_diversity_counts:
  "simple_path_count (adjacency nodes edges True) s t
   = min 1000 (card {p. p \<noteq> [] \<and> hd p = s \<and> last p = t \<and> distinct p
                        \<and> successively (\<lambda>u v. (u, v) \<in> set edges) p})"
proof -
  have "completions (adjacency nodes edges True) t s {s}
      = {p. p \<noteq> [] \<and> hd p = s \<and> last p = t \<and> distinct p \<and> successively (\<lambda>u v. (u, v) \<in> set edges) p}"
  proof -
    have "set (tl p) \<inter> {s} = {}" if "p \<noteq> []" "hd p = s" "distinct p" for p
      using that by (cases p) auto
    then show ?thesis by (auto simp: completions_def adjacency_arcs)
  qed
  with simple_path_loop_counts [OF adjacency_ok, of 0 1000 "[(s, [s])]" nodes edges True t]
  show ?thesis by (simp add: simple_path_count_def)
qed

section \<open>The searches with low points return\<close>

definition unseen :: "digraph \<Rightarrow> low_state \<Rightarrow> string set" where
  "unseen g st = {n \<in> set (dict_keys g). ls_discovery st n = None}"

lemma finite_unseen [simp]: "finite (unseen g st)"
  by (simp add: unseen_def)

definition keeps_discovery :: "(string \<Rightarrow> string \<Rightarrow> nat \<Rightarrow> low_state \<Rightarrow> low_state) \<Rightarrow> bool" where
  "keeps_discovery hook \<longleftrightarrow> (\<forall>a b c st. ls_discovery (hook a b c st) = ls_discovery st)"

lemma low_search_returns:
  "keeps_discovery hook \<Longrightarrow> graph_ok g \<Longrightarrow> n \<in> unseen g st \<Longrightarrow> card (unseen g st) \<le> k \<Longrightarrow>
      \<exists>st'. low_dfs hook k g n st = Some st' \<and> unseen g st' \<subseteq> unseen g st"
  "keeps_discovery hook \<Longrightarrow> graph_ok g \<Longrightarrow> set xs \<subseteq> set (dict_keys g) \<Longrightarrow> card (unseen g st) \<le> k \<Longrightarrow>
      \<exists>st'. low_children hook k g n xs c st = Some st' \<and> unseen g st' \<subseteq> unseen g st"
proof (induction hook k g n st and hook k g n xs c st rule: low_dfs_low_children.induct)
  case (1 hook g node st)
  then show ?case by (auto simp: card_eq_0_iff)
next
  case (2 hook k g node st)
  let ?c = "Suc (ls_counter st)"
  let ?st = "st\<lparr>ls_counter := ?c, ls_discovery := (ls_discovery st)(node \<mapsto> ?c), ls_low := (ls_low st)(node \<mapsto> ?c)\<rparr>"
  have u: "unseen g ?st = unseen g st - {node}" by (auto simp: unseen_def)
  with 2(4,5) have "card (unseen g ?st) \<le> k" by simp
  moreover have "set (nbrs g node) \<subseteq> set (dict_keys g)" using 2(3) by (auto simp: graph_ok_iff in_arcs)
  ultimately obtain st' where "low_children hook k g node (nbrs g node) 0 ?st = Some st'"
    "unseen g st' \<subseteq> unseen g ?st" using 2(1) [OF refl 2(2,3)] by blast
  with u show ?case by (auto simp: Let_def)
next
  case (3 hook k g node children st)
  then show ?case by simp
next
  case (4 hook k g node nxt xs children st)
  have xs: "set xs \<subseteq> set (dict_keys g)" "nxt \<in> set (dict_keys g)" using 4(7) by auto
  have same: "unseen g (st\<lparr>ls_parent := p\<rparr>) = unseen g st" "unseen g (st\<lparr>ls_low := l\<rparr>) = unseen g st" for p l
    by (simp_all add: unseen_def)
  consider (new) "ls_discovery st nxt = None"
    | (seen) "ls_discovery st nxt \<noteq> None" "ls_parent st node \<noteq> Some nxt"
    | (parent) "ls_discovery st nxt \<noteq> None" "ls_parent st node = Some nxt" by blast
  then show ?case
  proof cases
    case new
    let ?st = "st\<lparr>ls_parent := (ls_parent st)(nxt \<mapsto> node)\<rparr>"
    have "nxt \<in> unseen g ?st" using new xs(2) by (simp add: unseen_def)
    from 4(1) [OF new 4(5,6) this] 4(8) obtain st' where st': "low_dfs hook k g nxt ?st = Some st'"
      "unseen g st' \<subseteq> unseen g st" by (auto simp: same)
    let ?st2 = "hook node nxt (Suc children) st'"
    have u: "unseen g ?st2 = unseen g st'" using 4(5) by (simp add: unseen_def keeps_discovery_def)
    have "card (unseen g ?st2) \<le> k"
      using card_mono [OF finite_unseen st'(2)] 4(8) by (simp add: u)
    from 4(2) [OF new st'(1) 4(5,6) xs(1) this] new st' u show ?thesis by auto
  next
    case seen
    from 4(3) [OF seen 4(5,6) xs(1)] 4(8) seen show ?thesis by (auto simp: same)
  next
    case parent
    from 4(4) parent 4(5,6,8) xs(1)
    have "\<exists>st'. low_children hook k g node xs children st = Some st' \<and> unseen g st' \<subseteq> unseen g st"
      by blast
    with parent show ?thesis by auto
  qed
qed

lemma low_loop_returns:
  assumes "keeps_discovery hook" "graph_ok g" "set ns \<subseteq> set (dict_keys g)" "card (unseen g st) \<le> k"
  shows "\<exists>st'. low_loop hook k g ns st = Some st'"
  using assms(3,4)
proof (induction ns arbitrary: st)
  case (Cons n ns)
  show ?case
  proof (cases "ls_discovery st n = None")
    case True
    then have "n \<in> unseen g st" using Cons.prems(1) by (simp add: unseen_def)
    from low_search_returns(1) [OF assms(1,2) this Cons.prems(2)] obtain st'
      where st': "low_dfs hook k g n st = Some st'" "unseen g st' \<subseteq> unseen g st" by blast
    from card_mono [OF finite_unseen st'(2)] Cons.prems(2) have "card (unseen g st') \<le> k" by simp
    from Cons.IH [OF _ this] Cons.prems(1) st' True show ?thesis by auto
  next
    case False
    with Cons show ?thesis by auto
  qed
qed simp

lemma keeps_discovery_notes: "keeps_discovery note_point" "keeps_discovery note_bridge"
  by (simp_all add: keeps_discovery_def note_point_def note_bridge_def Let_def)

lemma low_metrics_return:
  "articulation_points nodes edges \<noteq> None" "bridge_edges nodes edges \<noteq> None"
proof -
  let ?g = "adjacency nodes edges False"
  have "card (unseen ?g low_start) \<le> card (set (dict_keys ?g))" by (intro card_mono) (auto simp: unseen_def)
  also have "\<dots> \<le> length ?g" using card_length [of "dict_keys ?g"] by (simp add: dict_keys_def)
  finally have "card (unseen ?g low_start) \<le> Suc (length ?g)" by simp
  from low_loop_returns [OF _ adjacency_ok subset_refl this] keeps_discovery_notes
  have "\<exists>st. low_loop note_point (Suc (length ?g)) ?g (dict_keys ?g) low_start = Some st"
    "\<exists>st. low_loop note_bridge (Suc (length ?g)) ?g (dict_keys ?g) low_start = Some st" by blast+
  then show "articulation_points nodes edges \<noteq> None" "bridge_edges nodes edges \<noteq> None"
    by (auto simp: articulation_points_def bridge_edges_def Let_def)
qed

section \<open>Betweenness returns\<close>

text \<open>The dictionaries have the nodes as keys, queued nodes have been reached, predecessors are nodes.\<close>

definition brandes_ok :: "string set \<Rightarrow> brandes \<Rightarrow> bool" where
  "brandes_ok V b \<longleftrightarrow>
     dom (map_of (br_distance b)) = V \<and> dom (map_of (br_sigma b)) = V
     \<and> dom (map_of (br_predecessors b)) = V \<and> set (br_queue b) \<subseteq> V
     \<and> (\<forall>n\<in>set (br_queue b). the (map_of (br_distance b) n) \<ge> 0)
     \<and> (\<forall>n\<in>V. set (the (map_of (br_predecessors b) n)) \<subseteq> V)"

definition unreached :: "string set \<Rightarrow> brandes \<Rightarrow> string set" where
  "unreached V b = {n \<in> V. the (map_of (br_distance b) n) < 0}"

lemma look_in: "k \<in> dom (map_of d) \<Longrightarrow> look d k = Inr (the (map_of d k))"
  by (auto simp: look_def)

lemma brandes_visit_ok:
  assumes "finite V" "brandes_ok V b" "node \<in> V" "nxt \<in> V" "the (map_of (br_distance b) node) \<ge> 0"
  shows "\<exists>b'. brandes_visit node nxt b = Inr b' \<and> brandes_ok V b'
    \<and> the (map_of (br_distance b') node) \<ge> 0
    \<and> card (unreached V b') + length (br_queue b') = card (unreached V b) + length (br_queue b)"
proof -
  from assms(2) have keys: "dom (map_of (br_distance b)) = V" "dom (map_of (br_sigma b)) = V"
    "dom (map_of (br_predecessors b)) = V" by (simp_all add: brandes_ok_def)
  define b1 where "b1 = (if the (map_of (br_distance b) nxt) < 0
    then b\<lparr>br_queue := br_queue b @ [nxt],
           br_distance := AList.update nxt (the (map_of (br_distance b) node) + 1) (br_distance b)\<rparr> else b)"
  have b1: "brandes_ok V b1 \<and> the (map_of (br_distance b1) node) \<ge> 0
    \<and> card (unreached V b1) + length (br_queue b1) = card (unreached V b) + length (br_queue b)"
  proof (cases "the (map_of (br_distance b) nxt) < 0")
    case True
    with assms(5) have "nxt \<noteq> node" by auto
    have u: "unreached V b1 = unreached V b - {nxt}"
      using True assms(5) by (auto simp: b1_def unreached_def update_conv')
    have "nxt \<in> unreached V b" "finite (unreached V b)" using True assms(1,4) by (auto simp: unreached_def)
    then have "Suc (card (unreached V b1)) = card (unreached V b)" unfolding u by (rule card_Suc_Diff1 [rotated])
    moreover have "brandes_ok V b1"
      using True assms(2,4,5) by (auto simp: b1_def brandes_ok_def update_conv')
    ultimately show ?thesis using True assms(5) \<open>nxt \<noteq> node\<close> by (simp add: b1_def update_conv')
  next
    case False
    with assms show ?thesis by (simp add: b1_def)
  qed
  define b2 where "b2 = (if the (map_of (br_distance b1) nxt) = the (map_of (br_distance b) node) + 1
    then b1\<lparr>br_sigma := AList.update nxt (fadd (the (map_of (br_sigma b1) nxt)) (the (map_of (br_sigma b1) node))) (br_sigma b1),
            br_predecessors := AList.update nxt (the (map_of (br_predecessors b1) nxt) @ [node]) (br_predecessors b1)\<rparr>
    else b1)"
  from b1 have keys1: "dom (map_of (br_distance b1)) = V" "dom (map_of (br_sigma b1)) = V"
    "dom (map_of (br_predecessors b1)) = V" by (simp_all add: brandes_ok_def)
  have "brandes_visit node nxt b = Inr b2"
    using assms(3,4) by (simp add: brandes_visit_def look_in keys keys1 b1_def [symmetric] b2_def Let_def)
  moreover have "br_distance b2 = br_distance b1" "br_queue b2 = br_queue b1" by (simp_all add: b2_def)
  moreover have "brandes_ok V b2"
    using b1 assms(3,4) by (auto simp: b2_def brandes_ok_def update_conv')
  ultimately show ?thesis using b1 by (simp add: unreached_def)
qed

lemma brandes_visits_ok:
  assumes "finite V" "brandes_ok V b" "node \<in> V" "set xs \<subseteq> V" "the (map_of (br_distance b) node) \<ge> 0"
  shows "\<exists>b'. foldR (brandes_visit node) xs b = Inr b' \<and> brandes_ok V b'
    \<and> card (unreached V b') + length (br_queue b') = card (unreached V b) + length (br_queue b)"
  using assms(2,4,5)
proof (induction xs arbitrary: b)
  case (Cons x xs)
  have x: "x \<in> V" "set xs \<subseteq> V" using Cons.prems(2) by auto
  obtain b1 where b1: "brandes_visit node x b = Inr b1" "brandes_ok V b1"
    "the (map_of (br_distance b1) node) \<ge> 0"
    "card (unreached V b1) + length (br_queue b1) = card (unreached V b) + length (br_queue b)"
    using brandes_visit_ok [OF assms(1) Cons.prems(1) assms(3) x(1) Cons.prems(3)] by blast
  from Cons.IH [OF b1(2) x(2) b1(3)] b1(1,4) show ?case by auto
qed simp

lemma brandes_bfs_returns:
  assumes "finite V" "\<And>n. n \<in> V \<Longrightarrow> set (nbrs g n) \<subseteq> V"
    and "brandes_ok V b" "set stack \<subseteq> V" "card (unreached V b) + length (br_queue b) \<le> fuel"
  shows "\<exists>stack' b'. brandes_bfs fuel g stack b = Some (Inr (stack', b')) \<and> brandes_ok V b' \<and> set stack' \<subseteq> V"
  using assms(3-5)
proof (induction fuel arbitrary: stack b)
  case 0
  then show ?case by (simp add: brandes_bfs.simps)
next
  case (Suc k)
  show ?case
  proof (cases "br_queue b")
    case Nil
    with Suc.prems show ?thesis by (simp add: brandes_bfs.simps)
  next
    case (Cons node queue)
    let ?b = "b\<lparr>br_queue := queue\<rparr>"
    from Suc.prems(1) Cons have ok: "brandes_ok V ?b" "node \<in> V" "the (map_of (br_distance ?b) node) \<ge> 0"
      by (auto simp: brandes_ok_def)
    obtain b' where b': "foldR (brandes_visit node) (nbrs g node) ?b = Inr b'" "brandes_ok V b'"
      "card (unreached V b') + length (br_queue b') = card (unreached V ?b) + length queue"
      using brandes_visits_ok [OF assms(1) ok(1,2) assms(2) [OF ok(2)] ok(3)] by auto
    have "card (unreached V b') + length (br_queue b') \<le> k"
      using Suc.prems(3) b'(3) Cons by (simp add: unreached_def)
    from Suc.IH [OF b'(2) _ this, of "node # stack"] Suc.prems(2) ok(2) b'(1) Cons
    show ?thesis by (simp add: brandes_bfs.simps [of "Suc k"])
  qed
qed

lemma fdiv_positive: "fgt b (Fin 0) \<Longrightarrow> \<exists>x. fdiv a b = Inr x"
  by (cases b; cases a) auto

lemma brandes_credit_returns:
  assumes "brandes_ok V b" "node \<in> V" "previous \<in> V" "dom (map_of dependency) = V"
  shows "\<exists>d. brandes_credit b node previous dependency = Inr d \<and> dom (map_of d) = V"
proof (cases "fgt (the (map_of (br_sigma b) node)) (Fin 0)")
  case True
  from fdiv_positive [OF this, of "the (map_of (br_sigma b) previous)"] obtain x
    where "fdiv (the (map_of (br_sigma b) previous)) (the (map_of (br_sigma b) node)) = Inr x" by blast
  with True assms show ?thesis
    by (auto simp: brandes_credit_def brandes_ok_def look_in update_conv')
next
  case False
  with assms show ?thesis by (auto simp: brandes_credit_def brandes_ok_def look_in)
qed

lemma foldR_total:
  assumes "\<And>x s. x \<in> set xs \<Longrightarrow> P s \<Longrightarrow> \<exists>s'. f x s = Inr s' \<and> P s'" "P s"
  shows "\<exists>s'. foldR f xs s = Inr s' \<and> P s'"
  using assms
proof (induction xs arbitrary: s)
  case (Cons x xs)
  from Cons.prems(1) [of x s] Cons.prems(2) obtain s1 where s1: "f x s = Inr s1" "P s1" by auto
  from Cons.IH [OF _ s1(2)] Cons.prems(1) s1(1) show ?case by auto
qed simp

lemma foldT_total:
  assumes "\<And>x s. x \<in> set xs \<Longrightarrow> P s \<Longrightarrow> \<exists>s'. f x s = Some (Inr s') \<and> P s'" "P s"
  shows "\<exists>s'. foldT f xs s = Some (Inr s') \<and> P s'"
  using assms
proof (induction xs arbitrary: s)
  case (Cons x xs)
  from Cons.prems(1) [of x s] Cons.prems(2) obtain s1 where s1: "f x s = Some (Inr s1)" "P s1" by auto
  from Cons.IH [OF _ s1(2)] Cons.prems(1) s1(1) show ?case by auto
qed simp

lemma brandes_pop_returns:
  assumes "brandes_ok V b" "node \<in> V"
    and "dom (map_of (fst st)) = V \<and> dom (map_of (snd st)) = V"
  shows "\<exists>st'. brandes_pop b source node st = Inr st'
    \<and> dom (map_of (fst st')) = V \<and> dom (map_of (snd st')) = V"
proof -
  obtain d c where st: "st = (d, c)" by (cases st)
  let ?ps = "the (map_of (br_predecessors b) node)"
  have ps: "look (br_predecessors b) node = Inr ?ps" "set ?ps \<subseteq> V"
    using assms(1,2) by (auto simp: brandes_ok_def look_in)
  have "\<exists>d'. foldR (brandes_credit b node) ?ps d = Inr d' \<and> dom (map_of d') = V"
  proof (rule foldR_total)
    show "\<exists>s'. brandes_credit b node x s = Inr s' \<and> dom (map_of s') = V"
      if "x \<in> set ?ps" "dom (map_of s) = V" for x s
      by (rule brandes_credit_returns [OF assms(1,2) _ that(2)]) (use that(1) ps(2) in blast)
    show "dom (map_of d) = V" using assms(3) st by simp
  qed
  then obtain d' where "foldR (brandes_credit b node) ?ps d = Inr d'" "dom (map_of d') = V" by blast
  with ps(1) assms st show ?thesis
    by (auto simp: brandes_pop_def look_in update_conv')
qed

lemma init_dict_dom: "dom (map_of (init_dict nodes v)) = set nodes"
proof -
  have "dom (map_of (fold (\<lambda>n. AList.update n v) nodes d)) = set nodes \<union> dom (map_of d)" for d
    by (induction nodes arbitrary: d) (auto simp: update_conv')
  from this [of "[]"] show ?thesis by (simp add: init_dict_def)
qed

lemma init_dict_value: "n \<in> set nodes \<Longrightarrow> map_of (init_dict nodes v) n = Some v"
proof -
  have "map_of (fold (\<lambda>n. AList.update n v) nodes d) n = (if n \<in> set nodes then Some v else map_of d n)" for d
    by (induction nodes arbitrary: d) (auto simp: update_conv')
  then show "n \<in> set nodes \<Longrightarrow> ?thesis" by (simp add: init_dict_def)
qed

lemma brandes_source_returns:
  assumes "\<And>n. n \<in> set nodes \<Longrightarrow> set (nbrs g n) \<subseteq> set nodes" "source \<in> set nodes"
    and "dom (map_of centrality) = set nodes"
  shows "\<exists>c. brandes_source g nodes source centrality = Some (Inr c) \<and> dom (map_of c) = set nodes"
proof -
  let ?V = "set nodes"
  let ?b = "\<lparr>br_queue = [source], br_distance = AList.update source 0 (init_dict nodes (- 1)),
    br_sigma = AList.update source (Fin 1) (init_dict nodes (Fin 0)),
    br_predecessors = init_dict nodes []\<rparr>"
  have ok: "brandes_ok ?V ?b"
    using assms(2) by (auto simp: brandes_ok_def init_dict_dom init_dict_value update_conv')
  have "unreached ?V ?b = ?V - {source}"
    by (auto simp: unreached_def update_conv' init_dict_value)
  then have "Suc (card (unreached ?V ?b)) = card ?V"
    using assms(2) by (simp only:) (rule card_Suc_Diff1, simp_all)
  then have "card (unreached ?V ?b) + length (br_queue ?b) \<le> length nodes"
    using card_length [of nodes] by simp
  from brandes_bfs_returns [OF _ assms(1) ok _ this, of "[]"]
  obtain stack b' where b': "brandes_bfs (length nodes) g [] ?b = Some (Inr (stack, b'))"
    "brandes_ok ?V b'" "set stack \<subseteq> ?V" by auto
  have "\<exists>st'. foldR (brandes_pop b' source) stack (init_dict nodes (Fin 0), centrality) = Inr st'
      \<and> dom (map_of (fst st')) = ?V \<and> dom (map_of (snd st')) = ?V"
  proof (rule foldR_total)
    show "\<exists>s'. brandes_pop b' source x s = Inr s' \<and> dom (map_of (fst s')) = ?V \<and> dom (map_of (snd s')) = ?V"
      if "x \<in> set stack" "dom (map_of (fst s)) = ?V \<and> dom (map_of (snd s)) = ?V" for x s
      by (rule brandes_pop_returns [OF b'(2) _ that(2)]) (use that(1) b'(3) in blast)
    show "dom (map_of (fst (init_dict nodes (Fin 0), centrality))) = ?V
        \<and> dom (map_of (snd (init_dict nodes (Fin 0), centrality))) = ?V"
      using assms(3) by (simp add: init_dict_dom)
  qed
  with b'(1) show ?thesis by (auto simp: brandes_source_def)
qed

lemma sample_in_range:
  assumes "2 \<le> m" "m \<le> n" "n \<le> 2 ^ 53" "i \<in> set (sample_indices n m)"
  shows "0 \<le> i \<and> i < n"
proof -
  from assms(4) obtain j where j: "0 \<le> j" "j < m"
    and i: "i = round_half_even (fin_part (true_div (j * (n - 1)) (m - 1)))"
    by (auto simp: sample_indices_def)
  have q: "0 \<le> (of_int (j * (n - 1)) / of_int (m - 1) :: rat)"
    "(of_int (j * (n - 1)) / of_int (m - 1) :: rat) \<le> of_int (n - 1)"
  proof -
    have "j * (n - 1) \<le> (m - 1) * (n - 1)" using j assms by (intro mult_right_mono) auto
    then have "(of_int (j * (n - 1)) :: rat) \<le> of_int (m - 1) * of_int (n - 1)"
      by (metis of_int_le_iff of_int_mult)
    then show "(of_int (j * (n - 1)) / of_int (m - 1) :: rat) \<le> of_int (n - 1)"
      using assms(1) by (simp add: divide_le_eq mult.commute)
    show "0 \<le> (of_int (j * (n - 1)) / of_int (m - 1) :: rat)"
      using j assms by simp
  qed
  have "fle (rnd64 0) (true_div (j * (n - 1)) (m - 1))" "fle (true_div (j * (n - 1)) (m - 1)) (rnd64 (of_int (n - 1)))"
    unfolding true_div_def by (rule rnd64_mono, use q in simp)+
  moreover have "rnd64 (of_int (n - 1)) = Fin (of_int (n - 1))"
    using assms by (intro rnd64_of_int) auto
  ultimately obtain x where x: "true_div (j * (n - 1)) (m - 1) = Fin x" "0 \<le> x" "x \<le> of_int (n - 1)"
    by (cases "true_div (j * (n - 1)) (m - 1)") auto
  have "round_half_even (of_int 0) \<le> round_half_even x" "round_half_even x \<le> round_half_even (of_int (n - 1))"
    using x(2,3) by (intro round_half_even_mono; simp)+
  then have "0 \<le> round_half_even x" "round_half_even x \<le> n - 1"
    by (simp_all only: round_half_even_of_int)
  then show ?thesis unfolding i x(1) by simp
qed

lemma brandes_sources_nodes:
  assumes "length nodes \<le> 2 ^ 53"
  shows "set (fst (brandes_sources nodes)) \<subseteq> set nodes"
proof (cases "length nodes > 256")
  case True
  let ?n = "int (length nodes)" and ?m = "max 2 (min 128 (int (length nodes)))"
  have "nodes ! nat i \<in> set nodes" if "i \<in> set (sample_indices ?n ?m)" for i
  proof -
    have "int (length nodes) \<le> int (2 ^ 53)" using assms by (simp only: of_nat_le_iff)
    then have "0 \<le> i \<and> i < ?n" using True that by (intro sample_in_range [of ?m]) auto
    then show ?thesis by (intro nth_mem) auto
  qed
  with True show ?thesis by (auto simp: brandes_sources_def)
qed (simp add: brandes_sources_def)

lemma brandes_scale_returns: "n \<ge> 0 \<Longrightarrow> \<exists>x. brandes_scale n m = Inr x"
proof (cases "n > 2")
  case True
  have "(1 :: rat) \<le> of_int ((n - 1) * (n - 2)) / of_int 2"
  proof -
    have "2 * 1 \<le> (n - 1) * (n - 2)" using True by (intro mult_mono) auto
    then have "(of_int (2 * 1) :: rat) \<le> of_int ((n - 1) * (n - 2))" by (simp only: of_int_le_iff)
    then show ?thesis by simp
  qed
  from rnd64_mono [OF this] have "fle (Fin 1) (true_div ((n - 1) * (n - 2)) 2)"
    using rnd64_of_int [of 1] by (simp add: true_div_def)
  then have "fgt (true_div ((n - 1) * (n - 2)) 2) (Fin 0)"
    by (cases "true_div ((n - 1) * (n - 2)) 2") auto
  from fdiv_positive [OF this] True show ?thesis by (simp add: brandes_scale_def Let_def)
qed (simp add: brandes_scale_def Let_def)

lemma brandes_returns:
  assumes "\<And>a b. (a, b) \<in> set edges \<Longrightarrow> a \<in> set nodes \<and> b \<in> set nodes" "length nodes \<le> 2 ^ 53"
  shows "\<exists>r. brandes_betweenness nodes edges = Some (Inr r)"
proof -
  let ?g = "adjacency nodes edges False"
  obtain sources way where src: "brandes_sources nodes = (sources, way)" by force
  have nb: "set (nbrs ?g n) \<subseteq> set nodes" for n
  proof
    fix v assume "v \<in> set (nbrs ?g n)"
    then have "(n, v) \<in> arcs ?g" by (simp add: in_arcs)
    with assms(1) show "v \<in> set nodes" by (auto simp: adjacency_arcs)
  qed
  have "\<exists>c. foldT (brandes_source ?g nodes) sources (init_dict nodes (Fin 0)) = Some (Inr c)
      \<and> dom (map_of c) = set nodes"
  proof (rule foldT_total)
    show "\<exists>c. brandes_source ?g nodes x s = Some (Inr c) \<and> dom (map_of c) = set nodes"
      if "x \<in> set sources" "dom (map_of s) = set nodes" for x s
      by (rule brandes_source_returns [OF nb _ that(2)])
        (use that(1) brandes_sources_nodes [OF assms(2)] src in auto)
  qed (rule init_dict_dom)
  then obtain c where "foldT (brandes_source ?g nodes) sources (init_dict nodes (Fin 0)) = Some (Inr c)" by blast
  moreover obtain x where "brandes_scale (int (length nodes)) (int (length sources)) = Inr x"
    using brandes_scale_returns [of "int (length nodes)"] by auto
  ultimately show ?thesis by (simp add: brandes_betweenness_def Let_def src)
qed

section \<open>All metrics return\<close>

lemma share_returns: "\<exists>x. share w n = Inr x"
proof (cases "n = 0")
  case False
  have "fle (rnd64 0) (rnd64 (of_nat n))" by (rule rnd64_mono) simp
  then have "fge (rnd64 (of_nat n)) (Fin 0)" by simp
  then have "fgt (fadd (Fin 1) (rnd64 (of_nat n))) (Fin 0)"
  proof (cases "rnd64 (of_nat n)")
    case (Fin q)
    with \<open>fge (rnd64 (of_nat n)) (Fin 0)\<close> have "fle (rnd64 1) (rnd64 (1 + q))" by (intro rnd64_mono) simp
    then have "fle (Fin 1) (rnd64 (1 + q))" using rnd64_of_int [of 1] by simp
    then show ?thesis using Fin by (cases "rnd64 (1 + q)") auto
  qed auto
  from fdiv_positive [OF this, of "Fin 1"] False show ?thesis by (auto simp: share_def)
qed (simp add: share_def)

lemma resilience_returns: "\<exists>x. resilience_score k r p b = Inr x"
proof -
  from share_returns obtain x y where "share (rnd64 (1 / 5)) p = Inr x" "share (rnd64 (1 / 5)) b = Inr y" by metis
  then show ?thesis by (simp add: resilience_score_def)
qed

lemma per_sink_run_iff: "(\<exists>d. per_sink_run f sinks = Some (Inr d)) \<longleftrightarrow> (\<forall>s\<in>set sinks. f s \<noteq> None)"
proof -
  have "(\<exists>d. foldT (\<lambda>s d. case f s of None \<Rightarrow> None | Some v \<Rightarrow> Some (Inr (AList.update s v d))) sinks d0
      = Some (Inr d)) \<longleftrightarrow> (\<forall>s\<in>set sinks. f s \<noteq> None)" for d0
    by (induction sinks arbitrary: d0) (auto split: option.splits)
  then show ?thesis by (simp add: per_sink_run_def)
qed

lemma per_sink_run_none: "per_sink_run f sinks = None \<longleftrightarrow> (\<exists>s\<in>set sinks. f s = None)"
proof -
  have "(foldT (\<lambda>s d. case f s of None \<Rightarrow> None | Some v \<Rightarrow> Some (Inr (AList.update s v d))) sinks d0
      = None) \<longleftrightarrow> (\<exists>s\<in>set sinks. f s = None)" for d0
    by (induction sinks arbitrary: d0) (auto split: option.splits)
  then show ?thesis by (simp add: per_sink_run_def)
qed

lemma edge_disjoint_none: "edge_disjoint_count edges s t = None \<longleftrightarrow> s = t"
proof
  assume none: "edge_disjoint_count edges s t = None"
  show "s = t"
  proof (rule ccontr)
    assume "s \<noteq> t"
    from edge_disjoint_cut [OF this, of edges] none show False by auto
  qed
qed (simp add: edge_disjoint_self)

lemma topology_metrics_returns:
  assumes "length nodes \<le> 2 ^ 53"
  shows "source \<notin> set sinks \<longleftrightarrow> (\<exists>m. topology_metrics eig nodes edges source sinks = Some (Inr m))"
    and "source \<in> set sinks \<longleftrightarrow> topology_metrics eig nodes edges source sinks = None"
proof -
  define valid where "valid = filter (\<lambda>(a, b). a \<in> set nodes \<and> b \<in> set nodes) edges"
  obtain points bridges where low: "articulation_points nodes valid = Some points" "bridge_edges nodes valid = Some bridges"
    using low_metrics_return by blast
  obtain c w k where between: "brandes_betweenness nodes valid = Some (Inr (c, w, k))"
    using brandes_returns [OF _ assms, of valid] by (auto simp: valid_def)
  obtain nd where nd: "per_sink_run (node_disjoint_count nodes valid source) sinks = Some (Inr nd)"
    using per_sink_run_iff node_disjoint_some by metis
  have returns: "\<exists>m. topology_metrics eig nodes edges source sinks = Some (Inr m)" if no: "source \<notin> set sinks"
  proof -
    obtain ed where ed: "per_sink_run (edge_disjoint_count valid source) sinks = Some (Inr ed)"
      using per_sink_run_iff [of "edge_disjoint_count valid source" sinks] no by (auto simp: edge_disjoint_none)
    obtain score where "resilience_score (min_list_or 0 (map snd ed @ map snd nd))
        (min_list_or 0 (map snd (per_sink (simple_path_count (adjacency nodes valid True) source) sinks)))
        (length points) (length bridges) = Inr score" using resilience_returns by blast
    then show ?thesis
      unfolding topology_metrics_def Let_def valid_def [symmetric] by (simp add: low between nd ed)
  qed
  have hangs: "topology_metrics eig nodes edges source sinks = None" if "source \<in> set sinks"
  proof -
    have "per_sink_run (edge_disjoint_count valid source) sinks = None"
      using that by (auto simp: per_sink_run_none edge_disjoint_none)
    then show ?thesis
      unfolding topology_metrics_def Let_def valid_def [symmetric] by (simp add: low)
  qed
  show "source \<notin> set sinks \<longleftrightarrow> (\<exists>m. topology_metrics eig nodes edges source sinks = Some (Inr m))"
    "source \<in> set sinks \<longleftrightarrow> topology_metrics eig nodes edges source sinks = None"
    using returns hangs by (cases "source \<in> set sinks"; fastforce)+
qed

text \<open>C37: for a graph of at most 2^53 nodes the metrics are returned exactly when the source is not listed among the sinks; when it is, the call never returns, and in no case does it raise.\<close>

theorem topology_metrics_total:
  assumes "length nodes \<le> 2 ^ 53"
  shows "case topology_metrics eig nodes edges source sinks of
      None \<Rightarrow> source \<in> set sinks
    | Some (Inl e) \<Rightarrow> False
    | Some (Inr m) \<Rightarrow> source \<notin> set sinks"
  using topology_metrics_returns [OF assms, of source sinks eig edges]
  by (auto split: option.splits sum.splits)

lemma topology_metrics_total_witness:
  "topology_metrics (\<lambda>_ _. None) [''station'', ''drone_1''] [(''station'', ''drone_1'')] ''station'' [''drone_1''] \<noteq> None"
  using topology_metrics_total [where nodes = "[''station'', ''drone_1'']" and eig = "\<lambda>_ _. None"
    and edges = "[(''station'', ''drone_1'')]" and source = "''station''" and sinks = "[''drone_1'']"]
  by (auto split: option.splits)

end
