(* ===== verification/Validation_Props.thy ===== *)
theory Validation_Props
  imports Topology_Validation Metrics_Props Branches_Props
begin

text \<open>
  What the verdicts of \<open>validate_topology\<close> mean: a topology is structurally valid exactly when it
  satisfies every rule, and the forests that \<open>generate_branches\<close> builds break one of them.
\<close>

lemma count_distinct: "(\<forall>x. count_list xs x \<le> 1) \<longleftrightarrow> distinct xs"
proof -
  have "count_list xs x \<le> 1 \<longleftrightarrow> count (mset xs) x = (if x \<in> set xs then 1 else 0) " for x
    using count_list_0_iff [of xs x] count_mset_0_iff[of xs x] 
    by (cases "x \<in> set xs") (simp_all add: count_mset le_Suc_eq)
  then show ?thesis by (simp add: distinct_count_atmost_1)
qed

lemma duplicate_edges_Nil: "duplicate_edges edges = [] \<longleftrightarrow> distinct edges"
proof -
  have set: "set (fold set_add edges []) = set edges"
    using set_add_fold [of "[]" edges] by simp
  have "count_list edges e \<le> 1" if "e \<notin> set edges" for e
    using that by (simp add: count_list_0_iff)
  then have "duplicate_edges edges = [] \<longleftrightarrow> (\<forall>e. count_list edges e \<le> 1)"
    unfolding duplicate_edges_def filter_empty_conv set by (metis not_less)
  then show ?thesis by (simp only: count_distinct)
qed

lemma topo_issue_code_issue [simp]: "topo_issue_code (topo_issue c extra) = PStr c"
  by (simp add: topo_issue_code_def topo_issue_def)

definition structure_rules :: "topology_input \<Rightarrow> bool" where
  "structure_rules t \<longleftrightarrow>
     (let mode = py_lower (ti_mode t); edges = validated_edges t
      in mode \<in> set topology_modes \<and> (mode = ''manual'' \<or> validated_branches t \<noteq> [])
         \<and> distinct edges
         \<and> list_all (\<lambda>(a, b). a \<noteq> b \<and> a \<in> set (validated_nodes t) \<and> b \<in> set (validated_nodes t)) edges
         \<and> (mode = ''manual'' \<or> acyclic (set edges))
         \<and> set (validated_sinks t) \<subseteq> (set edges)\<^sup>* `` {ti_source t}
         \<and> list_all (\<lambda>(a, b). a \<notin> set (ti_failed_nodes t) \<and> b \<notin> set (ti_failed_nodes t)) edges)"

lemma structure_errors_spec:
  obtains errors where "structure_errors t = Some errors" "errors = [] \<longleftrightarrow> structure_rules t"
    "\<forall>e\<in>set errors. topo_issue_code e \<notin> PStr ` set physical_codes"
proof -
  let ?e = "validated_edges t" and ?m = "normalized_mode (ti_mode t)"
  let ?g = "adjacency (validated_nodes t) ?e True"
  define cycles where "cycles = (if ?m \<in> set acyclic_modes \<and> \<not> acyclic (set ?e)
    then [topo_issue ''CYCLE_NOT_ALLOWED'' [(''message'', PStr (''Cycles are not allowed in '' @ ?m @ '' mode.''))]]
    else [])"
  have cyc: "cycle_errors ?m ?g = Some cycles"
    by (simp add: cycle_errors_def cycles_def has_cycle_correct adjacency_ok adjacency_arcs)
  define errors where "errors = mode_errors (ti_mode t) @ branch_errors ?m (validated_branches t)
    @ edge_errors (validated_nodes t) ?e @ cycles @ sink_errors ?g (ti_source t) (validated_sinks t)
    @ failure_errors (ti_failed_nodes t) ?e"
  have "structure_errors t = Some errors"
    by (simp add: structure_errors_def Let_def cyc errors_def)
  moreover have "errors = [] \<longleftrightarrow> structure_rules t"
  proof -
    have wf: "list_all distinct (validated_branches t)"
      using sanitize_branches_wf [of "max 0 (ti_relay_count t)" True "ti_branches t"]
      by (auto simp: validated_branches_def branches_wf_def list_all_iff)
    have "branch_errors ?m (validated_branches t) = [] \<longleftrightarrow> ?m = ''manual'' \<or> validated_branches t \<noteq> []"
    proof -
      have "concat (map (\<lambda>(bi, b). if distinct b then [] else [topo_issue ''DUPLICATE_NODE_IN_BRANCH'' [(''branch'', PInt (int bi))]])
          (enumerate 0 (validated_branches t))) = []"
        using wf by (auto simp: list_all_iff enumerate_eq_zip dest!: set_zip_rightD)
      then show ?thesis by (auto simp: branch_errors_def)
    qed
    moreover have "edge_errors (validated_nodes t) ?e = [] \<longleftrightarrow> distinct ?e
        \<and> list_all (\<lambda>(a, b). a \<noteq> b \<and> a \<in> set (validated_nodes t) \<and> b \<in> set (validated_nodes t)) ?e"
      by (auto simp: edge_errors_def duplicate_edges_Nil list_all_iff)
    moreover have "sink_errors ?g (ti_source t) (validated_sinks t) = []
        \<longleftrightarrow> set (validated_sinks t) \<subseteq> (set ?e)\<^sup>* `` {ti_source t}"
      by (auto simp: sink_errors_def filter_empty_conv set_reachable adjacency_arcs)
    moreover have "failure_errors (ti_failed_nodes t) ?e = []
        \<longleftrightarrow> list_all (\<lambda>(a, b). a \<notin> set (ti_failed_nodes t) \<and> b \<notin> set (ti_failed_nodes t)) ?e"
      by (auto simp: failure_errors_def filter_empty_conv list_all_iff)
    moreover have "mode_errors (ti_mode t) = [] \<longleftrightarrow> py_lower (ti_mode t) \<in> set topology_modes"
      by (simp add: mode_errors_def)
    moreover have "?m = py_lower (ti_mode t)" if "py_lower (ti_mode t) \<in> set topology_modes"
      using that by (simp add: normalized_mode_def)
    moreover have "cycles = [] \<longleftrightarrow> ?m = ''manual'' \<or> acyclic (set ?e)"
      by (auto simp: cycles_def acyclic_modes_def normalized_mode_def topology_modes_def)
    ultimately show ?thesis
      unfolding errors_def structure_rules_def Let_def append_is_Nil_conv by auto
  qed
  moreover have "topo_issue_code e \<notin> PStr ` set physical_codes" if "e \<in> set errors" for e
    using that
    by (auto simp: errors_def mode_errors_def branch_errors_def edge_errors_def cycles_def sink_errors_def
        failure_errors_def physical_codes_def split: if_splits)
  ultimately show thesis using that by blast
qed

lemma physical_errors_codes:
  "e \<in> set (physical_errors bounds minimum positions) \<Longrightarrow> topo_issue_code e \<in> PStr ` set physical_codes"
proof -
  assume e: "e \<in> set (physical_errors bounds minimum positions)"
  have pairs: "topo_issue_code e \<in> PStr ` set physical_codes" if "e \<in> set (pair_errors minimum items)" for items
    using that by (induction items)
      (auto simp: separation_errors_def physical_codes_def split: sum.splits if_splits)
  have single: "topo_issue_code e \<in> PStr ` set physical_codes" if "e \<in> set (position_errors bounds a)" for a
    using that by (auto simp: position_errors_def physical_codes_def split: sum.splits option.splits if_splits)
  from e pairs single show ?thesis by (auto simp: physical_errors_def)
qed

lemma validate_topology_spec:
  assumes "validate_topology eig t = Some (Inr v)"
  shows "tv_structurally_valid v \<longleftrightarrow> structure_rules t"
    and "tv_physically_valid v \<longleftrightarrow>
      physical_errors (ti_altitude_bounds_m t) (ti_minimum_separation_m t) (ti_positions t) = []"
    and "tv_operational v \<longleftrightarrow> tv_structurally_valid v \<and> tv_physically_valid v
      \<and> tv_communication_feasible v \<noteq> Some False"
    and "tv_communication_feasible v \<noteq> Some False \<longleftrightarrow> blocked_edges t = []"
    and "tv_edges v = validated_edges t"
    and "tv_mode v = normalized_mode (ti_mode t)"
proof -
  let ?p = "physical_errors (ti_altitude_bounds_m t) (ti_minimum_separation_m t) (ti_positions t)"
  obtain errors where errors: "structure_errors t = Some errors" "errors = [] \<longleftrightarrow> structure_rules t"
    "\<forall>e\<in>set errors. topo_issue_code e \<notin> PStr ` set physical_codes" by (rule structure_errors_spec)
  have keep: "filter (\<lambda>e. topo_issue_code e \<notin> PStr ` set physical_codes) (errors @ ?p) = errors"
    using errors(3) physical_errors_codes by (simp add: filter_empty_conv)
  from assms obtain m where v: "v =
      \<lparr>tv_structurally_valid = (errors = []), tv_physically_valid = (?p = []),
       tv_communication_feasible = (if ti_link_feasibility t = None then None else Some (blocked_edges t = [])),
       tv_operational = (errors = [] \<and> ?p = []
          \<and> (if ti_link_feasibility t = None then None else Some (blocked_edges t = [])) \<noteq> Some False),
       tv_errors = errors @ ?p,
       tv_warnings = branch_warnings (normalized_mode (ti_mode t)) (max 0 (ti_relay_count t)) (validated_branches t)
         @ (if blocked_edges t = [] then []
            else [topo_issue ''INFEASIBLE_EDGES'' [(''edges'', PList (map edge_value (blocked_edges t)))]]),
       tv_metrics = m, tv_mode = normalized_mode (ti_mode t), tv_branches = validated_branches t,
       tv_edges = validated_edges t\<rparr>"
    unfolding validate_topology_def Let_def errors(1) option.case keep
    by (auto simp: bindT_def split: option.splits sum.splits)
  show "tv_structurally_valid v \<longleftrightarrow> structure_rules t" by (simp add: v errors(2))
  show "tv_physically_valid v \<longleftrightarrow> ?p = []" by (simp add: v)
  show "tv_operational v \<longleftrightarrow> tv_structurally_valid v \<and> tv_physically_valid v
      \<and> tv_communication_feasible v \<noteq> Some False" by (simp add: v)
  show "tv_communication_feasible v \<noteq> Some False \<longleftrightarrow> blocked_edges t = []"
    by (simp add: v blocked_edges_def)
  show "tv_edges v = validated_edges t" by (simp add: v)
  show "tv_mode v = normalized_mode (ti_mode t)" by (simp add: v)
qed

definition position_rule :: "(pyfloat \<times> pyfloat) option \<Rightarrow> string \<times> pyval \<Rightarrow> bool" where
  "position_rule bounds item \<longleftrightarrow>
     (case coordinates_of (snd item) of
        Inl _ \<Rightarrow> False
      | Inr (x, y, z) \<Rightarrow>
          is_drone (fst item) \<longrightarrow> (case bounds of None \<Rightarrow> True | Some (lo, hi) \<Rightarrow> fle lo z \<and> fle z hi))"

definition separation_rule :: "pyfloat \<Rightarrow> string \<times> pyval \<Rightarrow> string \<times> pyval \<Rightarrow> bool" where
  "separation_rule minimum a b \<longleftrightarrow>
     (case (coordinates_of (snd a), coordinates_of (snd b)) of
        (Inr (x, y, z), Inr (x', y', z')) \<Rightarrow>
          is_drone (fst a) \<longrightarrow> is_drone (fst b) \<longrightarrow> \<not> flt (fdist [x, y, z] [x', y', z']) minimum
      | _ \<Rightarrow> False)"

definition physical_rules ::
  "(pyfloat \<times> pyfloat) option \<Rightarrow> pyfloat \<Rightarrow> (string \<times> pyval) list \<Rightarrow> bool" where
  "physical_rules bounds minimum positions \<longleftrightarrow>
     list_all (position_rule bounds) positions \<and> sorted_wrt (separation_rule minimum) positions"

lemma coordinates_float_list:
  assumes "coordinates_of v = Inr (x, y, z)" shows "float_list v = Inr [x, y, z]"
proof -
  from assms obtain fs where fs: "float_list v = Inr fs"
    and c: "(case fs of [x, y, z] \<Rightarrow> if list_all is_finite fs then Inr (x, y, z) else Inl ValueError
      | _ \<Rightarrow> Inl ValueError) = (Inr (x, y, z) :: vec3 res)"
    by (auto simp: coordinates_of_def bindR_Inr_iff)
  have "fs = [x, y, z]"
  proof (cases "length fs = 3")
    case True
    then obtain a b d where "fs = [a, b, d]" by (auto simp: length_Suc_conv eval_nat_numeral)
    with c show ?thesis by (auto split: if_splits)
  qed (use c in \<open>auto split: list.splits\<close>)
  with fs show ?thesis by simp
qed

lemma position_errors_Nil: "position_errors bounds item = [] \<longleftrightarrow> position_rule bounds item"
  by (auto simp: position_errors_def position_rule_def split: sum.splits option.splits)

lemma separation_errors_Nil:
  assumes "position_rule bounds a" "position_rule bounds b"
  shows "separation_errors minimum a b = [] \<longleftrightarrow> separation_rule minimum a b"
proof -
  from assms obtain x y z x' y' z'
    where c: "coordinates_of (snd a) = Inr (x, y, z)" "coordinates_of (snd b) = Inr (x', y', z')"
    by (auto simp: position_rule_def split: sum.splits)
  from c [THEN coordinates_float_list] show ?thesis
    by (auto simp: separation_errors_def separation_rule_def c)
qed

lemma pair_errors_Nil:
  "pair_errors minimum items = [] \<longleftrightarrow> sorted_wrt (\<lambda>a b. separation_errors minimum a b = []) items"
  by (induction items) auto

lemma sorted_wrt_cong_on:
  assumes "\<And>a b. a \<in> set xs \<Longrightarrow> b \<in> set xs \<Longrightarrow> P a b \<longleftrightarrow> Q a b"
  shows "sorted_wrt P xs \<longleftrightarrow> sorted_wrt Q xs"
  using assms by (induction xs) auto

lemma physical_errors_Nil: "physical_errors bounds minimum positions = [] \<longleftrightarrow> physical_rules bounds minimum positions"
proof -
  have pos: "concat (map (position_errors bounds) positions) = [] \<longleftrightarrow> list_all (position_rule bounds) positions"
    by (auto simp: list_all_iff position_errors_Nil)
  have "pair_errors minimum positions = [] \<longleftrightarrow> sorted_wrt (separation_rule minimum) positions"
    if "list_all (position_rule bounds) positions"
    unfolding pair_errors_Nil using that
    by (intro sorted_wrt_cong_on separation_errors_Nil) (auto simp: list_all_iff)
  then show ?thesis unfolding physical_errors_def physical_rules_def append_is_Nil_conv pos by blast
qed

text \<open>C38 the verdicts of \<open>validate_topology\<close>, whenever it returns: a topology is structurally valid exactly
  when it satisfies every structural rule (a known mode, a branch, no repeated edge, no self loop, every
  endpoint a node, no cycle outside manual mode, every sink reachable from the source, no failed node on
  an edge), physically valid exactly when every position is three finite numbers, every drone flies
  within the altitude bounds and every pair of drones keeps the minimum separation, and operational
  exactly when it is both and the gate, when consulted, allows each of its edges.\<close>

theorem validation_verdicts:
  assumes "validate_topology eig t = Some (Inr v)"
  shows "(tv_structurally_valid v \<longleftrightarrow> structure_rules t)
    \<and> (tv_physically_valid v \<longleftrightarrow>
        physical_rules (ti_altitude_bounds_m t) (ti_minimum_separation_m t) (ti_positions t))
    \<and> (tv_operational v \<longleftrightarrow>
        structure_rules t
        \<and> physical_rules (ti_altitude_bounds_m t) (ti_minimum_separation_m t) (ti_positions t)
        \<and> (case ti_link_feasibility t of
             None \<Rightarrow> True | Some f \<Rightarrow> list_all (\<lambda>e. map_of f e = Some True) (validated_edges t)))"
proof -
  have blocked: "blocked_edges t = [] \<longleftrightarrow> (case ti_link_feasibility t of
      None \<Rightarrow> True | Some f \<Rightarrow> list_all (\<lambda>e. map_of f e = Some True) (validated_edges t))"
    by (simp add: blocked_edges_def filter_empty_conv list_all_iff split: option.split)
  show ?thesis
    unfolding validate_topology_spec(4) [OF assms, symmetric] blocked [symmetric]
      validate_topology_spec(3) [OF assms] validate_topology_spec(1,2) [OF assms] physical_errors_Nil
    by (rule conjI [OF refl conjI [OF refl]]) (simp only: conj_assoc)
qed

lemma validate_topology_returns:
  assumes "length (validated_nodes t) \<le> 2 ^ 53" "ti_source t \<notin> set (validated_sinks t)"
  obtains v where "validate_topology eig t = Some (Inr v)"
proof -
  obtain errors where e: "structure_errors t = Some errors" by (rule structure_errors_spec)
  from topology_metrics_returns(1) [OF assms(1)] assms(2) obtain m where
    "topology_metrics eig (validated_nodes t) (validated_edges t) (ti_source t) (validated_sinks t) = Some (Inr m)"
    by blast
  with e that show thesis by (simp add: validate_topology_def Let_def)
qed

definition pair_topology :: "int list list \<Rightarrow> string \<Rightarrow> int \<Rightarrow> topology_input" where
  "pair_topology bs mode n =
     \<lparr>ti_mode = mode, ti_relay_count = n, ti_branches = encode_branches bs, ti_manual_edges = PNone,
      ti_positions = [(''drone_1'', PList [PInt 0, PInt 0, PInt 20])], ti_source = ''station'', ti_sinks = [''drone_1''],
      ti_failed_nodes = [], ti_minimum_separation_m = Fin 1, ti_altitude_bounds_m = Some (Fin 10, Fin 60),
      ti_link_feasibility = Some [((''station'', ''drone_1''), True)]\<rparr>"

lemma validation_verdicts_witness:
  "\<exists>v. validate_topology (\<lambda>_ _. None) (pair_topology [[1]] ''chain'' 1) = Some (Inr v) \<and> tv_operational v"
proof -
  let ?t = "pair_topology [[1]] ''chain'' 1"
  obtain v where v: "validate_topology (\<lambda>_ _. None) ?t = Some (Inr v)"
    by (rule validate_topology_returns [of ?t]) (simp_all add: pair_topology_def validated_nodes_def validated_sinks_def)
  have "(''station'', ''drone_1'') \<in> {(''station'', ''drone_1'')}\<^sup>*" by blast
  moreover have "acyclic {(''station'', ''drone_1'')}" by (auto simp: acyclic_def trancl_insert)
  moreover have edges: "validated_edges ?t = [(''station'', ''drone_1'')]" and "validated_branches ?t = [[1]]"
    and "validated_nodes ?t = [''station'', ''drone_1'']" and "py_lower (ti_mode ?t) = ''chain''" by code_simp+
  ultimately have "structure_rules ?t"
    by (simp add: structure_rules_def Let_def topology_modes_def validated_sinks_def)
      (simp add: pair_topology_def)
  moreover have "physical_rules (Some (Fin 10, Fin 60)) (Fin 1) [(''drone_1'', PList [PInt 0, PInt 0, PInt 20])]"
    by code_simp
  moreover have "ti_link_feasibility ?t = Some [((''station'', ''drone_1''), True)]"
    "ti_altitude_bounds_m ?t = Some (Fin 10, Fin 60)" "ti_minimum_separation_m ?t = Fin 1"
    "ti_positions ?t = [(''drone_1'', PList [PInt 0, PInt 0, PInt 20])]" by (simp_all add: pair_topology_def)
  ultimately show ?thesis using validation_verdicts [OF v] v by (auto simp: edges)
qed

lemma repeated_not_distinct:
  assumes "i < j" "j < length xss" "e \<in> set (xss ! i)" "e \<in> set (xss ! j)"
  shows "\<not> distinct (concat xss)"
  using assms
proof (induction xss arbitrary: i j)
  case (Cons xs xss)
  then show ?case
  proof (cases i)
    case 0
    with Cons.prems obtain k where "j = Suc k" "k < length xss" by (cases j) auto
    with 0 Cons.prems show ?thesis by (auto simp: disjoint_iff dest: nth_mem)
  next
    case (Suc k)
    with Cons.prems Cons.IH [of k "j - 1"] show ?thesis by (cases j) auto
  qed
qed simp

text \<open>A divergence between two functions of one file: whenever \<open>generate_branches\<close> is asked, in forest
  mode, for more branches than it makes roots (a third of the relays, at least one), two branches start
  with relay 1, the edge from the source to \<open>drone_1\<close> is repeated, and \<open>validate_topology\<close> declares the
  topology that was just generated structurally invalid.\<close>

theorem forest_generation_rejected:
  assumes "py_lower (ti_mode t) = ''forest''"
    and "max 1 (ti_relay_count t div 3) < min branch_count (ti_relay_count t)"
    and "ti_branches t = encode_branches (generate_branches (ti_relay_count t) branch_count (ti_mode t))"
    and "validate_topology eig t = Some (Inr v)"
  shows "\<not> tv_structurally_valid v"
proof -
  define relays n roots where "relays = ti_relay_count t" and "n = min branch_count relays"
    and "roots = max 1 (relays div 3)"
  have pos: "1 < relays" "1 \<le> roots" "roots < n" "n \<le> relays"
    using assms(2) by (simp_all add: relays_def n_def roots_def)
  let ?bs = "forest_branches relays n roots"
  have gen: "generate_branches relays branch_count (ti_mode t) = ?bs"
    using generate_branches_unfolded [OF refl refl, of relays branch_count "ti_mode t"] pos
    by (simp add: assms(1) n_def roots_def max_absorb2 min_absorb2)
  have wf: "branches_wf relays True ?bs"
    using generated_cover [of relays branch_count "ti_mode t"] pos(1) by (simp add: gen Let_def)
  have branches: "validated_branches t = ?bs"
    using sanitize_encoded [OF wf] pos(1)
    by (simp add: validated_branches_def assms(3) gen flip: relays_def)
  have edges: "validated_edges t = concat (map (path_edges (ti_source t)) ?bs)"
    by (simp add: validated_edges_def normalized_mode_def assms(1) topology_modes_def branches branches_to_edges_def)
  have "\<not> distinct (validated_edges t)" unfolding edges
    by (rule repeated_not_distinct [where i = 0 and j = "nat roots" and e = "(ti_source t, drone_name 1)"])
      (use pos in \<open>simp_all add: forest_branches_def nth_append\<close>)
  then show ?thesis unfolding validate_topology_spec(1) [OF assms(4)] structure_rules_def Let_def by blast
qed

lemma forest_generation_rejected_witness:
  "\<exists>v. validate_topology (\<lambda>_ _. None) (pair_topology (generate_branches 4 2 ''forest'') ''forest'' 4) = Some (Inr v)
     \<and> \<not> tv_structurally_valid v"
proof -
  let ?t = "pair_topology (generate_branches 4 2 ''forest'') ''forest'' 4"
  obtain v where v: "validate_topology (\<lambda>_ _. None) ?t = Some (Inr v)"
    by (rule validate_topology_returns [of ?t]) (simp_all add: pair_topology_def validated_nodes_def validated_sinks_def)
  have "\<not> tv_structurally_valid v"
    by (rule forest_generation_rejected [where t = ?t and branch_count = 2, OF _ _ _ v])
      (simp_all add: pair_topology_def py_lower_def lower_char_def)
  with v show ?thesis by blast
qed

end
