(* ===== verification/Preview_Props.thy ===== *)
theory Preview_Props
  imports Link_Preview Validation_Props
begin

text \<open>
  What the preview of a topology shows: which links it calls feasible, and that its table of verdicts is
  the one \<open>validate_topology\<close> asks for.
\<close>

definition edge_accepted :: "preview_env \<Rightarrow> preview_tables \<Rightarrow> nat \<Rightarrow> edge \<Rightarrow> bool" where
  "edge_accepted w t i e \<longleftrightarrow>
     (\<exists>source destination m l.
        map_of (pt_entities t) (fst e) = Some source \<and> map_of (pt_entities t) (snd e) = Some destination
        \<and> ends_acceptable (preview_ends (as_dict source) (as_dict destination))
        \<and> bindR (preview_request (pt_config t) (pt_communication t) e (as_dict source) (as_dict destination)
             (as_dict (dget (pt_definitions t) (antenna_id_of (pt_assignments t) (fst e) (as_dict source)) (PDict [])))
             (as_dict (dget (pt_definitions t) (antenna_id_of (pt_assignments t) (snd e) (as_dict destination)) (PDict []))))
           (compute_analytical_link (pe_libm w) (pe_link w i)) = Inr m
        \<and> preview_limits (pt_communication t) = Inr l
        \<and> metric_acceptable (le_decision_at (pe_link w i)) m l)"

lemma preview_record_fields:
  "dget (preview_record w c i e tx rx outcome) ''src'' PNone = PStr (fst e)"
  "dget (preview_record w c i e tx rx outcome) ''dst'' PNone = PStr (snd e)"
  "dget (preview_record w c i e tx rx outcome) ''source'' PNone \<in> {PStr ''PREVIEW'', PStr ''UNAVAILABLE''}"
  "link_feasible (preview_record w c i e tx rx outcome) \<longleftrightarrow> (\<exists>m d. outcome = Inr (m, d) \<and> fd_feasible d)"
  by (cases outcome;
      auto simp: preview_record_def Let_def dupdate_Cons dupdate_Nil link_feasible_def)+

lemma preview_link_fields:
  assumes "preview_link w t (i, e) = Inr r"
  shows "dget r ''src'' PNone = PStr (fst e)" "dget r ''dst'' PNone = PStr (snd e)"
    and "dget r ''source'' PNone \<in> {PStr ''PREVIEW'', PStr ''UNAVAILABLE''}"
    and "link_feasible r \<longleftrightarrow> edge_accepted w t i e"
proof -
  have missing: "dget (missing_endpoint_record e) ''src'' PNone = PStr (fst e)"
    "dget (missing_endpoint_record e) ''dst'' PNone = PStr (snd e)"
    "dget (missing_endpoint_record e) ''source'' PNone = PStr ''PREVIEW''"
    "\<not> link_feasible (missing_endpoint_record e)"
    by (simp_all add: missing_endpoint_record_def link_feasible_def)
  have shape: "r = missing_endpoint_record e \<or> (\<exists>c tx rx outcome. r = preview_record w c i e tx rx outcome)"
    using assms by (auto simp: preview_link_def Let_def bindR_Inr_iff split: option.splits)
  show "dget r ''src'' PNone = PStr (fst e)" "dget r ''dst'' PNone = PStr (snd e)"
    "dget r ''source'' PNone \<in> {PStr ''PREVIEW'', PStr ''UNAVAILABLE''}"
    using shape missing preview_record_fields(1-3) [of w _ i e] by (metis insertCI)+
  have gate: "fd_feasible (evaluate_feasibility now (Some m) ends l)
      \<longleftrightarrow> ends_acceptable ends \<and> metric_acceptable now m l" for now m ends l
    by (auto simp: evaluate_feasibility_def Let_def ends_acceptable_def evaluate_metric_feasible)
  show "link_feasible r \<longleftrightarrow> edge_accepted w t i e"
  proof (cases "map_of (pt_entities t) (fst e) \<noteq> None \<and> map_of (pt_entities t) (snd e) \<noteq> None")
    case False
    then show ?thesis using assms missing(4)
      by (auto simp: preview_link_def Let_def edge_accepted_def split: option.splits)
  next
    case True
    then obtain source destination where ends: "map_of (pt_entities t) (fst e) = Some source"
      "map_of (pt_entities t) (snd e) = Some destination" by blast
    with assms obtain q where q: "preview_request (pt_config t) (pt_communication t) e (as_dict source) (as_dict destination)
        (as_dict (dget (pt_definitions t) (antenna_id_of (pt_assignments t) (fst e) (as_dict source)) (PDict [])))
        (as_dict (dget (pt_definitions t) (antenna_id_of (pt_assignments t) (snd e) (as_dict destination)) (PDict []))) = Inr q"
      and r: "r = preview_record w (pt_communication t) i e
        (antenna_id_of (pt_assignments t) (fst e) (as_dict source))
        (antenna_id_of (pt_assignments t) (snd e) (as_dict destination))
        (preview_decision w i (pt_communication t) q (as_dict source) (as_dict destination))"
      by (auto simp: preview_link_def Let_def bindR_Inr_iff)
    show ?thesis
      unfolding r preview_record_fields(4) edge_accepted_def ends option.inject
      by (auto simp: preview_decision_def bindR_Inr_iff q gate)
  qed
qed

lemma feasibility_table:
  assumes "length links = length edges" "list_all link_feasible links" "e \<in> set edges"
  shows "map_of (fold (\<lambda>(e, r). AList.update e (link_feasible r)) (zip edges links) start) e = Some True"
  using assms
proof (induction edges arbitrary: links start)
  case (Cons a edges)
  then obtain r rs where l: "links = r # rs" "link_feasible r" "list_all link_feasible rs" "length rs = length edges"
    by (cases links) auto
  have keep: "map_of (fold (\<lambda>(e, r). AList.update e (link_feasible r)) (zip es rs) st) x = Some True"
    if "map_of st x = Some True" for es st x
    using that l(3) by (induction es rs arbitrary: st rule: list_induct2') (auto simp: update_conv')
  show ?case
  proof (cases "e \<in> set edges")
    case True
    with Cons.IH l show ?thesis by simp
  next
    case False
    with Cons.prems l keep [of "AList.update a True start" a edges] show ?thesis by (simp add: update_conv')
  qed
qed simp

text \<open>C39 the editor's preview: it has one link per configured edge, in order, never labelled live; a link is
  feasible exactly when both its ends are known, active and not failed, the preview model computed
  metrics for it, and these satisfy every limit of the execution gate; the topology is feasible exactly
  when it has edges and all of them are accepted, and then the table of verdicts that
  \<open>validate_topology\<close> takes allows every edge.\<close>

theorem preview_follows_gate:
  assumes "evaluate_experiment_topology_preview w config = Inr p"
    and "preview_tables_of config = Inr t"
    and "preview_edges (mapping_section config ''topology'') = Inr edges"
  shows "list_all2 (\<lambda>(i, e) r. dget r ''src'' PNone = PStr (fst e) \<and> dget r ''dst'' PNone = PStr (snd e)
             \<and> dget r ''source'' PNone \<in> {PStr ''PREVIEW'', PStr ''UNAVAILABLE''}
             \<and> (link_feasible r \<longleftrightarrow> edge_accepted w t i e)) (enumerate 0 edges) (tp_links p)
    \<and> (tp_all_feasible p \<longleftrightarrow> edges \<noteq> [] \<and> list_all (\<lambda>(i, e). edge_accepted w t i e) (enumerate 0 edges))
    \<and> (tp_all_feasible p \<longrightarrow> list_all (\<lambda>e. map_of (tp_feasibility p) e = Some True) edges)"
proof -
  from assms obtain links where links: "mapR (preview_link w t) (enumerate 0 edges) = Inr links"
    and p: "tp_links p = links" "tp_all_feasible p \<longleftrightarrow> links \<noteq> [] \<and> list_all link_feasible links"
      "tp_feasibility p = fold (\<lambda>(e, r). AList.update e (link_feasible r)) (zip edges links) []"
    by (auto simp: evaluate_experiment_topology_preview_def Let_def bindR_Inr_iff)
  have len: "length links = length edges" using mapR_length [OF links] by simp
  have each: "preview_link w t (i, edges ! i) = Inr (links ! i)" if "i < length edges" for i
    using mapR_nth [OF links, of i] that by (simp add: nth_enumerate_eq)
  have fields: "list_all2 (\<lambda>(i, e) r. dget r ''src'' PNone = PStr (fst e) \<and> dget r ''dst'' PNone = PStr (snd e)
             \<and> dget r ''source'' PNone \<in> {PStr ''PREVIEW'', PStr ''UNAVAILABLE''}
             \<and> (link_feasible r \<longleftrightarrow> edge_accepted w t i e)) (enumerate 0 edges) links"
    using preview_link_fields [OF each] len by (simp add: list_all2_conv_all_nth nth_enumerate_eq)
  then have all: "list_all link_feasible links \<longleftrightarrow> list_all (\<lambda>(i, e). edge_accepted w t i e) (enumerate 0 edges)"
    by (auto simp: list_all2_conv_all_nth list_all_length nth_enumerate_eq len)
  have "list_all (\<lambda>e. map_of (tp_feasibility p) e = Some True) edges" if "tp_all_feasible p"
    using that feasibility_table [OF len] by (simp add: p list_all_iff)
  moreover have "links \<noteq> [] \<longleftrightarrow> edges \<noteq> []" using len by auto
  ultimately show ?thesis using fields all unfolding p by blast
qed

definition failed_drone_config :: pydict where
  "failed_drone_config =
     [(''topology'', PDict [(''branches'', PList [PList [PInt 1]])]),
      (''swarm'', PDict [(''drones'', PList [PDict [(''id'', PStr ''drone_1''), (''failed'', PBool True)]])])]"

lemma preview_follows_gate_witness:
  "\<forall>w. \<exists>p. evaluate_experiment_topology_preview w failed_drone_config = Inr p \<and> \<not> tp_all_feasible p"
proof
  fix w
  let ?c = failed_drone_config
  have edges: "preview_edges (mapping_section ?c ''topology'') = Inr [(''station'', ''drone_1'')]" by code_simp
  let ?drone = "[(''id'', PStr ''drone_1''), (''failed'', PBool True)]"
  obtain t where t: "preview_tables_of ?c = Inr t" and comm: "pt_communication t = []" "pt_config t = ?c" "pt_definitions t = []"
    and station: "map_of (pt_entities t) ''station'' = Some (PDict [])"
    and drone: "map_of (pt_entities t) ''drone_1'' = Some (PDict ?drone)"
    by (simp add: preview_tables_of_def Let_def mapping_section_def failed_drone_config_def by_id_def ptuple_def)
  have request: "\<exists>r. preview_request ?c [] e s d [] [] = Inr r" for e s d
    by (simp add: preview_request_def fget_def pget_def failed_drone_config_def)
  obtain q where "preview_request ?c [] (''station'', ''drone_1'') [] ?drone [] [] = Inr q"
    using request by blast
  then have "\<exists>r. preview_link w t (0, ''station'', ''drone_1'') = Inr r"
    by (simp add: preview_link_def Let_def station drone comm)
  then obtain p where p: "evaluate_experiment_topology_preview w ?c = Inr p"
    by (auto simp: evaluate_experiment_topology_preview_def t edges Let_def)
  have "\<not> edge_accepted w t 0 (''station'', ''drone_1'')"
    by (simp add: edge_accepted_def station drone preview_ends_def ends_acceptable_def)
  with preview_follows_gate [OF p t edges] p
  show "\<exists>p. evaluate_experiment_topology_preview w ?c = Inr p \<and> \<not> tp_all_feasible p" by simp
qed

end
