(* ===== verification/Config_Topology_Props.thy ===== *)
theory Config_Topology_Props
  imports Config_Topology Preview_Props
begin

text \<open>
  When a configured topology is reported operational: the verdicts of the validation, and those of the
  links that the preview has judged.
\<close>

definition positioned :: "pydict \<Rightarrow> edge \<Rightarrow> bool" where
  "positioned positions e \<longleftrightarrow> fst e \<in> fst ` set positions \<and> snd e \<in> fst ` set positions"

lemma judge_edge_edge: "judge_edge w t i e = Inr j \<Longrightarrow> jl_edge j = e"
  by (auto simp: judge_edge_def Let_def bindR_Inr_iff)

lemma judge_edges_prefix:
  assumes "judge_edges w t i edges = (js, stop)"
  shows "\<exists>rest. filter (positioned (cf_positions t)) edges = map jl_edge js @ rest
    \<and> (stop = None \<longrightarrow> rest = [])"
  using assms
proof (induction edges arbitrary: i js stop)
  case (Cons e edges)
  show ?case
  proof (cases "positioned (cf_positions t) e")
    case False
    then have "judge_edges w t (i + 1) edges = (js, stop)" using Cons.prems by (auto simp: positioned_def)
    with Cons.IH False show ?thesis by simp
  next
    case True
    show ?thesis
    proof (cases "judge_edge w t i e")
      case (Inl exc)
      then have "js = []" "stop \<noteq> None" using True Inl Cons.prems by (auto simp: positioned_def)
      then show ?thesis by auto
    next
      case (Inr j)
      then obtain rest where js: "js = j # rest" "judge_edges w t (i + 1) edges = (rest, stop)"
        using True Cons.prems by (auto simp: positioned_def split: prod.splits)
      with Cons.IH [OF js(2)] judge_edge_edge [OF Inr] True show ?thesis by auto
    qed
  qed
qed simp

lemma config_preview_prefix:
  assumes "config_preview w config edges = (js, stop)"
  shows "\<exists>rest. filter (positioned (config_positions (mapping_section config ''station'')
      (mapping_section config ''swarm''))) edges = map jl_edge js @ rest \<and> (stop = None \<longrightarrow> rest = [])"
  using assms judge_edges_prefix [of w "\<lparr>cf_config = config,
      cf_communication = mapping_section config ''communication'', cf_definitions = by_id items [],
      cf_assignments = mapping_section (mapping_section config ''antennas'') ''assignments'',
      cf_positions = config_positions (mapping_section config ''station'') (mapping_section config ''swarm''),
      cf_flags = config_flags (mapping_section config ''station'') (mapping_section config ''swarm'')\<rparr>" 0 edges js stop
      for items]
  by (auto simp: config_preview_def Let_def split: sum.splits)

text \<open>C40 when \<open>validate_config_topology\<close> returns, the preview holds, in order, the edges
  that have both positions, up to the first one whose computation raises; as soon as one link was
  judged, the topology is reported operational exactly when it satisfies the structural and physical
  rules and every judged link is feasible, whatever verdicts were passed in and whatever links were
  left out; without a judged link the passed verdicts count.\<close>

theorem config_topology_operational:
  assumes "validate_config_topology w eig config verdicts = Some (Inr p)"
    and "config_topology_input config verdicts = Inr t"
    and "config_preview w config (validated_edges t) = (js, stop)"
  shows "(tv_operational (ct_validation p) \<longleftrightarrow>
        structure_rules t
        \<and> physical_rules (ti_altitude_bounds_m t) (ti_minimum_separation_m t) (ti_positions t)
        \<and> (if js = [] then (case verdicts of
              None \<Rightarrow> True | Some f \<Rightarrow> list_all (\<lambda>e. map_of f e = Some True) (validated_edges t))
           else list_all (\<lambda>j. fd_feasible (jl_decision j)) js))
    \<and> ct_link_preview p = map judged_as_dict js
    \<and> (\<exists>rest. filter (positioned (ti_positions t)) (validated_edges t) = map jl_edge js @ rest
         \<and> (stop = None \<longrightarrow> rest = []))"
proof -
  from assms(1,2) obtain v where v: "validate_topology eig t = Some (Inr v)"
    and p: "(case config_preview w config (tv_edges v) of (js, stop) \<Rightarrow>
      \<lparr>ct_validation = with_preview js (v\<lparr>tv_warnings := tv_warnings v @ preview_warning w stop\<rparr>),
       ct_nodes = map fst (ti_positions t), ct_link_preview = map judged_as_dict js\<rparr>) = p"
    by (auto simp: validate_config_topology_def bindT_def split: option.splits sum.splits prod.splits)
  have edges: "tv_edges v = validated_edges t" by (rule validate_topology_spec(5) [OF v])
  have t: "ti_positions t = config_positions (mapping_section config ''station'') (mapping_section config ''swarm'')"
    "ti_link_feasibility t = verdicts"
    using assms(2) by (auto simp: config_topology_input_def Let_def bindR_Inr_iff)
  have spec: "tv_operational v \<longleftrightarrow> tv_structurally_valid v \<and> tv_physically_valid v \<and> blocked_edges t = []"
    using validate_topology_spec(3,4) [OF v] by blast
  have blocked: "blocked_edges t = [] \<longleftrightarrow> (case verdicts of
      None \<Rightarrow> True | Some f \<Rightarrow> list_all (\<lambda>e. map_of f e = Some True) (validated_edges t))"
    by (simp add: blocked_edges_def t filter_empty_conv list_all_iff split: option.split)
  have "tv_operational (ct_validation p) \<longleftrightarrow> tv_structurally_valid v \<and> tv_physically_valid v
      \<and> (if js = [] then blocked_edges t = [] else list_all (\<lambda>j. fd_feasible (jl_decision j)) js)"
    using p [symmetric] by (simp add: edges assms(3) with_preview_def Let_def spec)
  moreover have "ct_link_preview p = map judged_as_dict js"
    using p [symmetric] by (simp add: edges assms(3))
  ultimately show ?thesis
    unfolding validate_topology_spec(1,2) [OF v] physical_errors_Nil blocked t(1)
    using config_preview_prefix [OF assms(3)] by blast
qed

definition one_relay_config :: pydict where
  "one_relay_config =
     [(''topology'', PDict [(''branches'', PList [PList [PInt 1]])]),
      (''swarm'', PDict [(''relay_count'', PInt 1)])]"

lemma config_topology_operational_witness:
  "\<forall>w. \<exists>p. validate_config_topology w (\<lambda>_ _. None) one_relay_config None = Some (Inr p)
     \<and> tv_operational (ct_validation p)"
proof
  fix w
  obtain t where t: "config_topology_input one_relay_config None = Inr t" and fields: "ti_mode t = ''chain''"
    "ti_relay_count t = 1" "ti_branches t = PList [PList [PInt 1]]" "ti_source t = ''station''" "ti_sinks t = []"
    "ti_positions t = []" "ti_failed_nodes t = []" "ti_manual_edges t = PList []"
    by (simp add: config_topology_input_def Let_def one_relay_config_def mapping_section_def config_failed_nodes_def
        ptuple_def fget_def config_positions_def listed_drones_def is_sequence_def)
  have branches: "validated_branches t = [[1]]" unfolding validated_branches_def fields by code_simp
  have nodes: "validated_nodes t = [''station'', ''drone_1'']" unfolding validated_nodes_def fields by code_simp
  have chain: "py_lower ''chain'' = ''chain''" by code_simp
  have edges: "validated_edges t = [(''station'', ''drone_1'')]"
    unfolding validated_edges_def branches fields by code_simp
  have sinks: "validated_sinks t = [''drone_1'']" unfolding validated_sinks_def branches fields by code_simp
  obtain v where v: "validate_topology (\<lambda>_ _. None) t = Some (Inr v)"
    by (rule validate_topology_returns [of t]) (simp_all add: nodes sinks fields)
  have none: "config_preview w one_relay_config (validated_edges t) = ([], None)"
    by (simp add: edges config_preview_def Let_def one_relay_config_def mapping_section_def ptuple_def
        config_positions_def listed_drones_def is_sequence_def)
  obtain p where p: "validate_config_topology w (\<lambda>_ _. None) one_relay_config None = Some (Inr p)"
    using none by (simp add: validate_config_topology_def t v validate_topology_spec(5) [OF v])
  have "(''station'', ''drone_1'') \<in> {(''station'', ''drone_1'')}\<^sup>*" by blast
  moreover have "acyclic {(''station'', ''drone_1'')}" by (auto simp: acyclic_def trancl_insert)
  ultimately have "structure_rules t"
    by (simp add: structure_rules_def Let_def topology_modes_def sinks edges nodes branches fields chain)
  then show "\<exists>p. validate_config_topology w (\<lambda>_ _. None) one_relay_config None = Some (Inr p)
     \<and> tv_operational (ct_validation p)"
    using config_topology_operational [OF p t none] p by (simp add: fields physical_rules_def)
qed

end
