(* ===== verification/Units.thy ===== *)
theory Units
  imports Link
begin

text \<open>
  \<open>netlab/units.py\<close>: unit factors, decibel conversions and the two coordinate frames. The power and the
  logarithm come from the C library.
\<close>

definition frequency_factors :: "(string \<times> pyfloat) list" where
  "frequency_factors =
     [(''hz'', Fin 1), (''khz'', Fin 1000), (''mhz'', Fin 1000000), (''ghz'', Fin 1000000000)]"

definition time_factors :: "(string \<times> pyfloat) list" where
  "time_factors =
     [(''s'', Fin 1), (''ms'', rnd64 (1 / 1000)), (''us'', rnd64 (1 / 1000000)),
      (''ns'', rnd64 (1 / 1000000000))]"

definition scaled_by :: "(string \<times> pyfloat) list \<Rightarrow> pyval \<Rightarrow> string \<Rightarrow> pyfloat res" where
  "scaled_by factors v unit =
     (case map_of factors (py_lower (py_strip unit)) of
        None \<Rightarrow> Inl ValueError
      | Some factor \<Rightarrow> bindR (py_float v) (\<lambda>x. Inr (fmul x factor)))"

definition hz :: "pyval \<Rightarrow> string \<Rightarrow> pyfloat res" where
  "hz = scaled_by frequency_factors"

definition seconds :: "pyval \<Rightarrow> string \<Rightarrow> pyfloat res" where
  "seconds = scaled_by time_factors"

definition dbm_to_watts :: "libm \<Rightarrow> pyval \<Rightarrow> pyfloat res" where
  "dbm_to_watts m dbm =
     bindR (py_float dbm) (\<lambda>x. bindR (fdiv (fsub x (Fin 30)) (Fin 10)) (pow10_float m))"

definition watts_to_dbm :: "libm \<Rightarrow> pyval \<Rightarrow> pyfloat res" where
  "watts_to_dbm m watts =
     (case num_of watts of
        None \<Rightarrow> Inl TypeError
      | Some w \<Rightarrow>
          if fle w (Fin 0) then Inl ValueError
          else bindR (py_float watts) (\<lambda>x. bindR (math_log (lm_log10 m) (PFloat x)) (\<lambda>l.
                 Inr (fadd (fmul (Fin 10) l) (Fin 30)))))"

text \<open>The length is checked before the elements are converted.\<close>

definition three_floats :: "pyval \<Rightarrow> vec3 res" where
  "three_floats position =
     bindR (ptuple position) (\<lambda>xs.
       if length xs \<noteq> 3 then Inl ValueError
       else bindR (mapR py_float xs) (\<lambda>fs. case fs of [a, b, c] \<Rightarrow> Inr (a, b, c) | _ \<Rightarrow> Inl ValueError))"

definition enu_to_ned :: "pyval \<Rightarrow> vec3 res" where
  "enu_to_ned position = bindR (three_floats position) (\<lambda>(e, n, u). Inr (n, e, fneg u))"

definition ned_to_enu :: "pyval \<Rightarrow> vec3 res" where
  "ned_to_enu position = bindR (three_floats position) (\<lambda>(n, e, d). Inr (e, n, fneg d))"

definition finite_vec3 :: "pyval \<Rightarrow> vec3 res" where
  "finite_vec3 v =
     bindR (ptuple v) (\<lambda>xs. bindR (mapR py_float xs) (\<lambda>fs.
       case fs of
         [a, b, c] \<Rightarrow> if is_finite a \<and> is_finite b \<and> is_finite c then Inr (a, b, c) else Inl ValueError
       | _ \<Rightarrow> Inl ValueError))"

definition vec3_value :: "vec3 \<Rightarrow> pyval" where
  "vec3_value v = (case v of (x, y, z) \<Rightarrow> PList [PFloat x, PFloat y, PFloat z])"

lemma three_floats_value [simp]: "three_floats (vec3_value v) = Inr v"
  by (cases v) (simp add: three_floats_def vec3_value_def ptuple_def)

lemma fneg_fneg [simp]: "fneg (fneg x) = x"
  by (cases x) simp_all

lemma frames_round_trip:
  "enu_to_ned position = Inr v \<Longrightarrow> bindR (three_floats position) Inr = ned_to_enu (vec3_value v)"
  by (auto simp: enu_to_ned_def ned_to_enu_def bindR_Inr_iff)

end
