(* ===== verification/Algorithm_Contracts.thy ===== *)
theory Algorithm_Contracts
  imports Hashing Py_Math
begin

text \<open>
  The contracts of researcher algorithms (\<open>netlab/algorithm_contracts.py\<close>): resource budgets, manifests
  and actions, with the reading of unchecked mappings and the lists of violations. The package hash and
  the manifest file are read from disk and are not modelled.
\<close>

definition ALGORITHM_API_VERSION :: string where
  "ALGORITHM_API_VERSION = ''2.0''"

definition execution_modes :: "string list" where
  "execution_modes =
     [''isolated_python'', ''external_ros2'', ''oci_container'', ''pettingzoo_parallel'', ''replay'']"

definition algorithm_categories :: "string list" where
  "algorithm_categories =
     [''controller'', ''trajectory_planner'', ''formation_controller'', ''topology_generator'',
      ''routing_policy'', ''recovery_policy'', ''standby_selector'', ''propagation_model'', ''antenna_model'',
      ''traffic_generator'', ''scheduler'', ''energy_model'', ''metric'', ''optimizer'', ''safety_filter'',
      ''marl_policy'', ''import_export_adapter'']"

definition action_fields :: "string list" where
  "action_fields =
     [''desired_positions'', ''desired_velocities'', ''desired_accelerations'', ''desired_jerks'',
      ''desired_yaws_deg'', ''desired_trajectories'', ''formation_targets'', ''topology_candidate'',
      ''route_candidate'', ''branch_candidates'', ''user_association'', ''traffic_schedule'',
      ''standby_selection'', ''recovery_action'', ''antenna_commands'', ''transmit_power_commands_dbm'',
      ''channel_allocation'', ''metrics'', ''optimization_result'']"

definition coordinate_frames :: "string list" where
  "coordinate_frames = [''ENU'', ''NED'', ''ECEF'', ''WGS84'', ''ISAAC_STAGE'']"

section \<open>Patterns and paths\<close>

definition is_lower :: "char \<Rightarrow> bool" where
  "is_lower c = (97 \<le> (of_char c :: nat) \<and> (of_char c :: nat) \<le> 122)"

definition is_upper :: "char \<Rightarrow> bool" where
  "is_upper c = (65 \<le> (of_char c :: nat) \<and> (of_char c :: nat) \<le> 90)"

text \<open>\<open>^[a-z][a-z0-9_]{2,63}$\<close>.\<close>

definition algorithm_id_ok :: "string \<Rightarrow> bool" where
  "algorithm_id_ok s =
     (3 \<le> length s \<and> length s \<le> 64 \<and> is_lower (hd s)
      \<and> list_all (\<lambda>c. is_lower c \<or> is_digit c \<or> c = CHR ''_'') (tl s))"

text \<open>\<open>\d+\.\d+\.\d+(?:[-+][A-Za-z0-9.-]+)?\<close>: each run of digits ends where the digits end.\<close>

definition version_suffix_ok :: "string \<Rightarrow> bool" where
  "version_suffix_ok s =
     (case s of
        [] \<Rightarrow> True
      | c # rest \<Rightarrow>
          c \<in> {CHR ''-'', CHR ''+''} \<and> rest \<noteq> []
          \<and> list_all (\<lambda>c. is_lower c \<or> is_upper c \<or> is_digit c \<or> c = CHR ''.'' \<or> c = CHR ''-'') rest)"

definition after_digits :: "string \<Rightarrow> string option" where
  "after_digits s =
     (if takeWhile is_digit s = [] then None else Some (dropWhile is_digit s))"

definition after_dot :: "string \<Rightarrow> string option" where
  "after_dot s = (case s of c # rest \<Rightarrow> if c = CHR ''.'' then Some rest else None | [] \<Rightarrow> None)"

definition version_ok :: "string \<Rightarrow> bool" where
  "version_ok s =
     (case Option.bind (Option.bind (Option.bind (Option.bind (after_digits s) after_dot) after_digits)
             after_dot) after_digits of
        None \<Rightarrow> False | Some rest \<Rightarrow> version_suffix_ok rest)"

fun split_slash :: "string \<Rightarrow> string list" where
  "split_slash [] = [[]]"
| "split_slash (c # s) =
     (if c = CHR ''/'' then [] # split_slash s
      else case split_slash s of [] \<Rightarrow> [[c]] | p # ps \<Rightarrow> (c # p) # ps)"

definition path_parts :: "string \<Rightarrow> string list" where
  "path_parts s = filter (\<lambda>p. p \<noteq> [] \<and> p \<noteq> ''.'') (split_slash s)"

definition entrypoint_ok :: "string \<Rightarrow> bool" where
  "entrypoint_ok s = (s \<noteq> [] \<and> \<not> starts_with s ''/'' \<and> ''..'' \<notin> set (path_parts s))"

section \<open>Budgets\<close>

record resource_budget =
  rb_timeout_s :: pyfloat
  rb_memory_mb :: int
  rb_cpu_cores :: pyfloat
  rb_output_kb :: int
  rb_gpu_required :: bool
  rb_network_policy :: string

definition error_if :: "bool \<Rightarrow> string \<Rightarrow> string list" where
  "error_if b message = (if b then [message] else [])"

definition budget_errors :: "resource_budget \<Rightarrow> string list" where
  "budget_errors b =
     error_if (\<not> (fle (rnd64 (1 / 1000)) (rb_timeout_s b) \<and> fle (rb_timeout_s b) (Fin 300)))
       ''resource_budget.timeout_s must be within [0.001, 300].''
     @ error_if (\<not> (16 \<le> rb_memory_mb b \<and> rb_memory_mb b \<le> 131072))
       ''resource_budget.memory_mb must be within [16, 131072].''
     @ error_if (\<not> (fle (rnd64 (1 / 20)) (rb_cpu_cores b) \<and> fle (rb_cpu_cores b) (Fin 128)))
       ''resource_budget.cpu_cores must be within [0.05, 128].''
     @ error_if (\<not> (8 \<le> rb_output_kb b \<and> rb_output_kb b \<le> 1048576))
       ''resource_budget.output_kb must be within [8, 1048576].''
     @ error_if (rb_network_policy b \<notin> {''deny'', ''loopback'', ''experiment_network''})
       ''resource_budget.network_policy is unsupported.''"

definition budget_as_dict :: "resource_budget \<Rightarrow> pydict" where
  "budget_as_dict b =
     [(''timeout_s'', PFloat (rb_timeout_s b)), (''memory_mb'', PInt (rb_memory_mb b)),
      (''cpu_cores'', PFloat (rb_cpu_cores b)), (''output_kb'', PInt (rb_output_kb b)),
      (''gpu_required'', PBool (rb_gpu_required b)), (''network_policy'', PStr (rb_network_policy b))]"

section \<open>Manifests\<close>

record algorithm_manifest =
  am_algorithm_id :: string
  am_name :: string
  am_version :: string
  am_api_version :: string
  am_category :: string
  am_entrypoint :: string
  am_execution_mode :: string
  am_author :: string
  am_organization :: string
  am_license :: string
  am_description :: string
  am_citations :: "pydict list"
  am_supported_fidelity_profiles :: "string list"
  am_required_state_fields :: "string list"
  am_required_ros_interfaces :: "string list"
  am_observation_schema :: pydict
  am_action_schema :: pydict
  am_parameter_schema :: pydict
  am_resource_budget :: resource_budget
  am_deterministic_seed :: bool
  am_checkpoint_contract :: pydict
  am_safety_fallback :: string
  am_assumptions :: "string list"
  am_validity_domain :: string
  am_known_limitations :: "string list"
  am_source_hash :: string
  am_dependency_lock_hash :: string
  am_package_path :: string

definition category_aliases :: "(string \<times> string) list" where
  "category_aliases =
     [(''trajectory'', ''trajectory_planner''), (''routing'', ''routing_policy''),
      (''recovery'', ''recovery_policy''), (''antenna'', ''antenna_model''), (''experiment'', ''optimizer''),
      (''formation'', ''formation_controller'')]"

definition execution_aliases :: "(string \<times> string) list" where
  "execution_aliases =
     [(''isolated_worker'', ''isolated_python''), (''isolated_python_worker'', ''isolated_python''),
      (''trusted_in_process'', ''isolated_python''), (''container'', ''oci_container'')]"

definition alias_of :: "(string \<times> string) list \<Rightarrow> string \<Rightarrow> string" where
  "alias_of table s = (case map_of table s of Some t \<Rightarrow> t | None \<Rightarrow> s)"

text \<open>\<open>str(value.get(key, default)).strip()\<close> and \<open>tuple(str(item) for item in ...)\<close>.\<close>

definition stripped :: "pydict \<Rightarrow> string \<Rightarrow> string \<Rightarrow> string" where
  "stripped d key dflt = py_strip (py_str (dget d key (PStr dflt)))"

definition text_of :: "pydict \<Rightarrow> string \<Rightarrow> string" where
  "text_of d key = py_str (dget d key (PStr ''''))"

definition str_list :: "pyval \<Rightarrow> string list res" where
  "str_list v = bindR (ptuple v) (\<lambda>xs. Inr (map py_str xs))"

definition budget_from_mapping :: "pydict \<Rightarrow> resource_budget res" where
  "budget_from_mapping v =
     (let b = as_dict (dget v ''resource_budget'' (PDict []))
      in bindR (py_float (dget b ''timeout_s'' (dget v ''timeout_s'' (PFloat (Fin (1 / 4)))))) (\<lambda>timeout.
         bindR (py_int (dget b ''memory_mb'' (PInt 256))) (\<lambda>memory.
         bindR (py_float (dget b ''cpu_cores'' (PFloat (Fin 1)))) (\<lambda>cores.
         bindR (py_int (dget b ''output_kb'' (PInt 256))) (\<lambda>output.
           Inr \<lparr>rb_timeout_s = timeout, rb_memory_mb = memory, rb_cpu_cores = cores,
                rb_output_kb = output, rb_gpu_required = truthy (dget b ''gpu_required'' (PBool False)),
                rb_network_policy = py_str (dget b ''network_policy'' (PStr ''deny''))\<rparr>)))))"

definition manifest_from_mapping :: "pydict \<Rightarrow> string \<Rightarrow> algorithm_manifest res" where
  "manifest_from_mapping v package_path =
     bindR (budget_from_mapping v) (\<lambda>budget.
     bindR (str_list (dget v ''supported_fidelity_profiles''
              (dget v ''supported_fidelity''
                (PList [dget v ''required_fidelity'' (PStr ''F1_ANALYTICAL'')])))) (\<lambda>profiles.
     bindR (str_list (dget v ''required_state_fields'' (PList []))) (\<lambda>state_fields.
     bindR (str_list (dget v ''required_ros_interfaces'' (PList []))) (\<lambda>interfaces.
     bindR (str_list (dget v ''assumptions'' (PList []))) (\<lambda>assumptions.
     bindR (str_list (dget v ''known_limitations'' (PList []))) (\<lambda>limitations.
       Inr \<lparr>am_algorithm_id = py_strip (py_str (dget v ''algorithm_id'' (dget v ''plugin_id'' (PStr '''')))),
            am_name = stripped v ''name'' '''', am_version = stripped v ''version'' ''0.0.0'',
            am_api_version = stripped v ''api_version'' '''',
            am_category = alias_of category_aliases (stripped v ''category'' ''controller''),
            am_entrypoint = stripped v ''entrypoint'' ''algorithm.py'',
            am_execution_mode =
              alias_of execution_aliases (stripped v ''execution_mode'' ''isolated_python''),
            am_author = stripped v ''author'' '''', am_organization = stripped v ''organization'' '''',
            am_license = stripped v ''license'' '''', am_description = stripped v ''description'' '''',
            am_citations = map as_dict (filter is_mapping (as_list (dget v ''citations'' (PList [])))),
            am_supported_fidelity_profiles = profiles, am_required_state_fields = state_fields,
            am_required_ros_interfaces = interfaces,
            am_observation_schema = as_dict (dget v ''observation_schema'' (PDict [])),
            am_action_schema = as_dict (dget v ''action_schema'' (PDict [])),
            am_parameter_schema =
              as_dict (dget v ''parameter_schema'' (dget v ''parameters'' (PDict []))),
            am_resource_budget = budget,
            am_deterministic_seed = truthy (dget v ''deterministic_seed'' (PBool True)),
            am_checkpoint_contract = as_dict (dget v ''checkpoint_contract'' (PDict [])),
            am_safety_fallback =
              py_str (dget v ''safety_fallback'' (dget v ''safe_fallback'' (PStr ''hold_position''))),
            am_assumptions = assumptions, am_validity_domain = text_of v ''validity_domain'',
            am_known_limitations = limitations, am_source_hash = text_of v ''source_hash'',
            am_dependency_lock_hash = text_of v ''dependency_lock_hash'',
            am_package_path = package_path\<rparr>))))))"

definition manifest_errors :: "algorithm_manifest \<Rightarrow> string list" where
  "manifest_errors m =
     error_if (\<not> algorithm_id_ok (am_algorithm_id m)) ''algorithm_id must match ^[a-z][a-z0-9_]{2,63}$.''
     @ error_if (am_name m = []) ''name is required.''
     @ error_if (\<not> version_ok (am_version m)) ''version must be semantic version syntax.''
     @ error_if (am_api_version m \<noteq> ALGORITHM_API_VERSION)
         (''api_version must be '' @ ALGORITHM_API_VERSION @ ''.'')
     @ error_if (am_category m \<notin> set algorithm_categories)
         (''category '' @ string_repr (am_category m) @ '' is unsupported.'')
     @ error_if (am_execution_mode m \<notin> set execution_modes)
         (''execution_mode '' @ string_repr (am_execution_mode m) @ '' is unsupported.'')
     @ error_if (\<not> entrypoint_ok (am_entrypoint m)) ''entrypoint must be a safe package-relative path.''
     @ error_if (am_supported_fidelity_profiles m = []) ''supported_fidelity_profiles must not be empty.''
     @ budget_errors (am_resource_budget m)"

definition strings_value :: "string list \<Rightarrow> pyval" where
  "strings_value ss = PList (map PStr ss)"

definition manifest_as_dict :: "algorithm_manifest \<Rightarrow> pydict" where
  "manifest_as_dict m =
     [(''algorithm_id'', PStr (am_algorithm_id m)), (''name'', PStr (am_name m)),
      (''version'', PStr (am_version m)), (''api_version'', PStr (am_api_version m)),
      (''category'', PStr (am_category m)), (''entrypoint'', PStr (am_entrypoint m)),
      (''execution_mode'', PStr (am_execution_mode m)), (''author'', PStr (am_author m)),
      (''organization'', PStr (am_organization m)), (''license'', PStr (am_license m)),
      (''description'', PStr (am_description m)),
      (''citations'', PList (map PDict (am_citations m))),
      (''supported_fidelity_profiles'', strings_value (am_supported_fidelity_profiles m)),
      (''required_state_fields'', strings_value (am_required_state_fields m)),
      (''required_ros_interfaces'', strings_value (am_required_ros_interfaces m)),
      (''observation_schema'', PDict (am_observation_schema m)),
      (''action_schema'', PDict (am_action_schema m)),
      (''parameter_schema'', PDict (am_parameter_schema m)),
      (''resource_budget'', PDict (budget_as_dict (am_resource_budget m))),
      (''deterministic_seed'', PBool (am_deterministic_seed m)),
      (''checkpoint_contract'', PDict (am_checkpoint_contract m)),
      (''safety_fallback'', PStr (am_safety_fallback m)),
      (''assumptions'', strings_value (am_assumptions m)),
      (''validity_domain'', PStr (am_validity_domain m)),
      (''known_limitations'', strings_value (am_known_limitations m)),
      (''source_hash'', PStr (am_source_hash m)),
      (''dependency_lock_hash'', PStr (am_dependency_lock_hash m)),
      (''package_path'', PStr (am_package_path m))]"

end
