(* ===== verification/Algorithm_Actions.thy ===== *)
theory Algorithm_Actions
  imports Algorithm_Contracts Models
begin

text \<open>
  Actions of researcher algorithms: \<open>AlgorithmAction\<close> and \<open>normalize_vec3_map\<close> of
  \<open>netlab/algorithm_contracts.py\<close>. A payload built from the fields of \<open>ACTION_FIELDS\<close>, a set, lists
  them in the order of the source.
\<close>

record algorithm_action =
  ac_algorithm_id :: string
  ac_algorithm_version :: string
  ac_source_revision_id :: string
  ac_timestamp_s :: pyfloat
  ac_validity_horizon_s :: pyfloat
  ac_coordinate_frame :: string
  ac_units :: pydict
  ac_payload :: pydict
  ac_confidence :: "pyfloat option"
  ac_uncertainty :: pydict
  ac_objective_value :: "pyfloat option"
  ac_constraint_residuals :: "(string \<times> pyfloat) list"
  ac_computation_duration_s :: pyfloat
  ac_termination_reason :: string
  ac_fallback :: bool
  ac_explanation :: pydict
  ac_schema_version :: string

text \<open>\<open>dict(v)\<close> for a mapping or a sequence of pairs with string keys.\<close>

definition pair_of :: "pyval \<Rightarrow> (string \<times> pyval) res" where
  "pair_of v =
     bindR (ptuple v) (\<lambda>xs.
       case xs of
         [k, x] \<Rightarrow> (case k of PStr s \<Rightarrow> Inr (s, x) | _ \<Rightarrow> Inl TypeError)
       | _ \<Rightarrow> Inl ValueError)"

definition py_dict :: "pyval \<Rightarrow> pydict res" where
  "py_dict v =
     (case v of
        PDict d \<Rightarrow> Inr d
      | _ \<Rightarrow> bindR (ptuple v) (\<lambda>xs. bindR (mapR pair_of xs) (\<lambda>ps. Inr (dupdate [] ps))))"

definition optional_float :: "pyval \<Rightarrow> pyfloat option res" where
  "optional_float v = (if v = PNone then Inr None else bindR (py_float v) (\<lambda>f. Inr (Some f)))"

definition default_units :: pydict where
  "default_units =
     [(''position'', PStr ''m''), (''velocity'', PStr ''m/s''), (''acceleration'', PStr ''m/s^2''),
      (''jerk'', PStr ''m/s^3'')]"

definition payload_of :: "pydict \<Rightarrow> pydict" where
  "payload_of v =
     (case dget v ''payload'' PNone of
        PDict d \<Rightarrow> d
      | _ \<Rightarrow> concat (map (\<lambda>k. case map_of v k of None \<Rightarrow> [] | Some x \<Rightarrow> [(k, x)]) action_fields))"

definition residuals_of :: "pydict \<Rightarrow> (string \<times> pyfloat) list res" where
  "residuals_of v =
     bindR (py_dict (dget v ''constraint_residuals'' (PDict []))) (\<lambda>d.
       mapR (\<lambda>(k, x). bindR (py_float x) (\<lambda>f. Inr (k, f))) d)"

definition action_from_mapping ::
  "time \<Rightarrow> pydict \<Rightarrow> algorithm_manifest \<Rightarrow> string \<Rightarrow> pyfloat \<Rightarrow> algorithm_action res" where
  "action_from_mapping now v m source_revision_id duration =
     bindR (py_float (dget v ''timestamp_s'' (PFloat now))) (\<lambda>timestamp.
     bindR (py_float (dget v ''validity_horizon_s''
              (PFloat (py_max (rnd64 (1 / 100))
                 (fmul (rb_timeout_s (am_resource_budget m)) (Fin 4)))))) (\<lambda>horizon.
     bindR (py_dict (dget v ''units'' (PDict default_units))) (\<lambda>units.
     bindR (optional_float (dget v ''confidence'' PNone)) (\<lambda>confidence.
     bindR (optional_float (dget v ''objective_value'' PNone)) (\<lambda>objective.
     bindR (residuals_of v) (\<lambda>residuals.
     bindR (py_float (dget v ''computation_duration_s'' (PFloat duration))) (\<lambda>spent.
       Inr \<lparr>ac_algorithm_id = py_str (dget v ''algorithm_id'' (PStr (am_algorithm_id m))),
            ac_algorithm_version = py_str (dget v ''algorithm_version'' (PStr (am_version m))),
            ac_source_revision_id =
              py_str (dget v ''source_revision_id'' (PStr source_revision_id)),
            ac_timestamp_s = timestamp, ac_validity_horizon_s = horizon,
            ac_coordinate_frame = py_str (dget v ''coordinate_frame'' (PStr ''ENU'')),
            ac_units = units, ac_payload = payload_of v, ac_confidence = confidence,
            ac_uncertainty = as_dict (dget v ''uncertainty'' (PDict [])),
            ac_objective_value = objective, ac_constraint_residuals = residuals,
            ac_computation_duration_s = spent,
            ac_termination_reason = py_str (dget v ''termination_reason'' (PStr ''completed'')),
            ac_fallback = truthy (dget v ''fallback'' (PBool False)),
            ac_explanation = as_dict (dget v ''explanation'' (PDict [])),
            ac_schema_version = ''2.0''\<rparr>)))))))"

definition unknown_fields :: "pydict \<Rightarrow> string list" where
  "unknown_fields payload =
     sort (filter (\<lambda>k. k \<notin> set action_fields) (remdups (map fst payload)))"

definition action_errors :: "time \<Rightarrow> algorithm_action \<Rightarrow> string list" where
  "action_errors now a =
     error_if (\<not> algorithm_id_ok (ac_algorithm_id a)) ''algorithm_id is invalid.''
     @ error_if (ac_source_revision_id a = []) ''source_revision_id is required.''
     @ error_if (ac_coordinate_frame a \<notin> set coordinate_frames) ''coordinate_frame is unsupported.''
     @ error_if (fle (ac_validity_horizon_s a) (Fin 0)) ''validity_horizon_s must be positive.''
     @ error_if (fgt (fsub now (ac_timestamp_s a)) (ac_validity_horizon_s a))
         ''algorithm action is stale.''
     @ error_if (unknown_fields (ac_payload a) \<noteq> [])
         (''unsupported action payload fields: ''
          @ py_repr (strings_value (unknown_fields (ac_payload a))) @ ''.'')
     @ error_if (case ac_confidence a of None \<Rightarrow> False
                 | Some c \<Rightarrow> \<not> (fle (Fin 0) c \<and> fle c (Fin 1))) ''confidence must be within [0, 1].''
     @ concat (map (\<lambda>(k, x). error_if (\<not> is_finite x) (''constraint residual '' @ k @ '' is not finite.''))
                 (ac_constraint_residuals a))"

definition action_as_dict :: "algorithm_action \<Rightarrow> pydict" where
  "action_as_dict a =
     [(''algorithm_id'', PStr (ac_algorithm_id a)),
      (''algorithm_version'', PStr (ac_algorithm_version a)),
      (''source_revision_id'', PStr (ac_source_revision_id a)),
      (''timestamp_s'', PFloat (ac_timestamp_s a)),
      (''validity_horizon_s'', PFloat (ac_validity_horizon_s a)),
      (''coordinate_frame'', PStr (ac_coordinate_frame a)), (''units'', PDict (ac_units a)),
      (''payload'', PDict (ac_payload a)), (''confidence'', opt_float (ac_confidence a)),
      (''uncertainty'', PDict (ac_uncertainty a)),
      (''objective_value'', opt_float (ac_objective_value a)),
      (''constraint_residuals'', PDict (map_values PFloat (ac_constraint_residuals a))),
      (''computation_duration_s'', PFloat (ac_computation_duration_s a)),
      (''termination_reason'', PStr (ac_termination_reason a)),
      (''fallback'', PBool (ac_fallback a)), (''explanation'', PDict (ac_explanation a)),
      (''schema_version'', PStr (ac_schema_version a))]"

section \<open>Vectors by entity\<close>

definition contract_vec3 :: "string \<Rightarrow> pyval \<Rightarrow> vec3 res" where
  "contract_vec3 name raw =
     (case raw of
        PList [a, b, c] \<Rightarrow>
          bindR (py_float a) (\<lambda>x. bindR (py_float b) (\<lambda>y. bindR (py_float c) (\<lambda>z.
            if is_finite x \<and> is_finite y \<and> is_finite z then Inr (x, y, z)
            else Inl (AlgorithmContractError (name @ '' contains a non-finite value.'')))))
      | _ \<Rightarrow> Inl (AlgorithmContractError (name @ '' must contain three numeric values.'')))"

definition normalize_vec3_map :: "pyval \<Rightarrow> string \<Rightarrow> (string \<times> vec3) list res" where
  "normalize_vec3_map v field_name =
     (case v of
        PDict d \<Rightarrow> mapR (\<lambda>(k, raw). bindR (contract_vec3 (field_name @ ''.'' @ k) raw) (\<lambda>p. Inr (k, p))) d
      | _ \<Rightarrow> Inl (AlgorithmContractError (field_name @ '' must be an object keyed by entity ID.'')))"

lemma contract_vec3_finite:
  "contract_vec3 name raw = Inr (x, y, z) \<Longrightarrow> is_finite x \<and> is_finite y \<and> is_finite z"
  by (auto simp: contract_vec3_def bindR_Inr_iff split: pyval.splits list.splits if_splits)

lemma normalize_vec3_map_keys:
  assumes "normalize_vec3_map v name = Inr d" shows "\<exists>e. v = PDict e \<and> map fst d = map fst e"
proof -
  have "map fst d = map fst e"
    if "mapR (\<lambda>(k, raw). bindR (contract_vec3 (name @ ''.'' @ k) raw) (\<lambda>p. Inr (k, p))) e = Inr d" for e
    using that by (induction e arbitrary: d) (auto simp: bindR_Inr_iff)
  with assms show ?thesis by (auto simp: normalize_vec3_map_def split: pyval.splits)
qed

end
