(* ===== verification/Safety_Shield.thy ===== *)
theory Safety_Shield
  imports Algorithm_Actions Link_Preview
begin

text \<open>
  The safety shield (\<open>netlab/safety_shield.py\<close>): the action of an algorithm is checked, projected into
  the service region and the motion envelope, and either accepted with the projected positions or
  replaced by an action that keeps every UAV where it is.

  \<open>shield_env\<close>: the clock of the staleness check, the readings during the \<open>i\<close>-th link, and the
  measured computation time.
\<close>

record shield_env =
  sh_now :: time
  sh_libm :: libm
  sh_link :: "nat \<Rightarrow> link_env"
  sh_elapsed :: pyfloat

record shield_issue =
  si_code :: string
  si_severity :: string
  si_message :: string
  si_entity :: string
  si_measured :: pyval
  si_limit :: pyval
  si_correction :: pyval

definition issue_as_dict :: "shield_issue \<Rightarrow> pydict" where
  "issue_as_dict i =
     [(''code'', PStr (si_code i)), (''severity'', PStr (si_severity i)),
      (''message'', PStr (si_message i)), (''entity'', PStr (si_entity i)),
      (''measured'', si_measured i), (''limit'', si_limit i), (''correction'', si_correction i)]"

definition shield_error :: "string \<Rightarrow> string \<Rightarrow> string \<Rightarrow> pyval \<Rightarrow> pyval \<Rightarrow> shield_issue" where
  "shield_error code message entity measured limit =
     \<lparr>si_code = code, si_severity = ''ERROR'', si_message = message, si_entity = entity,
      si_measured = measured, si_limit = limit, si_correction = PNone\<rparr>"

definition shield_warning ::
  "string \<Rightarrow> string \<Rightarrow> string \<Rightarrow> pyval \<Rightarrow> pyval \<Rightarrow> pyval \<Rightarrow> shield_issue" where
  "shield_warning code message entity measured limit correction =
     \<lparr>si_code = code, si_severity = ''WARNING'', si_message = message, si_entity = entity,
      si_measured = measured, si_limit = limit, si_correction = correction\<rparr>"

record shield_decision =
  sd_accepted :: bool
  sd_action :: pydict
  sd_issues :: "shield_issue list"
  sd_projected :: bool
  sd_fallback_applied :: bool
  sd_fallback :: string
  sd_link_preview :: "pydict list"
  sd_computation_s :: pyfloat
  sd_source_revision_id :: string

section \<open>Reading the snapshot and the configuration\<close>

type_synonym uav_table = "(string \<times> pydict) list"

definition uav_map :: "pydict \<Rightarrow> uav_table res" where
  "uav_map snapshot =
     (case dget snapshot ''uavs'' (PList []) of
        PDict d \<Rightarrow> Inr (map (\<lambda>(k, v). (k, as_dict v)) (filter (\<lambda>(k, v). is_mapping v) d))
      | v \<Rightarrow> bindR (ptuple v) (\<lambda>items.
          Inr (fold (\<lambda>item t. AList.update (py_str (dget (as_dict item) ''id'' PNone)) (as_dict item) t)
                 (filter (\<lambda>item. is_mapping item \<and> truthy (dget (as_dict item) ''id'' PNone)) items) [])))"

definition enu :: "vec3 \<Rightarrow> string \<Rightarrow> vec3 res" where
  "enu v frame =
     (case v of (x, y, z) \<Rightarrow>
        if frame = ''ENU'' \<or> frame = ''ISAAC_STAGE'' then Inr (x, y, z)
        else if frame = ''NED'' then Inr (y, x, fneg z)
        else Inl (AlgorithmContractError
               (''The safety shield cannot project frame '' @ string_repr frame
                @ '' into ENU without a configured transform.'')))"

text \<open>\<open>v[i]\<close> for a value that may be no list.\<close>

definition py_index :: "pyval \<Rightarrow> nat \<Rightarrow> pyval res" where
  "py_index v i =
     (case v of
        PList xs \<Rightarrow> if i < length xs then Inr (xs ! i) else Inl IndexError
      | PStr s \<Rightarrow> if i < length s then Inr (PStr [s ! i]) else Inl IndexError
      | PDict d \<Rightarrow> Inl (KeyError (show_nat i))
      | _ \<Rightarrow> Inl TypeError)"

record service_bounds =
  sb_min_x :: pyfloat
  sb_max_x :: pyfloat
  sb_min_y :: pyfloat
  sb_max_y :: pyfloat
  sb_min_alt :: pyfloat
  sb_max_alt :: pyfloat

definition half_step :: "pyfloat \<Rightarrow> pyfloat \<Rightarrow> (pyfloat \<times> pyfloat) res" where
  "half_step c extent = bindR (fdiv extent (Fin 2)) (\<lambda>h. Inr (fsub c h, fadd c h))"

definition service_bounds_of :: "pydict \<Rightarrow> service_bounds res" where
  "service_bounds_of config =
     (let region = mapping_section config ''service_region'';
          center = dget region ''center'' origin_value
      in bindR (bindR (py_index center 0) py_float) (\<lambda>cx.
         bindR (bindR (py_index center 1) py_float) (\<lambda>cy.
         bindR (fget region ''length_m'' 1000) (\<lambda>len.
         bindR (fget region ''width_m'' 1000) (\<lambda>width.
         bindR (fget region ''min_altitude_m'' (- 1000000)) (\<lambda>low.
         bindR (fget region ''max_altitude_m'' 1000000) (\<lambda>high.
         bindR (half_step cx (py_max (Fin 1) len)) (\<lambda>(min_x, max_x).
         bindR (half_step cy (py_max (Fin 1) width)) (\<lambda>(min_y, max_y).
           Inr \<lparr>sb_min_x = min_x, sb_max_x = max_x, sb_min_y = min_y, sb_max_y = max_y,
                sb_min_alt = low, sb_max_alt = high\<rparr>)))))))))"

definition clamp :: "pyfloat \<Rightarrow> pyfloat \<Rightarrow> pyfloat \<Rightarrow> pyfloat" where
  "clamp v lower upper = py_max lower (py_min upper v)"

definition position_keys :: "string list" where
  "position_keys =
     [''measured_position'', ''simulated_position'', ''position'', ''commanded_position'', ''desired_position'']"

text \<open>The first key that holds a list of at least three elements.\<close>

fun first_position :: "pydict \<Rightarrow> string list \<Rightarrow> vec3 res" where
  "first_position item [] = Inr (Fin 0, Fin 0, Fin 0)"
| "first_position item (k # ks) =
     (case dget item k PNone of
        PList (a # b # c # rest) \<Rightarrow>
          bindR (py_float a) (\<lambda>x. bindR (py_float b) (\<lambda>y. bindR (py_float c) (\<lambda>z. Inr (x, y, z))))
      | _ \<Rightarrow> first_position item ks)"

definition current_position :: "pydict \<Rightarrow> vec3 res" where
  "current_position item = first_position item position_keys"

definition vec_map :: "(pyfloat \<Rightarrow> pyfloat \<Rightarrow> pyfloat) \<Rightarrow> vec3 \<Rightarrow> vec3 \<Rightarrow> vec3" where
  "vec_map f v w = (case (v, w) of ((a, b, c), (x, y, z)) \<Rightarrow> (f a x, f b y, f c z))"

definition norm3 :: "vec3 \<Rightarrow> pyfloat res" where
  "norm3 v = (case v of (x, y, z) \<Rightarrow> fsqrt (fadd (fadd (fmul x x) (fmul y y)) (fmul z z)))"

definition tolerance_m :: pyfloat where
  "tolerance_m = rnd64 (1 / 1000000000)"

definition tiny_distance :: pyfloat where
  "tiny_distance = rnd64 (1 / 1000000000000)"

definition project_step :: "vec3 \<Rightarrow> vec3 \<Rightarrow> pyfloat \<Rightarrow> vec3 res" where
  "project_step current target max_distance =
     (let delta = vec_map fsub target current
      in bindR (norm3 delta) (\<lambda>distance.
           if fle distance max_distance \<or> fle distance tiny_distance then Inr target
           else bindR (fdiv max_distance distance) (\<lambda>scale.
             Inr (vec_map (\<lambda>c d. fadd c (fmul d scale)) current delta))))"

definition uav_up :: "pydict \<Rightarrow> bool" where
  "uav_up item = (truthy (dget item ''active'' (PBool True)) \<and> \<not> truthy (dget item ''failed'' (PBool False)))"

definition fallback_positions :: "uav_table \<Rightarrow> (string \<times> vec3) list res" where
  "fallback_positions uavs =
     mapR (\<lambda>(k, item). bindR (current_position item) (\<lambda>p. Inr (k, p)))
       (filter (\<lambda>(k, item). uav_up item) uavs)"

definition positions_value :: "(string \<times> vec3) list \<Rightarrow> pyval" where
  "positions_value ps = PDict (map_values (\<lambda>(x, y, z). PList [PFloat x, PFloat y, PFloat z]) ps)"

section \<open>Links of the proposed state\<close>

text \<open>The gain and the cable loss of an entity's antenna.\<close>

definition antenna_gain :: "pydict \<Rightarrow> string \<Rightarrow> (pyfloat \<times> pyfloat) res" where
  "antenna_gain config entity =
     (let antennas = mapping_section config ''antennas'';
          assignments = mapping_section antennas ''assignments''
      in bindR (ptuple (dget antennas ''definitions'' (PList []))) (\<lambda>items.
         (let definitions = by_id (filter (\<lambda>item. truthy (dget (as_dict item) ''id'' PNone)) items) [];
              found = as_dict (dget definitions (py_str (dget assignments entity (PStr ''''))) (PDict []))
          in bindR (fget found ''gain_dbi'' 0) (\<lambda>gain.
             bindR (fget found ''cable_loss_db'' 0) (\<lambda>loss. Inr (gain, loss))))))"

definition shield_request ::
  "pydict \<Rightarrow> pydict \<Rightarrow> edge \<Rightarrow> pyval \<Rightarrow> pyval \<Rightarrow> link_request res" where
  "shield_request config communication e tx rx =
     bindR (antenna_gain config (fst e)) (\<lambda>(tx_gain, tx_cable).
     bindR (antenna_gain config (snd e)) (\<lambda>(rx_gain, rx_cable).
     bindR (fget communication ''carrier_frequency_hz'' 3500000000) (\<lambda>frequency.
     bindR (fget communication ''bandwidth_hz'' 20000000) (\<lambda>bandwidth.
     bindR (fget communication ''tx_power_dbm'' 23) (\<lambda>tx_power.
     bindR (fget communication ''receiver_noise_figure_db'' 7) (\<lambda>noise.
     bindR (fget communication ''implementation_loss_db'' 2) (\<lambda>implementation.
     bindR (fget communication ''path_loss_exponent'' 2) (\<lambda>exponent.
     bindR (fget communication ''shadowing_sigma_db'' 0) (\<lambda>shadowing.
     bindR (fget communication ''interference_margin_db'' 0) (\<lambda>interference.
     bindR (fget communication ''spectral_efficiency_factor'' (3 / 4)) (\<lambda>efficiency.
     bindR (pget (dget config ''experiment'' (PDict [])) ''seed'' (PInt 0)) (\<lambda>raw_seed.
     bindR (py_int raw_seed) (\<lambda>seed.
       Inr ((new_link_request (fst e) (snd e) tx rx frequency bandwidth tx_power)
            \<lparr>lr_receiver_noise_figure_db := noise, lr_implementation_loss_db := implementation,
             lr_tx_gain_dbi := tx_gain, lr_rx_gain_dbi := rx_gain, lr_tx_cable_loss_db := tx_cable,
             lr_rx_cable_loss_db := rx_cable, lr_path_loss_exponent := exponent,
             lr_shadowing_sigma_db := shadowing, lr_interference_margin_db := interference,
             lr_model := py_str (dget communication ''fallback_model'' (PStr ''free_space'')),
             lr_spectral_efficiency_factor := efficiency, lr_seed := seed\<rparr>))))))))))))))"

record hop_preview =
  hp_edge :: edge
  hp_feasible :: bool
  hp_reason :: string
  hp_details :: pydict

definition hop_as_dict :: "hop_preview \<Rightarrow> pydict" where
  "hop_as_dict h =
     [(''src'', PStr (fst (hp_edge h))), (''dst'', PStr (snd (hp_edge h))),
      (''feasible'', PBool (hp_feasible h)), (''reason'', PStr (hp_reason h))] @ hp_details h"

definition hop_missing :: "edge \<Rightarrow> hop_preview" where
  "hop_missing e = \<lparr>hp_edge = e, hp_feasible = False, hp_reason = ''MISSING_ENDPOINT'', hp_details = []\<rparr>"

definition hop_judged :: "edge \<Rightarrow> link_metrics \<Rightarrow> feasibility_decision \<Rightarrow> hop_preview" where
  "hop_judged e m d =
     \<lparr>hp_edge = e, hp_feasible = fd_feasible d, hp_reason = gate_reason_value (fd_reason d),
      hp_details =
        [(''distance_m'', PFloat (lk_distance_m m)), (''snr_db'', PFloat (lk_snr_db m)),
         (''sinr_db'', opt_float (lk_sinr_db m)), (''capacity_mbps'', PFloat (lk_capacity_mbps m)),
         (''predicates'', PList (map (PDict \<circ> gate_predicate_as_dict) (fd_predicates d))),
         (''source'', PStr ''SAFETY_SHIELD_ANALYTICAL_PREVIEW'')]\<rparr>"

definition entity_item :: "pydict \<Rightarrow> uav_table \<Rightarrow> string \<Rightarrow> pydict" where
  "entity_item station uavs name =
     (if name = py_str (dget station ''id'' (PStr ''station'')) then station
      else case map_of uavs name of Some item \<Rightarrow> item | None \<Rightarrow> [])"

definition preview_hop ::
  "shield_env \<Rightarrow> pydict \<Rightarrow> pydict \<Rightarrow> uav_table \<Rightarrow> nat \<times> edge \<Rightarrow> hop_preview res" where
  "preview_hop w config entity_positions uavs ie =
     (case ie of (i, e) \<Rightarrow>
        (case (map_of entity_positions (fst e), map_of entity_positions (snd e)) of
           (Some tx, Some rx) \<Rightarrow>
             (let communication = mapping_section config ''communication'';
                  station = mapping_section config ''station'';
                  src_item = entity_item station uavs (fst e); dst_item = entity_item station uavs (snd e)
              in bindR (shield_request config communication e tx rx) (\<lambda>r.
                 bindR (compute_analytical_link (sh_libm w) (sh_link w i) r) (\<lambda>m.
                 bindR (read_limits communication) (\<lambda>l.
                   Inr (hop_judged e m
                     (evaluate_feasibility (le_decision_at (sh_link w i)) (Some m)
                        (preview_ends src_item dst_item) l))))))
         | _ \<Rightarrow> Inr (hop_missing e)))"

definition connectivity_preview ::
  "shield_env \<Rightarrow> (string \<times> vec3) list \<Rightarrow> pydict \<Rightarrow> uav_table \<Rightarrow> (hop_preview list \<times> bool) res" where
  "connectivity_preview w positions config uavs =
     (let station = mapping_section config ''station'';
          entity_positions =
            dupdate [(py_str (dget station ''id'' (PStr ''station'')), dget station ''position'' origin_value)]
              (map_values (\<lambda>(x, y, z). PList [PFloat x, PFloat y, PFloat z]) positions)
      in bindR (preview_edges (mapping_section config ''topology'')) (\<lambda>edges.
         bindR (mapR (preview_hop w config entity_positions uavs) (enumerate 0 edges)) (\<lambda>hops.
           Inr (hops, list_all hp_feasible hops))))"

end
