(* ===== verification/Shield_Apply.thy ===== *)
theory Shield_Apply
  imports Safety_Shield
begin

text \<open>
  \<open>apply_safety_shield\<close> of \<open>netlab/safety_shield.py\<close>, in the order of the code: the early decisions, the
  projection of every target, the checks on the complete proposed state, and the two outcomes.
\<close>

section \<open>Settings\<close>

record shield_settings =
  ss_update_rate_hz :: pyfloat
  ss_max_vertical :: pyfloat
  ss_max_distance :: pyfloat
  ss_min_separation :: pyfloat
  ss_bounds :: service_bounds
  ss_geofence :: bool

definition controller_field :: "pydict \<Rightarrow> string \<Rightarrow> pyval \<Rightarrow> pyval res" where
  "controller_field swarm key dflt = pget (dget swarm ''controller'' (PDict [])) key dflt"

definition shield_settings_of :: "pydict \<Rightarrow> shield_settings res" where
  "shield_settings_of config =
     (let swarm = mapping_section config ''swarm''
      in bindR (bindR (controller_field swarm ''update_rate_hz'' (PFloat (Fin 10))) py_float) (\<lambda>rate.
         bindR (fget swarm ''max_horizontal_speed_mps'' 12) (\<lambda>speed.
         bindR (fget swarm ''max_vertical_speed_mps'' 4) (\<lambda>vertical.
         bindR (fdiv (py_max (rnd64 (1 / 100)) speed) (py_max (rnd64 (1 / 10)) rate)) (\<lambda>max_distance.
         bindR (fget swarm ''minimum_separation_m'' 4) (\<lambda>separation.
         bindR (service_bounds_of config) (\<lambda>bounds.
         bindR (pget (dget config ''service_region'' (PDict [])) ''geofence_enabled'' (PBool False)) (\<lambda>geofence.
           Inr \<lparr>ss_update_rate_hz = py_max (rnd64 (1 / 10)) rate,
                ss_max_vertical = py_max (rnd64 (1 / 100)) vertical, ss_max_distance = max_distance,
                ss_min_separation = py_max (Fin 0) separation, ss_bounds = bounds,
                ss_geofence = truthy geofence\<rparr>))))))))"

section \<open>Projection of one target\<close>

definition vec_value :: "vec3 \<Rightarrow> pyval" where
  "vec_value v = (case v of (x, y, z) \<Rightarrow> PList [PFloat x, PFloat y, PFloat z])"

definition bounds_value :: "service_bounds \<Rightarrow> pyval" where
  "bounds_value b =
     PList (map PFloat [sb_min_x b, sb_max_x b, sb_min_y b, sb_max_y b, sb_min_alt b, sb_max_alt b])"

definition vec_eq :: "vec3 \<Rightarrow> vec3 \<Rightarrow> bool" where
  "vec_eq v w = (case (v, w) of ((a, b, c), (x, y, z)) \<Rightarrow> feq a x \<and> feq b y \<and> feq c z)"

definition clip_box :: "service_bounds \<Rightarrow> vec3 \<Rightarrow> vec3" where
  "clip_box b v =
     (case v of (x, y, z) \<Rightarrow>
        (clamp x (sb_min_x b) (sb_max_x b), clamp y (sb_min_y b) (sb_max_y b),
         clamp z (sb_min_alt b) (sb_max_alt b)))"

text \<open>The corrected target and the warnings of the correction.\<close>

definition fence_target :: "shield_settings \<Rightarrow> string \<Rightarrow> vec3 \<Rightarrow> vec3 \<times> shield_issue list" where
  "fence_target s uav v =
     (let b = ss_bounds s
      in if ss_geofence s
         then (if vec_eq (clip_box b v) v then (v, [])
               else (clip_box b v,
                     [shield_warning ''GEOFENCE_PROJECTED''
                        ''Target was projected into the configured service region.'' uav (vec_value v)
                        (bounds_value b) (vec_value (clip_box b v))]))
         else case v of (x, y, z) \<Rightarrow>
           (let z' = clamp z (sb_min_alt b) (sb_max_alt b)
            in if feq z' z then (v, [])
               else ((x, y, z'),
                     [shield_warning ''ALTITUDE_PROJECTED'' ''Target altitude was projected into bounds.'' uav
                        (PFloat z) (PList [PFloat (sb_min_alt b), PFloat (sb_max_alt b)]) (PFloat z')])))"

definition copysign :: "pyfloat \<Rightarrow> pyfloat \<Rightarrow> pyfloat" where
  "copysign x y = (if flt y (Fin 0) then fneg (fabs x) else fabs x)"

definition limit_vertical :: "pyfloat \<Rightarrow> vec3 \<Rightarrow> vec3 \<Rightarrow> vec3" where
  "limit_vertical step current stepped =
     (case (current, stepped) of ((_, _, cz), (x, y, z)) \<Rightarrow>
        (let delta = fsub z cz
         in if fgt (fabs delta) step then (x, y, fadd cz (copysign step delta)) else stepped))"

record shield_state =
  st_issues :: "shield_issue list"
  st_projected :: bool
  st_normalized :: "(string \<times> vec3) list"

definition project_target ::
  "shield_settings \<Rightarrow> string \<Rightarrow> uav_table \<Rightarrow> string \<times> vec3 \<Rightarrow> shield_state \<Rightarrow> shield_state res" where
  "project_target s frame uavs t st =
     (case t of (uav, target) \<Rightarrow>
        (case map_of uavs uav of
           None \<Rightarrow> Inl (KeyError uav)
         | Some item \<Rightarrow>
             if \<not> uav_up item
             then Inr (st\<lparr>st_issues := st_issues st
                   @ [shield_error ''INACTIVE_OR_FAILED_ENTITY'' ''Algorithm targeted an inactive or failed UAV.''
                        uav PNone PNone]\<rparr>)
             else bindR (current_position item) (\<lambda>current.
               case enu target frame of
                 Inl (AlgorithmContractError text) \<Rightarrow>
                   Inr (st\<lparr>st_issues := st_issues st
                         @ [shield_error ''COORDINATE_FRAME'' text uav PNone PNone]\<rparr>)
               | Inl e \<Rightarrow> Inl e
               | Inr target_enu \<Rightarrow>
                   (case fence_target s uav target_enu of (corrected, warnings) \<Rightarrow>
                      bindR (project_step current corrected (ss_max_distance s)) (\<lambda>stepped0.
                      bindR (fdiv (ss_max_vertical s) (ss_update_rate_hz s)) (\<lambda>vertical_step.
                      (let stepped = limit_vertical vertical_step current stepped0;
                           moved = fgt (fdist (vec_list stepped) (vec_list corrected)) tolerance_m
                       in Inr
                         \<lparr>st_issues = st_issues st @ warnings
                            @ (if moved
                               then [shield_warning ''MOTION_PROJECTED''
                                       ''Target was projected to the per-update motion envelope.'' uav
                                       (vec_value corrected) (PFloat (ss_max_distance s)) (vec_value stepped)]
                               else []),
                          st_projected = (st_projected st \<or> warnings \<noteq> [] \<or> moved),
                          st_normalized = AList.update uav stepped (st_normalized st)\<rparr>)))))))"

section \<open>Checks on the proposed state\<close>

definition complete_positions :: "uav_table \<Rightarrow> (string \<times> vec3) list \<Rightarrow> (string \<times> vec3) list res" where
  "complete_positions uavs normalized =
     mapR (\<lambda>(k, item). bindR (current_position item) (\<lambda>p.
            Inr (k, case map_of normalized k of Some q \<Rightarrow> q | None \<Rightarrow> p)))
       (filter (\<lambda>(k, item). uav_up item) uavs)"

definition too_close :: "pyfloat \<Rightarrow> vec3 \<Rightarrow> vec3 \<Rightarrow> bool" where
  "too_close separation p q = flt (fadd (fdist (vec_list p) (vec_list q)) tolerance_m) separation"

fun separation_issues :: "pyfloat \<Rightarrow> (string \<times> vec3) list \<Rightarrow> shield_issue list" where
  "separation_issues separation [] = []"
| "separation_issues separation ((a, p) # rest) =
     map (\<lambda>(b, q). shield_error ''MINIMUM_SEPARATION'' ''Proposed positions violate minimum separation.''
            (a @ '','' @ b) (PFloat (fdist (vec_list p) (vec_list q))) (PFloat separation))
       (filter (\<lambda>(b, q). too_close separation p q) rest)
     @ separation_issues separation rest"

definition battery_issues ::
  "pyfloat \<Rightarrow> uav_table \<Rightarrow> (string \<times> vec3) list \<Rightarrow> shield_issue list res" where
  "battery_issues reserve uavs normalized =
     bindR (mapR (\<lambda>(k, p).
         (case map_of uavs k of
            None \<Rightarrow> Inl (KeyError k)
          | Some item \<Rightarrow> bindR (fget item ''battery_soc_pct'' 100) (\<lambda>soc.
              Inr (if fle soc reserve
                   then [shield_error ''BATTERY_RESERVE'' ''UAV battery is at or below reserve state.'' k
                           (PFloat soc) (PFloat reserve)] else [])))) normalized)
       (\<lambda>iss. Inr (concat iss))"

definition reserve_of :: "pydict \<Rightarrow> pyfloat res" where
  "reserve_of config =
     bindR (pget (dget (mapping_section config ''swarm'') ''energy'' (PDict [])) ''reserve_soc_pct'' (PFloat (Fin 20)))
       py_float"

definition hop_text :: "hop_preview \<Rightarrow> string" where
  "hop_text h = fst (hp_edge h) @ ''->'' @ snd (hp_edge h) @ '':'' @ hp_reason h"

definition link_issues :: "bool \<Rightarrow> hop_preview list \<Rightarrow> bool \<Rightarrow> shield_issue list" where
  "link_issues require_connectivity hops ok =
     (if require_connectivity \<and> \<not> ok
      then [shield_error ''COMMUNICATION_FEASIBILITY''
              ''Proposed state does not preserve every required active hop.'' ''''
              (PList (map (PStr \<circ> hop_text) (filter (\<lambda>h. \<not> hp_feasible h) hops)))
              (PStr ''all required hops feasible'')]
      else [])"

definition hard_issues :: "shield_issue list \<Rightarrow> shield_issue list" where
  "hard_issues = filter (\<lambda>i. si_severity i = ''ERROR'')"

section \<open>The decision\<close>

definition early_fallback :: "pydict \<Rightarrow> string res" where
  "early_fallback config =
     bindR (pget (dget config ''swarm'' (PDict [])) ''controller'' (PDict [])) (\<lambda>c.
     bindR (pget c ''safe_fallback'' (PStr ''hold_position'')) (\<lambda>v. Inr (py_str v)))"

definition early_rejection ::
  "shield_env \<Rightarrow> algorithm_action \<Rightarrow> pydict \<Rightarrow> shield_issue list \<Rightarrow> shield_decision res" where
  "early_rejection w a config issues =
     bindR (early_fallback config) (\<lambda>fallback.
       Inr \<lparr>sd_accepted = False, sd_action = [], sd_issues = issues, sd_projected = False,
            sd_fallback_applied = True, sd_fallback = fallback, sd_link_preview = [],
            sd_computation_s = sh_elapsed w, sd_source_revision_id = ac_source_revision_id a\<rparr>)"

definition explain :: "pydict \<Rightarrow> string \<Rightarrow> pyval \<Rightarrow> pydict" where
  "explain d key v = dset ''explanation'' (PDict (dset key v (as_dict (dget d ''explanation'' (PDict []))))) d"

definition issues_value :: "shield_issue list \<Rightarrow> pyval" where
  "issues_value issues = PList (map (PDict \<circ> issue_as_dict) issues)"

definition held_action :: "algorithm_action \<Rightarrow> (string \<times> vec3) list \<Rightarrow> shield_issue list \<Rightarrow> pydict" where
  "held_action a positions issues =
     explain
       (dset ''termination_reason'' (PStr ''safety_shield_rejection'')
         (dset ''fallback'' (PBool True)
           (dset ''payload'' (PDict [(''desired_positions'', positions_value positions)])
             (action_as_dict a))))
       ''shield_issues'' (issues_value issues)"

definition shielded_action :: "algorithm_action \<Rightarrow> shield_state \<Rightarrow> shield_issue list \<Rightarrow> pydict" where
  "shielded_action a st issues =
     explain
       (dset ''payload'' (PDict (dset ''desired_positions'' (positions_value (st_normalized st)) (ac_payload a)))
         (dset ''coordinate_frame'' (PStr ''ENU'') (action_as_dict a)))
       ''safety_shield''
       (PDict [(''projected'', PBool (st_projected st)), (''issues'', issues_value issues),
               (''link_preview_source'', PStr ''SAFETY_SHIELD_ANALYTICAL_PREVIEW'')])"

definition shield_outcome ::
  "shield_env \<Rightarrow> algorithm_action \<Rightarrow> uav_table \<Rightarrow> shield_state \<Rightarrow> shield_issue list \<Rightarrow> hop_preview list
   \<Rightarrow> string \<Rightarrow> shield_decision res" where
  "shield_outcome w a uavs st issues hops fallback =
     (if hard_issues issues \<noteq> []
      then bindR (fallback_positions uavs) (\<lambda>held.
             Inr \<lparr>sd_accepted = False, sd_action = held_action a held issues, sd_issues = issues,
                  sd_projected = st_projected st, sd_fallback_applied = True,
                  sd_fallback = fallback, sd_link_preview = map hop_as_dict hops,
                  sd_computation_s = sh_elapsed w, sd_source_revision_id = ac_source_revision_id a\<rparr>)
      else Inr \<lparr>sd_accepted = True, sd_action = shielded_action a st issues, sd_issues = issues,
                sd_projected = st_projected st, sd_fallback_applied = False, sd_fallback = [],
                sd_link_preview = map hop_as_dict hops, sd_computation_s = sh_elapsed w,
                sd_source_revision_id = ac_source_revision_id a\<rparr>)"

text \<open>Everything after the targets were read.\<close>

definition shield_targets ::
  "shield_env \<Rightarrow> algorithm_action \<Rightarrow> uav_table \<Rightarrow> pydict \<Rightarrow> bool \<Rightarrow> (string \<times> vec3) list
   \<Rightarrow> shield_decision res" where
  "shield_targets w a uavs config require_connectivity desired =
     (let unknown = sort (filter (\<lambda>k. k \<notin> fst ` set uavs) (map fst desired));
          known = filter (\<lambda>(k, p). k \<in> fst ` set uavs) desired;
          start = \<lparr>st_issues = map (\<lambda>k. shield_error ''UNKNOWN_ENTITY'' ''Algorithm targeted an unknown UAV.'' k
                                      PNone PNone) unknown,
                   st_projected = False, st_normalized = []\<rparr>;
          swarm = mapping_section config ''swarm''
      in bindR (shield_settings_of config) (\<lambda>s.
         bindR (foldR (project_target s (ac_coordinate_frame a) uavs) known start) (\<lambda>st.
         bindR (complete_positions uavs (st_normalized st)) (\<lambda>positions.
         bindR (reserve_of config) (\<lambda>reserve.
         bindR (battery_issues reserve uavs (st_normalized st)) (\<lambda>battery.
         bindR (connectivity_preview w positions config uavs) (\<lambda>(hops, ok).
         bindR (controller_field swarm ''safe_fallback'' (PStr ''hold_position'')) (\<lambda>fallback.
         shield_outcome w a uavs st
           (st_issues st @ separation_issues (ss_min_separation s) (sort_key fst positions) @ battery
            @ link_issues require_connectivity hops ok) hops (py_str fallback)))))))))"

definition apply_safety_shield ::
  "shield_env \<Rightarrow> algorithm_action \<Rightarrow> pydict \<Rightarrow> pydict \<Rightarrow> bool \<Rightarrow> shield_decision res" where
  "apply_safety_shield w a snapshot config require_connectivity =
     (if action_errors (sh_now w) a \<noteq> []
      then early_rejection w a config
             (map (\<lambda>m. shield_error ''ALGORITHM_ACTION_INVALID'' m '''' PNone PNone)
                (action_errors (sh_now w) a))
      else bindR (uav_map snapshot) (\<lambda>uavs.
        case dget (ac_payload a) ''desired_positions'' PNone of
          PNone \<Rightarrow>
            Inr \<lparr>sd_accepted = True, sd_action = action_as_dict a, sd_issues = [], sd_projected = False,
                 sd_fallback_applied = False, sd_fallback = '''', sd_link_preview = [],
                 sd_computation_s = sh_elapsed w, sd_source_revision_id = ac_source_revision_id a\<rparr>
        | raw \<Rightarrow>
            (case normalize_vec3_map raw ''desired_positions'' of
               Inl (AlgorithmContractError text) \<Rightarrow>
                 early_rejection w a config
                   [shield_error ''ALGORITHM_OUTPUT_REJECTED'' text '''' PNone PNone]
             | Inl e \<Rightarrow> Inl e
             | Inr desired \<Rightarrow> shield_targets w a uavs config require_connectivity desired)))"

end
