(* ===== verification/Relay_Monad.thy ===== *)
theory Relay_Monad
  imports Prelude
begin

text \<open>
  The handlers of a node with state: an \<open>act\<close> runs in a state and yields a value or an exception together
  with the state it leaves, which keeps the assignments made before the exception. \<open>bindA\<close> sequences,
  \<open>forA\<close> is a loop over a list, \<open>catchA\<close> is \<open>try ... except\<close>.

  \<open>keeps I m\<close> says that \<open>m\<close> preserves \<open>I\<close> whatever it yields; the rules of the collection \<open>keeps_rules\<close>
  follow the combinators, so that the invariance of a handler is a matter of its assignments.
\<close>

type_synonym ('s, 'a) act = "'s \<Rightarrow> 'a res \<times> 's"

named_theorems act_simps \<open>running an act in a state\<close>
named_theorems keeps_rules \<open>preservation of an invariant\<close>

definition retA :: "'a \<Rightarrow> ('s, 'a) act" where
  "retA x s = (Inr x, s)"

definition liftA :: "'a res \<Rightarrow> ('s, 'a) act" where
  "liftA r s = (r, s)"

definition getA :: "('s \<Rightarrow> 'a) \<Rightarrow> ('s, 'a) act" where
  "getA f s = (Inr (f s), s)"

definition modA :: "('s \<Rightarrow> 's) \<Rightarrow> ('s, unit) act" where
  "modA f s = (Inr (), f s)"

definition bindA :: "('s, 'a) act \<Rightarrow> ('a \<Rightarrow> ('s, 'b) act) \<Rightarrow> ('s, 'b) act" where
  "bindA m k s = (case m s of (Inl e, t) \<Rightarrow> (Inl e, t) | (Inr x, t) \<Rightarrow> k x t)"

definition seqA :: "('s, 'a) act \<Rightarrow> ('s, 'b) act \<Rightarrow> ('s, 'b) act" where
  "seqA m n = bindA m (\<lambda>_. n)"

definition catchA :: "('s, 'a) act \<Rightarrow> (pyexc \<Rightarrow> ('s, 'a) act) \<Rightarrow> ('s, 'a) act" where
  "catchA m h s = (case m s of (Inl e, t) \<Rightarrow> h e t | (Inr x, t) \<Rightarrow> (Inr x, t))"

primrec forA :: "('a \<Rightarrow> ('s, unit) act) \<Rightarrow> 'a list \<Rightarrow> ('s, unit) act" where
  "forA f [] = retA ()"
| "forA f (x # xs) = seqA (f x) (forA f xs)"

definition stepsA :: "('s, unit) act list \<Rightarrow> ('s, unit) act" where
  "stepsA ms = foldr seqA ms (retA ())"

lemma run_simps [act_simps, simp]:
  "retA x s = (Inr x, s)" "liftA r s = (r, s)" "getA f s = (Inr (f s), s)" "modA g s = (Inr (), g s)"
  by (simp_all add: retA_def liftA_def getA_def modA_def)

lemma bindA_run [act_simps]:
  "m s = (Inr x, t) \<Longrightarrow> bindA m k s = k x t"
  "m s = (Inl e, t) \<Longrightarrow> bindA m k s = (Inl e, t)"
  by (simp_all add: bindA_def)

lemma seqA_run [act_simps]:
  "m s = (Inr x, t) \<Longrightarrow> seqA m n s = n t"
  "m s = (Inl e, t) \<Longrightarrow> seqA m n s = (Inl e, t)"
  by (simp_all add: seqA_def bindA_def)

lemma bindA_simps [simp]:
  "bindA (getA f) k s = k (f s) s" "bindA (retA x) k' s = k' x s" "bindA (modA g) h s = h () (g s)"
  "seqA (modA g) n s = n (g s)" "seqA (retA y) n s = n s"
  by (simp_all add: bindA_def seqA_def)

section \<open>Invariants\<close>

definition keeps :: "('s \<Rightarrow> bool) \<Rightarrow> ('s, 'a) act \<Rightarrow> bool" where
  "keeps I m \<longleftrightarrow> (\<forall>s. I s \<longrightarrow> I (snd (m s)))"

lemma keepsD: "keeps I m \<Longrightarrow> I s \<Longrightarrow> I (snd (m s))"
  by (simp add: keeps_def)

lemma keepsI: "(\<And>s. I s \<Longrightarrow> I (snd (m s))) \<Longrightarrow> keeps I m"
  by (simp add: keeps_def)

lemma keeps_pure [keeps_rules]: "keeps I (retA x)" "keeps I (liftA r)" "keeps I (getA f)"
  by (simp_all add: keeps_def)

lemma keeps_modA [keeps_rules]: "(\<And>s. I s \<Longrightarrow> I (g s)) \<Longrightarrow> keeps I (modA g)"
  by (simp add: keeps_def)

lemma keeps_bindA [keeps_rules]: "keeps I m \<Longrightarrow> (\<And>x. keeps I (k x)) \<Longrightarrow> keeps I (bindA m k)"
  by (auto simp: keeps_def bindA_def split: prod.split sum.split)

text \<open>A value read from the state may be used with what the invariant says of it.\<close>

lemma keeps_getA [keeps_rules]: "(\<And>s. I s \<Longrightarrow> I (snd (k (f s) s))) \<Longrightarrow> keeps I (bindA (getA f) k)"
  by (simp add: keeps_def)

lemma keeps_seqA [keeps_rules]: "keeps I m \<Longrightarrow> keeps I n \<Longrightarrow> keeps I (seqA m n)"
  unfolding seqA_def by (intro keeps_bindA)

lemma keeps_catchA [keeps_rules]: "keeps I m \<Longrightarrow> (\<And>e. keeps I (h e)) \<Longrightarrow> keeps I (catchA m h)"
  by (auto simp: keeps_def catchA_def split: prod.split sum.split)

lemma keeps_forA [keeps_rules]: "(\<And>x. x \<in> set xs \<Longrightarrow> keeps I (f x)) \<Longrightarrow> keeps I (forA f xs)"
  by (induction xs) (auto intro: keeps_pure keeps_seqA)

lemma keeps_stepsA [keeps_rules]: "(\<And>m. m \<in> set ms \<Longrightarrow> keeps I m) \<Longrightarrow> keeps I (stepsA ms)"
  unfolding stepsA_def by (induction ms) (auto intro: keeps_pure keeps_seqA)

lemma keeps_if [keeps_rules]: "(c \<Longrightarrow> keeps I m) \<Longrightarrow> (\<not> c \<Longrightarrow> keeps I n) \<Longrightarrow> keeps I (if c then m else n)"
  by simp

lemma keeps_option [keeps_rules]:
  "(x = None \<Longrightarrow> keeps I m) \<Longrightarrow> (\<And>y. x = Some y \<Longrightarrow> keeps I (k y)) \<Longrightarrow>
   keeps I (case x of None \<Rightarrow> m | Some y \<Rightarrow> k y)"
  by (cases x) simp_all

lemma keeps_prod: "(\<And>a b. keeps I (k a b)) \<Longrightarrow> keeps I (case x of (a, b) \<Rightarrow> k a b)"
  by (cases x) simp

text \<open>What each round of a loop establishes and later rounds keep, holds after the loop.\<close>

lemma forA_establishes:
  assumes "forA f xs s = (Inr (), t)"
    and "\<And>x s t. x \<in> set xs \<Longrightarrow> f x s = (Inr (), t) \<Longrightarrow> Q x t"
    and "\<And>x y s t. x \<in> set xs \<Longrightarrow> Q y s \<Longrightarrow> f x s = (Inr (), t) \<Longrightarrow> Q y t"
  shows "x \<in> set xs \<Longrightarrow> Q x t"
proof -
  have "(\<forall>x\<in>done. Q x s) \<Longrightarrow> \<forall>x\<in>done \<union> set xs. Q x t" for "done"
    using assms
  proof (induction xs arbitrary: s "done")
    case (Cons y ys)
    from Cons.prems(2) obtain u where u: "f y s = (Inr (), u)" "forA f ys u = (Inr (), t)"
      by (auto simp: seqA_def bindA_def split: prod.splits sum.splits)
    have "Q y u" using Cons.prems(3) u(1) by simp
    moreover have "\<forall>x\<in>done. Q x u" using Cons.prems(1) Cons.prems(4) [OF _ _ u(1)] by simp
    ultimately have "\<forall>x\<in>insert y done. Q x u" by simp
    then have "\<forall>x\<in>insert y done \<union> set ys. Q x t"
    proof (rule Cons.IH [OF _ u(2)])
      show "Q x t" if "x \<in> set ys" "f x s = (Inr (), t)" for x s t using Cons.prems(3) that by simp
      show "Q z t" if "x \<in> set ys" "Q z s" "f x s = (Inr (), t)" for x z s t
        using Cons.prems(4) [OF _ that(2,3)] that(1) by simp
    qed
    then show ?case by simp
  qed simp
  from this [of "{}"] show "x \<in> set xs \<Longrightarrow> Q x t" by simp
qed

end
