(* ===== verification/Relay_State.thy ===== *)
theory Relay_State
  imports Relay_Monad Link Config_Defaults
begin

text \<open>
  The state of the ROS 2 node \<open>snaas_relay_chain.py\<close>, which moves packets along chains of relay drones, and
  the views of the topology that it computes from it: the active chain, the standby drones, the branches.

  A node of a path is the station or a drone with its index; \<open>node_name\<close> is the text \<open>"drone_<i>"\<close> that the
  code passes around. \<open>failed_indices\<close> is a set. Of a hop event the fields that only repeat settings for
  the display are left out, and the packet it refers to is the one of the state. The publishers of a
  drone are created and destroyed together with its entry in \<open>drones\<close>, so they have no field of their
  own; the messages sent through them are \<open>rc_sent\<close>. Events are kept without their time stamp.
\<close>

section \<open>Records\<close>

datatype relay_node = Station | Relay int

datatype relay_phase = Forward | Reverse

definition node_name :: "relay_node \<Rightarrow> string" where
  "node_name n = (case n of Station \<Rightarrow> ''station'' | Relay i \<Rightarrow> drone_name i)"

definition phase_name :: "relay_phase \<Rightarrow> string" where
  "phase_name p = (case p of Forward \<Rightarrow> ''forward'' | Reverse \<Rightarrow> ''reverse'')"

record drone_runtime =
  rd_index :: int
  rd_drone_id :: string
  rd_initial_position :: vec3
  rd_current_position :: vec3
  rd_desired_position :: vec3
  rd_battery_pct :: pyfloat
  rd_role :: string
  rd_antenna_gain_dbi :: pyfloat
  rd_antenna_name :: string
  rd_failed :: bool
  rd_integrated :: bool
  rd_last_pose_time :: time
  rd_last_seen_chain_version :: int

type_synonym drone_table = "(int \<times> drone_runtime) list"

record pending_failure =
  pf_drone_index :: int
  pf_requested_at :: time
  pf_detection_deadline :: time

record node_report =
  nr_appended_at :: time
  nr_position :: vec3
  nr_desired_position :: vec3
  nr_battery_pct :: pyfloat
  nr_role :: string
  nr_failed :: bool
  nr_integrated :: bool
  nr_antenna_name :: string
  nr_antenna_gain_dbi :: pyfloat
  nr_chain_version :: int
  nr_branch_id :: nat

record trace_entry =
  te_src :: relay_node
  te_dst :: relay_node
  te_at :: time
  te_branch_id :: nat

record relay_packet =
  rp_packet_id :: int
  rp_created_at :: time
  rp_payload :: pyval
  rp_payload_bytes :: int
  rp_forward_trace :: "trace_entry list"
  rp_reverse_trace :: "trace_entry list"
  rp_states :: "(relay_node \<times> node_report) list"
  rp_chain_version :: int
  rp_branch_id :: nat

record hop_event =
  he_timestamp :: time
  he_sequence :: int
  he_chain_version :: int
  he_branch_id :: nat
  he_packet_id :: int
  he_phase :: relay_phase
  he_src :: relay_node
  he_dst :: relay_node
  he_active_chain :: "int list"
  he_active_branches :: "int list list"
  he_standby_indices :: "int list"
  he_failed_indices :: "int set"
  he_metrics :: pydict
  he_link_ok :: bool
  he_link_status :: pyval
  he_decision :: string

record branch_flow =
  bf_branch_id :: nat
  bf_active_branch :: "int list"
  bf_phase :: relay_phase
  bf_cursor :: nat
  bf_packet :: relay_packet
  bf_paused :: bool
  bf_pause_reason :: string
  bf_paused_hop :: "hop_event option"
  bf_last_hop :: "hop_event option"
  bf_completed_round_trips :: int

record relay_event =
  re_type :: string
  re_chain_version :: int
  re_sequence :: int
  re_details :: pydict

text \<open>\<open>TX\<close> is published on the outbox of the sender, \<open>RX\<close> on the inbox of the receiver.\<close>

datatype terminal_event = TX relay_node hop_event | RX relay_node hop_event | Hop hop_event

text \<open>The attributes that only the configuration and \<open>update_config\<close> assign.\<close>

record relay_settings =
  rs_transmission_mode :: string
  rs_manual_branches :: "int list list"
  rs_branch_count :: int
  rs_hop_period_s :: pyfloat
  rs_failure_detection_s :: pyfloat
  rs_coverage_radius_m :: pyfloat
  rs_coverage_width_m :: pyfloat
  rs_direction_deg :: pyfloat
  rs_altitude_start_m :: pyfloat
  rs_altitude_end_m :: pyfloat
  rs_movement_pattern :: string
  rs_movement_amplitude_m :: pyfloat
  rs_movement_speed :: pyfloat
  rs_standby_activation_radius_m :: pyfloat
  rs_max_single_hop_range_m :: pyfloat
  rs_hard_outage_range_m :: pyfloat
  rs_allow_degraded_forwarding :: bool
  rs_distance_penalty_db_per_m :: pyfloat
  rs_frequency_hz :: pyfloat
  rs_bandwidth_hz :: pyfloat
  rs_tx_power_dbm :: pyfloat
  rs_noise_floor_dbm :: pyfloat
  rs_min_snr_db :: pyfloat
  rs_required_capacity_mbps :: pyfloat
  rs_antenna_model :: string
  rs_uav_antenna_name :: string
  rs_communication_model :: string
  rs_sionna_url :: string
  rs_station_position :: vec3
  rs_station_antenna_name :: string
  rs_station_antenna_gain_dbi :: pyfloat
  rs_message :: pydict

record applied_revision =
  av_revision_id :: string
  av_parent_revision_id :: string
  av_hashes :: pydict
  av_command_id :: string

record relay_chain =
  rc_settings :: relay_settings
  rc_applied_revision :: applied_revision
  rc_revision_ack :: "pydict option"
  rc_strategy_id :: string
  rc_pending_revision :: string
  rc_decision :: pydict
  rc_drone_count :: int
  rc_relay_count :: int
  rc_standby_count :: int
  rc_relay_count_hint :: int
  rc_standby_count_hint :: int
  rc_drones :: drone_table
  rc_failed_indices :: "int set"
  rc_pending_failure :: "pending_failure option"
  rc_last_removed_indices :: "int list"
  rc_home_positions :: "(int \<times> vec3) list"
  rc_chain_version :: int
  rc_phase :: relay_phase
  rc_cursor :: nat
  rc_current_branch_index :: nat
  rc_packet_id :: int
  rc_sequence :: int
  rc_current_packet :: relay_packet
  rc_branch_flows :: "(nat \<times> branch_flow) list"
  rc_last_hop_event :: "hop_event option"
  rc_coverage_feasible :: bool
  rc_coverage_note :: string
  rc_connectivity_paused :: bool
  rc_connectivity_pause_reason :: string
  rc_paused_hop :: "hop_event option"
  rc_operator_paused :: bool
  rc_mission_mode :: string
  rc_last_mission_command :: string
  rc_last_mission_command_id :: string
  rc_events :: "relay_event list"
  rc_sent :: "terminal_event list"

definition emit :: "string \<Rightarrow> pydict \<Rightarrow> relay_chain \<Rightarrow> relay_chain" where
  "emit kind details rc = rc\<lparr>rc_events := rc_events rc @
     [\<lparr>re_type = kind, re_chain_version = rc_chain_version rc, re_sequence = rc_sequence rc,
       re_details = details\<rparr>]\<rparr>"

end
