(* ===== verification/Relay_Topology.thy ===== *)
theory Relay_Topology
  imports Relay_State
begin

text \<open>
  What the relay chain reads off its state: the active chain, the standby drones, the branches of the four
  transmission modes, the nodes a packet visits. Reading \<open>_current_branch\<close> also normalises the index of
  the branch.
\<close>

section \<open>Drones\<close>

definition update_drone :: "int \<Rightarrow> (drone_runtime \<Rightarrow> drone_runtime) \<Rightarrow> drone_table \<Rightarrow> drone_table" where
  "update_drone i f drones = map (\<lambda>(j, d). (j, if j = i then f d else d)) drones"

definition drone_indices :: "relay_chain \<Rightarrow> int list" where
  "drone_indices rc = sort (map fst (rc_drones rc))"

definition is_active :: "relay_chain \<Rightarrow> int \<Rightarrow> bool" where
  "is_active rc i =
     (1 \<le> i \<and> i \<le> rc_drone_count rc \<and> i \<notin> rc_failed_indices rc
      \<and> (case map_of (rc_drones rc) i of
           None \<Rightarrow> False | Some d \<Rightarrow> rd_integrated d \<and> rd_role d \<noteq> ''standby''))"

definition active_chain :: "relay_chain \<Rightarrow> int list" where
  "active_chain rc = filter (is_active rc) (drone_indices rc)"

definition is_standby :: "relay_chain \<Rightarrow> int \<Rightarrow> bool" where
  "is_standby rc i =
     (1 \<le> i \<and> i \<le> rc_drone_count rc \<and> i \<notin> rc_failed_indices rc
      \<and> (case map_of (rc_drones rc) i of
           None \<Rightarrow> False | Some d \<Rightarrow> \<not> rd_integrated d \<or> rd_role d = ''standby''))"

definition standby_indices :: "relay_chain \<Rightarrow> int list" where
  "standby_indices rc = filter (is_standby rc) (drone_indices rc)"

definition visible_drone_indices :: "relay_chain \<Rightarrow> int list" where
  "visible_drone_indices rc = filter (\<lambda>i. 1 \<le> i \<and> i \<le> rc_drone_count rc) (drone_indices rc)"

section \<open>Branches\<close>

fun sanitize_row :: "(int \<Rightarrow> bool) \<Rightarrow> int list \<Rightarrow> int list \<Rightarrow> int list \<times> int list" where
  "sanitize_row ok seen [] = ([], seen)"
| "sanitize_row ok seen (i # is) =
     (if \<not> ok i \<or> i \<in> set seen then sanitize_row ok seen is
      else case sanitize_row ok (i # seen) is of (row, seen') \<Rightarrow> (i # row, seen'))"

fun sanitize_rows :: "(int \<Rightarrow> bool) \<Rightarrow> int list \<Rightarrow> int list list \<Rightarrow> int list list" where
  "sanitize_rows ok seen [] = []"
| "sanitize_rows ok seen (is # iss) =
     (case sanitize_row ok seen is of
        (row, seen') \<Rightarrow> (if row = [] then [] else [row]) @ sanitize_rows ok seen' iss)"

text \<open>The elements of a row that \<open>int\<close> converts.\<close>

definition row_indices :: "pyval \<Rightarrow> int list" where
  "row_indices v = concat (map (\<lambda>x. case py_int x of Inr i \<Rightarrow> [i] | Inl _ \<Rightarrow> []) (as_list v))"

definition sanitize_manual_branches :: "relay_chain \<Rightarrow> bool \<Rightarrow> pyval \<Rightarrow> int list list" where
  "sanitize_manual_branches rc filter_failed branches =
     sanitize_rows
       (\<lambda>i. 1 \<le> i \<and> i \<le> rc_drone_count rc
          \<and> (filter_failed \<longrightarrow> i \<notin> rc_failed_indices rc \<and> i \<notin> set (standby_indices rc)))
       [] (map row_indices (filter is_list (as_list branches)))"

definition branches_value :: "int list list \<Rightarrow> pyval" where
  "branches_value branches = PList (map (\<lambda>b. PList (map PInt b)) branches)"

text \<open>Dealing a list onto rows that exist already.\<close>

fun deal :: "nat \<Rightarrow> int list list \<Rightarrow> int list \<Rightarrow> int list list" where
  "deal pos rows [] = rows"
| "deal pos rows (i # is) =
     (let k = pos mod length rows in deal (Suc pos) (rows[k := rows ! k @ [i]]) is)"

fun active_rows :: "int set \<Rightarrow> int list \<Rightarrow> int list list \<Rightarrow> int list list \<times> int list" where
  "active_rows active used [] = ([], used)"
| "active_rows active used (b # bs) =
     (let row = filter (\<lambda>i. i \<in> active \<and> i \<notin> set used) b
      in case active_rows active (row @ used) bs of
           (rows, used') \<Rightarrow> ((if row = [] then [] else [row]) @ rows, used'))"

definition manual_rows :: "relay_chain \<Rightarrow> int list \<Rightarrow> int list list" where
  "manual_rows rc active =
     (case active_rows (set active) []
         (sanitize_manual_branches rc True (branches_value (rs_manual_branches (rc_settings rc)))) of
        (manual, used) \<Rightarrow>
          (let leftovers = filter (\<lambda>i. i \<notin> set used) active
           in if leftovers = [] then manual
              else if manual \<noteq> [] then deal 0 manual leftovers else [leftovers]))"

definition active_branches :: "relay_chain \<Rightarrow> int list list" where
  "active_branches rc =
     (let active = active_chain rc; mode = rs_transmission_mode (rc_settings rc)
      in if active = [] then []
         else if mode = ''manual'' \<and> rs_manual_branches (rc_settings rc) \<noteq> [] then manual_rows rc active
         else if mode = ''chain'' then [active]
         else let branch_count = max 1 (min (rs_branch_count (rc_settings rc)) (int (length active)))
              in filter (\<lambda>b. b \<noteq> []) (deal 0 (replicate (nat branch_count) []) active))"

definition parallel_enabled :: "relay_chain \<Rightarrow> bool" where
  "parallel_enabled rc \<longleftrightarrow>
     rs_transmission_mode (rc_settings rc) \<in> {''parallel'', ''forest'', ''manual''}
     \<and> length (active_branches rc) > 1"

section \<open>Paths\<close>

definition branch_nodes :: "int list \<Rightarrow> relay_phase \<Rightarrow> relay_node list" where
  "branch_nodes branch phase =
     (case phase of
        Forward \<Rightarrow> Station # map Relay branch
      | Reverse \<Rightarrow> map Relay (rev branch) @ [Station])"

definition current_branch :: "(relay_chain, int list) act" where
  "current_branch =
     bindA (getA active_branches) (\<lambda>branches.
       if branches = [] then retA []
       else seqA (modA (\<lambda>rc. rc\<lparr>rc_current_branch_index := rc_current_branch_index rc mod length branches\<rparr>))
              (getA (\<lambda>rc. branches ! rc_current_branch_index rc)))"

definition chain_nodes :: "relay_phase \<Rightarrow> (relay_chain, relay_node list) act" where
  "chain_nodes phase = bindA current_branch (\<lambda>branch. retA (branch_nodes branch phase))"

definition get_drone :: "relay_chain \<Rightarrow> int \<Rightarrow> drone_runtime res" where
  "get_drone rc i =
     (case map_of (rc_drones rc) i of Some d \<Rightarrow> Inr d | None \<Rightarrow> Inl (KeyError (show_int i)))"

definition node_position :: "relay_chain \<Rightarrow> relay_node \<Rightarrow> vec3 res" where
  "node_position rc n =
     (case n of
        Station \<Rightarrow> Inr (rs_station_position (rc_settings rc))
      | Relay i \<Rightarrow> bindR (get_drone rc i) (\<lambda>d. Inr (rd_current_position d)))"

definition node_antenna :: "relay_chain \<Rightarrow> relay_node \<Rightarrow> (string \<times> pyfloat) res" where
  "node_antenna rc n =
     (case n of
        Station \<Rightarrow> Inr (rs_station_antenna_name (rc_settings rc), rs_station_antenna_gain_dbi (rc_settings rc))
      | Relay i \<Rightarrow> bindR (get_drone rc i) (\<lambda>d. Inr (rd_antenna_name d, rd_antenna_gain_dbi d)))"

definition node_failed :: "relay_chain \<Rightarrow> relay_node \<Rightarrow> bool" where
  "node_failed rc n = (case n of Station \<Rightarrow> False | Relay i \<Rightarrow> i \<in> rc_failed_indices rc)"

section \<open>Distance\<close>

text \<open>\<open>x ** 2\<close> raises when the square of a finite float overflows.\<close>

definition fsquare :: "pyfloat \<Rightarrow> pyfloat res" where
  "fsquare x =
     (case fmul x x of
        Fin q \<Rightarrow> Inr (Fin q)
      | v \<Rightarrow> if is_finite x then Inl OverflowError else Inr v)"

definition distance :: "vec3 \<Rightarrow> vec3 \<Rightarrow> pyfloat res" where
  "distance p q =
     (case (p, q) of ((a, b, c), (x, y, z)) \<Rightarrow>
        bindR (fsquare (fsub a x)) (\<lambda>dx.
        bindR (fsquare (fsub b y)) (\<lambda>dy.
        bindR (fsquare (fsub c z)) (\<lambda>dz. fsqrt (fadd (fadd dx dy) dz)))))"

text \<open>\<open>min(xs, key=key)\<close>: the first element with a least key.\<close>

fun least_key :: "('a \<Rightarrow> pyfloat res) \<Rightarrow> 'a \<Rightarrow> pyfloat \<Rightarrow> 'a list \<Rightarrow> 'a res" where
  "least_key key best k [] = Inr best"
| "least_key key best k (x # xs) =
     bindR (key x) (\<lambda>v. if flt v k then least_key key x v xs else least_key key best k xs)"

definition min_by :: "('a \<Rightarrow> pyfloat res) \<Rightarrow> 'a list \<Rightarrow> 'a res" where
  "min_by key xs =
     (case xs of
        [] \<Rightarrow> Inl ValueError
      | x # xs \<Rightarrow> bindR (key x) (\<lambda>k. least_key key x k xs))"

end
