(* ===== verification/Relay_Layout.thy ===== *)
theory Relay_Layout
  imports Relay_Topology
begin

text \<open>
  Where the relay chain sends its drones: the slots of the branches along the heading, the parking of failed
  and standby drones, the position plan of a strategy, and the restart of the packet that comes with a
  new layout.

  The strategy is code of a plugin: what it returns to a hook, and in the typed mode whether its
  observation is published, are parameters of a \<open>relay_world\<close>, as are the clock, the C library and the
  link service.
\<close>

datatype plan_source =
    Observation_Published string
  | Plan_Unavailable
  | Plan pyval

datatype service_reply = Unreachable string | Reply pydict

record relay_world =
  rw_now :: time
  rw_libm :: libm
  rw_cos :: "rat \<Rightarrow> pyfloat"
  rw_sin :: "rat \<Rightarrow> pyfloat"
  rw_service :: "pydict \<Rightarrow> service_reply"
  rw_plan :: "string \<Rightarrow> relay_chain \<Rightarrow> plan_source"
  rw_select :: "string \<Rightarrow> int \<Rightarrow> relay_chain \<Rightarrow> pyval"

section \<open>Values in events\<close>

definition fround :: "nat \<Rightarrow> pyfloat \<Rightarrow> pyfloat" where
  "fround n v =
     (case v of Fin q \<Rightarrow> rnd64 (of_int (round_half_even (q * 10 ^ n)) / 10 ^ n) | _ \<Rightarrow> v)"

definition round_vec :: "nat \<Rightarrow> vec3 \<Rightarrow> vec3" where
  "round_vec n p = (case p of (x, y, z) \<Rightarrow> (fround n x, fround n y, fround n z))"

definition ints_value :: "int list \<Rightarrow> pyval" where
  "ints_value xs = PList (map PInt xs)"

definition rounded_value :: "vec3 \<Rightarrow> pyval" where
  "rounded_value p = (case round_vec 3 p of (x, y, z) \<Rightarrow> PList [PFloat x, PFloat y, PFloat z])"

definition desired_positions_payload :: "relay_chain \<Rightarrow> pydict" where
  "desired_positions_payload rc =
     concat (map (\<lambda>i. case map_of (rc_drones rc) i of
                        None \<Rightarrow> [] | Some d \<Rightarrow> [(drone_name i, rounded_value (rd_desired_position d))])
               (visible_drone_indices rc))"

section \<open>Slots\<close>

text \<open>The division of a float by a positive count.\<close>

definition over_count :: "pyfloat \<Rightarrow> int \<Rightarrow> pyfloat" where
  "over_count v n = (case fdiv v (rnd64 (of_int (max 1 n))) of Inr x \<Rightarrow> x | Inl _ \<Rightarrow> NaN)"

definition trig :: "(rat \<Rightarrow> pyfloat) \<Rightarrow> pyfloat \<Rightarrow> pyfloat res" where
  "trig f v = (case v of Fin q \<Rightarrow> Inr (f q) | NaN \<Rightarrow> Inr NaN | _ \<Rightarrow> Inl ValueError)"

definition radians :: "pyfloat \<Rightarrow> pyfloat" where
  "radians v = fmul v (over_count math_pi 180)"

definition heading :: "relay_world \<Rightarrow> relay_chain \<Rightarrow> (pyfloat \<times> pyfloat) res" where
  "heading w rc =
     (let theta = radians (rs_direction_deg (rc_settings rc))
      in bindR (trig (rw_cos w) theta) (\<lambda>dx. bindR (trig (rw_sin w) theta) (\<lambda>dy. Inr (dx, dy))))"

definition branch_spacing :: "relay_settings \<Rightarrow> int list \<Rightarrow> pyfloat" where
  "branch_spacing st branch = over_count (rs_coverage_radius_m st) (int (length branch))"

definition lateral_offset :: "relay_settings \<Rightarrow> int \<Rightarrow> int \<Rightarrow> pyfloat" where
  "lateral_offset st branch_count branch_idx =
     (if branch_count = 1 then Fin 0
      else fmul (fsub (rnd64 (of_int branch_idx)) (rnd64 (of_int (branch_count - 1) / 2)))
             (over_count (rs_coverage_width_m st) (branch_count - 1)))"

definition slot_position ::
  "relay_settings \<Rightarrow> pyfloat \<times> pyfloat \<Rightarrow> pyfloat \<Rightarrow> pyfloat \<Rightarrow> int \<Rightarrow> int \<Rightarrow> vec3" where
  "slot_position st dir spacing lateral len slot =
     (case (dir, rs_station_position st) of ((dx, dy), (sx, sy, sz)) \<Rightarrow>
        let along = fmul spacing (rnd64 (of_int slot));
            alpha = rnd64 (of_int (slot - 1) / of_int (max 1 (len - 1)));
            z = fadd (rs_altitude_start_m st)
                  (fmul (fsub (rs_altitude_end_m st) (rs_altitude_start_m st)) alpha)
        in (fadd (fadd sx (fmul dx along)) (fmul (fneg dy) lateral),
            fadd (fadd sy (fmul dy along)) (fmul dx lateral), z))"

definition place_branch ::
  "relay_settings \<Rightarrow> pyfloat \<times> pyfloat \<Rightarrow> int \<Rightarrow> int \<Rightarrow> nat \<times> int list \<Rightarrow> drone_table \<Rightarrow> drone_table" where
  "place_branch st dir version branch_count ib drones =
     (case ib of (branch_idx, branch) \<Rightarrow>
        fold (\<lambda>(slot, i). update_drone i (\<lambda>d. d\<lparr>
                rd_desired_position := slot_position st dir (branch_spacing st branch)
                  (lateral_offset st branch_count (int branch_idx)) (int (length branch)) (int slot),
                rd_last_seen_chain_version := version\<rparr>))
          (enumerate 1 branch) drones)"

text \<open>A failed drone sinks four metres, but not below 0.3 m.\<close>

definition sink_failed :: "int set \<Rightarrow> drone_table \<Rightarrow> drone_table" where
  "sink_failed failed drones =
     map (\<lambda>(i, d). (i, if i \<in> failed
            then (case rd_current_position d of (x, y, z) \<Rightarrow>
                    d\<lparr>rd_desired_position := (x, y, py_max (rnd64 (3 / 10)) (fsub z (Fin 4)))\<rparr>)
            else d)) drones"

definition park_standby :: "int list \<Rightarrow> drone_table \<Rightarrow> drone_table" where
  "park_standby standby drones =
     map (\<lambda>(i, d). (i, if i \<in> set standby \<and> rd_current_position d = rd_initial_position d
            then d\<lparr>rd_desired_position := rd_initial_position d\<rparr> else d)) drones"

section \<open>The position plan of a strategy\<close>

text \<open>\<open>s.replace(p, "")\<close> for a non-empty \<open>p\<close>.\<close>

function remove_text :: "string \<Rightarrow> string \<Rightarrow> string" where
  "remove_text p s =
     (case s of
        [] \<Rightarrow> []
      | c # t \<Rightarrow> if p \<noteq> [] \<and> starts_with s p then remove_text p (drop (length p) s)
                 else c # remove_text p t)"
  by pat_completeness auto
termination
  by (relation "measure (length \<circ> snd)") auto

declare remove_text.simps [simp del]

definition parse_drone_index :: "drone_table \<Rightarrow> pyval \<Rightarrow> int option" where
  "parse_drone_index drones v =
     (case py_int (case v of PStr s \<Rightarrow> PStr (remove_text ''drone_'' (py_lower (py_strip s))) | _ \<Rightarrow> v) of
        Inl _ \<Rightarrow> None
      | Inr i \<Rightarrow> if map_of drones i \<noteq> None then Some i else None)"

definition set_desired :: "int \<Rightarrow> vec3 \<Rightarrow> drone_table \<Rightarrow> drone_table" where
  "set_desired i p = update_drone i (\<lambda>d. d\<lparr>rd_desired_position := p\<rparr>)"

text \<open>The first three components, when there are three and all are finite; an exception skips the entry.\<close>

definition strategy_vector :: "pyval \<Rightarrow> vec3 option" where
  "strategy_vector v =
     (case ptuple v of
        Inr (a # b # c # _) \<Rightarrow>
          (case (py_float a, py_float b, py_float c) of
             (Inr x, Inr y, Inr z) \<Rightarrow>
               if is_finite x \<and> is_finite y \<and> is_finite z then Some (x, y, z) else None
           | _ \<Rightarrow> None)
      | _ \<Rightarrow> None)"

fun strategy_moves ::
  "int list \<Rightarrow> int set \<Rightarrow> pydict \<Rightarrow> drone_table \<Rightarrow> pydict \<Rightarrow> drone_table \<times> pydict" where
  "strategy_moves active failed [] drones applied = (drones, applied)"
| "strategy_moves active failed ((key, v) # plan) drones applied =
     (case (parse_drone_index drones (PStr key), strategy_vector v) of
        (Some i, Some p) \<Rightarrow>
          if i \<in> set active \<and> i \<notin> failed
          then strategy_moves active failed plan (set_desired i p drones)
                 (dset (drone_name i) (rounded_value p) applied)
          else strategy_moves active failed plan drones applied
      | _ \<Rightarrow> strategy_moves active failed plan drones applied)"

definition apply_strategy_position_plan ::
  "relay_world \<Rightarrow> string \<Rightarrow> relay_chain \<Rightarrow> bool \<times> relay_chain" where
  "apply_strategy_position_plan w reason rc =
     (case rw_plan w reason rc of
        Observation_Published revision \<Rightarrow>
          (True, emit ''algorithm_observation_published''
             [(''strategy'', PStr (rc_strategy_id rc)), (''reason'', PStr reason),
              (''revision_id'', PStr revision)] (rc\<lparr>rc_pending_revision := revision\<rparr>))
      | Plan_Unavailable \<Rightarrow> (False, rc)
      | Plan v \<Rightarrow>
          (case strategy_moves (active_chain rc) (rc_failed_indices rc) (as_dict v) (rc_drones rc) [] of
             (drones, applied) \<Rightarrow>
               if applied = [] then (False, rc\<lparr>rc_drones := drones\<rparr>)
               else (True, emit ''strategy_position_plan_applied''
                      [(''strategy'', PStr (rc_strategy_id rc)), (''reason'', PStr reason),
                       (''positions'', PDict applied), (''shield'', PDict (rc_decision rc))]
                      (rc\<lparr>rc_drones := drones\<rparr>))))"

section \<open>A new layout\<close>

definition relay_new_packet :: "relay_world \<Rightarrow> relay_chain \<Rightarrow> relay_packet \<times> relay_chain" where
  "relay_new_packet w rc =
     (let n = rc_packet_id rc + 1; message = rs_message (rc_settings rc)
      in (\<lparr>rp_packet_id = n, rp_created_at = rw_now w,
           rp_payload = dget message ''payload''
             (PStr ''Maintain relay service and report local state.''),
           rp_payload_bytes = (case py_int (dget message ''payload_bytes'' PNone) of
                                 Inr k \<Rightarrow> k | Inl _ \<Rightarrow> 512),
           rp_forward_trace = [], rp_reverse_trace = [], rp_states = [],
           rp_chain_version = rc_chain_version rc,
           rp_branch_id = rc_current_branch_index rc\<rparr>,
          rc\<lparr>rc_packet_id := n\<rparr>))"

definition resume_flow :: "branch_flow \<Rightarrow> branch_flow" where
  "resume_flow f = f\<lparr>bf_paused := False, bf_pause_reason := [], bf_paused_hop := None\<rparr>"

definition clear_connectivity_pause :: "string \<Rightarrow> relay_chain \<Rightarrow> relay_chain" where
  "clear_connectivity_pause reason rc =
     (let rc1 = (if rc_connectivity_paused rc then emit ''connectivity_resume'' [(''reason'', PStr reason)] rc
                 else rc)
      in rc1\<lparr>rc_connectivity_paused := False, rc_connectivity_pause_reason := [], rc_paused_hop := None,
             rc_branch_flows := map (\<lambda>(k, f). (k, resume_flow f)) (rc_branch_flows rc1)\<rparr>)"

definition restart_packet :: "relay_world \<Rightarrow> string \<Rightarrow> relay_chain \<Rightarrow> relay_chain" where
  "restart_packet w reason rc =
     (let rc1 = clear_connectivity_pause reason rc;
          rc2 = rc1\<lparr>rc_chain_version := rc_chain_version rc1 + 1, rc_phase := Forward, rc_cursor := 0,
                    rc_current_branch_index := 0\<rparr>
      in case relay_new_packet w rc2 of (packet, rc3) \<Rightarrow> rc3\<lparr>rc_current_packet := packet\<rparr>)"

definition coverage_text :: "bool \<Rightarrow> pyfloat \<Rightarrow> pyfloat \<Rightarrow> string" where
  "coverage_text feasible max_spacing max_hop =
     (if feasible then ''coverage_target_preserved''
      else ''requested_range_exceeds_hop_capacity:max_spacing='' @ format_fixed 2 max_spacing @ ''m,max_hop=''
             @ format_fixed 2 max_hop @ ''m'')"

definition place_drones :: "relay_chain \<Rightarrow> pyfloat \<times> pyfloat \<Rightarrow> relay_chain" where
  "place_drones rc dir =
     (let st = rc_settings rc; branches = active_branches rc; n = max 1 (int (length branches))
      in rc\<lparr>rc_drones := park_standby (standby_indices rc) (sink_failed (rc_failed_indices rc)
               (fold (place_branch st dir (rc_chain_version rc) n) (enumerate 0 branches) (rc_drones rc)))\<rparr>)"

definition assess_coverage :: "bool \<Rightarrow> relay_chain \<Rightarrow> relay_chain" where
  "assess_coverage strategy_applied rc =
     (let st = rc_settings rc; spacings = map (branch_spacing st) (active_branches rc);
          feasible = list_all (\<lambda>s. \<not> fgt s (rs_max_single_hop_range_m st)) spacings
      in rc\<lparr>rc_coverage_feasible := feasible,
            rc_coverage_note :=
              coverage_text feasible (foldl py_max (Fin 0) spacings) (rs_max_single_hop_range_m st)
              @ (if strategy_applied then '';strategy='' @ rc_strategy_id rc else [])\<rparr>)"

definition layout_event :: "string \<Rightarrow> int list list \<Rightarrow> relay_chain \<Rightarrow> relay_chain" where
  "layout_event reason branches rc =
     emit ''topology_recomputed''
       [(''reason'', PStr reason), (''active_branches'', branches_value branches),
        (''standby_indices'', ints_value (standby_indices rc)),
        (''coverage_feasible'', PBool (rc_coverage_feasible rc)),
        (''coverage_note'', PStr (rc_coverage_note rc)),
        (''desired_positions'', PDict (desired_positions_payload rc))] rc"

definition recompute_desired_positions ::
  "relay_world \<Rightarrow> string \<Rightarrow> bool \<Rightarrow> (relay_chain, unit) act" where
  "recompute_desired_positions w reason reset_packet =
     bindA (getA active_branches) (\<lambda>branches.
     bindA (getA (heading w)) (\<lambda>h. bindA (liftA h) (\<lambda>dir.
       modA (\<lambda>rc.
         (case apply_strategy_position_plan w reason (place_drones rc dir) of
            (applied, rc1) \<Rightarrow>
              (let rc2 = assess_coverage applied rc1;
                   rc3 = (if reset_packet then restart_packet w reason rc2 else rc2)
               in layout_event reason branches rc3))))))"

end
