(* ===== verification/Algorithm_Bridge.thy ===== *)
theory Algorithm_Bridge
  imports Shield_Apply Relay_Layout
begin

text \<open>
  The way of an action from the shield to the drones: the message that \<open>algorithm_bridge.py\<close> publishes for
  a shielded action, and the callback of \<open>snaas_relay_chain.py\<close> that applies the positions of a message.

  JSON text is represented by the value it denotes.
\<close>

section \<open>The message\<close>

record action_message =
  mg_schema_version :: string
  mg_algorithm_id :: string
  mg_algorithm_version :: string
  mg_source_revision_id :: string
  mg_action_id :: string
  mg_coordinate_frame :: string
  mg_validity_horizon_s :: pyfloat
  mg_computation_duration_s :: pyfloat
  mg_objective_value :: pyfloat
  mg_termination_reason :: string
  mg_fallback :: bool
  mg_payload :: pyval
  mg_constraint_residuals :: pyval

text \<open>\<open>json.dumps(v, allow_nan=False)\<close>.\<close>

definition json_message :: "pyval \<Rightarrow> pyval res" where
  "json_message v = (if json_ok v then Inr v else Inl ValueError)"

definition outgoing_action :: "algorithm_action \<Rightarrow> shield_decision \<Rightarrow> pydict" where
  "outgoing_action a d = (if sd_action d \<noteq> [] then sd_action d else action_as_dict a)"

definition bridge_message ::
  "string \<Rightarrow> string \<Rightarrow> string \<Rightarrow> pyval \<Rightarrow> algorithm_action \<Rightarrow> shield_decision \<Rightarrow> action_message res" where
  "bridge_message algorithm_id version revision duration a d =
     (let out = outgoing_action a d
      in bindR (sha256_value (PDict out)) (\<lambda>h.
         bindR (fget out ''validity_horizon_s'' 1) (\<lambda>horizon.
         bindR (py_float (dget out ''computation_duration_s'' duration)) (\<lambda>spent.
         bindR (py_float (py_or (dget out ''objective_value'' PNone) (PFloat (Fin 0)))) (\<lambda>objective.
         bindR (json_message (dget out ''payload'' (PDict []))) (\<lambda>payload.
         bindR (json_message (dget out ''constraint_residuals'' (PDict []))) (\<lambda>residuals.
           Inr \<lparr>mg_schema_version = py_str (dget out ''schema_version'' (PStr ''2.0'')),
                mg_algorithm_id = algorithm_id, mg_algorithm_version = version,
                mg_source_revision_id = py_str (dget out ''source_revision_id'' (PStr revision)),
                mg_action_id = take 24 h,
                mg_coordinate_frame = py_str (dget out ''coordinate_frame'' (PStr ''ENU'')),
                mg_validity_horizon_s = horizon, mg_computation_duration_s = spent,
                mg_objective_value = objective,
                mg_termination_reason = py_str (dget out ''termination_reason'' (PStr ''completed'')),
                mg_fallback = truthy (dget out ''fallback'' (PBool (sd_fallback_applied d))),
                mg_payload = payload, mg_constraint_residuals = residuals\<rparr>)))))))"

section \<open>The relay chain\<close>

text \<open>
  The loop over the plan. An exception ends it; the drones that were moved before stay moved.
\<close>

definition plan_vector :: "pyval \<Rightarrow> vec3 option res" where
  "plan_vector v =
     bindR (ptuple v) (\<lambda>xs.
       case xs of
         [a, b, c] \<Rightarrow>
           bindR (py_float a) (\<lambda>x. bindR (py_float b) (\<lambda>y. bindR (py_float c) (\<lambda>z.
             Inr (if is_finite x \<and> is_finite y \<and> is_finite z then Some (x, y, z) else None))))
       | _ \<Rightarrow> Inr None)"

fun apply_plan ::
  "int list \<Rightarrow> int set \<Rightarrow> pydict \<Rightarrow> drone_table \<Rightarrow> pydict \<Rightarrow> drone_table \<times> pydict \<times> pyexc option" where
  "apply_plan active failed [] drones applied = (drones, applied, None)"
| "apply_plan active failed ((key, v) # plan) drones applied =
     (case parse_drone_index drones (PStr key) of
        None \<Rightarrow> apply_plan active failed plan drones applied
      | Some i \<Rightarrow>
          if i \<notin> set active \<or> i \<in> failed then apply_plan active failed plan drones applied
          else (case plan_vector v of
              Inl e \<Rightarrow> (drones, applied, Some e)
            | Inr None \<Rightarrow> apply_plan active failed plan drones applied
            | Inr (Some (x, y, z)) \<Rightarrow>
                apply_plan active failed plan (set_desired i (x, y, z) drones)
                  (dset (drone_name i) (rounded_value (x, y, z)) applied)))"

definition message_decision :: "action_message \<Rightarrow> pydict \<Rightarrow> pydict" where
  "message_decision msg applied =
     [(''accepted'', PBool (\<not> mg_fallback msg)), (''fallback'', PBool (mg_fallback msg)),
      (''action_id'', PStr (mg_action_id msg)), (''source_revision_id'', PStr (mg_source_revision_id msg)),
      (''objective_value'', PFloat (mg_objective_value msg)),
      (''termination_reason'', PStr (mg_termination_reason msg)), (''positions'', PDict applied)]"

definition callback_failed :: "relay_chain \<Rightarrow> relay_chain" where
  "callback_failed rc =
     emit ''algorithm_action_callback_failed'' [(''strategy'', PStr (rc_strategy_id rc))] rc"

definition finish_action :: "action_message \<Rightarrow> pydict \<Rightarrow> relay_chain \<Rightarrow> relay_chain" where
  "finish_action msg applied rc =
     (let decision = message_decision msg applied; rc' = rc\<lparr>rc_decision := decision\<rparr>
      in if applied \<noteq> []
         then emit ''algorithm_action_applied'' (dupdate [(''strategy'', PStr (rc_strategy_id rc))] decision) rc'
         else if mg_fallback msg
         then emit ''algorithm_fallback_hold''
                [(''strategy'', PStr (rc_strategy_id rc)), (''action_id'', PStr (mg_action_id msg))] rc'
         else rc')"

definition algorithm_action_cb :: "action_message \<Rightarrow> relay_chain \<Rightarrow> relay_chain" where
  "algorithm_action_cb msg rc =
     (if rc_strategy_id rc = [] \<or> mg_algorithm_id msg \<noteq> rc_strategy_id rc then rc
      else if rc_pending_revision rc \<noteq> []
              \<and> mg_source_revision_id msg \<notin> {rc_pending_revision rc, ''runtime-current''}
      then emit ''algorithm_action_stale_revision''
             [(''strategy'', PStr (rc_strategy_id rc)),
              (''expected_revision'', PStr (rc_pending_revision rc)),
              (''received_revision'', PStr (mg_source_revision_id msg))] rc
      else case mg_payload msg of
          PDict payload \<Rightarrow>
            (case dget payload ''desired_positions'' (PDict []) of
               PDict plan \<Rightarrow>
                 (case apply_plan (active_chain rc) (rc_failed_indices rc) plan (rc_drones rc) [] of
                    (drones, applied, None) \<Rightarrow> finish_action msg applied (rc\<lparr>rc_drones := drones\<rparr>)
                  | (drones, applied, Some e) \<Rightarrow> callback_failed (rc\<lparr>rc_drones := drones\<rparr>))
             | _ \<Rightarrow> callback_failed rc)
        | _ \<Rightarrow> callback_failed rc)"

end
