(* ===== verification/Shield_Props.thy ===== *)
theory Shield_Props
  imports Shield_Apply
begin

text \<open>
  What the safety shield guarantees: an accepted action commands only UAVs that are up and above their
  energy reserve, keeps the minimum separation of the whole swarm and, when asked, every hop; a
  rejected one holds every UAV that is up where it is.
\<close>

section \<open>The loop over the targets\<close>

lemma hard_issues_append [simp]: "hard_issues (xs @ ys) = hard_issues xs @ hard_issues ys"
  by (simp add: hard_issues_def)

lemma hard_issues_error [simp]:
  "hard_issues [] = []"
  "hard_issues (shield_error c m e v l # is) = shield_error c m e v l # hard_issues is"
  "hard_issues (shield_warning c m e v l k # is) = hard_issues is"
  by (simp_all add: hard_issues_def shield_error_def shield_warning_def)

lemma hard_fence [simp]: "hard_issues (snd (fence_target s uav v)) = []"
  by (auto simp: fence_target_def Let_def split: prod.splits)

text \<open>The position a UAV is sent to: the target in ENU, corrected, then limited by the motion envelope.\<close>

definition flown :: "shield_settings \<Rightarrow> string \<Rightarrow> pydict \<Rightarrow> string \<Rightarrow> vec3 \<Rightarrow> vec3 res" where
  "flown s frame item uav target =
     bindR (current_position item) (\<lambda>current. bindR (enu target frame) (\<lambda>v.
     bindR (project_step current (fst (fence_target s uav v)) (ss_max_distance s)) (\<lambda>stepped.
     bindR (fdiv (ss_max_vertical s) (ss_update_rate_hz s)) (\<lambda>step.
       Inr (limit_vertical step current stepped)))))"

lemma project_target_effect:
  assumes "project_target s frame uavs (uav, target) st = Inr st'"
  shows "\<exists>new. st_issues st' = st_issues st @ new
    \<and> (hard_issues new = [] \<longrightarrow>
        (\<exists>item p. map_of uavs uav = Some item \<and> uav_up item \<and> flown s frame item uav target = Inr p
          \<and> st_normalized st' = AList.update uav p (st_normalized st)))
    \<and> (hard_issues new \<noteq> [] \<longrightarrow> st_normalized st' = st_normalized st)"
proof -
  from assms obtain item where item: "map_of uavs uav = Some item"
    by (auto simp: project_target_def split: option.splits)
  show ?thesis
  proof (cases "uav_up item")
    case False
    with assms item show ?thesis by (auto simp: project_target_def)
  next
    case up: True
    with assms item obtain current where current: "current_position item = Inr current"
      by (auto simp: project_target_def bindR_Inr_iff)
    show ?thesis
    proof (cases "enu target frame")
      case (Inl e)
      with assms item up current show ?thesis by (cases e) (auto simp: project_target_def)
    next
      case (Inr v)
      obtain corrected warnings where fence: "fence_target s uav v = (corrected, warnings)" by fastforce
      from assms item up current Inr fence obtain stepped step
        where steps: "project_step current corrected (ss_max_distance s) = Inr stepped"
          "fdiv (ss_max_vertical s) (ss_update_rate_hz s) = Inr step"
        and st': "st' = (let p = limit_vertical step current stepped;
              moved = fgt (fdist (vec_list p) (vec_list corrected)) tolerance_m
            in \<lparr>st_issues = st_issues st @ warnings
                 @ (if moved then [shield_warning ''MOTION_PROJECTED''
                      ''Target was projected to the per-update motion envelope.'' uav
                      (vec_value corrected) (PFloat (ss_max_distance s)) (vec_value p)] else []),
               st_projected = (st_projected st \<or> warnings \<noteq> [] \<or> moved),
               st_normalized = AList.update uav p (st_normalized st)\<rparr>)"
        by (auto simp: project_target_def bindR_Inr_iff Let_def)
      have "hard_issues warnings = []" using hard_fence [of s uav v] by (simp add: fence)
      moreover have "flown s frame item uav target = Inr (limit_vertical step current stepped)"
        using current Inr steps fence by (simp add: flown_def)
      ultimately show ?thesis using item up
        by (auto simp: st' Let_def simp del: split_paired_Ex)
    qed
  qed
qed

text \<open>When no issue is an error, every target was flown.\<close>

definition targets_flown ::
  "shield_settings \<Rightarrow> string \<Rightarrow> uav_table \<Rightarrow> (string \<times> vec3) list \<Rightarrow> (string \<times> vec3) list
   \<Rightarrow> (string \<times> vec3) list \<Rightarrow> bool" where
  "targets_flown s frame uavs targets old new \<longleftrightarrow>
     dom (map_of new) = dom (map_of old) \<union> fst ` set targets
     \<and> (\<forall>k p. map_of new k = Some p \<longrightarrow>
          map_of old k = Some p
          \<or> (\<exists>item target. (k, target) \<in> set targets \<and> map_of uavs k = Some item \<and> uav_up item
               \<and> flown s frame item k target = Inr p))"

lemma targets_flown_step:
  assumes "map_of uavs uav = Some item" "uav_up item" "flown s frame item uav target = Inr p"
    and "targets_flown s frame uavs targets (AList.update uav p old) new"
  shows "targets_flown s frame uavs ((uav, target) # targets) old new"
  unfolding targets_flown_def
proof (intro conjI allI impI)
  show "dom (map_of new) = dom (map_of old) \<union> fst ` set ((uav, target) # targets)"
    using assms(4) by (auto simp: targets_flown_def update_conv')
next
  fix k q assume "map_of new k = Some q"
  with assms(4) consider "map_of (AList.update uav p old) k = Some q"
    | "\<exists>item target. (k, target) \<in> set targets \<and> map_of uavs k = Some item \<and> uav_up item
         \<and> flown s frame item k target = Inr q" unfolding targets_flown_def by blast
  then show "map_of old k = Some q
      \<or> (\<exists>item t. (k, t) \<in> set ((uav, target) # targets) \<and> map_of uavs k = Some item \<and> uav_up item
           \<and> flown s frame item k t = Inr q)"
  proof cases
    case 1
    then show ?thesis using assms(1-3) by (cases "k = uav") (auto simp: update_conv' simp del: split_paired_Ex split_paired_All)
  next
    case 2
    then show ?thesis by (meson list.set_intros(2))
  qed
qed

lemma project_targets_effect:
  assumes "foldR (project_target s frame uavs) targets st = Inr st'"
  shows "\<exists>new. st_issues st' = st_issues st @ new
    \<and> (hard_issues new = [] \<longrightarrow>
        targets_flown s frame uavs targets (st_normalized st) (st_normalized st'))"
  using assms
proof (induction targets arbitrary: st)
  case Nil
  then show ?case by (simp add: targets_flown_def)
next
  case (Cons t targets)
  obtain uav target where t: "t = (uav, target)" by (cases t)
  from Cons.prems obtain st1 where st1: "project_target s frame uavs (uav, target) st = Inr st1"
    and rest: "foldR (project_target s frame uavs) targets st1 = Inr st'" by (auto simp: t bindR_Inr_iff)
  from project_target_effect [OF st1] obtain new1 where n1: "st_issues st1 = st_issues st @ new1"
    and f1: "hard_issues new1 = [] \<longrightarrow> (\<exists>item p. map_of uavs uav = Some item \<and> uav_up item
       \<and> flown s frame item uav target = Inr p \<and> st_normalized st1 = AList.update uav p (st_normalized st))"
    by (elim exE conjE)
  from Cons.IH [OF rest] obtain new2 where n2: "st_issues st' = st_issues st1 @ new2"
    and f2: "hard_issues new2 = [] \<longrightarrow> targets_flown s frame uavs targets (st_normalized st1) (st_normalized st')"
    by (elim exE conjE)
  have "targets_flown s frame uavs (t # targets) (st_normalized st) (st_normalized st')"
    if none: "hard_issues new1 = []" "hard_issues new2 = []"
  proof -
    from f1 [rule_format, OF none(1)] obtain item p where p: "map_of uavs uav = Some item" "uav_up item"
      "flown s frame item uav target = Inr p" "st_normalized st1 = AList.update uav p (st_normalized st)"
      by (elim exE conjE)
    from targets_flown_step [OF p(1-3)] f2 [rule_format, OF none(2)] show ?thesis by (simp add: p(4) t)
  qed
  with n1 n2 show ?case by (intro exI [of _ "new1 @ new2"]) simp
qed

section \<open>Acceptance\<close>

lemma hard_map_error [simp]: "hard_issues (map (\<lambda>k. shield_error c m (f k) (v k) l) ks) = [] \<longleftrightarrow> ks = []"
  by (cases ks) simp_all

lemma separation_issues_Nil:
  "hard_issues (separation_issues separation ps) = [] \<longleftrightarrow>
     sorted_wrt (\<lambda>(a, p) (b, q). \<not> too_close separation p q) ps"
proof (induction ps)
  case (Cons x ps)
  then show ?case by (cases x) (simp add: case_prod_unfold filter_empty_conv)
qed simp

definition above_reserve :: "pyfloat \<Rightarrow> pydict \<Rightarrow> bool" where
  "above_reserve reserve item \<longleftrightarrow> (\<exists>soc. fget item ''battery_soc_pct'' 100 = Inr soc \<and> \<not> fle soc reserve)"

lemma battery_issues_Nil:
  assumes "battery_issues reserve uavs ps = Inr is" "hard_issues is = []" "(k, p) \<in> set ps"
  shows "\<exists>item. map_of uavs k = Some item \<and> above_reserve reserve item"
proof -
  let ?f = "\<lambda>(k, p::vec3). case map_of uavs k of
      None \<Rightarrow> Inl (KeyError k)
    | Some item \<Rightarrow> bindR (fget item ''battery_soc_pct'' 100) (\<lambda>soc.
        Inr (if fle soc reserve
             then [shield_error ''BATTERY_RESERVE'' ''UAV battery is at or below reserve state.'' k
                     (PFloat soc) (PFloat reserve)] else []))"
  from assms(1) obtain iss where iss: "mapR ?f ps = Inr iss" "is = concat iss"
    by (auto simp: battery_issues_def bindR_Inr_iff)
  from assms(3) obtain i where i: "i < length ps" "ps ! i = (k, p)" by (auto simp: in_set_conv_nth)
  obtain new where new: "?f (k, p) = Inr new" "new \<in> set iss"
    using mapR_nth [OF iss(1) i(1)] mapR_length [OF iss(1)] i by force
  from assms(2) iss(2) new(2) have "hard_issues new = []" by (auto simp: hard_issues_def filter_empty_conv)
  with new(1) show ?thesis by (auto simp: above_reserve_def bindR_Inr_iff split: option.splits if_splits)
qed

text \<open>What an accepted proposal satisfies; \<open>ps\<close> are the positions the accepted action commands.\<close>

definition safe_proposal ::
  "shield_env \<Rightarrow> pydict \<Rightarrow> bool \<Rightarrow> uav_table \<Rightarrow> string \<Rightarrow> (string \<times> vec3) list \<Rightarrow> (string \<times> vec3) list \<Rightarrow> bool" where
  "safe_proposal w config require_connectivity uavs frame targets ps \<longleftrightarrow>
     (\<exists>s full reserve hops ok.
        shield_settings_of config = Inr s \<and> complete_positions uavs ps = Inr full
        \<and> reserve_of config = Inr reserve \<and> connectivity_preview w full config uavs = Inr (hops, ok)
        \<and> targets_flown s frame uavs targets [] ps
        \<and> list_all (\<lambda>(k, p). \<exists>item. map_of uavs k = Some item \<and> above_reserve reserve item) ps
        \<and> sorted_wrt (\<lambda>(a, p) (b, q). \<not> too_close (ss_min_separation s) p q) (sort_key fst full)
        \<and> (require_connectivity \<longrightarrow> ok))"

lemma shield_targets_outcome:
  assumes "shield_targets w a uavs config require_connectivity desired = Inr d"
  shows "(sd_accepted d \<and> (\<exists>st. safe_proposal w config require_connectivity uavs (ac_coordinate_frame a) desired
              (st_normalized st) \<and> sd_action d = shielded_action a st (sd_issues d)))
       \<or> (\<not> sd_accepted d \<and> (\<exists>held. fallback_positions uavs = Inr held \<and> sd_action d = held_action a held (sd_issues d)
              \<and> hard_issues (sd_issues d) \<noteq> []))"
proof -
  let ?known = "filter (\<lambda>(k, p). k \<in> fst ` set uavs) desired"
  let ?unknown = "sort (filter (\<lambda>k. k \<notin> fst ` set uavs) (map fst desired))"
  define start where "start = \<lparr>st_issues = map (\<lambda>k. shield_error ''UNKNOWN_ENTITY''
     ''Algorithm targeted an unknown UAV.'' k PNone PNone) ?unknown, st_projected = False, st_normalized = []\<rparr>"
  from assms obtain s st positions reserve battery r fallback where
    s: "shield_settings_of config = Inr s"
    and st: "foldR (project_target s (ac_coordinate_frame a) uavs) ?known start = Inr st"
    and positions: "complete_positions uavs (st_normalized st) = Inr positions"
    and reserve: "reserve_of config = Inr reserve"
    and battery: "battery_issues reserve uavs (st_normalized st) = Inr battery"
    and r: "connectivity_preview w positions config uavs = Inr r"
    and d: "shield_outcome w a uavs st (st_issues st
        @ separation_issues (ss_min_separation s) (sort_key fst positions) @ battery
        @ link_issues require_connectivity (fst r) (snd r)) (fst r) (py_str fallback) = Inr d"
    unfolding shield_targets_def Let_def start_def [symmetric]
    by (auto simp only: bindR_Inr_iff split_beta)
  obtain hops ok where ok: "r = (hops, ok)" by fastforce
  note hops = r [unfolded ok] and d = d [unfolded ok fst_conv snd_conv]
  define issues where "issues = st_issues st @ separation_issues (ss_min_separation s) (sort_key fst positions)
      @ battery @ link_issues require_connectivity hops ok"
  show ?thesis
  proof (cases "hard_issues issues = []")
    case False
    with d show ?thesis by (auto simp: shield_outcome_def bindR_Inr_iff simp flip: issues_def)
  next
    case True
    then have clean: "hard_issues (st_issues st) = []" "hard_issues battery = []"
      "hard_issues (separation_issues (ss_min_separation s) (sort_key fst positions)) = []"
      "hard_issues (link_issues require_connectivity hops ok) = []" by (simp_all add: issues_def)
    from project_targets_effect [OF st] obtain new where new: "st_issues st = st_issues start @ new"
      and flown: "hard_issues new = [] \<longrightarrow>
        targets_flown s (ac_coordinate_frame a) uavs ?known (st_normalized start) (st_normalized st)"
      by (elim exE conjE)
    from clean(1) new have "?unknown = []" "hard_issues new = []" by (simp_all add: start_def)
    then have "?known = desired"
      by (simp add: filter_empty_conv filter_id_conv case_prod_unfold)
    with flown \<open>hard_issues new = []\<close>
    have "targets_flown s (ac_coordinate_frame a) uavs desired [] (st_normalized st)" by (simp add: start_def)
    moreover have "list_all (\<lambda>(k, p). \<exists>item. map_of uavs k = Some item \<and> above_reserve reserve item) (st_normalized st)"
      using battery_issues_Nil [OF battery clean(2)] by (auto simp: list_all_iff)
    moreover have "require_connectivity \<longrightarrow> ok" using clean(4) by (auto simp: link_issues_def split: if_splits)
    ultimately have "safe_proposal w config require_connectivity uavs (ac_coordinate_frame a) desired (st_normalized st)"
      using s positions reserve hops clean(3) unfolding safe_proposal_def separation_issues_Nil by blast
    moreover have "sd_accepted d" "sd_action d = shielded_action a st (sd_issues d)"
      using d True by (auto simp: shield_outcome_def simp flip: issues_def)
    ultimately show ?thesis by blast
  qed
qed

lemma explain_other: "k \<noteq> ''explanation'' \<Longrightarrow> dget (explain d key v) k x = dget d k x"
  by (simp add: explain_def)

lemma apply_safety_shield_cases:
  assumes "apply_safety_shield w a snapshot config require_connectivity = Inr d"
  obtains (early) "\<not> sd_accepted d" "sd_action d = []"
    | (unguarded) "dget (ac_payload a) ''desired_positions'' PNone = PNone" "action_errors (sh_now w) a = []"
        "sd_accepted d" "sd_action d = action_as_dict a"
    | (guarded) uavs targets where "uav_map snapshot = Inr uavs"
        "dget (ac_payload a) ''desired_positions'' PNone \<noteq> PNone"
        "normalize_vec3_map (dget (ac_payload a) ''desired_positions'' PNone) ''desired_positions'' = Inr targets"
        "shield_targets w a uavs config require_connectivity targets = Inr d"
proof (cases "action_errors (sh_now w) a = []")
  case False
  with assms show thesis
    by (intro early) (auto simp: apply_safety_shield_def early_rejection_def bindR_Inr_iff)
next
  case True
  with assms obtain uavs where uavs: "uav_map snapshot = Inr uavs"
    by (auto simp: apply_safety_shield_def bindR_Inr_iff)
  show thesis
  proof (cases "dget (ac_payload a) ''desired_positions'' PNone = PNone")
    case unset: True
    with assms True uavs show thesis by (intro unguarded) (auto simp: apply_safety_shield_def)
  next
    case set: False
    let ?raw = "dget (ac_payload a) ''desired_positions'' PNone"
    have body: "(case normalize_vec3_map ?raw ''desired_positions'' of
        Inl (AlgorithmContractError text) \<Rightarrow>
          early_rejection w a config [shield_error ''ALGORITHM_OUTPUT_REJECTED'' text '''' PNone PNone]
      | Inl e \<Rightarrow> Inl e
      | Inr desired \<Rightarrow> shield_targets w a uavs config require_connectivity desired) = Inr d"
      using assms True uavs set by (simp add: apply_safety_shield_def split: pyval.splits)
    show thesis
    proof (cases "normalize_vec3_map ?raw ''desired_positions''")
      case (Inl e)
      with body show thesis
        by (intro early) (cases e; auto simp: early_rejection_def bindR_Inr_iff)+
    next
      case (Inr targets)
      with body uavs set show thesis by (intro guarded) simp_all
    qed
  qed
qed

text \<open>C17 what the safety shield accepts: when an action with desired positions is accepted, the action that
  leaves the shield is labelled ENU and commands a position for exactly the requested UAVs; each of them
  is known, up and above the energy reserve, its position is the corrected and motion-limited image of
  the request; no two UAVs that are up are closer than the minimum separation in the complete state, and,
  when connectivity is required, every hop of the topology is feasible in it.\<close>

theorem accepted_action_safe:
  assumes "apply_safety_shield w a snapshot config require_connectivity = Inr d"
    and "sd_accepted d" and "dget (ac_payload a) ''desired_positions'' PNone \<noteq> PNone"
  shows "\<exists>uavs targets ps. uav_map snapshot = Inr uavs
    \<and> normalize_vec3_map (dget (ac_payload a) ''desired_positions'' PNone) ''desired_positions'' = Inr targets
    \<and> safe_proposal w config require_connectivity uavs (ac_coordinate_frame a) targets ps
    \<and> dget (as_dict (dget (sd_action d) ''payload'' PNone)) ''desired_positions'' PNone = positions_value ps
    \<and> dget (sd_action d) ''coordinate_frame'' PNone = PStr ''ENU''"
  using assms(1)
proof (cases rule: apply_safety_shield_cases)
  case (guarded uavs targets)
  from shield_targets_outcome [OF guarded(4)] assms(2) obtain st
    where st: "safe_proposal w config require_connectivity uavs (ac_coordinate_frame a) targets (st_normalized st)"
      "sd_action d = shielded_action a st (sd_issues d)" by blast
  have "dget (as_dict (dget (sd_action d) ''payload'' PNone)) ''desired_positions'' PNone
      = positions_value (st_normalized st)"
    "dget (sd_action d) ''coordinate_frame'' PNone = PStr ''ENU''"
    by (simp_all add: st(2) shielded_action_def explain_other)
  with guarded st show ?thesis by blast
qed (use assms in simp_all)

definition demo_action :: "string \<Rightarrow> algorithm_action" where
  "demo_action frame =
     \<lparr>ac_algorithm_id = ''hover'', ac_algorithm_version = ''1.0.0'', ac_source_revision_id = ''r1'',
      ac_timestamp_s = Fin 0, ac_validity_horizon_s = Fin 1, ac_coordinate_frame = frame, ac_units = [],
      ac_payload = [(''desired_positions'', PDict [(''drone_1'', PList [PInt 0, PInt 0, PInt 50])])],
      ac_confidence = None, ac_uncertainty = [], ac_objective_value = None, ac_constraint_residuals = [],
      ac_computation_duration_s = Fin 0, ac_termination_reason = ''completed'', ac_fallback = False,
      ac_explanation = [], ac_schema_version = ''2.0''\<rparr>"

definition demo_snapshot :: pydict where
  "demo_snapshot =
     [(''uavs'', PList [PDict [(''id'', PStr ''drone_1''), (''position'', PList [PInt 0, PInt 0, PInt 50])]])]"

definition demo_shield_env :: shield_env where
  "demo_shield_env =
     \<lparr>sh_now = Fin 0, sh_libm = \<lparr>lm_log10 = (\<lambda>x. Fin 4), lm_log2 = (\<lambda>x. Fin 5), lm_pow10 = (\<lambda>x. Inr (Fin 30))\<rparr>,
      sh_link = (\<lambda>_. \<lparr>le_metric_at = Fin 1, le_decision_at = Fin 2, le_printed_at = Fin 2,
                     le_elapsed_ms = Fin 0, le_uuid = 0, le_deviate = (\<lambda>_. Fin 0)\<rparr>),
      sh_elapsed = Fin 0\<rparr>"

lemma demo_accepted:
  "case apply_safety_shield demo_shield_env (demo_action ''ENU'') demo_snapshot [] True of
     Inl e \<Rightarrow> False | Inr d \<Rightarrow> sd_accepted d"
  by code_simp

lemma accepted_action_safe_witness:
  "\<exists>d. apply_safety_shield demo_shield_env (demo_action ''ENU'') demo_snapshot [] True = Inr d \<and> sd_accepted d
     \<and> dget (sd_action d) ''coordinate_frame'' PNone = PStr ''ENU''"
proof -
  obtain d where d: "apply_safety_shield demo_shield_env (demo_action ''ENU'') demo_snapshot [] True = Inr d" "sd_accepted d"
    using demo_accepted by (auto split: sum.splits)
  have "dget (ac_payload (demo_action ''ENU'')) ''desired_positions'' PNone \<noteq> PNone"
    by (simp add: demo_action_def)
  from accepted_action_safe [OF d this] d show ?thesis by blast
qed

text \<open>The positions that hold the swarm.\<close>

definition holding :: "uav_table \<Rightarrow> (string \<times> vec3) list \<Rightarrow> bool" where
  "holding uavs held \<longleftrightarrow>
     list_all2 (\<lambda>(k, item) (j, p). j = k \<and> current_position item = Inr p)
       (filter (\<lambda>(k, item). uav_up item) uavs) held"

lemma fallback_positions_hold:
  assumes "fallback_positions uavs = Inr held" shows "holding uavs held"
proof -
  have "list_all2 (\<lambda>(k, item) (j, p). j = k \<and> current_position item = Inr p) us held"
    if "mapR (\<lambda>(k, item). bindR (current_position item) (\<lambda>p. Inr (k, p))) us = Inr held" for us
    using that by (induction us arbitrary: held) (auto simp: bindR_Inr_iff)
  with assms show ?thesis by (simp add: fallback_positions_def holding_def)
qed

text \<open>C18 what a rejection of the safety shield leaves: either no action at all, or an action marked as a
  fallback whose payload holds every UAV that is up, and no other, at its current position, because some
  issue is an error. The fallback keeps the coordinate frame of the rejected action although its positions
  are in the ENU frame of the snapshot.\<close>

theorem rejected_action_holds:
  assumes "apply_safety_shield w a snapshot config require_connectivity = Inr d" and "\<not> sd_accepted d"
  shows "sd_action d = []
    \<or> (\<exists>uavs held. uav_map snapshot = Inr uavs \<and> holding uavs held \<and> hard_issues (sd_issues d) \<noteq> []
        \<and> dget (sd_action d) ''payload'' PNone = PDict [(''desired_positions'', positions_value held)]
        \<and> dget (sd_action d) ''fallback'' PNone = PBool True
        \<and> dget (sd_action d) ''coordinate_frame'' PNone = PStr (ac_coordinate_frame a))"
  using assms(1)
proof (cases rule: apply_safety_shield_cases)
  case (guarded uavs targets)
  from shield_targets_outcome [OF guarded(4)] assms(2) obtain held
    where held: "fallback_positions uavs = Inr held" "hard_issues (sd_issues d) \<noteq> []"
      "sd_action d = held_action a held (sd_issues d)" by blast
  have "dget (sd_action d) ''payload'' PNone = PDict [(''desired_positions'', positions_value held)]"
    "dget (sd_action d) ''fallback'' PNone = PBool True"
    "dget (sd_action d) ''coordinate_frame'' PNone = PStr (ac_coordinate_frame a)"
    by (simp_all add: held(3) held_action_def explain_other action_as_dict_def)
  with fallback_positions_hold [OF held(1)] guarded(1) held(2) show ?thesis by blast
qed (use assms in simp_all)

lemma demo_rejected:
  "case apply_safety_shield demo_shield_env (demo_action ''ECEF'') demo_snapshot [] True of
     Inl e \<Rightarrow> False | Inr d \<Rightarrow> \<not> sd_accepted d \<and> sd_action d \<noteq> []"
  by code_simp

lemma rejected_action_holds_witness:
  "\<exists>d. apply_safety_shield demo_shield_env (demo_action ''ECEF'') demo_snapshot [] True = Inr d
     \<and> dget (sd_action d) ''coordinate_frame'' PNone = PStr ''ECEF''"
proof -
  obtain d where d: "apply_safety_shield demo_shield_env (demo_action ''ECEF'') demo_snapshot [] True = Inr d"
    "\<not> sd_accepted d" "sd_action d \<noteq> []"
    using demo_rejected by (auto split: sum.splits)
  with rejected_action_holds [OF d(1,2)] show ?thesis by (auto simp: demo_action_def)
qed

end
