(* ===== verification/Relay_Failure.thy ===== *)
theory Relay_Failure
  imports Relay_Layout
begin

text \<open>
  Failures and replacements: a failure request waits for its detection deadline, is then detected, and a
  standby drone takes the place of the failed one; standby drones near the active chain join it.
\<close>

section \<open>The choice of a standby drone\<close>

text \<open>
  \<open>_strategy_selected_standby\<close>: the strategy's answers to the two hooks, in order; without a strategy
  \<open>rw_select\<close> answers \<open>None\<close>. The first that names a standby drone is taken.
\<close>

definition selected_value :: "pyval \<Rightarrow> pyval" where
  "selected_value v =
     (case v of
        PDict d \<Rightarrow> dget d ''standby_selection'' (dget d ''replacement_drone'' (dget d ''selected'' PNone))
      | _ \<Rightarrow> v)"

fun strategy_selection ::
  "relay_world \<Rightarrow> int \<Rightarrow> int list \<Rightarrow> string list \<Rightarrow> (relay_chain, int option) act" where
  "strategy_selection w failed standby [] = retA None"
| "strategy_selection w failed standby (hook # hooks) =
     bindA (getA (\<lambda>rc. parse_drone_index (rc_drones rc) (selected_value (rw_select w hook failed rc)))) (\<lambda>choice.
       case choice of
         Some i \<Rightarrow>
           if i \<in> set standby
           then seqA (modA (\<lambda>rc. emit ''strategy_standby_selected''
                  [(''strategy'', PStr (rc_strategy_id rc)), (''hook'', PStr hook),
                   (''failed_drone'', PInt failed), (''replacement_drone'', PInt i)] rc))
                (retA (Some i))
           else strategy_selection w failed standby hooks
       | None \<Rightarrow> strategy_selection w failed standby hooks)"

definition nearest_standby :: "relay_chain \<Rightarrow> vec3 \<Rightarrow> int list \<Rightarrow> int res" where
  "nearest_standby rc target standby =
     min_by (\<lambda>i. bindR (get_drone rc i) (\<lambda>d. distance (rd_current_position d) target)) standby"

definition promote :: "int \<Rightarrow> vec3 \<Rightarrow> relay_chain \<Rightarrow> relay_chain" where
  "promote i target rc =
     rc\<lparr>rc_drones := update_drone i (\<lambda>d. d\<lparr>rd_role := ''relay'', rd_integrated := True, rd_failed := False,
          rd_desired_position := target\<rparr>) (rc_drones rc)\<rparr>"

definition promotion_event :: "int \<Rightarrow> int \<Rightarrow> vec3 \<Rightarrow> relay_chain \<Rightarrow> relay_chain" where
  "promotion_event failed i target rc =
     emit ''standby_drone_promoted_for_failure''
       ([(''failed_drone'', PInt failed), (''replacement_drone'', PInt i)]
        @ (case map_of (rc_drones rc) i of
             None \<Rightarrow> [] | Some d \<Rightarrow> [(''replacement_previous_position'', rounded_value (rd_current_position d))])
        @ [(''replacement_target_position'', rounded_value target)]) rc"

definition activate_best_standby_for_failure :: "relay_world \<Rightarrow> int \<Rightarrow> (relay_chain, int option) act" where
  "activate_best_standby_for_failure w failed =
     bindA (getA standby_indices) (\<lambda>standby.
       if standby = []
       then seqA (modA (emit ''no_standby_available_for_failure'' [(''failed_drone'', PInt failed)])) (retA None)
       else bindA (getA (\<lambda>rc. map_of (rc_drones rc) failed)) (\<lambda>entry.
         case entry of
           None \<Rightarrow> seqA (modA (\<lambda>rc. emit ''failed_drone_missing_for_replacement''
                       [(''failed_drone'', PInt failed),
                        (''known_visible_drones'', ints_value (visible_drone_indices rc))] rc)) (retA None)
         | Some d \<Rightarrow>
             bindA (strategy_selection w failed standby [''on_failure'', ''select_standby'']) (\<lambda>choice.
             bindA (bindA (getA (\<lambda>rc. case choice of
                        Some i \<Rightarrow> Inr i
                      | None \<Rightarrow> nearest_standby rc (rd_desired_position d) standby)) liftA) (\<lambda>i.
               seqA (modA (\<lambda>rc. promotion_event failed i (rd_desired_position d)
                       (promote i (rd_desired_position d) rc)))
                 (retA (Some i))))))"

section \<open>Detection\<close>

definition mark_failed :: "int \<Rightarrow> relay_chain \<Rightarrow> relay_chain" where
  "mark_failed i rc =
     rc\<lparr>rc_failed_indices := insert i (rc_failed_indices rc),
        rc_drones := update_drone i (\<lambda>d. d\<lparr>rd_failed := True\<rparr>) (rc_drones rc),
        rc_pending_failure := None\<rparr>"

definition opt_int :: "int option \<Rightarrow> pyval" where
  "opt_int x = (case x of None \<Rightarrow> PNone | Some i \<Rightarrow> PInt i)"

definition detect_failure :: "relay_world \<Rightarrow> int \<Rightarrow> (relay_chain, unit) act" where
  "detect_failure w i =
     seqA (modA (mark_failed i))
       (bindA (activate_best_standby_for_failure w i) (\<lambda>replacement.
         seqA (modA (\<lambda>rc. emit ''failure_detected''
                [(''drone'', PInt i), (''replacement_drone'', opt_int replacement),
                 (''detection_timeout_s'', PFloat (rs_failure_detection_s (rc_settings rc)))] rc))
           (recompute_desired_positions w (drone_name i @ ''_failure'') True)))"

definition process_pending_failure :: "relay_world \<Rightarrow> (relay_chain, unit) act" where
  "process_pending_failure w =
     bindA (getA rc_pending_failure) (\<lambda>pending.
       case pending of
         None \<Rightarrow> retA ()
       | Some p \<Rightarrow>
           if flt (rw_now w) (pf_detection_deadline p) then retA ()
           else bindA (getA (\<lambda>rc. map_of (rc_drones rc) (pf_drone_index p) = None
                                \<or> pf_drone_index p > rc_drone_count rc)) (\<lambda>gone.
             if gone
             then modA (\<lambda>rc. (emit ''pending_failure_dropped''
                    [(''drone'', PInt (pf_drone_index p)),
                     (''reason'', PStr ''drone_not_in_current_inventory'')] rc)\<lparr>rc_pending_failure := None\<rparr>)
             else detect_failure w (pf_drone_index p)))"

section \<open>Standby drones that join the chain\<close>

definition nearest_active :: "relay_chain \<Rightarrow> int list \<Rightarrow> int \<Rightarrow> (int \<times> pyfloat) res" where
  "nearest_active rc active i =
     bindR (get_drone rc i) (\<lambda>d.
       let to = (\<lambda>j. bindR (get_drone rc j) (\<lambda>e. distance (rd_current_position d) (rd_current_position e)))
       in bindR (min_by to active) (\<lambda>j. bindR (to j) (\<lambda>metres. Inr (j, metres))))"

definition join_chain :: "int \<Rightarrow> relay_chain \<Rightarrow> relay_chain" where
  "join_chain i rc =
     rc\<lparr>rc_drones := update_drone i (\<lambda>d. d\<lparr>rd_role := ''relay'', rd_integrated := True\<rparr>) (rc_drones rc)\<rparr>"

fun integrate_loop :: "int list \<Rightarrow> int list \<Rightarrow> bool \<Rightarrow> (relay_chain, bool) act" where
  "integrate_loop active [] changed = retA changed"
| "integrate_loop active (i # is) changed =
     bindA (bindA (getA (\<lambda>rc. nearest_active rc active i)) liftA) (\<lambda>(j, metres).
     bindA (getA (\<lambda>rc. fle metres (rs_standby_activation_radius_m (rc_settings rc)))) (\<lambda>near.
       if near
       then seqA (modA (\<lambda>rc. emit ''standby_drone_integrated''
                [(''drone'', PInt i), (''nearest_active_drone'', PInt j),
                 (''distance_m'', PFloat (fround 3 metres))] (join_chain i rc)))
              (integrate_loop active is True)
       else integrate_loop active is changed))"

definition integrate_standby_if_possible :: "relay_world \<Rightarrow> (relay_chain, unit) act" where
  "integrate_standby_if_possible w =
     bindA (getA active_chain) (\<lambda>active.
       if active = [] then retA ()
       else bindA (getA standby_indices) (\<lambda>standby.
            bindA (integrate_loop active standby False) (\<lambda>changed.
              if changed then recompute_desired_positions w ''standby_auto_integration'' True
              else retA ())))"

end
