(* ===== verification/Relay_Control.thy ===== *)
theory Relay_Control
  imports Relay_Failure
begin

text \<open>
  The control topics of the relay chain: failing, healing and parking a drone, the reset, the mission
  commands and the movement patterns. A message is the text it carries together with the value that
  \<open>json.loads\<close> reads from it, or \<open>None\<close> when it is no JSON.
\<close>

record control_message =
  cm_data :: string
  cm_json :: "pyval option"

text \<open>\<open>_as_int\<close>, \<open>_as_float\<close> and \<open>_as_bool\<close>: a default instead of an exception.\<close>

definition as_int :: "pyval \<Rightarrow> int \<Rightarrow> int" where
  "as_int v dflt = (case py_int v of Inr i \<Rightarrow> i | Inl _ \<Rightarrow> dflt)"

definition as_float :: "pyval \<Rightarrow> pyfloat \<Rightarrow> pyfloat" where
  "as_float v dflt = (case py_float v of Inr f \<Rightarrow> f | Inl _ \<Rightarrow> dflt)"

definition as_bool :: "pyval \<Rightarrow> bool \<Rightarrow> bool" where
  "as_bool v dflt =
     (case v of
        PBool b \<Rightarrow> b
      | PNone \<Rightarrow> dflt
      | PInt i \<Rightarrow> i \<noteq> 0
      | PFloat f \<Rightarrow> f \<noteq> Fin 0
      | _ \<Rightarrow>
          (let text = py_lower (py_strip (py_str v))
           in if text \<in> {''1'', ''true'', ''yes'', ''y'', ''on''} then True
              else if text \<in> {''0'', ''false'', ''no'', ''n'', ''off''} then False
              else dflt))"

text \<open>The drone a message names: its field \<open>drone\<close>, or the text itself when that has no fields.\<close>

definition requested_drone :: "control_message \<Rightarrow> int" where
  "requested_drone msg =
     (case cm_json msg of
        Some (PDict d) \<Rightarrow> as_int (dget d ''drone'' PNone) (- 1)
      | _ \<Rightarrow> as_int (PStr (py_strip (cm_data msg))) (- 1))"

definition raw_detail :: "control_message \<Rightarrow> string \<times> pyval" where
  "raw_detail msg = (''raw'', PStr (cm_data msg))"

section \<open>Poses\<close>

definition pose_cb :: "relay_world \<Rightarrow> int \<Rightarrow> vec3 \<Rightarrow> relay_chain \<Rightarrow> relay_chain" where
  "pose_cb w i p rc =
     rc\<lparr>rc_drones := update_drone i (\<lambda>d. d\<lparr>rd_current_position := p, rd_last_pose_time := rw_now w\<rparr>)
          (rc_drones rc)\<rparr>"

section \<open>Failing and healing\<close>

definition fail_drone_cb :: "relay_world \<Rightarrow> control_message \<Rightarrow> relay_chain \<Rightarrow> relay_chain" where
  "fail_drone_cb w msg rc =
     (let i = requested_drone msg
      in if map_of (rc_drones rc) i = None
         then emit ''invalid_failure_request''
                [raw_detail msg, (''known_drones'', ints_value (drone_indices rc))] rc
         else if i \<in> rc_failed_indices rc \<or> map_option pf_drone_index (rc_pending_failure rc) = Some i
         then emit ''duplicate_failure_request'' [(''drone'', PInt i)] rc
         else let deadline = fadd (rw_now w) (rs_failure_detection_s (rc_settings rc));
                  rc1 = rc\<lparr>rc_pending_failure := Some \<lparr>pf_drone_index = i, pf_requested_at = rw_now w,
                             pf_detection_deadline = deadline\<rparr>\<rparr>
              in emit ''failure_injected''
                   [(''drone'', PInt i), (''detection_deadline'', PFloat deadline),
                    (''active_branches_before_detection'', branches_value (active_branches rc1))] rc1)"

definition heal_drone :: "int \<Rightarrow> relay_chain \<Rightarrow> relay_chain" where
  "heal_drone i rc =
     rc\<lparr>rc_failed_indices := rc_failed_indices rc - {i},
        rc_drones := update_drone i (\<lambda>d. d\<lparr>rd_failed := False, rd_integrated := True, rd_role := ''relay''\<rparr>)
          (rc_drones rc),
        rc_pending_failure := None\<rparr>"

definition heal_drone_cb :: "relay_world \<Rightarrow> control_message \<Rightarrow> (relay_chain, unit) act" where
  "heal_drone_cb w msg =
     (let i = requested_drone msg
      in bindA (getA (\<lambda>rc. map_of (rc_drones rc) i)) (\<lambda>entry.
           case entry of
             None \<Rightarrow> modA (\<lambda>rc. emit ''invalid_heal_request''
                       [raw_detail msg, (''known_drones'', ints_value (drone_indices rc))] rc)
           | Some _ \<Rightarrow>
               seqA (modA (heal_drone i))
                 (recompute_desired_positions w (drone_name i @ ''_healed'') True)))"

definition park_drone :: "int \<Rightarrow> relay_chain \<Rightarrow> relay_chain" where
  "park_drone i rc =
     rc\<lparr>rc_drones := update_drone i (\<lambda>d. d\<lparr>rd_role := ''standby'', rd_integrated := False\<rparr>) (rc_drones rc)\<rparr>"

definition standby_drone_cb :: "relay_world \<Rightarrow> control_message \<Rightarrow> (relay_chain, unit) act" where
  "standby_drone_cb w msg =
     (let i = requested_drone msg
      in bindA (getA (\<lambda>rc. map_of (rc_drones rc) i = None \<or> i < 1 \<or> i > rc_drone_count rc)) (\<lambda>invalid.
           if invalid
           then modA (\<lambda>rc. emit ''invalid_standby_request''
                  [raw_detail msg, (''known_visible_drones'', ints_value (visible_drone_indices rc))] rc)
           else seqA (modA (park_drone i))
                  (recompute_desired_positions w (drone_name i @ ''_set_standby'') True)))"

definition reset_drones :: "relay_chain \<Rightarrow> relay_chain" where
  "reset_drones rc =
     rc\<lparr>rc_failed_indices := {},
        rc_drones := map (\<lambda>(i, d). (i, d\<lparr>rd_failed := False,
          rd_integrated := (if rd_role d \<noteq> ''standby'' then True else rd_integrated d)\<rparr>)) (rc_drones rc),
        rc_pending_failure := None\<rparr>"

definition reset_chain_cb :: "relay_world \<Rightarrow> (relay_chain, unit) act" where
  "reset_chain_cb w = seqA (modA reset_drones) (recompute_desired_positions w ''chain_reset'' True)"

section \<open>Mission commands\<close>

definition aim_drones :: "(int \<Rightarrow> drone_runtime \<Rightarrow> vec3) \<Rightarrow> relay_chain \<Rightarrow> relay_chain" where
  "aim_drones target rc =
     rc\<lparr>rc_drones := map (\<lambda>(i, d). (i, d\<lparr>rd_desired_position := target i d\<rparr>)) (rc_drones rc)\<rparr>"

definition set_mode :: "bool \<Rightarrow> string \<Rightarrow> relay_chain \<Rightarrow> relay_chain" where
  "set_mode held mode rc = rc\<lparr>rc_operator_paused := held, rc_mission_mode := mode\<rparr>"

definition command_alias :: "string \<Rightarrow> string" where
  "command_alias c =
     (if c = ''pause'' then ''hold'' else if c = ''rtl'' then ''return_home''
      else if c = ''stop'' then ''emergency_stop'' else c)"

definition mission_commands :: "string list" where
  "mission_commands =
     [''takeoff'', ''hold'', ''resume'', ''land'', ''return_home'', ''emergency_stop'', ''stop_experiment'']"

definition requested_command :: "control_message \<Rightarrow> string \<times> string" where
  "requested_command msg =
     (case cm_json msg of
        Some (PDict d) \<Rightarrow> (command_alias (py_lower (py_strip (py_str (dget d ''command'' (PStr ''''))))),
                           py_str (dget d ''command_id'' (PStr '''')))
      | _ \<Rightarrow> (command_alias (py_lower (py_strip (cm_data msg))), ''''))"

definition takeoff_target :: "relay_chain \<Rightarrow> int \<Rightarrow> drone_runtime \<Rightarrow> vec3" where
  "takeoff_target rc i d =
     (case rd_desired_position d of (x, y, z) \<Rightarrow>
        (x, y, py_max z (py_max (Fin (1 / 2)) (rs_altitude_start_m (rc_settings rc)))))"

definition land_target :: "int \<Rightarrow> drone_runtime \<Rightarrow> vec3" where
  "land_target i d = (case rd_current_position d of (x, y, _) \<Rightarrow> (x, y, rnd64 (3 / 10)))"

definition home_target :: "relay_chain \<Rightarrow> int \<Rightarrow> drone_runtime \<Rightarrow> vec3" where
  "home_target rc i d =
     (case map_of (rc_home_positions rc) i of Some p \<Rightarrow> p | None \<Rightarrow> rd_current_position d)"

definition hold_target :: "int \<Rightarrow> drone_runtime \<Rightarrow> vec3" where
  "hold_target i d = rd_current_position d"

definition run_command :: "string \<Rightarrow> relay_chain \<Rightarrow> relay_chain" where
  "run_command c rc =
     (if c = ''resume'' then set_mode False ''RUNNING'' rc
      else if c = ''takeoff'' then set_mode False ''TAKEOFF'' (aim_drones (takeoff_target rc) rc)
      else if c = ''hold'' then set_mode True ''HOLD'' (aim_drones hold_target rc)
      else if c = ''land'' then set_mode True ''LANDING'' (aim_drones land_target rc)
      else if c = ''return_home'' then set_mode True ''RETURN_HOME'' (aim_drones (home_target rc) rc)
      else if c = ''stop_experiment'' then set_mode True ''COMPLETED'' rc
      else set_mode True ''EMERGENCY_STOP'' (aim_drones hold_target rc))"

definition mission_command_cb :: "control_message \<Rightarrow> relay_chain \<Rightarrow> relay_chain" where
  "mission_command_cb msg rc =
     (case requested_command msg of
        (c, command_id) \<Rightarrow>
          if c \<notin> set mission_commands
          then emit ''invalid_mission_command''
                 [raw_detail msg, (''command'', PStr c), (''command_id'', PStr command_id)] rc
          else let rc1 = run_command c (rc\<lparr>rc_last_mission_command := c, rc_last_mission_command_id := command_id\<rparr>)
               in emit ''mission_command_applied''
                    [(''command'', PStr c), (''command_id'', PStr command_id),
                     (''mission_mode'', PStr (rc_mission_mode rc1)),
                     (''operator_paused'', PBool (rc_operator_paused rc1))] rc1)"

section \<open>Movement patterns\<close>

definition movement_patterns :: "string list" where
  "movement_patterns =
     [''figure8'', ''hover'', ''orbit'', ''oscillate'', ''patrol'', ''spiral'', ''survey'', ''swarm'', ''wind'']"

text \<open>\<open>raw.split()\<close>.\<close>

function py_split :: "string \<Rightarrow> string list" where
  "py_split s =
     (let t = dropWhile is_space s
      in if t = [] then [] else takeWhile (Not \<circ> is_space) t # py_split (dropWhile (Not \<circ> is_space) t))"
  by pat_completeness auto
termination
proof (relation "measure length")
  fix s :: string and t
  assume t: "t = dropWhile is_space s" "t \<noteq> []"
  then have "\<not> is_space (hd t)" using hd_dropWhile [of is_space s] by simp
  with t(2) have "length (dropWhile (Not \<circ> is_space) t) < length t"
    by (cases t) (simp_all add: length_dropWhile_le le_imp_less_Suc)
  moreover have "length t \<le> length s" unfolding t(1) by (rule length_dropWhile_le)
  ultimately show "(dropWhile (Not \<circ> is_space) t, s) \<in> measure length" by simp
qed simp

declare py_split.simps [simp del]

record pattern_request =
  pr_pattern :: string
  pr_amplitude :: "pyfloat option"
  pr_speed :: "pyfloat option"

definition requested_pattern :: "relay_settings \<Rightarrow> control_message \<Rightarrow> pattern_request" where
  "requested_pattern st msg =
     (let amplitude = (\<lambda>v. py_max (Fin 0) (as_float v (rs_movement_amplitude_m st)));
          speed = (\<lambda>v. py_max (rnd64 (5 / 100)) (as_float v (rs_movement_speed st)))
      in case cm_json msg of
           Some (PDict d) \<Rightarrow>
             \<lparr>pr_pattern = py_lower (py_str (dget d ''movement_pattern''
                  (dget d ''pattern'' (PStr (rs_movement_pattern st))))),
              pr_amplitude = map_option amplitude (map_of d ''movement_amplitude_m''),
              pr_speed = map_option speed (map_of d ''movement_speed'')\<rparr>
         | _ \<Rightarrow>
             (let parts = py_split (py_strip (cm_data msg))
              in \<lparr>pr_pattern = (if parts = [] then rs_movement_pattern st else py_lower (hd parts)),
                  pr_amplitude = (if length parts \<ge> 2 then Some (amplitude (PStr (parts ! 1))) else None),
                  pr_speed = (if length parts \<ge> 3 then Some (speed (PStr (parts ! 2))) else None)\<rparr>))"

definition set_pattern_cb :: "control_message \<Rightarrow> relay_chain \<Rightarrow> relay_chain" where
  "set_pattern_cb msg rc =
     (let st = rc_settings rc; r = requested_pattern st msg
      in if pr_pattern r \<notin> set movement_patterns
         then emit ''invalid_movement_pattern''
                [(''requested'', PStr (pr_pattern r)), (''allowed'', PList (map PStr movement_patterns))] rc
         else let st1 = st\<lparr>rs_movement_pattern := pr_pattern r,
                    rs_movement_amplitude_m := (case pr_amplitude r of Some a \<Rightarrow> a | None \<Rightarrow> rs_movement_amplitude_m st),
                    rs_movement_speed := (case pr_speed r of Some a \<Rightarrow> a | None \<Rightarrow> rs_movement_speed st)\<rparr>
              in emit ''movement_pattern_changed''
                   [(''movement_pattern'', PStr (rs_movement_pattern st1)),
                    (''movement_amplitude_m'', PFloat (rs_movement_amplitude_m st1)),
                    (''movement_speed'', PFloat (rs_movement_speed st1))]
                   (rc\<lparr>rc_settings := st1\<rparr>))"

end
