(* ===== verification/Relay_Inventory.thy ===== *)
theory Relay_Inventory
  imports Relay_Control
begin

text \<open>
  The drones of the relay chain and its settings: the inventory that is loaded from the configuration and
  brought in line with every configuration update, and the update itself.

  An exception leaves the assignments made before it, so the operations are acts. Attributes that are only
  displayed (names of policies, antennas, worlds, wind) have no field, the timer that a new hop period
  creates is not modelled, and the event \<open>runtime_config_updated\<close> is kept without its details.
  \<open>_resize_swarm\<close> is never called.
\<close>

section \<open>New drones\<close>

definition index_value :: "pyval \<Rightarrow> nat \<Rightarrow> pyval res" where
  "index_value v n =
     (case v of
        PList xs \<Rightarrow> if n < length xs then Inr (xs ! n) else Inl IndexError
      | PStr s \<Rightarrow> if n < length s then Inr (PStr [s ! n]) else Inl IndexError
      | PDict _ \<Rightarrow> Inl (KeyError (show_nat n))
      | _ \<Rightarrow> Inl TypeError)"

definition read_position :: "pyval \<Rightarrow> vec3 res" where
  "read_position v =
     bindR (bindR (index_value v 0) py_float) (\<lambda>x.
     bindR (bindR (index_value v 1) py_float) (\<lambda>y.
     bindR (bindR (index_value v 2) py_float) (\<lambda>z. Inr (x, y, z))))"

definition default_position_for_index :: "relay_world \<Rightarrow> relay_chain \<Rightarrow> int \<Rightarrow> vec3 res" where
  "default_position_for_index w rc i =
     bindR (heading w rc) (\<lambda>(dx, dy).
       case rs_station_position (rc_settings rc) of (sx, sy, _) \<Rightarrow>
         let st = rc_settings rc;
             spacing = over_count (rs_coverage_radius_m st) (rc_drone_count rc);
             along = fmul spacing (rnd64 (of_int i));
             lateral = fmul (Fin (if even i then 1 else - 1))
                         (py_min (fmul (rs_coverage_width_m st) (rnd64 (18 / 100))) (Fin 10));
             alpha = rnd64 (of_int (i - 1) / of_int (max 1 (rc_drone_count rc - 1)));
             z = fadd (rs_altitude_start_m st)
                   (fmul (fsub (rs_altitude_end_m st) (rs_altitude_start_m st)) alpha)
         in Inr (fadd (fadd sx (fmul dx along)) (fmul (fneg dy) lateral),
                 fadd (fadd sy (fmul dy along)) (fmul dx lateral), z))"

definition new_drone :: "relay_settings \<Rightarrow> int \<Rightarrow> pydict \<Rightarrow> vec3 \<Rightarrow> drone_runtime" where
  "new_drone st i item p =
     (let role = py_str (dget item ''role'' (PStr ''relay''))
      in \<lparr>rd_index = i, rd_drone_id = py_str (dget item ''id'' (PStr (drone_name i))),
          rd_initial_position = p, rd_current_position = p, rd_desired_position = p,
          rd_battery_pct = as_float (dget item ''battery_pct'' PNone)
            (py_max (Fin 10) (fsub (Fin 100) (fmul (rnd64 (of_int i)) (Fin (3 / 2))))),
          rd_role = role,
          rd_antenna_gain_dbi = as_float (dget item ''antenna_gain_dbi'' PNone) (Fin 4),
          rd_antenna_name = py_str (dget item ''antenna_name'' (PStr (rs_uav_antenna_name st))),
          rd_failed = False, rd_integrated = (role \<noteq> ''standby''), rd_last_pose_time = Fin 0,
          rd_last_seen_chain_version = 0\<rparr>)"

definition ensure_drone :: "relay_world \<Rightarrow> int \<Rightarrow> pydict \<Rightarrow> (relay_chain, unit) act" where
  "ensure_drone w i item =
     bindA (getA (\<lambda>rc. map_of (rc_drones rc) i)) (\<lambda>entry.
       case entry of
         Some _ \<Rightarrow> retA ()
       | None \<Rightarrow>
           bindA (bindA (getA (\<lambda>rc. bindR (default_position_for_index w rc i) (\<lambda>dflt.
                    read_position (dget item ''position''
                      (case dflt of (x, y, z) \<Rightarrow> PList [PFloat x, PFloat y, PFloat z]))))) liftA) (\<lambda>p.
             modA (\<lambda>rc. rc\<lparr>rc_drones := rc_drones rc @ [(i, new_drone (rc_settings rc) i item p)]\<rparr>)))"

section \<open>Loading\<close>

text \<open>\<open>_apply_role_counts\<close> as the loader calls it, with the counts of the configuration.\<close>

definition relabel_roles :: "relay_chain \<Rightarrow> relay_chain" where
  "relabel_roles rc =
     rc\<lparr>rc_drones := map (\<lambda>(i, d). (i,
          if i \<le> rc_relay_count rc
          then (if i \<in> rc_failed_indices rc then d else d\<lparr>rd_role := ''relay'', rd_integrated := True\<rparr>)
          else d\<lparr>rd_role := ''standby'', rd_integrated := False\<rparr>)) (rc_drones rc)\<rparr>"

definition apply_role_counts :: "int \<Rightarrow> bool \<Rightarrow> relay_chain \<Rightarrow> relay_chain" where
  "apply_role_counts relay_count preserve_explicit_roles rc =
     (let total = int (length (rc_drones rc));
          explicit = int (length (filter (\<lambda>(_, d). rd_role d = ''standby'') (rc_drones rc)));
          relays = max 1 (min total relay_count)
      in if total \<le> 0 then rc\<lparr>rc_relay_count := 0, rc_standby_count := 0\<rparr>
         else if preserve_explicit_roles \<and> explicit > 0
         then rc\<lparr>rc_standby_count := explicit, rc_relay_count := max 1 (total - explicit)\<rparr>
         else relabel_roles (rc\<lparr>rc_relay_count := relays, rc_standby_count := max 0 (total - relays)\<rparr>))"

fun drone_items :: "pyval list \<Rightarrow> (int \<times> pydict) list \<Rightarrow> (int \<times> pydict) list res" where
  "drone_items [] items = Inr items"
| "drone_items (v # vs) items =
     bindR (pitems v) (\<lambda>d. let i = as_int (dget d ''index'' (PInt (int (length items) + 1))) (int (length items) + 1)
       in drone_items vs (AList.update i d items))"

definition load_drones_from_config :: "relay_world \<Rightarrow> pydict \<Rightarrow> (relay_chain, unit) act" where
  "load_drones_from_config w config =
     bindA (liftA (drone_items (as_list (dget config ''drones'' (PList []))) [])) (\<lambda>items.
     bindA (getA rc_drone_count) (\<lambda>n.
       seqA (forA (\<lambda>i. ensure_drone w i (case map_of items i of Some d \<Rightarrow> d | None \<Rightarrow> [])) (int_range 1 (n + 1)))
         (modA (\<lambda>rc. apply_role_counts (rc_relay_count rc) (items \<noteq> []) rc))))"

section \<open>The inventory of an update\<close>

text \<open>\<open>s.split("_")[-1]\<close>.\<close>

definition after_underscore :: "string \<Rightarrow> string" where
  "after_underscore s = rev (takeWhile (\<lambda>c. c \<noteq> CHR ''_'') (rev s))"

definition spec_index :: "pydict \<Rightarrow> int" where
  "spec_index d =
     as_int (dget d ''index'' (case dget d ''id'' PNone of PStr s \<Rightarrow> PStr (after_underscore s) | _ \<Rightarrow> PInt 0)) 0"

definition specs_by_index :: "int \<Rightarrow> pyval list \<Rightarrow> (int \<times> pydict) list" where
  "specs_by_index n specs =
     fold (\<lambda>v m. case v of
             PDict d \<Rightarrow> if 1 \<le> spec_index d \<and> spec_index d \<le> n then AList.update (spec_index d) d m else m
           | _ \<Rightarrow> m) specs []"

definition list_position :: "pyval \<Rightarrow> vec3 option" where
  "list_position v =
     (case v of
        PList xs \<Rightarrow> if length xs < 3 then None
                    else (case read_position v of Inr p \<Rightarrow> Some p | Inl _ \<Rightarrow> None)
      | _ \<Rightarrow> None)"

definition move_home :: "vec3 \<Rightarrow> drone_runtime \<Rightarrow> drone_runtime" where
  "move_home p d =
     d\<lparr>rd_initial_position := p, rd_desired_position := p,
       rd_current_position := (if rd_last_pose_time d = Fin 0 then p else rd_current_position d)\<rparr>"

definition spec_role :: "pydict \<Rightarrow> string" where
  "spec_role spec =
     (let role = py_lower (py_str (dget spec ''role'' (PStr ''relay'')))
      in if role \<in> {''relay'', ''standby''} then role else ''relay'')"

definition spec_drone :: "pydict \<Rightarrow> bool \<Rightarrow> drone_runtime \<Rightarrow> drone_runtime" where
  "spec_drone spec failed d0 =
     (let d1 = (if truthy (dget spec ''id'' PNone) then d0\<lparr>rd_drone_id := py_str (dget spec ''id'' PNone)\<rparr> else d0);
          d2 = (case list_position (dget spec ''position'' PNone) of Some p \<Rightarrow> move_home p d1 | None \<Rightarrow> d1);
          d3 = (case map_of spec ''antenna_gain_dbi'' of
                  Some v \<Rightarrow> d2\<lparr>rd_antenna_gain_dbi := as_float v (rd_antenna_gain_dbi d2)\<rparr> | None \<Rightarrow> d2);
          d4 = (case map_of spec ''antenna_name'' of Some v \<Rightarrow> d3\<lparr>rd_antenna_name := py_str v\<rparr> | None \<Rightarrow> d3);
          d5 = (case map_of spec ''battery_pct'' of
                  Some v \<Rightarrow> d4\<lparr>rd_battery_pct := py_max (Fin 0) (py_min (Fin 100) (as_float v (rd_battery_pct d4)))\<rparr>
                | None \<Rightarrow> d4);
          role = spec_role spec
      in d5\<lparr>rd_failed := failed, rd_role := role,
            rd_integrated := (truthy (dget spec ''active'' (PBool True)) \<and> role \<noteq> ''standby'' \<and> \<not> failed)\<rparr>)"

text \<open>The specification of a drone with its default role, and what it assigns.\<close>

definition given_spec :: "(int \<times> pydict) list \<Rightarrow> int \<Rightarrow> int \<Rightarrow> pydict" where
  "given_spec specs relay_limit i =
     (let given = (case map_of specs i of Some d \<Rightarrow> d | None \<Rightarrow> [])
      in if map_of given ''role'' = None
         then dset ''role'' (PStr (if i \<le> relay_limit then ''relay'' else ''standby'')) given else given)"

definition assign_spec :: "pydict \<Rightarrow> int \<Rightarrow> relay_chain \<Rightarrow> relay_chain" where
  "assign_spec spec i rc =
     (let failed = as_bool (dget spec ''failed'' PNone) (i \<in> rc_failed_indices rc)
      in rc\<lparr>rc_drones := update_drone i (spec_drone spec failed) (rc_drones rc),
            rc_failed_indices := (if failed then insert i (rc_failed_indices rc)
                                  else rc_failed_indices rc - {i})\<rparr>)"

definition sync_drone :: "relay_world \<Rightarrow> int \<Rightarrow> (int \<times> pydict) list \<Rightarrow> int \<Rightarrow> (relay_chain, unit) act" where
  "sync_drone w relay_limit specs i =
     (let spec = given_spec specs relay_limit i in seqA (ensure_drone w i spec) (modA (assign_spec spec i)))"

definition drop_drones :: "int \<Rightarrow> relay_chain \<Rightarrow> relay_chain" where
  "drop_drones n rc =
     rc\<lparr>rc_drones := filter (\<lambda>(i, _). i \<le> n) (rc_drones rc),
        rc_failed_indices := {i \<in> rc_failed_indices rc. \<not> (n < i \<and> i \<in> set (drone_indices rc))},
        rc_pending_failure := (case rc_pending_failure rc of
           Some p \<Rightarrow> if pf_drone_index p > n then None else Some p | None \<Rightarrow> None)\<rparr>"

definition set_counts :: "int \<Rightarrow> int \<Rightarrow> relay_chain \<Rightarrow> relay_chain" where
  "set_counts n relay_limit rc =
     rc\<lparr>rc_drone_count := n, rc_relay_count_hint := relay_limit, rc_standby_count_hint := max 0 (n - relay_limit),
        rc_relay_count := relay_limit, rc_standby_count := max 0 (n - relay_limit)\<rparr>"

definition announce_removed :: "int \<Rightarrow> int \<Rightarrow> int list \<Rightarrow> relay_chain \<Rightarrow> relay_chain" where
  "announce_removed n relay_limit removed rc =
     (let rc1 = rc\<lparr>rc_last_removed_indices := removed\<rparr>
      in if removed = [] then rc1
         else emit ''drone_inventory_pruned''
                [(''removed_indices'', ints_value removed), (''requested_drone_count'', PInt n),
                 (''relay_count'', PInt relay_limit)] rc1)"

definition sync_drone_inventory ::
  "relay_world \<Rightarrow> int \<Rightarrow> int \<Rightarrow> pyval list \<Rightarrow> (relay_chain, int list) act" where
  "sync_drone_inventory w requested relays specs =
     (let n = max 1 requested; relay_limit = max 1 (min n relays)
      in bindA (getA (\<lambda>rc. filter (\<lambda>i. n < i) (drone_indices rc))) (\<lambda>removed.
         seqA (modA (\<lambda>rc. set_counts n relay_limit (drop_drones n rc)))
        (seqA (forA (sync_drone w relay_limit (specs_by_index n specs)) (int_range 1 (n + 1)))
        (seqA (modA (announce_removed n relay_limit removed)) (retA removed)))))"

end
