(* ===== verification/Relay_Update.thy ===== *)
theory Relay_Update
  imports Relay_Inventory
begin

text \<open>
  The configuration of the relay chain: the state it starts with, and the update that a saved revision
  sends to the running node, with the acknowledgement file it writes.
\<close>

section \<open>Reading settings\<close>

text \<open>\<open>set_float\<close>: a present key assigns, bounded from below; an unreadable value keeps the old one.\<close>

definition float_setting :: "pydict \<Rightarrow> string \<Rightarrow> pyfloat option \<Rightarrow> pyfloat \<Rightarrow> pyfloat" where
  "float_setting payload key minimum old =
     (case map_of payload key of
        None \<Rightarrow> old
      | Some v \<Rightarrow> (case minimum of None \<Rightarrow> as_float v old | Some m \<Rightarrow> py_max m (as_float v old)))"

definition known_modes :: "string list" where
  "known_modes = [''chain'', ''parallel'', ''forest'', ''manual'']"

section \<open>The update\<close>

definition update_revision :: "pydict \<Rightarrow> applied_revision \<Rightarrow> applied_revision" where
  "update_revision meta a =
     (if meta = [] then a
      else \<lparr>av_revision_id = py_str (dget meta ''revision_id'' (PStr (av_revision_id a))),
            av_parent_revision_id = py_str (dget meta ''parent_revision_id'' (PStr (av_parent_revision_id a))),
            av_hashes = filter (\<lambda>(k, _). starts_with (rev k) (rev ''_hash'')) meta,
            av_command_id = py_str (dget meta ''command_id'' (PStr (av_command_id a)))\<rparr>)"

text \<open>The requested numbers of drones and of relays.\<close>

definition requested_counts :: "pydict \<Rightarrow> relay_chain \<Rightarrow> int \<times> int" where
  "requested_counts payload rc =
     (let relay = map_option (\<lambda>v. max 1 (as_int v (rc_relay_count rc))) (map_of payload ''relay_count'');
          standby = map_option (\<lambda>v. max 0 (as_int v (rc_standby_count rc))) (map_of payload ''standby_count'');
          total = (case map_of payload ''drone_count'' of
                     Some v \<Rightarrow> max 1 (as_int v (rc_drone_count rc))
                   | None \<Rightarrow>
                       if relay \<noteq> None \<or> standby \<noteq> None
                       then max 1 ((case relay of Some r \<Rightarrow> r | None \<Rightarrow> rc_relay_count rc)
                                 + (case standby of Some s \<Rightarrow> s | None \<Rightarrow> rc_standby_count rc))
                       else rc_drone_count rc)
      in (total, case relay of
                   Some r \<Rightarrow> r
                 | None \<Rightarrow> (case standby of None \<Rightarrow> total | Some s \<Rightarrow> max 1 (total - s))))"

definition set_failed_indices :: "int set \<Rightarrow> relay_chain \<Rightarrow> relay_chain" where
  "set_failed_indices failed rc =
     rc\<lparr>rc_failed_indices := failed,
        rc_drones := map (\<lambda>(i, d). (i, d\<lparr>rd_failed := (i \<in> failed),
          rd_integrated := (rd_role d \<noteq> ''standby'' \<and> i \<notin> failed)\<rparr>)) (rc_drones rc)\<rparr>"

definition update_failed :: "pydict \<Rightarrow> relay_chain \<Rightarrow> relay_chain" where
  "update_failed payload rc =
     (case map_of payload ''failed_indices'' of
        None \<Rightarrow> rc
      | Some v \<Rightarrow> set_failed_indices {i \<in> set (row_indices v). 1 \<le> i \<and> i \<le> rc_drone_count rc} rc)"

definition update_topology :: "pydict \<Rightarrow> relay_chain \<Rightarrow> relay_chain" where
  "update_topology payload rc =
     (let st = rc_settings rc; topology = as_dict (dget payload ''topology'' (PDict []));
          count = (case map_of payload ''branch_count'' of
                     None \<Rightarrow> rs_branch_count st | Some v \<Rightarrow> max 1 (as_int v (rs_branch_count st)));
          requested = dget payload ''transmission_mode'' (dget topology ''transmission_mode'' PNone);
          mode = (if requested \<noteq> PNone \<and> py_lower (py_str requested) \<in> set known_modes
                  then py_lower (py_str requested) else rs_transmission_mode st);
          manual = (if map_of payload ''manual_branches'' \<noteq> None \<or> map_of topology ''manual_branches'' \<noteq> None
                    then sanitize_manual_branches rc False
                           (dget payload ''manual_branches'' (dget topology ''manual_branches'' (PList [])))
                    else rs_manual_branches st)
      in rc\<lparr>rc_settings := st\<lparr>rs_branch_count := max 1 (min count (max 1 (rc_relay_count rc))),
            rs_transmission_mode := mode, rs_manual_branches := manual\<rparr>\<rparr>)"

definition update_ranges :: "pydict \<Rightarrow> relay_settings \<Rightarrow> relay_settings" where
  "update_ranges payload st =
     (let soft = float_setting payload ''max_single_hop_range_m'' (Some (Fin 1)) (rs_max_single_hop_range_m st);
          hard = float_setting payload ''hard_outage_range_m'' (Some soft) (rs_hard_outage_range_m st)
      in st\<lparr>rs_max_single_hop_range_m := soft,
            rs_hard_outage_range_m := (if flt hard soft then soft else hard),
            rs_allow_degraded_forwarding := (case map_of payload ''allow_degraded_forwarding'' of
               None \<Rightarrow> rs_allow_degraded_forwarding st
             | Some v \<Rightarrow> as_bool v (rs_allow_degraded_forwarding st)),
            rs_distance_penalty_db_per_m :=
              float_setting payload ''distance_penalty_db_per_m_after_soft_range'' (Some (Fin 0))
                (rs_distance_penalty_db_per_m st)\<rparr>)"

definition update_geometry :: "pydict \<Rightarrow> relay_settings \<Rightarrow> relay_settings" where
  "update_geometry payload st =
     st\<lparr>rs_coverage_radius_m := float_setting payload ''coverage_radius_m'' (Some (Fin 1)) (rs_coverage_radius_m st),
        rs_coverage_width_m := float_setting payload ''coverage_width_m'' (Some (Fin 1)) (rs_coverage_width_m st),
        rs_direction_deg := float_setting payload ''direction_deg'' None (rs_direction_deg st),
        rs_altitude_start_m := float_setting payload ''altitude_start_m'' None (rs_altitude_start_m st),
        rs_altitude_end_m := float_setting payload ''altitude_end_m'' None (rs_altitude_end_m st)\<rparr>"

definition update_movement :: "pydict \<Rightarrow> relay_settings \<Rightarrow> relay_settings" where
  "update_movement payload st =
     st\<lparr>rs_standby_activation_radius_m :=
          float_setting payload ''standby_activation_radius_m'' (Some (Fin 1)) (rs_standby_activation_radius_m st),
        rs_movement_amplitude_m :=
          float_setting payload ''movement_amplitude_m'' (Some (Fin 0)) (rs_movement_amplitude_m st),
        rs_movement_speed := float_setting payload ''movement_speed'' (Some (rnd64 (5 / 100))) (rs_movement_speed st),
        rs_hop_period_s := float_setting payload ''hop_period_s'' (Some (rnd64 (5 / 100))) (rs_hop_period_s st)\<rparr>"

definition update_radio :: "pydict \<Rightarrow> relay_settings \<Rightarrow> relay_settings" where
  "update_radio payload st =
     (case dget payload ''radio'' PNone of
        PDict radio \<Rightarrow>
          st\<lparr>rs_frequency_hz := float_setting radio ''frequency_hz'' None (rs_frequency_hz st),
             rs_bandwidth_hz := float_setting radio ''bandwidth_hz'' None (rs_bandwidth_hz st),
             rs_tx_power_dbm := float_setting radio ''tx_power_dbm'' None (rs_tx_power_dbm st),
             rs_noise_floor_dbm := float_setting radio ''noise_floor_dbm'' None (rs_noise_floor_dbm st),
             rs_min_snr_db := float_setting radio ''min_snr_db'' None (rs_min_snr_db st),
             rs_required_capacity_mbps :=
               float_setting radio ''required_capacity_mbps'' None (rs_required_capacity_mbps st),
             rs_uav_antenna_name := py_str (dget radio ''uav_antenna_name'' (PStr (rs_uav_antenna_name st))),
             rs_antenna_model := py_str (dget radio ''antenna_model'' (PStr (rs_antenna_model st)))\<rparr>
      | _ \<Rightarrow> st)"

definition update_station :: "pydict \<Rightarrow> relay_settings \<Rightarrow> relay_settings" where
  "update_station payload st =
     (case dget payload ''station'' PNone of
        PDict station \<Rightarrow>
          st\<lparr>rs_station_position := (case list_position (dget station ''position'' PNone) of
               Some p \<Rightarrow> p | None \<Rightarrow> rs_station_position st),
             rs_station_antenna_name := (case map_of station ''antenna_name'' of
               Some v \<Rightarrow> py_str v | None \<Rightarrow> rs_station_antenna_name st),
             rs_station_antenna_gain_dbi :=
               float_setting station ''antenna_gain_dbi'' None (rs_station_antenna_gain_dbi st)\<rparr>
      | _ \<Rightarrow> st)"

definition update_pattern :: "pydict \<Rightarrow> relay_chain \<Rightarrow> relay_chain" where
  "update_pattern payload rc =
     (case map_of payload ''movement_pattern'' of
        None \<Rightarrow> rc
      | Some v \<Rightarrow>
          (let pattern = py_lower (py_str v); st = rc_settings rc
           in if pattern \<in> set movement_patterns then rc\<lparr>rc_settings := st\<lparr>rs_movement_pattern := pattern\<rparr>\<rparr>
              else emit ''invalid_movement_pattern''
                     [(''requested'', PStr pattern), (''allowed'', PList (map PStr movement_patterns))] rc))"

definition on_settings :: "(relay_settings \<Rightarrow> relay_settings) \<Rightarrow> relay_chain \<Rightarrow> relay_chain" where
  "on_settings f rc = rc\<lparr>rc_settings := f (rc_settings rc)\<rparr>"

definition revision_ack :: "relay_world \<Rightarrow> relay_chain \<Rightarrow> pydict" where
  "revision_ack w rc =
     (let a = rc_applied_revision rc
      in [(''timestamp'', PFloat (rw_now w)), (''ready'', PBool True),
          (''component'', PStr ''ros2_packet_runtime''), (''revision'', PStr (av_revision_id a)),
          (''revision_id'', PStr (av_revision_id a)),
          (''parent_revision_id'', PStr (av_parent_revision_id a)), (''command_id'', PStr (av_command_id a)),
          (''applied_config_hash'', dget (av_hashes a) ''config_hash'' (PStr [])),
          (''applied_hashes'', PDict (av_hashes a)), (''chain_version'', PInt (rc_chain_version rc)),
          (''node_name'', PStr ''netlab_snaas_relay_chain'')])"

definition apply_payload :: "relay_world \<Rightarrow> pydict \<Rightarrow> (relay_chain, unit) act" where
  "apply_payload w payload =
     (let meta = as_dict (dget payload ''_netlab_revision'' (PDict []));
          specs = as_list (dget payload ''drones'' PNone)
      in seqA (modA (\<lambda>rc. rc\<lparr>rc_applied_revision := update_revision meta (rc_applied_revision rc)\<rparr>))
        (bindA (getA (requested_counts payload)) (\<lambda>(total, relays).
         bindA (sync_drone_inventory w total relays specs) (\<lambda>_.
           stepsA
             [modA (\<lambda>rc. update_topology payload (update_failed payload rc)),
              modA (on_settings (update_movement payload \<circ> update_ranges payload \<circ> update_geometry payload)),
              modA (update_pattern payload),
              modA (on_settings (update_station payload \<circ> update_radio payload)),
              recompute_desired_positions w ''runtime_update_config'' True,
              modA (emit ''runtime_config_updated'' []),
              modA (\<lambda>rc. if meta = [] then rc else rc\<lparr>rc_revision_ack := Some (revision_ack w rc)\<rparr>)]))))"

definition update_config_cb :: "relay_world \<Rightarrow> control_message \<Rightarrow> (relay_chain, unit) act" where
  "update_config_cb w msg =
     (case cm_json msg of
        None \<Rightarrow> modA (emit ''invalid_update_config'' [raw_detail msg])
      | Some (PDict payload) \<Rightarrow> apply_payload w payload
      | Some _ \<Rightarrow> liftA (Inl AttributeError))"

end
