(* ===== verification/Relay_Init.thy ===== *)
theory Relay_Init
  imports Relay_Update
begin

text \<open>
  The state the node starts with: \<open>__init__\<close> as a function of the loaded configuration. Paths, publishers,
  subscriptions, timers and the evidence files are not part of the state.
\<close>

definition initial_counts :: "pydict \<Rightarrow> int \<times> int \<times> int" where
  "initial_counts config =
     (let n = max 1 (as_int (dget config ''drone_count'' PNone) 6);
          hint = max 1 (min n (as_int (dget config ''relay_count'' PNone) n));
          standby_hint = max 0 (as_int (dget config ''standby_count'' PNone) (max 0 (n - hint)))
      in if map_of config ''standby_count'' \<noteq> None \<and> map_of config ''relay_count'' = None
         then let standby = max 0 (min (n - 1) standby_hint) in (n, max 1 (n - standby), standby)
         else (n, hint, max 0 (n - hint)))"

definition initial_mode :: "pydict \<Rightarrow> pydict \<Rightarrow> int \<Rightarrow> string" where
  "initial_mode config topology branch_count =
     (let dflt = (if branch_count \<le> 1 then ''chain'' else ''parallel'');
          mode = py_lower (py_str (dget topology ''transmission_mode''
                   (dget config ''transmission_mode'' (PStr dflt))))
      in if mode \<in> set known_modes then mode else dflt)"

definition initial_manual_branches :: "pydict \<Rightarrow> pydict \<Rightarrow> int \<Rightarrow> int list list" where
  "initial_manual_branches config topology n =
     sanitize_rows (\<lambda>i. 1 \<le> i \<and> i \<le> n) []
       (map row_indices (filter is_list (as_list
          (dget topology ''manual_branches'' (dget config ''manual_branches'' (PList []))))))"

definition station_of :: "pydict \<Rightarrow> vec3 res" where
  "station_of station =
     bindR (ptuple (dget station ''position'' (PList [PFloat (Fin 0), PFloat (Fin 0), PFloat (Fin (3 / 2))]))) (\<lambda>xs.
     bindR (mapR py_float xs) (\<lambda>ys.
       case ys of [x, y, z] \<Rightarrow> Inr (x, y, z) | _ \<Rightarrow> Inl ValueError))"

definition at_least :: "rat \<Rightarrow> pydict \<Rightarrow> string \<Rightarrow> pyfloat \<Rightarrow> pyfloat" where
  "at_least m config key dflt = py_max (rnd64 m) (as_float (dget config key PNone) dflt)"

definition initial_settings :: "pydict \<Rightarrow> pydict \<Rightarrow> pydict \<Rightarrow> vec3 \<Rightarrow> relay_settings" where
  "initial_settings config radio station p =
     (let topology = as_dict (dget config ''topology'' (PDict []));
          branch_count = max 1 (as_int (dget config ''branch_count'' PNone) 1);
          read = (\<lambda>d key dflt. as_float (dget d key PNone) (Fin dflt));
          max_hop = at_least 1 config ''max_single_hop_range_m'' (Fin 90);
          station_name = py_str (dget radio ''station_antenna_name'' (PStr ''ground_station_sector''))
      in \<lparr>rs_transmission_mode = initial_mode config topology branch_count,
          rs_manual_branches = initial_manual_branches config topology (fst (initial_counts config)),
          rs_branch_count = branch_count,
          rs_hop_period_s = at_least (5 / 100) config ''hop_period_s'' (Fin (1 / 2)),
          rs_failure_detection_s = at_least (1 / 10) config ''failure_detection_s'' (Fin (3 / 2)),
          rs_coverage_radius_m = at_least 1 config ''coverage_radius_m'' (Fin 120),
          rs_coverage_width_m = at_least 1 config ''coverage_width_m'' (Fin 60),
          rs_direction_deg = read config ''direction_deg'' 0,
          rs_altitude_start_m = read config ''altitude_start_m'' 22,
          rs_altitude_end_m = read config ''altitude_end_m'' 32,
          rs_movement_pattern = py_str (dget config ''movement_pattern'' (PStr ''hover'')),
          rs_movement_amplitude_m = at_least 0 config ''movement_amplitude_m'' (Fin 10),
          rs_movement_speed = at_least (5 / 100) config ''movement_speed'' (Fin 1),
          rs_standby_activation_radius_m = at_least 1 config ''standby_activation_radius_m'' (Fin 80),
          rs_max_single_hop_range_m = max_hop,
          rs_hard_outage_range_m = py_max max_hop (as_float (dget config ''hard_outage_range_m'' PNone)
            (py_max (Fin 220) (fmul max_hop (Fin 2)))),
          rs_allow_degraded_forwarding = as_bool (dget config ''allow_degraded_forwarding'' (PBool False)) False,
          rs_distance_penalty_db_per_m =
            at_least 0 config ''distance_penalty_db_per_m_after_soft_range'' (rnd64 (22 / 100)),
          rs_frequency_hz = read radio ''frequency_hz'' 3500000000,
          rs_bandwidth_hz = read radio ''bandwidth_hz'' 20000000,
          rs_tx_power_dbm = read radio ''tx_power_dbm'' 23,
          rs_noise_floor_dbm = read radio ''noise_floor_dbm'' (- 95),
          rs_min_snr_db = read radio ''min_snr_db'' 3,
          rs_required_capacity_mbps = read radio ''required_capacity_mbps'' 1,
          rs_antenna_model = py_str (dget radio ''antenna_model'' (PStr ''abstract_gain_model_for_realtime_demo'')),
          rs_uav_antenna_name = py_str (dget radio ''uav_antenna_name'' (PStr ''uav_omni_vertical'')),
          rs_communication_model = py_str (dget config ''communication_model'' (PStr ''sionna_analytical'')),
          rs_sionna_url = ''http://127.0.0.1:8090/link'',
          rs_station_position = p,
          rs_station_antenna_name = py_str (dget station ''antenna_name'' (PStr station_name)),
          rs_station_antenna_gain_dbi = read station ''antenna_gain_dbi'' 8,
          rs_message = as_dict (dget config ''message'' (PDict []))\<rparr>)"

definition initial_revision :: "pydict \<Rightarrow> applied_revision" where
  "initial_revision config =
     (let meta = as_dict (dget config ''_netlab_revision'' (PDict []));
          text = (\<lambda>key. py_str (dget meta key (PStr '''')))
      in \<lparr>av_revision_id = text ''revision_id'', av_parent_revision_id = text ''parent_revision_id'',
          av_hashes = filter (\<lambda>(k, _). starts_with (rev k) (rev ''_hash'')) meta,
          av_command_id = text ''command_id''\<rparr>)"

definition no_packet :: relay_packet where
  "no_packet = \<lparr>rp_packet_id = 0, rp_created_at = Fin 0, rp_payload = PNone, rp_payload_bytes = 0,
     rp_forward_trace = [], rp_reverse_trace = [], rp_states = [], rp_chain_version = 1, rp_branch_id = 0\<rparr>"

definition blank_chain :: "string \<Rightarrow> pydict \<Rightarrow> relay_settings \<Rightarrow> relay_chain" where
  "blank_chain strategy config st =
     (case initial_counts config of (n, relays, standby) \<Rightarrow>
        \<lparr>rc_settings = st, rc_applied_revision = initial_revision config, rc_revision_ack = None,
         rc_strategy_id = strategy, rc_pending_revision = [], rc_decision = [],
         rc_drone_count = n, rc_relay_count = relays, rc_standby_count = standby,
         rc_relay_count_hint = relays, rc_standby_count_hint = standby,
         rc_drones = [], rc_failed_indices = {}, rc_pending_failure = None, rc_last_removed_indices = [],
         rc_home_positions = [], rc_chain_version = 1, rc_phase = Forward, rc_cursor = 0,
         rc_current_branch_index = 0, rc_packet_id = 0, rc_sequence = 0, rc_current_packet = no_packet,
         rc_branch_flows = [], rc_last_hop_event = None, rc_coverage_feasible = True,
         rc_coverage_note = ''not_evaluated'', rc_connectivity_paused = False,
         rc_connectivity_pause_reason = [], rc_paused_hop = None, rc_operator_paused = False,
         rc_mission_mode = ''RUNNING'', rc_last_mission_command = [], rc_last_mission_command_id = [],
         rc_events = [], rc_sent = []\<rparr>)"

definition start_act :: "relay_world \<Rightarrow> pydict \<Rightarrow> (relay_chain, unit) act" where
  "start_act w config =
     stepsA
       [load_drones_from_config w config,
        modA (\<lambda>rc. rc\<lparr>rc_home_positions := map (\<lambda>(i, d). (i, rd_current_position d)) (rc_drones rc)\<rparr>),
        recompute_desired_positions w ''initial_layout'' False,
        modA (\<lambda>rc. case relay_new_packet w rc of (p, rc1) \<Rightarrow> rc1\<lparr>rc_current_packet := p\<rparr>),
        modA (\<lambda>rc. emit ''experiment_started'' [(''active_branches'', branches_value (active_branches rc))] rc)]"

definition start_chain :: "relay_world \<Rightarrow> string \<Rightarrow> pydict \<Rightarrow> relay_chain res" where
  "start_chain w strategy config =
     bindR (pitems (dget config ''radio'' (PDict []))) (\<lambda>radio.
     bindR (pitems (dget config ''station'' (PDict []))) (\<lambda>station.
     bindR (station_of station) (\<lambda>p.
       case start_act w config (blank_chain strategy config (initial_settings config radio station p)) of
         (Inl e, _) \<Rightarrow> Inl e
       | (Inr _, rc) \<Rightarrow> Inr rc)))"

end
