(* ===== verification/Relay_Radio.thy ===== *)
theory Relay_Radio
  imports Relay_Layout
begin

text \<open>
  One hop: the request to the link service and what the node adds to its answer, and the gate that
  decides whether the packet may move. Metrics are a dictionary, as the service returns them.

  The service is a parameter; it answers with a JSON object, or the call fails with one of the exceptions
  that the caller catches (\<open>URLError\<close>, \<open>TimeoutError\<close>, a malformed answer), here \<open>RuntimeError\<close>.
\<close>

section \<open>The link service\<close>

definition link_payload :: "relay_chain \<Rightarrow> vec3 \<Rightarrow> vec3 \<Rightarrow> string \<times> pyfloat \<Rightarrow> string \<times> pyfloat \<Rightarrow> pydict" where
  "link_payload rc tx rx tx_ant rx_ant =
     (let st = rc_settings rc; vec = (\<lambda>p. case p of (x, y, z) \<Rightarrow> PList [PFloat x, PFloat y, PFloat z])
      in [(''tx'', vec tx), (''rx'', vec rx), (''frequency_hz'', PFloat (rs_frequency_hz st)),
          (''bandwidth_hz'', PFloat (rs_bandwidth_hz st)), (''tx_power_dbm'', PFloat (rs_tx_power_dbm st)),
          (''noise_floor_dbm'', PFloat (rs_noise_floor_dbm st)),
          (''tx_antenna_gain_dbi'', PFloat (snd tx_ant)), (''rx_antenna_gain_dbi'', PFloat (snd rx_ant)),
          (''tx_antenna'', PStr (fst tx_ant)), (''rx_antenna'', PStr (fst rx_ant)),
          (''model'', PStr (rs_communication_model st)),
          (''operational_range_m'', PFloat (rs_max_single_hop_range_m st)),
          (''hard_outage_distance_m'', PFloat (rs_hard_outage_range_m st)),
          (''min_snr_db'', PFloat (rs_min_snr_db st)), (''min_sinr_db'', PFloat (rs_min_snr_db st)),
          (''min_capacity_mbps'', PFloat (rs_required_capacity_mbps st)), (''allow_fallback'', PBool True)])"

definition served_metrics :: "relay_chain \<Rightarrow> relay_node \<Rightarrow> relay_node \<Rightarrow> string \<times> pyfloat \<Rightarrow> string \<times> pyfloat
    \<Rightarrow> pydict \<Rightarrow> pydict" where
  "served_metrics rc src dst tx_ant rx_ant metrics =
     (let st = rc_settings rc
      in dupdate metrics
        [(''tx_antenna'', PStr (fst tx_ant)), (''rx_antenna'', PStr (fst rx_ant)),
         (''tx_antenna_gain_dbi'', PFloat (snd tx_ant)), (''rx_antenna_gain_dbi'', PFloat (snd rx_ant)),
         (''antenna_model'', PStr (rs_antenna_model st)), (''frequency_hz'', PFloat (rs_frequency_hz st)),
         (''bandwidth_hz'', PFloat (rs_bandwidth_hz st)), (''tx_power_dbm'', PFloat (rs_tx_power_dbm st)),
         (''noise_floor_dbm'', PFloat (rs_noise_floor_dbm st)),
         (''sionna_service_url'', PStr (rs_sionna_url st)),
         (''link_name'', PStr (node_name src @ ''->'' @ node_name dst))])"

text \<open>The inner \<open>try\<close> blocks: an exception leaves the entries that were already written.\<close>

definition penalised_path_loss :: "pyfloat \<Rightarrow> pydict \<Rightarrow> pydict" where
  "penalised_path_loss penalty m =
     (case fget m ''path_loss_db'' 0 of
        Inl _ \<Rightarrow> m
      | Inr loss \<Rightarrow> dset ''path_loss_db'' (PFloat (fround 3 (fadd loss penalty))) m)"

definition degraded_capacity :: "relay_world \<Rightarrow> relay_settings \<Rightarrow> pyfloat \<Rightarrow> pyfloat res" where
  "degraded_capacity w st snr =
     bindR (fdiv snr (Fin 10)) (\<lambda>decades.
     bindR (pow10_float (rw_libm w) decades) (\<lambda>linear.
     bindR (math_log (lm_log2 (rw_libm w)) (PFloat (fadd (Fin 1) (py_max (Fin 0) linear)))) (\<lambda>bits.
       fdiv (fmul (rs_bandwidth_hz st) bits) (Fin 1000000))))"

definition penalised_snr :: "relay_world \<Rightarrow> relay_settings \<Rightarrow> pyfloat \<Rightarrow> pydict \<Rightarrow> pydict" where
  "penalised_snr w st penalty m =
     (case fget m ''snr_db'' (- 999) of
        Inl _ \<Rightarrow> m
      | Inr v \<Rightarrow>
          (let snr = fsub v penalty; m1 = dset ''snr_db'' (PFloat (fround 3 snr)) m
           in case degraded_capacity w st snr of
                Inl _ \<Rightarrow> m1
              | Inr c \<Rightarrow> dset ''capacity_mbps'' (PFloat (fround 3 c)) m1))"

definition out_of_range_metrics :: "relay_world \<Rightarrow> relay_settings \<Rightarrow> pyfloat \<Rightarrow> pydict \<Rightarrow> pydict" where
  "out_of_range_metrics w st metres m =
     (let penalty = fmul (fsub metres (rs_max_single_hop_range_m st)) (rs_distance_penalty_db_per_m st)
      in dset ''link_budget_ok'' (PBool (rs_allow_degraded_forwarding st))
         (dset ''outage_reason'' (PStr ''distance_exceeds_communication_radius'')
         (dset ''status'' (PStr (if rs_allow_degraded_forwarding st
               then ''degraded_distance_exceeds_nominal_range'' else ''outage_distance_exceeded''))
         (penalised_snr w st penalty
         (penalised_path_loss penalty
         (dset ''distance_penalty_db'' (PFloat (fround 3 penalty)) m))))))"

definition range_metrics :: "relay_world \<Rightarrow> relay_settings \<Rightarrow> pyfloat \<Rightarrow> pydict \<Rightarrow> pydict" where
  "range_metrics w st metres m =
     (let m1 = dupdate m
            [(''max_single_hop_range_m'', PFloat (rs_max_single_hop_range_m st)),
             (''hard_outage_range_m'', PFloat (rs_hard_outage_range_m st)),
             (''range_margin_m'', PFloat (fround 3 (fsub (rs_max_single_hop_range_m st) metres))),
             (''hard_range_margin_m'', PFloat (fround 3 (fsub (rs_hard_outage_range_m st) metres)))];
          m2 = (if fgt metres (rs_max_single_hop_range_m st) then out_of_range_metrics w st metres m1
                else dset ''link_budget_ok'' (PBool True) m1)
      in if fgt metres (rs_hard_outage_range_m st)
         then dupdate m2 [(''status'', PStr ''outage_distance_exceeded''),
                (''outage_reason'', PStr ''distance_exceeds_hard_outage_range''),
                (''link_budget_ok'', PBool False)]
         else m2)"

text \<open>The answer's metrics are an object; \<open>dict\<close> would also take a list of pairs, which is an error here.\<close>

definition query_sionna :: "relay_world \<Rightarrow> relay_chain \<Rightarrow> relay_node \<Rightarrow> relay_node \<Rightarrow> pydict res" where
  "query_sionna w rc src dst =
     bindR (node_position rc src) (\<lambda>tx.
     bindR (node_position rc dst) (\<lambda>rx.
     bindR (node_antenna rc src) (\<lambda>tx_ant.
     bindR (node_antenna rc dst) (\<lambda>rx_ant.
       case rw_service w (link_payload rc tx rx tx_ant rx_ant) of
         Unreachable text \<Rightarrow> Inl (RuntimeError text)
       | Reply answer \<Rightarrow>
           if \<not> truthy (dget answer ''ok'' (PBool False))
           then Inl (RuntimeError (py_str (dget answer ''error'' (PStr ''unknown Sionna error''))))
           else case dget answer ''metrics'' (PDict []) of
             PDict served \<Rightarrow>
               (let m = served_metrics rc src dst tx_ant rx_ant served
                in bindR (if map_of m ''distance_m'' = None
                          then bindR (distance tx rx) (\<lambda>d. Inr (dset ''distance_m'' (PFloat d) m))
                          else Inr m) (\<lambda>m1.
                   bindR (distance tx rx) (\<lambda>dflt.
                   bindR (py_float (dget m1 ''distance_m'' (PFloat dflt))) (\<lambda>metres.
                     Inr (range_metrics w (rc_settings rc) metres m1)))))
           | _ \<Rightarrow> Inl TypeError))))"

section \<open>The gate\<close>

text \<open>\<open>_gate_reason\<close> inside its \<open>try\<close>: the service's own reason counts first, then the limits.\<close>

definition service_reason :: "pydict \<Rightarrow> string" where
  "service_reason m =
     (let feasibility = as_dict (dget m ''feasibility'' (PDict []))
      in py_upper (py_strip (py_str
           (dget feasibility ''reason'' (dget m ''gate_reason'' (PStr ''''))))))"

definition limit_reason :: "relay_settings \<Rightarrow> pydict \<Rightarrow> string res" where
  "limit_reason st m =
     bindR (fget m ''distance_m'' 0) (\<lambda>metres.
       if fgt metres (rs_hard_outage_range_m st) then Inr ''HARD_OUTAGE_DISTANCE''
       else if fgt metres (rs_max_single_hop_range_m st) \<and> \<not> rs_allow_degraded_forwarding st
       then Inr ''OUT_OF_RANGE''
       else bindR (case dget m ''sinr_db'' PNone of
                     PNone \<Rightarrow> Inr False
                   | v \<Rightarrow> bindR (py_float v) (\<lambda>sinr. Inr (flt sinr (rs_min_snr_db st)))) (\<lambda>low_sinr.
         if low_sinr then Inr ''SINR_BELOW_THRESHOLD''
         else bindR (fget m ''snr_db'' (- 999)) (\<lambda>snr.
           if flt snr (rs_min_snr_db st) then Inr ''SNR_BELOW_THRESHOLD''
           else bindR (fget m ''capacity_mbps'' 0) (\<lambda>capacity.
             Inr (if flt capacity (rs_required_capacity_mbps st) then ''CAPACITY_BELOW_THRESHOLD''
                  else ''FEASIBLE'')))))"

definition relay_gate_reason :: "relay_settings \<Rightarrow> pydict \<Rightarrow> string" where
  "relay_gate_reason st m =
     (let reason = service_reason m; status = py_lower (py_str (dget m ''status'' (PStr '''')))
      in if reason \<notin> {'''', ''UNKNOWN'', ''NONE''} then reason
         else if status \<in> {''sionna_unreachable'', ''link_service_unavailable''} then ''LINK_SERVICE_UNAVAILABLE''
         else case limit_reason st m of Inr r \<Rightarrow> r | Inl _ \<Rightarrow> ''UNKNOWN'')"

text \<open>\<open>float(metrics.get(key, default) or default)\<close>.\<close>

definition fget_or :: "pydict \<Rightarrow> string \<Rightarrow> rat \<Rightarrow> pyfloat res" where
  "fget_or m key dflt = py_float (py_or (dget m key (PFloat (Fin dflt))) (PFloat (Fin dflt)))"

definition annotate_gate :: "relay_settings \<Rightarrow> pydict \<Rightarrow> pydict res" where
  "annotate_gate st m =
     (let reason = relay_gate_reason st m
      in bindR (fget_or m ''distance_m'' 0) (\<lambda>metres.
         bindR (fget_or m ''snr_db'' (- 999)) (\<lambda>snr.
         bindR (fget_or m ''capacity_mbps'' 0) (\<lambda>capacity.
           Inr (dupdate m
             [(''gate_reason'', PStr reason),
              (''range_margin_m'', PFloat (fround 6 (fsub (rs_max_single_hop_range_m st) metres))),
              (''hard_range_margin_m'', PFloat (fround 6 (fsub (rs_hard_outage_range_m st) metres))),
              (''snr_margin_db'', PFloat (fround 6 (fsub snr (rs_min_snr_db st)))),
              (''capacity_margin_mbps'', PFloat (fround 6 (fsub capacity (rs_required_capacity_mbps st)))),
              (''gate_predicates'', PDict
                 [(''range'', PBool (fle metres (rs_max_single_hop_range_m st) \<or> rs_allow_degraded_forwarding st)),
                  (''hard_outage'', PBool (fle metres (rs_hard_outage_range_m st))),
                  (''snr'', PBool (fge snr (rs_min_snr_db st))),
                  (''capacity'', PBool (fge capacity (rs_required_capacity_mbps st)))]),
              (''link_budget_ok'', PBool (reason = ''FEASIBLE''))])))))"

text \<open>\<open>_link_ok\<close>: the metrics are annotated in place.\<close>

definition link_ok :: "relay_settings \<Rightarrow> pydict \<Rightarrow> (bool \<times> pydict) res" where
  "link_ok st m =
     bindR (annotate_gate st m) (\<lambda>m1.
       Inr (py_str (dget m1 ''gate_reason'' (PStr ''UNKNOWN'')) = ''FEASIBLE'', m1))"

definition hop_decision :: "relay_settings \<Rightarrow> bool \<Rightarrow> pyfloat \<Rightarrow> string" where
  "hop_decision st ok metres =
     (if ok then (if fgt metres (rs_max_single_hop_range_m st) then ''forwarded_degraded_distance'' else ''forwarded'')
      else if fgt metres (rs_hard_outage_range_m st) then ''blocked_out_of_hard_range''
      else if fgt metres (rs_max_single_hop_range_m st) then ''blocked_out_of_range''
      else ''blocked_link_degraded'')"

end
