(* ===== verification/Relay_Tick.thy ===== *)
theory Relay_Tick
  imports Relay_Failure Relay_Radio
begin

text \<open>
  The main loop of the relay chain: one hop of the packet of the single chain, or one hop of the packet of
  every branch, after failures and standby drones have been dealt with.

  \<open>_load_active_strategy\<close>, which reloads a plugin when its selection file changes, is not modelled: the
  strategy is a parameter.
\<close>

section \<open>Hops\<close>

definition make_hop_event ::
  "relay_world \<Rightarrow> relay_node \<Rightarrow> relay_node \<Rightarrow> pydict \<Rightarrow> bool \<Rightarrow> string \<Rightarrow> relay_chain \<Rightarrow> hop_event" where
  "make_hop_event w src dst metrics ok decision rc =
     \<lparr>he_timestamp = rw_now w, he_sequence = rc_sequence rc, he_chain_version = rc_chain_version rc,
      he_branch_id = rc_current_branch_index rc, he_packet_id = rp_packet_id (rc_current_packet rc),
      he_phase = rc_phase rc, he_src = src, he_dst = dst, he_active_chain = active_chain rc,
      he_active_branches = active_branches rc, he_standby_indices = standby_indices rc,
      he_failed_indices = rc_failed_indices rc, he_metrics = metrics, he_link_ok = ok,
      he_link_status = dget metrics ''status'' (PStr ''unknown''), he_decision = decision\<rparr>"

definition publish :: "terminal_event \<Rightarrow> relay_chain \<Rightarrow> relay_chain" where
  "publish e rc = rc\<lparr>rc_sent := rc_sent rc @ [e]\<rparr>"

definition node_distance :: "relay_chain \<Rightarrow> relay_node \<Rightarrow> relay_node \<Rightarrow> pyfloat res" where
  "node_distance rc src dst =
     bindR (node_position rc src) (\<lambda>p. bindR (node_position rc dst) (\<lambda>q. distance p q))"

definition antenna_entries :: "relay_chain \<Rightarrow> relay_node \<Rightarrow> relay_node \<Rightarrow> pydict res" where
  "antenna_entries rc src dst =
     bindR (node_distance rc src dst) (\<lambda>metres.
     bindR (node_antenna rc src) (\<lambda>tx. bindR (node_antenna rc dst) (\<lambda>rx.
       Inr [(''distance_m'', PFloat metres), (''tx_antenna'', PStr (fst tx)), (''rx_antenna'', PStr (fst rx))])))"

definition failed_metrics :: "relay_chain \<Rightarrow> relay_node \<Rightarrow> relay_node \<Rightarrow> pydict res" where
  "failed_metrics rc src dst =
     bindR (antenna_entries rc src dst) (\<lambda>m. Inr ((''status'', PStr ''relay_failed'') # m))"

text \<open>The exceptions that the call of the link service catches, and the metrics put in its place.\<close>

fun caught_text :: "pyexc \<Rightarrow> string option" where
  "caught_text (RuntimeError t) = Some t"
| "caught_text ValueError = Some ''''"
| "caught_text _ = None"

definition hop_metrics :: "relay_world \<Rightarrow> relay_chain \<Rightarrow> relay_node \<Rightarrow> relay_node \<Rightarrow> pydict res" where
  "hop_metrics w rc src dst =
     (case query_sionna w rc src dst of
        Inr m \<Rightarrow> Inr m
      | Inl e \<Rightarrow>
          (case caught_text e of
             None \<Rightarrow> Inl e
           | Some t \<Rightarrow>
               bindR (antenna_entries rc src dst) (\<lambda>m.
                 Inr ([(''timestamp'', PFloat (rw_now w)), (''engine'', PStr ''netlab-link-service''),
                       (''status'', PStr ''sionna_unreachable''),
                       (''gate_reason'', PStr ''LINK_SERVICE_UNAVAILABLE''), (''error'', PStr t)]
                      @ m @ [(''antenna_model'', PStr (rs_antenna_model (rc_settings rc)))]))))"

definition record_hop :: "hop_event \<Rightarrow> relay_chain \<Rightarrow> relay_chain" where
  "record_hop e rc = publish (Hop e) (rc\<lparr>rc_last_hop_event := Some e\<rparr>)"

text \<open>From the query to the published hop event: the event and the distance.\<close>

definition judge_hop ::
  "relay_world \<Rightarrow> relay_node \<Rightarrow> relay_node \<Rightarrow> (relay_chain, hop_event \<times> pyfloat) act" where
  "judge_hop w src dst =
     bindA (bindA (getA (\<lambda>rc. bindR (hop_metrics w rc src dst) (link_ok (rc_settings rc)))) liftA) (\<lambda>(ok, m).
     bindA (liftA (fget m ''distance_m'' 0)) (\<lambda>metres.
     bindA (getA (\<lambda>rc. make_hop_event w src dst m ok (hop_decision (rc_settings rc) ok metres) rc)) (\<lambda>e.
       seqA (modA (record_hop e)) (retA (e, metres)))))"

definition blocked_hop :: "relay_world \<Rightarrow> relay_node \<Rightarrow> relay_node \<Rightarrow> (relay_chain, hop_event) act" where
  "blocked_hop w src dst =
     bindA (bindA (getA (\<lambda>rc. failed_metrics rc src dst)) liftA) (\<lambda>m.
     bindA (getA (make_hop_event w src dst m False ''blocked_failed_relay'')) (\<lambda>e.
       seqA (modA (record_hop e)) (retA e)))"

text \<open>\<open>_append_local_state\<close>: the sender pays for the transmission and leaves its state in the packet.\<close>

definition node_report_of :: "relay_world \<Rightarrow> relay_chain \<Rightarrow> drone_runtime \<Rightarrow> node_report" where
  "node_report_of w rc d =
     \<lparr>nr_appended_at = rw_now w, nr_position = round_vec 3 (rd_current_position d),
      nr_desired_position = round_vec 3 (rd_desired_position d), nr_battery_pct = fround 3 (rd_battery_pct d),
      nr_role = rd_role d, nr_failed = rd_failed d, nr_integrated = rd_integrated d,
      nr_antenna_name = rd_antenna_name d, nr_antenna_gain_dbi = rd_antenna_gain_dbi d,
      nr_chain_version = rc_chain_version rc, nr_branch_id = rc_current_branch_index rc\<rparr>"

definition drain_battery :: "drone_runtime \<Rightarrow> drone_runtime" where
  "drain_battery d = d\<lparr>rd_battery_pct := py_max (Fin 0) (fsub (rd_battery_pct d) (rnd64 (2 / 100)))\<rparr>"

definition append_local_state :: "relay_world \<Rightarrow> relay_node \<Rightarrow> (relay_chain, unit) act" where
  "append_local_state w n =
     (case n of
        Station \<Rightarrow> retA ()
      | Relay i \<Rightarrow>
          bindA (bindA (getA (\<lambda>rc. get_drone rc i)) liftA) (\<lambda>d.
            modA (\<lambda>rc. rc\<lparr>rc_drones := update_drone i drain_battery (rc_drones rc),
              rc_current_packet := (rc_current_packet rc)\<lparr>rp_states :=
                AList.update n (node_report_of w rc (drain_battery d)) (rp_states (rc_current_packet rc))\<rparr>\<rparr>)))"

definition append_trace :: "relay_phase \<Rightarrow> trace_entry \<Rightarrow> relay_packet \<Rightarrow> relay_packet" where
  "append_trace phase t p =
     (case phase of
        Forward \<Rightarrow> p\<lparr>rp_forward_trace := rp_forward_trace p @ [t]\<rparr>
      | Reverse \<Rightarrow> p\<lparr>rp_reverse_trace := rp_reverse_trace p @ [t]\<rparr>)"

definition forward_packet :: "relay_world \<Rightarrow> hop_event \<Rightarrow> (relay_chain, unit) act" where
  "forward_packet w e =
     seqA (modA (publish (TX (he_src e) e)))
    (seqA (append_local_state w (he_src e))
          (modA (\<lambda>rc. publish (RX (he_dst e) e) (rc\<lparr>rc_current_packet :=
             append_trace (rc_phase rc)
               \<lparr>te_src = he_src e, te_dst = he_dst e, te_at = rw_now w, te_branch_id = rc_current_branch_index rc\<rparr>
               (rc_current_packet rc)\<rparr>))))"

definition hop_details :: "relay_node \<Rightarrow> relay_node \<Rightarrow> pydict" where
  "hop_details src dst = [(''src'', PStr (node_name src)), (''dst'', PStr (node_name dst))]"

definition indices_details :: "relay_chain \<Rightarrow> pydict" where
  "indices_details rc =
     [(''failed_indices'', ints_value (sorted_list_of_set (rc_failed_indices rc))),
      (''standby_indices'', ints_value (standby_indices rc))]"

definition packet_details :: "relay_packet \<Rightarrow> nat \<Rightarrow> int list \<Rightarrow> pydict" where
  "packet_details p k branch =
     [(''packet_id'', PInt (rp_packet_id p)), (''branch_id'', PInt (int k)), (''branch'', ints_value branch)]"

section \<open>The single chain\<close>

definition pause_chain :: "string \<Rightarrow> hop_event \<Rightarrow> relay_chain \<Rightarrow> relay_chain" where
  "pause_chain reason e rc =
     rc\<lparr>rc_connectivity_paused := True, rc_connectivity_pause_reason := reason, rc_paused_hop := Some e\<rparr>"

definition start_reverse :: "(relay_chain, relay_node list) act" where
  "start_reverse =
     seqA (modA (\<lambda>rc. rc\<lparr>rc_phase := Reverse, rc_cursor := 0\<rparr>))
    (bindA current_branch (\<lambda>branch.
      seqA (modA (\<lambda>rc. emit ''reverse_path_started''
             (packet_details (rc_current_packet rc) (rc_current_branch_index rc) branch) rc))
        (retA (branch_nodes branch Reverse))))"

definition finish_round_trip :: "relay_world \<Rightarrow> (relay_chain, relay_node list) act" where
  "finish_round_trip w =
     seqA (modA (\<lambda>rc. emit ''round_trip_completed''
            (packet_details (rc_current_packet rc) (rc_current_branch_index rc) []) rc))
    (seqA (modA (\<lambda>rc. let n = length (active_branches rc);
             rc1 = rc\<lparr>rc_current_branch_index :=
               (if n = 0 then rc_current_branch_index rc else (rc_current_branch_index rc + 1) mod n),
               rc_phase := Forward, rc_cursor := 0\<rparr>
           in case relay_new_packet w rc1 of (p, rc2) \<Rightarrow> rc2\<lparr>rc_current_packet := p\<rparr>))
      (chain_nodes Forward))"

definition chain_turn :: "relay_world \<Rightarrow> relay_node list \<Rightarrow> (relay_chain, relay_node list) act" where
  "chain_turn w nodes =
     bindA (getA (\<lambda>rc. (rc_cursor rc, rc_phase rc))) (\<lambda>(cursor, phase).
       if cursor < length nodes - 1 then retA nodes
       else case phase of Forward \<Rightarrow> start_reverse | Reverse \<Rightarrow> finish_round_trip w)"

definition chain_hop :: "relay_world \<Rightarrow> relay_node list \<Rightarrow> (relay_chain, unit) act" where
  "chain_hop w nodes =
     bindA (getA (\<lambda>rc. (nodes ! rc_cursor rc, nodes ! Suc (rc_cursor rc)))) (\<lambda>(src, dst).
     seqA (modA (\<lambda>rc. rc\<lparr>rc_sequence := rc_sequence rc + 1\<rparr>))
    (bindA (getA (\<lambda>rc. node_failed rc src \<or> node_failed rc dst)) (\<lambda>broken.
       if broken
       then bindA (blocked_hop w src dst) (\<lambda>e.
              modA (\<lambda>rc. emit ''relay_timeout_observed'' (hop_details src dst)
                (pause_chain ''blocked_failed_relay'' e rc)))
       else bindA (judge_hop w src dst) (\<lambda>(e, metres).
              if he_link_ok e
              then seqA (forward_packet w e) (modA (\<lambda>rc. rc\<lparr>rc_cursor := Suc (rc_cursor rc)\<rparr>))
              else modA (\<lambda>rc. emit ''connectivity_lost''
                     (hop_details src dst @ [(''distance_m'', PFloat (fround 3 metres)),
                        (''decision'', PStr (he_decision e)), (''metrics'', PDict (he_metrics e))])
                     (pause_chain (he_decision e) e rc))))))"

definition tick_chain :: "relay_world \<Rightarrow> (relay_chain, unit) act" where
  "tick_chain w =
     bindA (getA rc_connectivity_paused) (\<lambda>paused.
       if paused then retA ()
       else bindA (bindA (getA rc_phase) chain_nodes) (\<lambda>nodes.
         if length nodes < 2
         then modA (\<lambda>rc. emit ''no_active_relay_path'' (indices_details rc) rc)
         else bindA (chain_turn w nodes) (chain_hop w)))"

section \<open>Parallel branches\<close>

definition fresh_flow :: "nat \<Rightarrow> int list \<Rightarrow> relay_packet \<Rightarrow> branch_flow" where
  "fresh_flow k branch packet =
     \<lparr>bf_branch_id = k, bf_active_branch = branch, bf_phase = Forward, bf_cursor = 0,
      bf_packet = packet\<lparr>rp_branch_id := k\<rparr>, bf_paused = False, bf_pause_reason = [], bf_paused_hop = None,
      bf_last_hop = None, bf_completed_round_trips = 0\<rparr>"

definition set_flow :: "nat \<Rightarrow> branch_flow \<Rightarrow> relay_chain \<Rightarrow> relay_chain" where
  "set_flow k f rc = rc\<lparr>rc_branch_flows := AList.update k f (rc_branch_flows rc)\<rparr>"

definition sync_flow :: "relay_world \<Rightarrow> nat \<times> int list \<Rightarrow> relay_chain \<Rightarrow> relay_chain" where
  "sync_flow w kb rc =
     (case kb of (k, branch) \<Rightarrow>
        if map_option bf_active_branch (map_of (rc_branch_flows rc) k) = Some branch then rc
        else case relay_new_packet w rc of (p, rc1) \<Rightarrow> set_flow k (fresh_flow k branch p) rc1)"

definition sync_branch_flow_state :: "relay_world \<Rightarrow> relay_chain \<Rightarrow> relay_chain" where
  "sync_branch_flow_state w rc =
     (let branches = active_branches rc
      in fold (sync_flow w) (enumerate 0 branches)
           (rc\<lparr>rc_branch_flows := filter (\<lambda>(k, _). k < length branches) (rc_branch_flows rc)\<rparr>))"

definition flow_keys :: "relay_chain \<Rightarrow> nat list" where
  "flow_keys rc = sort (map fst (rc_branch_flows rc))"

definition flow_reverse :: "nat \<Rightarrow> branch_flow \<Rightarrow> relay_chain \<Rightarrow> branch_flow \<times> relay_chain" where
  "flow_reverse k f rc =
     (let f1 = f\<lparr>bf_phase := Reverse, bf_cursor := 0\<rparr>
      in (f1, emit ''parallel_reverse_path_started''
                (packet_details (bf_packet f) k (bf_active_branch f)) (set_flow k f1 rc)))"

definition flow_complete :: "relay_world \<Rightarrow> nat \<Rightarrow> branch_flow \<Rightarrow> relay_chain \<Rightarrow> branch_flow \<times> relay_chain" where
  "flow_complete w k f rc =
     (case relay_new_packet w (emit ''parallel_round_trip_completed''
                (packet_details (bf_packet f) k (bf_active_branch f)) rc) of
        (p, rc1) \<Rightarrow>
          (let f1 = f\<lparr>bf_completed_round_trips := bf_completed_round_trips f + 1, bf_phase := Forward,
                      bf_cursor := 0, bf_packet := p\<lparr>rp_branch_id := k\<rparr>\<rparr>
           in (f1, set_flow k f1 rc1)))"

definition flow_turn :: "relay_world \<Rightarrow> nat \<Rightarrow> branch_flow \<Rightarrow> relay_chain \<Rightarrow> branch_flow \<times> relay_chain" where
  "flow_turn w k f rc =
     (if bf_cursor f < length (branch_nodes (bf_active_branch f) (bf_phase f)) - 1 then (f, rc)
      else case bf_phase f of Forward \<Rightarrow> flow_reverse k f rc | Reverse \<Rightarrow> flow_complete w k f rc)"

text \<open>The attributes of the node that mirror the flow in service.\<close>

definition enter_flow :: "nat \<Rightarrow> branch_flow \<Rightarrow> relay_chain \<Rightarrow> relay_chain" where
  "enter_flow k f rc =
     (let p = (bf_packet f)\<lparr>rp_branch_id := k\<rparr>
      in set_flow k (f\<lparr>bf_packet := p\<rparr>)
           (rc\<lparr>rc_current_branch_index := k, rc_phase := bf_phase f, rc_cursor := bf_cursor f,
               rc_current_packet := p, rc_sequence := rc_sequence rc + 1\<rparr>))"

definition pause_flow :: "string \<Rightarrow> hop_event \<Rightarrow> branch_flow \<Rightarrow> branch_flow" where
  "pause_flow reason e f =
     f\<lparr>bf_last_hop := Some e, bf_paused := True, bf_pause_reason := reason, bf_paused_hop := Some e\<rparr>"

definition flow_hop :: "relay_world \<Rightarrow> nat \<Rightarrow> branch_flow \<Rightarrow> (relay_chain, bool) act" where
  "flow_hop w k f =
     (let nodes = branch_nodes (bf_active_branch f) (bf_phase f);
          src = nodes ! bf_cursor f; dst = nodes ! Suc (bf_cursor f);
          details = hop_details src dst @ packet_details (bf_packet f) k (bf_active_branch f)
      in bindA (getA (\<lambda>rc. node_failed rc src \<or> node_failed rc dst)) (\<lambda>broken.
         if broken
         then bindA (blocked_hop w src dst) (\<lambda>e.
                seqA (modA (\<lambda>rc. emit ''parallel_branch_paused'' details
                        (set_flow k (pause_flow ''blocked_failed_relay'' e f) rc)))
                  (retA True))
         else bindA (judge_hop w src dst) (\<lambda>(e, metres).
                if he_link_ok e
                then seqA (forward_packet w e)
                       (seqA (modA (\<lambda>rc. set_flow k (f\<lparr>bf_last_hop := Some e,
                                bf_packet := rc_current_packet rc, bf_cursor := Suc (bf_cursor f)\<rparr>) rc))
                          (retA False))
                else seqA (modA (\<lambda>rc. emit ''parallel_branch_connectivity_lost''
                            (details @ [(''distance_m'', PFloat (fround 3 metres)),
                               (''decision'', PStr (he_decision e))])
                            (set_flow k (pause_flow (he_decision e) e f) rc)))
                       (retA True))))"

definition flow_step :: "relay_world \<Rightarrow> nat \<Rightarrow> (relay_chain, bool) act" where
  "flow_step w k =
     bindA (getA (\<lambda>rc. map_of (rc_branch_flows rc) k)) (\<lambda>entry.
       case entry of
         None \<Rightarrow> retA False
       | Some f \<Rightarrow>
           if bf_active_branch f = [] then retA False
           else if bf_paused f then retA True
           else bindA (getA (\<lambda>rc. fst (flow_turn w k f rc))) (\<lambda>f1.
                seqA (modA (\<lambda>rc. enter_flow k f1 (snd (flow_turn w k f rc))))
                  (flow_hop w k (f1\<lparr>bf_packet := (bf_packet f1)\<lparr>rp_branch_id := k\<rparr>\<rparr>))))"

fun flows_loop :: "relay_world \<Rightarrow> nat list \<Rightarrow> bool \<Rightarrow> (relay_chain, bool) act" where
  "flows_loop w [] blocked = retA blocked"
| "flows_loop w (k # ks) blocked = bindA (flow_step w k) (\<lambda>b. flows_loop w ks (blocked \<or> b))"

definition summarise_flows :: "bool \<Rightarrow> relay_chain \<Rightarrow> relay_chain" where
  "summarise_flows any_blocked rc =
     (let all_paused = list_all (bf_paused \<circ> snd) (rc_branch_flows rc)
      in rc\<lparr>rc_connectivity_paused := all_paused,
            rc_connectivity_pause_reason :=
              (if all_paused then ''all_parallel_branches_paused''
               else if any_blocked then ''one_or_more_parallel_branches_paused'' else []),
            rc_paused_hop := (if all_paused then rc_last_hop_event rc else None)\<rparr>)"

definition tick_parallel :: "relay_world \<Rightarrow> (relay_chain, unit) act" where
  "tick_parallel w =
     seqA (modA (sync_branch_flow_state w))
    (bindA (getA flow_keys) (\<lambda>keys.
       if keys = [] then modA (\<lambda>rc. emit ''no_active_parallel_relay_path'' (indices_details rc) rc)
       else bindA (flows_loop w keys False) (\<lambda>blocked. modA (summarise_flows blocked))))"

section \<open>The timer\<close>

definition tick :: "relay_world \<Rightarrow> (relay_chain, unit) act" where
  "tick w =
     seqA (process_pending_failure w)
    (seqA (integrate_standby_if_possible w)
    (bindA (getA (\<lambda>rc. (rc_operator_paused rc, parallel_enabled rc))) (\<lambda>(held, parallel).
       if held then retA () else if parallel then tick_parallel w else tick_chain w)))"

end
