(* ===== verification/Relay_Lemmas.thy ===== *)
theory Relay_Lemmas
  imports Relay_Init Relay_Tick "HOL-Library.Multiset"
begin

text \<open>
  Facts that the properties of the relay chain share: the table of drones under updates, what belongs to the
  active chain and to the standby drones, that branches partition the active chain, and the fields that the
  layout, the packets and the events leave alone.
\<close>

named_theorems relay_frame \<open>fields that an operation leaves unchanged\<close>

section \<open>The table of drones\<close>

lemma map_fst_update_drone [simp]: "map fst (update_drone i f drones) = map fst drones"
  by (simp add: update_drone_def comp_def split_beta)

lemma map_of_map_entries: "map_of (map (\<lambda>(j, d). (j, g j d)) drones) i = map_option (g i) (map_of drones i)"
  by (induction drones) auto

lemma map_fst_map_entries [simp]: "map fst (map (\<lambda>(j, d). (j, g j d)) drones) = map fst drones"
  by (simp add: comp_def split_beta)

lemma map_of_update_drone:
  "map_of (update_drone i f drones) j = (if j = i then map_option f (map_of drones j) else map_of drones j)"
  unfolding update_drone_def map_of_map_entries by (cases "j = i") (simp_all add: option.map_ident)

lemma map_of_set_desired:
  "map_of (set_desired i p drones) j =
     (if j = i then map_option (\<lambda>d. d\<lparr>rd_desired_position := p\<rparr>) (map_of drones j) else map_of drones j)"
  by (simp add: set_desired_def map_of_update_drone)

lemma drone_indices_cong: "map fst (rc_drones a) = map fst (rc_drones b) \<Longrightarrow> drone_indices a = drone_indices b"
  by (simp add: drone_indices_def)

lemma set_drone_indices: "i \<in> set (drone_indices rc) \<longleftrightarrow> map_of (rc_drones rc) i \<noteq> None"
  by (auto simp: drone_indices_def map_of_eq_None_iff)

lemma is_active_known: "is_active rc i \<Longrightarrow> i \<in> set (drone_indices rc)"
  by (auto simp: is_active_def set_drone_indices split: option.splits)

lemma is_standby_known: "is_standby rc i \<Longrightarrow> i \<in> set (drone_indices rc)"
  by (auto simp: is_standby_def set_drone_indices split: option.splits)

lemma set_active_chain [simp]: "set (active_chain rc) = {i. is_active rc i}"
  by (auto simp: active_chain_def is_active_known)

lemma set_standby_indices [simp]: "set (standby_indices rc) = {i. is_standby rc i}"
  by (auto simp: standby_indices_def is_standby_known)

lemma active_not_standby: "is_active rc i \<Longrightarrow> \<not> is_standby rc i"
  by (auto simp: is_active_def is_standby_def split: option.splits)

lemma active_chain_sorted: "sorted (active_chain rc)"
  by (simp add: active_chain_def drone_indices_def sorted_filter [where f = id, simplified])

lemma active_chain_distinct: "distinct (map fst (rc_drones rc)) \<Longrightarrow> distinct (active_chain rc)"
  by (simp add: active_chain_def drone_indices_def)

section \<open>Branches partition the active chain\<close>

lemma deal_length [simp]: "length (deal pos rows xs) = length rows"
  by (induction xs arbitrary: pos rows) (simp_all add: Let_def)

lemma mset_concat_update:
  "k < length rows \<Longrightarrow> mset (concat (rows[k := rows ! k @ ys])) = mset (concat rows) + mset ys"
proof (induction rows arbitrary: k)
  case (Cons r rows)
  then show ?case by (cases k) simp_all
qed simp

lemma mset_deal: "rows \<noteq> [] \<Longrightarrow> mset (concat (deal pos rows xs)) = mset (concat rows) + mset xs"
proof (induction xs arbitrary: pos rows)
  case (Cons x xs)
  let ?k = "pos mod length rows"
  from Cons.prems have k: "?k < length rows" by simp
  have ne: "rows[?k := rows ! ?k @ [x]] \<noteq> []" using Cons.prems by simp
  show ?case
    unfolding deal.simps Let_def Cons.IH [OF ne] mset_concat_update [OF k] by simp
qed simp

lemma deal_nonempty: "[] \<notin> set rows \<Longrightarrow> [] \<notin> set (deal pos rows xs)"
proof (induction xs arbitrary: pos rows)
  case (Cons x xs)
  have "[] \<notin> set (rows[k := rows ! k @ [x]])" for k
    using Cons.prems set_update_subset_insert [of rows k "rows ! k @ [x]"] by auto
  then show ?case unfolding deal.simps Let_def by (rule Cons.IH)
qed simp

lemma concat_filter_nonempty: "concat (filter (\<lambda>b. b \<noteq> []) rows) = concat rows"
  by (induction rows) auto

lemma sanitize_row_props:
  "sanitize_row ok seen is = (row, seen') \<Longrightarrow>
     distinct row \<and> set row \<inter> set seen = {} \<and> set seen' = set row \<union> set seen \<and> set row = {i \<in> set is. ok i} - set seen"
proof (induction ok seen "is" arbitrary: row seen' rule: sanitize_row.induct)
  case (2 ok seen i "is")
  show ?case
  proof (cases "\<not> ok i \<or> i \<in> set seen")
    case True
    from True "2.prems" have "sanitize_row ok seen is = (row, seen')" by simp
    from "2.IH"(1) [OF True this] True show ?thesis by fastforce
  next
    case False
    obtain r t where r: "sanitize_row ok (i # seen) is = (r, t)" by (cases "sanitize_row ok (i # seen) is")
    with False "2.prems" have "row = i # r" "seen' = t" by simp_all
    with "2.IH"(2) [OF False r] False show ?thesis by auto
  qed
qed simp

lemma sanitize_rows_props:
  "[] \<notin> set (sanitize_rows ok seen iss) \<and> distinct (concat (sanitize_rows ok seen iss))
     \<and> set (concat (sanitize_rows ok seen iss)) = {i \<in> set (concat iss). ok i} - set seen"
proof (induction ok seen iss rule: sanitize_rows.induct)
  case (2 ok seen "is" iss)
  obtain row t where r: "sanitize_row ok seen is = (row, t)" by (cases "sanitize_row ok seen is")
  from "2.IH" [OF r [symmetric]] sanitize_row_props [OF r] show ?case by (auto simp: r)
qed simp

lemma active_rows_props:
  "active_rows active used bs = (rows, used') \<Longrightarrow> distinct (concat bs) \<Longrightarrow> set (concat bs) \<inter> set used = {} \<Longrightarrow>
     [] \<notin> set rows \<and> concat rows = filter (\<lambda>i. i \<in> active) (concat bs) \<and> set used' = set (concat rows) \<union> set used"
proof (induction active used bs arbitrary: rows used' rule: active_rows.induct)
  case (2 active used b bs)
  define row where "row = filter (\<lambda>i. i \<in> active \<and> i \<notin> set used) b"
  have row: "row = filter (\<lambda>i. i \<in> active) b" using "2.prems"(3) unfolding row_def by (intro filter_cong) auto
  obtain rest t where r: "active_rows active (row @ used) bs = (rest, t)"
    by (cases "active_rows active (row @ used) bs")
  from "2.prems"(1) r have eq: "rows = (if row = [] then [] else [row]) @ rest" "used' = t"
    by (auto simp: row_def [symmetric] Let_def split: prod.splits)
  have "distinct (concat bs)" "set (concat bs) \<inter> set (row @ used) = {}"
    using "2.prems"(2,3) by (auto simp: row)
  note rest = "2.IH" [OF row_def r this]
  have rows: "concat rows = row @ concat rest" by (simp add: eq)
  have "set used' = set (concat rows) \<union> set used"
    unfolding rows set_append eq(2) using rest [THEN conjunct2, THEN conjunct2, unfolded set_append] by blast
  moreover have "[] \<notin> set rows" using rest by (auto simp: eq)
  moreover have "concat rows = filter (\<lambda>i. i \<in> active) (concat (b # bs))"
    unfolding rows using rest by (simp add: row del: set_concat)
  ultimately show ?case by blast
qed simp

lemma manual_rows_partition:
  assumes "distinct active" "active \<noteq> []"
  shows "mset (concat (manual_rows rc active)) = mset active \<and> [] \<notin> set (manual_rows rc active)"
proof -
  let ?clean = "sanitize_manual_branches rc True (branches_value (rs_manual_branches (rc_settings rc)))"
  have clean: "distinct (concat ?clean)"
    unfolding sanitize_manual_branches_def using sanitize_rows_props by blast
  obtain rows used where r: "active_rows (set active) [] ?clean = (rows, used)"
    by (cases "active_rows (set active) [] ?clean")
  from active_rows_props [OF r clean] have rows: "[] \<notin> set rows"
    "concat rows = filter (\<lambda>i. i \<in> set active) (concat ?clean)" "set used = set (concat rows)"
    by (simp_all del: set_concat)
  have d: "distinct (concat rows)" using clean rows(2) by simp
  define left where "left = filter (\<lambda>i. i \<notin> set used) active"
  have "mset (concat rows) + mset left = mset active"
  proof -
    have sub: "set (concat rows) \<subseteq> set active" unfolding rows(2) by auto
    have left: "set left = set active - set (concat rows)" using rows(3) by (auto simp: left_def simp del: set_concat)
    have "distinct left" using assms(1) by (simp add: left_def)
    then have "distinct (concat rows @ left)" using d left by (simp del: set_concat)
    moreover have "set (concat rows @ left) = set active" using sub left by (simp del: set_concat) blast
    ultimately have "mset (concat rows @ left) = mset active" using assms(1) set_eq_iff_mset_eq_distinct by blast
    then show ?thesis by simp
  qed
  moreover have "left \<noteq> []" if "rows = []"
    using that assms(2) rows(3) by (auto simp: left_def filter_empty_conv)
  ultimately show ?thesis
    using rows(1) by (auto simp: manual_rows_def r left_def [symmetric] Let_def mset_deal deal_nonempty)
qed

lemma active_branches_parts:
  assumes "distinct (map fst (rc_drones rc))"
  shows "mset (concat (active_branches rc)) = mset (active_chain rc) \<and> [] \<notin> set (active_branches rc)"
proof (cases "active_chain rc = []")
  case True
  then show ?thesis by (simp add: active_branches_def)
next
  case False
  show ?thesis
    using manual_rows_partition [OF active_chain_distinct [OF assms] False, of rc] False
    by (simp add: active_branches_def Let_def concat_filter_nonempty mset_deal)
qed

lemma active_branches_members:
  assumes "distinct (map fst (rc_drones rc))" "b \<in> set (active_branches rc)" "i \<in> set b"
  shows "is_active rc i"
proof -
  from active_branches_parts [OF assms(1)] have "set (concat (active_branches rc)) = set (active_chain rc)"
    by (metis mset_eq_setD)
  with assms(2,3) show ?thesis by auto
qed

end
