(* ===== verification/Relay_Frame.thy ===== *)
theory Relay_Frame
  imports Relay_Lemmas
begin

text \<open>
  What a new layout leaves alone. \<open>core\<close> forgets the fields of a drone that a layout or a transmission
  assigns: its target, the version of the chain it has seen, its battery. A layout preserves the cores of
  all drones, so it changes neither the active chain nor the standby drones nor the branches.
\<close>

section \<open>Cores\<close>

definition core :: "drone_runtime \<Rightarrow> drone_runtime" where
  "core d = d\<lparr>rd_desired_position := (Fin 0, Fin 0, Fin 0), rd_battery_pct := Fin 0,
     rd_last_seen_chain_version := 0\<rparr>"

definition cores :: "drone_table \<Rightarrow> drone_table" where
  "cores drones = map (\<lambda>(i, d). (i, core d)) drones"

lemma core_simps [simp]:
  "rd_index (core d) = rd_index d" "rd_role (core d) = rd_role d" "rd_integrated (core d) = rd_integrated d"
  "rd_failed (core d) = rd_failed d" "rd_current_position (core d) = rd_current_position d"
  "rd_initial_position (core d) = rd_initial_position d" "rd_antenna_name (core d) = rd_antenna_name d"
  "rd_antenna_gain_dbi (core d) = rd_antenna_gain_dbi d"
  by (simp_all add: core_def)

lemma core_retarget [simp]:
  "core (d\<lparr>rd_desired_position := p\<rparr>) = core d" "core (d\<lparr>rd_battery_pct := b\<rparr>) = core d"
  "core (d\<lparr>rd_desired_position := p, rd_last_seen_chain_version := v\<rparr>) = core d"
  by (simp_all add: core_def)

lemma map_of_cores: "map_of (cores drones) i = map_option core (map_of drones i)"
  by (simp add: cores_def map_of_map_entries [where g = "\<lambda>_. core"])

lemma map_fst_cores [simp]: "map fst (cores drones) = map fst drones"
  by (simp add: cores_def comp_def split_beta)

lemma cores_keys: "cores a = cores b \<Longrightarrow> map fst a = map fst b"
  by (metis map_fst_cores)

lemma cores_map_entries: "(\<And>i d. core (g i d) = core d) \<Longrightarrow> cores (map (\<lambda>(i, d). (i, g i d)) drones) = cores drones"
  by (simp add: cores_def split_beta comp_def)

lemma cores_update_drone [simp]: "(\<And>d. core (f d) = core d) \<Longrightarrow> cores (update_drone i f drones) = cores drones"
  unfolding update_drone_def by (rule cores_map_entries) simp

lemma cores_set_desired [simp]: "cores (set_desired i p drones) = cores drones"
  by (simp add: set_desired_def)

lemma cores_lookup:
  assumes "cores a = cores b" "map_of a i = Some d"
  shows "\<exists>e. map_of b i = Some e \<and> core e = core d"
  using assms map_of_cores [of a i] map_of_cores [of b i] by (auto simp: map_option_case split: option.splits)

lemma core_eqD:
  assumes "core e = core d"
  shows "rd_role e = rd_role d" "rd_integrated e = rd_integrated d" "rd_failed e = rd_failed d"
    "rd_current_position e = rd_current_position d" "rd_antenna_name e = rd_antenna_name d"
    "rd_antenna_gain_dbi e = rd_antenna_gain_dbi d"
  using assms by (metis core_simps)+

text \<open>Two states that agree on what the views of the topology read.\<close>

definition same_fleet :: "relay_chain \<Rightarrow> relay_chain \<Rightarrow> bool" where
  "same_fleet a b \<longleftrightarrow> cores (rc_drones a) = cores (rc_drones b) \<and> rc_drone_count a = rc_drone_count b
     \<and> rc_failed_indices a = rc_failed_indices b \<and> rc_settings a = rc_settings b
     \<and> rc_relay_count a = rc_relay_count b"

lemma same_fleet_refl [simp]: "same_fleet rc rc"
  by (simp add: same_fleet_def)

lemma same_fleet_sym: "same_fleet a b \<Longrightarrow> same_fleet b a"
  by (simp add: same_fleet_def)

lemma same_fleet_trans: "same_fleet a b \<Longrightarrow> same_fleet b c \<Longrightarrow> same_fleet a c"
  by (simp add: same_fleet_def)

lemma same_fleet_lookup:
  assumes "same_fleet a b"
  shows "map_option core (map_of (rc_drones a) i) = map_option core (map_of (rc_drones b) i)"
  using assms by (simp add: same_fleet_def flip: map_of_cores)

lemma same_fleet_views:
  assumes "same_fleet a b"
  shows "is_active a = is_active b" "is_standby a = is_standby b" "drone_indices a = drone_indices b"
proof -
  have "(case map_of (rc_drones a) i of None \<Rightarrow> False | Some d \<Rightarrow> P (rd_integrated d) (rd_role d))
      = (case map_of (rc_drones b) i of None \<Rightarrow> False | Some d \<Rightarrow> P (rd_integrated d) (rd_role d))" for P i
  proof (cases "map_of (rc_drones a) i")
    case None
    with same_fleet_lookup [OF assms, of i] show ?thesis by simp
  next
    case (Some d)
    with same_fleet_lookup [OF assms, of i] obtain e where e: "map_of (rc_drones b) i = Some e" "core d = core e"
      by (cases "map_of (rc_drones b) i") auto
    show ?thesis unfolding Some e(1) option.case core_eqD(1,2) [OF e(2)] ..
  qed
  note views = this [of "\<lambda>g r. g \<and> r \<noteq> ''standby''"] this [of "\<lambda>g r. \<not> g \<or> r = ''standby''"]
  show "is_active a = is_active b" "is_standby a = is_standby b"
    using assms views by (auto simp: is_active_def is_standby_def same_fleet_def fun_eq_iff)
  show "drone_indices a = drone_indices b"
    using assms by (auto simp: same_fleet_def intro: drone_indices_cong cores_keys)
qed

lemma same_fleet_chains:
  assumes "same_fleet a b"
  shows "active_chain a = active_chain b" "standby_indices a = standby_indices b"
    "visible_drone_indices a = visible_drone_indices b" "active_branches a = active_branches b"
    "parallel_enabled a = parallel_enabled b"
proof -
  show chains: "active_chain a = active_chain b" "standby_indices a = standby_indices b"
    "visible_drone_indices a = visible_drone_indices b"
    using same_fleet_views [OF assms] assms
    by (simp_all add: active_chain_def standby_indices_def visible_drone_indices_def same_fleet_def)
  then have "manual_rows a x = manual_rows b x" for x
    using assms by (simp add: manual_rows_def sanitize_manual_branches_def same_fleet_def)
  then show branches: "active_branches a = active_branches b"
    using assms chains by (simp add: active_branches_def Let_def same_fleet_def)
  show "parallel_enabled a = parallel_enabled b"
    using assms branches by (simp add: parallel_enabled_def same_fleet_def)
qed

section \<open>A layout\<close>

definition relayout ::
  "relay_world \<Rightarrow> string \<Rightarrow> bool \<Rightarrow> pyfloat \<times> pyfloat \<Rightarrow> relay_chain \<Rightarrow> relay_chain" where
  "relayout w reason reset_packet dir rc =
     (case apply_strategy_position_plan w reason (place_drones rc dir) of
        (applied, rc1) \<Rightarrow>
          (let rc2 = assess_coverage applied rc1;
               rc3 = (if reset_packet then restart_packet w reason rc2 else rc2)
           in layout_event reason (active_branches rc) rc3))"

lemma recompute_run [act_simps]:
  "recompute_desired_positions w reason reset rc =
     (case heading w rc of Inl e \<Rightarrow> (Inl e, rc) | Inr dir \<Rightarrow> (Inr (), relayout w reason reset dir rc))"
  by (simp add: recompute_desired_positions_def bindA_def relayout_def split: sum.split)

text \<open>The fields of the packet in service, which a restart assigns.\<close>

lemma emit_fields [simp]:
  "rc_settings (emit k d rc) = rc_settings rc" "rc_drones (emit k d rc) = rc_drones rc"
  "rc_drone_count (emit k d rc) = rc_drone_count rc" "rc_failed_indices (emit k d rc) = rc_failed_indices rc"
  "rc_pending_failure (emit k d rc) = rc_pending_failure rc" "rc_sent (emit k d rc) = rc_sent rc"
  "rc_operator_paused (emit k d rc) = rc_operator_paused rc" "rc_phase (emit k d rc) = rc_phase rc"
  "rc_cursor (emit k d rc) = rc_cursor rc" "rc_current_packet (emit k d rc) = rc_current_packet rc"
  "rc_current_branch_index (emit k d rc) = rc_current_branch_index rc"
  "rc_connectivity_paused (emit k d rc) = rc_connectivity_paused rc"
  "rc_branch_flows (emit k d rc) = rc_branch_flows rc" "rc_chain_version (emit k d rc) = rc_chain_version rc"
  "rc_packet_id (emit k d rc) = rc_packet_id rc" "rc_relay_count (emit k d rc) = rc_relay_count rc"
  "rc_sequence (emit k d rc) = rc_sequence rc" "rc_mission_mode (emit k d rc) = rc_mission_mode rc"
  "rc_applied_revision (emit k d rc) = rc_applied_revision rc" "rc_revision_ack (emit k d rc) = rc_revision_ack rc"
  "rc_standby_count (emit k d rc) = rc_standby_count rc"
  by (simp_all add: emit_def)

lemma same_fleet_emit [simp]: "same_fleet (emit k d a) b = same_fleet a b" "same_fleet a (emit k d b) = same_fleet a b"
  by (simp_all add: same_fleet_def)

lemma cores_place_branch [simp]: "cores (place_branch st dir v n ib drones) = cores drones"
proof -
  have "cores (fold (\<lambda>(slot, i). update_drone i (\<lambda>d. d\<lparr>rd_desired_position := g slot, rd_last_seen_chain_version := v\<rparr>)) xs
      drones) = cores drones" for g :: "nat \<Rightarrow> vec3" and xs
    by (induction xs arbitrary: drones) auto
  then show ?thesis by (simp add: place_branch_def split_beta)
qed

lemma cores_fold_place [simp]: "cores (fold (place_branch st dir v n) ibs drones) = cores drones"
  by (induction ibs arbitrary: drones) auto

lemma cores_sink_failed [simp]: "cores (sink_failed failed drones) = cores drones"
  unfolding sink_failed_def by (rule cores_map_entries) (simp split: prod.split)

lemma cores_park_standby [simp]: "cores (park_standby standby drones) = cores drones"
  unfolding park_standby_def by (rule cores_map_entries) simp

lemma cores_strategy_moves:
  "strategy_moves active failed plan drones applied = (drones', applied') \<Longrightarrow> cores drones' = cores drones"
  by (induction active failed plan drones applied rule: strategy_moves.induct)
    (auto split: option.splits if_splits)

lemma strategy_plan_keeps:
  assumes "apply_strategy_position_plan w reason rc = (b, rc')"
  shows "same_fleet rc' rc" "rc_pending_failure rc' = rc_pending_failure rc" "rc_sent rc' = rc_sent rc"
    "rc_operator_paused rc' = rc_operator_paused rc" "rc_phase rc' = rc_phase rc" "rc_cursor rc' = rc_cursor rc"
    "rc_packet_id rc' = rc_packet_id rc" "rc_branch_flows rc' = rc_branch_flows rc"
    "rc_chain_version rc' = rc_chain_version rc" "rc_applied_revision rc' = rc_applied_revision rc"
    "rc_relay_count rc' = rc_relay_count rc" "rc_standby_count rc' = rc_standby_count rc"
    "rc_current_packet rc' = rc_current_packet rc" "rc_mission_mode rc' = rc_mission_mode rc"
    "rc_sequence rc' = rc_sequence rc" "rc_connectivity_paused rc' = rc_connectivity_paused rc"
  using assms
  by (auto simp: apply_strategy_position_plan_def same_fleet_def dest: cores_strategy_moves
      split: plan_source.splits prod.splits if_splits)

lemma restart_packet_fields [simp]:
  "rc_settings (restart_packet w r rc) = rc_settings rc" "rc_drones (restart_packet w r rc) = rc_drones rc"
  "rc_drone_count (restart_packet w r rc) = rc_drone_count rc"
  "rc_failed_indices (restart_packet w r rc) = rc_failed_indices rc"
  "rc_pending_failure (restart_packet w r rc) = rc_pending_failure rc"
  "rc_sent (restart_packet w r rc) = rc_sent rc" "rc_operator_paused (restart_packet w r rc) = rc_operator_paused rc"
  "rc_phase (restart_packet w r rc) = Forward" "rc_cursor (restart_packet w r rc) = 0"
  "rc_current_branch_index (restart_packet w r rc) = 0" "rc_connectivity_paused (restart_packet w r rc) = False"
  "rc_packet_id (restart_packet w r rc) = rc_packet_id rc + 1"
  "rc_chain_version (restart_packet w r rc) = rc_chain_version rc + 1"
  "rc_relay_count (restart_packet w r rc) = rc_relay_count rc"
  "rc_standby_count (restart_packet w r rc) = rc_standby_count rc"
  "rc_mission_mode (restart_packet w r rc) = rc_mission_mode rc"
  "rc_applied_revision (restart_packet w r rc) = rc_applied_revision rc"
  by (simp_all add: restart_packet_def clear_connectivity_pause_def relay_new_packet_def Let_def)

lemma place_drones_fields [simp]:
  "same_fleet (place_drones rc dir) rc"
  "rc_pending_failure (place_drones rc dir) = rc_pending_failure rc" "rc_sent (place_drones rc dir) = rc_sent rc"
  "rc_operator_paused (place_drones rc dir) = rc_operator_paused rc"
  "rc_packet_id (place_drones rc dir) = rc_packet_id rc"
  "rc_chain_version (place_drones rc dir) = rc_chain_version rc"
  "rc_relay_count (place_drones rc dir) = rc_relay_count rc"
  "rc_standby_count (place_drones rc dir) = rc_standby_count rc"
  "rc_mission_mode (place_drones rc dir) = rc_mission_mode rc"
  "rc_applied_revision (place_drones rc dir) = rc_applied_revision rc"
  by (simp_all add: place_drones_def Let_def same_fleet_def)

lemma assess_coverage_fields [simp]:
  "same_fleet (assess_coverage b rc) rc'' = same_fleet rc rc''"
  "rc_pending_failure (assess_coverage b rc) = rc_pending_failure rc" "rc_sent (assess_coverage b rc) = rc_sent rc"
  "rc_operator_paused (assess_coverage b rc) = rc_operator_paused rc"
  "rc_packet_id (assess_coverage b rc) = rc_packet_id rc"
  "rc_chain_version (assess_coverage b rc) = rc_chain_version rc"
  "rc_relay_count (assess_coverage b rc) = rc_relay_count rc"
  "rc_standby_count (assess_coverage b rc) = rc_standby_count rc"
  "rc_mission_mode (assess_coverage b rc) = rc_mission_mode rc"
  "rc_applied_revision (assess_coverage b rc) = rc_applied_revision rc"
  by (simp_all add: assess_coverage_def Let_def same_fleet_def)

lemma relayout_keeps:
  shows "same_fleet (relayout w r b dir rc) rc"
    and "rc_pending_failure (relayout w r b dir rc) = rc_pending_failure rc"
    and "rc_sent (relayout w r b dir rc) = rc_sent rc"
    and "rc_operator_paused (relayout w r b dir rc) = rc_operator_paused rc"
    and "rc_relay_count (relayout w r b dir rc) = rc_relay_count rc"
    and "rc_standby_count (relayout w r b dir rc) = rc_standby_count rc"
    and "rc_mission_mode (relayout w r b dir rc) = rc_mission_mode rc"
    and "rc_applied_revision (relayout w r b dir rc) = rc_applied_revision rc"
proof -
  obtain applied rc1 where p: "apply_strategy_position_plan w r (place_drones rc dir) = (applied, rc1)"
    by (cases "apply_strategy_position_plan w r (place_drones rc dir)")
  note keeps = strategy_plan_keeps [OF p]
  have fleet: "same_fleet rc1 rc" using keeps(1) place_drones_fields(1) by (rule same_fleet_trans)
  have restart: "same_fleet (restart_packet w r x) rc = same_fleet x rc" for x by (simp add: same_fleet_def)
  show "same_fleet (relayout w r b dir rc) rc"
    by (simp add: relayout_def p Let_def layout_event_def restart fleet)
  show "rc_pending_failure (relayout w r b dir rc) = rc_pending_failure rc"
    "rc_sent (relayout w r b dir rc) = rc_sent rc"
    "rc_operator_paused (relayout w r b dir rc) = rc_operator_paused rc"
    "rc_relay_count (relayout w r b dir rc) = rc_relay_count rc"
    "rc_standby_count (relayout w r b dir rc) = rc_standby_count rc"
    "rc_mission_mode (relayout w r b dir rc) = rc_mission_mode rc"
    "rc_applied_revision (relayout w r b dir rc) = rc_applied_revision rc"
    by (simp_all add: relayout_def p Let_def layout_event_def keeps)
qed

lemma relayout_restarts:
  "rc_phase (relayout w r True dir rc) = Forward" "rc_cursor (relayout w r True dir rc) = 0"
  "rc_connectivity_paused (relayout w r True dir rc) = False"
  "rc_chain_version (relayout w r True dir rc) = rc_chain_version rc + 1"
  by (simp_all add: relayout_def Let_def layout_event_def strategy_plan_keeps split: prod.split)

end
