(* ===== verification/Bridge_Props.thy ===== *)
theory Bridge_Props
  imports Algorithm_Bridge Shield_Props Relay_Frame
begin

text \<open>
  From the shield to the drones: an action that the shield rejects as invalid leaves it without an action
  of its own, so the bridge publishes the rejected one and the relay chain applies it.
\<close>

lemma early_decision:
  assumes "apply_safety_shield w a snapshot config require_connectivity = Inr d"
    and "action_errors (sh_now w) a \<noteq> []"
  shows "\<not> sd_accepted d" "sd_action d = []"
  using assms by (auto simp: apply_safety_shield_def early_rejection_def bindR_Inr_iff)

lemma bridge_message_fields:
  assumes "bridge_message algorithm_id version revision duration a d = Inr msg"
  shows "mg_algorithm_id msg = algorithm_id"
    and "mg_payload msg = dget (outgoing_action a d) ''payload'' (PDict [])"
    and "mg_fallback msg = truthy (dget (outgoing_action a d) ''fallback'' (PBool (sd_fallback_applied d)))"
    and "mg_source_revision_id msg = py_str (dget (outgoing_action a d) ''source_revision_id'' (PStr revision))"
  using assms by (auto simp: bridge_message_def Let_def bindR_Inr_iff json_message_def split: if_splits)

lemma plan_vector_value:
  "is_finite x \<and> is_finite y \<and> is_finite z \<Longrightarrow> plan_vector (vec_value (x, y, z)) = Inr (Some (x, y, z))"
  by (simp add: plan_vector_def vec_value_def ptuple_def)

lemma apply_single_plan:
  assumes "parse_drone_index drones (PStr key) = Some i" "i \<in> set active" "i \<notin> failed"
    and "is_finite x \<and> is_finite y \<and> is_finite z"
  shows "\<exists>applied. apply_plan active failed [(key, vec_value (x, y, z))] drones []
    = (set_desired i (x, y, z) drones, applied, None)"
  using assms by (simp add: plan_vector_value)

lemma finish_action_drones [simp]: "rc_drones (finish_action msg applied rc) = rc_drones rc"
  by (simp add: finish_action_def Let_def)

text \<open>C19 a rejected action is flown: when the shield rejects an action as invalid (stale, without a
  revision, with an unknown field, an unsupported frame), the message that the bridge publishes carries
  the rejected action's own payload, marked as a fallback only if the algorithm marked it, and the relay
  chain sends the drone to the unchecked position.\<close>

theorem invalid_action_reaches_drones:
  assumes "apply_safety_shield w a snapshot config require_connectivity = Inr d"
    and "action_errors (sh_now w) a \<noteq> []"
    and "bridge_message algorithm_id version revision duration a d = Inr msg"
    and "algorithm_id \<noteq> []" and "rc_strategy_id rc = algorithm_id"
    and "rc_pending_revision rc = [] \<or> ac_source_revision_id a \<in> {rc_pending_revision rc, ''runtime-current''}"
    and "ac_payload a = [(''desired_positions'', PDict [(key, vec_value (x, y, z))])]"
    and "is_finite x \<and> is_finite y \<and> is_finite z"
    and "parse_drone_index (rc_drones rc) (PStr key) = Some i" and "i \<in> set (active_chain rc)"
  shows "\<not> sd_accepted d \<and> mg_payload msg = PDict (ac_payload a) \<and> mg_fallback msg = ac_fallback a
    \<and> map_option rd_desired_position (map_of (rc_drones (algorithm_action_cb msg rc)) i) = Some (x, y, z)"
proof -
  note rejected = early_decision [OF assms(1,2)]
  have outgoing: "outgoing_action a d = action_as_dict a" by (simp add: outgoing_action_def rejected(2))
  have msg: "mg_algorithm_id msg = algorithm_id" "mg_payload msg = PDict (ac_payload a)"
    "mg_fallback msg = ac_fallback a" "mg_source_revision_id msg = ac_source_revision_id a"
    using bridge_message_fields [OF assms(3)] by (simp_all add: outgoing action_as_dict_def)
  from assms(10) have up: "i \<notin> rc_failed_indices rc" by (simp add: is_active_def)
  from assms(9) obtain r where r: "map_of (rc_drones rc) i = Some r"
    by (auto simp: parse_drone_index_def split: sum.splits if_splits)
  obtain applied where plan: "apply_plan (active_chain rc) (rc_failed_indices rc) [(key, vec_value (x, y, z))]
      (rc_drones rc) [] = (set_desired i (x, y, z) (rc_drones rc), applied, None)"
    using apply_single_plan [OF assms(9,10) up assms(8)] by blast
  have "rc_drones (algorithm_action_cb msg rc) = set_desired i (x, y, z) (rc_drones rc)"
    using assms(4-6) plan by (auto simp: algorithm_action_cb_def msg assms(7) simp del: apply_plan.simps)
  then show ?thesis using rejected(1) msg by (simp add: map_of_set_desired r)
qed

definition demo_chain :: relay_chain where
  "demo_chain = (blank_chain ''hover'' [] (initial_settings [] [] [] (Fin 0, Fin 0, Fin 0)))
     \<lparr>rc_pending_revision := ''r1'', rc_drone_count := 1,
      rc_drones := [(1, new_drone (initial_settings [] [] [] (Fin 0, Fin 0, Fin 0)) 1 [] (Fin 0, Fin 0, Fin 20))]\<rparr>"

definition far_action :: algorithm_action where
  "far_action = (demo_action ''ENU'')\<lparr>ac_payload :=
     [(''desired_positions'', PDict [(''drone_1'', vec_value (Fin 9000, Fin 0, Fin (- 9999)))])]\<rparr>"

lemma invalid_action_reaches_drones_witness:
  "\<exists>d msg. apply_safety_shield (demo_shield_env\<lparr>sh_now := Fin 10\<rparr>) far_action demo_snapshot [] True = Inr d
     \<and> bridge_message ''hover'' ''1.0.0'' [] PNone far_action d = Inr msg
     \<and> map_option rd_desired_position (map_of (rc_drones (algorithm_action_cb msg demo_chain)) 1)
         = Some (Fin 9000, Fin 0, Fin (- 9999))"
proof -
  let ?w = "demo_shield_env\<lparr>sh_now := Fin 10\<rparr>"
  have stale: "action_errors (sh_now ?w) far_action \<noteq> []" by code_simp
  obtain d where d: "apply_safety_shield ?w far_action demo_snapshot [] True = Inr d"
    using stale by (auto simp: apply_safety_shield_def early_rejection_def early_fallback_def pget_def)
  have outgoing: "outgoing_action far_action d = action_as_dict far_action"
    by (simp add: outgoing_action_def early_decision [OF d stale])
  have json: "json_ok (PDict (action_as_dict far_action))"
    by (simp add: action_as_dict_def far_action_def demo_action_def vec_value_def opt_float_def map_values_def)
  obtain msg where msg: "bridge_message ''hover'' ''1.0.0'' [] PNone far_action d = Inr msg"
    using json by (simp add: bridge_message_def outgoing sha256_value_ok json_message_def Let_def)
      (simp add: action_as_dict_def far_action_def demo_action_def fget_def py_or_def vec_value_def opt_float_def)
  have fields: "rc_strategy_id demo_chain = ''hover''" "rc_pending_revision demo_chain = ''r1''"
    "rc_failed_indices demo_chain = {}" "rc_drone_count demo_chain = 1"
    "rc_drones demo_chain = [(1, new_drone (initial_settings [] [] [] (Fin 0, Fin 0, Fin 0)) 1 [] (Fin 0, Fin 0, Fin 20))]"
    by (simp_all add: demo_chain_def blank_chain_def split: prod.split)
  have "py_int (PStr (remove_text ''drone_'' (py_lower (py_strip ''drone_1'')))) = Inr 1" by code_simp
  then have parse: "parse_drone_index (rc_drones demo_chain) (PStr ''drone_1'') = Some 1"
    by (simp add: parse_drone_index_def fields)
  have active: "1 \<in> set (active_chain demo_chain)"
    by (simp add: is_active_def fields new_drone_def Let_def dget_def)
  from invalid_action_reaches_drones [OF d stale msg, where rc = demo_chain and key = "''drone_1''" and i = 1
      and x = "Fin 9000" and y = "Fin 0" and z = "Fin (- 9999)"] parse active
  have "map_option rd_desired_position (map_of (rc_drones (algorithm_action_cb msg demo_chain)) 1)
         = Some (Fin 9000, Fin 0, Fin (- 9999))"
    by (simp add: far_action_def demo_action_def fields)
  with d msg show ?thesis by blast
qed

end
