(* ===== verification/Relay_Failure_Props.thy ===== *)
theory Relay_Failure_Props
  imports Relay_Frame
begin

text \<open>
  Failure and replacement in the relay chain: what the detection of a failure does to the chain, which
  standby drone it takes, and which requests of the operator are lost.
\<close>

section \<open>The views after an assignment\<close>

lemma emit_views [simp]:
  "is_active (emit k d rc) = is_active rc" "is_standby (emit k d rc) = is_standby rc"
  "active_chain (emit k d rc) = active_chain rc" "standby_indices (emit k d rc) = standby_indices rc"
  using same_fleet_views [of "emit k d rc" rc] same_fleet_chains [of "emit k d rc" rc] by simp_all

lemma is_active_mark_failed [simp]: "is_active (mark_failed i rc) j \<longleftrightarrow> is_active rc j \<and> j \<noteq> i"
  by (auto simp: is_active_def mark_failed_def map_of_update_drone)

lemma is_standby_mark_failed [simp]: "is_standby (mark_failed i rc) j \<longleftrightarrow> is_standby rc j \<and> j \<noteq> i"
  by (auto simp: is_standby_def mark_failed_def map_of_update_drone)

lemma is_active_promote: "is_standby rc r \<Longrightarrow> is_active (promote r p rc) j \<longleftrightarrow> is_active rc j \<or> j = r"
  by (auto simp: is_active_def is_standby_def promote_def map_of_update_drone split: option.splits)

lemma is_active_join: "is_standby rc r \<Longrightarrow> is_active (join_chain r rc) j \<longleftrightarrow> is_active rc j \<or> j = r"
  by (auto simp: is_active_def is_standby_def join_chain_def map_of_update_drone split: option.splits)

lemma is_standby_join: "is_standby (join_chain r rc) j \<longleftrightarrow> is_standby rc j \<and> j \<noteq> r"
  by (auto simp: is_standby_def join_chain_def map_of_update_drone split: option.splits)

section \<open>The nearest\<close>

lemma least_key_spec:
  assumes "least_key key best k xs = Inr x" "key best = Inr k"
  shows "x \<in> insert best (set xs) \<and> (\<exists>m. key x = Inr m \<and> (m = k \<or> flt m k)
    \<and> (\<forall>y\<in>set xs. \<exists>v. key y = Inr v \<and> \<not> flt v m))"
  using assms
proof (induction key best k xs rule: least_key.induct)
  case (2 key best k y xs)
  from "2.prems"(1) obtain v where v: "key y = Inr v" by (auto simp: bindR_Inr_iff)
  show ?case
  proof (cases "flt v k")
    case True
    from "2.IH"(1) [OF v True] "2.prems" True v obtain m where m: "x \<in> insert y (set xs)" "key x = Inr m"
      "m = v \<or> flt m v" "\<forall>z\<in>set xs. \<exists>u. key z = Inr u \<and> \<not> flt u m" by auto
    from m(3) True have "flt m k" "\<not> flt v m" by (cases v; cases k; cases m; auto)+
    with m v show ?thesis by auto
  next
    case False
    from "2.IH"(2) [OF v False] "2.prems" False v obtain m where m: "x \<in> insert best (set xs)" "key x = Inr m"
      "m = k \<or> flt m k" "\<forall>z\<in>set xs. \<exists>u. key z = Inr u \<and> \<not> flt u m" by auto
    from m(3) False have "\<not> flt v m" by (cases v; cases k; cases m) auto
    with m v show ?thesis by auto
  qed
qed auto

lemma min_by_spec:
  assumes "min_by key xs = Inr x"
  shows "x \<in> set xs \<and> (\<exists>m. key x = Inr m \<and> (\<forall>y\<in>set xs. \<exists>v. key y = Inr v \<and> \<not> flt v m))"
proof -
  from assms obtain y ys k where xs: "xs = y # ys" and k: "key y = Inr k" "least_key key y k ys = Inr x"
    by (auto simp: min_by_def bindR_Inr_iff split: list.splits)
  from least_key_spec [OF k(2,1)] obtain m where "x \<in> insert y (set ys)" "key x = Inr m" "m = k \<or> flt m k"
    "\<forall>z\<in>set ys. \<exists>v. key z = Inr v \<and> \<not> flt v m" by blast
  moreover from this(3) have "\<not> flt k m" by (cases k; cases m) auto
  ultimately show ?thesis using k(1) by (auto simp: xs)
qed

section \<open>Replacement\<close>

definition only_events :: "relay_chain \<Rightarrow> relay_chain \<Rightarrow> bool" where
  "only_events a b \<longleftrightarrow> (\<exists>es. b = a\<lparr>rc_events := es\<rparr>)"

lemma only_events_refl [simp]: "only_events a a"
  unfolding only_events_def by (rule exI [where x = "rc_events a"]) simp

lemma only_events_emit [simp]: "only_events a (emit k d a)"
  unfolding only_events_def emit_def by blast

lemma only_events_trans: "only_events a b \<Longrightarrow> only_events b c \<Longrightarrow> only_events a c"
  unfolding only_events_def by fastforce

lemma only_events_views:
  assumes "only_events a b"
  shows "is_active b = is_active a" "is_standby b = is_standby a" "rc_failed_indices b = rc_failed_indices a"
    "rc_pending_failure b = rc_pending_failure a" "rc_drones b = rc_drones a" "rc_sent b = rc_sent a"
  using assms by (auto simp: only_events_def is_active_def is_standby_def fun_eq_iff)

lemma strategy_selection_result:
  assumes "strategy_selection w failed standby hooks rc = (r, rc')"
  shows "only_events rc rc'" "\<exists>c. r = Inr c \<and> (c = None \<or> c \<in> Some ` set standby)
    \<and> ((\<forall>h x. rw_select w h failed x = PNone) \<longrightarrow> c = None)"
proof -
  have none: "parse_drone_index drones (selected_value PNone) = None" for drones
    by (simp add: parse_drone_index_def selected_value_def)
  have "only_events rc rc' \<and> (\<exists>c. r = Inr c \<and> (c = None \<or> c \<in> Some ` set standby)
    \<and> ((\<forall>h x. rw_select w h failed x = PNone) \<longrightarrow> c = None))"
    using assms
  proof (induction w failed standby hooks arbitrary: rc r rc' rule: strategy_selection.induct)
    case (2 w failed standby hook hooks)
    let ?c = "parse_drone_index (rc_drones rc) (selected_value (rw_select w hook failed rc))"
    show ?case
    proof (cases "\<exists>i. ?c = Some i \<and> i \<in> set standby")
      case True
      then obtain i where i: "?c = Some i" "i \<in> set standby" by blast
      with "2.prems" have "r = Inr (Some i)" "only_events rc rc'" by auto
      moreover have "rw_select w hook failed rc \<noteq> PNone" using i(1) none by (metis option.distinct(1))
      ultimately show ?thesis using i(2) by auto
    next
      case False
      then have "strategy_selection w failed standby hooks rc = (r, rc')"
        using "2.prems" by (cases ?c) auto
      with False "2.IH" show ?thesis by (cases ?c) auto
    qed
  qed simp
  then show "only_events rc rc'" "\<exists>c. r = Inr c \<and> (c = None \<or> c \<in> Some ` set standby)
    \<and> ((\<forall>h x. rw_select w h failed x = PNone) \<longrightarrow> c = None)" by auto
qed


definition nearest_to :: "relay_chain \<Rightarrow> vec3 \<Rightarrow> int \<Rightarrow> bool" where
  "nearest_to rc target r \<longleftrightarrow>
     (\<exists>m. bindR (get_drone rc r) (\<lambda>d. distance (rd_current_position d) target) = Inr m
        \<and> (\<forall>i. is_standby rc i \<longrightarrow>
             (\<exists>v. bindR (get_drone rc i) (\<lambda>d. distance (rd_current_position d) target) = Inr v \<and> \<not> flt v m)))"

lemma activate_result:
  assumes "activate_best_standby_for_failure w i rc = (Inr c, rc')" "map_of (rc_drones rc) i = Some d"
  obtains "c = None" "standby_indices rc = []" "only_events rc rc'"
  | r rc1 where "c = Some r" "is_standby rc r" "only_events rc rc1"
      "only_events (promote r (rd_desired_position d) rc1) rc'"
      "(\<forall>h x. rw_select w h i x = PNone) \<longrightarrow> nearest_to rc (rd_desired_position d) r"
proof (cases "standby_indices rc = []")
  case True
  with assms(1) that(1) show ?thesis
    by (auto simp: activate_best_standby_for_failure_def)
next
  case False
  obtain q rc1 where sel: "strategy_selection w i (standby_indices rc) [''on_failure'', ''select_standby''] rc = (q, rc1)"
    by (cases "strategy_selection w i (standby_indices rc) [''on_failure'', ''select_standby''] rc")
  from strategy_selection_result [OF sel] obtain x where x: "only_events rc rc1" "q = Inr x"
    "x = None \<or> x \<in> Some ` set (standby_indices rc)" "(\<forall>h x. rw_select w h i x = PNone) \<longrightarrow> x = None" by blast
  let ?choice = "case x of Some r \<Rightarrow> Inr r | None \<Rightarrow> nearest_standby rc1 (rd_desired_position d) (standby_indices rc)"
  from assms False sel x(2) obtain r where r: "?choice = Inr r" "c = Some r"
    "rc' = promotion_event i r (rd_desired_position d) (promote r (rd_desired_position d) rc1)"
    by (auto simp: activate_best_standby_for_failure_def bindA_def split: sum.splits prod.splits)
  have near: "is_standby rc r \<and> nearest_to rc (rd_desired_position d) r" if "x = None"
  proof -
    let ?key = "\<lambda>j. bindR (get_drone rc j) (\<lambda>e. distance (rd_current_position e) (rd_desired_position d))"
    from r(1) that have "min_by ?key (standby_indices rc) = Inr r"
      by (simp add: nearest_standby_def get_drone_def only_events_views(5) [OF x(1)])
    from min_by_spec [OF this] show ?thesis by (simp add: nearest_to_def)
  qed
  have "is_standby rc r" using near x(3) r(1) by (cases x) auto
  moreover have "only_events (promote r (rd_desired_position d) rc1) rc'"
    by (simp add: r(3) promotion_event_def)
  ultimately show ?thesis using that(2) [OF r(2) _ x(1)] near x(4) by blast
qed

section \<open>Detection\<close>

text \<open>The chain after the detection: the failed drone has left it, and a standby drone, when there is one,
  has joined it.\<close>

definition replaced :: "relay_world \<Rightarrow> int \<Rightarrow> relay_chain \<Rightarrow> relay_chain \<Rightarrow> bool" where
  "replaced w i rc rc' \<longleftrightarrow>
     (if \<exists>s. s \<noteq> i \<and> is_standby rc s
      then \<exists>r. r \<noteq> i \<and> is_standby rc r \<and> (\<forall>j. is_active rc' j \<longleftrightarrow> j = r \<or> (is_active rc j \<and> j \<noteq> i))
             \<and> ((\<forall>h x. rw_select w h i x = PNone) \<longrightarrow>
                  (\<exists>d. map_of (rc_drones rc) i = Some d \<and> nearest_to (mark_failed i rc) (rd_desired_position d) r))
      else \<forall>j. is_active rc' j \<longleftrightarrow> is_active rc j \<and> j \<noteq> i)"

lemma detect_failure_result:
  assumes "detect_failure w i rc = (Inr (), rc')" "map_of (rc_drones rc) i = Some d"
  shows "rc_failed_indices rc' = insert i (rc_failed_indices rc)" "rc_pending_failure rc' = None"
    "replaced w i rc rc'" "rc_phase rc' = Forward" "rc_cursor rc' = 0" "\<not> rc_connectivity_paused rc'"
proof -
  let ?m = "mark_failed i rc"
  have m: "map_of (rc_drones ?m) i = Some (d\<lparr>rd_failed := True\<rparr>)"
    using assms(2) by (simp add: mark_failed_def map_of_update_drone)
  obtain q rc1 where q: "activate_best_standby_for_failure w i ?m = (q, rc1)"
    by (cases "activate_best_standby_for_failure w i ?m")
  from assms(1) q obtain c kind details dir where act: "activate_best_standby_for_failure w i ?m = (Inr c, rc1)"
    and rc': "rc' = relayout w (drone_name i @ ''_failure'') True dir (emit kind details rc1)"
    by (auto simp: detect_failure_def seqA_def bindA_def recompute_run split: sum.splits)
  let ?layout = "\<lambda>rc. relayout w (drone_name i @ ''_failure'') True dir (emit kind details rc)"
  have views: "is_active rc' = is_active rc1" "is_standby rc' = is_standby rc1"
    "rc_failed_indices rc' = rc_failed_indices rc1" "rc_pending_failure rc' = rc_pending_failure rc1"
    using relayout_keeps(1,2) [of w "drone_name i @ ''_failure''" True dir "emit kind details rc1"]
      same_fleet_views [OF relayout_keeps(1) [of w "drone_name i @ ''_failure''" True dir "emit kind details rc1"]]
    by (simp_all add: rc' same_fleet_def)
  show "rc_phase rc' = Forward" "rc_cursor rc' = 0" "\<not> rc_connectivity_paused rc'"
    unfolding rc' by (simp_all add: relayout_restarts)
  have marked: "rc_failed_indices ?m = insert i (rc_failed_indices rc)" "rc_pending_failure ?m = None"
    by (simp_all add: mark_failed_def)
  have "rc_failed_indices rc1 = rc_failed_indices ?m \<and> rc_pending_failure rc1 = None \<and> replaced w i rc rc1"
    using activate_result [OF act m]
  proof cases
    case 1
    have "\<not> (\<exists>s. s \<noteq> i \<and> is_standby rc s)"
      using 1(2) set_standby_indices [of ?m] by auto
    with only_events_views [OF 1(3)] show ?thesis by (auto simp: replaced_def marked)
  next
    case (2 r rc2)
    note e = only_events_views [OF 2(3)] only_events_views [OF 2(4)]
    have r: "r \<noteq> i" "is_standby rc r" using 2(2) by simp_all
    have "is_standby rc2 r" using 2(2) e by simp
    from is_active_promote [OF this] have "is_active rc1 j \<longleftrightarrow> j = r \<or> (is_active rc j \<and> j \<noteq> i)" for j
      using e by auto
    moreover have "rc_failed_indices rc1 = rc_failed_indices ?m" "rc_pending_failure rc1 = None"
      using e by (simp_all add: promote_def marked)
    ultimately show ?thesis using r 2(5) assms(2) by (auto simp: replaced_def)
  qed
  then show "rc_failed_indices rc' = insert i (rc_failed_indices rc)" "rc_pending_failure rc' = None"
    "replaced w i rc rc'"
    by (simp_all add: views marked replaced_def)
qed

text \<open>C4 (functional) when the detection deadline of a pending failure has passed, the drone joins the failed
  ones and leaves the active chain, the pending slot is free, and the packet restarts at the station. When a
  standby drone exists one of them joins the chain, without a strategy the one nearest to the target of
  the failed drone; no other drone enters or leaves.\<close>

theorem failure_replaced:
  assumes "process_pending_failure w rc = (Inr (), rc')"
    and "rc_pending_failure rc = Some p" "\<not> flt (rw_now w) (pf_detection_deadline p)"
    and "map_of (rc_drones rc) (pf_drone_index p) = Some d" "pf_drone_index p \<le> rc_drone_count rc"
  shows "rc_failed_indices rc' = insert (pf_drone_index p) (rc_failed_indices rc)
    \<and> rc_pending_failure rc' = None \<and> replaced w (pf_drone_index p) rc rc'
    \<and> rc_phase rc' = Forward \<and> rc_cursor rc' = 0 \<and> \<not> rc_connectivity_paused rc'"
proof -
  have "detect_failure w (pf_drone_index p) rc = (Inr (), rc')"
    using assms by (simp add: process_pending_failure_def)
  from detect_failure_result [OF this assms(4)] show ?thesis by simp
qed


section \<open>Requests that are lost\<close>

lemma process_leaves_others:
  assumes "process_pending_failure w rc = (Inr (), rc')" "rc_pending_failure rc = Some p"
    and "a \<noteq> pf_drone_index p" "a \<notin> rc_failed_indices rc"
  shows "a \<notin> rc_failed_indices rc' \<and> (is_active rc a \<longrightarrow> is_active rc' a)"
proof (cases "flt (rw_now w) (pf_detection_deadline p)
    \<or> map_of (rc_drones rc) (pf_drone_index p) = None \<or> pf_drone_index p > rc_drone_count rc")
  case True
  have "is_active (rc\<lparr>rc_pending_failure := None\<rparr>) = is_active rc" for rc
    by (simp add: is_active_def fun_eq_iff)
  with True assms show ?thesis by (auto simp: process_pending_failure_def split: if_splits)
next
  case False
  then obtain d where d: "map_of (rc_drones rc) (pf_drone_index p) = Some d" by auto
  from False assms(1,2) have "detect_failure w (pf_drone_index p) rc = (Inr (), rc')"
    by (simp add: process_pending_failure_def d)
  note r = detect_failure_result(1,3) [OF this d]
  show ?thesis using r assms(3,4) by (auto simp: replaced_def split: if_splits)
qed

text \<open>C9 (error) the pending failure is a single slot: a failure request for a second drone before the deadline
  replaces the first one, whose drone is never marked as failed and stays in the active chain.\<close>

theorem second_failure_cancels_first:
  assumes "rc_pending_failure rc = Some p" "requested_drone msg = b" "b \<noteq> pf_drone_index p"
    and "map_of (rc_drones rc) b \<noteq> None" "b \<notin> rc_failed_indices rc" "pf_drone_index p \<notin> rc_failed_indices rc"
    and "process_pending_failure w' (fail_drone_cb w msg rc) = (Inr (), rc')"
  shows "map_option pf_drone_index (rc_pending_failure (fail_drone_cb w msg rc)) = Some b
    \<and> pf_drone_index p \<notin> rc_failed_indices rc' \<and> (is_active rc (pf_drone_index p) \<longrightarrow> is_active rc' (pf_drone_index p))"
proof -
  obtain q kind details where rc1: "fail_drone_cb w msg rc = emit kind details (rc\<lparr>rc_pending_failure := Some q\<rparr>)"
    and q: "pf_drone_index q = b"
    using assms(1-5) by (auto simp: fail_drone_cb_def Let_def)
  have views: "is_active (rc\<lparr>rc_pending_failure := Some q\<rparr>) = is_active rc" by (simp add: is_active_def fun_eq_iff)
  from process_leaves_others [OF assms(7), of q "pf_drone_index p"] assms(3,6) show ?thesis
    by (simp add: rc1 q views)
qed

text \<open>C10 (error) healing any drone, failed or not, also discards the pending failure of whichever drone it names.\<close>

theorem heal_cancels_other_failure:
  assumes "heal_drone_cb w msg rc = (Inr (), rc')" "map_of (rc_drones rc) (requested_drone msg) \<noteq> None"
  shows "rc_pending_failure rc' = None \<and> rc_failed_indices rc' = rc_failed_indices rc - {requested_drone msg}"
proof -
  obtain dir where "rc' = relayout w (drone_name (requested_drone msg) @ ''_healed'') True dir
      (heal_drone (requested_drone msg) rc)"
    using assms by (auto simp: heal_drone_cb_def recompute_run Let_def split: sum.splits)
  with relayout_keeps(1,2) [of w "drone_name (requested_drone msg) @ ''_healed''" True dir
      "heal_drone (requested_drone msg) rc"] show ?thesis
    by (simp add: heal_drone_def same_fleet_def)
qed

section \<open>Standby drones near the chain\<close>

definition near_chain :: "relay_chain \<Rightarrow> int list \<Rightarrow> int \<Rightarrow> bool" where
  "near_chain rc active i \<longleftrightarrow>
     (\<exists>j v. nearest_active rc active i = Inr (j, v) \<and> fle v (rs_standby_activation_radius_m (rc_settings rc)))"

definition position_at :: "relay_chain \<Rightarrow> int \<Rightarrow> vec3 option" where
  "position_at rc i = map_option rd_current_position (map_of (rc_drones rc) i)"

lemma get_position:
  "bindR (get_drone rc i) (\<lambda>d. f (rd_current_position d)) =
     (case position_at rc i of None \<Rightarrow> Inl (KeyError (show_int i)) | Some p \<Rightarrow> f p)"
  by (simp add: get_drone_def position_at_def split: option.split)

lemma nearest_active_positions:
  "nearest_active rc active i =
      (case position_at rc i of None \<Rightarrow> Inl (KeyError (show_int i))
       | Some p \<Rightarrow> (let to = \<lambda>j. case position_at rc j of None \<Rightarrow> Inl (KeyError (show_int j)) | Some q \<Rightarrow> distance p q
           in bindR (min_by to active) (\<lambda>j. bindR (to j) (\<lambda>metres. Inr (j, metres)))))"
  unfolding nearest_active_def get_position
  by (cases "map_of (rc_drones rc) i") (simp_all add: get_drone_def position_at_def)

lemma nearest_active_cong: "position_at a = position_at b \<Longrightarrow> nearest_active a = nearest_active b"
  unfolding fun_eq_iff nearest_active_positions by presburger

lemma near_chain_cong:
  assumes "position_at a = position_at b" "rc_settings a = rc_settings b"
  shows "near_chain a = near_chain b"
  using assms(2) unfolding near_chain_def nearest_active_cong [OF assms(1)] by presburger

lemma position_at_join [simp]: "position_at (join_chain i rc) = position_at rc"
  by (auto simp: position_at_def join_chain_def map_of_update_drone fun_eq_iff option.map_comp comp_def)

lemma join_chain_fields [simp]:
  "rc_settings (join_chain i rc) = rc_settings rc" "rc_failed_indices (join_chain i rc) = rc_failed_indices rc"
  "rc_pending_failure (join_chain i rc) = rc_pending_failure rc" "rc_sent (join_chain i rc) = rc_sent rc"
  "rc_operator_paused (join_chain i rc) = rc_operator_paused rc"
  by (simp_all add: join_chain_def)

lemma position_at_emit [simp]: "position_at (emit k d rc) = position_at rc"
  by (simp add: position_at_def fun_eq_iff)

lemma integrate_loop_result:
  assumes "integrate_loop active is changed rc = (Inr b, rc')" "distinct is" "list_all (is_standby rc) is"
  shows "(\<forall>j. is_active rc' j \<longleftrightarrow> is_active rc j \<or> (j \<in> set is \<and> near_chain rc active j))
    \<and> rc_failed_indices rc' = rc_failed_indices rc \<and> rc_pending_failure rc' = rc_pending_failure rc
    \<and> rc_sent rc' = rc_sent rc \<and> rc_operator_paused rc' = rc_operator_paused rc"
  using assms
proof (induction active "is" changed arbitrary: rc rule: integrate_loop.induct)
  case (2 active i "is" changed)
  obtain j v where n: "nearest_active rc active i = Inr (j, v)"
    using "2.prems"(1) by (cases "nearest_active rc active i") (auto simp: bindA_def)
  show ?case
  proof (cases "fle v (rs_standby_activation_radius_m (rc_settings rc))")
    case True
    obtain kind details where run: "integrate_loop active is True (emit kind details (join_chain i rc)) = (Inr b, rc')"
      using "2.prems"(1) True n by (auto simp: bindA_def seqA_def)
    have near: "near_chain (emit kind details (join_chain i rc)) = near_chain rc" by (rule near_chain_cong) simp_all
    have "list_all (is_standby (emit kind details (join_chain i rc))) is"
      using "2.prems"(2,3) by (auto simp: list_all_iff is_standby_join)
    from "2.IH"(1) [OF TrueI run _ this] "2.prems"(2,3) near n True show ?thesis
      by (auto simp: is_active_join near_chain_def)
  next
    case False
    with "2.prems"(1) n have run: "integrate_loop active is changed rc = (Inr b, rc')" by (simp add: bindA_def)
    have "\<not> near_chain rc active i" using n False by (simp add: near_chain_def)
    with "2.IH"(2) [OF _ run] "2.prems"(2,3) show ?thesis by auto
  qed
qed simp

lemma standby_near_chain:
  assumes "integrate_standby_if_possible w rc = (Inr (), rc')" "distinct (map fst (rc_drones rc))"
  shows "is_active rc' j \<longleftrightarrow>
     is_active rc j \<or> (active_chain rc \<noteq> [] \<and> is_standby rc j \<and> near_chain rc (active_chain rc) j)"
proof (cases "active_chain rc = []")
  case True
  with assms show ?thesis by (simp add: integrate_standby_if_possible_def)
next
  case False
  then obtain b rc1 where loop: "integrate_loop (active_chain rc) (standby_indices rc) False rc = (Inr b, rc1)"
    and rest: "rc' = rc1 \<or> (\<exists>dir. rc' = relayout w ''standby_auto_integration'' True dir rc1)"
    using assms(1) by (auto simp: integrate_standby_if_possible_def bindA_def recompute_run
        split: sum.splits prod.splits if_splits)
  have standby: "distinct (standby_indices rc)" "list_all (is_standby rc) (standby_indices rc)"
    using assms(2) by (simp_all add: standby_indices_def drone_indices_def list_all_iff)
  have "is_active rc' = is_active rc1"
    using rest same_fleet_views(1) [OF relayout_keeps(1)] by metis
  with integrate_loop_result [OF loop standby] False show ?thesis by auto
qed

end
