(* ===== verification/Relay_Safety.thy ===== *)
theory Relay_Safety
  imports Relay_Failure_Props
begin

text \<open>
  What the relay chain transmits: every message on an outbox or an inbox belongs to a hop that the gate
  judged feasible, between the station and members of the active chain.
\<close>

definition live_node :: "relay_chain \<Rightarrow> relay_node \<Rightarrow> bool" where
  "live_node rc n = (case n of Station \<Rightarrow> True | Relay i \<Rightarrow> is_active rc i)"

definition safe_hop :: "relay_chain \<Rightarrow> hop_event \<Rightarrow> bool" where
  "safe_hop rc e \<longleftrightarrow> he_link_ok e \<and> dget (he_metrics e) ''gate_reason'' PNone = PStr ''FEASIBLE''
     \<and> live_node rc (he_src e) \<and> live_node rc (he_dst e)
     \<and> he_active_chain e = active_chain rc \<and> he_failed_indices e = rc_failed_indices rc"

definition safe_message :: "relay_chain \<Rightarrow> terminal_event \<Rightarrow> bool" where
  "safe_message rc m =
     (case m of TX n e \<Rightarrow> n = he_src e \<and> safe_hop rc e | RX n e \<Rightarrow> n = he_dst e \<and> safe_hop rc e | Hop e \<Rightarrow> True)"

definition sends_safely :: "relay_chain \<Rightarrow> relay_chain \<Rightarrow> bool" where
  "sends_safely a b \<longleftrightarrow> same_fleet b a \<and> rc_operator_paused b = rc_operator_paused a
     \<and> rc_failed_indices b = rc_failed_indices a
     \<and> (\<exists>new. rc_sent b = rc_sent a @ new \<and> list_all (safe_message a) new)"

lemma safe_message_cong:
  assumes "same_fleet b a"
  shows "safe_message b = safe_message a"
proof -
  have "rc_failed_indices b = rc_failed_indices a" using assms by (simp add: same_fleet_def)
  then show ?thesis
    by (simp add: fun_eq_iff safe_message_def safe_hop_def live_node_def same_fleet_views(1) [OF assms]
        same_fleet_chains(1) [OF assms] split: terminal_event.split relay_node.split)
qed

lemma sends_safely_refl [simp]: "sends_safely a a"
  by (simp add: sends_safely_def)

lemma sends_safely_trans:
  assumes "sends_safely a b" "sends_safely b c"
  shows "sends_safely a c"
proof -
  from assms obtain x y where "rc_sent b = rc_sent a @ x" "list_all (safe_message a) x"
    "rc_sent c = rc_sent b @ y" "list_all (safe_message b) y" by (auto simp: sends_safely_def)
  moreover have "safe_message b = safe_message a" using assms(1) by (intro safe_message_cong) (simp add: sends_safely_def)
  ultimately have "rc_sent c = rc_sent a @ (x @ y)" "list_all (safe_message a) (x @ y)" by simp_all
  then show ?thesis using assms same_fleet_trans unfolding sends_safely_def by blast
qed

lemma sends_nothing:
  "same_fleet b a \<Longrightarrow> rc_sent b = rc_sent a \<Longrightarrow> rc_operator_paused b = rc_operator_paused a \<Longrightarrow> sends_safely a b"
  by (simp add: sends_safely_def same_fleet_def)

lemma sends_safely_emit [simp]: "sends_safely a (emit k d b) = sends_safely a b"
  by (simp add: sends_safely_def)

lemma live_cong: "same_fleet b a \<Longrightarrow> live_node b = live_node a"
  by (simp add: live_node_def fun_eq_iff same_fleet_views split: relay_node.split)

section \<open>One hop\<close>

lemma link_ok_reason:
  assumes "link_ok st m = Inr (True, m')"
  shows "dget m' ''gate_reason'' PNone = PStr ''FEASIBLE''"
proof -
  from assms obtain reason rest where m': "m' = dupdate m ((''gate_reason'', PStr reason) # rest)"
    and ok: "py_str (dget m' ''gate_reason'' (PStr ''UNKNOWN'')) = ''FEASIBLE''"
    and keys: "map_of rest ''gate_reason'' = None" "distinct (dict_keys ((''gate_reason'', PStr reason) # rest))"
    by (auto simp: link_ok_def annotate_gate_def Let_def bindR_Inr_iff)
  have "dget m' ''gate_reason'' v = PStr reason" for v
    unfolding m' using dget_dupdate [OF keys(2)] by simp
  with ok show ?thesis by simp
qed

lemma judge_hop_result:
  assumes "judge_hop w src dst rc = (r, rc')"
  obtains x where "r = Inl x" "rc' = rc"
  | e metres where "r = Inr (e, metres)" "rc' = record_hop e rc" "he_src e = src" "he_dst e = dst"
      "he_link_ok e \<longrightarrow> dget (he_metrics e) ''gate_reason'' PNone = PStr ''FEASIBLE''"
      "he_active_chain e = active_chain rc" "he_failed_indices e = rc_failed_indices rc"
proof (cases "bindR (hop_metrics w rc src dst) (link_ok (rc_settings rc))")
  case (Inl x)
  with assms have "r = Inl x" "rc' = rc" by (auto simp: judge_hop_def bindA_def)
  then show ?thesis by (rule that(1))
next
  case (Inr okm)
  then obtain m0 ok m where okm: "okm = (ok, m)" and ok: "link_ok (rc_settings rc) m0 = Inr (ok, m)"
    by (cases okm) (auto simp: bindR_Inr_iff)
  show ?thesis
  proof (cases "fget m ''distance_m'' 0")
    case (Inl x)
    with assms \<open>bindR _ _ = Inr okm\<close> okm have "r = Inl x" "rc' = rc" by (auto simp: judge_hop_def bindA_def)
    then show ?thesis by (rule that(1))
  next
    case (Inr metres)
    let ?e = "make_hop_event w src dst m ok (hop_decision (rc_settings rc) ok metres) rc"
    from assms \<open>bindR _ _ = Inr okm\<close> okm Inr have "r = Inr (?e, metres)" "rc' = record_hop ?e rc"
      by (simp_all add: judge_hop_def bindA_def seqA_def)
    then show ?thesis
      by (rule that(2)) (use link_ok_reason [of "rc_settings rc" m0 m] ok in \<open>auto simp: make_hop_event_def\<close>)
  qed
qed

lemma judged_safe:
  assumes "he_link_ok e" "he_link_ok e \<longrightarrow> dget (he_metrics e) ''gate_reason'' PNone = PStr ''FEASIBLE''"
    and "live_node b (he_src e)" "live_node b (he_dst e)"
    and "he_active_chain e = active_chain b" "he_failed_indices e = rc_failed_indices b"
  shows "safe_hop (record_hop e b) e"
proof -
  have fleet: "same_fleet (record_hop e b) b" by (simp add: record_hop_def publish_def same_fleet_def)
  with assms show ?thesis
    unfolding safe_hop_def live_cong [OF fleet] same_fleet_chains(1) [OF fleet]
    by (simp add: record_hop_def publish_def)
qed

lemma record_hop_sends [simp]: "sends_safely rc (record_hop e rc)"
  by (simp add: sends_safely_def record_hop_def publish_def safe_message_def same_fleet_def)

lemma blocked_hop_sends: "sends_safely rc (snd (blocked_hop w src dst rc))"
  by (auto simp: blocked_hop_def bindA_def seqA_def split: sum.split)

lemma append_local_state_keeps:
  "same_fleet (snd (append_local_state w n rc)) rc" "rc_sent (snd (append_local_state w n rc)) = rc_sent rc"
  "rc_operator_paused (snd (append_local_state w n rc)) = rc_operator_paused rc"
  "rc_branch_flows (snd (append_local_state w n rc)) = rc_branch_flows rc"
  by (auto simp: append_local_state_def bindA_def same_fleet_def drain_battery_def split: relay_node.split sum.split)

lemma forward_packet_sends:
  assumes "safe_hop rc e"
  shows "sends_safely rc (snd (forward_packet w e rc))"
proof -
  let ?a = "publish (TX (he_src e) e) rc"
  have a: "same_fleet ?a rc" "rc_sent ?a = rc_sent rc @ [TX (he_src e) e]" "rc_operator_paused ?a = rc_operator_paused rc"
    by (simp_all add: publish_def same_fleet_def)
  obtain r b where b: "append_local_state w (he_src e) ?a = (r, b)" by (cases "append_local_state w (he_src e) ?a")
  have keeps: "same_fleet b rc" "rc_sent b = rc_sent rc @ [TX (he_src e) e]" "rc_operator_paused b = rc_operator_paused rc"
    using append_local_state_keeps [of w "he_src e" ?a] a same_fleet_trans by (auto simp: b)
  have "sends_safely rc b"
    using keeps assms by (simp add: sends_safely_def safe_message_def same_fleet_def)
  moreover have "sends_safely rc (publish (RX (he_dst e) e) (b\<lparr>rc_current_packet := p\<rparr>))" for p
    using keeps assms by (simp add: sends_safely_def safe_message_def same_fleet_def publish_def)
  ultimately show ?thesis
    using b by (simp add: forward_packet_def seqA_def bindA_def split: sum.split)
qed


section \<open>The single chain\<close>

lemma current_branch_run:
  "current_branch rc =
     (let branches = active_branches rc; k = rc_current_branch_index rc mod length branches
      in if branches = [] then (Inr [], rc) else (Inr (branches ! k), rc\<lparr>rc_current_branch_index := k\<rparr>))"
proof -
  have "active_branches (rc\<lparr>rc_current_branch_index := k\<rparr>) = active_branches rc" for k
    by (rule same_fleet_chains) (simp add: same_fleet_def)
  then show ?thesis by (simp add: current_branch_def Let_def bindA_def seqA_def)
qed

lemma current_branch_result:
  assumes "current_branch rc = (r, rc')" "distinct (map fst (rc_drones rc))"
  shows "sends_safely rc rc'" "rc_phase rc' = rc_phase rc" "rc_cursor rc' = rc_cursor rc"
    "\<exists>branch. r = Inr branch \<and> (\<forall>i\<in>set branch. is_active rc i) \<and> (branch = [] \<longleftrightarrow> active_branches rc = [])"
proof -
  let ?b = "active_branches rc ! (rc_current_branch_index rc mod length (active_branches rc))"
  have "\<forall>i\<in>set ?b. is_active rc i" "?b \<noteq> []" if "active_branches rc \<noteq> []"
  proof -
    from that have b: "?b \<in> set (active_branches rc)" by simp
    then show "\<forall>i\<in>set ?b. is_active rc i" using active_branches_members [OF assms(2)] by blast
    show "?b \<noteq> []" using b active_branches_parts [OF assms(2)] by metis
  qed
  then show "\<exists>branch. r = Inr branch \<and> (\<forall>i\<in>set branch. is_active rc i) \<and> (branch = [] \<longleftrightarrow> active_branches rc = [])"
    using assms(1) by (auto simp: current_branch_run Let_def split: if_splits)
  show "rc_phase rc' = rc_phase rc" "rc_cursor rc' = rc_cursor rc"
    using assms(1) by (auto simp: current_branch_run Let_def split: if_splits)
  show "sends_safely rc rc'"
    using assms(1) by (intro sends_nothing) (auto simp: current_branch_run Let_def same_fleet_def split: if_splits)
qed

text \<open>The path that a turn yields: every node alive, and the cursor on it with a node to follow.\<close>

definition on_path :: "relay_chain \<Rightarrow> relay_node list \<Rightarrow> bool" where
  "on_path rc nodes \<longleftrightarrow> list_all (live_node rc) nodes \<and> Suc (rc_cursor rc) < length nodes"

lemma branch_nodes_all_live: "(\<forall>i\<in>set branch. is_active rc i) \<Longrightarrow> list_all (live_node rc) (branch_nodes branch phase)"
  by (auto simp: branch_nodes_def live_node_def list_all_iff split: relay_phase.split)

lemma chain_hop_sends:
  assumes "on_path rc nodes"
  shows "sends_safely rc (snd (chain_hop w nodes rc))"
proof -
  let ?src = "nodes ! rc_cursor rc" and ?dst = "nodes ! Suc (rc_cursor rc)"
  let ?rc = "rc\<lparr>rc_sequence := rc_sequence rc + 1\<rparr>"
  have live: "live_node rc ?src" "live_node rc ?dst" using assms by (auto simp: on_path_def list_all_length)
  have start: "sends_safely rc ?rc" by (rule sends_nothing) (simp_all add: same_fleet_def)
  have fleet: "same_fleet ?rc rc" by (simp add: same_fleet_def)
  have pause: "sends_safely a (pause_chain reason e b) = sends_safely a b" for a b reason e
    by (simp add: sends_safely_def pause_chain_def same_fleet_def)
  have step: "sends_safely a (b\<lparr>rc_cursor := k\<rparr>) = sends_safely a b" for a b k
    by (simp add: sends_safely_def same_fleet_def)
  show ?thesis
  proof (cases "node_failed ?rc ?src \<or> node_failed ?rc ?dst")
    case True
    obtain r rc1 where b: "blocked_hop w ?src ?dst ?rc = (r, rc1)" by (cases "blocked_hop w ?src ?dst ?rc")
    have "sends_safely rc rc1" using blocked_hop_sends [of ?rc w ?src ?dst] start by (auto simp: b intro: sends_safely_trans)
    with True b show ?thesis by (simp add: chain_hop_def bindA_def pause split: sum.split)
  next
    case False
    obtain r rc1 where j: "judge_hop w ?src ?dst ?rc = (r, rc1)" by (cases "judge_hop w ?src ?dst ?rc")
    then show ?thesis
    proof (cases rule: judge_hop_result)
      case (1 x)
      with False j start show ?thesis by (simp add: chain_hop_def bindA_def)
    next
      case (2 e metres)
      have rc1: "sends_safely rc rc1" using start by (simp add: 2(2) sends_safely_trans [OF start])
      have "he_link_ok e \<Longrightarrow> safe_hop rc1 e"
        using judged_safe [of e ?rc] 2 live live_cong [OF fleet] by simp
      then have "he_link_ok e \<Longrightarrow> sends_safely rc (snd (forward_packet w e rc1))"
        using rc1 forward_packet_sends sends_safely_trans by blast
      with False j 2(1) rc1 show ?thesis
        by (auto simp: chain_hop_def bindA_def seqA_def pause step split: sum.split prod.split)
    qed
  qed
qed


lemma relay_new_packet_keeps [simp]:
  "same_fleet (snd (relay_new_packet w rc)) a = same_fleet rc a" "rc_sent (snd (relay_new_packet w rc)) = rc_sent rc"
  "rc_operator_paused (snd (relay_new_packet w rc)) = rc_operator_paused rc"
  "rc_cursor (snd (relay_new_packet w rc)) = rc_cursor rc" "rc_drones (snd (relay_new_packet w rc)) = rc_drones rc"
  "rc_branch_flows (snd (relay_new_packet w rc)) = rc_branch_flows rc"
  by (simp_all add: relay_new_packet_def Let_def same_fleet_def)

lemma same_fleet_drones: "same_fleet b a \<Longrightarrow> distinct (map fst (rc_drones b)) = distinct (map fst (rc_drones a))"
  unfolding same_fleet_def using cores_keys by metis

text \<open>The state in which a turn reads the branch again.\<close>

definition reverse_start :: "relay_chain \<Rightarrow> relay_chain" where
  "reverse_start rc = rc\<lparr>rc_phase := Reverse, rc_cursor := 0\<rparr>"

definition forward_start :: "relay_world \<Rightarrow> relay_chain \<Rightarrow> relay_chain" where
  "forward_start w rc =
     (let rc0 = emit ''round_trip_completed''
                  (packet_details (rc_current_packet rc) (rc_current_branch_index rc) []) rc;
          n = length (active_branches rc0);
          rc1 = rc0\<lparr>rc_current_branch_index :=
            (if n = 0 then rc_current_branch_index rc0 else (rc_current_branch_index rc0 + 1) mod n),
            rc_phase := Forward, rc_cursor := 0\<rparr>
      in (snd (relay_new_packet w rc1))\<lparr>rc_current_packet := fst (relay_new_packet w rc1)\<rparr>)"

lemma turn_starts:
  "sends_safely rc (reverse_start rc)" "rc_cursor (reverse_start rc) = 0"
  "sends_safely rc (forward_start w rc)" "rc_cursor (forward_start w rc) = 0"
  by (auto simp: reverse_start_def forward_start_def Let_def same_fleet_def relay_new_packet_def intro!: sends_nothing)

lemma chain_turn_run:
  "chain_turn w nodes rc =
     (if rc_cursor rc < length nodes - 1 then (Inr nodes, rc)
      else case rc_phase rc of
        Forward \<Rightarrow> bindA current_branch (\<lambda>branch.
          seqA (modA (\<lambda>rc. emit ''reverse_path_started''
             (packet_details (rc_current_packet rc) (rc_current_branch_index rc) branch) rc))
            (retA (branch_nodes branch Reverse))) (reverse_start rc)
      | Reverse \<Rightarrow> chain_nodes Forward (forward_start w rc))"
  by (simp add: chain_turn_def start_reverse_def finish_round_trip_def reverse_start_def forward_start_def Let_def
      split_beta split: relay_phase.split)

lemma length_branch_nodes [simp]: "length (branch_nodes branch phase) = Suc (length branch)"
  by (simp add: branch_nodes_def split: relay_phase.split)

lemma chain_turn_result:
  assumes "chain_turn w nodes rc = (r, rc')" "distinct (map fst (rc_drones rc))" "active_branches rc \<noteq> []"
    and "list_all (live_node rc) nodes"
  shows "sends_safely rc rc' \<and> (\<exists>nodes'. r = Inr nodes' \<and> on_path rc' nodes')"
proof (cases "rc_cursor rc < length nodes - 1")
  case True
  with assms(1,4) show ?thesis by (auto simp: chain_turn_run on_path_def)
next
  case False
  have turned: "sends_safely rc rc' \<and> on_path rc' (branch_nodes branch phase)"
    if start: "sends_safely rc rc0" "rc_cursor rc0 = 0" and branch: "current_branch rc0 = (Inr branch, rc1)"
      and rc': "rc' = rc1 \<or> (\<exists>k d. rc' = emit k d rc1)" for rc0 rc1 branch phase
  proof -
    have fleet: "same_fleet rc0 rc" using start(1) by (simp add: sends_safely_def)
    have d: "distinct (map fst (rc_drones rc0))" using same_fleet_drones [OF fleet] assms(2) by simp
    note b = current_branch_result [OF branch d]
    have "sends_safely rc rc'" using sends_safely_trans [OF start(1) b(1)] rc' by auto
    moreover have "branch \<noteq> []" "\<forall>i\<in>set branch. is_active rc i"
      using b(4) assms(3) same_fleet_chains(4) [OF fleet] same_fleet_views(1) [OF fleet] by auto
    moreover have "rc_cursor rc' = 0" using b(3) start(2) rc' by auto
    ultimately show ?thesis
      using branch_nodes_all_live [of branch rc phase] live_cong [of rc' rc]
      by (simp add: on_path_def sends_safely_def Suc_leI)
  qed
  have "\<exists>branch phase rc0 rc1. sends_safely rc rc0 \<and> rc_cursor rc0 = 0 \<and> current_branch rc0 = (Inr branch, rc1)
      \<and> (rc' = rc1 \<or> (\<exists>k d. rc' = emit k d rc1)) \<and> r = Inr (branch_nodes branch phase)"
  proof (cases "rc_phase rc")
    case Forward
    obtain q rc1 where q: "current_branch (reverse_start rc) = (q, rc1)" by (cases "current_branch (reverse_start rc)")
    then obtain branch where branch: "q = Inr branch" by (auto simp: current_branch_run Let_def split: if_splits)
    have "r = Inr (branch_nodes branch Reverse) \<and> (\<exists>k d. rc' = emit k d rc1)"
      using assms(1) False Forward q branch by (auto simp: chain_turn_run bindA_def seqA_def)
    then show ?thesis using q branch turn_starts(1,2) by blast
  next
    case Reverse
    obtain q rc1 where q: "current_branch (forward_start w rc) = (q, rc1)" by (cases "current_branch (forward_start w rc)")
    then obtain branch where branch: "q = Inr branch" by (auto simp: current_branch_run Let_def split: if_splits)
    have "r = Inr (branch_nodes branch Forward) \<and> rc' = rc1"
      using assms(1) False Reverse q branch by (auto simp: chain_turn_run chain_nodes_def bindA_def)
    then show ?thesis using q branch turn_starts(3,4) by blast
  qed
  with turned show ?thesis by blast
qed

lemma tick_chain_sends:
  assumes "distinct (map fst (rc_drones rc))"
  shows "sends_safely rc (snd (tick_chain w rc))"
proof (cases "rc_connectivity_paused rc")
  case True
  then show ?thesis by (simp add: tick_chain_def)
next
  case False
  obtain q rc1 where b: "current_branch rc = (q, rc1)" by (cases "current_branch rc")
  note branch = current_branch_result [OF b assms]
  then obtain br where br: "q = Inr br" "\<forall>i\<in>set br. is_active rc i" "br = [] \<longleftrightarrow> active_branches rc = []" by blast
  let ?nodes = "branch_nodes br (rc_phase rc)"
  have run: "tick_chain w rc = (if length ?nodes < 2
      then (Inr (), emit ''no_active_relay_path'' (indices_details rc1) rc1)
      else bindA (chain_turn w ?nodes) (chain_hop w) rc1)"
    using False b br(1) by (simp add: tick_chain_def chain_nodes_def bindA_def)
  show ?thesis
  proof (cases "br = []")
    case True
    with run branch(1) show ?thesis by simp
  next
    case False
    have fleet: "same_fleet rc1 rc" using branch(1) by (simp add: sends_safely_def)
    obtain t rc2 where t: "chain_turn w ?nodes rc1 = (t, rc2)" by (cases "chain_turn w ?nodes rc1")
    have "list_all (live_node rc1) ?nodes" using branch_nodes_all_live [OF br(2)] live_cong [OF fleet] by simp
    from chain_turn_result [OF t _ _ this] obtain nodes' where "t = Inr nodes'" "on_path rc2 nodes'" "sends_safely rc1 rc2"
      using same_fleet_drones [OF fleet] same_fleet_chains(4) [OF fleet] assms False br(3) by auto
    with run False t chain_hop_sends [of rc2 nodes' w] branch(1) show ?thesis
      by (auto simp: bindA_def intro: sends_safely_trans)
  qed
qed

end
