(* ===== verification/Relay_Parallel.thy ===== *)
theory Relay_Parallel
  imports Relay_Safety
begin

text \<open>
  The parallel branches: the flows follow the branches of the active chain, a step of one flow transmits only
  over its own branch, and the timer as a whole transmits safely.
\<close>

section \<open>Flows\<close>

definition flows_live :: "relay_chain \<Rightarrow> bool" where
  "flows_live rc \<longleftrightarrow>
     (\<forall>k f. map_of (rc_branch_flows rc) k = Some f \<longrightarrow> (\<forall>i\<in>set (bf_active_branch f). is_active rc i))"

lemma flows_live_cong: "same_fleet b a \<Longrightarrow> rc_branch_flows b = rc_branch_flows a \<Longrightarrow> flows_live b = flows_live a"
  by (simp add: flows_live_def same_fleet_views(1))

lemma set_flow_fields [simp]:
  "rc_sent (set_flow k f rc) = rc_sent rc" "rc_operator_paused (set_flow k f rc) = rc_operator_paused rc"
  "same_fleet (set_flow k f rc) a = same_fleet rc a" "rc_drones (set_flow k f rc) = rc_drones rc"
  "map_of (rc_branch_flows (set_flow k f rc)) j = (if j = k then Some f else map_of (rc_branch_flows rc) j)"
  by (simp_all add: set_flow_def same_fleet_def update_conv')

lemma is_active_set_flow [simp]: "is_active (set_flow k f rc) = is_active rc"
  by (rule same_fleet_views) simp

lemma flows_live_set_flow:
  "flows_live rc \<Longrightarrow> \<forall>i\<in>set (bf_active_branch f). is_active rc i \<Longrightarrow> flows_live (set_flow k f rc)"
  by (auto simp: flows_live_def)

lemma flows_live_emit [simp]: "flows_live (emit k d rc) = flows_live rc"
  by (simp add: flows_live_def)

text \<open>What every step of the parallel loop preserves.\<close>

definition flow_steps :: "relay_chain \<Rightarrow> relay_chain \<Rightarrow> bool" where
  "flow_steps a b \<longleftrightarrow> sends_safely a b \<and> flows_live b"

lemma flow_steps_emit [simp]: "flow_steps a (emit k d b) = flow_steps a b"
  by (simp add: flow_steps_def)

lemma flow_steps_set_flow:
  assumes "flow_steps a b" "\<forall>i\<in>set (bf_active_branch f). is_active a i"
  shows "flow_steps a (set_flow k f b)"
proof -
  have "is_active b = is_active a" using assms(1) same_fleet_views(1) by (auto simp: flow_steps_def sends_safely_def)
  moreover have "sends_safely a (set_flow k f b)" using assms(1) by (simp add: flow_steps_def sends_safely_def set_flow_def same_fleet_def)
  ultimately show ?thesis using assms flows_live_set_flow by (simp add: flow_steps_def)
qed

lemma flow_steps_same:
  assumes "flow_steps a b" "sends_safely b c" "rc_branch_flows c = rc_branch_flows b"
  shows "flow_steps a c"
proof -
  have "same_fleet c b" using assms(2) by (simp add: sends_safely_def)
  from flows_live_cong [OF this assms(3)] assms(1) sends_safely_trans [OF _ assms(2)] show ?thesis
    by (simp add: flow_steps_def)
qed

section \<open>Synchronization with the branches\<close>

lemma map_of_filter_keys: "map_of (filter (\<lambda>(k, _). P k) m) k = (if P k then map_of m k else None)"
  by (induction m) auto

lemma sync_flow_keeps:
  "same_fleet (sync_flow w kb rc) rc" "rc_sent (sync_flow w kb rc) = rc_sent rc"
  "rc_operator_paused (sync_flow w kb rc) = rc_operator_paused rc"
  "map_option bf_active_branch (map_of (rc_branch_flows (sync_flow w kb rc)) j) =
     (if j = fst kb then Some (snd kb) else map_option bf_active_branch (map_of (rc_branch_flows rc) j))"
  by (cases kb; simp add: sync_flow_def fresh_flow_def split_beta)+

lemma sync_fold_keeps:
  "same_fleet (fold (sync_flow w) kbs rc) rc \<and> rc_sent (fold (sync_flow w) kbs rc) = rc_sent rc
   \<and> rc_operator_paused (fold (sync_flow w) kbs rc) = rc_operator_paused rc"
  by (induction kbs arbitrary: rc) (auto simp: sync_flow_keeps intro: same_fleet_trans sync_flow_keeps(1))

lemma sync_fold_branches:
  "map_option bf_active_branch (map_of (rc_branch_flows (fold (sync_flow w) kbs rc)) j) =
     (if j \<in> fst ` set kbs then map_of (rev kbs) j else map_option bf_active_branch (map_of (rc_branch_flows rc) j))"
proof (induction kbs arbitrary: rc)
  case (Cons kb kbs)
  have "map_of (rev kbs) j = None \<longleftrightarrow> j \<notin> fst ` set kbs" by (simp add: map_of_eq_None_iff)
  then show ?case
    unfolding fold_Cons comp_def Cons.IH sync_flow_keeps(4)
    by (cases kb; cases "map_of (rev kbs) j") (auto simp: map_add_def)
qed simp

lemma sync_branches_lookup:
  "map_option bf_active_branch (map_of (rc_branch_flows (sync_branch_flow_state w rc)) k) =
     (if k < length (active_branches rc) then Some (active_branches rc ! k) else None)"
proof -
  have keys: "k \<in> fst ` set (enumerate 0 (active_branches rc)) \<longleftrightarrow> k < length (active_branches rc)"
    by (simp flip: set_map add: map_fst_enumerate atLeast0LessThan)
  have "map_of (rev (enumerate 0 (active_branches rc))) k = Some (active_branches rc ! k)"
    if "k < length (active_branches rc)"
    using that by (intro map_of_is_SomeI)
      (auto simp: in_set_enumerate_eq rev_map [symmetric] distinct_rev map_fst_enumerate)
  then show ?thesis
    by (simp add: sync_branch_flow_state_def Let_def sync_fold_branches keys map_of_filter_keys)
qed

lemma sync_steps:
  assumes "distinct (map fst (rc_drones rc))"
  shows "flow_steps rc (sync_branch_flow_state w rc)"
proof -
  let ?s = "sync_branch_flow_state w rc"
  let ?f = "rc\<lparr>rc_branch_flows := filter (\<lambda>(k, _). k < length (active_branches rc)) (rc_branch_flows rc)\<rparr>"
  have start: "same_fleet ?f rc" by (simp add: same_fleet_def)
  have fleet: "same_fleet ?s rc" "rc_sent ?s = rc_sent rc" "rc_operator_paused ?s = rc_operator_paused rc"
    using sync_fold_keeps [of w "enumerate 0 (active_branches rc)" ?f] same_fleet_trans [OF _ start]
    by (simp_all add: sync_branch_flow_state_def Let_def)
  have "flows_live ?s"
    unfolding flows_live_def
  proof (intro allI impI ballI)
    fix k f i
    assume f: "map_of (rc_branch_flows ?s) k = Some f" and i: "i \<in> set (bf_active_branch f)"
    from f sync_branches_lookup [of w rc k] have "bf_active_branch f \<in> set (active_branches rc)"
      by (auto split: if_splits)
    with i active_branches_members [OF assms] show "is_active ?s i" by (simp add: same_fleet_views(1) [OF fleet(1)])
  qed
  with fleet sends_nothing show ?thesis by (simp add: flow_steps_def)
qed

section \<open>One flow\<close>

lemma flow_turn_result:
  assumes "flow_turn w k f rc = (f1, rc1)" "flow_steps a rc" "\<forall>i\<in>set (bf_active_branch f). is_active a i"
    and "bf_active_branch f \<noteq> []"
  shows "flow_steps a rc1" "bf_active_branch f1 = bf_active_branch f"
    "Suc (bf_cursor f1) < length (branch_nodes (bf_active_branch f) (bf_phase f1))"
proof -
  have new: "flow_steps a (snd (relay_new_packet w b))" if "flow_steps a b" for b
    using that by (rule flow_steps_same) (simp_all add: sends_nothing)
  show "flow_steps a rc1" "bf_active_branch f1 = bf_active_branch f"
    "Suc (bf_cursor f1) < length (branch_nodes (bf_active_branch f) (bf_phase f1))"
    using assms new [of "emit kd dt rc" for kd dt]
    by (auto simp: flow_turn_def flow_reverse_def flow_complete_def Let_def split_beta
        intro!: flow_steps_set_flow split: if_splits relay_phase.splits)
qed

lemma enter_flow_steps:
  assumes "flow_steps a b" "\<forall>i\<in>set (bf_active_branch f). is_active a i"
  shows "flow_steps a (enter_flow k f b)"
  unfolding enter_flow_def Let_def
  by (rule flow_steps_set_flow, rule flow_steps_same [OF assms(1)])
    (use assms(2) in \<open>simp_all add: sends_nothing same_fleet_def\<close>)

lemma record_hop_flows [simp]: "rc_branch_flows (record_hop e rc) = rc_branch_flows rc"
  by (simp add: record_hop_def publish_def)

lemma blocked_hop_flows [simp]: "rc_branch_flows (snd (blocked_hop w src dst rc)) = rc_branch_flows rc"
  by (auto simp: blocked_hop_def bindA_def seqA_def split: sum.split)

lemma forward_packet_flows [simp]: "rc_branch_flows (snd (forward_packet w e rc)) = rc_branch_flows rc"
proof -
  let ?a = "publish (TX (he_src e) e) rc"
  obtain r b where b: "append_local_state w (he_src e) ?a = (r, b)" by (cases "append_local_state w (he_src e) ?a")
  have "rc_branch_flows b = rc_branch_flows ?a"
    using append_local_state_keeps(4) [of w "he_src e" ?a] unfolding b by simp
  then have "rc_branch_flows b = rc_branch_flows rc" by (simp add: publish_def)
  with b show ?thesis by (simp add: forward_packet_def seqA_def bindA_def publish_def split: sum.split)
qed

lemma flow_hop_steps:
  assumes "flow_steps a b" "\<forall>i\<in>set (bf_active_branch f). is_active a i"
    and "Suc (bf_cursor f) < length (branch_nodes (bf_active_branch f) (bf_phase f))"
  shows "flow_steps a (snd (flow_hop w k f b))"
proof -
  let ?nodes = "branch_nodes (bf_active_branch f) (bf_phase f)"
  let ?src = "?nodes ! bf_cursor f" and ?dst = "?nodes ! Suc (bf_cursor f)"
  have fleet: "same_fleet b a" using assms(1) by (simp add: flow_steps_def sends_safely_def)
  have "list_all (live_node a) ?nodes" using branch_nodes_all_live [OF assms(2)] .
  then have live: "live_node b ?src" "live_node b ?dst"
    using assms(3) live_cong [OF fleet] by (auto simp: list_all_length)
  have set: "flow_steps a (set_flow k (pause_flow reason e f) c)" if "flow_steps a c" for c reason e
    using that assms(2) by (intro flow_steps_set_flow) (auto simp: pause_flow_def)
  have advance: "flow_steps a (set_flow k (f\<lparr>bf_last_hop := x, bf_packet := p, bf_cursor := n\<rparr>) c)"
    if "flow_steps a c" for c x p n
    using that assms(2) by (intro flow_steps_set_flow) auto
  show ?thesis
  proof (cases "node_failed b ?src \<or> node_failed b ?dst")
    case True
    obtain r c where c: "blocked_hop w ?src ?dst b = (r, c)" by (cases "blocked_hop w ?src ?dst b")
    have "flow_steps a c"
      using flow_steps_same [OF assms(1) blocked_hop_sends [of b w ?src ?dst] blocked_hop_flows] by (simp add: c)
    with True c set show ?thesis by (simp add: flow_hop_def Let_def bindA_def seqA_def split: sum.split)
  next
    case False
    obtain r c where j: "judge_hop w ?src ?dst b = (r, c)" by (cases "judge_hop w ?src ?dst b")
    then show ?thesis
    proof (cases rule: judge_hop_result)
      case (1 x)
      with False j assms(1) show ?thesis by (simp add: flow_hop_def Let_def bindA_def)
    next
      case (2 e metres)
      have c: "flow_steps a c" by (rule flow_steps_same [OF assms(1)]) (simp_all add: 2(2))
      have "he_link_ok e \<Longrightarrow> safe_hop c e" using judged_safe [of e b] 2 live by simp
      then have sent: "he_link_ok e \<Longrightarrow> flow_steps a (snd (forward_packet w e c))"
        using flow_steps_same [OF c forward_packet_sends forward_packet_flows] by blast
      show ?thesis
      proof (cases "he_link_ok e")
        case True
        obtain q t where "forward_packet w e c = (q, t)" by (cases "forward_packet w e c")
        with False j 2(1) True sent [OF True] advance show ?thesis
          by (simp add: flow_hop_def Let_def bindA_def seqA_def split: sum.split)
      next
        case bad: False
        with False j 2(1) c set show ?thesis by (simp add: flow_hop_def Let_def bindA_def seqA_def)
      qed
    qed
  qed
qed

lemma flow_step_steps:
  assumes "flow_steps a b"
  shows "flow_steps a (snd (flow_step w k b))"
proof (cases "map_of (rc_branch_flows b) k")
  case None
  with assms show ?thesis by (simp add: flow_step_def)
next
  case (Some f)
  have "is_active b = is_active a" using assms same_fleet_views(1) by (auto simp: flow_steps_def sends_safely_def)
  then have live: "\<forall>i\<in>set (bf_active_branch f). is_active a i"
    using assms Some by (auto simp: flow_steps_def flows_live_def)
  show ?thesis
  proof (cases "bf_active_branch f = [] \<or> bf_paused f")
    case True
    with Some assms show ?thesis by (auto simp: flow_step_def)
  next
    case False
    obtain f1 c where t: "flow_turn w k f b = (f1, c)" by (cases "flow_turn w k f b")
    note turn = flow_turn_result [OF t assms live]
    let ?f = "f1\<lparr>bf_packet := (bf_packet f1)\<lparr>rp_branch_id := k\<rparr>\<rparr>"
    have "flow_steps a (enter_flow k f1 c)"
      using False turn live by (intro enter_flow_steps) auto
    from flow_hop_steps [OF this, of ?f w k] have "flow_steps a (snd (flow_hop w k ?f (enter_flow k f1 c)))"
      using False turn live by auto
    with Some False t show ?thesis by (simp add: flow_step_def)
  qed
qed

lemma flows_loop_steps: "flow_steps a b \<Longrightarrow> flow_steps a (snd (flows_loop w ks blocked b))"
proof (induction w ks blocked arbitrary: b rule: flows_loop.induct)
  case (2 w k ks blocked)
  from flow_step_steps [OF "2.prems", of w k] "2.IH" show ?case
    by (auto simp: bindA_def split: sum.split prod.split)
qed simp

lemma tick_parallel_sends:
  assumes "distinct (map fst (rc_drones rc))"
  shows "sends_safely rc (snd (tick_parallel w rc))"
proof -
  have sync: "flow_steps rc (sync_branch_flow_state w rc)" by (rule sync_steps [OF assms])
  note loop = flows_loop_steps [OF this, of w "flow_keys (sync_branch_flow_state w rc)" False]
  have summary: "sends_safely rc (summarise_flows blocked c) = sends_safely rc c" for blocked c
    by (simp add: summarise_flows_def Let_def sends_safely_def same_fleet_def)
  show ?thesis
    using sync loop by (auto simp: tick_parallel_def bindA_def seqA_def summary flow_steps_def split: sum.split prod.split)
qed

end
