(* ===== verification/Relay_Invariant.thy ===== *)
theory Relay_Invariant
  imports Relay_Parallel
begin

text \<open>
  The invariant of the relay chain: the inventory, the failure flags and the counts agree, the settings are
  in their ranges, and everything that was ever transmitted had passed the gate. Every operation preserves it,
  also when it ends with an exception.
\<close>

section \<open>The invariant\<close>

definition table_ok :: "int \<Rightarrow> int set \<Rightarrow> drone_table \<Rightarrow> bool" where
  "table_ok n failed drones \<longleftrightarrow> distinct (map fst drones) \<and> set (map fst drones) \<subseteq> {1..n}
     \<and> failed \<subseteq> set (map fst drones)
     \<and> (\<forall>i d. map_of drones i = Some d \<longrightarrow> (rd_failed d \<longleftrightarrow> i \<in> failed))"

definition settings_ok :: "relay_settings \<Rightarrow> bool" where
  "settings_ok st \<longleftrightarrow> \<not> flt (rs_hard_outage_range_m st) (rs_max_single_hop_range_m st)
     \<and> rs_branch_count st \<ge> 1 \<and> rs_transmission_mode st \<in> set known_modes"

definition counts_ok :: "relay_chain \<Rightarrow> bool" where
  "counts_ok rc \<longleftrightarrow> 0 \<le> rc_relay_count rc \<and> rc_relay_count rc \<le> rc_drone_count rc \<and> 1 \<le> rc_drone_count rc"

text \<open>A message of the past: its hop was feasible, between members of the chain of that moment.\<close>

definition clean_end :: "hop_event \<Rightarrow> relay_node \<Rightarrow> bool" where
  "clean_end e n =
     (case n of Station \<Rightarrow> True | Relay i \<Rightarrow> i \<in> set (he_active_chain e) \<and> i \<notin> he_failed_indices e)"

definition clean_hop :: "hop_event \<Rightarrow> bool" where
  "clean_hop e \<longleftrightarrow> he_link_ok e \<and> dget (he_metrics e) ''gate_reason'' PNone = PStr ''FEASIBLE''
     \<and> clean_end e (he_src e) \<and> clean_end e (he_dst e)"

definition clean_message :: "terminal_event \<Rightarrow> bool" where
  "clean_message m =
     (case m of TX n e \<Rightarrow> n = he_src e \<and> clean_hop e | RX n e \<Rightarrow> n = he_dst e \<and> clean_hop e | Hop e \<Rightarrow> True)"

definition relay_inv :: "relay_chain \<Rightarrow> bool" where
  "relay_inv rc \<longleftrightarrow> table_ok (rc_drone_count rc) (rc_failed_indices rc) (rc_drones rc)
     \<and> counts_ok rc \<and> settings_ok (rc_settings rc) \<and> list_all clean_message (rc_sent rc)"

lemma relay_invD:
  assumes "relay_inv rc"
  shows "table_ok (rc_drone_count rc) (rc_failed_indices rc) (rc_drones rc)" "counts_ok rc"
    "settings_ok (rc_settings rc)" "list_all clean_message (rc_sent rc)" "distinct (map fst (rc_drones rc))"
  using assms by (simp_all add: relay_inv_def table_ok_def)

section \<open>Tables\<close>

lemma table_ok_cores: "cores a = cores b \<Longrightarrow> table_ok n failed a \<Longrightarrow> table_ok n failed b"
  unfolding table_ok_def using cores_keys [of a b] cores_lookup [of b a] core_eqD(3) by metis

lemma table_ok_update:
  assumes "table_ok n failed drones" "\<And>d. rd_failed (f d) = rd_failed d"
  shows "table_ok n failed (update_drone i f drones)"
  using assms by (auto simp: table_ok_def map_of_update_drone)

lemma table_ok_flag:
  assumes "table_ok n failed drones" "\<And>d. rd_failed (f d) = b" "i \<in> set (map fst drones)"
  shows "table_ok n (if b then insert i failed else failed - {i}) (update_drone i f drones)"
  using assms by (auto simp: table_ok_def map_of_update_drone split: if_splits)

lemma table_ok_map:
  assumes "distinct (map fst drones)" "set (map fst drones) \<subseteq> {1..n}" "failed \<subseteq> set (map fst drones)"
    and "\<And>i d. rd_failed (g i d) \<longleftrightarrow> i \<in> failed"
  shows "table_ok n failed (map (\<lambda>(i, d). (i, g i d)) drones)"
  using assms unfolding table_ok_def map_fst_map_entries by (auto simp: map_of_map_entries)

lemma known_index: "map_of drones i \<noteq> None \<longleftrightarrow> i \<in> set (map fst drones)"
  by (auto simp: map_of_eq_None_iff)

section \<open>Steps that keep the fleet\<close>

lemma relay_inv_same:
  assumes "same_fleet b a" "rc_sent b = rc_sent a" "relay_inv a"
  shows "relay_inv b"
  using assms table_ok_cores [of "rc_drones a" "rc_drones b"]
  by (auto simp: relay_inv_def same_fleet_def counts_ok_def)

lemma safe_message_clean: "safe_message rc m \<Longrightarrow> clean_message m"
  by (auto simp: safe_message_def clean_message_def safe_hop_def clean_hop_def live_node_def clean_end_def is_active_def
      split: terminal_event.splits relay_node.splits)

lemma relay_inv_sends:
  assumes "sends_safely a b" "relay_inv a"
  shows "relay_inv b"
proof -
  from assms(1) obtain new where new: "rc_sent b = rc_sent a @ new" "list_all (safe_message a) new"
    by (auto simp: sends_safely_def)
  let ?c = "b\<lparr>rc_sent := rc_sent a\<rparr>"
  have "relay_inv ?c" by (rule relay_inv_same [OF _ _ assms(2)]) (use assms(1) in \<open>simp_all add: sends_safely_def same_fleet_def\<close>)
  moreover have "list_all clean_message new" using new(2) safe_message_clean by (auto simp: list_all_iff)
  ultimately show ?thesis using new(1) by (simp add: relay_inv_def counts_ok_def)
qed

lemma relay_inv_emit [simp]: "relay_inv (emit k d rc) = relay_inv rc"
  by (simp add: relay_inv_def counts_ok_def)

lemma relay_inv_relayout: "relay_inv rc \<Longrightarrow> relay_inv (relayout w r b dir rc)"
  by (rule relay_inv_same [OF relayout_keeps(1,3)])

lemma keeps_recompute [keeps_rules]: "keeps relay_inv (recompute_desired_positions w r b)"
  by (rule keepsI) (simp add: recompute_run relay_inv_relayout split: sum.split)

lemma only_events_inv: "only_events a b \<Longrightarrow> relay_inv a \<Longrightarrow> relay_inv b"
  by (auto simp: only_events_def relay_inv_def counts_ok_def)

section \<open>Failures\<close>

lemma mark_failed_inv:
  assumes "relay_inv rc" "map_of (rc_drones rc) i \<noteq> None"
  shows "relay_inv (mark_failed i rc)"
proof -
  have "i \<in> set (map fst (rc_drones rc))" using assms(2) by (simp only: known_index)
  from table_ok_flag [of _ _ _ "\<lambda>d. d\<lparr>rd_failed := True\<rparr>" True, OF relay_invD(1) [OF assms(1)] _ this] assms(1)
  show ?thesis by (simp add: relay_inv_def mark_failed_def counts_ok_def)
qed

lemma promote_inv:
  assumes "relay_inv rc" "is_standby rc i"
  shows "relay_inv (promote i p rc)"
proof -
  have i: "i \<notin> rc_failed_indices rc" "i \<in> set (map fst (rc_drones rc))"
    using assms(2) is_standby_known by (auto simp: is_standby_def drone_indices_def)
  let ?f = "\<lambda>d. d\<lparr>rd_role := ''relay'', rd_integrated := True, rd_failed := False, rd_desired_position := p\<rparr>"
  from table_ok_flag [of _ _ _ ?f False, OF relay_invD(1) [OF assms(1)] _ i(2)] i(1) assms(1)
  show ?thesis by (simp add: relay_inv_def promote_def counts_ok_def)
qed

lemma join_chain_inv: "relay_inv rc \<Longrightarrow> relay_inv (join_chain i rc)"
  by (auto simp: relay_inv_def join_chain_def counts_ok_def intro: table_ok_update)

lemma activate_effect:
  assumes "activate_best_standby_for_failure w i rc = (q, rc')"
  shows "only_events rc rc' \<or> (\<exists>r p rc1. is_standby rc r \<and> only_events rc rc1 \<and> only_events (promote r p rc1) rc')"
proof (cases "standby_indices rc = [] \<or> map_of (rc_drones rc) i = None")
  case True
  with assms have "only_events rc rc'"
    by (cases "standby_indices rc = []") (auto simp: activate_best_standby_for_failure_def)
  then show ?thesis ..
next
  case False
  then obtain d where d: "map_of (rc_drones rc) i = Some d" by auto
  obtain s rc1 where sel: "strategy_selection w i (standby_indices rc) [''on_failure'', ''select_standby''] rc = (s, rc1)"
    by (cases "strategy_selection w i (standby_indices rc) [''on_failure'', ''select_standby''] rc")
  from strategy_selection_result [OF sel] obtain x where x: "only_events rc rc1" "s = Inr x" by blast
  show ?thesis
  proof (cases q)
    case (Inl e)
    have "rc' = rc1"
      using assms False d sel x(2) Inl
      by (auto simp: activate_best_standby_for_failure_def bindA_def seqA_def split: sum.splits prod.splits)
    with x(1) show ?thesis by simp
  next
    case (Inr c)
    from activate_result [OF assms [unfolded Inr] d] show ?thesis
    proof cases
      case 1
      then show ?thesis by simp
    next
      case (2 r rc1)
      then show ?thesis by (intro disjI2 exI conjI)
    qed
  qed
qed

lemma keeps_activate [keeps_rules]: "keeps relay_inv (activate_best_standby_for_failure w i)"
proof (rule keepsI)
  fix rc assume inv: "relay_inv rc"
  obtain q rc' where q: "activate_best_standby_for_failure w i rc = (q, rc')"
    by (cases "activate_best_standby_for_failure w i rc")
  show "relay_inv (snd (activate_best_standby_for_failure w i rc))"
    using activate_effect [OF q]
  proof
    assume "only_events rc rc'"
    with inv show ?thesis by (simp add: q only_events_inv)
  next
    assume "\<exists>r p rc1. is_standby rc r \<and> only_events rc rc1 \<and> only_events (promote r p rc1) rc'"
    then obtain r p rc1 where r: "is_standby rc r" "only_events rc rc1" "only_events (promote r p rc1) rc'" by blast
    have "relay_inv (promote r p rc1)"
      using only_events_inv [OF r(2) inv] by (rule promote_inv) (simp add: only_events_views(2) [OF r(2)] r(1))
    with r(3) show ?thesis by (simp add: q only_events_inv)
  qed
qed

lemma keeps_process [keeps_rules]: "keeps relay_inv (process_pending_failure w)"
proof (rule keepsI)
  fix rc assume inv: "relay_inv rc"
  have drop: "relay_inv (rc\<lparr>rc_pending_failure := p\<rparr>)" if "relay_inv rc" for rc p
    using that by (simp add: relay_inv_def counts_ok_def)
  have detect: "relay_inv (snd (detect_failure w i rc))" if "map_of (rc_drones rc) i \<noteq> None" for i
  proof -
    have "keeps relay_inv (bindA (activate_best_standby_for_failure w i) (\<lambda>replacement.
        seqA (modA (\<lambda>rc. emit ''failure_detected''
                [(''drone'', PInt i), (''replacement_drone'', opt_int replacement),
                 (''detection_timeout_s'', PFloat (rs_failure_detection_s (rc_settings rc)))] rc))
           (recompute_desired_positions w (drone_name i @ ''_failure'') True)))"
      by (intro keeps_rules) simp
    from keepsD [OF this mark_failed_inv [OF inv that]] show ?thesis by (simp add: detect_failure_def)
  qed
  show "relay_inv (snd (process_pending_failure w rc))"
    using inv detect drop by (auto simp: process_pending_failure_def split: option.split)
qed

lemma keeps_integrate_loop [keeps_rules]: "keeps relay_inv (integrate_loop active is changed)"
proof (induction "is" arbitrary: changed)
  case (Cons i "is")
  show ?case
    unfolding integrate_loop.simps by (intro keeps_rules keeps_prod Cons.IH keeps_bindA [OF keeps_pure(3)]) (simp add: join_chain_inv)
qed (simp add: keeps_rules)

lemma keeps_integrate [keeps_rules]: "keeps relay_inv (integrate_standby_if_possible w)"
  unfolding integrate_standby_if_possible_def
  by (intro keeps_bindA keeps_if keeps_pure keeps_recompute keeps_integrate_loop)

lemma keeps_tick: "keeps relay_inv (tick w)"
proof -
  have "relay_inv (snd (tick_parallel w rc))" "relay_inv (snd (tick_chain w rc))" if "relay_inv rc" for rc
    using that relay_inv_sends [OF tick_parallel_sends] relay_inv_sends [OF tick_chain_sends] relay_invD(5) by blast+
  then show ?thesis
    unfolding tick_def by (intro keeps_rules) (auto split: if_splits)
qed

end
