(* ===== verification/Relay_Reach.thy ===== *)
theory Relay_Reach
  imports Relay_Invariant Algorithm_Bridge
begin

text \<open>
  The reachable states of the relay chain: it starts from a configuration and then serves its timer, poses,
  control messages, configuration updates and algorithm actions in any order, each with its own readings
  of the outside world. An exception that leaves a handler leaves its assignments.
\<close>

section \<open>Control messages\<close>

lemma relay_inv_retarget: "relay_inv rc \<Longrightarrow> cores drones = cores (rc_drones rc) \<Longrightarrow> relay_inv (rc\<lparr>rc_drones := drones\<rparr>)"
  by (rule relay_inv_same) (simp_all add: same_fleet_def)

lemma fail_drone_inv: "relay_inv rc \<Longrightarrow> relay_inv (fail_drone_cb w msg rc)"
  by (simp add: fail_drone_cb_def Let_def) (simp add: relay_inv_def counts_ok_def)

lemma heal_drone_inv: "relay_inv rc \<Longrightarrow> map_of (rc_drones rc) i = Some d \<Longrightarrow> relay_inv (heal_drone i rc)"
  using table_ok_flag [of _ _ _ "\<lambda>d. d\<lparr>rd_failed := False, rd_integrated := True, rd_role := ''relay''\<rparr>" False i]
    known_index [of "rc_drones rc" i]
  by (simp add: heal_drone_def relay_inv_def counts_ok_def)

lemma keeps_heal: "keeps relay_inv (heal_drone_cb w msg)"
proof (rule keepsI)
  fix rc assume inv: "relay_inv rc"
  show "relay_inv (snd (heal_drone_cb w msg rc))"
    using inv heal_drone_inv [OF inv] keepsD [OF keeps_recompute]
    by (auto simp: heal_drone_cb_def Let_def split: option.split)
qed

lemma park_drone_inv: "relay_inv rc \<Longrightarrow> relay_inv (park_drone i rc)"
  by (auto simp: relay_inv_def park_drone_def counts_ok_def intro: table_ok_update)

lemma keeps_standby: "keeps relay_inv (standby_drone_cb w msg)"
  unfolding standby_drone_cb_def Let_def
  by (intro keeps_bindA keeps_if keeps_pure keeps_recompute keeps_seqA keeps_modA) (simp_all add: park_drone_inv)

lemma reset_drones_inv:
  assumes "relay_inv rc"
  shows "relay_inv (reset_drones rc)"
proof -
  have "table_ok (rc_drone_count rc) {} (rc_drones (reset_drones rc))"
    unfolding reset_drones_def using relay_invD(1) [OF assms]
    by simp (intro table_ok_map; simp add: table_ok_def)
  with assms show ?thesis by (simp add: relay_inv_def reset_drones_def counts_ok_def)
qed

lemma keeps_reset: "keeps relay_inv (reset_chain_cb w)"
  unfolding reset_chain_cb_def by (intro keeps_seqA keeps_modA keeps_recompute reset_drones_inv)

lemma aim_drones_inv: "relay_inv rc \<Longrightarrow> relay_inv (aim_drones target rc)"
  unfolding aim_drones_def by (rule relay_inv_retarget) (auto intro: cores_map_entries)

lemma set_mode_inv [simp]: "relay_inv (set_mode held mode rc) = relay_inv rc"
  by (simp add: set_mode_def relay_inv_def counts_ok_def)

lemma mission_command_inv: "relay_inv rc \<Longrightarrow> relay_inv (mission_command_cb msg rc)"
proof -
  assume inv: "relay_inv rc"
  then have "relay_inv (rc\<lparr>rc_last_mission_command := c, rc_last_mission_command_id := d\<rparr>)" for c d
    by (simp add: relay_inv_def counts_ok_def)
  then show ?thesis
    using inv by (simp add: mission_command_cb_def Let_def run_command_def aim_drones_inv split: prod.split)
qed

lemma set_pattern_inv: "relay_inv rc \<Longrightarrow> relay_inv (set_pattern_cb msg rc)"
  by (simp add: set_pattern_cb_def Let_def) (simp add: relay_inv_def counts_ok_def settings_ok_def)

lemma pose_inv: "relay_inv rc \<Longrightarrow> relay_inv (pose_cb w i p rc)"
  by (auto simp: relay_inv_def pose_cb_def counts_ok_def intro: table_ok_update)

lemma apply_plan_cores: "apply_plan active failed plan drones applied = (drones', applied', e) \<Longrightarrow> cores drones' = cores drones"
  by (induction active failed plan drones applied rule: apply_plan.induct)
    (auto split: option.splits if_splits sum.splits)

lemma algorithm_action_inv:
  assumes "relay_inv rc"
  shows "relay_inv (algorithm_action_cb msg rc)"
proof -
  have finish: "relay_inv (finish_action msg applied rc)" if "relay_inv rc" for applied rc
    using that by (simp add: finish_action_def Let_def) (simp add: relay_inv_def counts_ok_def)
  show ?thesis
    using assms relay_inv_retarget [OF assms apply_plan_cores]
    by (auto simp: algorithm_action_cb_def callback_failed_def finish split: pyval.split prod.split option.split)
qed

section \<open>The inventory\<close>

lemma table_ok_append:
  assumes "table_ok n failed drones" "1 \<le> i" "i \<le> n" "map_of drones i = None" "\<not> rd_failed d"
  shows "table_ok n failed (drones @ [(i, d)])"
proof -
  have i: "i \<notin> set (map fst drones)"
    using known_index [of drones i] assms(4) by blast
  have lookup: "map_of (drones @ [(i, d)]) j = (if j = i then Some d else map_of drones j)" for j
    using assms(4) by (simp add: map_add_def split: option.split)
  from assms(1) have t: "distinct (map fst drones)" "set (map fst drones) \<subseteq> {1..n}" "failed \<subseteq> set (map fst drones)"
    "\<And>j e. map_of drones j = Some e \<Longrightarrow> rd_failed e \<longleftrightarrow> j \<in> failed"
    unfolding table_ok_def by blast+
  have keys: "map fst (drones @ [(i, d)]) = map fst drones @ [i]" by simp
  show ?thesis
    unfolding table_ok_def keys
  proof (intro conjI allI impI)
    show "distinct (map fst drones @ [i])" using t(1) i by simp
    show "set (map fst drones @ [i]) \<subseteq> {1..n}" using t(2) assms(2,3) by simp
    show "failed \<subseteq> set (map fst drones @ [i])" using t(3) by auto
    show "rd_failed e \<longleftrightarrow> j \<in> failed" if "map_of (drones @ [(i, d)]) j = Some e" for j e
      using that t(3) t(4) [of j e] i assms(5) unfolding lookup by (auto split: if_splits)
  qed
qed

lemma ensure_drone_run:
  "ensure_drone w i item rc =
     (if map_of (rc_drones rc) i \<noteq> None then (Inr (), rc)
      else case bindR (default_position_for_index w rc i) (\<lambda>dflt. read_position (dget item ''position''
             (case dflt of (x, y, z) \<Rightarrow> PList [PFloat x, PFloat y, PFloat z]))) of
             Inl e \<Rightarrow> (Inl e, rc)
           | Inr p \<Rightarrow> (Inr (), rc\<lparr>rc_drones := rc_drones rc @ [(i, new_drone (rc_settings rc) i item p)]\<rparr>))"
  by (auto simp: ensure_drone_def bindA_def split: option.split sum.split)

lemma ensure_drone_inv:
  assumes "relay_inv rc" "1 \<le> i" "i \<le> rc_drone_count rc"
  shows "relay_inv (snd (ensure_drone w i item rc))"
  using assms table_ok_append [OF relay_invD(1) [OF assms(1)] assms(2,3)]
  by (auto simp: ensure_drone_run relay_inv_def counts_ok_def new_drone_def Let_def split: sum.split)

lemma ensure_drone_keeps:
  "rc_drone_count (snd (ensure_drone w i item rc)) = rc_drone_count rc"
  "rc_failed_indices (snd (ensure_drone w i item rc)) = rc_failed_indices rc"
  "map_of (rc_drones rc) j \<noteq> None \<Longrightarrow> map_of (rc_drones (snd (ensure_drone w i item rc))) j = map_of (rc_drones rc) j"
  by (auto simp: ensure_drone_run map_add_def split: sum.split option.split)

lemma ensure_drone_ensures:
  "ensure_drone w i item rc = (Inr (), rc') \<Longrightarrow> map_of (rc_drones rc') i \<noteq> None"
  by (auto simp: ensure_drone_run map_add_def split: sum.splits if_splits option.splits)

lemma spec_drone_failed [simp]: "rd_failed (spec_drone spec failed d) = failed"
  by (simp add: spec_drone_def Let_def)

lemma sync_drone_run:
  "sync_drone w relay_limit specs i =
     seqA (ensure_drone w i (given_spec specs relay_limit i)) (modA (assign_spec (given_spec specs relay_limit i) i))"
  by (simp add: sync_drone_def Let_def)

lemma assign_spec_inv:
  assumes "relay_inv rc" "map_of (rc_drones rc) i \<noteq> None"
  shows "relay_inv (assign_spec spec i rc)"
proof -
  have "i \<in> set (map fst (rc_drones rc))" using assms(2) by (simp only: known_index)
  from table_ok_flag [OF relay_invD(1) [OF assms(1)] spec_drone_failed this] assms(1)
  show ?thesis by (simp add: assign_spec_def relay_inv_def counts_ok_def Let_def)
qed

lemma assign_spec_keeps [simp]:
  "rc_drone_count (assign_spec spec i rc) = rc_drone_count rc"
  "map fst (rc_drones (assign_spec spec i rc)) = map fst (rc_drones rc)"
  by (simp_all add: assign_spec_def Let_def)

text \<open>The rounds of the loop run with the new number of drones.\<close>

definition inv_of_size :: "int \<Rightarrow> relay_chain \<Rightarrow> bool" where
  "inv_of_size n rc \<longleftrightarrow> relay_inv rc \<and> rc_drone_count rc = n"

lemma keeps_sync_drone:
  assumes "1 \<le> i" "i \<le> n"
  shows "keeps (inv_of_size n) (sync_drone w relay_limit specs i)"
proof (rule keepsI)
  fix rc assume inv: "inv_of_size n rc"
  let ?spec = "given_spec specs relay_limit i"
  obtain r rc1 where e: "ensure_drone w i ?spec rc = (r, rc1)" by (cases "ensure_drone w i ?spec rc")
  have inv1: "relay_inv rc1" "rc_drone_count rc1 = n"
    using ensure_drone_inv [of rc i w ?spec] ensure_drone_keeps(1) [of w i ?spec rc] inv assms by (auto simp: e inv_of_size_def)
  show "inv_of_size n (snd (sync_drone w relay_limit specs i rc))"
  proof (cases r)
    case (Inl x)
    with e inv1 show ?thesis by (simp add: sync_drone_run seqA_def bindA_def inv_of_size_def)
  next
    case (Inr u)
    with e have "map_of (rc_drones rc1) i \<noteq> None" using ensure_drone_ensures by simp
    with e Inr inv1 assign_spec_inv show ?thesis by (simp add: sync_drone_run seqA_def bindA_def inv_of_size_def)
  qed
qed

lemma drop_drones_inv:
  assumes "relay_inv rc" "1 \<le> n" "1 \<le> relay_limit" "relay_limit \<le> n"
  shows "inv_of_size n (set_counts n relay_limit (drop_drones n rc))"
proof -
  have lookup: "map_of (filter (\<lambda>(i, _). i \<le> n) m) i = (if i \<le> n then map_of m i else None)" for m :: drone_table and i
    by (induction m) auto
  have keys: "map fst (filter (\<lambda>(i, _). i \<le> n) m) = filter (\<lambda>i. i \<le> n) (map fst m)" for m :: drone_table
    by (induction m) auto
  from assms show ?thesis
    by (auto simp: inv_of_size_def relay_inv_def table_ok_def set_counts_def drop_drones_def counts_ok_def lookup keys
        drone_indices_def)
qed

abbreviation sync_loop :: "relay_world \<Rightarrow> int \<Rightarrow> int \<Rightarrow> pyval list \<Rightarrow> (relay_chain, unit) act" where
  "sync_loop w n relay_limit specs \<equiv> forA (sync_drone w relay_limit (specs_by_index n specs)) (int_range 1 (n + 1))"

lemma sync_inventory_run:
  "sync_drone_inventory w requested relays specs rc =
     (let n = max 1 requested; relay_limit = max 1 (min n relays); removed = filter (\<lambda>i. n < i) (drone_indices rc)
      in case sync_loop w n relay_limit specs (set_counts n relay_limit (drop_drones n rc)) of
           (Inl e, rc1) \<Rightarrow> (Inl e, rc1)
         | (Inr _, rc1) \<Rightarrow> (Inr removed, announce_removed n relay_limit removed rc1))"
  by (simp add: sync_drone_inventory_def Let_def seqA_def bindA_def split: prod.split sum.split)

lemma announce_removed_fields [simp]:
  "relay_inv (announce_removed n l r rc) = relay_inv rc" "rc_drones (announce_removed n l r rc) = rc_drones rc"
  "rc_drone_count (announce_removed n l r rc) = rc_drone_count rc"
  "rc_failed_indices (announce_removed n l r rc) = rc_failed_indices rc"
  "rc_settings (announce_removed n l r rc) = rc_settings rc"
  by (simp_all add: announce_removed_def Let_def) (simp_all add: relay_inv_def counts_ok_def)

lemma keeps_sync_loop: "keeps (inv_of_size n) (sync_loop w n relay_limit specs)"
  by (intro keeps_forA keeps_sync_drone) auto

lemma sync_inventory_inv:
  assumes "relay_inv rc"
  shows "relay_inv (snd (sync_drone_inventory w requested relays specs rc))"
proof -
  let ?n = "max 1 requested" and ?limit = "max 1 (min (max 1 requested) relays)"
  obtain r rc1 where run: "sync_loop w ?n ?limit specs (set_counts ?n ?limit (drop_drones ?n rc)) = (r, rc1)"
    by (cases "sync_loop w ?n ?limit specs (set_counts ?n ?limit (drop_drones ?n rc))")
  have "relay_inv rc1"
    using keepsD [OF keeps_sync_loop drop_drones_inv [OF assms], of ?n ?limit w ?limit specs] by (simp add: run inv_of_size_def)
  then show ?thesis by (simp add: sync_inventory_run Let_def run split: sum.split)
qed

text \<open>After a synchronization that succeeds the inventory is exactly \<open>1..n\<close>.\<close>

lemma sync_inventory_complete:
  assumes "relay_inv rc" "sync_drone_inventory w requested relays specs rc = (Inr removed, rc')"
  shows "set (map fst (rc_drones rc')) = {1..max 1 requested}" "rc_drone_count rc' = max 1 requested"
proof -
  let ?n = "max 1 requested" and ?limit = "max 1 (min (max 1 requested) relays)"
  let ?f = "sync_drone w ?limit (specs_by_index ?n specs)" and ?start = "set_counts ?n ?limit (drop_drones ?n rc)"
  obtain rc1 where loop: "forA ?f (int_range 1 (?n + 1)) ?start = (Inr (), rc1)"
    and rc': "rc_drones rc' = rc_drones rc1" "rc_drone_count rc' = rc_drone_count rc1"
    using assms(2) by (auto simp: sync_inventory_run Let_def split: prod.splits sum.splits)
  have inv1: "inv_of_size ?n rc1"
    using keepsD [OF keeps_sync_loop drop_drones_inv [OF assms(1)], of ?n ?limit w ?limit specs] by (simp add: loop)
  show "rc_drone_count rc' = ?n" using inv1 by (simp add: rc' inv_of_size_def)
  have known: "i \<in> set (map fst (rc_drones rc1))" if "i \<in> set (int_range 1 (?n + 1))" for i
  proof (rule forA_establishes [OF loop _ _ that])
    show "x \<in> set (map fst (rc_drones t))" if "?f x s = (Inr (), t)" for x s t
      using that ensure_drone_ensures known_index
      by (fastforce simp: sync_drone_run seqA_def bindA_def simp del: set_map split: prod.splits sum.splits)
    show "y \<in> set (map fst (rc_drones t))" if "y \<in> set (map fst (rc_drones s))" "?f x s = (Inr (), t)" for x y s t
    proof -
      from that(2) obtain u where u: "ensure_drone w x (given_spec (specs_by_index ?n specs) ?limit x) s = (Inr (), u)"
        "t = assign_spec (given_spec (specs_by_index ?n specs) ?limit x) x u"
        by (auto simp: sync_drone_run seqA_def bindA_def split: prod.splits sum.splits)
      have "map_of (rc_drones u) y \<noteq> None"
        using ensure_drone_keeps(3) [of s y w x "given_spec (specs_by_index ?n specs) ?limit x"] that(1) known_index [of "rc_drones s" y]
        by (simp add: u(1))
      then show ?thesis unfolding u(2) assign_spec_keeps known_index .
    qed
  qed
  have "set (map fst (rc_drones rc1)) \<subseteq> {1..?n}"
    using inv1 relay_invD(1) [of rc1] unfolding inv_of_size_def table_ok_def by (metis (no_types))
  moreover have "{1..?n} \<subseteq> set (map fst (rc_drones rc1))" using known by auto
  ultimately show "set (map fst (rc_drones rc')) = {1..?n}" by (simp add: rc')
qed

section \<open>Configuration updates\<close>

lemma float_hard_range: "\<not> flt (if flt h s then s else h) s"
  by (simp add: flt_irrefl)

lemma update_ranges_ok: "settings_ok st \<Longrightarrow> settings_ok (update_ranges payload st)"
  by (auto simp: settings_ok_def update_ranges_def Let_def float_hard_range)

lemma update_settings_ok:
  "settings_ok (update_geometry payload st) = settings_ok st" "settings_ok (update_movement payload st) = settings_ok st"
  "settings_ok (update_radio payload st) = settings_ok st" "settings_ok (update_station payload st) = settings_ok st"
  by (simp_all add: settings_ok_def update_geometry_def update_movement_def update_radio_def update_station_def
      split: pyval.split)

lemma on_settings_inv: "relay_inv rc \<Longrightarrow> settings_ok (f (rc_settings rc)) \<Longrightarrow> relay_inv (on_settings f rc)"
  by (simp add: on_settings_def relay_inv_def counts_ok_def)

lemma update_pattern_inv: "relay_inv rc \<Longrightarrow> relay_inv (update_pattern payload rc)"
  by (auto simp: update_pattern_def Let_def relay_inv_def counts_ok_def settings_ok_def split: option.split)

lemma update_topology_inv: "relay_inv rc \<Longrightarrow> relay_inv (update_topology payload rc)"
  by (simp add: update_topology_def Let_def relay_inv_def counts_ok_def settings_ok_def)

lemma update_failed_inv:
  assumes "relay_inv rc" "set (map fst (rc_drones rc)) = {1..rc_drone_count rc}"
  shows "relay_inv (update_failed payload rc)"
proof (cases "map_of payload ''failed_indices''")
  case None
  with assms(1) show ?thesis by (simp add: update_failed_def)
next
  case (Some v)
  let ?failed = "{i \<in> set (row_indices v). 1 \<le> i \<and> i \<le> rc_drone_count rc}"
  have "table_ok (rc_drone_count rc) ?failed (map (\<lambda>(i, d). (i, d\<lparr>rd_failed := (i \<in> ?failed),
      rd_integrated := (rd_role d \<noteq> ''standby'' \<and> i \<notin> ?failed)\<rparr>)) (rc_drones rc))"
  proof (rule table_ok_map)
    show "distinct (map fst (rc_drones rc))" by (rule relay_invD(5) [OF assms(1)])
    show "set (map fst (rc_drones rc)) \<subseteq> {1..rc_drone_count rc}" unfolding assms(2) ..
    show "?failed \<subseteq> set (map fst (rc_drones rc))" unfolding assms(2) by auto
  qed simp
  with assms(1) Some show ?thesis
    by (simp add: update_failed_def set_failed_indices_def relay_inv_def counts_ok_def)
qed

lemma keeps_payload_steps:
  "keeps relay_inv (stepsA
     [modA (on_settings (update_movement payload \<circ> update_ranges payload \<circ> update_geometry payload)),
      modA (update_pattern payload),
      modA (on_settings (update_station payload \<circ> update_radio payload)),
      recompute_desired_positions w reason True,
      modA (emit ''runtime_config_updated'' []),
      modA (\<lambda>rc. if meta = [] then rc else rc\<lparr>rc_revision_ack := Some (revision_ack w rc)\<rparr>)])"
proof -
  have ack: "relay_inv (rc\<lparr>rc_revision_ack := a\<rparr>) = relay_inv rc" for rc a
    by (simp add: relay_inv_def counts_ok_def)
  have ok: "settings_ok (rc_settings rc)" if "relay_inv rc" for rc
    using that by (rule relay_invD(3))
  show ?thesis
    unfolding stepsA_def
    by (simp, intro keeps_seqA keeps_modA keeps_recompute keeps_pure on_settings_inv update_pattern_inv)
      (simp_all add: ok update_settings_ok update_ranges_ok ack)
qed

lemma keeps_apply_payload: "keeps relay_inv (apply_payload w payload)"
proof (rule keepsI)
  fix rc assume inv: "relay_inv rc"
  let ?meta = "as_dict (dget payload ''_netlab_revision'' (PDict []))"
    and ?specs = "as_list (dget payload ''drones'' PNone)"
  let ?rc0 = "rc\<lparr>rc_applied_revision := update_revision ?meta (rc_applied_revision rc)\<rparr>"
  have inv0: "relay_inv ?rc0" using inv by (simp add: relay_inv_def counts_ok_def)
  obtain total relays where counts: "requested_counts payload ?rc0 = (total, relays)"
    by (cases "requested_counts payload ?rc0")
  obtain r rc1 where sync: "sync_drone_inventory w total relays ?specs ?rc0 = (r, rc1)"
    by (cases "sync_drone_inventory w total relays ?specs ?rc0")
  have inv1: "relay_inv rc1" using sync_inventory_inv [OF inv0] sync by (metis snd_conv)
  show "relay_inv (snd (apply_payload w payload rc))"
  proof (cases r)
    case (Inl e)
    with inv1 show ?thesis by (simp add: apply_payload_def Let_def counts sync bindA_def)
  next
    case (Inr removed)
    have "relay_inv (update_topology payload (update_failed payload rc1))"
      by (intro update_topology_inv update_failed_inv inv1)
        (simp only: sync_inventory_complete [OF inv0 sync [unfolded Inr]])
    from keepsD [OF keeps_payload_steps this] show ?thesis
      by (simp add: apply_payload_def Let_def counts sync Inr bindA_def stepsA_def)
  qed
qed

lemma keeps_update_config: "keeps relay_inv (update_config_cb w msg)"
  by (auto simp: update_config_cb_def keeps_apply_payload split: option.split pyval.split intro: keeps_pure keeps_modA)

end
