(* ===== verification/Relay_Status.thy ===== *)
theory Relay_Status
  imports Relay_Update Relay_Tick
begin

text \<open>
  What the relay chain reports about itself: the status message and the heartbeat that its status timer
  publishes ten times a second. The timer also synchronizes the flows of the branches, so it changes the
  state: a branch that has changed gets a new packet even in chain mode.

  Of a status message the entries are kept that the state of this model determines; the display settings,
  the antenna and world registries and the plugin are left out.
\<close>

section \<open>Values\<close>

definition node_value :: "relay_node \<Rightarrow> pyval" where
  "node_value n = PStr (node_name n)"

definition hop_value :: "hop_event option \<Rightarrow> pydict" where
  "hop_value hop =
     (case hop of
        None \<Rightarrow> []
      | Some e \<Rightarrow>
          [(''timestamp'', PFloat (he_timestamp e)), (''sequence'', PInt (he_sequence e)),
           (''chain_version'', PInt (he_chain_version e)), (''branch_id'', PInt (int (he_branch_id e))),
           (''packet_id'', PInt (he_packet_id e)), (''phase'', PStr (phase_name (he_phase e))),
           (''direction'', PStr (phase_name (he_phase e))), (''src'', node_value (he_src e)),
           (''dst'', node_value (he_dst e)), (''active_chain'', ints_value (he_active_chain e)),
           (''active_branches'', branches_value (he_active_branches e)),
           (''standby_indices'', ints_value (he_standby_indices e)),
           (''failed_indices'', ints_value (sorted_list_of_set (he_failed_indices e))),
           (''metrics'', PDict (he_metrics e)), (''link_ok'', PBool (he_link_ok e)),
           (''link_status'', he_link_status e), (''decision'', PStr (he_decision e))])"

definition current_hop_value :: "relay_node list \<Rightarrow> nat \<Rightarrow> pyval" where
  "current_hop_value nodes cursor =
     (if cursor < length nodes - 1 then PDict (hop_details (nodes ! cursor) (nodes ! Suc cursor)) else PDict [])"

definition flow_row :: "relay_chain \<Rightarrow> branch_flow \<Rightarrow> pydict" where
  "flow_row rc f =
     (let branch = bf_active_branch f; nodes = (if branch = [] then [] else branch_nodes branch (bf_phase f))
      in [(''branch_id'', PInt (int (bf_branch_id f))),
          (''branch_label'', PStr (''B'' @ show_nat (bf_branch_id f + 1))),
          (''transmission_mode'', PStr (rs_transmission_mode (rc_settings rc))),
          (''packet_id'', PInt (rp_packet_id (bf_packet f))), (''phase'', PStr (phase_name (bf_phase f))),
          (''cursor'', PInt (int (bf_cursor f))), (''paused'', PBool (bf_paused f)),
          (''pause_reason'', PStr (bf_pause_reason f)), (''active_branch'', ints_value branch),
          (''nodes'', PList (map node_value nodes)), (''current_hop'', current_hop_value nodes (bf_cursor f)),
          (''last_hop'', PDict (hop_value (bf_last_hop f))),
          (''completed_round_trips'', PInt (bf_completed_round_trips f)),
          (''description'', PStr ''independent branch packet stream'')])"

definition flow_rows :: "relay_chain \<Rightarrow> pyval" where
  "flow_rows rc = PList (concat (map (\<lambda>k. case map_of (rc_branch_flows rc) k of
     None \<Rightarrow> [] | Some f \<Rightarrow> [PDict (flow_row rc f)]) (flow_keys rc)))"

definition flow_status :: "relay_world \<Rightarrow> relay_chain \<Rightarrow> pyval \<times> relay_chain" where
  "flow_status w rc = (let rc1 = sync_branch_flow_state w rc in (flow_rows rc1, rc1))"

section \<open>The status\<close>

definition service_state :: "relay_chain \<Rightarrow> string" where
  "service_state rc =
     (if rc_connectivity_paused rc then ''outage''
      else if rc_failed_indices rc \<noteq> {} then ''degraded''
      else if \<not> rc_coverage_feasible rc then ''coverage_warning''
      else ''nominal'')"

definition system_health :: "relay_chain \<Rightarrow> string" where
  "system_health rc =
     (if rc_connectivity_paused rc then ''outage''
      else if \<not> rc_coverage_feasible rc then ''degraded'' else ''nominal'')"

definition last_link_summary :: "relay_chain \<Rightarrow> pydict" where
  "last_link_summary rc =
     (let hop = hop_value (rc_last_hop_event rc); metrics = as_dict (dget hop ''metrics'' (PDict []));
          metric = (\<lambda>key. (key, dget metrics key PNone))
      in [(''src'', dget hop ''src'' PNone), (''dst'', dget hop ''dst'' PNone),
          (''decision'', dget hop ''decision'' PNone), (''link_ok'', dget hop ''link_ok'' PNone),
          (''status'', py_or (dget hop ''link_status'' PNone) (dget metrics ''status'' PNone)),
          (''gate_reason'', dget metrics ''gate_reason'' (dget hop ''decision'' PNone)),
          (''model_source'', dget metrics ''model_source'' (dget metrics ''model'' PNone)),
          (''fidelity_profile'', dget metrics ''fidelity_profile'' (dget metrics ''fidelity'' PNone))]
         @ map metric [''distance_m'', ''range_margin_m'', ''rx_power_dbm'', ''snr_db'', ''sinr_db'', ''snr_margin_db'',
             ''capacity_mbps'', ''capacity_margin_mbps'', ''propagation_delay_ms''])"

definition drone_summary :: "relay_world \<Rightarrow> drone_runtime \<Rightarrow> pydict" where
  "drone_summary w d =
     [(''id'', PStr (rd_drone_id d)), (''index'', PInt (rd_index d)),
      (''position'', rounded_value (rd_current_position d)),
      (''desired_position'', rounded_value (rd_desired_position d)),
      (''battery_pct'', PFloat (fround 3 (rd_battery_pct d))), (''role'', PStr (rd_role d)),
      (''failed'', PBool (rd_failed d)), (''integrated'', PBool (rd_integrated d)),
      (''antenna_gain_dbi'', PFloat (fround 3 (rd_antenna_gain_dbi d))), (''antenna_name'', PStr (rd_antenna_name d)),
      (''last_pose_age_s'', if rd_last_pose_time d = Fin 0 then PNone
         else PFloat (fround 3 (py_max (Fin 0) (fsub (rw_now w) (rd_last_pose_time d)))))]"

definition drone_summaries :: "relay_world \<Rightarrow> relay_chain \<Rightarrow> pydict" where
  "drone_summaries w rc =
     concat (map (\<lambda>i. case map_of (rc_drones rc) i of
                        None \<Rightarrow> [] | Some d \<Rightarrow> [(drone_name i, PDict (drone_summary w d))])
               (visible_drone_indices rc))"

definition pending_value :: "relay_world \<Rightarrow> pending_failure option \<Rightarrow> pyval" where
  "pending_value w pending =
     (case pending of
        None \<Rightarrow> PNone
      | Some p \<Rightarrow> PDict [(''drone'', PInt (pf_drone_index p)),
          (''detection_deadline'', PFloat (pf_detection_deadline p)),
          (''remaining_s'', PFloat (fround 3 (py_max (Fin 0) (fsub (pf_detection_deadline p) (rw_now w)))))])"

definition status_payload :: "relay_world \<Rightarrow> relay_chain \<Rightarrow> pyval \<Rightarrow> pydict" where
  "status_payload w rc rows =
     (let st = rc_settings rc; a = rc_applied_revision rc; active = active_chain rc
      in [(''timestamp'', PFloat (rw_now w)), (''chain_version'', PInt (rc_chain_version rc)),
          (''applied_revision_id'', PStr (av_revision_id a)),
          (''applied_parent_revision_id'', PStr (av_parent_revision_id a)),
          (''applied_revision_hashes'', PDict (av_hashes a)),
          (''applied_revision_command_id'', PStr (av_command_id a)),
          (''controller_state'', PStr (if rc_operator_paused rc then ''paused_by_operator'' else ''running'')),
          (''mission_mode'', PStr (rc_mission_mode rc)), (''operator_paused'', PBool (rc_operator_paused rc)),
          (''last_mission_command'', PStr (rc_last_mission_command rc)),
          (''last_mission_command_id'', PStr (rc_last_mission_command_id rc)),
          (''service_state'', PStr (service_state rc)), (''drone_count'', PInt (rc_drone_count rc)),
          (''visible_drone_indices'', ints_value (visible_drone_indices rc)),
          (''relay_count'', PInt (rc_relay_count rc)), (''standby_count'', PInt (rc_standby_count rc)),
          (''active_drone_count'', PInt (int (length active))), (''active_count'', PInt (int (length active))),
          (''removed_indices'', ints_value (rc_last_removed_indices rc)),
          (''phase'', PStr (phase_name (rc_phase rc))), (''cursor'', PInt (int (rc_cursor rc))),
          (''packet_id'', PInt (rp_packet_id (rc_current_packet rc))), (''sequence'', PInt (rc_sequence rc)),
          (''connectivity_paused'', PBool (rc_connectivity_paused rc)),
          (''connectivity_pause_reason'', PStr (rc_connectivity_pause_reason rc)),
          (''paused_hop'', PDict (hop_value (rc_paused_hop rc))),
          (''active_chain'', ints_value active), (''active_branches'', branches_value (active_branches rc)),
          (''branch_flows'', rows), (''parallel_independent_streams'', PBool (parallel_enabled rc)),
          (''manual_branches'', branches_value (rs_manual_branches st)),
          (''transmission_mode'', PStr (rs_transmission_mode st)),
          (''current_branch_index'', PInt (int (rc_current_branch_index rc))),
          (''branch_count'', PInt (rs_branch_count st)),
          (''failed_indices'', ints_value (sorted_list_of_set (rc_failed_indices rc))),
          (''standby_indices'', ints_value (standby_indices rc)),
          (''pending_failure'', pending_value w (rc_pending_failure rc)),
          (''station_position'', rounded_value (rs_station_position st)),
          (''desired_positions'', PDict (desired_positions_payload rc)),
          (''max_single_hop_range_m'', PFloat (rs_max_single_hop_range_m st)),
          (''hard_outage_range_m'', PFloat (rs_hard_outage_range_m st)),
          (''coverage_feasible'', PBool (rc_coverage_feasible rc)), (''coverage_note'', PStr (rc_coverage_note rc)),
          (''system_health'', PStr (system_health rc)), (''drones'', PDict (drone_summaries w rc)),
          (''last_link_summary'', PDict (last_link_summary rc)),
          (''last_hop'', PDict (hop_value (rc_last_hop_event rc)))])"

section \<open>The heartbeat\<close>

definition packet_advancing :: "relay_chain \<Rightarrow> bool" where
  "packet_advancing rc \<longleftrightarrow>
     (case rc_last_hop_event rc of Some e \<Rightarrow> he_link_ok e | None \<Rightarrow> False)
     \<and> \<not> rc_connectivity_paused rc \<and> \<not> rc_operator_paused rc"

definition heartbeat :: "relay_world \<Rightarrow> relay_chain \<Rightarrow> pydict" where
  "heartbeat w rc =
     (let a = rc_applied_revision rc; hop = hop_value (rc_last_hop_event rc);
          metrics = as_dict (dget hop ''metrics'' (PDict []))
      in [(''timestamp'', PFloat (rw_now w)), (''ready'', PBool True), (''state'', PStr ''RUNNING''),
          (''revision'', PStr (av_revision_id a)), (''revision_id'', PStr (av_revision_id a)),
          (''applied_config_hash'', dget (av_hashes a) ''config_hash'' (PStr [])),
          (''applied_hashes'', PDict (av_hashes a)), (''sequence'', PInt (rc_sequence rc)),
          (''packet_id'', PInt (rp_packet_id (rc_current_packet rc))),
          (''phase'', PStr (phase_name (rc_phase rc))), (''cursor'', PInt (int (rc_cursor rc))),
          (''mission_mode'', PStr (rc_mission_mode rc)), (''operator_paused'', PBool (rc_operator_paused rc)),
          (''last_mission_command'', PStr (rc_last_mission_command rc)),
          (''last_mission_command_id'', PStr (rc_last_mission_command_id rc)),
          (''packet_advancing'', PBool (packet_advancing rc)),
          (''connectivity_paused'', PBool (rc_connectivity_paused rc)),
          (''gate_reason'', dget metrics ''gate_reason''
             (PStr (if rc_connectivity_pause_reason rc = [] then ''NO_LINK_SAMPLE''
                    else rc_connectivity_pause_reason rc))),
          (''last_hop'', PDict (map (\<lambda>key. (key, dget hop key PNone)) [''src'', ''dst'', ''link_ok'', ''decision'']))])"

text \<open>The message computes \<open>branch_flows\<close> twice.\<close>

definition publish_status :: "relay_world \<Rightarrow> relay_chain \<Rightarrow> (pydict \<times> pydict) \<times> relay_chain" where
  "publish_status w rc =
     (case flow_status w rc of
        (rows, rc1) \<Rightarrow> (case flow_status w rc1 of
          (_, rc2) \<Rightarrow> ((status_payload w rc2 rows, heartbeat w rc2), rc2)))"

end
