(* ===== verification/Relay_Runs.thy ===== *)
theory Relay_Runs
  imports Relay_Reach Relay_Status
begin

text \<open>
  The runs of the relay chain: the state \<open>__init__\<close> leaves, and every sequence of callbacks after it. Each
  step has its own world, so clock, services and strategy may change from step to step. A callback that
  ends with an exception leaves its assignments; that the runs go on after it only adds runs to those of
  the node, which the exception ends.
\<close>

section \<open>The first state\<close>

lemma not_flt_py_max: "\<not> flt (py_max a b) a"
  by (cases a; cases b) (auto simp: py_max_def)

lemma initial_mode_known: "initial_mode config topology n \<in> set known_modes"
  by (simp add: initial_mode_def Let_def known_modes_def)

lemma initial_settings_ok: "settings_ok (initial_settings config radio station p)"
  by (simp add: settings_ok_def initial_settings_def Let_def not_flt_py_max initial_mode_known)

lemma initial_counts_bounds:
  assumes "initial_counts config = (n, r, s)"
  shows "1 \<le> n" "0 \<le> r" "r \<le> n"
proof -
  define n0 where "n0 = max 1 (as_int (dget config ''drone_count'' PNone) 6)"
  define h0 where "h0 = max 1 (min n0 (as_int (dget config ''relay_count'' PNone) n0))"
  define s0 where "s0 = max 0 (min (n0 - 1) (max 0 (as_int (dget config ''standby_count'' PNone) (max 0 (n0 - h0)))))"
  have eq: "initial_counts config = (if map_of config ''standby_count'' \<noteq> None \<and> map_of config ''relay_count'' = None
      then (n0, max 1 (n0 - s0), s0) else (n0, h0, max 0 (n0 - h0)))"
    unfolding initial_counts_def Let_def n0_def h0_def s0_def by (rule refl)
  have "1 \<le> n0" unfolding n0_def by (rule max.cobounded1)
  moreover from this have "1 \<le> h0" "h0 \<le> n0" unfolding h0_def by simp_all
  moreover have "0 \<le> s0" unfolding s0_def by (rule max.cobounded1)
  moreover have "1 \<le> max 1 (n0 - s0)" "max 1 (n0 - s0) \<le> n0" using calculation by simp_all
  ultimately show "1 \<le> n" "0 \<le> r" "r \<le> n" using assms unfolding eq by (auto split: if_splits)
qed

lemma blank_chain_inv: "settings_ok st \<Longrightarrow> relay_inv (blank_chain strategy config st)"
proof -
  assume st: "settings_ok st"
  obtain n r s where c: "initial_counts config = (n, r, s)" by (cases "initial_counts config")
  with st initial_counts_bounds [OF c] show ?thesis
    by (simp add: blank_chain_def relay_inv_def counts_ok_def table_ok_def)
qed

lemma table_length:
  assumes "table_ok n failed drones" "0 \<le> n"
  shows "int (length drones) \<le> n"
proof -
  have "length drones = card (set (map fst drones))"
    using assms(1) distinct_card [of "map fst drones"] by (simp add: table_ok_def)
  also have "\<dots> \<le> card {1..n}"
    using assms(1) unfolding table_ok_def by (intro card_mono) auto
  finally show ?thesis using assms(2) by simp
qed

lemma relabel_roles_inv:
  assumes "relay_inv rc" "0 \<le> k" "k \<le> rc_drone_count rc"
  shows "relay_inv (relabel_roles (rc\<lparr>rc_relay_count := k, rc_standby_count := s\<rparr>))"
proof -
  let ?g = "\<lambda>i d. if i \<le> k
      then (if i \<in> rc_failed_indices rc then d else d\<lparr>rd_role := ''relay'', rd_integrated := True\<rparr>)
      else d\<lparr>rd_role := ''standby'', rd_integrated := False\<rparr>"
  have keys: "map fst (map (\<lambda>(i, d). (i, ?g i d)) (rc_drones rc)) = map fst (rc_drones rc)"
    by (rule map_fst_map_entries)
  have "table_ok (rc_drone_count rc) (rc_failed_indices rc) (map (\<lambda>(i, d). (i, ?g i d)) (rc_drones rc))"
    using relay_invD(1) [OF assms(1)] unfolding table_ok_def keys map_of_map_entries
    by (elim conjE, intro conjI allI impI) (auto simp del: set_map split: if_splits option.splits)
  with assms show ?thesis by (simp add: relabel_roles_def relay_inv_def counts_ok_def cong: if_cong)
qed

lemma apply_role_counts_inv:
  assumes "relay_inv rc"
  shows "relay_inv (apply_role_counts k b rc)"
proof -
  have size: "int (length (rc_drones rc)) \<le> rc_drone_count rc" "1 \<le> rc_drone_count rc"
    using table_length [OF relay_invD(1) [OF assms]] relay_invD(2) [OF assms] by (auto simp: counts_ok_def)
  have counts: "relay_inv (rc\<lparr>rc_relay_count := r, rc_standby_count := s\<rparr>)"
    if "0 \<le> r" "r \<le> rc_drone_count rc" for r s
    using assms that by (simp add: relay_inv_def counts_ok_def)
  define total where "total = int (length (rc_drones rc))"
  define explicit where "explicit = int (length (filter (\<lambda>(_, d). rd_role d = ''standby'') (rc_drones rc)))"
  have run: "apply_role_counts k b rc =
      (if total \<le> 0 then rc\<lparr>rc_relay_count := 0, rc_standby_count := 0\<rparr>
       else if b \<and> explicit > 0 then rc\<lparr>rc_standby_count := explicit, rc_relay_count := max 1 (total - explicit)\<rparr>
       else relabel_roles (rc\<lparr>rc_relay_count := max 1 (min total k), rc_standby_count := max 0 (total - max 1 (min total k))\<rparr>))"
    unfolding apply_role_counts_def Let_def total_def explicit_def by (rule refl)
  have "total \<le> rc_drone_count rc" "0 \<le> explicit" using size(1) by (simp_all add: explicit_def total_def)
  then have bounds: "max 1 (total - explicit) \<le> rc_drone_count rc" "max 1 (min total k) \<le> rc_drone_count rc"
    using size(2) by simp_all
  have "relay_inv (rc\<lparr>rc_standby_count := explicit, rc_relay_count := max 1 (total - explicit)\<rparr>)"
    using assms bounds(1) by (simp add: relay_inv_def counts_ok_def)
  moreover have "relay_inv (rc\<lparr>rc_relay_count := 0, rc_standby_count := 0\<rparr>)"
    by (rule counts) (use size(2) in simp_all)
  moreover have "relay_inv (relabel_roles (rc\<lparr>rc_relay_count := max 1 (min total k), rc_standby_count := s\<rparr>))" for s
    by (rule relabel_roles_inv [OF assms _ bounds(2)]) simp
  ultimately show ?thesis by (simp add: run)
qed

lemma keeps_ensure_drone: "1 \<le> i \<Longrightarrow> i \<le> n \<Longrightarrow> keeps (inv_of_size n) (ensure_drone w i item)"
  by (rule keepsI) (simp add: inv_of_size_def ensure_drone_inv ensure_drone_keeps)

lemma keeps_load: "keeps relay_inv (load_drones_from_config w config)"
proof (rule keepsI)
  fix rc assume inv: "relay_inv rc"
  show "relay_inv (snd (load_drones_from_config w config rc))"
  proof (cases "drone_items (as_list (dget config ''drones'' (PList []))) []")
    case (Inl e)
    with inv show ?thesis by (simp add: load_drones_from_config_def bindA_def)
  next
    case (Inr items)
    let ?loop = "forA (\<lambda>i. ensure_drone w i (case map_of items i of Some d \<Rightarrow> d | None \<Rightarrow> []))
        (int_range 1 (rc_drone_count rc + 1))"
    obtain r rc1 where loop: "?loop rc = (r, rc1)" by (cases "?loop rc")
    have "keeps (inv_of_size (rc_drone_count rc)) ?loop"
      by (intro keeps_forA keeps_ensure_drone) auto
    from keepsD [OF this, of rc] inv have "relay_inv rc1" by (simp add: loop inv_of_size_def)
    with Inr loop show ?thesis
      by (simp add: load_drones_from_config_def bindA_def seqA_def apply_role_counts_inv split: sum.split)
  qed
qed

lemma keeps_start: "keeps relay_inv (start_act w config)"
proof -
  have packet: "relay_inv (case relay_new_packet w rc of (p, rc1) \<Rightarrow> rc1\<lparr>rc_current_packet := p\<rparr>)"
    "relay_inv (rc\<lparr>rc_home_positions := h\<rparr>)" if "relay_inv rc" for rc h
    using that by (simp_all add: relay_new_packet_def Let_def relay_inv_def counts_ok_def)
  show ?thesis
    unfolding start_act_def stepsA_def
    by (simp, intro keeps_seqA keeps_load keeps_modA keeps_recompute keeps_pure) (simp_all add: packet)
qed

lemma start_chain_inv:
  assumes "start_chain w strategy config = Inr rc"
  shows "relay_inv rc"
proof -
  from assms obtain radio station p where
    run: "(case start_act w config (blank_chain strategy config (initial_settings config radio station p)) of
       (Inl e, _) \<Rightarrow> Inl e | (Inr _, rc) \<Rightarrow> Inr rc) = Inr rc"
    by (auto simp: start_chain_def bindR_Inr_iff simp del: split_paired_Ex)
  then have "snd (start_act w config (blank_chain strategy config (initial_settings config radio station p))) = rc"
    by (simp split: prod.splits sum.splits)
  with keepsD [OF keeps_start blank_chain_inv [OF initial_settings_ok]] show ?thesis by metis
qed

section \<open>Callbacks\<close>

lemma publish_status_inv: "relay_inv rc \<Longrightarrow> relay_inv (snd (publish_status w rc))"
proof -
  have sync: "relay_inv (sync_branch_flow_state w rc)" if "relay_inv rc" for rc
  proof -
    let ?f = "rc\<lparr>rc_branch_flows := filter (\<lambda>(k, _). k < length (active_branches rc)) (rc_branch_flows rc)\<rparr>"
    have "same_fleet ?f rc" by (simp add: same_fleet_def)
    with sync_fold_keeps [of w "enumerate 0 (active_branches rc)" ?f] that show ?thesis
      by (intro relay_inv_same [OF _ _ that]) (auto simp: sync_branch_flow_state_def Let_def intro: same_fleet_trans)
  qed
  show "relay_inv rc \<Longrightarrow> relay_inv (snd (publish_status w rc))"
    by (simp add: publish_status_def flow_status_def Let_def sync)
qed

inductive relay_step :: "relay_chain \<Rightarrow> relay_chain \<Rightarrow> bool" where
  tick_step: "relay_step rc (snd (tick w rc))"
| pose_step: "relay_step rc (pose_cb w i p rc)"
| fail_step: "relay_step rc (fail_drone_cb w msg rc)"
| heal_step: "relay_step rc (snd (heal_drone_cb w msg rc))"
| park_step: "relay_step rc (snd (standby_drone_cb w msg rc))"
| reset_step: "relay_step rc (snd (reset_chain_cb w rc))"
| mission_step: "relay_step rc (mission_command_cb msg rc)"
| pattern_step: "relay_step rc (set_pattern_cb msg rc)"
| update_step: "relay_step rc (snd (update_config_cb w msg rc))"
| action_step: "relay_step rc (algorithm_action_cb action rc)"
| status_step: "relay_step rc (snd (publish_status w rc))"

inductive relay_reachable :: "relay_chain \<Rightarrow> bool" where
  relay_start: "start_chain w strategy config = Inr rc \<Longrightarrow> relay_reachable rc"
| relay_next: "relay_reachable rc \<Longrightarrow> relay_step rc rc' \<Longrightarrow> relay_reachable rc'"

lemma relay_step_inv: "relay_step rc rc' \<Longrightarrow> relay_inv rc \<Longrightarrow> relay_inv rc'"
  by (induction rule: relay_step.induct)
    (simp_all add: keepsD [OF keeps_tick] keepsD [OF keeps_heal] keepsD [OF keeps_standby] keepsD [OF keeps_reset]
      keepsD [OF keeps_update_config] pose_inv fail_drone_inv mission_command_inv set_pattern_inv algorithm_action_inv
      publish_status_inv)

lemma relay_reachable_inv: "relay_reachable rc \<Longrightarrow> relay_inv rc"
  by (induction rule: relay_reachable.induct) (simp_all add: start_chain_inv relay_step_inv)

end
