(* ===== verification/Relay_Demo.thy ===== *)
theory Relay_Demo
  imports Relay_Runs
begin

text \<open>
  A concrete relay chain for the witnesses: a station, the relays 1 and 2, the standby drone 3, and a world
  with a service that finds every hop feasible and no strategy; and that the node starts.
\<close>

definition calm_world :: relay_world where
  "calm_world = \<lparr>rw_now = Fin 10,
     rw_libm = \<lparr>lm_log10 = (\<lambda>_. Fin 0), lm_log2 = (\<lambda>_. Fin 0), lm_pow10 = (\<lambda>_. Inr (Fin 1))\<rparr>,
     rw_cos = (\<lambda>_. Fin 1), rw_sin = (\<lambda>_. Fin 0),
     rw_service = (\<lambda>_. Reply [(''ok'', PBool True), (''metrics'', PDict
       [(''distance_m'', PFloat (Fin 20)), (''snr_db'', PFloat (Fin 15)), (''capacity_mbps'', PFloat (Fin 50)),
        (''gate_reason'', PStr ''FEASIBLE'')])]),
     rw_plan = (\<lambda>_ _. Plan_Unavailable), rw_select = (\<lambda>_ _ _. PNone)\<rparr>"

definition origin :: vec3 where "origin = (Fin 0, Fin 0, Fin 0)"

definition fleet_drone :: "int \<Rightarrow> string \<Rightarrow> vec3 \<Rightarrow> drone_runtime" where
  "fleet_drone i role p =
     \<lparr>rd_index = i, rd_drone_id = drone_name i, rd_initial_position = p, rd_current_position = p,
      rd_desired_position = p, rd_battery_pct = Fin 90, rd_role = role, rd_antenna_gain_dbi = Fin 4,
      rd_antenna_name = ''uav_omni_vertical'', rd_failed = False, rd_integrated = (role \<noteq> ''standby''),
      rd_last_pose_time = Fin 0, rd_last_seen_chain_version = 0\<rparr>"

definition fleet :: relay_chain where
  "fleet = (blank_chain ''hover'' [] (initial_settings [] [] [] origin))
     \<lparr>rc_drone_count := 3, rc_relay_count := 2, rc_standby_count := 1,
      rc_drones := [(1, fleet_drone 1 ''relay'' (Fin 20, Fin 0, Fin 0)),
                    (2, fleet_drone 2 ''relay'' (Fin 40, Fin 0, Fin 0)),
                    (3, fleet_drone 3 ''standby'' (Fin 40, Fin 15, Fin 0))]\<rparr>"

lemma fleet_fields [simp]:
  "rc_drone_count fleet = 3" "rc_failed_indices fleet = {}" "rc_pending_failure fleet = None"
  "rc_settings fleet = initial_settings [] [] [] origin" "rc_sent fleet = []" "rc_cursor fleet = 0"
  "rc_phase fleet = Forward" "rc_connectivity_paused fleet = False" "rc_operator_paused fleet = False"
  by (simp_all add: fleet_def blank_chain_def split: prod.split)

lemma fleet_lookup:
  "map_of (rc_drones fleet) i =
     (if i = 1 then Some (fleet_drone 1 ''relay'' (Fin 20, Fin 0, Fin 0))
      else if i = 2 then Some (fleet_drone 2 ''relay'' (Fin 40, Fin 0, Fin 0))
      else if i = 3 then Some (fleet_drone 3 ''standby'' (Fin 40, Fin 15, Fin 0)) else None)"
  by (simp add: fleet_def)

lemma fleet_drone_fields [simp]:
  "rd_integrated (fleet_drone i role p) = (role \<noteq> ''standby'')" "rd_role (fleet_drone i role p) = role"
  "rd_current_position (fleet_drone i role p) = p" "rd_desired_position (fleet_drone i role p) = p"
  by (simp_all add: fleet_drone_def)

lemma fleet_views:
  "is_active fleet i \<longleftrightarrow> i = 1 \<or> i = 2" "is_standby fleet i \<longleftrightarrow> i = 3"
  by (auto simp: is_active_def is_standby_def fleet_lookup)

lemma direction_default [simp]: "rs_direction_deg (initial_settings [] radio station p) = Fin 0"
  by (simp add: initial_settings_def Let_def dget_def as_float_def)

lemma calm_heading:
  assumes "rs_direction_deg (rc_settings rc) = Fin 0"
  shows "heading calm_world rc = Inr (Fin 1, Fin 0)"
proof -
  have "radians (Fin 0) = Fin 0" by code_simp
  with assms show ?thesis by (simp add: heading_def trig_def calm_world_def)
qed

section \<open>The node starts\<close>

lemma ensure_drone_starts:
  assumes "heading w rc = Inr dir" "map_of (rc_drones rc) i = None"
  shows "\<exists>p. ensure_drone w i [] rc = (Inr (), rc\<lparr>rc_drones := rc_drones rc @ [(i, new_drone (rc_settings rc) i [] p)]\<rparr>)"
proof -
  obtain x y z where dflt: "default_position_for_index w rc i = Inr (x, y, z)"
    using assms(1) by (cases dir; cases "rs_station_position (rc_settings rc)")
      (auto simp: default_position_for_index_def Let_def)
  have "read_position (PList [PFloat x, PFloat y, PFloat z]) = Inr (x, y, z)"
    by (simp add: read_position_def index_value_def)
  with assms(2) dflt show ?thesis by (intro exI [of _ "(x, y, z)"]) (simp add: ensure_drone_run dget_def)
qed

lemma loop_starts:
  assumes "distinct is" "heading w rc = Inr dir" "\<forall>i\<in>set is. map_of (rc_drones rc) i = None"
  shows "\<exists>rc'. forA (\<lambda>i. ensure_drone w i []) is rc = (Inr (), rc') \<and> rc_settings rc' = rc_settings rc
    \<and> rc_drone_count rc' = rc_drone_count rc"
  using assms
proof (induction "is" arbitrary: rc)
  case (Cons i "is")
  from ensure_drone_starts [OF Cons.prems(2), of i] Cons.prems(3) obtain p where
    run: "ensure_drone w i [] rc = (Inr (), rc\<lparr>rc_drones := rc_drones rc @ [(i, new_drone (rc_settings rc) i [] p)]\<rparr>)"
    by auto
  let ?rc = "rc\<lparr>rc_drones := rc_drones rc @ [(i, new_drone (rc_settings rc) i [] p)]\<rparr>"
  have "heading w ?rc = Inr dir" using Cons.prems(2) by (simp add: heading_def)
  moreover have "\<forall>j\<in>set is. map_of (rc_drones ?rc) j = None"
    using Cons.prems(1,3) by (auto simp: map_add_def)
  ultimately show ?case
    using Cons.IH [of ?rc] Cons.prems(1) by (simp add: seqA_def bindA_def run)
qed simp

text \<open>Without configured drones and with a finite direction the node starts.\<close>

lemma start_chain_default:
  assumes "\<And>rc. rc_settings rc = initial_settings [] [] [] (Fin 0, Fin 0, Fin (3 / 2)) \<Longrightarrow> heading w rc = Inr dir"
  shows "\<exists>rc. start_chain w strategy [] = Inr rc"
proof -
  let ?st = "initial_settings [] [] [] (Fin 0, Fin 0, Fin (3 / 2))"
  let ?rc = "blank_chain strategy [] ?st"
  have station: "station_of [] = Inr (Fin 0, Fin 0, Fin (3 / 2))"
    by (simp add: station_of_def dget_def ptuple_def)
  have fields: "rc_settings ?rc = ?st" "rc_drones ?rc = []" by (simp_all add: blank_chain_def split: prod.split)
  have range: "distinct (int_range 1 (rc_drone_count ?rc + 1))"
    by (simp add: int_range_def distinct_map inj_on_def)
  obtain rc1 where loop: "forA (\<lambda>i. ensure_drone w i []) (int_range 1 (rc_drone_count ?rc + 1)) ?rc = (Inr (), rc1)"
    "rc_settings rc1 = ?st"
    using loop_starts [OF range assms [of ?rc]] fields by auto
  have "rc_settings (apply_role_counts k b rc) = rc_settings rc" for k b rc
    by (simp add: apply_role_counts_def Let_def relabel_roles_def)
  with assms loop show ?thesis
    by (simp add: start_chain_def dget_def pitems_def station start_act_def stepsA_def load_drones_from_config_def bindA_def seqA_def
        recompute_run split: prod.split)
qed

end
