(* ===== verification/Relay_Claims.thy ===== *)
theory Relay_Claims
  imports Relay_Demo
begin

text \<open>
  The properties of the relay chain as a whole, over its reachable states: the agreement of its inventory,
  what a round of the timer transmits, and the division of the active chain into branches.
\<close>

section \<open>What a round transmits\<close>

definition quiet :: "terminal_event list \<Rightarrow> bool \<Rightarrow> relay_chain \<Rightarrow> bool" where
  "quiet sent held rc \<longleftrightarrow> rc_sent rc = sent \<and> rc_operator_paused rc = held"

lemma quiet_emit [simp]: "quiet s h (emit k d rc) = quiet s h rc"
  by (simp add: quiet_def)

lemma keeps_quiet_recompute: "keeps (quiet s h) (recompute_desired_positions w r b)"
  by (rule keepsI) (simp add: recompute_run quiet_def relayout_keeps split: sum.split)

lemma keeps_quiet_activate: "keeps (quiet s h) (activate_best_standby_for_failure w i)"
proof (rule keepsI)
  fix rc assume q: "quiet s h rc"
  have events: "quiet s h b" if "only_events a b" "quiet s h a" for a b
    using that by (auto simp: only_events_def quiet_def)
  have promote: "quiet s h (promote r p a) = quiet s h a" for r p a
    by (simp add: promote_def quiet_def)
  obtain x rc' where x: "activate_best_standby_for_failure w i rc = (x, rc')"
    by (cases "activate_best_standby_for_failure w i rc")
  from activate_effect [OF x] events promote q show "quiet s h (snd (activate_best_standby_for_failure w i rc))"
    by (auto simp: x)
qed

lemma keeps_quiet_process: "keeps (quiet s h) (process_pending_failure w)"
proof -
  have "keeps (quiet s h) (detect_failure w i)" for i
    unfolding detect_failure_def
    by (intro keeps_seqA keeps_modA keeps_bindA keeps_quiet_activate keeps_quiet_recompute)
      (simp_all add: mark_failed_def quiet_def)
  then show ?thesis
    unfolding process_pending_failure_def
    by (intro keeps_bindA keeps_pure keeps_option keeps_if keeps_modA) (simp_all add: quiet_def)
qed

lemma keeps_quiet_loop: "keeps (quiet s h) (integrate_loop active is changed)"
proof (induction "is" arbitrary: changed)
  case (Cons i "is")
  have "quiet s h (emit k d (join_chain i rc)) = quiet s h rc" for k d rc
    by (simp add: quiet_def)
  then show ?case
    unfolding integrate_loop.simps
    by (intro keeps_bindA [OF keeps_bindA] keeps_prod keeps_pure keeps_bindA keeps_if keeps_seqA keeps_modA Cons.IH) simp
qed (simp add: keeps_pure)

lemma keeps_quiet_integrate: "keeps (quiet s h) (integrate_standby_if_possible w)"
  unfolding integrate_standby_if_possible_def
  by (intro keeps_bindA keeps_pure keeps_if keeps_quiet_loop keeps_quiet_recompute)

text \<open>The part of a round before the transmission, and the whole round.\<close>

definition relay_settle :: "relay_world \<Rightarrow> (relay_chain, unit) act" where
  "relay_settle w = seqA (process_pending_failure w) (integrate_standby_if_possible w)"

lemma tick_run:
  "tick w rc = (case relay_settle w rc of
     (Inl e, rc1) \<Rightarrow> (Inl e, rc1)
   | (Inr _, rc1) \<Rightarrow> if rc_operator_paused rc1 then (Inr (), rc1)
       else if parallel_enabled rc1 then tick_parallel w rc1 else tick_chain w rc1)"
  by (simp add: tick_def relay_settle_def seqA_def bindA_def split: prod.split sum.split)

lemma keeps_relay_settle: "keeps relay_inv (relay_settle w)" "keeps (quiet s h) (relay_settle w)"
  unfolding relay_settle_def
  by (intro keeps_seqA keeps_process keeps_integrate keeps_quiet_process keeps_quiet_integrate)+

lemma tick_sends:
  assumes "relay_inv rc" "tick w rc = (r, rc')"
  shows "\<exists>new. rc_sent rc' = rc_sent rc @ new \<and> list_all (safe_message rc') new
    \<and> (rc_operator_paused rc \<longrightarrow> new = [])"
proof -
  obtain q rc1 where relay_settle: "relay_settle w rc = (q, rc1)" by (cases "relay_settle w rc")
  have rc1: "relay_inv rc1" "rc_sent rc1 = rc_sent rc" "rc_operator_paused rc1 = rc_operator_paused rc"
    using keepsD [OF keeps_relay_settle(1) assms(1), of w] keepsD [OF keeps_relay_settle(2), of "rc_sent rc" "rc_operator_paused rc" rc w]
    by (simp_all add: relay_settle quiet_def)
  have safe: "\<exists>new. rc_sent b = rc_sent rc @ new \<and> list_all (safe_message b) new" if "sends_safely rc1 b" for b
    using that safe_message_cong [of b rc1] by (auto simp: sends_safely_def rc1)
  show ?thesis
  proof (cases "rc' = rc1")
    case True
    with rc1 show ?thesis by simp
  next
    case False
    with assms(2) relay_settle have run: "\<not> rc_operator_paused rc1" "rc' = snd (tick_parallel w rc1) \<or> rc' = snd (tick_chain w rc1)"
      by (auto simp: tick_run split: sum.splits if_splits)
    with tick_parallel_sends [OF relay_invD(5) [OF rc1(1)], of w] tick_chain_sends [OF relay_invD(5) [OF rc1(1)], of w]
    have "sends_safely rc1 rc'" by auto
    from safe [OF this] run(1) rc1(3) show ?thesis by auto
  qed
qed

section \<open>The properties\<close>

text \<open>C1 (safety) a round of the timer transmits only over hops that the gate has judged feasible, between
  the station and drones of the active chain, and nothing while the operator holds the mission; what was
  transmitted before stays on record.\<close>

theorem tick_transmits_safely:
  assumes "relay_reachable rc" "tick w rc = (r, rc')"
  shows "\<exists>new. rc_sent rc' = rc_sent rc @ new \<and> list_all (safe_message rc') new
    \<and> (rc_operator_paused rc \<longrightarrow> new = [])"
  using tick_sends [OF relay_reachable_inv [OF assms(1)] assms(2)] .

theorem tick_transmits_safely_witness:
  "\<exists>rc new. relay_reachable rc \<and> rc_sent (snd (tick calm_world rc)) = rc_sent rc @ new
    \<and> list_all (safe_message (snd (tick calm_world rc))) new"
proof -
  obtain rc where rc: "start_chain calm_world ''hover'' [] = Inr rc"
    using start_chain_default [OF calm_heading] by auto
  have "relay_reachable rc" by (rule relay_start [OF rc])
  with tick_transmits_safely [OF this, of calm_world] show ?thesis by (metis prod.collapse)
qed

text \<open>C2 (invariant) in every reachable state the inventory is a set of numbers up to the drone count, the
  failed drones are known ones and exactly those whose record says so, the counts and ranges are in order,
  and every message ever sent belonged to a feasible hop between members of the chain of its time.\<close>

theorem reachable_relay_ok:
  assumes "relay_reachable rc"
  shows "distinct (map fst (rc_drones rc)) \<and> set (map fst (rc_drones rc)) \<subseteq> {1..rc_drone_count rc}
    \<and> rc_failed_indices rc = {i. \<exists>d. map_of (rc_drones rc) i = Some d \<and> rd_failed d}
    \<and> 0 \<le> rc_relay_count rc \<and> rc_relay_count rc \<le> rc_drone_count rc \<and> 1 \<le> rc_drone_count rc
    \<and> \<not> flt (rs_hard_outage_range_m (rc_settings rc)) (rs_max_single_hop_range_m (rc_settings rc))
    \<and> rs_transmission_mode (rc_settings rc) \<in> set known_modes
    \<and> list_all clean_message (rc_sent rc)"
proof -
  have inv: "relay_inv rc" by (rule relay_reachable_inv [OF assms])
  have keys: "i \<in> set (map fst (rc_drones rc)) \<longleftrightarrow> (\<exists>d. map_of (rc_drones rc) i = Some d)" for i
    using known_index [of "rc_drones rc" i] by (simp del: set_map add: not_None_eq)
  have "rc_failed_indices rc = {i. \<exists>d. map_of (rc_drones rc) i = Some d \<and> rd_failed d}"
    using relay_invD(1) [OF inv] keys unfolding table_ok_def by blast
  with inv show ?thesis
    by (auto simp: relay_inv_def table_ok_def counts_ok_def settings_ok_def)
qed

theorem reachable_relay_ok_witness:
  "\<exists>rc. relay_reachable (fail_drone_cb calm_world \<lparr>cm_data = ''1'', cm_json = Some (PInt 1)\<rparr> rc)
    \<and> 1 \<le> rc_drone_count (fail_drone_cb calm_world \<lparr>cm_data = ''1'', cm_json = Some (PInt 1)\<rparr> rc)"
proof -
  obtain rc where rc: "start_chain calm_world ''hover'' [] = Inr rc"
    using start_chain_default [OF calm_heading] by auto
  have "relay_reachable (fail_drone_cb calm_world \<lparr>cm_data = ''1'', cm_json = Some (PInt 1)\<rparr> rc)"
    by (rule relay_next [OF relay_start [OF rc] fail_step])
  with reachable_relay_ok [OF this] show ?thesis by blast
qed

end
