(* ===== verification/Relay_Roundtrip.thy ===== *)
theory Relay_Roundtrip
  imports Relay_Claims
begin

text \<open>
  Progress of the single chain: while nothing fails and every hop is feasible, each round of the timer moves
  the packet one hop, out along the whole chain and back to the station.
\<close>

section \<open>Hops that are ready\<close>

definition hop_ready :: "relay_world \<Rightarrow> relay_chain \<Rightarrow> relay_node \<Rightarrow> relay_node \<Rightarrow> bool" where
  "hop_ready w rc src dst \<longleftrightarrow>
     (\<exists>m metres. bindR (hop_metrics w rc src dst) (link_ok (rc_settings rc)) = Inr (True, m)
        \<and> fget m ''distance_m'' 0 = Inr metres)"

lemma node_reads_cong:
  assumes "same_fleet b a"
  shows "node_position b = node_position a" "node_antenna b = node_antenna a"
proof -
  have st: "rc_settings b = rc_settings a" using assms by (simp add: same_fleet_def)
  have reads: "bindR (get_drone b i) (\<lambda>d. Inr (g d)) = bindR (get_drone a i) (\<lambda>d. Inr (g d))"
    if "\<And>d e. core d = core e \<Longrightarrow> g d = g e" for g :: "drone_runtime \<Rightarrow> 'x" and i
  proof (cases "map_of (rc_drones b) i")
    case None
    with same_fleet_lookup [OF assms, of i] show ?thesis by (simp add: get_drone_def)
  next
    case (Some d)
    with same_fleet_lookup [OF assms, of i] obtain e where e: "map_of (rc_drones a) i = Some e" "core d = core e"
      by (cases "map_of (rc_drones a) i") auto
    show ?thesis using Some e(1) that [OF e(2)] by (simp add: get_drone_def)
  qed
  have antenna: "(rd_antenna_name d, rd_antenna_gain_dbi d) = (rd_antenna_name e, rd_antenna_gain_dbi e)"
    if "core d = core e" for d e using core_eqD(5,6) [OF that] by simp
  have "node_position b n = node_position a n" "node_antenna b n = node_antenna a n" for n
    using reads [of rd_current_position, OF core_eqD(4)] reads [of "\<lambda>d. (rd_antenna_name d, rd_antenna_gain_dbi d)", OF antenna]
    by (cases n; simp add: node_position_def node_antenna_def st)+
  then show "node_position b = node_position a" "node_antenna b = node_antenna a" by blast+
qed

lemma hop_metrics_cong:
  assumes "same_fleet b a"
  shows "hop_metrics w b = hop_metrics w a"
proof -
  have st: "rc_settings b = rc_settings a" using assms by (simp add: same_fleet_def)
  note reads = node_reads_cong [OF assms]
  have link: "link_payload b = link_payload a" "served_metrics b = served_metrics a"
    by (simp_all add: fun_eq_iff link_payload_def served_metrics_def st)
  have query: "query_sionna w b = query_sionna w a"
    unfolding fun_eq_iff query_sionna_def reads link st by blast
  have entries: "antenna_entries b = antenna_entries a"
    unfolding fun_eq_iff antenna_entries_def node_distance_def reads by blast
  show ?thesis unfolding fun_eq_iff hop_metrics_def query entries st by blast
qed

lemma hop_ready_cong: "same_fleet b a \<Longrightarrow> hop_ready w b = hop_ready w a"
  by (simp add: fun_eq_iff hop_ready_def hop_metrics_cong) (simp add: same_fleet_def)

section \<open>One hop\<close>

definition tx_hops :: "terminal_event list \<Rightarrow> (relay_node \<times> relay_node) list" where
  "tx_hops sent = concat (map (\<lambda>m. case m of TX n e \<Rightarrow> [(he_src e, he_dst e)] | _ \<Rightarrow> []) sent)"

lemma tx_hops_simps [simp]:
  "tx_hops (a @ b) = tx_hops a @ tx_hops b" "tx_hops [] = []" "tx_hops (Hop e # l) = tx_hops l"
  "tx_hops (TX n e # l) = (he_src e, he_dst e) # tx_hops l" "tx_hops (RX n e # l) = tx_hops l"
  by (simp_all add: tx_hops_def)

text \<open>What a hop leaves alone.\<close>

definition course :: "relay_chain \<Rightarrow> relay_phase \<times> pending_failure option \<times> bool \<times> bool \<times> int" where
  "course rc = (rc_phase rc, rc_pending_failure rc, rc_connectivity_paused rc, rc_operator_paused rc, rc_packet_id rc)"

lemma append_local_state_runs:
  assumes "live_node rc n"
  shows "\<exists>rc'. append_local_state w n rc = (Inr (), rc') \<and> same_fleet rc' rc \<and> course rc' = course rc
    \<and> rc_sent rc' = rc_sent rc \<and> rc_cursor rc' = rc_cursor rc"
proof (cases n)
  case Station
  then show ?thesis by (simp add: append_local_state_def)
next
  case (Relay i)
  with assms obtain d where "map_of (rc_drones rc) i = Some d"
    by (auto simp: live_node_def is_active_def split: option.splits)
  with Relay show ?thesis
    by (simp add: append_local_state_def bindA_def get_drone_def same_fleet_def course_def drain_battery_def)
qed

lemma forward_packet_runs:
  assumes "live_node rc (he_src e)"
  shows "\<exists>rc'. forward_packet w e rc = (Inr (), rc') \<and> same_fleet rc' rc \<and> course rc' = course rc
    \<and> tx_hops (rc_sent rc') = tx_hops (rc_sent rc) @ [(he_src e, he_dst e)] \<and> rc_cursor rc' = rc_cursor rc"
proof -
  let ?a = "publish (TX (he_src e) e) rc"
  have a: "same_fleet ?a rc" "course ?a = course rc" "rc_sent ?a = rc_sent rc @ [TX (he_src e) e]" "rc_cursor ?a = rc_cursor rc"
    by (simp_all add: publish_def same_fleet_def course_def)
  have "live_node ?a (he_src e)" using assms live_cong [OF a(1)] by simp
  from append_local_state_runs [OF this, of w] obtain b where b: "append_local_state w (he_src e) ?a = (Inr (), b)"
    "same_fleet b ?a" "course b = course ?a" "rc_sent b = rc_sent ?a" "rc_cursor b = rc_cursor ?a" by blast
  then show ?thesis
    using a by (simp add: forward_packet_def seqA_def bindA_def publish_def same_fleet_def course_def)
qed

lemma chain_hop_runs:
  assumes "on_path rc nodes" "hop_ready w rc (nodes ! rc_cursor rc) (nodes ! Suc (rc_cursor rc))"
  shows "\<exists>rc'. chain_hop w nodes rc = (Inr (), rc') \<and> same_fleet rc' rc \<and> course rc' = course rc
    \<and> tx_hops (rc_sent rc') = tx_hops (rc_sent rc) @ [(nodes ! rc_cursor rc, nodes ! Suc (rc_cursor rc))]
    \<and> rc_cursor rc' = Suc (rc_cursor rc)"
proof -
  let ?src = "nodes ! rc_cursor rc" and ?dst = "nodes ! Suc (rc_cursor rc)"
  let ?rc = "rc\<lparr>rc_sequence := rc_sequence rc + 1\<rparr>"
  have live: "live_node rc ?src" "live_node rc ?dst" using assms(1) by (auto simp: on_path_def list_all_length)
  have fleet: "same_fleet ?rc rc" by (simp add: same_fleet_def)
  have whole: "\<not> node_failed ?rc ?src" "\<not> node_failed ?rc ?dst"
    using live by (auto simp: live_node_def node_failed_def is_active_def split: relay_node.splits)
  from assms(2) obtain m metres where m: "bindR (hop_metrics w ?rc ?src ?dst) (link_ok (rc_settings ?rc)) = Inr (True, m)"
    "fget m ''distance_m'' 0 = Inr metres"
    unfolding hop_ready_def hop_metrics_cong [OF fleet] by auto
  define e where "e = make_hop_event w ?src ?dst m True (hop_decision (rc_settings ?rc) True metres) ?rc"
  have e: "he_src e = ?src" "he_dst e = ?dst" "he_link_ok e" by (simp_all add: make_hop_event_def e_def)
  have judge: "judge_hop w ?src ?dst ?rc = (Inr (e, metres), record_hop e ?rc)"
    using m by (simp add: judge_hop_def bindA_def seqA_def e_def)
  have rec: "same_fleet (record_hop e ?rc) rc" "course (record_hop e ?rc) = course rc"
    "tx_hops (rc_sent (record_hop e ?rc)) = tx_hops (rc_sent rc)" "rc_cursor (record_hop e ?rc) = rc_cursor rc"
    by (simp_all add: record_hop_def publish_def same_fleet_def course_def)
  have "live_node (record_hop e ?rc) (he_src e)" using live(1) live_cong [OF rec(1)] e(1) by simp
  from forward_packet_runs [OF this, of w] obtain b where b: "forward_packet w e (record_hop e ?rc) = (Inr (), b)"
    "same_fleet b (record_hop e ?rc)" "course b = course (record_hop e ?rc)"
    "tx_hops (rc_sent b) = tx_hops (rc_sent (record_hop e ?rc)) @ [(?src, ?dst)]"
    "rc_cursor b = rc_cursor (record_hop e ?rc)" by (auto simp: e)
  have "chain_hop w nodes rc = (Inr (), b\<lparr>rc_cursor := Suc (rc_cursor b)\<rparr>)"
    using whole judge b(1) e(3) by (simp add: chain_hop_def bindA_def seqA_def)
  moreover have "same_fleet (b\<lparr>rc_cursor := Suc (rc_cursor b)\<rparr>) rc"
    using same_fleet_trans [OF b(2) rec(1)] by (simp add: same_fleet_def)
  ultimately show ?thesis using b rec by (simp add: course_def)
qed

section \<open>A round\<close>

text \<open>The packet on its way: nothing has changed but its position and what was sent.\<close>

definition travelling ::
  "relay_chain \<Rightarrow> relay_phase \<Rightarrow> nat \<Rightarrow> (relay_node \<times> relay_node) list \<Rightarrow> relay_chain \<Rightarrow> bool" where
  "travelling rc0 phase k trail rc \<longleftrightarrow> same_fleet rc rc0
     \<and> course rc = (phase, None, False, False, rc_packet_id rc0)
     \<and> rc_cursor rc = k \<and> tx_hops (rc_sent rc) = tx_hops (rc_sent rc0) @ trail"

definition ready_chain :: "relay_world \<Rightarrow> int list \<Rightarrow> relay_chain \<Rightarrow> bool" where
  "ready_chain w branch rc \<longleftrightarrow> distinct (map fst (rc_drones rc)) \<and> branch \<noteq> [] \<and> active_chain rc = branch
     \<and> standby_indices rc = [] \<and> rs_transmission_mode (rc_settings rc) = ''chain''
     \<and> (\<forall>src dst. live_node rc src \<longrightarrow> live_node rc dst \<longrightarrow> hop_ready w rc src dst)"

lemma ready_chain_cong:
  assumes "same_fleet b a" "ready_chain w branch a"
  shows "ready_chain w branch b"
proof -
  have "rc_settings b = rc_settings a" using assms(1) by (simp add: same_fleet_def)
  then show ?thesis
    using assms(2) unfolding ready_chain_def
    by (simp add: same_fleet_drones [OF assms(1)] same_fleet_chains [OF assms(1)] live_cong [OF assms(1)]
        hop_ready_cong [OF assms(1)])
qed

lemma ready_branches: "ready_chain w branch rc \<Longrightarrow> active_branches rc = [branch]"
  by (simp add: ready_chain_def active_branches_def)

lemma ready_settles:
  assumes "ready_chain w branch rc" "rc_pending_failure rc = None"
  shows "relay_settle w rc = (Inr (), rc)"
proof -
  have "process_pending_failure w rc = (Inr (), rc)" using assms(2) by (simp add: process_pending_failure_def)
  moreover have "integrate_standby_if_possible w rc = (Inr (), rc)"
    using assms(1) by (simp add: integrate_standby_if_possible_def ready_chain_def)
  ultimately show ?thesis by (simp add: relay_settle_def seqA_def bindA_def)
qed

lemma ready_tick:
  assumes "ready_chain w branch rc" "rc_pending_failure rc = None" "\<not> rc_operator_paused rc" "\<not> rc_connectivity_paused rc"
  shows "tick w rc = bindA (chain_turn w (branch_nodes branch (rc_phase rc))) (chain_hop w)
    (rc\<lparr>rc_current_branch_index := 0\<rparr>)"
proof -
  have branches: "active_branches rc = [branch]" by (rule ready_branches [OF assms(1)])
  have "tick w rc = tick_chain w rc"
    using assms(3) by (simp add: tick_run ready_settles [OF assms(1,2)] parallel_enabled_def branches)
  also have "current_branch rc = (Inr branch, rc\<lparr>rc_current_branch_index := 0\<rparr>)"
    by (simp add: current_branch_run branches)
  with assms(1,4) have "tick_chain w rc = bindA (chain_turn w (branch_nodes branch (rc_phase rc))) (chain_hop w)
    (rc\<lparr>rc_current_branch_index := 0\<rparr>)"
    by (simp add: tick_chain_def chain_nodes_def bindA_def ready_chain_def)
  finally show ?thesis .
qed

text \<open>A round in the middle of a path, and the round that turns round at its end.\<close>

lemma hop_advances:
  assumes "travelling rc0 phase k trail rc" "ready_chain w branch rc0" "k < length branch"
  shows "\<exists>rc'. chain_hop w (branch_nodes branch phase) rc = (Inr (), rc') \<and> travelling rc0 phase (Suc k)
    (trail @ [(branch_nodes branch phase ! k, branch_nodes branch phase ! Suc k)]) rc'"
proof -
  let ?nodes = "branch_nodes branch phase"
  have fleet: "same_fleet rc rc0" and k: "rc_cursor rc = k" using assms(1) by (simp_all add: travelling_def)
  have ready: "ready_chain w branch rc" by (rule ready_chain_cong [OF fleet assms(2)])
  have active: "\<forall>i\<in>set branch. is_active rc i" using ready set_active_chain [of rc] by (auto simp: ready_chain_def simp del: set_active_chain)
  have path: "on_path rc ?nodes" using branch_nodes_all_live [OF active] assms(3) k by (simp add: on_path_def)
  have "live_node rc (?nodes ! k)" "live_node rc (?nodes ! Suc k)"
    using path k by (auto simp: on_path_def list_all_length)
  with ready have "hop_ready w rc (?nodes ! k) (?nodes ! Suc k)" by (simp add: ready_chain_def)
  from chain_hop_runs [OF path] this k obtain rc' where "chain_hop w ?nodes rc = (Inr (), rc')" "same_fleet rc' rc"
    "course rc' = course rc" "tx_hops (rc_sent rc') = tx_hops (rc_sent rc) @ [(?nodes ! k, ?nodes ! Suc k)]"
    "rc_cursor rc' = Suc k" by auto
  with assms(1) same_fleet_trans show ?thesis by (auto simp: travelling_def)
qed

lemma travelling_course:
  assumes "travelling rc0 phase k trail rc"
  shows "rc_phase rc = phase" "rc_pending_failure rc = None" "\<not> rc_connectivity_paused rc" "\<not> rc_operator_paused rc"
    "rc_packet_id rc = rc_packet_id rc0" "rc_cursor rc = k" "same_fleet rc rc0"
  using assms by (simp_all add: travelling_def course_def)

lemma travelling_index: "travelling rc0 phase k trail (rc\<lparr>rc_current_branch_index := j\<rparr>) = travelling rc0 phase k trail rc"
  by (simp add: travelling_def course_def same_fleet_def)

lemma tick_advances:
  assumes "travelling rc0 phase k trail rc" "ready_chain w branch rc0" "k < length branch"
  shows "\<exists>rc'. tick w rc = (Inr (), rc') \<and> travelling rc0 phase (Suc k)
    (trail @ [(branch_nodes branch phase ! k, branch_nodes branch phase ! Suc k)]) rc'"
proof -
  note t = travelling_course [OF assms(1)]
  let ?rc = "rc\<lparr>rc_current_branch_index := 0\<rparr>"
  have tick: "tick w rc = bindA (chain_turn w (branch_nodes branch phase)) (chain_hop w) ?rc"
    using ready_tick [OF ready_chain_cong [OF t(7) assms(2)] t(2,4,3)] t(1) by simp
  have "chain_turn w (branch_nodes branch phase) ?rc = (Inr (branch_nodes branch phase), ?rc)"
    using assms(3) t(6) by (simp add: chain_turn_run)
  then have run: "tick w rc = chain_hop w (branch_nodes branch phase) ?rc" by (simp add: tick bindA_def)
  have "travelling rc0 phase k trail ?rc" using assms(1) by (simp only: travelling_index)
  from hop_advances [OF this assms(2,3)] show ?thesis by (simp only: run)
qed

lemma tick_turns:
  assumes "travelling rc0 Forward (length branch) trail rc" "ready_chain w branch rc0"
  shows "\<exists>rc'. tick w rc = (Inr (), rc') \<and> travelling rc0 Reverse 1
    (trail @ [(branch_nodes branch Reverse ! 0, branch_nodes branch Reverse ! 1)]) rc'"
proof -
  note t = travelling_course [OF assms(1)]
  let ?rc = "rc\<lparr>rc_current_branch_index := 0\<rparr>"
  have tick: "tick w rc = bindA (chain_turn w (branch_nodes branch Forward)) (chain_hop w) ?rc"
    using ready_tick [OF ready_chain_cong [OF t(7) assms(2)] t(2,4,3)] t(1) by simp
  have home: "travelling rc0 Reverse 0 trail (reverse_start ?rc)"
    using assms(1) by (simp add: travelling_def course_def reverse_start_def same_fleet_def)
  have "active_branches (reverse_start ?rc) = [branch]"
    by (rule ready_branches [OF ready_chain_cong [OF travelling_course(7) [OF home] assms(2)]])
  then have "current_branch (reverse_start ?rc) = (Inr branch, (reverse_start ?rc)\<lparr>rc_current_branch_index := 0\<rparr>)"
    by (simp add: current_branch_run)
  then obtain d where turn: "chain_turn w (branch_nodes branch Forward) ?rc
      = (Inr (branch_nodes branch Reverse), emit ''reverse_path_started'' d ((reverse_start ?rc)\<lparr>rc_current_branch_index := 0\<rparr>))"
    using t(1,6) by (simp add: chain_turn_run bindA_def seqA_def)
  have "travelling rc0 Reverse 0 trail (emit ''reverse_path_started'' d ((reverse_start ?rc)\<lparr>rc_current_branch_index := 0\<rparr>))"
    using home by (simp add: travelling_def course_def same_fleet_def)
  moreover have "0 < length branch" using assms(2) by (simp add: ready_chain_def)
  ultimately show ?thesis using hop_advances [OF _ assms(2)] turn by (simp add: tick bindA_def)
qed

section \<open>The round trip\<close>

definition rounds :: "relay_world \<Rightarrow> nat \<Rightarrow> relay_chain \<Rightarrow> relay_chain" where
  "rounds w n rc = ((\<lambda>rc. snd (tick w rc)) ^^ n) rc"

lemma rounds_simps [simp]: "rounds w 0 rc = rc" "rounds w (Suc n) rc = snd (tick w (rounds w n rc))"
  by (simp_all add: rounds_def)

definition path_hops :: "relay_node list \<Rightarrow> (relay_node \<times> relay_node) list" where
  "path_hops nodes = zip nodes (tl nodes)"

lemma take_path_hops:
  "Suc k < length nodes \<Longrightarrow> take (Suc k) (path_hops nodes) = take k (path_hops nodes) @ [(nodes ! k, nodes ! Suc k)]"
  by (simp add: path_hops_def take_Suc_conv_app_nth nth_tl)

lemma length_path_hops [simp]: "length (path_hops nodes) = length nodes - 1"
  by (simp add: path_hops_def)

lemma rounds_forward:
  assumes "travelling rc0 Forward 0 [] rc0" "ready_chain w branch rc0" "k \<le> length branch"
  shows "travelling rc0 Forward k (take k (path_hops (branch_nodes branch Forward))) (rounds w k rc0)"
  using assms(3)
proof (induction k)
  case (Suc k)
  then have "travelling rc0 Forward k (take k (path_hops (branch_nodes branch Forward))) (rounds w k rc0)" by simp
  from tick_advances [OF this assms(2)] Suc.prems show ?case by (auto simp: take_path_hops)
qed (use assms(1) in simp)

lemma rounds_reverse:
  assumes "travelling rc0 Forward 0 [] rc0" "ready_chain w branch rc0" "k < length branch"
  shows "travelling rc0 Reverse (Suc k) (path_hops (branch_nodes branch Forward)
    @ take (Suc k) (path_hops (branch_nodes branch Reverse))) (rounds w (length branch + Suc k) rc0)"
  using assms(3)
proof (induction k)
  case 0
  from rounds_forward [OF assms(1,2) order_refl] have
    "travelling rc0 Forward (length branch) (path_hops (branch_nodes branch Forward)) (rounds w (length branch) rc0)" by simp
  from tick_turns [OF this assms(2)] 0 show ?case by (auto simp: take_path_hops)
next
  case (Suc k)
  from tick_advances [OF Suc.IH assms(2)] Suc.prems show ?case
    by (auto simp: take_path_hops [of "Suc k"] simp del: take_Suc)
qed

section \<open>A chain of one drone\<close>

lemma default_ranges [simp]:
  "rs_max_single_hop_range_m (initial_settings [] [] [] p) = Fin 90"
  "rs_hard_outage_range_m (initial_settings [] [] [] p) = Fin 220"
  "rs_allow_degraded_forwarding (initial_settings [] [] [] p) = False"
  "rs_station_position (initial_settings [] [] [] p) = p"
  "rs_transmission_mode (initial_settings [] [] [] p) = ''chain''"
  by (simp_all add: initial_settings_def Let_def dget_def as_float_def at_least_def py_max_def as_bool_def initial_mode_def known_modes_def as_int_def py_lower_def)

lemma calm_service: "rw_service calm_world p = Reply [(''ok'', PBool True), (''metrics'', PDict
       [(''distance_m'', PFloat (Fin 20)), (''snr_db'', PFloat (Fin 15)), (''capacity_mbps'', PFloat (Fin 50)),
        (''gate_reason'', PStr ''FEASIBLE'')])]"
  by (simp add: calm_world_def)

lemma calm_hop_ready:
  assumes "node_position rc src = Inr p" "node_position rc dst = Inr q" "distance p q = Inr d"
    and "node_antenna rc src = Inr a" "node_antenna rc dst = Inr b"
    and "rs_max_single_hop_range_m (rc_settings rc) = Fin 90" "rs_hard_outage_range_m (rc_settings rc) = Fin 220"
    and "rs_allow_degraded_forwarding (rc_settings rc) = False"
  shows "hop_ready calm_world rc src dst"
proof -
  let ?base = "[(''distance_m'', PFloat (Fin 20)), (''snr_db'', PFloat (Fin 15)), (''capacity_mbps'', PFloat (Fin 50)),
        (''gate_reason'', PStr ''FEASIBLE'')]"
  let ?m = "served_metrics rc src dst a b ?base"
  have m: "dget ?m ''distance_m'' v = PFloat (Fin 20)" "dget ?m ''snr_db'' v = PFloat (Fin 15)"
    "dget ?m ''capacity_mbps'' v = PFloat (Fin 50)" "dget ?m ''gate_reason'' v = PStr ''FEASIBLE''"
    "dget ?m ''feasibility'' v = v" "map_of ?m ''distance_m'' = Some (PFloat (Fin 20))" "dget ?m ''status'' v = v" for v
    by (simp_all add: served_metrics_def Let_def dupdate_Cons)
  let ?r = "range_metrics calm_world (rc_settings rc) (Fin 20) ?m"
  have r: "dget ?r ''distance_m'' v = PFloat (Fin 20)" "dget ?r ''snr_db'' v = PFloat (Fin 15)"
    "dget ?r ''capacity_mbps'' v = PFloat (Fin 50)" "dget ?r ''gate_reason'' v = PStr ''FEASIBLE''"
    "dget ?r ''feasibility'' v = v" for v
    using assms(6-8) m by (simp_all add: range_metrics_def Let_def dupdate_Cons)
  have "query_sionna calm_world rc src dst = Inr ?r"
    using assms m by (simp add: query_sionna_def calm_service Let_def)
  moreover have "relay_gate_reason (rc_settings rc) ?r = ''FEASIBLE''"
    by (simp add: relay_gate_reason_def service_reason_def r) code_simp
  then obtain m2 where "link_ok (rc_settings rc) ?r = Inr (True, m2)" "dget m2 ''distance_m'' (PFloat (Fin 0)) = PFloat (Fin 20)"
    by (simp add: link_ok_def annotate_gate_def fget_or_def r py_or_def dupdate_Cons Let_def)
  ultimately show ?thesis by (simp add: hop_ready_def hop_metrics_def fget_def)
qed

definition lone_fleet :: relay_chain where
  "lone_fleet = fleet\<lparr>rc_drone_count := 1, rc_drones := [(1, fleet_drone 1 ''relay'' (Fin 20, Fin 0, Fin 0))]\<rparr>"

lemma lone_fleet_views:
  "active_chain lone_fleet = [1]" "standby_indices lone_fleet = []"
  by (simp_all add: active_chain_def standby_indices_def drone_indices_def is_active_def is_standby_def lone_fleet_def)

lemma lone_fleet_ready: "ready_chain calm_world [1] lone_fleet"
proof -
  have settings: "rc_settings lone_fleet = initial_settings [] [] [] origin" by (simp add: lone_fleet_def)
  have live: "live_node lone_fleet n \<Longrightarrow> n = Station \<or> n = Relay 1" for n
    by (auto simp: live_node_def is_active_def lone_fleet_def split: relay_node.splits if_splits)
  have position: "node_position lone_fleet n = Inr (if n = Station then (Fin 0, Fin 0, Fin 0) else (Fin 20, Fin 0, Fin 0))"
    if "n = Station \<or> n = Relay 1" for n
    using that by (auto simp: node_position_def settings origin_def get_drone_def) (simp_all add: lone_fleet_def)
  have antenna: "\<exists>a. node_antenna lone_fleet n = Inr a" if "n = Station \<or> n = Relay 1" for n
    using that by (auto simp: node_antenna_def get_drone_def) (simp_all add: lone_fleet_def)
  have metres: "distance (Fin 0, Fin 0, Fin 0) (Fin 0, Fin 0, Fin 0) = Inr (Fin 0)"
    "distance (Fin 0, Fin 0, Fin 0) (Fin 20, Fin 0, Fin 0) = Inr (Fin 20)"
    "distance (Fin 20, Fin 0, Fin 0) (Fin 0, Fin 0, Fin 0) = Inr (Fin 20)"
    "distance (Fin 20, Fin 0, Fin 0) (Fin 20, Fin 0, Fin 0) = Inr (Fin 0)"
    by code_simp+
  have "hop_ready calm_world lone_fleet src dst" if "live_node lone_fleet src" "live_node lone_fleet dst" for src dst
  proof -
    note ends = live [OF that(1)] live [OF that(2)]
    obtain a b where ab: "node_antenna lone_fleet src = Inr a" "node_antenna lone_fleet dst = Inr b" using antenna ends by blast
    obtain d where "distance (if src = Station then (Fin 0, Fin 0, Fin 0) else (Fin 20, Fin 0, Fin 0))
        (if dst = Station then (Fin 0, Fin 0, Fin 0) else (Fin 20, Fin 0, Fin 0)) = Inr d"
      using ends metres by auto
    from calm_hop_ready [OF position [OF ends(1)] position [OF ends(2)] this ab] settings show ?thesis by simp
  qed
  then show ?thesis using settings by (simp add: ready_chain_def lone_fleet_views) (simp add: lone_fleet_def)
qed

section \<open>The property\<close>

text \<open>C3 (liveness) in chain mode, with nothing failed or pending, no standby drone, and a link service that
  finds every hop between live nodes feasible, a packet that starts at the station is sent over every hop
  of the chain in order and back again, one hop in each round, so the round trip over a chain of n drones
  takes 2 n rounds.\<close>

theorem chain_round_trip:
  assumes "ready_chain w branch rc" "rc_pending_failure rc = None" "\<not> rc_operator_paused rc"
    and "\<not> rc_connectivity_paused rc" "rc_phase rc = Forward" "rc_cursor rc = 0"
  shows "tx_hops (rc_sent (rounds w (2 * length branch) rc)) = tx_hops (rc_sent rc)
      @ path_hops (branch_nodes branch Forward) @ path_hops (branch_nodes branch Reverse)
    \<and> rc_phase (rounds w (2 * length branch) rc) = Reverse
    \<and> rc_cursor (rounds w (2 * length branch) rc) = length branch"
proof -
  obtain k where k: "length branch = Suc k" using assms(1) by (cases branch) (simp_all add: ready_chain_def)
  have start: "travelling rc Forward 0 [] rc" using assms(2-6) by (simp add: travelling_def course_def)
  from rounds_reverse [OF start assms(1), of k] k show ?thesis
    by (simp add: travelling_def course_def mult_2)
qed

theorem chain_round_trip_witness:
  "tx_hops (rc_sent (rounds calm_world 2 lone_fleet)) = [(Station, Relay 1), (Relay 1, Station)]
    \<and> rc_phase (rounds calm_world 2 lone_fleet) = Reverse"
proof -
  have "rc_pending_failure lone_fleet = None" "\<not> rc_operator_paused lone_fleet" "\<not> rc_connectivity_paused lone_fleet"
    "rc_phase lone_fleet = Forward" "rc_cursor lone_fleet = 0" "rc_sent lone_fleet = []"
    by (simp_all add: lone_fleet_def)
  with chain_round_trip [OF lone_fleet_ready this(1-5)] show ?thesis
    by (simp add: path_hops_def branch_nodes_def numeral_2_eq_2)
qed

end
