(* ===== verification/Relay_Requests.thy ===== *)
theory Relay_Requests
  imports Relay_Roundtrip
begin

text \<open>
  Concrete runs of the requests of the operator: a failure with its replacement, requests that cancel each
  other, and a parked drone that comes back.
\<close>

section \<open>Acts that succeed\<close>

lemma calm_recompute:
  assumes "rs_direction_deg (rc_settings rc) = Fin 0"
  shows "recompute_desired_positions calm_world reason b rc = (Inr (), relayout calm_world reason b (Fin 1, Fin 0) rc)"
  by (simp add: recompute_run calm_heading [OF assms])

lemma calm_selection: "strategy_selection calm_world i standby hooks rc = (Inr None, rc)"
proof -
  have "parse_drone_index drones (selected_value PNone) = None" for drones
    by (simp add: parse_drone_index_def selected_value_def)
  then show ?thesis by (induction hooks) (simp_all add: calm_world_def)
qed

lemma calm_detects:
  assumes "rs_direction_deg (rc_settings rc) = Fin 0" "standby_indices (mark_failed i rc) = [r]"
    and "map_of (rc_drones rc) i = Some d" "map_of (rc_drones rc) r = Some e" "r \<noteq> i"
    and "distance (rd_current_position e) (rd_desired_position d) = Inr m"
  shows "\<exists>rc'. detect_failure calm_world i rc = (Inr (), rc')"
proof -
  have failed: "map_of (rc_drones (mark_failed i rc)) i = Some (d\<lparr>rd_failed := True\<rparr>)"
    "map_of (rc_drones (mark_failed i rc)) r = Some e"
    "rs_direction_deg (rc_settings (mark_failed i rc)) = Fin 0"
    using assms by (simp_all add: mark_failed_def map_of_update_drone)
  have near: "nearest_standby (mark_failed i rc) (rd_desired_position d) [r] = Inr r"
    using assms(6) failed(2) by (simp add: nearest_standby_def min_by_def get_drone_def)
  have settings: "rs_direction_deg (rc_settings (promotion_event i r p (promote r p x))) = rs_direction_deg (rc_settings x)" for p x
    by (simp add: promotion_event_def promote_def)
  show ?thesis
    using assms failed near
    by (simp add: detect_failure_def activate_best_standby_for_failure_def seqA_def bindA_def calm_selection calm_recompute settings del: strategy_selection.simps)
qed

definition failing_fleet :: "int \<Rightarrow> relay_chain" where
  "failing_fleet i = fleet\<lparr>rc_pending_failure :=
     Some \<lparr>pf_drone_index = i, pf_requested_at = Fin 4, pf_detection_deadline = Fin 6\<rparr>\<rparr>"

lemma failing_fleet_fields [simp]:
  "rc_pending_failure (failing_fleet i) =
     Some \<lparr>pf_drone_index = i, pf_requested_at = Fin 4, pf_detection_deadline = Fin 6\<rparr>"
  "rc_drones (failing_fleet i) = rc_drones fleet" "rc_drone_count (failing_fleet i) = 3"
  "rc_failed_indices (failing_fleet i) = {}" "rc_settings (failing_fleet i) = initial_settings [] [] [] origin"
  by (simp_all add: failing_fleet_def)

lemma failing_fleet_views:
  "is_active (failing_fleet i) j \<longleftrightarrow> j = 1 \<or> j = 2" "is_standby (failing_fleet i) j \<longleftrightarrow> j = 3"
  by (auto simp: is_active_def is_standby_def fleet_lookup)

lemma failing_fleet_standby:
  assumes "i \<noteq> 3"
  shows "standby_indices (mark_failed i (failing_fleet k)) = [3]"
proof -
  have "drone_indices (mark_failed i (failing_fleet k)) = [1, 2, 3]"
    by (simp add: drone_indices_def mark_failed_def fleet_def)
  then show ?thesis using assms by (simp add: standby_indices_def failing_fleet_views)
qed

lemma failing_fleet_detects: "\<exists>rc'. detect_failure calm_world 2 (failing_fleet 2) = (Inr (), rc')"
proof (rule calm_detects)
  show "standby_indices (mark_failed 2 (failing_fleet 2)) = [3]" by (rule failing_fleet_standby) simp
  show "distance (rd_current_position (fleet_drone 3 ''standby'' (Fin 40, Fin 15, Fin 0)))
      (rd_desired_position (fleet_drone 2 ''relay'' (Fin 40, Fin 0, Fin 0))) = Inr (Fin 15)"
    unfolding fleet_drone_fields by code_simp
qed (simp_all add: fleet_lookup)

theorem failure_replaced_witness:
  "\<exists>rc'. process_pending_failure calm_world (failing_fleet 2) = (Inr (), rc')
    \<and> replaced calm_world 2 (failing_fleet 2) rc' \<and> rc_failed_indices rc' = {2}"
proof -
  obtain rc' where "detect_failure calm_world 2 (failing_fleet 2) = (Inr (), rc')" using failing_fleet_detects by blast
  then have run: "process_pending_failure calm_world (failing_fleet 2) = (Inr (), rc')"
    by (simp add: process_pending_failure_def calm_world_def fleet_lookup)
  from failure_replaced [OF run failing_fleet_fields(1)] run show ?thesis
    by (auto simp: calm_world_def fleet_lookup)
qed

section \<open>Requests that cancel each other\<close>

definition request :: "int \<Rightarrow> control_message" where
  "request i = \<lparr>cm_data = show_int i, cm_json = Some (PDict [(''drone'', PInt i)])\<rparr>"

lemma requested_drone_request [simp]: "requested_drone (request i) = i"
  by (simp add: requested_drone_def request_def as_int_def)

theorem second_failure_cancels_first_witness:
  "\<exists>rc'. process_pending_failure calm_world (fail_drone_cb calm_world (request 2) (failing_fleet 1)) = (Inr (), rc')
    \<and> 1 \<notin> rc_failed_indices rc'"
proof -
  let ?rc = "fail_drone_cb calm_world (request 2) (failing_fleet 1)"
  obtain p where "rc_pending_failure ?rc = Some p" "pf_detection_deadline p = fadd (Fin 10) (rs_failure_detection_s (rc_settings fleet))"
    by (simp add: fail_drone_cb_def Let_def fleet_lookup calm_world_def)
  moreover have "flt (Fin 10) (fadd (Fin 10) (rs_failure_detection_s (rc_settings fleet)))"
  proof -
    have "rs_failure_detection_s (initial_settings [] [] [] origin) = Fin (3 / 2)"
      by (simp add: initial_settings_def Let_def at_least_def dget_def as_float_def) code_simp
    then show ?thesis by simp code_simp
  qed
  ultimately have run: "process_pending_failure calm_world ?rc = (Inr (), ?rc)"
    by (simp add: process_pending_failure_def) (simp add: calm_world_def)
  from second_failure_cancels_first [OF failing_fleet_fields(1) requested_drone_request _ _ _ _ run] run show ?thesis
    by (simp add: fleet_lookup)
qed

theorem heal_cancels_other_failure_witness:
  "\<exists>rc'. heal_drone_cb calm_world (request 2) (failing_fleet 1) = (Inr (), rc') \<and> rc_pending_failure rc' = None"
proof -
  have "rs_direction_deg (rc_settings (heal_drone 2 (failing_fleet 1))) = Fin 0" by (simp add: heal_drone_def)
  from calm_recompute [OF this] obtain rc' where run: "heal_drone_cb calm_world (request 2) (failing_fleet 1) = (Inr (), rc')"
    by (simp add: heal_drone_cb_def fleet_lookup seqA_def bindA_def)
  from heal_cancels_other_failure [OF run] run show ?thesis by (simp add: fleet_lookup)
qed

section \<open>A parked drone\<close>

lemma position_at_same_fleet:
  assumes "same_fleet b a"
  shows "position_at b = position_at a"
proof -
  have "position_at rc i = map_option rd_current_position (map_option core (map_of (rc_drones rc) i))" for rc i
    by (simp add: position_at_def option.map_comp comp_def)
  then show ?thesis using same_fleet_lookup [OF assms] by (simp add: fun_eq_iff)
qed

lemma parked_chain:
  assumes "standby_drone_cb w msg rc = (Inr (), rc1)" "map_of (rc_drones rc) (requested_drone msg) \<noteq> None"
    and "1 \<le> requested_drone msg" "requested_drone msg \<le> rc_drone_count rc"
  obtains reason dir where "rc1 = relayout w reason True dir (park_drone (requested_drone msg) rc)"
  using assms by (auto simp: standby_drone_cb_def Let_def bindA_def recompute_run split: sum.splits if_splits)

lemma is_standby_park:
  "is_standby (park_drone i rc) j \<longleftrightarrow> (if j = i then 1 \<le> i \<and> i \<le> rc_drone_count rc \<and> i \<notin> rc_failed_indices rc
     \<and> map_of (rc_drones rc) i \<noteq> None else is_standby rc j)"
  by (auto simp: is_standby_def park_drone_def map_of_update_drone split: option.split)

text \<open>C11 (functional) a drone that the operator parks leaves the active chain, but the next round of the timer
  brings it back as soon as a member of the remaining chain flies within the activation radius.\<close>

theorem parked_drone_rejoins:
  assumes "standby_drone_cb w msg rc = (Inr (), rc1)" "requested_drone msg = i"
    and "map_of (rc_drones rc) i \<noteq> None" "1 \<le> i" "i \<le> rc_drone_count rc" "i \<notin> rc_failed_indices rc"
    and "distinct (map fst (rc_drones rc))" "integrate_standby_if_possible w' rc1 = (Inr (), rc2)"
  shows "\<not> is_active rc1 i \<and> (is_active rc2 i \<longleftrightarrow> near_chain rc1 (active_chain rc1) i)"
proof -
  obtain reason dir where rc1: "rc1 = relayout w reason True dir (park_drone i rc)"
    using parked_chain [OF assms(1)] assms(2-5) by metis
  have fleet: "same_fleet rc1 (park_drone i rc)" unfolding rc1 by (rule relayout_keeps)
  have standby: "is_standby rc1 i" using assms(3-6) by (simp add: same_fleet_views(2) [OF fleet] is_standby_park)
  have "distinct (map fst (rc_drones rc1))" using same_fleet_drones [OF fleet] assms(7) by (simp add: park_drone_def)
  from standby_near_chain [OF assms(8) this, of i] standby active_not_standby [of rc1 i] show ?thesis
    by (auto simp: near_chain_def nearest_active_def min_by_def bindR_Inr_iff)
qed

theorem parked_drone_rejoins_witness:
  "\<exists>rc1 rc2. standby_drone_cb calm_world (request 2) fleet = (Inr (), rc1)
    \<and> integrate_standby_if_possible calm_world rc1 = (Inr (), rc2) \<and> \<not> is_active rc1 2 \<and> is_active rc2 2"
proof -
  have known: "map_of (rc_drones fleet) 2 \<noteq> None" "(1 :: int) \<le> 2" "2 \<le> rc_drone_count fleet" "2 \<notin> rc_failed_indices fleet"
    by (simp_all add: fleet_lookup)
  have "rs_direction_deg (rc_settings (park_drone 2 fleet)) = Fin 0" by (simp add: park_drone_def)
  from calm_recompute [OF this] obtain rc1 where park: "standby_drone_cb calm_world (request 2) fleet = (Inr (), rc1)"
    using known by (simp add: standby_drone_cb_def Let_def seqA_def bindA_def)
  obtain reason dir where rc1: "rc1 = relayout calm_world reason True dir (park_drone 2 fleet)"
    using parked_chain [OF park] known by auto
  have parked: "same_fleet rc1 (park_drone 2 fleet)" unfolding rc1 by (rule relayout_keeps)
  have settings: "rc_settings rc1 = initial_settings [] [] [] origin" using parked by (simp add: same_fleet_def park_drone_def)
  have "drone_indices (park_drone 2 fleet) = [1, 2, 3]"
    by (simp add: drone_indices_def park_drone_def) (simp add: fleet_def)
  moreover have "is_active (park_drone 2 fleet) j \<longleftrightarrow> j = 1" for j
    by (auto simp: is_active_def park_drone_def map_of_update_drone fleet_lookup)
  ultimately have "active_chain (park_drone 2 fleet) = [1]" "standby_indices (park_drone 2 fleet) = [2, 3]"
    using known(1) by (simp_all add: active_chain_def standby_indices_def is_standby_park fleet_views)
  then have chains: "active_chain rc1 = [1]" "standby_indices rc1 = [2, 3]"
    by (simp_all add: same_fleet_chains [OF parked])
  have position: "position_at rc1 i = (if i = 1 then Some (Fin 20, Fin 0, Fin 0) else if i = 2 then Some (Fin 40, Fin 0, Fin 0)
      else if i = 3 then Some (Fin 40, Fin 15, Fin 0) else None)" for i
    by (simp add: position_at_same_fleet [OF parked]) (simp add: position_at_def park_drone_def map_of_update_drone fleet_lookup)
  have metres: "distance (Fin 40, Fin 0, Fin 0) (Fin 20, Fin 0, Fin 0) = Inr (Fin 20)"
    "distance (Fin 40, Fin 15, Fin 0) (Fin 20, Fin 0, Fin 0) = Inr (Fin 25)" by code_simp+
  have near: "nearest_active rc [1] 2 = Inr (1, Fin 20)" "nearest_active rc [1] 3 = Inr (1, Fin 25)"
    if "position_at rc = position_at rc1" for rc
    using metres by (simp_all add: nearest_active_positions that position min_by_def)
  have radius: "rs_standby_activation_radius_m (initial_settings [] [] [] origin) = Fin 80"
    by (simp add: initial_settings_def Let_def at_least_def dget_def as_float_def py_max_def)
  obtain rc2 where "integrate_standby_if_possible calm_world rc1 = (Inr (), rc2)"
    by (simp add: integrate_standby_if_possible_def chains bindA_def seqA_def near settings radius calm_recompute)
  with parked_drone_rejoins [OF park requested_drone_request known _ this] park show ?thesis
    by (simp add: near_chain_def chains near settings radius) (simp add: fleet_def)
qed

end
