(* ===== verification/Relay_Updates.thy ===== *)
theory Relay_Updates
  imports Relay_Requests
begin

text \<open>
  Further properties of the relay chain: the verdict of its gate, the independence of parallel branches, the
  division of the active chain, and what an update of the configuration does to standby drones.
\<close>

section \<open>The gate of the relay chain\<close>

text \<open>C6 (functional) the gate of the relay chain opens exactly when the link service itself said \<open>FEASIBLE\<close>,
  whatever the distance, or, when the service gave no verdict, when the service was reached and distance,
  SINR, SNR and capacity satisfy every limit of the node.\<close>

theorem relay_gate_opens_iff:
  "relay_gate_reason st m = ''FEASIBLE'' \<longleftrightarrow>
     service_reason m = ''FEASIBLE''
     \<or> (service_reason m \<in> {'''', ''UNKNOWN'', ''NONE''}
        \<and> py_lower (py_str (dget m ''status'' (PStr ''''))) \<notin> {''sionna_unreachable'', ''link_service_unavailable''}
        \<and> (\<exists>metres snr capacity. fget m ''distance_m'' 0 = Inr metres \<and> fget m ''snr_db'' (- 999) = Inr snr
             \<and> fget m ''capacity_mbps'' 0 = Inr capacity
             \<and> \<not> fgt metres (rs_hard_outage_range_m st)
             \<and> \<not> (fgt metres (rs_max_single_hop_range_m st) \<and> \<not> rs_allow_degraded_forwarding st)
             \<and> (dget m ''sinr_db'' PNone = PNone
                \<or> (\<exists>sinr. py_float (dget m ''sinr_db'' PNone) = Inr sinr \<and> \<not> flt sinr (rs_min_snr_db st)))
             \<and> \<not> flt snr (rs_min_snr_db st) \<and> \<not> flt capacity (rs_required_capacity_mbps st)))"
proof -
  have sinr: "(case dget m ''sinr_db'' PNone of PNone \<Rightarrow> Inr False
        | v \<Rightarrow> bindR (py_float v) (\<lambda>sinr. Inr (flt sinr (rs_min_snr_db st)))) = Inr low \<longleftrightarrow>
      (if dget m ''sinr_db'' PNone = PNone then \<not> low
       else \<exists>s. py_float (dget m ''sinr_db'' PNone) = Inr s \<and> low = flt s (rs_min_snr_db st))" for low
    by (auto split: pyval.split simp: bindR_Inr_iff)
  have limits: "limit_reason st m = Inr ''FEASIBLE'' \<longleftrightarrow>
      (\<exists>metres snr capacity. fget m ''distance_m'' 0 = Inr metres \<and> fget m ''snr_db'' (- 999) = Inr snr
             \<and> fget m ''capacity_mbps'' 0 = Inr capacity
             \<and> \<not> fgt metres (rs_hard_outage_range_m st)
             \<and> \<not> (fgt metres (rs_max_single_hop_range_m st) \<and> \<not> rs_allow_degraded_forwarding st)
             \<and> (dget m ''sinr_db'' PNone = PNone
                \<or> (\<exists>sinr. py_float (dget m ''sinr_db'' PNone) = Inr sinr \<and> \<not> flt sinr (rs_min_snr_db st)))
             \<and> \<not> flt snr (rs_min_snr_db st) \<and> \<not> flt capacity (rs_required_capacity_mbps st))"
    unfolding limit_reason_def bindR_Inr_iff
    by (auto simp: bindR_Inr_iff sinr split: if_splits)
  show ?thesis
    unfolding limits [symmetric] relay_gate_reason_def Let_def by (cases "limit_reason st m") auto
qed

text \<open>C13 (error) a signal-to-noise ratio of exactly 0 dB is annotated as \<open>-999\<close>: the recorded margin and the
  recorded predicate contradict the verdict of the same gate.\<close>

theorem zero_snr_annotated:
  assumes "link_ok st m = Inr (ok, m')" "map_of m ''snr_db'' = Some (PFloat (Fin 0))"
  shows "dget m' ''snr_margin_db'' PNone = PFloat (fround 6 (fsub (Fin (- 999)) (rs_min_snr_db st)))
    \<and> dget (as_dict (dget m' ''gate_predicates'' PNone)) ''snr'' PNone = PBool (fge (Fin (- 999)) (rs_min_snr_db st))
    \<and> (ok \<longleftrightarrow> relay_gate_reason st m = ''FEASIBLE'')"
proof -
  have snr: "fget_or m ''snr_db'' (- 999) = Inr (Fin (- 999))"
    using assms(2) by (simp add: fget_or_def dget_def py_or_def)
  from assms(1) snr show ?thesis
    by (auto simp: link_ok_def annotate_gate_def Let_def bindR_Inr_iff dupdate_Cons)
qed

theorem zero_snr_annotated_witness:
  "\<exists>m'. link_ok (initial_settings [] [] [] origin) [(''gate_reason'', PStr ''FEASIBLE''), (''snr_db'', PFloat (Fin 0))] = Inr (True, m')
    \<and> dget m' ''snr_margin_db'' PNone = PFloat (Fin (- 1002))"
proof -
  let ?st = "initial_settings [] [] [] origin"
    and ?m = "[(''gate_reason'', PStr ''FEASIBLE''), (''snr_db'', PFloat (Fin 0))]"
  have open_gate: "relay_gate_reason ?st ?m = ''FEASIBLE''"
    by (simp add: relay_gate_reason_def service_reason_def) code_simp
  obtain ok m' where ok: "link_ok ?st ?m = Inr (ok, m')"
    by (simp add: link_ok_def annotate_gate_def fget_or_def dget_def py_or_def Let_def)
  have "rs_min_snr_db ?st = Fin 3" by (simp add: initial_settings_def Let_def dget_def as_float_def)
  moreover have "fround 6 (fsub (Fin (- 999)) (Fin 3)) = Fin (- 1002)" by code_simp
  ultimately show ?thesis using zero_snr_annotated [OF ok] ok open_gate by simp
qed

section \<open>Parallel branches\<close>

text \<open>C7 (safety) a step of one parallel branch leaves the flow of every other branch as it is, packet, position
  and pause included; a paused branch does nothing at all.\<close>

theorem branches_are_independent:
  assumes "flow_step w k rc = (r, rc')"
  shows "(j \<noteq> k \<longrightarrow> map_of (rc_branch_flows rc') j = map_of (rc_branch_flows rc) j)
    \<and> (map_option bf_paused (map_of (rc_branch_flows rc) k) = Some True \<longrightarrow> rc' = rc)"
proof -
  have turn: "map_of (rc_branch_flows (snd (flow_turn w k f rc))) j = map_of (rc_branch_flows rc) j" if "j \<noteq> k" for f rc
    using that by (simp add: flow_turn_def flow_reverse_def flow_complete_def Let_def split_beta emit_fields
        split: relay_phase.split)
  have enter: "map_of (rc_branch_flows (enter_flow k f rc)) j = map_of (rc_branch_flows rc) j" if "j \<noteq> k" for f rc
    using that by (simp add: enter_flow_def Let_def)
  have hop: "map_of (rc_branch_flows (snd (flow_hop w k f rc))) j = map_of (rc_branch_flows rc) j" if "j \<noteq> k" for f rc
  proof -
    let ?nodes = "branch_nodes (bf_active_branch f) (bf_phase f)"
    let ?src = "?nodes ! bf_cursor f" and ?dst = "?nodes ! Suc (bf_cursor f)"
    show ?thesis
    proof (cases "node_failed rc ?src \<or> node_failed rc ?dst")
      case True
      obtain q t where t: "blocked_hop w ?src ?dst rc = (q, t)" by (cases "blocked_hop w ?src ?dst rc")
      with True that blocked_hop_flows [of w ?src ?dst rc] show ?thesis
        by (simp add: flow_hop_def Let_def bindA_def seqA_def split: sum.split)
    next
      case False
      obtain q t where t: "judge_hop w ?src ?dst rc = (q, t)" by (cases "judge_hop w ?src ?dst rc")
      then have flows: "rc_branch_flows t = rc_branch_flows rc" by (cases rule: judge_hop_result) simp_all
      show ?thesis
      proof (cases "\<exists>e metres. q = Inr (e, metres) \<and> he_link_ok e")
        case True
        then obtain e metres where e: "q = Inr (e, metres)" "he_link_ok e" by blast
        obtain p u where "forward_packet w e t = (p, u)" by (cases "forward_packet w e t")
        with False t e that flows forward_packet_flows [of w e t] show ?thesis
          by (simp add: flow_hop_def Let_def bindA_def seqA_def split: sum.split)
      next
        case bad: False
        with False t that flows show ?thesis
          by (auto simp: flow_hop_def Let_def bindA_def seqA_def split: sum.split)
      qed
    qed
  qed
  have "map_of (rc_branch_flows rc') j = map_of (rc_branch_flows rc) j" if "j \<noteq> k"
    using assms turn [OF that] enter [OF that] hop [OF that]
    by (auto simp: flow_step_def seqA_def bindA_def split: option.splits if_splits)
      (metis snd_conv)+
  moreover have "rc' = rc" if "map_option bf_paused (map_of (rc_branch_flows rc) k) = Some True"
    using assms that by (auto simp: flow_step_def split: if_splits)
  ultimately show ?thesis by blast
qed

text \<open>A forked fleet: three relays on two branches, the second of which is paused.\<close>

definition forked_fleet :: relay_chain where
  "forked_fleet = fleet\<lparr>rc_relay_count := 3, rc_standby_count := 0,
     rc_settings := (initial_settings [] [] [] origin)\<lparr>rs_transmission_mode := ''parallel'', rs_branch_count := 2\<rparr>,
     rc_drones := [(1, fleet_drone 1 ''relay'' (Fin 20, Fin 0, Fin 0)),
                   (2, fleet_drone 2 ''relay'' (Fin 40, Fin 0, Fin 0)),
                   (3, fleet_drone 3 ''relay'' (Fin 40, Fin 15, Fin 0))],
     rc_branch_flows := [(0, fresh_flow 0 [1, 3] (rc_current_packet fleet)),
                         (1, (fresh_flow 1 [2] (rc_current_packet fleet))\<lparr>bf_paused := True\<rparr>)]\<rparr>"

lemma forked_fleet_fields [simp]:
  "rc_settings forked_fleet = (initial_settings [] [] [] origin)\<lparr>rs_transmission_mode := ''parallel'', rs_branch_count := 2\<rparr>"
  "rc_failed_indices forked_fleet = {}"
  "map_of (rc_branch_flows forked_fleet) 0 = Some (fresh_flow 0 [1, 3] (rc_current_packet fleet))"
  "map_of (rc_branch_flows forked_fleet) 1 = Some ((fresh_flow 1 [2] (rc_current_packet fleet))\<lparr>bf_paused := True\<rparr>)"
  "map_of (rc_branch_flows forked_fleet) (Suc 0) = Some ((fresh_flow 1 [2] (rc_current_packet fleet))\<lparr>bf_paused := True\<rparr>)"
  by (simp_all add: forked_fleet_def)

lemma forked_fleet_lookup: "map_of (rc_drones forked_fleet) 1 = Some (fleet_drone 1 ''relay'' (Fin 20, Fin 0, Fin 0))"
  by (simp add: forked_fleet_def)

lemma forked_fleet_hop:
  "live_node forked_fleet Station" "live_node forked_fleet (Relay 1)"
  "hop_ready calm_world forked_fleet Station (Relay 1)"
proof -
  show "live_node forked_fleet Station" "live_node forked_fleet (Relay 1)"
    by (simp_all add: live_node_def is_active_def forked_fleet_lookup) (simp add: forked_fleet_def)
  have ends: "node_position forked_fleet Station = Inr (Fin 0, Fin 0, Fin 0)"
    "node_position forked_fleet (Relay 1) = Inr (Fin 20, Fin 0, Fin 0)"
    by (simp_all add: node_position_def get_drone_def forked_fleet_lookup) (simp_all add: origin_def)
  have metres: "distance (Fin 0, Fin 0, Fin 0) (Fin 20, Fin 0, Fin 0) = Inr (Fin 20)" by code_simp
  obtain a b where "node_antenna forked_fleet Station = Inr a" "node_antenna forked_fleet (Relay 1) = Inr b"
    by (auto simp: node_antenna_def get_drone_def forked_fleet_lookup)
  from calm_hop_ready [OF ends metres this] show "hop_ready calm_world forked_fleet Station (Relay 1)" by simp
qed

text \<open>A branch that is not paused and whose next hop is feasible moves its packet over that hop.\<close>

lemma flow_step_runs:
  assumes f: "map_of (rc_branch_flows rc) k = Some f" "bf_active_branch f \<noteq> []" "\<not> bf_paused f"
    and path: "nodes = branch_nodes (bf_active_branch f) (bf_phase f)" "bf_cursor f < length nodes - 1"
    and live: "live_node rc (nodes ! bf_cursor f)" "live_node rc (nodes ! Suc (bf_cursor f))"
    and hop: "hop_ready w rc (nodes ! bf_cursor f) (nodes ! Suc (bf_cursor f))"
  shows "\<exists>rc' g. flow_step w k rc = (Inr False, rc') \<and> map_of (rc_branch_flows rc') k = Some g
    \<and> bf_cursor g = Suc (bf_cursor f)"
proof -
  let ?src = "nodes ! bf_cursor f" and ?dst = "nodes ! Suc (bf_cursor f)"
  let ?rc = "enter_flow k f rc"
  have fleet: "same_fleet ?rc rc" by (simp add: enter_flow_def set_flow_def Let_def same_fleet_def)
  have whole: "\<not> node_failed ?rc ?src" "\<not> node_failed ?rc ?dst"
    using live fleet by (auto simp: live_node_def node_failed_def is_active_def same_fleet_def split: relay_node.splits)
  from hop obtain m metres where m: "bindR (hop_metrics w ?rc ?src ?dst) (link_ok (rc_settings ?rc)) = Inr (True, m)"
    "fget m ''distance_m'' 0 = Inr metres"
    unfolding hop_ready_def hop_metrics_cong [OF fleet] using fleet by (auto simp: same_fleet_def)
  define e where "e = make_hop_event w ?src ?dst m True (hop_decision (rc_settings ?rc) True metres) ?rc"
  have e: "he_src e = ?src" "he_link_ok e" by (simp_all add: make_hop_event_def e_def)
  have judge: "judge_hop w ?src ?dst ?rc = (Inr (e, metres), record_hop e ?rc)"
    using m by (simp add: judge_hop_def bindA_def seqA_def e_def)
  have "same_fleet (record_hop e ?rc) rc" using fleet by (simp add: record_hop_def publish_def same_fleet_def)
  with live(1) live_cong e(1) have "live_node (record_hop e ?rc) (he_src e)" by simp
  from forward_packet_runs [OF this, of w] obtain u where "forward_packet w e (record_hop e ?rc) = (Inr (), u)" by blast
  moreover have "flow_turn w k f rc = (f, rc)" using path by (simp add: flow_turn_def)
  ultimately show ?thesis
    using f whole judge e(2)
    by (simp add: flow_step_def flow_hop_def Let_def bindA_def seqA_def path(1) [symmetric] set_flow_def AList.update_conv')
qed

theorem branches_are_independent_witness:
  "\<exists>rc' g. flow_step calm_world 0 forked_fleet = (Inr False, rc')
    \<and> map_of (rc_branch_flows rc') 0 = Some g \<and> bf_cursor g = 1
    \<and> map_of (rc_branch_flows rc') 1 = Some ((fresh_flow 1 [2] (rc_current_packet fleet))\<lparr>bf_paused := True\<rparr>)
    \<and> flow_step calm_world 1 forked_fleet = (Inr True, forked_fleet)"
proof -
  have "\<exists>rc' g. flow_step calm_world 0 forked_fleet = (Inr False, rc')
      \<and> map_of (rc_branch_flows rc') 0 = Some g \<and> bf_cursor g = Suc 0"
    using flow_step_runs [OF forked_fleet_fields(3) _ _ refl, of calm_world] forked_fleet_hop
    by (simp add: fresh_flow_def branch_nodes_def)
  then obtain rc' g where run: "flow_step calm_world 0 forked_fleet = (Inr False, rc')"
    and g: "map_of (rc_branch_flows rc') 0 = Some g" "bf_cursor g = 1" by auto
  obtain r rc1 where paused: "flow_step calm_world 1 forked_fleet = (r, rc1)" by (cases "flow_step calm_world 1 forked_fleet")
  then have "r = Inr True" by (simp add: flow_step_def fresh_flow_def)
  with branches_are_independent [OF run, of 1] branches_are_independent [OF paused, of 1] run g paused show ?thesis
    by simp
qed

section \<open>The division of the active chain\<close>

lemma deal_lengths:
  assumes "rows \<noteq> []" "\<forall>j<length rows. length (rows ! j) = (pos + length rows - 1 - j) div length rows" "j < length rows"
  shows "length (deal pos rows xs ! j) = (pos + length xs + length rows - 1 - j) div length rows"
  using assms
proof (induction xs arbitrary: pos rows)
  case (Cons x xs)
  let ?n = "length rows" and ?k = "pos mod length rows"
  let ?rows = "rows[?k := rows ! ?k @ [x]]"
  have step: "length (?rows ! i) = (Suc pos + ?n - 1 - i) div ?n" if "i < ?n" for i
  proof -
    have shift: "Suc pos + ?n - 1 - i = Suc (pos + ?n - 1 - i)" using that by simp
    have "Suc (pos + ?n - 1 - i) mod ?n = 0 \<longleftrightarrow> ?k = i"
    proof -
      have "(pos + ?n - i) mod ?n = 0 \<longleftrightarrow> pos mod ?n = i"
        using that mod_eq_dvd_iff_nat [of i "pos + ?n" ?n] by (auto simp: mod_eq_0_iff_dvd)
      moreover have "Suc (pos + ?n - 1 - i) = pos + ?n - i" using that by simp
      ultimately show ?thesis by simp
    qed
    then show ?thesis
      using that Cons.prems(2) unfolding shift div_Suc by (auto simp: nth_list_update)
  qed
  have "length (deal (Suc pos) ?rows xs ! j) = (Suc pos + length xs + length ?rows - 1 - j) div length ?rows"
    using Cons.prems(1,3) step by (intro Cons.IH) simp_all
  then show ?case by (simp add: Let_def)
qed simp

lemma dealt_lengths:
  assumes "j < n"
  shows "length (deal 0 (replicate n []) xs ! j) = (length xs + n - 1 - j) div n"
  using deal_lengths [of "replicate n []" 0 j xs] assms by simp

lemma dealt_even:
  assumes "0 < n" "a \<in> set (deal 0 (replicate n []) xs)" "b \<in> set (deal 0 (replicate n []) xs)"
  shows "length a \<le> Suc (length b)"
proof -
  obtain i j where i: "a = deal 0 (replicate n []) xs ! i" "i < n" and j: "b = deal 0 (replicate n []) xs ! j" "j < n"
    using assms(2,3) by (auto simp: in_set_conv_nth)
  have "(length xs + n - 1 - i) div n \<le> (length xs + n - 1 - j + n) div n"
    using j(2) by (intro div_le_mono) simp
  also have "\<dots> = Suc ((length xs + n - 1 - j) div n)" using assms(1) by simp
  finally show ?thesis by (simp add: i j dealt_lengths)
qed

lemma dealt_nonempty: "0 < n \<Longrightarrow> n \<le> length xs \<Longrightarrow> [] \<notin> set (deal 0 (replicate n []) xs)"
proof
  assume n: "0 < n" "n \<le> length xs" and "[] \<in> set (deal 0 (replicate n []) xs)"
  then obtain j where j: "j < n" "length (deal 0 (replicate n []) xs ! j) = 0" by (auto simp: in_set_conv_nth)
  have "1 \<le> (length xs + n - 1 - j) div n"
    using n j(1) div_le_mono [of n "length xs + n - 1 - j" n] by simp
  with j show False by (simp add: dealt_lengths)
qed

text \<open>C5 (functional) the branches divide the active chain: every active drone is on exactly one branch, and no
  branch is empty. In the modes \<open>parallel\<close> and \<open>forest\<close> the number of branches is the smaller of the configured
  number (at least one) and the number of active drones, and the lengths of any two differ by at most one.\<close>

theorem branches_divide_chain:
  assumes "distinct (map fst (rc_drones rc))"
  shows "mset (concat (active_branches rc)) = mset (active_chain rc) \<and> [] \<notin> set (active_branches rc)
    \<and> (rs_transmission_mode (rc_settings rc) \<in> {''parallel'', ''forest''} \<and> active_chain rc \<noteq> [] \<longrightarrow>
         length (active_branches rc) = nat (max 1 (min (rs_branch_count (rc_settings rc)) (int (length (active_chain rc)))))
       \<and> (\<forall>a\<in>set (active_branches rc). \<forall>b\<in>set (active_branches rc). length a \<le> Suc (length b)))"
proof -
  have "length (active_branches rc) = nat (max 1 (min (rs_branch_count (rc_settings rc)) (int (length (active_chain rc)))))
      \<and> (\<forall>a\<in>set (active_branches rc). \<forall>b\<in>set (active_branches rc). length a \<le> Suc (length b))"
    if mode: "rs_transmission_mode (rc_settings rc) \<in> {''parallel'', ''forest''}" "active_chain rc \<noteq> []"
  proof -
    define n where "n = nat (max 1 (min (rs_branch_count (rc_settings rc)) (int (length (active_chain rc)))))"
    have n: "0 < n" "n \<le> length (active_chain rc)" using mode(2) by (simp_all add: n_def) (cases "active_chain rc"; simp)
    have "filter (\<lambda>b. b \<noteq> []) (deal 0 (replicate n []) (active_chain rc)) = deal 0 (replicate n []) (active_chain rc)"
      using dealt_nonempty [OF n] by (auto simp: filter_id_conv)
    then have branches: "active_branches rc = deal 0 (replicate n []) (active_chain rc)"
      using mode by (auto simp: active_branches_def Let_def n_def)
    show ?thesis using dealt_even [OF n(1)] by (simp add: branches n_def)
  qed
  with active_branches_parts [OF assms] show ?thesis by blast
qed

theorem branches_divide_chain_witness:
  "mset (concat (active_branches forked_fleet)) = {#1, 2, 3#} \<and> length (active_branches forked_fleet) = 2
    \<and> list_all (\<lambda>a. list_all (\<lambda>b. length a \<le> Suc (length b)) (active_branches forked_fleet)) (active_branches forked_fleet)"
proof -
  have views: "is_active forked_fleet i \<longleftrightarrow> i = 1 \<or> i = 2 \<or> i = 3" for i
    by (auto simp: is_active_def) (simp_all add: forked_fleet_def split: if_splits)
  have "drone_indices forked_fleet = [1, 2, 3]" by (simp add: drone_indices_def) (simp add: forked_fleet_def)
  then have active: "active_chain forked_fleet = [1, 2, 3]" by (simp add: active_chain_def views)
  have "distinct (map fst (rc_drones forked_fleet))" by (simp add: forked_fleet_def)
  from branches_divide_chain [OF this] show ?thesis unfolding active by (simp add: list_all_iff)
qed

section \<open>Updates of the configuration\<close>

text \<open>A drone of the chain: a relay, integrated unless it has failed.\<close>

definition in_chain :: "relay_chain \<Rightarrow> int \<Rightarrow> bool" where
  "in_chain rc i \<longleftrightarrow> (\<exists>d. map_of (rc_drones rc) i = Some d \<and> rd_role d = ''relay''
     \<and> (rd_integrated d \<longleftrightarrow> i \<notin> rc_failed_indices rc))"







lemma in_chain_settings [simp]:
  "in_chain (rc\<lparr>rc_settings := st\<rparr>) = in_chain rc" "in_chain (emit k d rc) = in_chain rc"
  "in_chain (rc\<lparr>rc_revision_ack := a\<rparr>) = in_chain rc" "in_chain (on_settings f rc) = in_chain rc"
  "in_chain (update_topology payload rc) = in_chain rc" "in_chain (update_pattern payload rc) = in_chain rc"
  by (auto simp: in_chain_def fun_eq_iff on_settings_def update_topology_def update_pattern_def Let_def
      split: option.split)








section \<open>The heartbeat\<close>

lemma pathless_tick:
  assumes "active_chain rc = []" "rc_pending_failure rc = None" "\<not> rc_operator_paused rc" "\<not> rc_connectivity_paused rc"
  shows "\<exists>k d. tick w rc = (Inr (), emit k d rc)"
proof -
  have none: "active_branches rc = []" using assms(1) by (simp add: active_branches_def)
  have "relay_settle w rc = (Inr (), rc)"
    using assms(1,2) by (simp add: relay_settle_def process_pending_failure_def integrate_standby_if_possible_def seqA_def bindA_def)
  then show ?thesis
    using assms(3,4) none
    by (auto simp: tick_run parallel_enabled_def tick_chain_def chain_nodes_def current_branch_run bindA_def branch_nodes_def
        split: relay_phase.split)
qed

lemma packet_advancing_emit [simp]: "packet_advancing (emit k d rc) = packet_advancing rc"
  by (simp add: packet_advancing_def emit_def)

text \<open>C12 (error) once its last active drone is gone, a chain whose last hop was good transmits nothing in any
  number of rounds, yet its heartbeat goes on reporting that the packet advances.\<close>

theorem heartbeat_without_path:
  assumes "active_chain rc = []" "rc_pending_failure rc = None" "packet_advancing rc"
  shows "rc_sent (rounds w n rc) = rc_sent rc
    \<and> dget (heartbeat w' (rounds w n rc)) ''packet_advancing'' PNone = PBool True"
proof -
  have "rc_sent (rounds w n rc) = rc_sent rc \<and> active_chain (rounds w n rc) = []
      \<and> rc_pending_failure (rounds w n rc) = None \<and> packet_advancing (rounds w n rc)"
  proof (induction n)
    case (Suc n)
    from pathless_tick [of "rounds w n rc" w] Suc obtain k d where
      "tick w (rounds w n rc) = (Inr (), emit k d (rounds w n rc))" by (auto simp: packet_advancing_def)
    with Suc show ?case by simp
  qed (use assms in simp)
  then show ?thesis by (simp add: heartbeat_def Let_def)
qed

definition lost_fleet :: relay_chain where
  "lost_fleet = fleet\<lparr>rc_failed_indices := {1, 2, 3},
     rc_last_hop_event := Some (make_hop_event calm_world Station (Relay 1) [] True ''forwarded'' fleet)\<rparr>"

theorem heartbeat_without_path_witness:
  "dget (heartbeat calm_world (rounds calm_world 5 lost_fleet)) ''packet_advancing'' PNone = PBool True
    \<and> rc_sent (rounds calm_world 5 lost_fleet) = []"
proof -
  have "\<not> is_active lost_fleet i" for i by (auto simp: is_active_def lost_fleet_def fleet_lookup)
  then have "active_chain lost_fleet = []" by (simp add: active_chain_def)
  moreover have "rc_pending_failure lost_fleet = None" "packet_advancing lost_fleet" "rc_sent lost_fleet = []"
    by (simp_all add: lost_fleet_def packet_advancing_def make_hop_event_def)
  ultimately show ?thesis using heartbeat_without_path [of lost_fleet calm_world 5 calm_world] by simp
qed

end
