(* ===== verification/Readiness.thy ===== *)
theory Readiness
  imports Runtime_Sync Config_Legacy
begin

text \<open>
  \<open>netlab/readiness.py\<close> and the system diagnosis of \<open>netlab/diagnostics.py\<close>. What the host answers (Docker, the
  Compose project, the GPU driver, HTTP, permissions, ports) is one record of observations; the files,
  their times, the revision status and the synchronisation state come from the modelled disk.
  \<open>ReadinessState\<close> is the aggregate of \<open>contracts.py\<close>, which \<open>models.py\<close> re-exports over its own class.
\<close>

section \<open>The aggregate of readiness.py\<close>

definition observed_flag :: "pydict \<Rightarrow> string \<Rightarrow> bool" where
  "observed_flag observed k = truthy (dget observed k PNone)"

definition observed_aggregate :: "pydict \<Rightarrow> readiness" where
  "observed_aggregate ob = default_readiness
     \<lparr>rd_docker_ready := observed_flag ob ''docker_ready'', rd_gpu_ready := observed_flag ob ''gpu_ready'',
      rd_compose_ready := observed_flag ob ''compose_ready'', rd_sionna_ready := observed_flag ob ''sionna_ready'',
      rd_ros_container_ready := observed_flag ob ''ros_container_ready'',
      rd_ros_graph_ready := observed_flag ob ''ros_graph_ready'',
      rd_packet_runtime_ready := observed_flag ob ''packet_runtime_ready'',
      rd_isaac_process_ready := observed_flag ob ''isaac_process_ready'',
      rd_isaac_scene_ready := observed_flag ob ''isaac_scene_ready'',
      rd_isaac_scenario_acknowledged := observed_flag ob ''isaac_scenario_acknowledged'',
      rd_telemetry_ready := observed_flag ob ''telemetry_ready'',
      rd_evidence_ready := truthy (dget ob ''evidence_ready'' (PBool True)),
      rd_synchronized := observed_flag ob ''synchronized''\<rparr>"

definition aggregate_readiness :: "env \<Rightarrow> pydict \<Rightarrow> pydict" where
  "aggregate_readiness w ob =
     (let r = observed_aggregate ob;
          phase = (if readiness_ready r then RP_READY
                   else if \<exists>(k, v)\<in>set (readiness_to_dict r). truthy v then RP_DEGRADED else RP_STOPPED);
          source = (if rd_telemetry_ready r \<and> rd_packet_runtime_ready r then TS_LIVE
                    else if observed_flag ob ''telemetry_seen'' then TS_STALE else TS_OFFLINE)
      in [(''phase'', PStr (runtime_phase_value phase)), (''readiness'', PDict (readiness_to_dict r)),
          (''telemetry_source'', PStr (telemetry_source_value source)), (''generated_at'', PFloat (env_now w))])"

section \<open>The system diagnosis\<close>

record host =
  ho_docker :: pydict
  ho_gpu :: pydict
  ho_compose_available :: bool
  ho_compose_validation :: pydict
  ho_service :: "string \<Rightarrow> pydict"
  ho_health_api :: pydict
  ho_results_exists :: bool
  ho_permission :: "string \<Rightarrow> pydict"
  ho_ports :: pydict
  ho_disk_free :: int
  ho_error_text :: "pyexc \<Rightarrow> string"

definition algorithm_heartbeat_file :: string where
  "algorithm_heartbeat_file = results_dir @ ''snaas_algorithm_runtime_heartbeat.json''"
definition active_algorithm_file :: string where
  "active_algorithm_file = results_dir @ ''snaas_active_algorithm.json''"
definition sionna_heartbeat_file :: string where
  "sionna_heartbeat_file = results_dir @ ''snaas_sionna_heartbeat.json''"

text \<open>\<open>v in {...}\<close> for a set of strings: a value that cannot be hashed raises.\<close>

definition in_names :: "pyval \<Rightarrow> string list \<Rightarrow> bool res" where
  "in_names v names =
     (if is_list v \<or> is_mapping v then Inl TypeError else Inr (v \<in> PStr ` set names))"

definition service_ready :: "pydict \<Rightarrow> bool res" where
  "service_ready service =
     (if \<not> truthy (dget service ''running'' PNone) then Inr False
      else bindR (in_names (dget service ''health'' PNone)
                    [''unhealthy'', ''missing'', ''stopped'', ''unavailable'']) (\<lambda>bad. Inr (\<not> bad)))"

definition fresh_flag :: "pydict \<Rightarrow> bool" where
  "fresh_flag freshness = truthy (dget freshness ''fresh'' PNone)"

text \<open>\<open>freshness.get("fresh") and heartbeat.get("ready", True)\<close>.\<close>

definition fresh_and_ready :: "pydict \<Rightarrow> pyval \<Rightarrow> bool res" where
  "fresh_and_ready freshness heartbeat =
     (if \<not> fresh_flag freshness then Inr False
      else bindR (pget heartbeat ''ready'' (PBool True)) (\<lambda>v. Inr (truthy v)))"

definition andR :: "bool res \<Rightarrow> bool res \<Rightarrow> bool res" where
  "andR a b = bindR a (\<lambda>x. if x then b else Inr False)"

definition diagnosed_scene :: "pydict \<Rightarrow> bool res" where
  "diagnosed_scene sync =
     (if \<not> fresh_flag (as_dict (dget sync ''heartbeat_freshness'' (PDict []))) then Inr False
      else let heartbeat = dget sync ''heartbeat'' (PDict [])
           in bindR (pget heartbeat ''ready'' (PBool False)) (\<lambda>dflt.
                bindR (pget heartbeat ''scene_ready'' dflt) (\<lambda>v. Inr (truthy v))))"

text \<open>What the diagnosis reads of the disk.\<close>

record sightings =
  si_packet :: pydict
  si_packet_heartbeat :: pyval
  si_algorithm :: pydict
  si_algorithm_heartbeat :: pyval
  si_sionna :: pydict
  si_sync :: pydict
  si_revision :: pydict
  si_state :: pydict

definition diagnosed_service :: "host \<Rightarrow> string \<Rightarrow> pydict" where
  "diagnosed_service ho service =
     (if ho_compose_available ho then ho_service ho service
      else [(''service'', PStr service), (''exists'', PBool False), (''running'', PBool False),
            (''health'', PStr ''unavailable''), (''restart_count'', PInt 0)])"

definition diagnosed_compose :: "host \<Rightarrow> pydict" where
  "diagnosed_compose ho =
     (if ho_compose_available ho then ho_compose_validation ho
      else [(''ok'', PBool False), (''returncode'', PInt 127),
            (''stderr'', PStr ''Docker Compose or the Compose file is unavailable.'')])"

definition diagnosed_readiness :: "host \<Rightarrow> sightings \<Rightarrow> readiness res" where
  "diagnosed_readiness ho si =
     bindR (service_ready (diagnosed_service ho ''ros2-core'')) (\<lambda>ros.
     bindR (andR (Inr ros) (andR (fresh_and_ready (si_packet si) (si_packet_heartbeat si))
              (fresh_and_ready (si_algorithm si) (si_algorithm_heartbeat si)))) (\<lambda>graph.
     bindR (fresh_and_ready (si_packet si) (si_packet_heartbeat si)) (\<lambda>packet.
     bindR (service_ready (diagnosed_service ho ''sionna-engine'')) (\<lambda>sionna.
     bindR (service_ready (diagnosed_service ho ''isaac'')) (\<lambda>isaac.
     bindR (diagnosed_scene (si_sync si)) (\<lambda>scene.
       Inr (default_readiness
         \<lparr>rd_docker_ready := truthy (dget (ho_docker ho) ''reachable'' PNone),
          rd_gpu_ready := truthy (dget (ho_gpu ho) ''available'' PNone),
          rd_compose_ready := truthy (dget (diagnosed_compose ho) ''ok'' PNone),
          rd_ros_container_ready := ros, rd_ros_graph_ready := graph, rd_packet_runtime_ready := packet,
          rd_sionna_ready := sionna \<and> truthy (dget (ho_health_api ho) ''ok'' PNone) \<and> fresh_flag (si_sionna si),
          rd_isaac_process_ready := isaac, rd_isaac_scene_ready := scene,
          rd_isaac_heartbeat_ready := fresh_flag (as_dict (dget (si_sync si) ''heartbeat_freshness'' (PDict []))),
          rd_isaac_scenario_acknowledged := truthy (dget (si_sync si) ''acknowledged'' PNone)
            \<and> truthy (dget (si_revision si) ''in_sync'' (PBool False)),
          rd_telemetry_ready := py_str (dget (si_state si) ''telemetry_source'' (PStr ''OFFLINE'')) = ''LIVE''
            \<or> fresh_flag (si_packet si),
          rd_evidence_ready := ho_results_exists ho
            \<and> truthy (dget (ho_permission ho results_dir) ''writable'' (PBool False))\<rparr>)))))))"


section \<open>Findings\<close>

text \<open>The messages and the advice of a finding are texts for the operator and are left out.\<close>

definition finding :: "string \<Rightarrow> string \<Rightarrow> pydict \<Rightarrow> pyval" where
  "finding severity code rest = PDict ((''severity'', PStr severity) # (''code'', PStr code) # rest)"

definition finding_if :: "bool \<Rightarrow> string \<Rightarrow> string \<Rightarrow> pydict \<Rightarrow> pyval list" where
  "finding_if c severity code rest = (if c then [finding severity code rest] else [])"

definition watched_paths :: "(string \<times> string) list" where
  "watched_paths =
     [(''authoritative_state'', state_file), (''configuration'', config_file),
      (''packet_heartbeat'', packet_heartbeat_file), (''algorithm_heartbeat'', algorithm_heartbeat_file),
      (''sionna_heartbeat'', sionna_heartbeat_file), (''isaac_heartbeat'', isaac_heartbeat_file),
      (''isaac_ack'', isaac_ack_file), (''ros_revision_ack'', ros_ack_file),
      (''sionna_revision_ack'', sionna_ack_file)]"

definition permission_findings :: "host \<Rightarrow> pyval list" where
  "permission_findings ho = concat (map (\<lambda>(name, path).
     let v = ho_permission ho path
     in finding_if (truthy (dget v ''exists'' PNone) \<and> \<not> truthy (dget v ''readable'' PNone))
          ''ERROR'' ''SHARED_FILE_UNREADABLE'' [(''details'', PDict v)]) watched_paths)"

definition failed_validation :: "string \<Rightarrow> string \<Rightarrow> pydict" where
  "failed_validation code message =
     [(''ok'', PBool False), (''errors'', PList [PDict [(''code'', PStr code), (''message'', PStr message)]]),
      (''warnings'', PList [])]"

definition config_check :: "host \<Rightarrow> env \<Rightarrow> disk \<Rightarrow> pydict" where
  "config_check ho w dk =
     (if dk_files dk config_file = None then failed_validation ''CONFIG_MISSING'' config_file
      else (case bindR (bindR (load_experiment w (dk_files dk) config_file) pitems)
                   (\<lambda>c. validate_experiment w c False) of
              Inl e \<Rightarrow> failed_validation ''CONFIG_LOAD_FAILED'' (ho_error_text ho e)
            | Inr v \<Rightarrow> v))"

definition config_findings :: "bool \<Rightarrow> pydict \<Rightarrow> pyval list" where
  "config_findings present validation =
     (if \<not> present then [finding ''ERROR'' ''CONFIG_MISSING'' []]
      else finding_if (\<not> truthy (dget validation ''ok'' PNone)) ''ERROR'' ''CONFIG_INVALID''
             [(''details'', PDict validation)])"

definition service_findings :: "host \<Rightarrow> sightings \<Rightarrow> pyval list" where
  "service_findings ho si =
     (let ros = diagnosed_service ho ''ros2-core'';
          running = (\<lambda>name. truthy (dget (diagnosed_service ho name) ''running'' PNone))
      in finding_if (truthy (dget ros ''restart_count'' (PInt 0))) ''ERROR'' ''ROS_RESTART_LOOP'' [(''details'', PDict ros)]
       @ finding_if (running ''ros2-core'' \<and> \<not> fresh_flag (si_packet si)) ''ERROR'' ''PACKET_RUNTIME_STALE'' []
       @ finding_if (running ''ros2-core'' \<and> \<not> fresh_flag (si_algorithm si)) ''ERROR'' ''ALGORITHM_RUNTIME_STALE'' []
       @ finding_if (running ''isaac'' \<and> \<not> fresh_flag (as_dict (dget (si_sync si) ''heartbeat_freshness'' (PDict []))))
           ''WARNING'' ''ISAAC_HEARTBEAT_STALE'' []
       @ finding_if (running ''sionna-engine'' \<and> \<not> truthy (dget (ho_health_api ho) ''ok'' PNone))
           ''ERROR'' ''SIONNA_API_UNAVAILABLE'' [])"

definition revision_findings :: "pydict \<Rightarrow> pyval list res" where
  "revision_findings revision =
     bindR (in_names (dget revision ''state'' PNone) [''FAILED'', ''DRIFT_DETECTED'']) (\<lambda>divergent.
       Inr (if divergent then [finding ''ERROR'' ''RUNTIME_REVISION_DIVERGENCE'' [(''details'', PDict revision)]]
            else finding_if (take 8 (py_str (dget revision ''state'' (PStr ''''))) = ''PENDING_'')
                   ''WARNING'' ''RUNTIME_REVISION_PENDING'' [(''details'', PDict revision)]))"

definition contradictions :: "pydict \<Rightarrow> pydict \<Rightarrow> pyval list" where
  "contradictions stored observed = concat (map (\<lambda>(k, v).
     if k = ''critical_ready'' \<or> map_of stored k = None then []
     else if truthy (dget stored k PNone) \<noteq> truthy v
     then [PDict [(''field'', PStr k), (''stored'', PBool (truthy (dget stored k PNone))),
                  (''observed'', PBool (truthy v))]]
     else []) observed)"

definition error_severity :: "pyval \<Rightarrow> bool" where
  "error_severity f = (dget (as_dict f) ''severity'' PNone = PStr ''ERROR'')"

section \<open>The report\<close>

definition sight :: "env \<Rightarrow> disk \<Rightarrow> pydict \<Rightarrow> pydict \<Rightarrow> sightings" where
  "sight w dk sync revision =
     \<lparr>si_packet = file_freshness w dk packet_heartbeat_file (Fin 5),
      si_packet_heartbeat = read_or_empty (dk_files dk) packet_heartbeat_file,
      si_algorithm = file_freshness w dk algorithm_heartbeat_file (Fin 5),
      si_algorithm_heartbeat = read_or_empty (dk_files dk) algorithm_heartbeat_file,
      si_sionna = file_freshness w dk sionna_heartbeat_file (Fin 10),
      si_sync = sync, si_revision = revision, si_state = state_read w dk\<rparr>"

definition with_data :: "pydict \<Rightarrow> pyval \<Rightarrow> pyval" where
  "with_data freshness heartbeat = PDict (dset ''data'' heartbeat freshness)"

definition system_report :: "host \<Rightarrow> env \<Rightarrow> disk \<Rightarrow> sightings \<Rightarrow> readiness \<Rightarrow> pyval list \<Rightarrow> pydict" where
  "system_report ho w dk si ready revision_notes =
     (let validation = config_check ho w dk; present = (dk_files dk config_file \<noteq> None);
          readiness = readiness_to_dict ready;
          conflicts = contradictions (as_dict (dget (si_state si) ''readiness'' (PDict []))) readiness;
          findings = permission_findings ho @ config_findings present validation
            @ finding_if (\<not> truthy (dget (diagnosed_compose ho) ''ok'' PNone)) ''ERROR'' ''COMPOSE_INVALID''
                [(''details'', PDict (diagnosed_compose ho))]
            @ service_findings ho si @ revision_notes
            @ finding_if (conflicts \<noteq> []) ''WARNING'' ''STALE_STORED_READINESS'' [(''details'', PList conflicts)]
      in [(''generated_at'', PFloat (env_now w)), (''docker'', PDict (ho_docker ho)), (''gpu'', PDict (ho_gpu ho)),
          (''compose'', PDict (diagnosed_compose ho)),
          (''services'', PDict (map (\<lambda>s. (s, PDict (diagnosed_service ho s))) [''isaac'', ''ros2-core'', ''sionna-engine''])),
          (''configuration'', PDict [(''exists'', PBool present), (''path'', PStr config_file),
                                     (''validation'', PDict validation)]),
          (''readiness'', PDict readiness), (''readiness_consistent'', PBool (conflicts = [])),
          (''readiness_contradictions'', PList conflicts), (''revision'', PDict (si_revision si)),
          (''isaac_sync'', PDict (si_sync si)),
          (''packet_heartbeat'', with_data (si_packet si) (si_packet_heartbeat si)),
          (''algorithm_heartbeat'', with_data (si_algorithm si) (si_algorithm_heartbeat si)),
          (''active_algorithm'', read_or_empty (dk_files dk) active_algorithm_file),
          (''sionna_heartbeat'', with_data (si_sionna si) (read_or_empty (dk_files dk) sionna_heartbeat_file)),
          (''sionna_api'', PDict (ho_health_api ho)),
          (''permissions'', PDict (map (\<lambda>(name, path). (name, PDict (ho_permission ho path))) watched_paths)),
          (''ports'', PDict (ho_ports ho)), (''disk_free_bytes'', PInt (ho_disk_free ho)),
          (''state'', PDict (si_state si)), (''findings'', PList findings),
          (''ok'', PBool (\<not> list_ex error_severity findings))])"

definition system_diagnose :: "host \<Rightarrow> env \<Rightarrow> disk \<Rightarrow> (disk \<times> pydict) res" where
  "system_diagnose ho w dk =
     bindR (sync_status w dk (Fin 15)) (\<lambda>sync.
     bindR (mgr_status (dk_files dk) '''') (\<lambda>(fs, revision).
       let dk1 = dk\<lparr>dk_files := fs\<rparr>; si = sight w dk1 sync revision
       in bindR (diagnosed_readiness ho si) (\<lambda>ready.
          bindR (revision_findings revision) (\<lambda>remarks.
            Inr (dk1, system_report ho w dk1 si ready remarks)))))"

section \<open>Lemmas\<close>

text \<open>Neither aggregation fills every field that \<open>ready\<close> asks for.\<close>

lemma aggregate_misses_heartbeat: "\<not> rd_isaac_heartbeat_ready (observed_aggregate ob)"
  by (simp add: observed_aggregate_def default_readiness_def)

lemma diagnosed_misses_synchronized:
  "diagnosed_readiness ho si = Inr r \<Longrightarrow> \<not> rd_synchronized r"
  by (auto simp: diagnosed_readiness_def bindR_Inr_iff default_readiness_def)

lemma critical_ready_dict:
  "dget (readiness_to_dict r) ''critical_ready'' v = PBool (readiness_ready r)"
  "dget (readiness_to_dict r) ''ready'' v = PBool (readiness_ready r)"
  by (simp_all add: readiness_to_dict_def dget_def)

lemma system_diagnose_Inr:
  assumes "system_diagnose ho w dk = Inr (dk', d)"
  obtains si r remarks where "diagnosed_readiness ho si = Inr r" "d = system_report ho w dk' si r remarks"
  using assms by (auto simp: system_diagnose_def bindR_Inr_iff Let_def split: prod.splits)

lemma report_readiness: "dget (system_report ho w dk si r remarks) ''readiness'' v = PDict (readiness_to_dict r)"
  by (simp add: system_report_def Let_def dget_def)

lemma diagnosis_never_critical:
  assumes "system_diagnose ho w dk = Inr (dk', d)"
  shows "dget (as_dict (dget d ''readiness'' PNone)) ''critical_ready'' PNone = PBool False"
proof -
  from assms obtain si r remarks where r: "diagnosed_readiness ho si = Inr r" "d = system_report ho w dk' si r remarks"
    by (rule system_diagnose_Inr)
  from diagnosed_misses_synchronized [OF r(1)] show ?thesis
    by (simp add: r(2) report_readiness critical_ready_dict readiness_ready_def)
qed

lemma aggregate_never_ready:
  "dget (aggregate_readiness w ob) ''phase'' PNone \<noteq> PStr ''READY''"
  using aggregate_misses_heartbeat [of ob]
  by (simp add: aggregate_readiness_def Let_def dget_def readiness_ready_def)

end
