(* ===== verification/Spec2Isabelle.thy ===== *)
theory Spec2Isabelle
  imports Packet_Claims Sync_Props State_Props Runtime_Props Config_Findings
    Link_Gate Branches_Props Config_Topology_Props Units Bridge_Props Relay_Updates Readiness
begin

text \<open>
  NETLAB, a simulator of relay swarms, keeps the authoritative state of an experiment on the host
  (\<open>src/netlab\<close>), hands revisions of it to ROS 2, Sionna and Isaac, and moves packets over relay links
  that an execution gate opens and closes. This development models the Python code of that core and
  proves what its operations do.

  \<^bold>\<open>Parts and theories\<close>

  \<^item> Values and arithmetic. \<open>Prelude\<close>: results \<open>'a res\<close> (an exception of type \<open>pyexc\<close> or a value), \<open>bindR\<close>,
    \<open>mapR\<close>, \<open>foldR\<close>, decimal text, identifiers. \<open>Py_Float\<close>: binary64 with exact rounding. \<open>Py_Value\<close>:
    dynamically typed values and their conversions. \<open>Py_Math\<close>: square roots, distances, rounding to
    digits, the C library. \<open>Json\<close>: \<open>io.py\<close>, files as a map from paths to values. \<open>Hashing\<close>: \<open>hashing.py\<close>
    with SHA-256 on 32-bit words.
  \<^item> \<open>Models\<close>: the enumerations and data classes of \<open>models.py\<close> and \<open>contracts.py\<close>.
  \<^item> Packet runtime (\<open>packet.py\<close>). \<open>Packet\<close> has every operation, \<open>Packet_Props\<close> the effect of each on one
    stream, \<open>Packet_Reach\<close> the reachable runtimes and their invariant, \<open>Packet_Claims\<close> the properties.
  \<^item> State store (\<open>state.py\<close>): \<open>State_Store\<close>, \<open>State_Props\<close>.
  \<^item> Revisions and synchronization (\<open>revisions.py\<close>, \<open>synchronization.py\<close>). \<open>Revision_Store\<close> is the typed
    store and \<open>Sync_Coordinator\<close> its client, with participants as a locale; \<open>Sync_Props\<close> proves commits.
    \<open>Revision_Manager\<close> is the dictionary based manager and \<open>Runtime_Sync\<close> the runtime synchronizer;
    \<open>Runtime_Props\<close> proves commits, drift and status.
  \<^item> Experiment configuration (\<open>config.py\<close>). \<open>Config_Defaults\<close>, \<open>Config_Migration\<close>, \<open>Config_Validation\<close>,
    \<open>Config_Legacy\<close> model the document; \<open>Config_Merge\<close> proves the algebra of deep merging, \<open>Config_Props\<close>
    the save and load round trip, \<open>Config_Wellformed\<close> what strict validation accepts, \<open>Config_Findings\<close>
    a document that is accepted once and then rejected.
  \<^item> Topology (\<open>topology.py\<close>). \<open>Graph_Search\<close>: adjacency, reachability, components, cycles, shortest paths,
    with their correctness lemmas. \<open>Topology_Branches\<close>: branches and edges; \<open>Branches_Props\<close>. \<open>Graph_Flow\<close>:
    the maximal flow; \<open>Flow_Props\<close> relates it to minimal cuts. \<open>Graph_Metrics\<close>: every metric;
    \<open>Metrics_Props\<close> shows that they return. \<open>Topology_Validation\<close>, \<open>Config_Topology\<close>: the validation of a
    topology and of an experiment; \<open>Validation_Props\<close>, \<open>Config_Topology_Props\<close>.
  \<^item> Links (\<open>link.py\<close>, \<open>units.py\<close>). \<open>Link\<close>: requests, path loss, metrics. \<open>Link_Gate\<close>: the execution gate.
    \<open>Link_Preview\<close>: the preview of an editor; \<open>Preview_Props\<close>. \<open>Units\<close>: conversions and frames.
  \<^item> Researcher algorithms (\<open>algorithm_contracts.py\<close>, \<open>safety_shield.py\<close>, \<open>algorithm_bridge.py\<close>).
    \<open>Algorithm_Contracts\<close> and \<open>Algorithm_Actions\<close>: manifests and actions. \<open>Safety_Shield\<close> and
    \<open>Shield_Apply\<close>: the shield; \<open>Shield_Props\<close> shows what it accepts and what its rejections hold.
    \<open>Algorithm_Bridge\<close>: the published message; \<open>Bridge_Props\<close> follows an invalid action through the
    shield, the bridge and the callback of the relay chain.
  \<^item> Relay chain (\<open>snaas_relay_chain.py\<close>, the ROS 2 node that flies the drones and forwards the packet).
    \<open>Relay_Monad\<close>: handlers as state transformers that keep what was assigned before an exception, and the
    rules for their invariants. \<open>Relay_State\<close>: drones, packets, settings, the node's attributes, the world.
    \<open>Relay_Topology\<close> (active chain, branches, nodes), \<open>Relay_Layout\<close> (formations and motion), \<open>Relay_Failure\<close>
    (failure requests, detection, promotion of standby drones), \<open>Relay_Radio\<close> (the link service and the
    gate), \<open>Relay_Tick\<close> (the main timer), \<open>Relay_Control\<close>, \<open>Relay_Inventory\<close>, \<open>Relay_Update\<close> (the callbacks
    and configuration updates), \<open>Relay_Init\<close>, \<open>Relay_Status\<close> (start, status, heartbeat).
    \<open>Relay_Lemmas\<close> and \<open>Relay_Frame\<close> say what each operation leaves alone; \<open>Relay_Invariant\<close>, \<open>Relay_Reach\<close>
    and \<open>Relay_Runs\<close> prove that every callback keeps the invariant, on every path; \<open>Relay_Safety\<close>,
    \<open>Relay_Parallel\<close> and \<open>Relay_Claims\<close> what a round transmits; \<open>Relay_Roundtrip\<close> the course of a packet;
    \<open>Relay_Failure_Props\<close>, \<open>Relay_Requests\<close> and \<open>Relay_Updates\<close> failures, requests of the operator, the
    gate, the branches and updates. \<open>Relay_Demo\<close> is the fleet of the witnesses.
  \<^item> Readiness (\<open>readiness.py\<close>, \<open>diagnostics.py\<close>). \<open>Readiness\<close>: the two aggregations and the system diagnosis
    over the disk, and that neither can ever report a ready system.

  The packet runtime calls the gate for every hop; the topology validation takes the gate's verdicts as a
  table, which the preview produces; the synchronizers write the revision stores, whose hashes come from
  the configuration. The relay chain takes its settings from the published configuration, its plans from the
  strategy and the shielded actions, and its verdicts on hops from the link service.

  \<^bold>\<open>Conventions\<close>

  A Python exception is the left side of a sum; the state after an exception that leaves an operation is
  modelled in the relay chain, whose callbacks survive it, and not elsewhere. A call that may not return is an \<open>option\<close> (\<open>'a run\<close>), and a claim that it returns is proved.
  Recursion with fuel occurs in the depth-first searches, where the fuel is the number of nodes (each
  recursive call blackens a node, so it is never used up, and the correctness lemmas show it).
  Each operation reads the clock once, in \<open>env_now\<close>; the link engine has separate readings. \<open>uuid4\<close> draws
  distinct numerals. Floats are binary64 with exact rounding and one zero; \<open>sqrt\<close> is correctly rounded,
  \<open>math.dist\<close> rounds each difference and then the norm once; \<open>sum\<close> adds from the left (Python before 3.12).
  Logarithms, powers, random deviates and the eigenvalues of numpy are parameters. Strings are ASCII.
  Dictionaries are association lists in insertion order; a set is iterated in the order of some list, and
  the theorems hold for every order. The callable of the gate is a pure function during one step. The
  contents of acknowledgement files and the answers of HTTP requests are parameters of a run. The payload
  of an exception is reduced to its code, and its text, where it is stored, is a parameter.

  \<^bold>\<open>Not modelled\<close>

  Locks, file modes, fsync, I/O errors and the recursion limit; the host services (Docker, subprocesses,
  the command line), the orchestrator and the HTTP server, which sequence them, and the adapters to Isaac
  and Sionna, which are glue around third-party systems; the agent \<open>netlab_revision_agent.py\<close>; of the relay chain the loading of plugins (the
  strategy's answers are parameters), the observation given to them, the evidence files, the display
  entries of the status, and \<open>_resize_swarm\<close>, which is never called; timers are steps in any order;
  \<open>packet_diagnose\<close>, which reads container output; the second graph library \<open>topology_metrics.py\<close> and the
  numerical baselines.
\<close>

end
